(* ===== verification/Prelude.thy ===== *)
theory Prelude
  imports Main "HOL-Library.Word"
begin

text \<open>
  The vocabulary every component of the development shares: machine integers at the
  widths the C code uses, the byte-addressed physical memory the firmware runs in, and
  the generic facts on words, lists and memory ranges that the component proofs rest on.

  Memory is a total function from 64-bit addresses to bytes, because the code runs
  without an operating system: every address can be read and written. A C object is a
  range of addresses, given by its start and its length in bytes; \<open>read_bytes\<close> and
  \<open>write_bytes\<close> read and overwrite a range. The collection \<open>mem_simps\<close> holds the facts
  that move a read past a write.
\<close>

unbundle bit_operations_syntax

named_theorems mem_simps \<open>reads of memory after writes\<close>

type_synonym u8 = "8 word"
type_synonym u16 = "16 word"
type_synonym u32 = "32 word"
type_synonym u64 = "64 word"
type_synonym addr = "64 word"
type_synonym bytes = "u8 list"
type_synonym mem = "addr \<Rightarrow> u8"

subsection \<open>Words\<close>

lemma unat_u64_less: "unat (x :: u64) < 18446744073709551616"
  using unsigned_less [of x, where ?'a = nat] by simp

lemma unat_u32_less: "unat (x :: u32) < 4294967296"
  using unsigned_less [of x, where ?'a = nat] by simp

lemma unat_u8_less: "unat (x :: u8) < 256"
  using unsigned_less [of x, where ?'a = nat] by simp

lemma uint_u32_less: "uint (x :: u32) < 4294967296"
  using unsigned_less [of x, where ?'a = int] by simp

lemma unat_plus_no_wrap:
  fixes a b :: u64
  assumes "unat a + unat b < 18446744073709551616"
  shows "unat (a + b) = unat a + unat b"
  using assms by (simp add: unat_word_ariths)

lemma unat_of_nat_u64: "n < 18446744073709551616 \<Longrightarrow> unat (of_nat n :: u64) = n"
  by (simp add: unat_of_nat take_bit_nat_eq_self)

lemma unat_add_nat: "unat (a :: u64) + k < 18446744073709551616 \<Longrightarrow> unat (a + of_nat k) = unat a + k"
  by (simp add: unat_plus_no_wrap unat_of_nat_u64)

lemma uint_lt_unat: "uint (x :: u64) < numeral n \<Longrightarrow> unat x < numeral n"
  unfolding unat_eq_nat_uint by (simp only: nat_less_iff uint_ge_0 of_nat_numeral)

lemma unat_less_iff_uint: "unat (x :: u64) < n \<longleftrightarrow> uint x < int n"
  unfolding unat_eq_nat_uint by (simp only: nat_less_iff uint_ge_0)

lemma uint_word_of_int_u64: "0 \<le> k \<Longrightarrow> k < 18446744073709551616 \<Longrightarrow> uint (word_of_int k :: u64) = k"
  by (simp add: unsigned_of_int take_bit_int_eq_self)

lemma unat_ucast_u32: "unat (ucast (w :: u32) :: u64) = unat w"
  using unat_u32_less [of w] by (simp add: unsigned_ucast_eq take_bit_nat_eq_self)

lemma unat_plus_checked:
  fixes a b :: u64
  assumes "\<not> a + b < a"
  shows "unat (a + b) = unat a + unat b"
proof (rule unat_plus_no_wrap, rule ccontr)
  assume "\<not> unat a + unat b < 18446744073709551616"
  then have "unat (a + b) = unat a + unat b - 18446744073709551616"
    using unat_u64_less [of a] unat_u64_less [of b] by (simp add: unat_word_ariths le_mod_geq)
  with assms unat_u64_less [of a] unat_u64_less [of b] \<open>\<not> unat a + unat b < 18446744073709551616\<close>
  show False unfolding word_less_nat_alt by linarith
qed

lemma unat_take_bit: "unat (take_bit n (x :: u64)) = unat x mod 2 ^ n"
  by (simp only: unsigned_take_bit_eq) (simp add: take_bit_eq_mod)

lemma unat_drop_bit: "unat (drop_bit n (x :: u64)) = unat x div 2 ^ n"
  unfolding unat_drop_bit_eq by (rule drop_bit_eq_div)

subsection \<open>Lists\<close>

lemma map_nth_upt: "n \<le> length xs \<Longrightarrow> map ((!) xs) [0..<n] = take n xs"
  by (induction n) (auto simp: take_Suc_conv_app_nth)

subsection \<open>Memory\<close>

definition read_bytes :: "mem \<Rightarrow> addr \<Rightarrow> nat \<Rightarrow> bytes" where
  "read_bytes m a n = map (\<lambda>i. m (a + of_nat i)) [0..<n]"

definition write_bytes :: "mem \<Rightarrow> addr \<Rightarrow> bytes \<Rightarrow> mem" where
  "write_bytes m a bs = (\<lambda>x. let i = unat (x - a) in if i < length bs then bs ! i else m x)"

definition in_range_of :: "addr \<Rightarrow> nat \<Rightarrow> addr \<Rightarrow> bool" where
  "in_range_of a n x \<longleftrightarrow> unat (x - a) < n"

definition disjoint_ranges :: "addr \<Rightarrow> nat \<Rightarrow> addr \<Rightarrow> nat \<Rightarrow> bool" where
  "disjoint_ranges a n b k \<longleftrightarrow> (\<forall>x. \<not> (in_range_of a n x \<and> in_range_of b k x))"

lemma length_read_bytes [simp]: "length (read_bytes m a n) = n"
  by (simp add: read_bytes_def)

lemma nth_read_bytes [simp]: "i < n \<Longrightarrow> read_bytes m a n ! i = m (a + of_nat i)"
  by (simp add: read_bytes_def)

lemma read_bytes_0 [simp]: "read_bytes m a 0 = []"
  by (simp add: read_bytes_def)

lemma read_bytes_Suc: "read_bytes m a (Suc n) = m a # read_bytes m (a + 1) n"
  by (simp add: read_bytes_def upt_conv_Cons map_Suc_upt [symmetric] add.assoc del: upt_Suc)

lemma read_bytes_append:
  "read_bytes m a (n + k) = read_bytes m a n @ read_bytes m (a + of_nat n) k"
  by (rule nth_equalityI) (auto simp: nth_append add.assoc simp flip: of_nat_add)

lemma read_bytes_cong:
  assumes "\<And>i. i < n \<Longrightarrow> m (a + of_nat i) = m' (a + of_nat i)"
  shows "read_bytes m a n = read_bytes m' a n"
  using assms by (simp add: read_bytes_def)

lemma in_range_of_add:
  assumes "i < n" and "n \<le> 18446744073709551616"
  shows "in_range_of a n (a + of_nat i)"
  using assms by (simp add: in_range_of_def unat_of_nat_u64)

lemma write_bytes_outside [mem_simps]:
  "\<not> in_range_of a (length bs) x \<Longrightarrow> write_bytes m a bs x = m x"
  by (simp add: write_bytes_def in_range_of_def Let_def)

lemma write_bytes_at [mem_simps]:
  assumes "i < length bs" and "length bs \<le> 18446744073709551616"
  shows "write_bytes m a bs (a + of_nat i) = bs ! i"
  using assms by (simp add: write_bytes_def Let_def unat_of_nat_u64)

lemma write_bytes_Nil [simp]: "write_bytes m a [] = m"
  by (simp add: write_bytes_def fun_eq_iff Let_def)

lemma read_write_same [mem_simps]:
  assumes "length bs = n" and "n \<le> 18446744073709551616"
  shows "read_bytes (write_bytes m a bs) a n = bs"
  using assms by (intro nth_equalityI) (auto simp: write_bytes_at)

lemma read_write_disjoint [mem_simps]:
  assumes "disjoint_ranges a n b (length bs)" and "n \<le> 18446744073709551616"
  shows "read_bytes (write_bytes m b bs) a n = read_bytes m a n"
proof (rule read_bytes_cong)
  fix i assume "i < n"
  then have "in_range_of a n (a + of_nat i)"
    using assms(2) by (rule in_range_of_add)
  with assms(1) have "\<not> in_range_of b (length bs) (a + of_nat i)"
    by (auto simp: disjoint_ranges_def)
  then show "write_bytes m b bs (a + of_nat i) = m (a + of_nat i)"
    by (rule write_bytes_outside)
qed

lemma disjoint_ranges_sym: "disjoint_ranges a n b k = disjoint_ranges b k a n"
  by (auto simp: disjoint_ranges_def)

text \<open>
  The comparison the code writes for two half-open ranges that do not wrap around:
  they are disjoint when one ends at or before the start of the other.
\<close>

lemma in_range_of_interval:
  assumes "unat a + n \<le> 18446744073709551616"
  shows "in_range_of a n x \<longleftrightarrow> unat a \<le> unat x \<and> unat x < unat a + n"
proof (cases "a \<le> x")
  case True
  then have "unat (x - a) = unat x - unat a" and "unat a \<le> unat x"
    by (simp_all add: unat_sub word_le_nat_alt)
  then show ?thesis by (auto simp: in_range_of_def)
next
  case False
  then have less: "unat x < unat a" by (simp add: word_le_nat_alt)
  have "unat (x - a) = 18446744073709551616 + unat x - unat a"
    using less by (simp add: unat_sub_if')
  with less assms show ?thesis by (auto simp: in_range_of_def)
qed

lemma disjoint_intervals:
  assumes "unat a + n \<le> 18446744073709551616" and "unat b + k \<le> 18446744073709551616"
    and "unat a + n \<le> unat b \<or> unat b + k \<le> unat a"
  shows "disjoint_ranges a n b k"
  using assms by (auto simp: disjoint_ranges_def in_range_of_interval)


lemma in_range_of_Suc: "in_range_of (a + 1) n x \<Longrightarrow> n < 18446744073709551616 \<Longrightarrow> in_range_of a (Suc n) x"
  unfolding in_range_of_def
proof -
  assume *: "unat (x - (a + 1)) < n" and n: "n < 18446744073709551616"
  have "x - a = (x - (a + 1)) + 1" by simp
  moreover have "unat ((x - (a + 1)) + 1) = unat (x - (a + 1)) + 1"
    using unat_plus_no_wrap [of "x - (a + 1)" 1] * n by simp
  ultimately show "unat (x - a) < Suc n" using * by simp
qed

text \<open>Writing byte by byte, as the loops do.\<close>

lemma write_bytes_Cons:
  assumes "length bs < 18446744073709551616"
  shows "write_bytes m a (b # bs) = write_bytes (m(a := b)) (a + 1) bs"
proof
  fix x
  show "write_bytes m a (b # bs) x = write_bytes (m(a := b)) (a + 1) bs x"
  proof (cases "x = a")
    case True
    have "unat (- 1 :: u64) = 18446744073709551615"
      by (simp add: unsigned_minus_1_eq_mask mask_eq_exp_minus_1)
    with True assms show ?thesis by (simp add: write_bytes_def Let_def)
  next
    case False
    then have pos: "unat (x - a) \<noteq> 0" by (simp add: unat_eq_0)
    have "unat (x - (a + 1)) = unat (x - a) - 1"
    proof -
      have eq: "x - (a + 1) = (x - a) - 1" by simp
      have "unat ((x - a) - 1) = unat (x - a) - 1"
        using pos by (simp add: unat_sub word_le_nat_alt)
      then show ?thesis by (simp only: eq)
    qed
    with pos False show ?thesis
      by (auto simp: write_bytes_def Let_def nth_Cons split: nat.splits)
  qed
qed

lemma write_bytes_append:
  assumes "length bs + length cs \<le> 18446744073709551616"
  shows "write_bytes m a (bs @ cs) = write_bytes (write_bytes m a bs) (a + of_nat (length bs)) cs"
proof
  fix x
  show "write_bytes m a (bs @ cs) x
      = write_bytes (write_bytes m a bs) (a + of_nat (length bs)) cs x"
  proof (cases "unat (x - a) < length bs")
    case True
    have "\<not> unat (x - (a + of_nat (length bs))) < length cs"
    proof
      assume less: "unat (x - (a + of_nat (length bs))) < length cs"
      have "x - a = (x - (a + of_nat (length bs))) + of_nat (length bs)" by simp
      then have "unat (x - a) = unat (x - (a + of_nat (length bs)) + of_nat (length bs))" by metis
      also have "\<dots> = unat (x - (a + of_nat (length bs))) + length bs"
        by (rule unat_add_nat) (use less assms in simp)
      finally show False using True by simp
    qed
    with True show ?thesis by (simp add: write_bytes_def Let_def nth_append)
  next
    case False
    then have len: "length bs < 18446744073709551616"
      using unat_u64_less [of "x - a"] by simp
    with False have "of_nat (length bs) \<le> x - a"
      by (simp add: word_le_nat_alt unat_of_nat_u64)
    then have "unat ((x - a) - of_nat (length bs)) = unat (x - a) - length bs"
      using len by (simp add: unat_sub unat_of_nat_u64)
    then have eq: "unat (x - (a + of_nat (length bs))) = unat (x - a) - length bs"
      by (simp add: diff_diff_add)
    with False show ?thesis by (auto simp: write_bytes_def Let_def nth_append)
  qed
qed

lemma write_bytes_single: "write_bytes m a [b] = m(a := b)"
proof
  fix x
  show "write_bytes m a [b] x = (m(a := b)) x"
    by (cases "x = a") (auto simp: write_bytes_def Let_def unat_eq_0)
qed

lemma write_bytes_snoc:
  assumes "length bs < 18446744073709551616"
  shows "write_bytes m a (bs @ [b]) = write_bytes (m(a + of_nat (length bs) := b)) a bs"
proof -
  have "write_bytes m a (bs @ [b]) = (write_bytes m a bs)(a + of_nat (length bs) := b)"
    using assms by (simp add: write_bytes_append write_bytes_single)
  also have "\<dots> = write_bytes (m(a + of_nat (length bs) := b)) a bs"
    using assms by (auto simp: write_bytes_def Let_def unat_of_nat_u64 fun_eq_iff)
  finally show ?thesis .
qed

subsection \<open>Little-endian objects in memory\<close>

text \<open>An integer of \<open>n\<close> bytes stored at an address, least significant byte first.\<close>

definition le_bytes :: "nat \<Rightarrow> u64 \<Rightarrow> bytes" where
  "le_bytes n v = map (\<lambda>i. ucast (drop_bit (8 * i) v)) [0..<n]"

fun le_value :: "bytes \<Rightarrow> u64" where
  "le_value [] = 0"
| "le_value (b # bs) = ucast b OR push_bit 8 (le_value bs)"

definition store_le :: "nat \<Rightarrow> mem \<Rightarrow> addr \<Rightarrow> u64 \<Rightarrow> mem" where
  "store_le n m a v = write_bytes m a (le_bytes n v)"

definition load_le :: "nat \<Rightarrow> mem \<Rightarrow> addr \<Rightarrow> u64" where
  "load_le n m a = le_value (read_bytes m a n)"

lemma length_le_bytes [simp]: "length (le_bytes n v) = n"
  by (simp add: le_bytes_def)

lemma le_bytes_Suc: "le_bytes (Suc n) v = ucast v # le_bytes n (drop_bit 8 v)"
  by (simp add: le_bytes_def upt_conv_Cons map_Suc_upt [symmetric] comp_def add.commute
      del: upt_Suc)

lemma le_value_bytes: "le_value (le_bytes n v) = take_bit (8 * n) v"
proof (induction n arbitrary: v)
  case (Suc n)
  show ?case
    unfolding le_bytes_Suc le_value.simps Suc.IH
    by (rule bit_word_eqI) (auto simp: bit_simps)
qed (simp add: le_bytes_def)

lemma le_value_zeros: "set bs \<subseteq> {0} \<Longrightarrow> le_value bs = 0"
  by (induction bs) auto

text \<open>Accesses at constant distances from a base address.\<close>

lemma load_store_same [mem_simps]:
  "n \<le> 8 \<Longrightarrow> load_le n (store_le n m a v) a = take_bit (8 * n) v"
  by (simp add: load_le_def store_le_def read_write_same le_value_bytes)

lemma load_store_other:
  assumes "j + n \<le> k \<or> k + l \<le> j" and "j + n < 18446744073709551616" and "k + l < 18446744073709551616"
  shows "load_le l (store_le n m (a + of_nat j) v) (a + of_nat k) = load_le l m (a + of_nat k)"
proof -
  have "disjoint_ranges (a + of_nat k) l (a + of_nat j) n"
    unfolding disjoint_ranges_def in_range_of_def
  proof (intro allI notI)
    fix x :: addr
    assume *: "unat (x - (a + of_nat k)) < l \<and> unat (x - (a + of_nat j)) < n"
    have "x - a = (x - (a + of_nat k)) + of_nat k" "x - a = (x - (a + of_nat j)) + of_nat j" by simp_all
    then have "unat (x - a) = unat (x - (a + of_nat k) + of_nat k)"
      "unat (x - a) = unat (x - (a + of_nat j) + of_nat j)" by metis+
    moreover have "unat (x - (a + of_nat k) + of_nat k) = unat (x - (a + of_nat k)) + k"
      "unat (x - (a + of_nat j) + of_nat j) = unat (x - (a + of_nat j)) + j"
      by (rule unat_add_nat, use * assms in linarith)+
    ultimately show False using * assms(1) by linarith
  qed
  with assms show ?thesis by (simp add: load_le_def store_le_def read_write_disjoint)
qed

lemma store_le_outside:
  "\<not> in_range_of a n x \<Longrightarrow> store_le n m a v x = m x"
  by (simp add: store_le_def write_bytes_outside)

subsection \<open>Memory that changes\<close>

definition only_changes :: "(addr \<times> nat) list \<Rightarrow> mem \<Rightarrow> mem \<Rightarrow> bool" where
  "only_changes rs m m' \<longleftrightarrow> (\<forall>x. (\<forall>(a, n) \<in> set rs. \<not> in_range_of a n x) \<longrightarrow> m' x = m x)"

lemma only_changes_refl: "only_changes rs m m"
  by (simp add: only_changes_def)

lemma only_changes_trans: "only_changes rs m m1 \<Longrightarrow> only_changes rs' m1 m2 \<Longrightarrow> only_changes (rs @ rs') m m2"
  by (simp add: only_changes_def ball_Un)

lemma only_changes_mono: "only_changes rs m m' \<Longrightarrow> set rs \<subseteq> set rs' \<Longrightarrow> only_changes rs' m m'"
  unfolding only_changes_def by blast

lemma only_changes_write: "length bs \<le> n \<Longrightarrow> only_changes [(a, n)] m (write_bytes m a bs)"
  by (auto simp: only_changes_def in_range_of_def write_bytes_def Let_def)

lemma only_changes_read:
  assumes "only_changes rs m m'" and "\<forall>(b, k) \<in> set rs. disjoint_ranges a n b k" and "n \<le> 18446744073709551616"
  shows "read_bytes m' a n = read_bytes m a n"
proof (rule read_bytes_cong)
  fix i assume "i < n"
  then have "in_range_of a n (a + of_nat i)" using assms(3) by (rule in_range_of_add)
  with assms(2) have "\<forall>(b, k) \<in> set rs. \<not> in_range_of b k (a + of_nat i)"
    by (auto simp: disjoint_ranges_def)
  with assms(1) show "m' (a + of_nat i) = m (a + of_nat i)" by (simp add: only_changes_def)
qed

lemma disjoint_ranges_less: "disjoint_ranges a n b k \<Longrightarrow> n' \<le> n \<Longrightarrow> k' \<le> k \<Longrightarrow> disjoint_ranges a n' b k'"
  unfolding disjoint_ranges_def in_range_of_def by (meson order_less_le_trans)

text \<open>A part of a range: the fields of a structure.\<close>

lemma in_range_part:
  assumes "in_range_of (a + of_nat i) k x" and "i + k \<le> n" and "n \<le> 18446744073709551616"
  shows "in_range_of a n x"
proof -
  have "x - a = (x - (a + of_nat i)) + of_nat i" by simp
  moreover have "unat (x - (a + of_nat i)) < k" using assms(1) by (simp add: in_range_of_def)
  ultimately have "unat (x - a) = unat (x - (a + of_nat i)) + i"
    using assms by (simp only: unat_add_nat)
  with assms show ?thesis by (simp add: in_range_of_def)
qed

lemma only_changes_part:
  assumes "i + length bs \<le> n" and "n \<le> 18446744073709551616"
  shows "only_changes [(a, n)] m (write_bytes m (a + of_nat i) bs)"
  unfolding only_changes_def
proof (intro allI impI)
  fix x assume "\<forall>(b, k) \<in> set [(a, n)]. \<not> in_range_of b k x"
  then have "\<not> in_range_of (a + of_nat i) (length bs) x" using in_range_part [OF _ assms] by auto
  then show "write_bytes m (a + of_nat i) bs x = m x" by (rule write_bytes_outside)
qed

lemma disjoint_part:
  assumes "disjoint_ranges a n b l" and "i + k \<le> n" and "n \<le> 18446744073709551616"
  shows "disjoint_ranges (a + of_nat i) k b l"
  using assms in_range_part [OF _ assms(2,3)] by (auto simp: disjoint_ranges_def)

lemma load_only_changes:
  assumes "only_changes rs m m'" and "\<forall>(b, k) \<in> set rs. disjoint_ranges a n b k"
    and "i + k \<le> n" and "n \<le> 18446744073709551616"
  shows "load_le k m' (a + of_nat i) = load_le k m (a + of_nat i)"
  using assms by (auto simp: load_le_def intro!: arg_cong [where f = le_value] only_changes_read disjoint_part)

lemma only_changes_same: "only_changes rs m m1 \<Longrightarrow> only_changes rs m1 m2 \<Longrightarrow> only_changes rs m m2"
  by (simp add: only_changes_def)

lemma only_changes_fold:
  "(\<And>i m. i \<in> set is \<Longrightarrow> only_changes rs m (f i m)) \<Longrightarrow> only_changes rs m (fold f is m)"
proof (induction "is" arbitrary: m)
  case (Cons i "is")
  have "only_changes rs m (f i m)" "only_changes rs (f i m) (fold f is (f i m))"
    using Cons by simp_all
  then have "only_changes rs m (fold f is (f i m))" by (rule only_changes_same)
  then show ?case by simp
qed (simp add: only_changes_refl)

subsection \<open>Stores at offsets from one address\<close>

text \<open>A sequence of stores, the last one first, and the value that a load at an offset finds in
  it: \<open>None\<close> when the load meets only a part of a store, and \<open>d\<close> when it meets none.\<close>

fun stores :: "mem \<Rightarrow> addr \<Rightarrow> (nat \<times> nat \<times> u64) list \<Rightarrow> mem" where
  "stores m a [] = m"
| "stores m a ((k, n, v) # xs) = store_le n (stores m a xs) (a + of_nat k) v"

fun stored :: "u64 option \<Rightarrow> (nat \<times> nat \<times> u64) list \<Rightarrow> nat \<Rightarrow> nat \<Rightarrow> u64 option" where
  "stored d [] j l = d"
| "stored d ((k, n, v) # xs) j l =
     (if k = j then (if n = l then Some (take_bit (8 * n) v) else None)
      else if j + l \<le> k \<or> k + n \<le> j then stored d xs j l else None)"

lemma load_stores:
  "stored d xs j l = Some v \<Longrightarrow> list_all (\<lambda>(k, n, _). n \<le> 8 \<and> k + n \<le> N) xs \<Longrightarrow>
   j + l \<le> N \<Longrightarrow> N < 18446744073709551616 \<Longrightarrow> d = None \<or> d = Some (load_le l m (a + of_nat j)) \<Longrightarrow>
   load_le l (stores m a xs) (a + of_nat j) = v"
proof (induction d xs j l rule: stored.induct)
  case (2 d k n v' xs j l)
  then show ?case by (auto simp: load_store_same load_store_other split: if_splits)
qed auto

lemma stores_outside:
  "list_all (\<lambda>(k, n, _). k + n \<le> N) xs \<Longrightarrow> N < 18446744073709551616 \<Longrightarrow> \<not> in_range_of a N x \<Longrightarrow>
   stores m a xs x = m x"
proof (induction xs)
  case (Cons y xs)
  obtain k n v where y: "y = (k, n, v)" by (cases y)
  have "\<not> in_range_of (a + of_nat k) n x"
  proof
    assume *: "in_range_of (a + of_nat k) n x"
    have "x - a = (x - (a + of_nat k)) + of_nat k" by simp
    then have "unat (x - a) = unat (x - (a + of_nat k) + of_nat k)" by metis
    also have "\<dots> = unat (x - (a + of_nat k)) + k"
      by (rule unat_add_nat) (use * Cons.prems y in \<open>auto simp: in_range_of_def\<close>)
    finally show False using * Cons.prems y by (auto simp: in_range_of_def)
  qed
  with Cons y show ?case by (simp add: store_le_outside)
qed simp

lemma only_changes_stores:
  "list_all (\<lambda>(k, n, _). k + n \<le> N) xs \<Longrightarrow> N < 18446744073709551616 \<Longrightarrow> only_changes [(a, N)] m (stores m a xs)"
  by (simp add: only_changes_def stores_outside)

end
