(* ===== verification/Mmio.thy ===== *)
theory Mmio
  imports Prelude "HOL-Library.Monad_Syntax"
begin

text \<open>
  Memory-mapped devices. What the firmware does to the hardware is a sequence of events,
  the history, which every routine extends; the latest event comes first. The hardware is
  not part of the program: a \<open>device\<close> says, for every history, which value a read of a
  register returns and what the processor's timer shows, and every definition has it as an
  argument. A routine with a loop that waits for the hardware returns an option, \<open>None\<close>
  when it waits forever.

  The last section models the write-enable registers of the Rockchip SoCs and
  \<open>rk_clr_set_bits\<close> of src/lib.c, which writes to them.
\<close>

subsection \<open>Events and devices\<close>

datatype io_event =
    Write32 addr u32
  | Read32 addr u32
  | ReadTime u64
  | Clean addr
  | Invalidate addr
  | Flush addr
  | Barrier
  | CntFreq u64
  | SetupTT u64 u64 u64
  | EnableMMU
  | Wfi

type_synonym history = "io_event list"

record device =
  dev_rd :: "history \<Rightarrow> addr \<Rightarrow> u32"
  dev_time :: "history \<Rightarrow> u64"

definition write32 :: "addr \<Rightarrow> u32 \<Rightarrow> history \<Rightarrow> history" where
  "write32 a v t = Write32 a v # t"

definition read32 :: "device \<Rightarrow> addr \<Rightarrow> history \<Rightarrow> u32 \<times> history" where
  "read32 dev a t = (dev_rd dev t a, Read32 a (dev_rd dev t a) # t)"

definition asm_get_cpu_timer :: "device \<Rightarrow> history \<Rightarrow> u64 \<times> history" where
  "asm_get_cpu_timer dev t = (dev_time dev t, ReadTime (dev_time dev t) # t)"

text \<open>The values written to a register, in the order of the writes.\<close>

definition writes_to :: "addr \<Rightarrow> history \<Rightarrow> u32 list" where
  "writes_to a t = rev (List.map_filter
     (\<lambda>e. case e of Write32 b v \<Rightarrow> if b = a then Some v else None | _ \<Rightarrow> None) t)"

lemma writes_to_simps [simp]:
  "writes_to a [] = []"
  "writes_to a (Write32 b v # t) = writes_to a t @ (if b = a then [v] else [])"
  "writes_to a (Read32 b w # t) = writes_to a t"
  "writes_to a (ReadTime u # t) = writes_to a t"
  "writes_to a (Barrier # t) = writes_to a t"
  by (simp_all add: writes_to_def map_filter_simps)

subsection \<open>Polling\<close>

text \<open>\<open>while (!(*a & ...));\<close>\<close>

partial_function (option) poll_until ::
    "device \<Rightarrow> addr \<Rightarrow> (u32 \<Rightarrow> bool) \<Rightarrow> history \<Rightarrow> (u32 \<times> history) option" where
  "poll_until dev a ready t =
     (case read32 dev a t of (v, t) \<Rightarrow> if ready v then Some (v, t) else poll_until dev a ready t)"

declare poll_until.simps [code]

text \<open>The history after \<open>n\<close> reads of \<open>a\<close>.\<close>

fun after_reads :: "device \<Rightarrow> addr \<Rightarrow> nat \<Rightarrow> history \<Rightarrow> history" where
  "after_reads dev a 0 t = t"
| "after_reads dev a (Suc n) t = after_reads dev a n (snd (read32 dev a t))"

lemma poll_until_Some:
  "poll_until dev a ready t = Some (v, t') \<Longrightarrow>
   ready v \<and> (\<exists>n. v = dev_rd dev (after_reads dev a n t) a \<and> t' = Read32 a v # after_reads dev a n t)"
proof (induction dev a ready t "(v, t')" arbitrary: v t'
    rule: poll_until.raw_induct [rotated, consumes 1, case_names 1])
  case (1 poll dev a ready t)
  let ?v = "dev_rd dev t a" and ?t = "snd (read32 dev a t)"
  show ?case
  proof (cases "ready ?v")
    case True
    with 1(2) have "ready v" "v = dev_rd dev (after_reads dev a 0 t) a"
        "t' = Read32 a v # after_reads dev a 0 t"
      by (auto simp: read32_def)
    then show ?thesis by blast
  next
    case False
    with 1(2) have "poll dev a ready ?t = Some (v, t')" by (simp add: read32_def)
    from 1(1) [OF this] obtain n where "ready v" "v = dev_rd dev (after_reads dev a (Suc n) t) a"
      "t' = Read32 a v # after_reads dev a (Suc n) t" by auto
    then show ?thesis by blast
  qed
qed

text \<open>The wait ends when the device gets ready.\<close>

lemma poll_until_returns:
  "ready (dev_rd dev (after_reads dev a n t) a) \<Longrightarrow> \<exists>v t'. poll_until dev a ready t = Some (v, t')"
proof (induction n arbitrary: t)
  case 0
  then show ?case by (simp add: poll_until.simps [of dev a ready t] read32_def)
next
  case (Suc n)
  then show ?case
    using Suc.IH [of "snd (read32 dev a t)"]
    by (auto simp: poll_until.simps [of dev a ready t] read32_def)
qed

lemma after_reads_extends: "\<exists>new. after_reads dev a n t = new @ t"
proof (induction n arbitrary: t)
  case (Suc n)
  from Suc [of "Read32 a (dev_rd dev t a) # t"] show ?case
    by (force simp: read32_def intro: exI [of _ "_ @ [_]"])
qed simp

lemma writes_to_after_reads [simp]: "writes_to b (after_reads dev a n t) = writes_to b t"
  by (induction n arbitrary: t) (simp_all add: read32_def)

subsection \<open>Delays (lib.c)\<close>

partial_function (option) usleep_wait :: "device \<Rightarrow> u64 \<Rightarrow> history \<Rightarrow> history option" where
  "usleep_wait dev deadline t =
     (case asm_get_cpu_timer dev t of
        (now, t) \<Rightarrow> if deadline > now then usleep_wait dev deadline t else Some t)"

definition usleep :: "device \<Rightarrow> u32 \<Rightarrow> history \<Rightarrow> history option" where
  "usleep dev us t = (case asm_get_cpu_timer dev t of (now, t) \<Rightarrow> usleep_wait dev (now + ucast us) t)"

definition msleep :: "device \<Rightarrow> u32 \<Rightarrow> history \<Rightarrow> history option" where
  "msleep dev ms t = usleep dev (1000 * ms) t"

text \<open>The history after \<open>n\<close> readings of the timer, and a timer that reaches every value.\<close>

fun after_times :: "device \<Rightarrow> nat \<Rightarrow> history \<Rightarrow> history" where
  "after_times dev 0 t = t"
| "after_times dev (Suc n) t = after_times dev n (snd (asm_get_cpu_timer dev t))"

definition timer_runs :: "device \<Rightarrow> bool" where
  "timer_runs dev \<longleftrightarrow> (\<forall>t d. \<exists>n. d \<le> dev_time dev (after_times dev n t))"

text \<open>No write, and the last reading of the timer is at or after the deadline.\<close>

definition waited :: "u64 \<Rightarrow> history \<Rightarrow> history \<Rightarrow> bool" where
  "waited deadline t t' \<longleftrightarrow> (\<exists>us. t' = map ReadTime us @ t \<and> us \<noteq> [] \<and> deadline \<le> hd us)"

lemma usleep_wait_waited: "usleep_wait dev deadline t = Some t' \<Longrightarrow> waited deadline t t'"
proof (induction dev deadline t t' rule: usleep_wait.raw_induct [rotated, consumes 1, case_names 1])
  case (1 wait dev deadline t t')
  let ?now = "dev_time dev t"
  show ?case
  proof (cases "deadline > ?now")
    case False
    with 1(2) have "t' = map ReadTime [?now] @ t" by (simp add: asm_get_cpu_timer_def)
    with False show ?thesis unfolding waited_def by (intro exI [of _ "[?now]"]) simp
  next
    case True
    with 1(2) have "wait dev deadline (ReadTime ?now # t) = Some t'"
      by (simp add: asm_get_cpu_timer_def)
    from 1(1) [OF this] obtain us where "t' = map ReadTime us @ ReadTime ?now # t" "us \<noteq> []"
      "deadline \<le> hd us" by (auto simp: waited_def)
    then show ?thesis unfolding waited_def by (intro exI [of _ "us @ [?now]"]) simp
  qed
qed

lemma usleep_wait_reaches:
  "deadline \<le> dev_time dev (after_times dev n t) \<Longrightarrow> \<exists>t'. usleep_wait dev deadline t = Some t'"
proof (induction n arbitrary: t)
  case 0
  then show ?case by (auto simp: usleep_wait.simps [of dev deadline t] asm_get_cpu_timer_def dest: leD)
next
  case (Suc n)
  then show ?case
    using Suc.IH [of "snd (asm_get_cpu_timer dev t)"]
    by (auto simp: usleep_wait.simps [of dev deadline t] asm_get_cpu_timer_def)
qed

lemma usleep_returns: "timer_runs dev \<Longrightarrow> \<exists>t'. usleep dev us t = Some t'"
  unfolding timer_runs_def usleep_def asm_get_cpu_timer_def
  by (auto intro: usleep_wait_reaches)

lemma usleep_history:
  assumes "usleep dev us t = Some t'"
  shows "\<exists>ts. t' = map ReadTime ts @ t"
proof -
  from assms obtain d where "waited d (ReadTime (dev_time dev t) # t) t'"
    by (auto simp: usleep_def asm_get_cpu_timer_def intro: usleep_wait_waited)
  then obtain ts where "t' = map ReadTime ts @ ReadTime (dev_time dev t) # t" by (auto simp: waited_def)
  then have "t' = map ReadTime (ts @ [dev_time dev t]) @ t" by simp
  then show ?thesis by blast
qed

lemma writes_to_waited: "waited d t t' \<Longrightarrow> writes_to a t' = writes_to a t"
proof -
  have "writes_to a (map ReadTime us @ t) = writes_to a t" for us by (induction us) simp_all
  then show "waited d t t' \<Longrightarrow> writes_to a t' = writes_to a t" by (auto simp: waited_def)
qed

subsection \<open>Write-enable registers\<close>

text \<open>
  In most registers of the general register files the upper half of a written word selects
  the bits of the lower half that change.
\<close>

definition hiword_write :: "u32 \<Rightarrow> u32 \<Rightarrow> u32" where
  "hiword_write old w = (let m = drop_bit 16 w in (old AND NOT m) OR (w AND m))"

definition rk_clr_set_bits :: "addr \<Rightarrow> nat \<Rightarrow> nat \<Rightarrow> int \<Rightarrow> history \<Rightarrow> history" where
  "rk_clr_set_bits d bit_end bit_start v t =
     (let temp = 0 :: u32;
          temp = temp OR push_bit bit_start (word_of_int v);
          temp = temp OR push_bit (16 + bit_start) (push_bit (bit_end - bit_start + 1) 1 - 1)
      in write32 d temp t)"

text \<open>The value of a write-enable register after the writes of a history.\<close>

definition hiword_reg :: "addr \<Rightarrow> u32 \<Rightarrow> history \<Rightarrow> u32" where
  "hiword_reg a old t = foldl hiword_write old (writes_to a t)"

text \<open>
  The register keeps every bit outside the field and takes the value in the field. The value
  may be wider than the field; only bits that would reach the upper half are excluded.
\<close>

lemma hiword_field:
  assumes "start \<le> end_bit" and "end_bit < 16" and "0 \<le> v" and "v < 2 ^ (16 - start)"
  shows "hiword_write old (push_bit start (word_of_int v) OR
      push_bit (16 + start) (push_bit (end_bit - start + 1) 1 - 1))
    = (old AND NOT (push_bit start (mask (end_bit - start + 1))))
      OR push_bit start (take_bit (end_bit - start + 1) (word_of_int v))"
  (is "hiword_write old ?w = ?r")
proof -
  have m: "push_bit (end_bit - start + 1) 1 - 1 = (mask (end_bit - start + 1) :: u32)"
    by (simp add: mask_eq_exp_minus_1 push_bit_eq_mult)
  have v: "\<not> bit v n" if "16 - start \<le> n" for n
  proof -
    have "v = take_bit (16 - start) v" using assms(3,4) by (simp add: take_bit_int_eq_self)
    then have "bit v n = bit (take_bit (16 - start) v) n" by simp
    then show ?thesis using that by (simp add: bit_simps)
  qed
  show ?thesis
    unfolding hiword_write_def Let_def m
    by (rule bit_word_eqI) (use assms v in \<open>auto simp: bit_simps word_size\<close>)
qed

end
