(* ===== verification/Mmu.thy ===== *)
theory Mmu
  imports Mmio
begin

text \<open>
  Page tables and cache maintenance (src/mmu.c). The table entries are written to memory;
  \<open>translate\<close> is the translation the processor makes of them (AArch64, 4 KiB granule, a
  32-bit input address, so that the walk starts at level 1), and it is what the tables are
  verified against.
\<close>

subsection \<open>The code\<close>

definition ATTR :: "u64 \<Rightarrow> u64" where
  "ATTR mair_i = 0x740 OR push_bit 2 mair_i"

definition write64 :: "mem \<Rightarrow> addr \<Rightarrow> u64 \<Rightarrow> mem" where
  "write64 m a v = store_le 8 m a v"

text \<open>The functions return 8, the size of the entry, which their callers ignore.\<close>

definition ttbl_block_1gb :: "mem \<Rightarrow> addr \<Rightarrow> u64 \<Rightarrow> u64 \<Rightarrow> mem" where
  "ttbl_block_1gb m buf oa mair_i = write64 m buf ((oa AND 0xffffffffc0000000) OR ATTR mair_i OR 1)"

definition ttbl_block_2mb :: "mem \<Rightarrow> addr \<Rightarrow> u64 \<Rightarrow> u64 \<Rightarrow> mem" where
  "ttbl_block_2mb m buf oa mair_i = write64 m buf ((oa AND 0xffffffffffe00000) OR ATTR mair_i OR 1)"

definition ttbl_table_entry :: "mem \<Rightarrow> addr \<Rightarrow> u64 \<Rightarrow> mem" where
  "ttbl_table_entry m buf oa = write64 m buf (oa OR 3)"

text \<open>The three maintenance functions differ in the instruction, here the event, that they issue
  for each cache line. The loop need not end for a start that is not aligned.\<close>

partial_function (option) dcache_lines :: "(addr \<Rightarrow> io_event) \<Rightarrow> addr \<Rightarrow> addr \<Rightarrow> history \<Rightarrow> history option" where
  "dcache_lines line start_addr end_addr t =
     (if start_addr < end_addr
      then dcache_lines line (start_addr + 0x40) end_addr (line start_addr # t)
      else Some (Barrier # line start_addr # t))"

definition dcache_flush :: "addr \<Rightarrow> addr \<Rightarrow> history \<Rightarrow> history option" where
  "dcache_flush start_addr end_addr t =
     dcache_lines Flush ((start_addr - 0x40) AND NOT 0x3f) ((end_addr + 0x40) AND NOT 0x3f) (Barrier # t)"

definition dcache_invalidate :: "addr \<Rightarrow> addr \<Rightarrow> history \<Rightarrow> history option" where
  "dcache_invalidate start_addr end_addr t =
     dcache_lines Invalidate ((start_addr - 0x40) AND NOT 0x3f) ((end_addr + 0x40) AND NOT 0x3f) (Barrier # t)"

definition dcache_clean :: "addr \<Rightarrow> addr \<Rightarrow> history \<Rightarrow> history option" where
  "dcache_clean start_addr end_addr t =
     dcache_lines Clean ((start_addr - 0x40) AND NOT 0x3f) ((end_addr + 0x40) AND NOT 0x3f) (Barrier # t)"

subsection \<open>The lines that are maintained\<close>

text \<open>The cache line of an address.\<close>

definition cache_line :: "addr \<Rightarrow> addr" where
  "cache_line x = x AND NOT 0x3f"

lemma cache_line_unat: "unat (cache_line x) = 64 * (unat x div 64)"
proof -
  have m: "(0x3f :: u64) = mask 6" by (simp add: mask_eq_exp_minus_1)
  have "cache_line x = push_bit 6 (drop_bit 6 x)"
    unfolding cache_line_def m by (rule bit_word_eqI) (auto simp: bit_simps)
  then have "cache_line x + take_bit 6 x = x" by (simp only: bits_ident)
  then have c: "cache_line x = x - take_bit 6 x" by (simp add: eq_diff_eq)
  have t: "unat (take_bit 6 x) = unat x mod 64"
    by (simp only: unsigned_take_bit_eq) (simp add: take_bit_eq_mod)
  then have "take_bit 6 x \<le> x" by (simp add: word_le_nat_alt)
  then show ?thesis unfolding c by (simp add: unat_sub t minus_mod_eq_mult_div)
qed

lemma dcache_lines_eq:
  assumes "unat e = unat s + 64 * n"
  shows "dcache_lines line s e t
    = Some (Barrier # rev (map (\<lambda>k. line (s + 0x40 * of_nat k)) [0..<Suc n]) @ t)"
  using assms
proof (induction n arbitrary: s t)
  case 0
  then have "s = e" using word_unat_eq_iff [of s e] by simp
  then show ?case by (subst dcache_lines.simps) simp
next
  case (Suc n)
  have "unat (s + 0x40) = unat s + 64"
    using Suc.prems unat_u64_less [of e] by (subst unat_plus_no_wrap) simp_all
  then have "unat e = unat (s + 0x40) + 64 * n" using Suc.prems by simp
  from Suc.IH [OF this] have "dcache_lines line (s + 0x40) e (line s # t)
    = Some (Barrier # rev (map (\<lambda>k. line (s + 0x40 + 0x40 * of_nat k)) [0..<Suc n]) @ line s # t)" .
  moreover have "s < e" using Suc.prems by (simp add: word_less_nat_alt)
  moreover have "map (\<lambda>k. line (s + 0x40 * of_nat k)) [0..<Suc (Suc n)]
      = line s # map (\<lambda>k. line (s + 0x40 + 0x40 * of_nat k)) [0..<Suc n]"
    by (simp add: upt_conv_Cons map_Suc_upt [symmetric] comp_def algebra_simps del: upt_Suc)
  ultimately show ?case by (simp add: dcache_lines.simps [of line s e t] del: upt_Suc)
qed

text \<open>The loop always ends: both bounds are aligned.\<close>

lemma dcache_lines_ends: "\<exists>new. dcache_lines line (cache_line a) (cache_line b) t = Some (new @ t)"
proof (cases "cache_line a < cache_line b")
  case True
  then have "64 * (unat a div 64) < 64 * (unat b div 64)" by (simp add: word_less_nat_alt cache_line_unat)
  then have "unat (cache_line b) = unat (cache_line a) + 64 * (unat b div 64 - unat a div 64)"
    by (simp add: cache_line_unat diff_mult_distrib2)
  from dcache_lines_eq [OF this, of line t] show ?thesis
    by (intro exI [of _ "Barrier # rev (map (\<lambda>k. line (cache_line a + 0x40 * of_nat k)) [0..<Suc (unat b div 64 - unat a div 64)])"])
      (simp del: upt_Suc)
next
  case False
  then show ?thesis by (simp add: dcache_lines.simps [of line "cache_line a"])
qed

text \<open>The line addresses between the start and the end of a range, both rounded as the code
  does.\<close>

lemma dcache_range:
  assumes "64 \<le> unat a" and "a \<le> b" and "unat b + 64 < 18446744073709551616"
  obtains n where "unat (cache_line (b + 0x40)) = unat (cache_line (a - 0x40)) + 64 * n"
    and "unat (cache_line (a - 0x40)) = 64 * (unat a div 64) - 64"
    and "unat (cache_line (b + 0x40)) = 64 * (unat b div 64) + 64"
proof -
  have ab: "unat a \<le> unat b" using assms(2) by (simp add: word_le_nat_alt)
  have am: "unat (a - 0x40) = unat a - 64" using assms(1) by (simp add: unat_sub word_le_nat_alt)
  have bp: "unat (b + 0x40) = unat b + 64" using assms(3) by (subst unat_plus_no_wrap) simp_all
  have s: "unat (cache_line (a - 0x40)) = 64 * (unat a div 64) - 64"
    unfolding cache_line_unat am using assms(1) by (simp add: le_div_geq [of 64 "unat a"])
  have e: "unat (cache_line (b + 0x40)) = 64 * (unat b div 64) + 64"
    unfolding cache_line_unat bp by (simp add: div_add_self2 del: div_mult_self1)
  have "unat a div 64 \<le> unat b div 64" using ab by (rule div_le_mono)
  then have "unat (cache_line (b + 0x40)) = unat (cache_line (a - 0x40)) + 64 * (unat b div 64 + 2 - unat a div 64)"
    unfolding s e using div_le_mono [OF assms(1), of 64] by simp
  from that [OF this s e] show ?thesis .
qed


lemma dcache_maintained:
  assumes a: "64 \<le> unat a" "a \<le> b" "unat b + 64 < 18446744073709551616"
    and x: "unat a \<le> unat x" "unat x \<le> unat b"
  shows "\<exists>t'. dcache_lines line (cache_line (a - 0x40)) (cache_line (b + 0x40)) (Barrier # t) = Some t' \<and>
    line (cache_line x) \<in> set t'"
proof -
  obtain n where n: "unat (cache_line (b + 0x40)) = unat (cache_line (a - 0x40)) + 64 * n"
    and s: "unat (cache_line (a - 0x40)) = 64 * (unat a div 64) - 64"
    and e: "unat (cache_line (b + 0x40)) = 64 * (unat b div 64) + 64"
    by (rule dcache_range [OF a])
  let ?s = "cache_line (a - 0x40)" and ?k = "unat x div 64 + 1 - unat a div 64"
  have d: "1 \<le> unat a div 64" "unat a div 64 \<le> unat x div 64" "unat x div 64 \<le> unat b div 64"
    using div_le_mono [OF a(1), of 64] x by (simp_all add: div_le_mono)
  have kn: "?k < Suc n" using n s e d by linarith
  have u: "unat (0x40 * of_nat ?k :: u64) = 64 * ?k"
    using d unat_u64_less [of x] unat_of_nat_u64 [of "64 * ?k"] by simp
  have "unat (?s + 0x40 * of_nat ?k) = 64 * (unat x div 64)"
  proof -
    have sum: "64 * (unat a div 64) - 64 + 64 * ?k = 64 * (unat x div 64)" using d by linarith
    have "64 * (unat x div 64) \<le> unat x" by simp
    then have "64 * (unat x div 64) < 18446744073709551616"
      using unat_u64_less [of x] by (rule le_less_trans)
    then show ?thesis by (subst unat_plus_no_wrap) (simp_all only: u s sum)
  qed
  then have "cache_line x = ?s + 0x40 * of_nat ?k"
    by (simp add: word_unat_eq_iff cache_line_unat)
  with kn show ?thesis
    unfolding dcache_lines_eq [OF n] by (auto simp del: upt_Suc)
qed


text \<open>C20. Cleaning, invalidating or flushing a range reaches the cache line of every address from its
  start to its end, and returns, if the range lies neither in the first cache line of the
  address space nor at its end.\<close>

theorem dcache_covers_range:
  assumes "64 \<le> unat a" and "a \<le> b" and "unat b + 64 < 18446744073709551616"
  shows "(\<exists>t'. dcache_clean a b t = Some t' \<and> (\<forall>x. a \<le> x \<longrightarrow> x \<le> b \<longrightarrow> Clean (cache_line x) \<in> set t')) \<and>
    (\<exists>t'. dcache_invalidate a b t = Some t' \<and> (\<forall>x. a \<le> x \<longrightarrow> x \<le> b \<longrightarrow> Invalidate (cache_line x) \<in> set t')) \<and>
    (\<exists>t'. dcache_flush a b t = Some t' \<and> (\<forall>x. a \<le> x \<longrightarrow> x \<le> b \<longrightarrow> Flush (cache_line x) \<in> set t'))"
proof -
  have "\<exists>t'. dcache_lines line (cache_line (a - 0x40)) (cache_line (b + 0x40)) (Barrier # t) = Some t' \<and>
      (\<forall>x. a \<le> x \<longrightarrow> x \<le> b \<longrightarrow> line (cache_line x) \<in> set t')" for line
  proof -
    note m = dcache_maintained [OF assms, of _ line t]
    obtain t' where t': "dcache_lines line (cache_line (a - 0x40)) (cache_line (b + 0x40)) (Barrier # t) = Some t'"
      using m [of a] assms(2) by (auto simp: word_le_nat_alt)
    with m show ?thesis by (auto simp: word_le_nat_alt)
  qed
  from this [of Clean] this [of Invalidate] this [of Flush] show ?thesis
    unfolding dcache_clean_def dcache_invalidate_def dcache_flush_def cache_line_def by blast
qed

lemma dcache_covers_range_witness:
  "\<exists>t'. dcache_clean 0x40000 0x40010 [] = Some t' \<and> Clean 0x40000 \<in> set t'"
proof -
  from dcache_covers_range [of "0x40000" "0x40010" "[]"] obtain t' where
    "dcache_clean 0x40000 0x40010 [] = Some t'"
    "\<forall>x. 0x40000 \<le> x \<longrightarrow> x \<le> 0x40010 \<longrightarrow> Clean (cache_line x) \<in> set t'" by auto
  moreover have "cache_line 0x40000 = 0x40000" by (simp add: cache_line_def)
  ultimately show ?thesis by (auto dest: spec [of _ "0x40000"])
qed


subsection \<open>Translation\<close>

text \<open>The descriptors: their lowest two bits, and bits 4 to 2, the index of the memory type.\<close>

definition attr_index :: "u64 \<Rightarrow> u64" where
  "attr_index d = take_bit 3 (drop_bit 2 d)"

text \<open>The physical address and the memory type of a virtual address below \<open>2 ^ 32\<close>; \<open>None\<close> is a
  translation fault. Level 3 tables do not occur and are not modelled.\<close>

definition translate :: "mem \<Rightarrow> addr \<Rightarrow> u64 \<Rightarrow> (u64 \<times> u64) option" where
  "translate m ttbr va =
     (let d = load_le 8 m (ttbr + 8 * drop_bit 30 va) in
      if take_bit 2 d = 1
      then Some (push_bit 30 (take_bit 18 (drop_bit 30 d)) OR take_bit 30 va, attr_index d)
      else if take_bit 2 d = 3
      then let table = push_bit 12 (take_bit 36 (drop_bit 12 d));
               d = load_le 8 m (table + 8 * take_bit 9 (drop_bit 21 va))
           in if take_bit 2 d = 1
              then Some (push_bit 21 (take_bit 27 (drop_bit 21 d)) OR take_bit 21 va, attr_index d)
              else None
      else None)"

lemma load_write64_same: "load_le 8 (write64 m a v) a = v"
  by (simp add: write64_def load_store_same take_bit_word_eq_self)

lemma load_write64_other:
  "j + 8 \<le> k \<or> k + 8 \<le> j \<Longrightarrow> j + 8 < 18446744073709551616 \<Longrightarrow> k + 8 < 18446744073709551616 \<Longrightarrow>
   load_le 8 (write64 m (a + of_nat j) v) (a + of_nat k) = load_le 8 m (a + of_nat k)"
  by (simp add: write64_def load_store_other)

text \<open>What a block descriptor says, whatever the block's size.\<close>

lemma block_descriptor:
  fixes c :: u64
  assumes "bit_size \<le> 30" and "12 \<le> bit_size" and "drop_bit 12 c = 0"
  shows "drop_bit bit_size (push_bit bit_size (take_bit k x) OR c) = drop_bit bit_size (push_bit bit_size (take_bit k x))"
    and "take_bit 2 (push_bit bit_size (take_bit k x) OR c) = take_bit 2 c"
    and "attr_index (push_bit bit_size (take_bit k x) OR c) = attr_index c"
proof -
  have c: "\<not> bit c n" if "12 \<le> n" for n
    using that assms(3) bit_drop_bit_eq [of 12 c] by (auto simp: fun_eq_iff dest: spec [of _ "n - 12"])
  show "drop_bit bit_size (push_bit bit_size (take_bit k x) OR c) = drop_bit bit_size (push_bit bit_size (take_bit k x))"
    by (rule bit_word_eqI) (use c assms in \<open>auto simp: bit_simps\<close>)
  show "take_bit 2 (push_bit bit_size (take_bit k x) OR c) = take_bit 2 c"
    by (rule bit_word_eqI) (use assms in \<open>auto simp: bit_simps\<close>)
  show "attr_index (push_bit bit_size (take_bit k x) OR c) = attr_index c"
    unfolding attr_index_def by (rule bit_word_eqI) (use assms in \<open>auto simp: bit_simps\<close>)
qed

end
