(* ===== verification/Page_Tables.thy ===== *)
theory Page_Tables
  imports Mmu
begin

text \<open>
  Page tables that map the first 4 GiB to themselves, with one level 1 table and a level 2
  table each for the lowest and the highest gigabyte. The chainloader and the RK356x firmware
  both build such tables, with different memory types; \<open>identity_tables\<close> is what they have in
  common, and the section shows what the processor makes of it. The laptops map gigabytes;
  \<open>giga_tables\<close> is their form.
\<close>

subsection \<open>The entries\<close>

definition block_2mb :: "(u64 \<Rightarrow> u64) \<Rightarrow> u64 \<Rightarrow> u64" where
  "block_2mb attr address = (address AND 0xffffffffffe00000) OR ATTR (attr address) OR 1"

definition identity_tables :: "(u64 \<Rightarrow> u64) \<Rightarrow> (u64 \<Rightarrow> u64) \<Rightarrow> addr \<Rightarrow> mem \<Rightarrow> mem" where
  "identity_tables lo hi pt m =
     (let m = write64 m (pt + of_nat 0) ((pt + 4096) OR 3);
          m = write64 m (pt + of_nat 8) ((0x40000000 AND 0xffffffffc0000000) OR ATTR 3 OR 1);
          m = write64 m (pt + of_nat 16) ((0x80000000 AND 0xffffffffc0000000) OR ATTR 3 OR 1);
          m = write64 m (pt + of_nat 24) ((pt + 8192) OR 3);
          m = fold (\<lambda>i m. write64 m (pt + of_nat (4096 + 8 * i)) (block_2mb lo (push_bit 21 (of_nat i)))) [0..<512] m
      in fold (\<lambda>i m. write64 m (pt + of_nat (8192 + 8 * i)) (block_2mb hi (0xc0000000 + push_bit 21 (of_nat i)))) [0..<512] m)"

lemma table_loop:
  assumes "off + 8 * n < 18446744073709551000"
  shows "i < n \<Longrightarrow> load_le 8 (fold (\<lambda>i m. write64 m (a + of_nat (off + 8 * i)) (f i)) [0..<n] m)
      (a + of_nat (off + 8 * i)) = f i"
    and "k + 8 \<le> off \<or> off + 8 * n \<le> k \<Longrightarrow> k < 18446744073709551000 \<Longrightarrow>
      load_le 8 (fold (\<lambda>i m. write64 m (a + of_nat (off + 8 * i)) (f i)) [0..<n] m) (a + of_nat k)
      = load_le 8 m (a + of_nat k)"
  using assms
proof (induction n arbitrary: i k)
  case (Suc n)
  {
    case 1
    show ?case
    proof (cases "i = n")
      case True
      then show ?thesis by (simp add: load_write64_same)
    next
      case False
      with 1 Suc.IH(1) [of i] show ?thesis
        by (simp add: load_write64_other del: of_nat_add of_nat_mult)
    qed
  next
    case 2
    then have "off + 8 * n + 8 \<le> i \<or> i + 8 \<le> off + 8 * n" by auto
    with 2 Suc.IH(2) [of i] show ?case
      by (auto simp: load_write64_other simp del: of_nat_add of_nat_mult)
  }
qed simp_all

lemma identity_tables_entries:
  shows "load_le 8 (identity_tables lo hi pt m) pt = (pt + 4096) OR 3"
    and "load_le 8 (identity_tables lo hi pt m) (pt + 8) = (0x40000000 AND 0xffffffffc0000000) OR ATTR 3 OR 1"
    and "load_le 8 (identity_tables lo hi pt m) (pt + 16) = (0x80000000 AND 0xffffffffc0000000) OR ATTR 3 OR 1"
    and "load_le 8 (identity_tables lo hi pt m) (pt + 24) = (pt + 8192) OR 3"
    and "i < 512 \<Longrightarrow> load_le 8 (identity_tables lo hi pt m) (pt + of_nat (4096 + 8 * i)) = block_2mb lo (push_bit 21 (of_nat i))"
    and "i < 512 \<Longrightarrow> load_le 8 (identity_tables lo hi pt m) (pt + of_nat (8192 + 8 * i)) = block_2mb hi (0xc0000000 + push_bit 21 (of_nat i))"
proof -
  note loop = table_loop(2) [of _ 512 _ pt]
  note other = load_write64_other [of _ _ _ pt]
  show "load_le 8 (identity_tables lo hi pt m) pt = (pt + 4096) OR 3"
    unfolding identity_tables_def Let_def
    using loop [of 8192 0] loop [of 4096 0] other [of 24 0] other [of 16 0] other [of 8 0]
      load_write64_same
    by (simp del: upt_rec_numeral of_nat_add of_nat_mult)
  show "load_le 8 (identity_tables lo hi pt m) (pt + 8) = (0x40000000 AND 0xffffffffc0000000) OR ATTR 3 OR 1"
    unfolding identity_tables_def Let_def
    using loop [of 8192 8] loop [of 4096 8] other [of 24 8] other [of 16 8] load_write64_same
    by (simp del: upt_rec_numeral of_nat_add of_nat_mult)
  show "load_le 8 (identity_tables lo hi pt m) (pt + 16) = (0x80000000 AND 0xffffffffc0000000) OR ATTR 3 OR 1"
    unfolding identity_tables_def Let_def
    using loop [of 8192 16] loop [of 4096 16] other [of 24 16] load_write64_same
    by (simp del: upt_rec_numeral of_nat_add of_nat_mult)
  show "load_le 8 (identity_tables lo hi pt m) (pt + 24) = (pt + 8192) OR 3"
    unfolding identity_tables_def Let_def
    using loop [of 8192 24] loop [of 4096 24] load_write64_same
    by (simp del: upt_rec_numeral of_nat_add of_nat_mult)
  show "load_le 8 (identity_tables lo hi pt m) (pt + of_nat (4096 + 8 * i)) = block_2mb lo (push_bit 21 (of_nat i))" if "i < 512"
    unfolding identity_tables_def Let_def
    using loop [of 8192 "4096 + 8 * i"] table_loop(1) [of 4096 512 i pt] that
    by (simp del: upt_rec_numeral of_nat_add of_nat_mult)
  show "load_le 8 (identity_tables lo hi pt m) (pt + of_nat (8192 + 8 * i)) = block_2mb hi (0xc0000000 + push_bit 21 (of_nat i))" if "i < 512"
    unfolding identity_tables_def Let_def
    using table_loop(1) [of 8192 512 i pt] that
    by (simp del: upt_rec_numeral of_nat_add of_nat_mult)
qed

subsection \<open>Descriptors and addresses, bit by bit\<close>

lemma split_address: "push_bit n (drop_bit n va) OR take_bit n va = (va :: u64)"
  by (rule bit_word_eqI) (auto simp: bit_simps)

lemma bit_below_32:
  assumes "va < (0x100000000 :: u64)" and "bit va n"
  shows "n < 32"
proof -
  have "unat va < 4294967296" using assms(1) by (simp add: word_less_nat_alt)
  then have "unat (take_bit 32 va) = unat va"
    by (simp only: unsigned_take_bit_eq) (simp add: take_bit_eq_mod)
  then have "take_bit 32 va = va" by (simp only: word_unat_eq_iff)
  then have "bit (take_bit 32 va) n" using assms(2) by simp
  then show ?thesis by (simp only: bit_take_bit_iff)
qed

lemma table_descriptor:
  assumes "take_bit 12 x = 0" and "take_bit 48 x = (x :: u64)"
  shows "push_bit 12 (take_bit 36 (drop_bit 12 (x OR 3))) = x" and "take_bit 2 (x OR 3) = 3"
proof -
  have lo: "12 \<le> n" if "bit x n" for n
    using that assms(1) bit_take_bit_iff [of 12 x n] by (auto simp: not_le [symmetric])
  have hi: "n < 48" if "bit x n" for n
    using that assms(2) bit_take_bit_iff [of 48 x n] by auto
  have three: "(3 :: u64) = mask 2" by (simp add: mask_eq_exp_minus_1)
  show "push_bit 12 (take_bit 36 (drop_bit 12 (x OR 3))) = x"
    unfolding three by (rule bit_word_eqI) (use lo hi in \<open>auto simp: bit_simps dest: lo hi\<close>)
  show "take_bit 2 (x OR 3) = 3"
    unfolding three by (rule bit_word_eqI) (use lo hi in \<open>auto simp: bit_simps dest: lo hi\<close>)
qed

lemma and_high_mask: "(x :: u64) AND 0xffffffffffe00000 = push_bit 21 (drop_bit 21 x)"
proof -
  have "(0xffffffffffe00000 :: u64) = NOT (mask 21)" by (simp add: mask_eq_exp_minus_1)
  then show ?thesis by (rule ssubst) (rule bit_word_eqI, auto simp: bit_simps)
qed

lemma block_entry:
  assumes "drop_bit 12 c = (0 :: u64)" and "take_bit 2 c = 1" and "va < (0x100000000 :: u64)"
    and d: "d = (push_bit 21 (drop_bit 21 va) AND 0xffffffffffe00000) OR c"
  shows "take_bit 2 d = 1" and "attr_index d = attr_index c"
    and "push_bit 21 (take_bit 27 (drop_bit 21 d)) OR take_bit 21 va = va"
proof -
  note h = bit_below_32 [OF assms(3)]
  have d': "d = push_bit 21 (take_bit 43 (drop_bit 21 va)) OR c"
    unfolding d and_high_mask by (rule bit_word_eqI) (auto simp: bit_simps)
  note b = block_descriptor [of 21 c 43 "drop_bit 21 va", OF _ _ assms(1)]
  show "take_bit 2 d = 1" "attr_index d = attr_index c" using b assms(2) by (simp_all add: d')
  show "push_bit 21 (take_bit 27 (drop_bit 21 d)) OR take_bit 21 va = va"
    unfolding d' using b(1) by (simp, intro bit_word_eqI) (auto simp: bit_simps dest: h)
qed

lemma address_split:
  assumes "drop_bit 30 va = of_nat k" and "k < 4" and "va < (0x100000000 :: u64)"
  shows "push_bit 21 (drop_bit 21 va) = push_bit 30 (of_nat k) + push_bit 21 (take_bit 9 (drop_bit 21 va))"
proof -
  have "drop_bit 21 va = push_bit 9 (drop_bit 30 va) + take_bit 9 (drop_bit 21 va)"
    using bits_ident [of 9 "drop_bit 21 va"] by (simp add: drop_bit_drop_bit)
  then have "push_bit 21 (drop_bit 21 va) = push_bit 21 (push_bit 9 (of_nat k) + take_bit 9 (drop_bit 21 va))"
    using assms(1) by simp
  then show ?thesis by (simp add: push_bit_add)
qed

lemma table_aligned:
  assumes "take_bit 12 pt = 0" and "unat pt + 12288 \<le> 281474976710656"
  shows "take_bit 12 (pt + 4096) = (0 :: u64)" "take_bit 12 (pt + 8192) = (0 :: u64)"
proof -
  have "unat pt mod 4096 = 0" using assms(1) unat_take_bit [of 12 pt] by simp
  moreover have "unat (pt + 4096) = unat pt + 4096" "unat (pt + 8192) = unat pt + 8192"
    using assms(2) by (simp_all add: unat_plus_no_wrap)
  ultimately have "unat (take_bit 12 (pt + 4096)) = 0" "unat (take_bit 12 (pt + 8192)) = 0"
    by (simp_all add: unat_take_bit mod_add_eq [of "unat pt" 4096 8192, symmetric] del: unsigned_take_bit_eq)
  then show "take_bit 12 (pt + 4096) = (0 :: u64)" "take_bit 12 (pt + 8192) = (0 :: u64)"
    by (simp_all only: unat_eq_0)
qed

lemma below_48:
  assumes "unat (x :: u64) < 281474976710656"
  shows "take_bit 48 x = x"
proof -
  have "unat (take_bit 48 x) = unat x"
    using assms by (simp only: unsigned_take_bit_eq) (simp add: take_bit_eq_mod)
  then show ?thesis by (simp only: word_unat_eq_iff)
qed

lemma word_index: "8 * take_bit 9 (x :: u64) = of_nat (8 * unat (take_bit 9 x))"
    "unat (take_bit 9 (x :: u64)) < 512"
  by simp (simp only: unat_take_bit, simp)

lemma attr_entry:
  assumes "x < 8"
  shows "drop_bit 12 (ATTR x OR 1) = 0" "take_bit 2 (ATTR x OR 1) = 1" "attr_index (ATTR x OR 1) = x"
proof -
  have "unat x < 8" using assms by (simp add: word_less_nat_alt)
  then have "unat x \<in> {0, 1, 2, 3, 4, 5, 6, 7}" by auto
  then have "x \<in> {0, 1, 2, 3, 4, 5, 6, 7}"
    by (auto simp: word_unat_eq_iff)
  then show "drop_bit 12 (ATTR x OR 1) = 0" "take_bit 2 (ATTR x OR 1) = 1" "attr_index (ATTR x OR 1) = x"
    by (auto simp: ATTR_def attr_index_def)
qed

subsection \<open>The walk\<close>

text \<open>The gigabyte of an address.\<close>

lemma gigabyte:
  assumes "va < (0x100000000 :: u64)"
  obtains k where "drop_bit 30 va = of_nat k" "k < 4" "k = unat va div 1073741824"
proof -
  have u: "unat (drop_bit 30 va) = unat va div 1073741824" by (simp add: unat_drop_bit)
  moreover have "unat va div 1073741824 < 4" using assms by (simp add: word_less_nat_alt less_mult_imp_div_less)
  moreover have "drop_bit 30 va = of_nat (unat (drop_bit 30 va))" by simp
  ultimately show ?thesis using that [of "unat va div 1073741824"] unfolding u by blast
qed

lemma walk_table:
  assumes d: "load_le 8 m (pt + 8 * drop_bit 30 va) = table OR 3"
    and table: "take_bit 12 table = 0" "unat table < 281474976710656"
    and e: "load_le 8 m (table + 8 * take_bit 9 (drop_bit 21 va)) = block_2mb attr (push_bit 21 (drop_bit 21 va))"
    and va: "va < 0x100000000" and attr: "attr (push_bit 21 (drop_bit 21 va)) < 8"
  shows "translate m pt va = Some (va, attr (push_bit 21 (drop_bit 21 va)))"
proof -
  let ?a = "attr (push_bit 21 (drop_bit 21 va))"
  note b = block_entry [OF attr_entry(1,2) [OF attr] va refl]
  show ?thesis
    unfolding translate_def Let_def d table_descriptor [OF table(1) below_48 [OF table(2)]] e
    using b by (simp add: block_2mb_def or.assoc attr_entry [OF attr])
qed

lemma walk_giga:
  assumes "load_le 8 m (pt + 8 * drop_bit 30 va) = (push_bit 30 (of_nat k) AND 0xffffffffc0000000) OR ATTR 3 OR 1"
    and "drop_bit 30 va = of_nat k" and "k = 1 \<or> k = 2"
  shows "translate m pt va = Some (va, 3)"
  using assms split_address [of 30 va] by (auto simp: translate_def Let_def ATTR_def attr_index_def)

theorem identity_tables_translate:
  assumes pt: "take_bit 12 pt = 0" "unat pt + 12288 \<le> 281474976710656"
    and va: "va < 0x100000000"
    and attr: "\<And>a. lo a < 8" "\<And>a. hi a < 8"
  defines "block \<equiv> push_bit 21 (drop_bit 21 va)"
  shows "translate (identity_tables lo hi pt m) pt va = Some (va,
    if va < 0x40000000 then lo block else if va < 0xc0000000 then 3 else hi block)"
proof -
  note e = identity_tables_entries [where pt = pt and m = m and lo = lo and hi = hi]
  note w = word_index [of "drop_bit 21 va"]
  have u: "unat (pt + 4096) < 281474976710656" "unat (pt + 8192) < 281474976710656"
    using pt(2) by (simp_all add: unat_plus_no_wrap)
  obtain k where k: "drop_bit 30 va = of_nat k" "k < 4" "k = unat va div 1073741824"
    by (rule gigabyte [OF va])
  note sp = address_split [OF k(1,2) va]
  have "k = 0 \<or> k = 1 \<or> k = 2 \<or> k = 3" using k(2) by auto
  then show ?thesis
  proof (elim disjE)
    assume k0: "k = 0"
    then have "va < 0x40000000" using k(3) by (simp add: word_less_nat_alt div_eq_0_iff)
    moreover have "translate (identity_tables lo hi pt m) pt va = Some (va, lo block)"
      unfolding block_def
    proof (rule walk_table [OF _ table_aligned(1) [OF pt] u(1) _ va attr(1)])
      show "load_le 8 (identity_tables lo hi pt m) (pt + 8 * drop_bit 30 va) = (pt + 4096) OR 3"
        using k(1) k0 e(1) by simp
      show "load_le 8 (identity_tables lo hi pt m) (pt + 4096 + 8 * take_bit 9 (drop_bit 21 va))
          = block_2mb lo (push_bit 21 (drop_bit 21 va))"
        unfolding w(1) using e(5) [OF w(2)] sp k0 by (simp add: add.assoc)
    qed
    ultimately show ?thesis by simp
  next
    assume k3: "k = 3"
    then have "\<not> va < 0xc0000000" using k(3) by (simp add: word_less_nat_alt)
    moreover have "translate (identity_tables lo hi pt m) pt va = Some (va, hi block)"
      unfolding block_def
    proof (rule walk_table [OF _ table_aligned(2) [OF pt] u(2) _ va attr(2)])
      show "load_le 8 (identity_tables lo hi pt m) (pt + 8 * drop_bit 30 va) = (pt + 8192) OR 3"
        using k(1) k3 e(4) by simp
      show "load_le 8 (identity_tables lo hi pt m) (pt + 8192 + 8 * take_bit 9 (drop_bit 21 va))
          = block_2mb hi (push_bit 21 (drop_bit 21 va))"
        unfolding w(1) using e(6) [OF w(2)] sp k3 by (simp add: add.assoc)
    qed
    ultimately show ?thesis by (simp add: word_less_nat_alt)
  next
    assume k1: "k = 1"
    then have "\<not> va < 0x40000000" "va < 0xc0000000" using k(3) by (simp_all add: word_less_nat_alt)
    then show ?thesis using walk_giga [of "identity_tables lo hi pt m" pt va 1] k(1) k1 e(2) by simp
  next
    assume k2: "k = 2"
    then have "\<not> va < 0x40000000" "va < 0xc0000000" using k(3) by (simp_all add: word_less_nat_alt)
    then show ?thesis using walk_giga [of "identity_tables lo hi pt m" pt va 2] k(1) k2 e(3) by simp
  qed
qed

text \<open>A bound that is a multiple of 2 MiB does not cut through a block.\<close>

lemma block_unat: "unat (push_bit 21 (drop_bit 21 (va :: u64))) = 2097152 * (unat va div 2097152)"
proof -
  have t: "unat (take_bit 21 va) = unat va mod 2097152" by (simp only: unat_take_bit) simp
  have le: "take_bit 21 va \<le> va" unfolding word_le_nat_alt t by simp
  have "push_bit 21 (drop_bit 21 va) = va - take_bit 21 va"
    using bits_ident [of 21 va] by (simp only: eq_diff_eq)
  then have "unat (push_bit 21 (drop_bit 21 va)) = unat va - unat va mod 2097152"
    by (simp only: unat_sub [OF le] t)
  then show ?thesis by (simp only: minus_mod_eq_mult_div)
qed

lemma block_bound:
  assumes "unat b = 2097152 * n"
  shows "b \<le> push_bit 21 (drop_bit 21 (va :: u64)) \<longleftrightarrow> b \<le> va"
proof -
  have "2097152 * n \<le> 2097152 * (unat va div 2097152) \<longleftrightarrow> n \<le> unat va div 2097152" by simp
  also have "\<dots> \<longleftrightarrow> n * 2097152 \<le> unat va" by (rule less_eq_div_iff_mult_less_eq) simp
  finally show ?thesis unfolding word_le_nat_alt block_unat assms by (simp only: mult.commute)
qed

subsection \<open>Tables of blocks of 1 GiB\<close>

definition giga_tables :: "nat \<Rightarrow> (nat \<Rightarrow> u64) \<Rightarrow> addr \<Rightarrow> mem \<Rightarrow> mem" where
  "giga_tables n attr pt m = fold (\<lambda>i m. ttbl_block_1gb m (pt + of_nat (8 * i)) (push_bit 30 (of_nat i)) (attr i)) [0..<n] m"

lemma giga_tables_entry:
  assumes "n \<le> 512"
  shows "i < n \<Longrightarrow> load_le 8 (giga_tables n attr pt m) (pt + 8 * of_nat i)
      = (push_bit 30 (of_nat i) AND 0xffffffffc0000000) OR ATTR (attr i) OR 1"
    and "n \<le> i \<Longrightarrow> i < 512 \<Longrightarrow> load_le 8 (giga_tables n attr pt m) (pt + 8 * of_nat i) = load_le 8 m (pt + 8 * of_nat i)"
  using table_loop [of 0 n i pt "\<lambda>i. (push_bit 30 (of_nat i) AND 0xffffffffc0000000) OR ATTR (attr i) OR 1" m]
    table_loop(2) [of 0 n "8 * i" pt "\<lambda>i. (push_bit 30 (of_nat i) AND 0xffffffffc0000000) OR ATTR (attr i) OR 1" m] assms
  by (simp_all add: giga_tables_def ttbl_block_1gb_def)

lemma giga_tables_translate:
  assumes "n \<le> 512" and "unat va < n * 1073741824" and "attr (unat va div 1073741824) < 8"
  shows "translate (giga_tables n attr pt m) pt va = Some (va, attr (unat va div 1073741824))"
proof -
  define k where "k = unat va div 1073741824"
  have k: "k < n" using assms(2) by (simp add: k_def less_mult_imp_div_less)
  have va: "drop_bit 30 va = of_nat k"
    unfolding word_unat_eq_iff unat_drop_bit using k assms(1) by (subst unat_of_nat_u64) (simp_all add: k_def)
  have "(0xffffffffc0000000 :: u64) = NOT (mask 30)" by (simp add: mask_eq_exp_minus_1)
  then have "push_bit 30 (of_nat k) AND 0xffffffffc0000000 = (push_bit 30 (of_nat k) :: u64)"
    by (rule ssubst) (rule bit_word_eqI, auto simp: bit_simps)
  moreover have "take_bit 18 (of_nat k) = (of_nat k :: u64)"
    using k assms(1) by (simp add: take_bit_of_nat take_bit_nat_eq_self)
  ultimately have d: "load_le 8 (giga_tables n attr pt m) (pt + 8 * drop_bit 30 va)
      = push_bit 30 (take_bit 18 (of_nat k)) OR (ATTR (attr k) OR 1)"
    unfolding va giga_tables_entry(1) [OF assms(1) k] by (simp add: or.assoc)
  note a = attr_entry [OF assms(3) [folded k_def]]
  note b = block_descriptor [of 30 "ATTR (attr k) OR 1" 18 "of_nat k", OF _ _ a(1)]
  have "push_bit 30 (take_bit 18 (drop_bit 30 (push_bit 30 (take_bit 18 (of_nat k)) OR (ATTR (attr k) OR 1)))) OR take_bit 30 va = va"
  proof -
    have "drop_bit 30 (push_bit 30 (take_bit 18 (of_nat k :: u64))) = take_bit 18 (of_nat k)"
      by (rule bit_word_eqI) (auto simp: bit_simps)
    then show ?thesis using b(1) split_address [of 30 va] \<open>take_bit 18 (of_nat k) = (of_nat k :: u64)\<close> by (simp add: va)
  qed
  then show ?thesis
    unfolding translate_def Let_def d using b(2,3) a(2,3) by (simp add: k_def)
qed

end
