(* ===== verification/Clib.thy ===== *)
theory Clib
  imports Prelude
begin

text \<open>
  The freestanding C library of the firmware: the string and memory functions of
  src/lib.c and src/chainload/compat.c, over byte-addressed memory. A length is a
  natural number (a \<open>size_t\<close> is below \<open>2 ^ 64\<close>), a \<open>NULL\<close> result is \<open>None\<close>. The
  loops that move a pointer are recursions that move an address.
\<close>

subsection \<open>Strings (compat.c)\<close>

text \<open>
  \<open>strlen\<close> runs until it reads a zero. A memory without any zero byte would make the C
  loop run forever; the recursion stops once all \<open>2 ^ 64\<close> addresses were read.
\<close>

function strlen_from :: "mem \<Rightarrow> addr \<Rightarrow> nat \<Rightarrow> nat" where
  "strlen_from m s i =
     (if 18446744073709551616 \<le> i \<or> m (s + of_nat i) = 0 then i else strlen_from m s (i + 1))"
  by pat_completeness auto
termination by (relation "measure (\<lambda>(m, s, i). 18446744073709551616 - i)") auto

declare strlen_from.simps [simp del]

definition strlen :: "mem \<Rightarrow> addr \<Rightarrow> nat" where
  "strlen m s = strlen_from m s 0"

fun strnlen :: "mem \<Rightarrow> addr \<Rightarrow> nat \<Rightarrow> nat" where
  "strnlen m s maxlen =
     (if maxlen = 0 \<or> m s = 0 then 0 else 1 + strnlen m (s + 1) (maxlen - 1))"

declare strnlen.simps [simp del]

fun memchr :: "mem \<Rightarrow> addr \<Rightarrow> u8 \<Rightarrow> nat \<Rightarrow> addr option" where
  "memchr m s c len =
     (if len = 0 then None
      else if m s = c then Some s
      else memchr m (s + 1) c (len - 1))"

declare memchr.simps [simp del]

text \<open>\<open>strrchr\<close> looks at the terminating zero too, and keeps the last match.\<close>

fun strrchr_upto :: "mem \<Rightarrow> addr \<Rightarrow> u8 \<Rightarrow> nat \<Rightarrow> addr option \<Rightarrow> addr option" where
  "strrchr_upto m s c n last' =
     (let last' = (if m s = c then Some s else last')
      in if n = 0 then last' else strrchr_upto m (s + 1) c (n - 1) last')"

declare strrchr_upto.simps [simp del]

definition strrchr :: "mem \<Rightarrow> addr \<Rightarrow> u8 \<Rightarrow> addr option" where
  "strrchr m s c = strrchr_upto m s c (strlen m s) None"

text \<open>\<open>strcpy\<close> (lib.c) from a string that is not in the memory of the model.\<close>

primrec strcpy_lit :: "mem \<Rightarrow> addr \<Rightarrow> bytes \<Rightarrow> mem" where
  "strcpy_lit m d [] = m(d := 0)"
| "strcpy_lit m d (c # cs) = strcpy_lit (m(d := c)) (d + 1) cs"

text \<open>The characters of a C string, without its terminator, and of a literal.\<close>

definition c_string :: "mem \<Rightarrow> addr \<Rightarrow> bytes" where
  "c_string m s = read_bytes m s (strlen m s)"

definition cstr :: "string \<Rightarrow> bytes" where
  "cstr s = map of_char s"

subsection \<open>Copies and comparisons\<close>

fun memset :: "mem \<Rightarrow> addr \<Rightarrow> u8 \<Rightarrow> nat \<Rightarrow> mem" where
  "memset m ptr v len = (if len = 0 then m else memset (m(ptr := v)) (ptr + 1) v (len - 1))"

declare memset.simps [simp del]

text \<open>
  \<open>memcpy\<close> of src/lib.c: a loop over 64-bit words, taken when its alignment test lets it,
  and a byte loop for the rest. The test masks the addresses with the complement of
  \<open>0xf\<close>, so it asks for both pointers to be below 16.
\<close>

fun copy_forward :: "mem \<Rightarrow> addr \<Rightarrow> addr \<Rightarrow> nat \<Rightarrow> mem" where
  "copy_forward m dst src len =
     (if len = 0 then m else copy_forward (m(dst := m src)) (dst + 1) (src + 1) (len - 1))"

declare copy_forward.simps [simp del]

fun copy_words :: "mem \<Rightarrow> addr \<Rightarrow> addr \<Rightarrow> nat \<Rightarrow> mem \<times> addr \<times> addr \<times> nat" where
  "copy_words m ldest lsrc count =
     (if count \<ge> 8
      then copy_words (write_bytes m ldest (read_bytes m lsrc 8)) (ldest + 8) (lsrc + 8) (count - 8)
      else (m, ldest, lsrc, count))"

declare copy_words.simps [simp del]

definition memcpy :: "mem \<Rightarrow> addr \<Rightarrow> addr \<Rightarrow> nat \<Rightarrow> mem" where
  "memcpy m dest src count =
     (if src AND NOT 0xf = 0 \<and> dest AND NOT 0xf = 0
      then case copy_words m dest src count of
             (m', dst8, src8, rest) \<Rightarrow> copy_forward m' dst8 src8 rest
      else copy_forward m dest src count)"

fun copy_backward :: "mem \<Rightarrow> addr \<Rightarrow> addr \<Rightarrow> nat \<Rightarrow> mem" where
  "copy_backward m dst src len =
     (if len = 0 then m
      else copy_backward (m(dst - 1 := m (src - 1))) (dst - 1) (src - 1) (len - 1))"

declare copy_backward.simps [simp del]

definition memmove :: "mem \<Rightarrow> addr \<Rightarrow> addr \<Rightarrow> nat \<Rightarrow> mem" where
  "memmove m dst src len =
     (if dst < src then copy_forward m dst src len
      else if dst > src then copy_backward m (dst + of_nat len) (src + of_nat len) len
      else m)"

fun memcmp :: "mem \<Rightarrow> addr \<Rightarrow> addr \<Rightarrow> nat \<Rightarrow> int" where
  "memcmp m a b count =
     (if count = 0 then 0
      else if m a \<noteq> m b then uint (m a) - uint (m b)
      else memcmp m (a + 1) (b + 1) (count - 1))"

declare memcmp.simps [simp del]

text \<open>The comparison of memory with a string the program holds elsewhere (a literal).\<close>

definition memcmp_lit :: "mem \<Rightarrow> addr \<Rightarrow> bytes \<Rightarrow> bool" where
  "memcmp_lit m p s \<longleftrightarrow> read_bytes m p (length s) = s"

subsection \<open>What they compute\<close>

lemma strnlen_le: "strnlen m s n \<le> n"
  by (induction m s n rule: strnlen.induct) (subst strnlen.simps, auto)

lemma strnlen_nonzero: "i < strnlen m s n \<Longrightarrow> m (s + of_nat i) \<noteq> 0"
proof (induction m s n arbitrary: i rule: strnlen.induct)
  case (1 m s n)
  from "1.prems" have n: "n \<noteq> 0" "m s \<noteq> 0"
    by (auto simp: strnlen.simps [of m s n] split: if_splits)
  show ?case
  proof (cases i)
    case 0
    with n show ?thesis by simp
  next
    case (Suc j)
    with "1.prems" n have "j < strnlen m (s + 1) (n - 1)"
      by (simp add: strnlen.simps [of m s n])
    from "1.IH" [OF _ this] n Suc show ?thesis by (simp add: add.assoc)
  qed
qed

lemma strnlen_stop: "strnlen m s n < n \<Longrightarrow> m (s + of_nat (strnlen m s n)) = 0"
proof (induction m s n rule: strnlen.induct)
  case (1 m s n)
  show ?case
  proof (cases "n = 0 \<or> m s = 0")
    case True
    with "1.prems" show ?thesis by (auto simp: strnlen.simps [of m s n])
  next
    case False
    with "1.prems" "1.IH" have "m (s + 1 + of_nat (strnlen m (s + 1) (n - 1))) = 0"
      by (simp add: strnlen.simps [of m s n])
    with False show ?thesis by (simp add: strnlen.simps [of m s n] add.assoc)
  qed
qed

lemma memset_write: "n \<le> 18446744073709551616 \<Longrightarrow> memset m p v n = write_bytes m p (replicate n v)"
proof (induction n arbitrary: m p)
  case 0
  show ?case by (simp add: memset.simps)
next
  case (Suc n)
  then show ?case
    by (subst memset.simps) (simp add: write_bytes_Cons)
qed

lemma copy_forward_write:
  assumes "n \<le> 18446744073709551616"
    and "\<And>i j. i < j \<Longrightarrow> j < n \<Longrightarrow> dst + of_nat i \<noteq> src + of_nat j"
  shows "copy_forward m dst src n = write_bytes m dst (read_bytes m src n)"
  using assms
proof (induction n arbitrary: m dst src)
  case 0
  show ?case by (simp add: copy_forward.simps)
next
  case (Suc n)
  have read: "read_bytes (m(dst := m src)) (src + 1) n = read_bytes m (src + 1) n"
  proof (rule read_bytes_cong)
    fix j assume "j < n"
    then have "dst \<noteq> src + of_nat (Suc j)" using Suc.prems(2) [of 0 "Suc j"] by simp
    then show "(m(dst := m src)) (src + 1 + of_nat j) = m (src + 1 + of_nat j)"
      by (simp add: add.assoc)
  qed
  have "copy_forward (m(dst := m src)) (dst + 1) (src + 1) n
      = write_bytes (m(dst := m src)) (dst + 1) (read_bytes (m(dst := m src)) (src + 1) n)"
  proof (rule Suc.IH)
    fix i j assume "i < j" "j < n"
    then show "dst + 1 + of_nat i \<noteq> src + 1 + of_nat j"
      using Suc.prems(2) [of "Suc i" "Suc j"] by (simp add: algebra_simps)
  qed (use Suc.prems(1) in simp)
  with Suc.prems(1) show ?case
    by (subst copy_forward.simps) (simp add: read read_bytes_Suc write_bytes_Cons)
qed

lemma copy_backward_write:
  assumes "n \<le> 18446744073709551616"
    and "\<And>i j. j < i \<Longrightarrow> i < n \<Longrightarrow> dst + of_nat i \<noteq> src + of_nat j"
  shows "copy_backward m (dst + of_nat n) (src + of_nat n) n = write_bytes m dst (read_bytes m src n)"
  using assms
proof (induction n arbitrary: m)
  case 0
  show ?case by (simp add: copy_backward.simps)
next
  case (Suc n)
  let ?m = "m(dst + of_nat n := m (src + of_nat n))"
  have read: "read_bytes ?m src n = read_bytes m src n"
  proof (rule read_bytes_cong)
    fix j assume "j < n"
    then show "?m (src + of_nat j) = m (src + of_nat j)" using Suc.prems(2) [of j n] by auto
  qed
  have "copy_backward m (dst + of_nat (Suc n)) (src + of_nat (Suc n)) (Suc n)
      = copy_backward ?m (dst + of_nat n) (src + of_nat n) n"
    by (subst copy_backward.simps) (simp add: algebra_simps)
  also have "\<dots> = write_bytes ?m dst (read_bytes ?m src n)"
    by (rule Suc.IH) (use Suc.prems in auto)
  also have "\<dots> = write_bytes m dst (read_bytes m src (n + 1))"
    unfolding read read_bytes_append using Suc.prems(1)
    by (simp add: write_bytes_snoc read_bytes_Suc)
  finally show ?case by simp
qed

text \<open>
  \<open>memmove\<close> of two ranges that do not wrap around stores at the destination what the
  source held before, however they overlap.
\<close>

lemma memmove_write:
  assumes "unat dst + n \<le> 18446744073709551616" and "unat src + n \<le> 18446744073709551616"
  shows "memmove m dst src n = write_bytes m dst (read_bytes m src n)"
proof -
  have at: "unat (p + of_nat i) = unat p + i"
    if "unat p + n \<le> 18446744073709551616" and "i < n" for p :: addr and i
    using that by (simp add: unat_word_ariths unat_of_nat_u64)
  show ?thesis
  proof (cases dst src rule: linorder_cases)
    case less
    have "copy_forward m dst src n = write_bytes m dst (read_bytes m src n)"
    proof (rule copy_forward_write)
      fix i j assume "i < j" "j < n"
      then have "unat (dst + of_nat i) < unat (src + of_nat j)"
        using less assms at by (simp add: word_less_nat_alt)
      then show "dst + of_nat i \<noteq> src + of_nat j" by auto
    qed (use assms in simp)
    with less show ?thesis by (simp add: memmove_def)
  next
    case greater
    have "copy_backward m (dst + of_nat n) (src + of_nat n) n = write_bytes m dst (read_bytes m src n)"
    proof (rule copy_backward_write)
      fix i j assume "j < i" "i < n"
      then have "unat (src + of_nat j) < unat (dst + of_nat i)"
        using greater assms at by (simp add: word_less_nat_alt)
      then show "dst + of_nat i \<noteq> src + of_nat j" by auto
    qed (use assms in simp)
    with greater show ?thesis by (auto simp: memmove_def)
  next
    case equal
    have "write_bytes m src (read_bytes m src n) = m"
      by (auto simp: write_bytes_def Let_def fun_eq_iff)
    with equal show ?thesis by (simp add: memmove_def)
  qed
qed

lemma copy_words_write:
  assumes "n \<le> 18446744073709551616"
    and "\<And>i j. i < n \<Longrightarrow> j < n \<Longrightarrow> d + of_nat i \<noteq> s + of_nat j"
  shows "(case copy_words m d s n of (m', d', s', r) \<Rightarrow> copy_forward m' d' s' r)
       = write_bytes m d (read_bytes m s n)"
  using assms
proof (induction m d s n rule: copy_words.induct)
  case (1 m d s n)
  show ?case
  proof (cases "n \<ge> 8")
    case False
    then show ?thesis
      by (subst copy_words.simps) (simp add: copy_forward_write "1.prems")
  next
    case True
    let ?m = "write_bytes m d (read_bytes m s 8)"
    have read: "read_bytes ?m (s + 8) (n - 8) = read_bytes m (s + 8) (n - 8)"
    proof (rule read_bytes_cong)
      fix j assume j: "j < n - 8"
      have "\<not> in_range_of d (length (read_bytes m s 8)) (s + 8 + of_nat j)"
      proof
        assume "in_range_of d (length (read_bytes m s 8)) (s + 8 + of_nat j)"
        then have less: "unat (s + 8 + of_nat j - d) < 8" by (simp add: in_range_of_def)
        have "d + of_nat (unat (s + 8 + of_nat j - d)) = s + of_nat (8 + j)" by simp
        moreover have "8 + j < n" "unat (s + 8 + of_nat j - d) < n" using less j True by linarith+
        ultimately show False using "1.prems"(2) by blast
      qed
      then show "?m (s + 8 + of_nat j) = m (s + 8 + of_nat j)" by (rule write_bytes_outside)
    qed
    have "(case copy_words ?m (d + 8) (s + 8) (n - 8) of (m', d', s', r) \<Rightarrow> copy_forward m' d' s' r)
        = write_bytes ?m (d + 8) (read_bytes ?m (s + 8) (n - 8))"
    proof (rule "1.IH" [OF True])
      fix i j assume "i < n - 8" "j < n - 8"
      with "1.prems"(2) [of "i + 8" "j + 8"] show "d + 8 + of_nat i \<noteq> s + 8 + of_nat j"
        by (auto simp: algebra_simps)
    qed (use "1.prems" in simp)
    also have "\<dots> = write_bytes m d (read_bytes m s 8 @ read_bytes m (s + 8) (n - 8))"
      unfolding read using write_bytes_append [of "read_bytes m s 8" "read_bytes m (s + 8) (n - 8)" m d]
        "1.prems"(1) True by simp
    also have "read_bytes m s 8 @ read_bytes m (s + 8) (n - 8) = read_bytes m s n"
      using read_bytes_append [of m s 8 "n - 8"] True by simp
    finally show ?thesis using True by (subst copy_words.simps) simp
  qed
qed

text \<open>\<open>memcpy\<close> of disjoint ranges stores the source bytes, on either path.\<close>

lemma memcpy_write:
  assumes "n \<le> 18446744073709551616" and "disjoint_ranges dst n src n"
  shows "memcpy m dst src n = write_bytes m dst (read_bytes m src n)"
proof -
  have sep: "dst + of_nat i \<noteq> src + of_nat j" if "i < n" "j < n" for i j
    using assms(2) in_range_of_add [OF that(1) assms(1), of dst]
      in_range_of_add [OF that(2) assms(1), of src]
    by (auto simp: disjoint_ranges_def)
  show ?thesis
    using copy_words_write [OF assms(1) sep] copy_forward_write [OF assms(1), of dst src]
    by (simp add: memcpy_def sep)
qed

lemma memcmp_zero_iff: "memcmp m a b n = 0 \<longleftrightarrow> read_bytes m a n = read_bytes m b n"
proof (induction n arbitrary: a b)
  case 0
  show ?case by (simp add: memcmp.simps)
next
  case (Suc n)
  then show ?case
    by (subst memcmp.simps) (simp add: read_bytes_Suc unsigned_word_eqI word_uint_eq_iff)
qed

lemma memchr_Some:
  assumes "memchr m s c n = Some p"
  shows "m p = c" and "\<exists>i<n. p = s + of_nat i"
proof -
  from assms have "m p = c \<and> (\<exists>i<n. p = s + of_nat i)"
  proof (induction m s c n rule: memchr.induct)
    case (1 m s c n)
    show ?case
    proof (cases "n = 0 \<or> m s = c")
      case True
      with "1.prems" show ?thesis
        by (auto simp: memchr.simps [of m s] split: if_splits intro!: exI [of _ 0])
    next
      case False
      with "1.prems" have "memchr m (s + 1) c (n - 1) = Some p"
        by (simp add: memchr.simps [of m s])
      with "1.IH" False obtain i where "m p = c" "i < n - 1" "p = s + 1 + of_nat i" by auto
      then show ?thesis by (intro conjI exI [of _ "Suc i"]) (simp_all add: add.assoc)
    qed
  qed
  then show "m p = c" and "\<exists>i<n. p = s + of_nat i" by auto
qed

lemma memchr_None: "memchr m s c n = None \<Longrightarrow> i < n \<Longrightarrow> m (s + of_nat i) \<noteq> c"
proof (induction m s c n arbitrary: i rule: memchr.induct)
  case (1 m s c n)
  from "1.prems" have hd: "m s \<noteq> c" "memchr m (s + 1) c (n - 1) = None"
    by (auto simp: memchr.simps [of m s] split: if_splits)
  show ?case
  proof (cases i)
    case 0
    with hd show ?thesis by simp
  next
    case (Suc j)
    with "1.IH" [of j] hd "1.prems" show ?thesis by (simp add: add.assoc)
  qed
qed

lemma strlen_from_eqI:
  assumes "m (s + of_nat n) = 0" and "\<And>j. i \<le> j \<Longrightarrow> j < n \<Longrightarrow> m (s + of_nat j) \<noteq> 0"
    and "i \<le> n" and "n < 18446744073709551616"
  shows "strlen_from m s i = n"
  using assms
proof (induction m s i rule: strlen_from.induct)
  case (1 m s i)
  show ?case
  proof (cases "i = n")
    case True
    with "1.prems" show ?thesis by (simp add: strlen_from.simps)
  next
    case False
    with "1.prems" have "m (s + of_nat i) \<noteq> 0" "i < n" by auto
    with "1.IH" "1.prems" False show ?thesis
      by (subst strlen_from.simps) auto
  qed
qed

lemma strlen_eqI:
  "m (s + of_nat n) = 0 \<Longrightarrow> (\<And>j. j < n \<Longrightarrow> m (s + of_nat j) \<noteq> 0) \<Longrightarrow>
   n < 18446744073709551616 \<Longrightarrow> strlen m s = n"
  unfolding strlen_def by (rule strlen_from_eqI) auto

text \<open>Within a range that holds a zero, \<open>strlen\<close> and \<open>strnlen\<close> agree.\<close>

lemma strlen_strnlen:
  "strnlen m s n < n \<Longrightarrow> n \<le> 18446744073709551616 \<Longrightarrow> strlen m s = strnlen m s n"
  by (rule strlen_eqI) (auto dest: strnlen_stop strnlen_nonzero)

lemma strcpy_lit_write: "length cs < 18446744073709551615 \<Longrightarrow> strcpy_lit m d cs = write_bytes m d (cs @ [0])"
  by (induction cs arbitrary: m d) (simp_all add: write_bytes_single write_bytes_Cons)

lemma c_string_eqI:
  assumes "\<And>i. i \<le> length cs \<Longrightarrow> m (d + of_nat i) = (cs @ [0]) ! i"
    and "list_all (\<lambda>c. c \<noteq> 0) cs" and "length cs < 18446744073709551615"
  shows "c_string m d = cs"
proof -
  have "strlen m d = length cs"
  proof (rule strlen_eqI)
    show "m (d + of_nat (length cs)) = 0" using assms(1) [of "length cs"] by simp
    show "m (d + of_nat j) \<noteq> 0" if "j < length cs" for j
      using assms(1) [of j] that assms(2) by (simp add: nth_append list_all_length)
  qed (use assms in simp)
  moreover have "read_bytes m d (length cs) = cs"
    by (rule nth_equalityI) (simp_all add: read_bytes_def assms(1) nth_append)
  ultimately show ?thesis by (simp add: c_string_def)
qed

lemma strcpy_lit_at: "i \<le> length cs \<Longrightarrow> length cs < 18446744073709551615 \<Longrightarrow> strcpy_lit m d cs (d + of_nat i) = (cs @ [0]) ! i"
  by (simp add: strcpy_lit_write write_bytes_at)

lemma strcpy_lit_outside: "length cs < 18446744073709551615 \<Longrightarrow> \<not> in_range_of d (length cs + 1) x \<Longrightarrow> strcpy_lit m d cs x = m x"
  by (simp add: strcpy_lit_write write_bytes_outside)

lemma load_memset:
  assumes "k + l \<le> n" and "n < 18446744073709551616"
  shows "load_le l (memset m a 0 n) (a + of_nat k) = 0"
proof -
  have "read_bytes (memset m a 0 n) (a + of_nat k) l ! i = 0" if "i < l" for i
    using assms that write_bytes_at [of "k + i" "replicate n 0" m a]
    by (simp add: memset_write add.assoc)
  then have "set (read_bytes (memset m a 0 n) (a + of_nat k) l) \<subseteq> {0}"
    by (auto simp: in_set_conv_nth)
  then show ?thesis by (simp add: load_le_def le_value_zeros)
qed

end
