(* ===== verification/Console.thy ===== *)
theory Console
  imports Mmio Clib
begin

text \<open>
  Text output: the UART driver (src/pl011.c) and the printing functions of src/lib.c that
  end in it. A string argument is the list of its characters, without the terminator. A
  buffer that is passed to a function is a map from offsets to bytes, so that an access in
  front of the buffer is a negative offset. Output waits for the transmitter, so these
  functions return an option.
\<close>

subsection \<open>The UART (pl011.c)\<close>

text \<open>The offsets in \<open>struct Uart\<close>.\<close>

abbreviation (input) UART_RBR :: addr where "UART_RBR \<equiv> 0x00"
abbreviation (input) UART_IER :: addr where "UART_IER \<equiv> 0x04"
abbreviation (input) UART_FCR :: addr where "UART_FCR \<equiv> 0x08"
abbreviation (input) UART_LCR :: addr where "UART_LCR \<equiv> 0x0c"
abbreviation (input) UART_MCR :: addr where "UART_MCR \<equiv> 0x10"
abbreviation (input) UART_LSR :: addr where "UART_LSR \<equiv> 0x14"
abbreviation (input) UART_USR :: addr where "UART_USR \<equiv> 0x7c"
abbreviation (input) UART_SRR :: addr where "UART_SRR \<equiv> 0x88"
abbreviation (input) UART_SFE :: addr where "UART_SFE \<equiv> 0x98"
abbreviation (input) UART_SRT :: addr where "UART_SRT \<equiv> 0x9c"
abbreviation (input) UART_STET :: addr where "UART_STET \<equiv> 0xa0"

definition uart_init :: "device \<Rightarrow> addr \<Rightarrow> u32 \<Rightarrow> history \<Rightarrow> history" where
  "uart_init dev uart baud_rate t =
     (let t = write32 (uart + UART_SRR) 7 t;
          t = write32 (uart + UART_IER) 1 t;
          t = write32 (uart + UART_MCR) 3 t;
          t = write32 (uart + UART_FCR) 7 t;
          t = write32 (uart + UART_LCR) 0x83 t;
          (lcr, t) = read32 dev (uart + UART_LCR) t;
          t = write32 (uart + UART_LCR) (lcr OR 0x80) t;
          t = (if baud_rate = 115200 then write32 (uart + UART_RBR) 0xd t
               else if baud_rate = 1500000 then write32 (uart + UART_RBR) 1 t else t);
          (lcr, t) = read32 dev (uart + UART_LCR) t;
          t = write32 (uart + UART_LCR) (lcr AND NOT 0x80) t;
          t = write32 (uart + UART_SFE) 1 t;
          t = write32 (uart + UART_SRT) 1 t
      in write32 (uart + UART_STET) 1 t)"

definition uart_chr :: "device \<Rightarrow> addr \<Rightarrow> u8 \<Rightarrow> history \<Rightarrow> history option" where
  "uart_chr dev uart c t =
     do {
       (_, t) \<leftarrow> poll_until dev (uart + UART_LSR) (\<lambda>v. v AND 0x20 \<noteq> 0) t;
       Some (write32 (uart + UART_RBR) (ucast c) t)
     }"

definition uart_get :: "device \<Rightarrow> addr \<Rightarrow> history \<Rightarrow> (u32 \<times> history) option" where
  "uart_get dev uart t =
     do {
       (_, t) \<leftarrow> poll_until dev (uart + UART_USR) (\<lambda>v. v AND 8 \<noteq> 0) t;
       Some (read32 dev (uart + UART_RBR) t)
     }"

abbreviation getchar :: "device \<Rightarrow> addr \<Rightarrow> history \<Rightarrow> (u32 \<times> history) option" where
  "getchar \<equiv> uart_get"

abbreviation putchar :: "device \<Rightarrow> addr \<Rightarrow> u8 \<Rightarrow> history \<Rightarrow> history option" where
  "putchar \<equiv> uart_chr"

subsection \<open>Strings (lib.c)\<close>

fun uart_str :: "device \<Rightarrow> addr \<Rightarrow> bytes \<Rightarrow> history \<Rightarrow> history option" where
  "uart_str dev uart [] t = Some t"
| "uart_str dev uart (c # cs) t = do { t \<leftarrow> putchar dev uart c t; uart_str dev uart cs t }"

abbreviation chars :: "string \<Rightarrow> bytes" where
  "chars s \<equiv> map of_char s"

definition puts :: "device \<Rightarrow> addr \<Rightarrow> bytes \<Rightarrow> history \<Rightarrow> history option" where
  "puts dev uart str t =
     do {
       t \<leftarrow> uart_str dev uart (chars ''[UART] '') t;
       t \<leftarrow> uart_str dev uart str t;
       t \<leftarrow> putchar dev uart 10 t;
       putchar dev uart 13 t
     }"

subsection \<open>Numbers (lib.c)\<close>

text \<open>The digit characters of \<open>itoa\<close>.\<close>

definition hex :: "u64 \<Rightarrow> u8" where
  "hex d = (chars ''0123456789abcdef'') ! unat d"

text \<open>The first loop of \<open>itoa\<close>: it does not end for base 1.\<close>

partial_function (option) itoa_digits :: "(int \<Rightarrow> u8) \<Rightarrow> u64 \<Rightarrow> u64 \<Rightarrow> int \<Rightarrow> ((int \<Rightarrow> u8) \<times> int) option" where
  "itoa_digits buffer n base i =
     (let buffer = buffer(i := hex (n mod base)); i = i - 1; n = n div base
      in if n > 0 then itoa_digits buffer n base i else Some (buffer, i))"

text \<open>The second loop, \<open>while (++i < 13) buffer[j++] = buffer[i]\<close>.\<close>

function itoa_shift :: "(int \<Rightarrow> u8) \<Rightarrow> int \<Rightarrow> int \<Rightarrow> (int \<Rightarrow> u8) \<times> int" where
  "itoa_shift buffer i j =
     (let i = i + 1 in if i < 13 then itoa_shift (buffer(j := buffer i)) i (j + 1) else (buffer, j))"
  by pat_completeness auto
termination by (relation "measure (\<lambda>(buffer, i, j). nat (13 - i))") auto

declare itoa_shift.simps [simp del]

definition itoa :: "u64 \<Rightarrow> (int \<Rightarrow> u8) \<Rightarrow> u64 \<Rightarrow> (int \<Rightarrow> u8) option" where
  "itoa n buffer base =
     do {
       (buffer, i) \<leftarrow> itoa_digits buffer n base 12;
       let (buffer, j) = itoa_shift buffer i 0;
       Some (buffer(j := 0))
     }"

text \<open>The string in a buffer, from an offset on.\<close>

partial_function (option) buffer_string :: "(int \<Rightarrow> u8) \<Rightarrow> int \<Rightarrow> bytes option" where
  "buffer_string buffer i =
     (if buffer i = 0 then Some []
      else do { s \<leftarrow> buffer_string buffer (i + 1); Some (buffer i # s) })"

text \<open>The search for the highest bit of \<open>print_bits\<close> shifts by a negative amount when none
  of the lower 32 bits is set; the C standard gives that no meaning, nor has it one here.\<close>

function print_bits_start :: "u64 \<Rightarrow> int \<Rightarrow> int option" where
  "print_bits_start ptr i =
     (if i < 0 then None
      else if drop_bit (nat i) ptr AND 1 = 0 then print_bits_start ptr (i - 1) else Some i)"
  by pat_completeness auto
termination by (relation "measure (\<lambda>(ptr, i). nat (i + 1))") auto

function print_bits_loop :: "device \<Rightarrow> addr \<Rightarrow> u64 \<Rightarrow> int \<Rightarrow> history \<Rightarrow> history option" where
  "print_bits_loop dev uart ptr i t =
     (if i < 0 then Some t
      else do {
        t \<leftarrow> putchar dev uart (48 + ucast (drop_bit (nat i) ptr AND 1)) t;
        print_bits_loop dev uart ptr (i - 1) t
      })"
  by pat_completeness auto
termination by (relation "measure (\<lambda>(dev, uart, ptr, i, t). nat (i + 1))") auto

declare print_bits_start.simps [simp del] print_bits_loop.simps [simp del]

definition print_bits :: "device \<Rightarrow> addr \<Rightarrow> u64 \<Rightarrow> history \<Rightarrow> history option" where
  "print_bits dev uart ptr t =
     (if ptr = 0 then putchar dev uart 48 t
      else do {
        i \<leftarrow> print_bits_start ptr 31;
        print_bits_loop dev uart ptr i t
      })"

text \<open>The buffers are on the stack and hold anything before the call.\<close>

fun cheap_memdump :: "device \<Rightarrow> addr \<Rightarrow> (int \<Rightarrow> u8) \<Rightarrow> bytes \<Rightarrow> history \<Rightarrow> history option" where
  "cheap_memdump dev uart buffer [] t = Some t"
| "cheap_memdump dev uart buffer (b # bs) t =
     do {
       buffer \<leftarrow> itoa (ucast b) buffer 16;
       s \<leftarrow> buffer_string buffer 0;
       t \<leftarrow> uart_str dev uart s t;
       t \<leftarrow> putchar dev uart 32 t;
       cheap_memdump dev uart buffer bs t
     }"

fun sdebug_copy :: "(int \<Rightarrow> u8) \<Rightarrow> int \<Rightarrow> bytes \<Rightarrow> (int \<Rightarrow> u8) \<times> int" where
  "sdebug_copy buf i [] = (buf, i)"
| "sdebug_copy buf i (c # cs) = sdebug_copy (buf(i := c)) (i + 1) cs"

definition sdebug :: "(int \<Rightarrow> u8) \<Rightarrow> bytes \<Rightarrow> u64 \<Rightarrow> (int \<Rightarrow> u8) option" where
  "sdebug buf str reg =
     (let (buf, k) = sdebug_copy buf 0 str
      in map_option (\<lambda>b i. b (i - k)) (itoa reg (\<lambda>i. buf (i + k)) 16))"

definition debug :: "device \<Rightarrow> addr \<Rightarrow> (int \<Rightarrow> u8) \<Rightarrow> bytes \<Rightarrow> u64 \<Rightarrow> history \<Rightarrow> history option" where
  "debug dev uart buffer str reg t =
     do {
       t \<leftarrow> uart_str dev uart (chars ''[UART] '') t;
       t \<leftarrow> uart_str dev uart str t;
       buffer \<leftarrow> itoa reg buffer 16;
       s \<leftarrow> buffer_string buffer 0;
       t \<leftarrow> uart_str dev uart s t;
       t \<leftarrow> uart_str dev uart (chars '' (0b'') t;
       t \<leftarrow> print_bits dev uart reg t;
       t \<leftarrow> putchar dev uart 41 t;
       t \<leftarrow> putchar dev uart 10 t;
       putchar dev uart 13 t
     }"

subsection \<open>What is sent\<close>

text \<open>The transmitter of the UART gets ready after finitely many reads of its status.\<close>

definition uart_ready :: "device \<Rightarrow> addr \<Rightarrow> bool" where
  "uart_ready dev uart \<longleftrightarrow>
     (\<forall>t. \<exists>n. dev_rd dev (after_reads dev (uart + UART_LSR) n t) (uart + UART_LSR) AND 0x20 \<noteq> 0)"

text \<open>Every byte goes out right after the status register showed a free transmitter.\<close>

fun sent_when_free :: "addr \<Rightarrow> history \<Rightarrow> bool" where
  "sent_when_free uart [] \<longleftrightarrow> True"
| "sent_when_free uart (e # t) \<longleftrightarrow> sent_when_free uart t \<and>
     (\<forall>v. e = Write32 (uart + UART_RBR) v \<longrightarrow>
        (\<exists>s t'. t = Read32 (uart + UART_LSR) s # t' \<and> s AND 0x20 \<noteq> 0))"

text \<open>What an output routine does: it returns when the UART gets ready, and if it returns the
  history goes on with these characters, each sent to a free transmitter.\<close>

definition outputs :: "device \<Rightarrow> addr \<Rightarrow> (history \<Rightarrow> history option) \<Rightarrow> bytes \<Rightarrow> bool" where
  "outputs dev uart f cs \<longleftrightarrow>
     (uart_ready dev uart \<longrightarrow> (\<forall>t. f t \<noteq> None)) \<and>
     (\<forall>t t'. f t = Some t' \<longrightarrow> writes_to uart t' = writes_to uart t @ map ucast cs \<and>
        (sent_when_free uart t \<longrightarrow> sent_when_free uart t') \<and> (\<exists>new. t' = new @ t))"

lemma outputsD:
  assumes "outputs dev uart f cs"
  shows "uart_ready dev uart \<Longrightarrow> \<exists>t'. f t = Some t'"
    and "f t = Some t' \<Longrightarrow> writes_to uart t' = writes_to uart t @ map ucast cs"
    and "f t = Some t' \<Longrightarrow> sent_when_free uart t \<Longrightarrow> sent_when_free uart t'"
    and "f t = Some t' \<Longrightarrow> \<exists>new. t' = new @ t"
  using assms unfolding outputs_def by blast+

lemma sent_when_free_reads [simp]:
  "sent_when_free uart (after_reads dev a n t) = sent_when_free uart t"
  by (induction n arbitrary: t) (simp_all add: read32_def)

lemma outputs_putchar: "outputs dev uart (putchar dev uart c) [c]"
proof -
  let ?ready = "\<lambda>v :: u32. v AND 0x20 \<noteq> 0" and ?lsr = "uart + UART_LSR"
  have "putchar dev uart c t \<noteq> None" if ready: "uart_ready dev uart" for t
  proof -
    obtain n where "?ready (dev_rd dev (after_reads dev ?lsr n t) ?lsr)"
      using ready unfolding uart_ready_def by blast
    from poll_until_returns [where ready = ?ready, OF this] obtain v t1
      where "poll_until dev ?lsr ?ready t = Some (v, t1)" by blast
    then show ?thesis by (simp add: uart_chr_def)
  qed
  moreover have "writes_to uart t' = writes_to uart t @ map ucast [c] \<and>
      (sent_when_free uart t \<longrightarrow> sent_when_free uart t') \<and> (\<exists>new. t' = new @ t)" if put: "putchar dev uart c t = Some t'" for t t'
  proof -
    obtain v t1 where p: "poll_until dev ?lsr ?ready t = Some (v, t1)" and t': "t' = write32 uart (ucast c) t1"
      using put by (auto simp: uart_chr_def split: bind_splits)
    from poll_until_Some [OF p] obtain n where "?ready v" "t1 = Read32 ?lsr v # after_reads dev ?lsr n t"
      by blast
    moreover have "\<exists>new. x # y # after_reads dev ?lsr n t = new @ t" for x y
      using after_reads_extends [of dev ?lsr n t] by (metis append_Cons)
    ultimately show ?thesis by (simp add: t' write32_def)
  qed
  ultimately show ?thesis by (simp add: outputs_def)
qed

lemma outputs_Nil: "outputs dev uart Some []"
  by (simp add: outputs_def)

lemma outputs_bind:
  assumes "outputs dev uart f xs" and "outputs dev uart g ys"
  shows "outputs dev uart (\<lambda>t. f t \<bind> g) (xs @ ys)"
  using assms unfolding outputs_def by (fastforce split: bind_splits)

lemma outputs_uart_str: "outputs dev uart (uart_str dev uart cs) cs"
proof (induction cs)
  case (Cons c cs)
  from outputs_bind [OF outputs_putchar Cons] show ?case by simp
qed (simp add: outputs_def)

lemma outputs_puts: "outputs dev uart (puts dev uart str) (chars ''[UART] '' @ str @ [10, 13])"
proof -
  have "outputs dev uart (puts dev uart str) (chars ''[UART] '' @ str @ [10] @ [13])"
    unfolding puts_def by (intro outputs_bind outputs_uart_str outputs_putchar)
  then show ?thesis by simp
qed

text \<open>What \<open>puts\<close> sends for a string.\<close>

definition puts_text :: "bytes \<Rightarrow> bytes" where
  "puts_text str = chars ''[UART] '' @ str @ [10, 13]"

lemma outputs_puts_text: "outputs dev uart (puts dev uart str) (puts_text str)"
  unfolding puts_text_def by (rule outputs_puts)

subsection \<open>Digits\<close>

function digits :: "nat \<Rightarrow> nat \<Rightarrow> nat list" where
  "digits b n = (if n < b \<or> b < 2 then [n] else digits b (n div b) @ [n mod b])"
  by pat_completeness auto
termination by (relation "measure snd") auto

declare digits.simps [simp del]

text \<open>The digits are a representation of the number, without leading zeros.\<close>

lemma digits_value: "2 \<le> b \<Longrightarrow> foldl (\<lambda>v d. v * b + d) 0 (digits b n) = n"
proof (induction b n rule: digits.induct)
  case (1 b n)
  then show ?case by (cases "n < b") (auto simp: digits.simps [of b n])
qed

lemma digits_less: "2 \<le> b \<Longrightarrow> d \<in> set (digits b n) \<Longrightarrow> d < b"
proof (induction b n rule: digits.induct)
  case (1 b n)
  then show ?case by (cases "n < b") (auto simp: digits.simps [of b n])
qed

lemma digits_length: "2 \<le> b \<Longrightarrow> n < b ^ k \<Longrightarrow> 0 < k \<Longrightarrow> length (digits b n) \<le> k"
proof (induction b n arbitrary: k rule: digits.induct)
  case (1 b n)
  show ?case
  proof (cases "n < b")
    case True
    with 1 show ?thesis by (simp add: digits.simps [of b n])
  next
    case False
    obtain j where j: "k = Suc j" using "1.prems" by (cases k) auto
    then have k: "k = Suc j" "0 < j" using False "1.prems" by (cases j; simp)+
    then have "n div b < b ^ j" using "1.prems" by (simp add: div_less_iff_less_mult mult.commute)
    with 1 False k show ?thesis by (simp add: digits.simps [of b n])
  qed
qed

lemma digits_less_power: "2 \<le> b \<Longrightarrow> n < b ^ length (digits b n)"
proof (induction b n rule: digits.induct)
  case (1 b n)
  then show ?case
    by (cases "n < b") (auto simp: digits.simps [of b n] div_less_iff_less_mult mult.commute)
qed

lemma digits_not_Nil: "digits b n \<noteq> []"
  by (subst digits.simps) simp

subsection \<open>itoa\<close>

lemma hex_nonzero: "d < 16 \<Longrightarrow> hex (of_nat d) \<noteq> 0"
proof -
  assume "d < 16"
  then have "d \<in> set [0..<16]" by simp
  moreover have "\<forall>d \<in> set [0..<16]. hex (of_nat d) \<noteq> 0" by (simp add: upt_rec hex_def)
  ultimately show ?thesis by blast
qed

text \<open>The buffer with the digits \<open>ds\<close> before and at offset \<open>i\<close>.\<close>

definition put_digits :: "(int \<Rightarrow> u8) \<Rightarrow> int \<Rightarrow> nat list \<Rightarrow> int \<Rightarrow> u8" where
  "put_digits buf i ds = (\<lambda>k. if i - int (length ds) < k \<and> k \<le> i
     then hex (of_nat (ds ! nat (k - (i - int (length ds)) - 1))) else buf k)"

lemma put_digits_snoc:
  "put_digits (buf(i := hex (of_nat d))) (i - 1) ds = put_digits buf i (ds @ [d])"
  by (auto simp: put_digits_def fun_eq_iff nth_append)

lemma put_digits_single: "buf(i := hex (of_nat d)) = put_digits buf i [d]"
  by (auto simp: put_digits_def fun_eq_iff)

lemma itoa_digits_eq:
  assumes "2 \<le> base"
  shows "itoa_digits buf n base i = Some (put_digits buf i (digits (unat base) (unat n)),
     i - int (length (digits (unat base) (unat n))))"
proof (induction "unat n" arbitrary: n buf i rule: less_induct)
  case less
  have b: "2 \<le> unat base" using assms by (simp add: word_le_nat_alt)
  have m: "n mod base = of_nat (unat n mod unat base)" by (simp add: unat_mod [symmetric])
  note step = itoa_digits.simps [of buf n base i, unfolded Let_def]
  show ?case
  proof (cases "unat n < unat base")
    case True
    then have "unat (n div base) = 0" by (simp add: unat_div)
    then have "\<not> n div base > 0" by (simp only: word_less_nat_alt unat_0 less_irrefl not_False_eq_True)
    moreover have "digits (unat base) (unat n) = [unat n mod unat base]"
      using True by (simp add: digits.simps [of _ "unat n"])
    ultimately show ?thesis by (simp add: step m put_digits_single)
  next
    case False
    then have d: "unat (n div base) = unat n div unat base" "0 < unat (n div base)"
      using b by (simp_all add: unat_div div_greater_zero_iff)
    then have "unat (n div base) < unat n" using b False by simp
    note ih = less [OF this, of "buf(i := hex (n mod base))" "i - 1"]
    have ds: "digits (unat base) (unat n)
        = digits (unat base) (unat (n div base)) @ [unat n mod unat base]"
      using False b by (simp add: digits.simps [of _ "unat n"] d(1))
    have "n div base > 0" using d(2) by (simp only: word_less_nat_alt unat_0)
    then show ?thesis
      by (simp only: step if_True ih ds) (simp add: m put_digits_snoc)
  qed
qed

lemma itoa_shift_eq:
  "j \<le> i + 1 \<Longrightarrow> i \<le> 12 \<Longrightarrow> itoa_shift buf i j =
     (\<lambda>k. if j \<le> k \<and> k < j + (12 - i) then buf (k - j + i + 1) else buf k, j + (12 - i))"
proof (induction buf i j rule: itoa_shift.induct)
  case (1 buf i j)
  show ?case
  proof (cases "i + 1 < 13")
    case False
    with "1.prems" have "i = 12" by simp
    with "1.prems" show ?thesis by (subst itoa_shift.simps) (auto simp: fun_eq_iff)
  next
    case True
    have "itoa_shift buf i j = itoa_shift (buf(j := buf (i + 1))) (i + 1) (j + 1)"
      using True by (simp add: itoa_shift.simps [of buf i j] Let_def)
    also have "\<dots> = (\<lambda>k. if j + 1 \<le> k \<and> k < j + 1 + (12 - (i + 1))
        then (buf(j := buf (i + 1))) (k - (j + 1) + (i + 1) + 1) else (buf(j := buf (i + 1))) k,
        j + 1 + (12 - (i + 1)))"
      by (rule "1.IH") (use True "1.prems" in auto)
    finally show ?thesis using True "1.prems" by (simp only: prod.inject) (auto simp: fun_eq_iff algebra_simps)
  qed
qed

lemma buffer_string_eq:
  "(\<And>k. k < n \<Longrightarrow> buf (i + int k) \<noteq> 0) \<Longrightarrow> buf (i + int n) = 0 \<Longrightarrow>
   buffer_string buf i = Some (map (\<lambda>k. buf (i + int k)) [0..<n])"
proof (induction n arbitrary: i)
  case 0
  then show ?case by (simp add: buffer_string.simps [of buf i])
next
  case (Suc n)
  have "buffer_string buf (i + 1) = Some (map (\<lambda>k. buf (i + 1 + int k)) [0..<n])"
    using Suc.prems(1) [of "Suc k" for k] Suc.prems(2) by (intro Suc.IH) (auto simp: add.assoc)
  moreover have "map (\<lambda>k. buf (i + int k)) [0..<Suc n] = buf i # map (\<lambda>k. buf (i + 1 + int k)) [0..<n]"
    by (simp add: upt_conv_Cons map_Suc_upt [symmetric] comp_def add.assoc del: upt_Suc)
  ultimately show ?case using Suc.prems(1) [of 0] by (simp add: buffer_string.simps [of buf i])
qed

text \<open>With at most 13 digits the buffer holds the digits' characters and a terminator, and
  nothing else but the 14 bytes from the start of the buffer has changed.\<close>

lemma itoa_string:
  assumes b: "2 \<le> base" "base \<le> 16" and n: "unat n < unat base ^ 13"
  shows "\<exists>buf'. itoa n buf base = Some buf' \<and>
     buffer_string buf' 0 = Some (map (\<lambda>d. hex (of_nat d)) (digits (unat base) (unat n))) \<and>
     (\<forall>k. k < 0 \<or> 13 < k \<longrightarrow> buf' k = buf k)"
proof -
  let ?ds = "digits (unat base) (unat n)"
  have b': "2 \<le> unat base" "unat base \<le> 16" using b by (simp_all add: word_le_nat_alt)
  have len: "length ?ds \<le> 13" "0 < length ?ds"
    using digits_length [OF b'(1) n] digits_not_Nil by simp_all
  define i where "i = 12 - int (length ?ds)"
  have i: "-1 \<le> i" "i < 12" using len by (auto simp: i_def)
  let ?b1 = "put_digits buf 12 ?ds"
  let ?b2 = "\<lambda>k. if 0 \<le> k \<and> k < int (length ?ds) then ?b1 (k + i + 1) else ?b1 k"
  have sh: "itoa_shift ?b1 i 0 = (?b2, int (length ?ds))"
    using itoa_shift_eq [of 0 i ?b1] i by (simp add: i_def fun_eq_iff)
  let ?b3 = "?b2(int (length ?ds) := 0)"
  have res: "itoa n buf base = Some ?b3"
    by (simp add: itoa_def itoa_digits_eq [OF b(1)] i_def [symmetric] sh)
  have at: "?b3 (int k) = hex (of_nat (?ds ! k))" if "k < length ?ds" for k
    using that len by (simp add: put_digits_def i_def)
  have "buffer_string ?b3 0 = Some (map (\<lambda>k. ?b3 (0 + int k)) [0..<length ?ds])"
  proof (rule buffer_string_eq)
    show "?b3 (0 + int k) \<noteq> 0" if "k < length ?ds" for k
    proof -
      have "?ds ! k < 16" using digits_less [OF b'(1) nth_mem [OF that]] b' by simp
      from hex_nonzero [OF this] show ?thesis using at [OF that] by simp
    qed
  qed simp
  also have "map (\<lambda>k. ?b3 (0 + int k)) [0..<length ?ds] = map (\<lambda>d. hex (of_nat d)) ?ds"
    by (rule nth_equalityI) (use at in simp_all)
  finally have str: "buffer_string ?b3 0 = Some (map (\<lambda>d. hex (of_nat d)) ?ds)" .
  have "?b3 k = buf k" if "k < 0 \<or> 13 < k" for k
    using that len by (auto simp: put_digits_def)
  with res str show ?thesis by blast
qed

subsection \<open>print_bits\<close>

text \<open>The binary digits are the bits.\<close>

lemma digits_bits: "digits 2 n = map (\<lambda>k. of_bool (bit n k)) (rev [0..<length (digits 2 n)])"
proof (induction "2 :: nat" n rule: digits.induct)
  case (1 n)
  show ?case
  proof (cases "n < 2")
    case True
    then have "n = 0 \<or> n = 1" by auto
    then show ?thesis by (auto simp: digits.simps [of 2 n] bit_0)
  next
    case False
    have "rev [0..<Suc l] = map Suc (rev [0..<l]) @ [0]" for l
      by (simp add: rev_map [symmetric] map_Suc_upt upt_conv_Cons del: upt_Suc)
    with 1 False show ?thesis
      by (simp add: digits.simps [of 2 n] comp_def bit_Suc bit_0 odd_iff_mod_2_eq_one del: upt_Suc)
  qed
qed

lemma digits_head: "2 \<le> b \<Longrightarrow> n \<noteq> 0 \<Longrightarrow> hd (digits b n) \<noteq> 0"
proof (induction b n rule: digits.induct)
  case (1 b n)
  then show ?case
    by (cases "n < b") (auto simp: digits.simps [of b n] hd_append digits_not_Nil div_eq_0_iff)
qed

lemma drop_bit_and_one: "(drop_bit k ptr AND 1 = (0 :: u64)) \<longleftrightarrow> \<not> bit ptr k"
  by (simp add: and_one_eq bit_iff_odd_drop_bit even_iff_mod_2_eq_zero)

lemma and_one_zero: "(ptr AND 1 = (0 :: u64)) \<longleftrightarrow> \<not> bit ptr 0"
  using drop_bit_and_one [of 0 ptr] by simp

lemma print_bits_start_eq:
  "bit ptr h \<Longrightarrow> h \<le> i \<Longrightarrow> (\<And>k. h < k \<Longrightarrow> k \<le> i \<Longrightarrow> \<not> bit ptr k) \<Longrightarrow>
   print_bits_start ptr (int i) = Some (int h)"
proof (induction "i - h" arbitrary: i)
  case 0
  then have "i = h" by simp
  with 0 show ?case by (subst print_bits_start.simps) (simp add: drop_bit_and_one and_one_zero bit_drop_bit_eq)
next
  case (Suc x)
  then have "0 < i" "\<not> bit ptr i" by auto
  moreover have "print_bits_start ptr (int (i - 1)) = Some (int h)"
    using Suc.hyps(2) Suc.prems by (intro Suc.hyps(1)) auto
  ultimately show ?case
    by (simp add: print_bits_start.simps [of ptr "int i"] drop_bit_and_one and_one_zero bit_drop_bit_eq of_nat_diff)
qed

lemma print_bits_start_None:
  "(\<And>k. k \<le> i \<Longrightarrow> \<not> bit ptr k) \<Longrightarrow> print_bits_start ptr (int i) = None"
proof (induction i)
  case 0
  then show ?case by (simp add: print_bits_start.simps [of ptr "0"] print_bits_start.simps [of ptr "-1"]
        drop_bit_and_one and_one_zero bit_drop_bit_eq)
next
  case (Suc i)
  then show ?case
    using print_bits_start.simps [of ptr "int (Suc i)"] by (simp add: drop_bit_and_one nat_add_distrib)
qed

lemma outputs_print_bits_loop:
  "outputs dev uart (print_bits_loop dev uart ptr (int n - 1))
     (map (\<lambda>k. 48 + of_bool (bit ptr k)) (rev [0..<n]))"
proof (induction n)
  case 0
  then show ?case by (simp add: outputs_def print_bits_loop.simps [of _ _ _ "-1"])
next
  case (Suc n)
  have b: "ucast (drop_bit n ptr AND 1) = (of_bool (bit ptr n) :: u8)"
    by (simp add: and_one_eq bit_iff_odd_drop_bit mod_2_eq_odd)
  have "print_bits_loop dev uart ptr (int (Suc n) - 1) = (\<lambda>t.
      putchar dev uart (48 + of_bool (bit ptr n)) t \<bind> print_bits_loop dev uart ptr (int n - 1))"
    by (rule ext) (simp add: print_bits_loop.simps [of _ _ _ "int n"] b)
  with outputs_bind [OF outputs_putchar Suc.IH] show ?case by simp
qed

text \<open>A number that is not 0 is printed with its binary digits if one of them is among the lower
  32 bits, which for a 64-bit number means the printing is right only below \<open>2 ^ 32\<close>.\<close>

lemma print_bits_eq:
  assumes "ptr \<noteq> 0" and "unat ptr < 4294967296"
  shows "print_bits dev uart ptr = print_bits_loop dev uart ptr (int (length (digits 2 (unat ptr))) - 1)"
proof -
  let ?ds = "digits 2 (unat ptr)"
  have b: "bit ptr k \<longleftrightarrow> bit (unat ptr) k" for k
    by (auto simp: bit_unsigned_iff dest: bit_imp_le_length)
  have len: "0 < length ?ds" "length ?ds \<le> 32"
    using digits_not_Nil digits_length [of 2 "unat ptr" 32] assms(2) by simp_all
  define h where "h = length ?ds - 1"
  have l: "length ?ds = Suc h" using len by (simp add: h_def)
  have "hd ?ds = of_bool (bit (unat ptr) h)"
    by (subst digits_bits) (simp add: l hd_map)
  moreover have "hd ?ds \<noteq> 0" using assms(1) by (intro digits_head) (simp_all add: unat_eq_0)
  ultimately have "bit (unat ptr) h" by (simp split: if_splits)
  moreover have "\<not> bit (unat ptr) k" if "h < k" for k
  proof -
    have "unat ptr < 2 ^ Suc h" using digits_less_power [of 2 "unat ptr"] l by simp
    then have "take_bit (Suc h) (unat ptr) = unat ptr" by (rule take_bit_nat_eq_self)
    then have "bit (unat ptr) k = bit (take_bit (Suc h) (unat ptr)) k" by simp
    with that show ?thesis by (simp add: bit_take_bit_iff)
  qed
  ultimately have "print_bits_start ptr 31 = Some (int h)"
    using print_bits_start_eq [of ptr h 31] len l by (simp add: b)
  with assms(1) l show ?thesis by (simp add: print_bits_def fun_eq_iff)
qed
lemma outputs_print_bits:
  assumes "unat ptr < 4294967296"
  shows "outputs dev uart (print_bits dev uart ptr) (map (\<lambda>d. 48 + of_nat d) (digits 2 (unat ptr)))"
proof (cases "ptr = 0")
  case True
  then have "print_bits dev uart ptr = putchar dev uart 48" by (simp add: print_bits_def fun_eq_iff)
  with True show ?thesis using outputs_putchar [of dev uart 48] by (simp add: digits.simps)
next
  case False
  have "map (\<lambda>d. 48 + of_nat d) (digits 2 (unat ptr))
      = map (\<lambda>k. 48 + of_bool (bit ptr k) :: u8) (rev [0..<length (digits 2 (unat ptr))])"
    by (subst digits_bits) (auto simp: bit_unsigned_iff dest: bit_imp_le_length)
  then show ?thesis
    unfolding print_bits_eq [OF False assms] by (simp only: outputs_print_bits_loop)
qed

lemma outputs_let_some:
  "e = Some x \<Longrightarrow> outputs dev uart (f x) cs \<Longrightarrow> outputs dev uart (\<lambda>t. e \<bind> (\<lambda>y. f y t)) cs"
  by simp

lemma outputs_debug:
  assumes "unat reg < 4294967296"
  shows "outputs dev uart (debug dev uart buffer str reg)
     (chars ''[UART] '' @ str @ map (\<lambda>d. hex (of_nat d)) (digits 16 (unat reg)) @
      chars '' (0b'' @ map (\<lambda>d. 48 + of_nat d) (digits 2 (unat reg)) @ chars '')'' @ [10, 13])"
proof -
  have "unat reg < unat (16 :: u64) ^ 13" using assms by simp
  then obtain buf' where itoa: "itoa reg buffer 16 = Some buf'"
    "buffer_string buf' 0 = Some (map (\<lambda>d. hex (of_nat d)) (digits 16 (unat reg)))"
    using itoa_string [of 16 reg buffer] by auto
  have "outputs dev uart (debug dev uart buffer str reg)
     (chars ''[UART] '' @ str @ map (\<lambda>d. hex (of_nat d)) (digits 16 (unat reg)) @
      chars '' (0b'' @ map (\<lambda>d. 48 + of_nat d) (digits 2 (unat reg)) @ [41] @ [10] @ [13])"
    unfolding debug_def itoa(1) bind.bind_lunit itoa(2)
    by (intro outputs_bind outputs_uart_str outputs_print_bits outputs_putchar assms)
  then show ?thesis by simp
qed

text \<open>With 14 hexadecimal digits \<open>itoa\<close> writes in front of its buffer, and the string it leaves
  there repeats the first digit.\<close>

lemma itoa_fourteen_digits:
  "\<exists>buf'. itoa 0x12345678901234 (\<lambda>_. 0) 16 = Some buf' \<and> buf' (-1) \<noteq> 0 \<and>
     buffer_string buf' 0 = Some (chars ''11111111111111'')"
proof -
  have d: "digits 16 (unat (0x12345678901234 :: u64)) = [1, 2, 3, 4, 5, 6, 7, 8, 9, 0, 1, 2, 3, 4]"
    by (simp add: digits.simps)
  let ?ds = "[1, 2, 3, 4, 5, 6, 7, 8, 9, 0, 1, 2, 3, 4] :: nat list"
  have "itoa_digits (\<lambda>_. 0) 0x12345678901234 16 12 = Some (put_digits (\<lambda>_. 0) 12 ?ds, -2)"
    using itoa_digits_eq [of 16 "\<lambda>_. 0" "0x12345678901234" 12] d by simp
  then show ?thesis
    by (simp add: hex_def itoa_def itoa_shift.simps Let_def put_digits_def buffer_string.simps [of _ 0]
        buffer_string.simps [of _ 1] buffer_string.simps [of _ "numeral k" for k])
qed

text \<open>\<open>print_bits\<close> finds no bit to start with when the lower half of a number is 0.\<close>

lemma print_bits_high_only:
  "print_bits dev uart (push_bit 32 1) t = None"
proof -
  have "print_bits_start (push_bit 32 1) (int 31) = None"
    by (rule print_bits_start_None) (subst bit_push_bit_iff, simp)
  then show ?thesis by (simp add: print_bits_def)
qed
end
