(* ===== verification/Libfdt.thy ===== *)
theory Libfdt
  imports Clib
begin

text \<open>
  The read-only half of libfdt that the chainloader uses (external/libfdt/fdt.c and
  fdt_ro.c), over a blob at address \<open>a\<close> of the memory \<open>m\<close>.

  A C \<open>int\<close> or \<open>uint32_t\<close> is an integer here, and every place where the C arithmetic is
  unsigned and may wrap says so with \<open>wrap32\<close>. An error is the negative \<open>FDT_ERR_*\<close> value
  the function returns. The library is built with \<open>FDT_ASSUME_MASK = 0\<close>, so every
  \<open>can_assume(..)\<close> is false and all its checks are compiled in. An \<open>int\<close> offset that the
  C code would take beyond \<open>INT_MAX\<close> (undefined behaviour there) is refused by
  \<open>fdt_offset_ptr\<close> here; for a blob whose header passes \<open>fdt_check_header\<close> or
  \<open>fdt_ro_probe\<close> the total size is below \<open>INT_MAX\<close>, and no such offset is ever inside it.
\<close>

subsection \<open>Integers and errors\<close>

definition wrap32 :: "int \<Rightarrow> int" where
  "wrap32 x = x mod 4294967296"

text \<open>The conversion of an unsigned 32-bit value to \<open>int\<close>.\<close>

definition to_int32 :: "int \<Rightarrow> int" where
  "to_int32 x = (let y = x mod 4294967296 in if y \<ge> 2147483648 then y - 4294967296 else y)"

abbreviation (input) INT_MAX :: int where "INT_MAX \<equiv> 2147483647"

abbreviation (input) FDT_ERR_NOTFOUND :: int where "FDT_ERR_NOTFOUND \<equiv> 1"
abbreviation (input) FDT_ERR_EXISTS :: int where "FDT_ERR_EXISTS \<equiv> 2"
abbreviation (input) FDT_ERR_NOSPACE :: int where "FDT_ERR_NOSPACE \<equiv> 3"
abbreviation (input) FDT_ERR_BADOFFSET :: int where "FDT_ERR_BADOFFSET \<equiv> 4"
abbreviation (input) FDT_ERR_BADPATH :: int where "FDT_ERR_BADPATH \<equiv> 5"
abbreviation (input) FDT_ERR_BADSTATE :: int where "FDT_ERR_BADSTATE \<equiv> 7"
abbreviation (input) FDT_ERR_TRUNCATED :: int where "FDT_ERR_TRUNCATED \<equiv> 8"
abbreviation (input) FDT_ERR_BADMAGIC :: int where "FDT_ERR_BADMAGIC \<equiv> 9"
abbreviation (input) FDT_ERR_BADVERSION :: int where "FDT_ERR_BADVERSION \<equiv> 10"
abbreviation (input) FDT_ERR_BADSTRUCTURE :: int where "FDT_ERR_BADSTRUCTURE \<equiv> 11"
abbreviation (input) FDT_ERR_BADLAYOUT :: int where "FDT_ERR_BADLAYOUT \<equiv> 12"
abbreviation (input) FDT_ERR_INTERNAL :: int where "FDT_ERR_INTERNAL \<equiv> 13"
abbreviation (input) FDT_ERR_BADVALUE :: int where "FDT_ERR_BADVALUE \<equiv> 15"
abbreviation (input) FDT_ERR_ALIGNMENT :: int where "FDT_ERR_ALIGNMENT \<equiv> 19"

abbreviation (input) FDT_BEGIN_NODE :: int where "FDT_BEGIN_NODE \<equiv> 1"
abbreviation (input) FDT_END_NODE :: int where "FDT_END_NODE \<equiv> 2"
abbreviation (input) FDT_PROP :: int where "FDT_PROP \<equiv> 3"
abbreviation (input) FDT_NOP :: int where "FDT_NOP \<equiv> 4"
abbreviation (input) FDT_END :: int where "FDT_END \<equiv> 9"

abbreviation (input) FDT_MAGIC :: int where "FDT_MAGIC \<equiv> 0xd00dfeed"
abbreviation (input) FDT_SW_MAGIC :: int where "FDT_SW_MAGIC \<equiv> 0x2ff20112"

subsection \<open>The header\<close>

text \<open>\<open>fdt32_to_cpu(*p)\<close>: the big-endian 32-bit value at \<open>p\<close>.\<close>

definition be32 :: "mem \<Rightarrow> addr \<Rightarrow> int" where
  "be32 m p = uint (m p) * 16777216 + uint (m (p + 1)) * 65536 + uint (m (p + 2)) * 256 + uint (m (p + 3))"

definition fdt_magic :: "mem \<Rightarrow> addr \<Rightarrow> int" where "fdt_magic m a = be32 m a"
definition fdt_totalsize :: "mem \<Rightarrow> addr \<Rightarrow> int" where "fdt_totalsize m a = be32 m (a + 4)"
definition fdt_off_dt_struct :: "mem \<Rightarrow> addr \<Rightarrow> int" where "fdt_off_dt_struct m a = be32 m (a + 8)"
definition fdt_off_dt_strings :: "mem \<Rightarrow> addr \<Rightarrow> int" where "fdt_off_dt_strings m a = be32 m (a + 12)"
definition fdt_off_mem_rsvmap :: "mem \<Rightarrow> addr \<Rightarrow> int" where "fdt_off_mem_rsvmap m a = be32 m (a + 16)"
definition fdt_version :: "mem \<Rightarrow> addr \<Rightarrow> int" where "fdt_version m a = be32 m (a + 20)"
definition fdt_last_comp_version :: "mem \<Rightarrow> addr \<Rightarrow> int" where
  "fdt_last_comp_version m a = be32 m (a + 24)"
definition fdt_boot_cpuid_phys :: "mem \<Rightarrow> addr \<Rightarrow> int" where
  "fdt_boot_cpuid_phys m a = be32 m (a + 28)"
definition fdt_size_dt_strings :: "mem \<Rightarrow> addr \<Rightarrow> int" where
  "fdt_size_dt_strings m a = be32 m (a + 32)"
definition fdt_size_dt_struct :: "mem \<Rightarrow> addr \<Rightarrow> int" where
  "fdt_size_dt_struct m a = be32 m (a + 36)"

definition fdt_ro_probe :: "mem \<Rightarrow> addr \<Rightarrow> int" where
  "fdt_ro_probe m a =
     (let totalsize = fdt_totalsize m a;
          sized = (if totalsize < INT_MAX then totalsize else - FDT_ERR_TRUNCATED)
      in if a AND 7 \<noteq> 0 then - FDT_ERR_ALIGNMENT
         else if fdt_magic m a = FDT_MAGIC then
           (if fdt_version m a < 2 then - FDT_ERR_BADVERSION
            else if fdt_last_comp_version m a > 17 then - FDT_ERR_BADVERSION
            else sized)
         else if fdt_magic m a = FDT_SW_MAGIC then
           (if fdt_size_dt_struct m a = 0 then - FDT_ERR_BADSTATE else sized)
         else - FDT_ERR_BADMAGIC)"

definition check_off :: "int \<Rightarrow> int \<Rightarrow> int \<Rightarrow> bool" where
  "check_off hdrsize totalsize off \<longleftrightarrow> off \<ge> hdrsize \<and> off \<le> totalsize"

definition check_block :: "int \<Rightarrow> int \<Rightarrow> int \<Rightarrow> int \<Rightarrow> bool" where
  "check_block hdrsize totalsize base size' \<longleftrightarrow>
     (if \<not> check_off hdrsize totalsize base then False
      else if wrap32 (base + size') < base then False
      else if \<not> check_off hdrsize totalsize (wrap32 (base + size')) then False
      else True)"

definition fdt_header_size :: "int \<Rightarrow> int" where
  "fdt_header_size version =
     (if version \<le> 1 then 28 else if version \<le> 2 then 32 else if version \<le> 3 then 36
      else if version \<le> 16 then 36 else 40)"

definition fdt_check_header :: "mem \<Rightarrow> addr \<Rightarrow> int" where
  "fdt_check_header m a =
     (let hdrsize = fdt_header_size (fdt_version m a) in
      if a AND 7 \<noteq> 0 then - FDT_ERR_ALIGNMENT
      else if fdt_magic m a \<noteq> FDT_MAGIC then - FDT_ERR_BADMAGIC
      else if fdt_version m a < 2 \<or> fdt_last_comp_version m a > 17 then - FDT_ERR_BADVERSION
      else if fdt_version m a < fdt_last_comp_version m a then - FDT_ERR_BADVERSION
      else if fdt_totalsize m a < hdrsize \<or> fdt_totalsize m a > INT_MAX then - FDT_ERR_TRUNCATED
      else if \<not> check_off hdrsize (fdt_totalsize m a) (fdt_off_mem_rsvmap m a) then - FDT_ERR_TRUNCATED
      else if fdt_version m a < 17 \<and> \<not> check_off hdrsize (fdt_totalsize m a) (fdt_off_dt_struct m a)
        then - FDT_ERR_TRUNCATED
      else if fdt_version m a \<ge> 17 \<and> \<not> check_block hdrsize (fdt_totalsize m a)
                (fdt_off_dt_struct m a) (fdt_size_dt_struct m a) then - FDT_ERR_TRUNCATED
      else if \<not> check_block hdrsize (fdt_totalsize m a)
                (fdt_off_dt_strings m a) (fdt_size_dt_strings m a) then - FDT_ERR_TRUNCATED
      else 0)"

subsection \<open>Offsets into the structure block\<close>

definition fdt_offset_addr :: "mem \<Rightarrow> addr \<Rightarrow> int \<Rightarrow> addr" where
  "fdt_offset_addr m a offset = a + word_of_int (fdt_off_dt_struct m a + offset)"

definition fdt_offset_ptr :: "mem \<Rightarrow> addr \<Rightarrow> int \<Rightarrow> int \<Rightarrow> addr option" where
  "fdt_offset_ptr m a offset len =
     (let uoffset = wrap32 offset;
          absoffset = wrap32 (offset + fdt_off_dt_struct m a)
      in if offset < 0 \<or> offset > INT_MAX then None
         else if absoffset < uoffset \<or> wrap32 (absoffset + len) < absoffset
              \<or> wrap32 (absoffset + len) > fdt_totalsize m a then None
         else if fdt_version m a \<ge> 17 \<and>
              (wrap32 (uoffset + len) < uoffset \<or> wrap32 (offset + len) > fdt_size_dt_struct m a)
         then None
         else Some (fdt_offset_addr m a offset))"

lemma fdt_offset_ptr_range: "fdt_offset_ptr m a offset len = Some p \<Longrightarrow> 0 \<le> offset \<and> offset \<le> INT_MAX"
  by (auto simp: fdt_offset_ptr_def Let_def split: if_splits)

definition FDT_TAGALIGN :: "int \<Rightarrow> int" where
  "FDT_TAGALIGN x = ((x + 3) div 4) * 4"

text \<open>The \<open>do .. while\<close> that skips a node name: the offset after its terminating zero, or
  \<open>None\<close> when the block ends first.\<close>

function fdt_skip_name :: "mem \<Rightarrow> addr \<Rightarrow> int \<Rightarrow> int option" where
  "fdt_skip_name m a offset =
     (case fdt_offset_ptr m a offset 1 of
        None \<Rightarrow> None
      | Some p \<Rightarrow> if m p = 0 then Some (offset + 1) else fdt_skip_name m a (offset + 1))"
  by pat_completeness auto
termination
  by (relation "measure (\<lambda>(m, a, offset). nat (2147483648 - offset))")
    (auto dest: fdt_offset_ptr_range)

declare fdt_skip_name.simps [simp del]

text \<open>The end of \<open>fdt_next_tag\<close>, common to all tags: the whole item must be inside the block.\<close>

definition fdt_tag_end :: "mem \<Rightarrow> addr \<Rightarrow> int \<Rightarrow> int \<Rightarrow> int \<Rightarrow> int \<times> int" where
  "fdt_tag_end m a startoffset offset tag =
     (if fdt_offset_ptr m a startoffset (offset - startoffset) = None
      then (FDT_END, - FDT_ERR_BADSTRUCTURE)
      else (tag, FDT_TAGALIGN offset))"

definition fdt_next_tag :: "mem \<Rightarrow> addr \<Rightarrow> int \<Rightarrow> int \<times> int" where
  "fdt_next_tag m a startoffset =
     (case fdt_offset_ptr m a startoffset 4 of
        None \<Rightarrow> (FDT_END, - FDT_ERR_TRUNCATED)
      | Some tagp \<Rightarrow>
          (let tag = be32 m tagp; offset = startoffset + 4 in
           if tag = FDT_BEGIN_NODE then
             (case fdt_skip_name m a offset of
                None \<Rightarrow> (FDT_END, - FDT_ERR_BADSTRUCTURE)
              | Some offset \<Rightarrow> fdt_tag_end m a startoffset offset tag)
           else if tag = FDT_PROP then
             (case fdt_offset_ptr m a offset 4 of
                None \<Rightarrow> (FDT_END, - FDT_ERR_BADSTRUCTURE)
              | Some lenp \<Rightarrow>
                  (let len = be32 m lenp; sum = wrap32 (len + offset) in
                   if INT_MAX \<le> sum \<or> sum < offset then (FDT_END, - FDT_ERR_BADSTRUCTURE)
                   else let offset = offset + 8 + len;
                            offset = (if fdt_version m a < 16 \<and> len \<ge> 8 \<and> (offset - len) mod 8 \<noteq> 0
                                      then offset + 4 else offset)
                        in fdt_tag_end m a startoffset offset tag))
           else if tag = FDT_END \<or> tag = FDT_END_NODE \<or> tag = FDT_NOP then
             fdt_tag_end m a startoffset offset tag
           else (FDT_END, - FDT_ERR_BADSTRUCTURE)))"

definition fdt_check_node_offset :: "mem \<Rightarrow> addr \<Rightarrow> int \<Rightarrow> int" where
  "fdt_check_node_offset m a offset =
     (if offset < 0 \<or> offset mod 4 \<noteq> 0 then - FDT_ERR_BADOFFSET
      else case fdt_next_tag m a offset of
        (tag, next) \<Rightarrow> if tag \<noteq> FDT_BEGIN_NODE then - FDT_ERR_BADOFFSET else next)"

definition fdt_check_prop_offset :: "mem \<Rightarrow> addr \<Rightarrow> int \<Rightarrow> int" where
  "fdt_check_prop_offset m a offset =
     (if offset < 0 \<or> offset mod 4 \<noteq> 0 then - FDT_ERR_BADOFFSET
      else case fdt_next_tag m a offset of
        (tag, next) \<Rightarrow> if tag \<noteq> FDT_PROP then - FDT_ERR_BADOFFSET else next)"

text \<open>A successful step moves forward: this is what bounds every walk of a blob.\<close>

lemma fdt_skip_name_gt: "fdt_skip_name m a offset = Some q \<Longrightarrow> q > offset"
  by (induction m a offset rule: fdt_skip_name.induct)
    (subst (asm) (2) fdt_skip_name.simps, force split: option.splits if_splits)

lemma FDT_TAGALIGN_ge: "x \<le> FDT_TAGALIGN x"
  by (simp add: FDT_TAGALIGN_def)

lemma be32_nonneg [simp]: "0 \<le> be32 m p"
  by (simp add: be32_def)

lemma be32_less: "be32 m p < 4294967296"
proof -
  have "uint (m q) \<le> 255" for q
    using unsigned_less [of "m q", where ?'a = int] by simp
  from this [of p] this [of "p + 1"] this [of "p + 2"] this [of "p + 3"]
  show ?thesis unfolding be32_def by linarith
qed

lemma fdt_tag_end_cases:
  assumes "fdt_tag_end m a start offset tag = (t, next)"
  shows "t = tag \<and> next = FDT_TAGALIGN offset
      \<and> fdt_offset_ptr m a start (offset - start) = Some (fdt_offset_addr m a start)
    \<or> t = FDT_END \<and> next = - FDT_ERR_BADSTRUCTURE"
  using assms by (auto simp: fdt_tag_end_def fdt_offset_ptr_def Let_def split: if_splits)

lemma fdt_next_tag_step:
  assumes "fdt_next_tag m a start = (t, next)"
  shows "next < 0 \<and> t = FDT_END \<or>
    0 \<le> start \<and> start \<le> INT_MAX \<and> start + 4 \<le> next \<and> next mod 4 = 0 \<and>
      t \<in> {FDT_BEGIN_NODE, FDT_PROP, FDT_END, FDT_END_NODE, FDT_NOP}"
proof (cases "fdt_offset_ptr m a start 4")
  case None
  with assms show ?thesis by (simp add: fdt_next_tag_def)
next
  case (Some tagp)
  have al: "FDT_TAGALIGN x mod 4 = 0" for x by (simp add: FDT_TAGALIGN_def)
  have "start + 4 \<le> FDT_TAGALIGN x" if "start + 4 \<le> x" for x
    using that FDT_TAGALIGN_ge [of x] by simp
  with assms Some fdt_offset_ptr_range [OF Some] al show ?thesis
    unfolding fdt_next_tag_def
    by (auto simp: Let_def split: option.splits if_splits
        dest!: fdt_tag_end_cases dest: fdt_skip_name_gt)
qed

subsection \<open>Walking the nodes\<close>

text \<open>
  The loop of \<open>fdt_next_node\<close>. The depth pointer is \<open>None\<close> when the caller passes
  \<open>NULL\<close>; the result is the offset (or error) and the depth as the loop leaves it.
\<close>

function fdt_next_node_loop :: "mem \<Rightarrow> addr \<Rightarrow> int \<Rightarrow> int option \<Rightarrow> int \<times> int option" where
  "fdt_next_node_loop m a offset depth =
     (let (tag, nextoffset) = fdt_next_tag m a offset in
      if tag = FDT_BEGIN_NODE then (offset, map_option (\<lambda>d. d + 1) depth)
      else if tag = FDT_END then
        (if nextoffset \<ge> 0 \<or> (nextoffset = - FDT_ERR_TRUNCATED \<and> depth = None)
         then (- FDT_ERR_NOTFOUND, depth) else (nextoffset, depth))
      else if tag = FDT_END_NODE then
        (case depth of
           None \<Rightarrow> fdt_next_node_loop m a nextoffset None
         | Some d \<Rightarrow> if d - 1 < 0 then (nextoffset, Some (d - 1))
                     else fdt_next_node_loop m a nextoffset (Some (d - 1)))
      else fdt_next_node_loop m a nextoffset depth)"
  by pat_completeness auto
termination
  by (relation "measure (\<lambda>(m, a, offset, depth). nat (2147483648 - offset))")
    (auto dest!: fdt_next_tag_step [OF sym])

declare fdt_next_node_loop.simps [simp del]

definition fdt_next_node :: "mem \<Rightarrow> addr \<Rightarrow> int \<Rightarrow> int option \<Rightarrow> int \<times> int option" where
  "fdt_next_node m a offset depth =
     (if offset \<ge> 0
      then let nextoffset = fdt_check_node_offset m a offset
           in if nextoffset < 0 then (nextoffset, depth) else fdt_next_node_loop m a nextoffset depth
      else fdt_next_node_loop m a 0 depth)"

lemma fdt_check_node_step:
  "fdt_check_node_offset m a offset = n \<Longrightarrow> 0 \<le> n \<Longrightarrow>
   0 \<le> offset \<and> offset \<le> INT_MAX \<and> offset + 4 \<le> n \<and> n mod 4 = 0"
  by (auto simp: fdt_check_node_offset_def split: if_splits prod.splits dest!: fdt_next_tag_step)

lemma fdt_check_prop_step:
  "fdt_check_prop_offset m a offset = n \<Longrightarrow> 0 \<le> n \<Longrightarrow>
   0 \<le> offset \<and> offset \<le> INT_MAX \<and> offset + 4 \<le> n \<and> n mod 4 = 0"
  by (auto simp: fdt_check_prop_offset_def split: if_splits prod.splits dest!: fdt_next_tag_step)

lemma fdt_next_node_loop_ge:
  "fdt_next_node_loop m a offset depth = (n, d) \<Longrightarrow> 0 \<le> n \<Longrightarrow> offset \<le> n"
proof (induction m a offset depth rule: fdt_next_node_loop.induct)
  case (1 m a offset depth)
  obtain tag nextoff where tag: "fdt_next_tag m a offset = (tag, nextoff)" by fastforce
  note ih = "1.IH" [OF tag [symmetric] refl]
  from "1.prems" fdt_next_tag_step [OF tag] ih show ?case
    by (subst (asm) fdt_next_node_loop.simps)
      (force simp: tag split: if_splits option.splits)
qed

lemma fdt_next_node_gt:
  "fdt_next_node m a offset depth = (n, d) \<Longrightarrow> 0 \<le> n \<Longrightarrow>
   offset \<le> INT_MAX \<and> offset < n"
  using fdt_check_node_step [of m a offset "fdt_check_node_offset m a offset"]
    fdt_next_node_loop_ge [of m a "fdt_check_node_offset m a offset" depth n d]
  by (auto simp: fdt_next_node_def Let_def split: if_splits)

definition fdt_first_subnode :: "mem \<Rightarrow> addr \<Rightarrow> int \<Rightarrow> int" where
  "fdt_first_subnode m a offset =
     (case fdt_next_node m a offset (Some 0) of
        (offset, depth) \<Rightarrow> if offset < 0 \<or> depth \<noteq> Some 1 then - FDT_ERR_NOTFOUND else offset)"

function fdt_next_subnode_loop :: "mem \<Rightarrow> addr \<Rightarrow> int \<Rightarrow> int \<Rightarrow> int" where
  "fdt_next_subnode_loop m a offset depth =
     (case fdt_next_node m a offset (Some depth) of
        (next, Some depth') \<Rightarrow>
          if next < 0 \<or> depth' < 1 then - FDT_ERR_NOTFOUND
          else if depth' > 1 then fdt_next_subnode_loop m a next depth'
          else next
      | (next, None) \<Rightarrow> next)"
  by pat_completeness auto
termination
  by (relation "measure (\<lambda>(m, a, offset, depth). nat (2147483648 - offset))")
    (auto dest!: fdt_next_node_gt [OF sym])

declare fdt_next_subnode_loop.simps [simp del]

definition fdt_next_subnode :: "mem \<Rightarrow> addr \<Rightarrow> int \<Rightarrow> int" where
  "fdt_next_subnode m a offset = fdt_next_subnode_loop m a offset 1"

lemma fdt_next_subnode_loop_gt:
  "fdt_next_subnode_loop m a offset depth = n \<Longrightarrow> 0 \<le> n \<Longrightarrow> offset \<le> INT_MAX \<and> offset < n"
proof (induction m a offset depth rule: fdt_next_subnode_loop.induct)
  case (1 m a offset depth)
  obtain off' d where eq: "fdt_next_node m a offset (Some depth) = (off', d)" by fastforce
  note ih = "1.IH" [OF eq [symmetric]]
  from "1.prems" ih fdt_next_node_gt [OF eq] show ?case
    by (subst (asm) fdt_next_subnode_loop.simps)
      (force simp: eq split: if_splits option.splits)
qed

lemma fdt_next_subnode_gt: "0 \<le> fdt_next_subnode m a offset \<Longrightarrow>
    offset \<le> INT_MAX \<and> offset < fdt_next_subnode m a offset"
  unfolding fdt_next_subnode_def by (rule fdt_next_subnode_loop_gt [OF refl])

text \<open>A node's name: the address and length of the string, or \<open>NULL\<close> and the error.\<close>

definition fdt_get_name :: "mem \<Rightarrow> addr \<Rightarrow> int \<Rightarrow> addr option \<times> int" where
  "fdt_get_name m a nodeoffset =
     (let nameptr = fdt_offset_addr m a nodeoffset + 4 in
      if fdt_ro_probe m a < 0 then (None, fdt_ro_probe m a)
      else if fdt_check_node_offset m a nodeoffset < 0
        then (None, fdt_check_node_offset m a nodeoffset)
      else if fdt_version m a < 16 then
        (case strrchr m nameptr 0x2F of
           None \<Rightarrow> (None, - FDT_ERR_BADSTRUCTURE)
         | Some leaf \<Rightarrow> (Some (leaf + 1), int (strlen m (leaf + 1))))
      else (Some nameptr, int (strlen m nameptr)))"

text \<open>The comparison of a node's name with the first \<open>len\<close> characters of a string, which may
  leave out the unit address.\<close>

definition fdt_nodename_eq :: "mem \<Rightarrow> addr \<Rightarrow> int \<Rightarrow> bytes \<Rightarrow> bool" where
  "fdt_nodename_eq m a offset s =
     (case fdt_get_name m a offset of
        (None, _) \<Rightarrow> False
      | (Some p, olen) \<Rightarrow>
          if olen < int (length s) then False
          else if \<not> memcmp_lit m p s then False
          else if m (p + of_nat (length s)) = 0 then True
          else 0x40 \<notin> set s \<and> m (p + of_nat (length s)) = 0x40)"

function fdt_subnode_loop :: "mem \<Rightarrow> addr \<Rightarrow> int \<Rightarrow> int option \<Rightarrow> bytes \<Rightarrow> int" where
  "fdt_subnode_loop m a offset depth name =
     (case depth of
        None \<Rightarrow> offset
      | Some d \<Rightarrow>
          if offset \<ge> 0 \<and> d \<ge> 0 then
            (if d = 1 \<and> fdt_nodename_eq m a offset name then offset
             else case fdt_next_node m a offset depth of
               (offset', depth') \<Rightarrow> fdt_subnode_loop m a offset' depth' name)
          else if d < 0 then - FDT_ERR_NOTFOUND
          else offset)"
  by pat_completeness auto
termination
  by (relation "measure (\<lambda>(m, a, offset, depth, name).
      if offset \<ge> 0 then nat (2147483648 - offset) + 1 else 0)")
    (auto dest: fdt_next_node_gt [OF sym])

declare fdt_subnode_loop.simps [simp del]

definition fdt_subnode_offset_namelen :: "mem \<Rightarrow> addr \<Rightarrow> int \<Rightarrow> bytes \<Rightarrow> int" where
  "fdt_subnode_offset_namelen m a offset name =
     (if fdt_ro_probe m a < 0 then fdt_ro_probe m a
      else fdt_subnode_loop m a offset (Some 0) name)"

definition fdt_subnode_offset :: "mem \<Rightarrow> addr \<Rightarrow> int \<Rightarrow> bytes \<Rightarrow> int" where
  "fdt_subnode_offset m a parentoffset name = fdt_subnode_offset_namelen m a parentoffset name"

subsection \<open>The strings block\<close>

definition fdt_get_string :: "mem \<Rightarrow> addr \<Rightarrow> int \<Rightarrow> addr option \<times> int" where
  "fdt_get_string m a stroffset =
     (let totalsize = fdt_ro_probe m a;
          absoffset = wrap32 (stroffset + fdt_off_dt_strings m a);
          len = totalsize - absoffset;
          found = (\<lambda>len. let s = a + word_of_int absoffset in
             case memchr m s 0 (nat len) of
               None \<Rightarrow> (None, - FDT_ERR_TRUNCATED)
             | Some n \<Rightarrow> (Some s, uint (n - s)))
      in if totalsize < 0 then (None, totalsize)
         else if absoffset \<ge> totalsize then (None, - FDT_ERR_BADOFFSET)
         else if fdt_magic m a = FDT_MAGIC then
           (if stroffset < 0 then (None, - FDT_ERR_BADOFFSET)
            else if fdt_version m a \<ge> 17 then
              (if stroffset \<ge> fdt_size_dt_strings m a then (None, - FDT_ERR_BADOFFSET)
               else if fdt_size_dt_strings m a - stroffset < len
                    then found (fdt_size_dt_strings m a - stroffset) else found len)
            else found len)
         else if fdt_magic m a = FDT_SW_MAGIC then
           (let sw_stroffset = wrap32 (- stroffset) in
            if stroffset \<ge> 0 \<or> sw_stroffset > fdt_size_dt_strings m a
            then (None, - FDT_ERR_BADOFFSET)
            else found (if sw_stroffset < len then sw_stroffset else len))
         else (None, - FDT_ERR_INTERNAL))"

definition fdt_string_eq :: "mem \<Rightarrow> addr \<Rightarrow> int \<Rightarrow> bytes \<Rightarrow> bool" where
  "fdt_string_eq m a stroffset s =
     (case fdt_get_string m a stroffset of
        (None, _) \<Rightarrow> False
      | (Some p, slen) \<Rightarrow> slen = int (length s) \<and> memcmp_lit m p s)"

subsection \<open>Properties\<close>

function fdt_nextprop :: "mem \<Rightarrow> addr \<Rightarrow> int \<Rightarrow> int" where
  "fdt_nextprop m a offset =
     (let (tag, nextoffset) = fdt_next_tag m a offset in
      if tag = FDT_END then (if nextoffset \<ge> 0 then - FDT_ERR_BADSTRUCTURE else nextoffset)
      else if tag = FDT_PROP then offset
      else if tag = FDT_NOP then fdt_nextprop m a nextoffset
      else - FDT_ERR_NOTFOUND)"
  by pat_completeness auto
termination
  by (relation "measure (\<lambda>(m, a, offset). nat (2147483648 - offset))")
    (auto dest!: fdt_next_tag_step [OF sym])

declare fdt_nextprop.simps [simp del]

lemma fdt_nextprop_ge: "0 \<le> fdt_nextprop m a offset \<Longrightarrow> offset \<le> fdt_nextprop m a offset"
proof (induction m a offset rule: fdt_nextprop.induct)
  case (1 m a offset)
  obtain tag nextoff where tag: "fdt_next_tag m a offset = (tag, nextoff)" by fastforce
  note ih = "1.IH" [OF tag [symmetric] refl]
  from "1.prems" fdt_next_tag_step [OF tag] ih show ?case
    by (subst fdt_nextprop.simps, subst (asm) (1) fdt_nextprop.simps)
      (auto simp: tag split: if_splits)
qed

definition fdt_first_property_offset :: "mem \<Rightarrow> addr \<Rightarrow> int \<Rightarrow> int" where
  "fdt_first_property_offset m a nodeoffset =
     (let offset = fdt_check_node_offset m a nodeoffset
      in if offset < 0 then offset else fdt_nextprop m a offset)"

definition fdt_next_property_offset :: "mem \<Rightarrow> addr \<Rightarrow> int \<Rightarrow> int" where
  "fdt_next_property_offset m a offset =
     (let offset = fdt_check_prop_offset m a offset
      in if offset < 0 then offset else fdt_nextprop m a offset)"

lemma fdt_next_property_gt:
  "0 \<le> fdt_next_property_offset m a offset \<Longrightarrow>
   0 \<le> offset \<and> offset \<le> INT_MAX \<and> offset < fdt_next_property_offset m a offset"
  using fdt_check_prop_step [of m a offset "fdt_check_prop_offset m a offset"]
    fdt_nextprop_ge [of m a "fdt_check_prop_offset m a offset"]
  by (auto simp: fdt_next_property_offset_def Let_def split: if_splits)

lemma fdt_next_property_decr:
  "(0 \<le> fdt_next_property_offset m a offset \<longrightarrow>
      nat (2147483648 - fdt_next_property_offset m a offset) < nat (2147483648 - offset))"
  using fdt_next_property_gt [of m a offset] by auto

text \<open>A \<open>struct fdt_property\<close> at \<open>p\<close>: tag, length, name offset, then the value.\<close>

definition fdt_prop_len :: "mem \<Rightarrow> addr \<Rightarrow> int" where
  "fdt_prop_len m p = be32 m (p + 4)"

definition fdt_prop_nameoff :: "mem \<Rightarrow> addr \<Rightarrow> int" where
  "fdt_prop_nameoff m p = be32 m (p + 8)"

definition fdt_get_property_by_offset :: "mem \<Rightarrow> addr \<Rightarrow> int \<Rightarrow> addr option \<times> int" where
  "fdt_get_property_by_offset m a offset =
     (let err = fdt_check_prop_offset m a offset in
      if err < 0 then (None, err)
      else (Some (fdt_offset_addr m a offset),
            to_int32 (fdt_prop_len m (fdt_offset_addr m a offset))))"

text \<open>The search loop returns the property, its length (or the error) and its offset.\<close>

function fdt_get_property_loop :: "mem \<Rightarrow> addr \<Rightarrow> int \<Rightarrow> bytes \<Rightarrow> addr option \<times> int \<times> int" where
  "fdt_get_property_loop m a offset name =
     (if offset \<ge> 0 then
        (case fdt_get_property_by_offset m a offset of
           (None, _) \<Rightarrow> (None, - FDT_ERR_INTERNAL, offset)
         | (Some prop, len) \<Rightarrow>
             if fdt_string_eq m a (to_int32 (fdt_prop_nameoff m prop)) name
             then (Some prop, len, offset)
             else fdt_get_property_loop m a (fdt_next_property_offset m a offset) name)
      else (None, offset, offset))"
  by pat_completeness auto
termination
  by (relation "measure (\<lambda>(m, a, offset, name). if offset \<ge> 0 then nat (2147483648 - offset) + 1 else 0)")
    (use fdt_next_property_decr in auto)

declare fdt_get_property_loop.simps [simp del]

definition fdt_get_property_namelen :: "mem \<Rightarrow> addr \<Rightarrow> int \<Rightarrow> bytes \<Rightarrow> addr option \<times> int \<times> int" where
  "fdt_get_property_namelen m a nodeoffset name =
     fdt_get_property_loop m a (fdt_first_property_offset m a nodeoffset) name"

text \<open>The address of the value and its length, or \<open>NULL\<close> and the error. Before version 16 a
  value of eight bytes or more is aligned to eight.\<close>

definition fdt_getprop :: "mem \<Rightarrow> addr \<Rightarrow> int \<Rightarrow> bytes \<Rightarrow> addr option \<times> int" where
  "fdt_getprop m a nodeoffset name =
     (case fdt_get_property_namelen m a nodeoffset name of
        (None, len, _) \<Rightarrow> (None, len)
      | (Some prop, len, poffset) \<Rightarrow>
          if fdt_version m a < 16 \<and> (poffset + 12) mod 8 \<noteq> 0 \<and> fdt_prop_len m prop \<ge> 8
          then (Some (prop + 16), len)
          else (Some (prop + 12), len))"

subsection \<open>Paths\<close>

text \<open>The loop of \<open>fdt_path_offset_namelen\<close> over the components of a path.\<close>

function fdt_path_walk :: "mem \<Rightarrow> addr \<Rightarrow> int \<Rightarrow> bytes \<Rightarrow> int" where
  "fdt_path_walk m a offset path =
     (let p = dropWhile (\<lambda>c. c = 0x2F) path in
      if p = [] then offset
      else let offset = fdt_subnode_offset_namelen m a offset (takeWhile (\<lambda>c. c \<noteq> 0x2F) p)
           in if offset < 0 then offset
              else fdt_path_walk m a offset (dropWhile (\<lambda>c. c \<noteq> 0x2F) p))"
  by pat_completeness auto
termination
proof (relation "measure (\<lambda>(m, a, offset, path). length path)")
  fix m :: mem and a :: addr and offset q :: int and path p :: bytes
  assume p: "p = dropWhile (\<lambda>c. c = 0x2F) path" and ne: "p \<noteq> []"
  obtain x xs where cons: "p = x # xs" using ne by (cases p) auto
  then have "x \<noteq> 0x2F" using hd_dropWhile [of "\<lambda>c. c = 0x2F" path] p by simp
  note xs = cons this
  have "length (dropWhile (\<lambda>c. c \<noteq> 0x2F) p) < length p"
    using xs length_dropWhile_le [of "\<lambda>c. c \<noteq> 0x2F" xs] by simp
  also have "\<dots> \<le> length path" using p by (simp add: length_dropWhile_le)
  finally show "((m, a, q, dropWhile (\<lambda>c. c \<noteq> 0x2F) p), m, a, offset, path)
      \<in> measure (\<lambda>(m, a, offset, path). length path)" by simp
qed simp

declare fdt_path_walk.simps [simp del]

text \<open>An alias is looked up under \<open>/aliases\<close>; its value must be an absolute path.\<close>

definition fdt_get_alias :: "mem \<Rightarrow> addr \<Rightarrow> bytes \<Rightarrow> bytes option" where
  "fdt_get_alias m a name =
     (let offset = fdt_path_walk m a 0 (cstr ''/aliases'') in
      if offset < 0 then None
      else case fdt_getprop m a offset name of
        (None, _) \<Rightarrow> None
      | (Some alias, len) \<Rightarrow>
          if len > 0 \<and> m (alias + word_of_int (len - 1)) = 0 \<and> m alias = 0x2F
          then Some (c_string m alias) else None)"

definition fdt_path_offset :: "mem \<Rightarrow> addr \<Rightarrow> bytes \<Rightarrow> int" where
  "fdt_path_offset m a path =
     (if fdt_ro_probe m a < 0 then fdt_ro_probe m a
      else if path = [] then - FDT_ERR_BADPATH
      else if hd path \<noteq> 0x2F then
        (case fdt_get_alias m a (takeWhile (\<lambda>c. c \<noteq> 0x2F) path) of
           None \<Rightarrow> - FDT_ERR_BADPATH
         | Some alias \<Rightarrow>
             fdt_path_walk m a (fdt_path_walk m a 0 alias) (dropWhile (\<lambda>c. c \<noteq> 0x2F) path))
      else fdt_path_walk m a 0 path)"

subsection \<open>String lists\<close>

text \<open>
  The loops of \<open>fdt_stringlist_count\<close> and \<open>fdt_stringlist_get\<close>; \<open>left\<close> is
  \<open>end - list\<close>, the bytes that remain.
\<close>

function stringlist_count_loop :: "mem \<Rightarrow> addr \<Rightarrow> nat \<Rightarrow> int \<Rightarrow> int" where
  "stringlist_count_loop m list' left count =
     (if left = 0 then count
      else let length' = strnlen m list' left + 1 in
           if length' > left then - FDT_ERR_BADVALUE
           else stringlist_count_loop m (list' + of_nat length') (left - length') (count + 1))"
  by pat_completeness auto
termination by (relation "measure (\<lambda>(m, p, left, count). left)") auto

declare stringlist_count_loop.simps [simp del]

definition fdt_stringlist_count :: "mem \<Rightarrow> addr \<Rightarrow> int \<Rightarrow> bytes \<Rightarrow> int" where
  "fdt_stringlist_count m a nodeoffset property =
     (case fdt_getprop m a nodeoffset property of
        (None, length') \<Rightarrow> length'
      | (Some list', length') \<Rightarrow> stringlist_count_loop m list' (nat length') 0)"

function stringlist_get_loop :: "mem \<Rightarrow> addr \<Rightarrow> nat \<Rightarrow> int \<Rightarrow> addr option \<times> int" where
  "stringlist_get_loop m list' left idx =
     (if left = 0 then (None, - FDT_ERR_NOTFOUND)
      else let length' = strnlen m list' left + 1 in
           if length' > left then (None, - FDT_ERR_BADVALUE)
           else if idx = 0 then (Some list', int length' - 1)
           else stringlist_get_loop m (list' + of_nat length') (left - length') (idx - 1))"
  by pat_completeness auto
termination by (relation "measure (\<lambda>(m, p, left, idx). left)") auto

declare stringlist_get_loop.simps [simp del]

definition fdt_stringlist_get :: "mem \<Rightarrow> addr \<Rightarrow> int \<Rightarrow> bytes \<Rightarrow> int \<Rightarrow> addr option \<times> int" where
  "fdt_stringlist_get m a nodeoffset property idx =
     (case fdt_getprop m a nodeoffset property of
        (None, length') \<Rightarrow> (None, length')
      | (Some list', length') \<Rightarrow> stringlist_get_loop m list' (nat length') idx)"

end
