(* ===== verification/Sha256.thy ===== *)
theory Sha256
  imports Prelude
begin

text \<open>
  The chainloader's SHA-256 (src/chainload/sha256.c): the streaming context with its
  64-byte buffering, the compression function and the padding, and its equivalence with
  a reference definition in the style of FIPS 180-4 (pad the whole message, then fold
  the compression over its 64-byte blocks). A digest is a list of 32 bytes.
\<close>

subsection \<open>The round functions\<close>

text \<open>The macros shift 32-bit words by constants below 32, so no shift is undefined.\<close>

definition ROR :: "u32 \<Rightarrow> nat \<Rightarrow> u32" where
  "ROR x n = drop_bit n x OR push_bit (32 - n) x"

definition CH :: "u32 \<Rightarrow> u32 \<Rightarrow> u32 \<Rightarrow> u32" where
  "CH x y z = (x AND y) XOR (NOT x AND z)"

definition MAJ :: "u32 \<Rightarrow> u32 \<Rightarrow> u32 \<Rightarrow> u32" where
  "MAJ x y z = (x AND y) XOR (x AND z) XOR (y AND z)"

definition S0 :: "u32 \<Rightarrow> u32" where
  "S0 x = ROR x 2 XOR ROR x 13 XOR ROR x 22"

definition S1 :: "u32 \<Rightarrow> u32" where
  "S1 x = ROR x 6 XOR ROR x 11 XOR ROR x 25"

definition G0 :: "u32 \<Rightarrow> u32" where
  "G0 x = ROR x 7 XOR ROR x 18 XOR drop_bit 3 x"

definition G1 :: "u32 \<Rightarrow> u32" where
  "G1 x = ROR x 17 XOR ROR x 19 XOR drop_bit 10 x"

definition sha_initial :: "u32 list" where
  "sha_initial = [
    0x6A09E667, 0xBB67AE85, 0x3C6EF372, 0xA54FF53A,
    0x510E527F, 0x9B05688C, 0x1F83D9AB, 0x5BE0CD19]"

definition sha_constants :: "u32 list" where
  "sha_constants = [
    0x428A2F98, 0x71374491, 0xB5C0FBCF, 0xE9B5DBA5,
    0x3956C25B, 0x59F111F1, 0x923F82A4, 0xAB1C5ED5,
    0xD807AA98, 0x12835B01, 0x243185BE, 0x550C7DC3,
    0x72BE5D74, 0x80DEB1FE, 0x9BDC06A7, 0xC19BF174,
    0xE49B69C1, 0xEFBE4786, 0x0FC19DC6, 0x240CA1CC,
    0x2DE92C6F, 0x4A7484AA, 0x5CB0A9DC, 0x76F988DA,
    0x983E5152, 0xA831C66D, 0xB00327C8, 0xBF597FC7,
    0xC6E00BF3, 0xD5A79147, 0x06CA6351, 0x14292967,
    0x27B70A85, 0x2E1B2138, 0x4D2C6DFC, 0x53380D13,
    0x650A7354, 0x766A0ABB, 0x81C2C92E, 0x92722C85,
    0xA2BFE8A1, 0xA81A664B, 0xC24B8B70, 0xC76C51A3,
    0xD192E819, 0xD6990624, 0xF40E3585, 0x106AA070,
    0x19A4C116, 0x1E376C08, 0x2748774C, 0x34B0BCB5,
    0x391C0CB3, 0x4ED8AA4A, 0x5B9CCA4F, 0x682E6FF3,
    0x748F82EE, 0x78A5636F, 0x84C87814, 0x8CC70208,
    0x90BEFFFA, 0xA4506CEB, 0xBEF9A3F7, 0xC67178F2]"

subsection \<open>The compression function\<close>

text \<open>
  \<open>transform\<close> loads sixteen big-endian words (first loop), extends them to the 64-word
  schedule (second loop), runs the 64 rounds over the eight working variables and adds
  the result to the chaining value.
\<close>

definition sha_load_word :: "bytes \<Rightarrow> nat \<Rightarrow> u32" where
  "sha_load_word data i =
     push_bit 24 (ucast (data ! (i * 4))) OR push_bit 16 (ucast (data ! (i * 4 + 1))) OR
     push_bit 8 (ucast (data ! (i * 4 + 2))) OR ucast (data ! (i * 4 + 3))"

definition sha_extend :: "u32 list \<Rightarrow> nat \<Rightarrow> u32 list" where
  "sha_extend w i = w @ [G1 (w ! (i - 2)) + w ! (i - 7) + G0 (w ! (i - 15)) + w ! (i - 16)]"

definition sha_schedule :: "bytes \<Rightarrow> u32 list" where
  "sha_schedule data = foldl sha_extend (map (sha_load_word data) [0..<16]) [16..<64]"

type_synonym sha_vars = "u32 \<times> u32 \<times> u32 \<times> u32 \<times> u32 \<times> u32 \<times> u32 \<times> u32"

definition sha_round :: "u32 list \<Rightarrow> sha_vars \<Rightarrow> nat \<Rightarrow> sha_vars" where
  "sha_round w v i = (case v of (a, b, c, d, e, f, g, h) \<Rightarrow>
     let t1 = h + S1 e + CH e f g + sha_constants ! i + w ! i;
         t2 = S0 a + MAJ a b c
     in (t1 + t2, a, b, c, d + t1, e, f, g))"

definition transform :: "u32 list \<Rightarrow> bytes \<Rightarrow> u32 list" where
  "transform hs data =
     (let w = sha_schedule data in
      case foldl (sha_round w)
        (hs ! 0, hs ! 1, hs ! 2, hs ! 3, hs ! 4, hs ! 5, hs ! 6, hs ! 7) [0..<64] of
        (a, b, c, d, e, f, g, h) \<Rightarrow>
          [hs ! 0 + a, hs ! 1 + b, hs ! 2 + c, hs ! 3 + d,
           hs ! 4 + e, hs ! 5 + f, hs ! 6 + g, hs ! 7 + h])"

subsection \<open>The streaming context\<close>

record ChainSha256 =
  sha_h :: "u32 list"
  sha_total :: u64
  sha_used :: u64
  sha_block :: bytes

text \<open>\<open>struct ChainSha256 ctx;\<close> on the stack: the contents before \<open>chain_sha256_init\<close>
  are whatever was there, so the model takes them as an argument.\<close>

definition chain_sha256_init :: "ChainSha256 \<Rightarrow> ChainSha256" where
  "chain_sha256_init ctx = ctx\<lparr>sha_h := sha_initial, sha_total := 0, sha_used := 0\<rparr>"

text \<open>\<open>copy_bytes(ctx->block + ctx->used, data, amount)\<close>.\<close>

definition copy_bytes :: "bytes \<Rightarrow> u64 \<Rightarrow> bytes \<Rightarrow> bytes" where
  "copy_bytes blk pos src = take (unat pos) blk @ src @ drop (unat pos + length src) blk"

text \<open>
  The loop of \<open>chain_sha256_update\<close>: \<open>64 - ctx->used\<close> is computed on \<open>size_t\<close>, with its
  wrap-around, so the loop makes progress whatever \<open>used\<close> is: either bytes are consumed,
  or \<open>used\<close> is 64 and the block is compressed and \<open>used\<close> reset.
\<close>

definition sha_amount :: "ChainSha256 \<Rightarrow> bytes \<Rightarrow> nat" where
  "sha_amount ctx data = min (unat (64 - sha_used ctx)) (length data)"

definition sha_absorb :: "ChainSha256 \<Rightarrow> bytes \<Rightarrow> ChainSha256" where
  "sha_absorb ctx chunk =
     (let blk = copy_bytes (sha_block ctx) (sha_used ctx) chunk;
          used = sha_used ctx + of_nat (length chunk)
      in if used = 64
         then ctx\<lparr>sha_block := blk, sha_h := transform (sha_h ctx) blk, sha_used := 0\<rparr>
         else ctx\<lparr>sha_block := blk, sha_used := used\<rparr>)"

lemma sha_amount_pos: "data \<noteq> [] \<Longrightarrow> sha_used ctx \<noteq> 64 \<Longrightarrow> 0 < sha_amount ctx data"
  by (auto simp: sha_amount_def unat_gt_0)

lemma sha_used_absorb_neq: "sha_used (sha_absorb ctx chunk) \<noteq> 64"
  by (simp add: sha_absorb_def Let_def)

function sha_update_loop :: "ChainSha256 \<Rightarrow> bytes \<Rightarrow> ChainSha256" where
  "sha_update_loop ctx data =
     (if data = [] then ctx
      else let amount = sha_amount ctx data
           in sha_update_loop (sha_absorb ctx (take amount data)) (drop amount data))"
  by pat_completeness auto
termination
proof (relation "measures [\<lambda>(ctx, data). length data, \<lambda>(ctx, data). if sha_used ctx = 64 then 1 else 0]")
  fix ctx data and amount :: nat
  assume "data \<noteq> []" and "amount = sha_amount ctx data"
  then show "((sha_absorb ctx (take amount data), drop amount data), ctx, data)
      \<in> measures [\<lambda>(ctx, data). length data, \<lambda>(ctx, data). if sha_used ctx = 64 then 1 else 0]"
    using sha_amount_pos [of data ctx] by (auto simp: sha_used_absorb_neq)
qed simp

declare sha_update_loop.simps [simp del]

lemma sha_update_loop_Nil [simp]: "sha_update_loop ctx [] = ctx"
  by (simp add: sha_update_loop.simps)

lemma sha_update_loop_step:
  "data \<noteq> [] \<Longrightarrow> sha_update_loop ctx data =
     sha_update_loop (sha_absorb ctx (take (sha_amount ctx data) data)) (drop (sha_amount ctx data) data)"
  by (subst sha_update_loop.simps) (simp add: Let_def)

definition chain_sha256_update :: "ChainSha256 \<Rightarrow> bytes \<Rightarrow> ChainSha256" where
  "chain_sha256_update ctx data =
     sha_update_loop (ctx\<lparr>sha_total := sha_total ctx + of_nat (length data)\<rparr>) data"

text \<open>
  The two loops \<open>while (ctx->used < limit) ctx->block[ctx->used++] = 0\<close> of
  \<open>chain_sha256_final\<close>.
\<close>

function sha_zero_until :: "u64 \<Rightarrow> ChainSha256 \<Rightarrow> ChainSha256" where
  "sha_zero_until limit ctx =
     (if sha_used ctx < limit
      then sha_zero_until limit
             (ctx\<lparr>sha_block := (sha_block ctx)[unat (sha_used ctx) := 0],
                  sha_used := sha_used ctx + 1\<rparr>)
      else ctx)"
  by pat_completeness auto
termination
proof (relation "measure (\<lambda>(limit, ctx). unat limit - unat (sha_used ctx))")
  fix limit :: u64 and ctx :: ChainSha256
  assume less: "sha_used ctx < limit"
  then have "unat (sha_used ctx + 1) = unat (sha_used ctx) + 1"
    using unat_u64_less [of limit] unat_plus_no_wrap [of "sha_used ctx" 1]
    by (simp add: word_less_nat_alt)
  with less show "((limit, ctx\<lparr>sha_block := (sha_block ctx)[unat (sha_used ctx) := 0],
      sha_used := sha_used ctx + 1\<rparr>), limit, ctx)
      \<in> measure (\<lambda>(limit, ctx). unat limit - unat (sha_used ctx))"
    by (simp add: word_less_nat_alt)
qed simp

declare sha_zero_until.simps [simp del]

definition sha_append_byte :: "ChainSha256 \<Rightarrow> u8 \<Rightarrow> ChainSha256" where
  "sha_append_byte ctx b =
     ctx\<lparr>sha_block := (sha_block ctx)[unat (sha_used ctx) := b], sha_used := sha_used ctx + 1\<rparr>"

definition sha_digest_word :: "u32 \<Rightarrow> bytes" where
  "sha_digest_word x =
     [ucast (drop_bit 24 x), ucast (drop_bit 16 x), ucast (drop_bit 8 x), ucast x]"

definition sha_length_bytes :: "u64 \<Rightarrow> bytes" where
  "sha_length_bytes bits = map (\<lambda>i. ucast (drop_bit (56 - i * 8) bits)) [0..<8]"

definition chain_sha256_final :: "ChainSha256 \<Rightarrow> bytes" where
  "chain_sha256_final ctx =
     (let bits = sha_total ctx * 8;
          ctx = sha_append_byte ctx 0x80;
          ctx = (if sha_used ctx > 56
                 then let full = sha_zero_until 64 ctx
                      in full\<lparr>sha_h := transform (sha_h full) (sha_block full), sha_used := 0\<rparr>
                 else ctx);
          ctx = sha_zero_until 56 ctx;
          blk = copy_bytes (sha_block ctx) 56 (sha_length_bytes bits)
      in concat (map sha_digest_word (transform (sha_h ctx) blk)))"

text \<open>The uninitialised stack object, with the 128 bytes of its block array.\<close>

definition sha_stack_context :: ChainSha256 where
  "sha_stack_context = \<lparr>sha_h = [], sha_total = 0, sha_used = 0, sha_block = replicate 128 0\<rparr>"

definition chain_sha256 :: "bytes \<Rightarrow> bytes" where
  "chain_sha256 data =
     chain_sha256_final (chain_sha256_update (chain_sha256_init sha_stack_context) data)"

subsection \<open>The reference definition\<close>

text \<open>
  FIPS 180-4: append a 1 bit, zeros up to 56 modulo 64 bytes, and the bit length as a
  64-bit big-endian number; then fold the compression function over the blocks.
\<close>

fun sha_blocks :: "bytes \<Rightarrow> bytes list" where
  "sha_blocks msg = (if length msg < 64 then [] else take 64 msg # sha_blocks (drop 64 msg))"

declare sha_blocks.simps [simp del]

definition sha_pad :: "bytes \<Rightarrow> bytes" where
  "sha_pad msg = msg @ 0x80 # replicate ((119 - length msg mod 64) mod 64) 0 @
     sha_length_bytes (of_nat (8 * length msg))"

definition sha256_spec :: "bytes \<Rightarrow> bytes" where
  "sha256_spec msg = concat (map sha_digest_word (foldl transform sha_initial (sha_blocks (sha_pad msg))))"

subsection \<open>The context invariant\<close>

text \<open>
  After absorbing \<open>msg\<close> the context holds the chaining value of its complete blocks, the
  incomplete tail at the start of its buffer, and the length.
\<close>

definition sha_inv :: "ChainSha256 \<Rightarrow> bytes \<Rightarrow> bool" where
  "sha_inv ctx msg \<longleftrightarrow> (\<exists>full part.
     msg = full @ part \<and> length full mod 64 = 0 \<and> length part < 64 \<and>
     sha_used ctx = of_nat (length part) \<and> length (sha_block ctx) = 128 \<and>
     take (length part) (sha_block ctx) = part \<and>
     sha_h ctx = foldl transform sha_initial (sha_blocks full))"

lemma sha_invI:
  assumes "msg = full @ part" and "length full mod 64 = 0" and "length part < 64"
    and "sha_used ctx = of_nat (length part)" and "length (sha_block ctx) = 128"
    and "take (length part) (sha_block ctx) = part"
    and "sha_h ctx = foldl transform sha_initial (sha_blocks full)"
  shows "sha_inv ctx msg"
  unfolding sha_inv_def by (rule exI [of _ full], rule exI [of _ part]) (intro conjI assms)

definition sha_ctx_inv :: "ChainSha256 \<Rightarrow> bytes \<Rightarrow> bool" where
  "sha_ctx_inv ctx msg \<longleftrightarrow> sha_inv ctx msg \<and> sha_total ctx = of_nat (length msg)"

lemma sha_blocks_Nil [simp]: "sha_blocks [] = []"
  by (simp add: sha_blocks.simps)

lemma sha_blocks_64: "length blk = 64 \<Longrightarrow> sha_blocks (blk @ rest) = blk # sha_blocks rest"
  by (subst sha_blocks.simps) simp

lemma sha_blocks_append:
  "length full mod 64 = 0 \<Longrightarrow> sha_blocks (full @ rest) = sha_blocks full @ sha_blocks rest"
proof (induction full rule: sha_blocks.induct)
  case (1 full)
  show ?case
  proof (cases "length full < 64")
    case True
    with "1.prems" show ?thesis by simp
  next
    case False
    then have "length (drop 64 full) mod 64 = 0"
      using "1.prems" by (simp add: le_mod_geq)
    with False "1.IH" have ih: "sha_blocks (drop 64 full @ rest) = sha_blocks (drop 64 full) @ sha_blocks rest"
      by simp
    have split: "full @ rest = take 64 full @ drop 64 full @ rest" by simp
    have len: "length (take 64 full) = 64" using False by simp
    show ?thesis
      unfolding split sha_blocks_64 [OF len] ih
      using False by (subst (3) sha_blocks.simps) simp
  qed
qed

lemma sha_blocks_short: "length part < 64 \<Longrightarrow> sha_blocks part = []"
  by (subst sha_blocks.simps) simp

lemma sha_load_word_take: "i < 16 \<Longrightarrow> sha_load_word (take 64 blk) i = sha_load_word blk i"
  by (simp add: sha_load_word_def)

lemma transform_take_64: "transform hs (take 64 blk) = transform hs blk"
proof -
  have "map (sha_load_word (take 64 blk)) [0..<16] = map (sha_load_word blk) [0..<16]"
    by (rule map_cong) (auto simp: sha_load_word_take)
  then show ?thesis by (simp only: transform_def sha_schedule_def)
qed

lemma length_transform [simp]: "length (transform hs blk) = 8"
  by (simp add: transform_def Let_def split: prod.splits)

lemma unat_of_nat_small: "n \<le> 128 \<Longrightarrow> unat (of_nat n :: u64) = n"
  by (simp add: unat_of_nat_u64)

lemma of_nat_u64_eq_64: "n \<le> 128 \<Longrightarrow> (of_nat n :: u64) = 64 \<longleftrightarrow> n = 64"
  using unat_of_nat_small [of n] by (auto dest: arg_cong [where f = unat])

text \<open>Absorbing a chunk that fits into the buffer extends the absorbed message.\<close>

lemma sha_inv_absorb:
  assumes inv: "sha_inv ctx msg" and fits: "unat (sha_used ctx) + length chunk \<le> 64"
  shows "sha_inv (sha_absorb ctx chunk) (msg @ chunk)"
proof -
  from inv obtain full part where msg: "msg = full @ part" "length full mod 64 = 0"
    and part: "length part < 64" "sha_used ctx = of_nat (length part)"
      "length (sha_block ctx) = 128" "take (length part) (sha_block ctx) = part"
    and hs: "sha_h ctx = foldl transform sha_initial (sha_blocks full)"
    by (auto simp: sha_inv_def)
  let ?n = "length part + length chunk"
  let ?blk = "copy_bytes (sha_block ctx) (sha_used ctx) chunk"
  from part have used: "unat (sha_used ctx) = length part" by (simp add: unat_of_nat_small)
  with fits have n: "?n \<le> 64" by simp
  have blk: "length ?blk = 128" "take ?n ?blk = part @ chunk"
    using part(1,3,4) n by (simp_all add: copy_bytes_def used)
  have used': "sha_used ctx + of_nat (length chunk) = of_nat ?n"
    by (simp add: part(2))
  show ?thesis
  proof (cases "?n = 64")
    case True
    have "transform (sha_h ctx) ?blk = foldl transform sha_initial (sha_blocks (full @ part @ chunk))"
      using True blk hs msg(2) sha_blocks_64 [of "part @ chunk" "[]"]
        transform_take_64 [of "sha_h ctx" ?blk]
      by (simp add: sha_blocks_append)
    moreover have "sha_absorb ctx chunk
      = ctx\<lparr>sha_block := ?blk, sha_h := transform (sha_h ctx) ?blk, sha_used := 0\<rparr>"
      unfolding sha_absorb_def Let_def used' using True by simp
    moreover have "length (full @ part @ chunk) mod 64 = 0"
      using True msg(2) by (metis length_append mod_add_self2)
    ultimately show ?thesis
      using blk(1) msg(1)
      by (intro sha_invI [of _ "full @ part @ chunk" "[]"]) auto
  next
    case False
    then have "sha_absorb ctx chunk = ctx\<lparr>sha_block := ?blk, sha_used := of_nat ?n\<rparr>"
      unfolding sha_absorb_def Let_def used' using n by (simp add: of_nat_u64_eq_64 del: of_nat_add)
    with False n blk msg hs show ?thesis
      by (intro sha_invI [of _ full "part @ chunk"]) auto
  qed
qed

lemma sha_used_less: "sha_inv ctx msg \<Longrightarrow> unat (sha_used ctx) < 64"
  by (auto simp: sha_inv_def unat_of_nat_small)

lemma sha_amount_fits:
  assumes "unat (sha_used ctx) < 64"
  shows "sha_amount ctx data = min (64 - unat (sha_used ctx)) (length data)"
  using assms by (simp add: sha_amount_def unat_sub word_le_nat_alt)

lemma sha_inv_update_loop:
  "sha_inv ctx msg \<Longrightarrow> sha_inv (sha_update_loop ctx data) (msg @ data)"
proof (induction ctx data arbitrary: msg rule: sha_update_loop.induct)
  case (1 ctx data)
  show ?case
  proof (cases "data = []")
    case True
    with "1.prems" show ?thesis by simp
  next
    case False
    let ?k = "sha_amount ctx data"
    have "unat (sha_used ctx) + length (take ?k data) \<le> 64"
      using sha_used_less [OF "1.prems"] by (simp add: sha_amount_fits)
    then have "sha_inv (sha_absorb ctx (take ?k data)) (msg @ take ?k data)"
      by (rule sha_inv_absorb [OF "1.prems"])
    from "1.IH" [OF False refl this] False show ?thesis
      by (simp add: sha_update_loop_step)
  qed
qed

lemma sha_total_absorb [simp]: "sha_total (sha_absorb ctx chunk) = sha_total ctx"
  by (simp add: sha_absorb_def Let_def)

lemma sha_total_update_loop [simp]: "sha_total (sha_update_loop ctx data) = sha_total ctx"
proof (induction ctx data rule: sha_update_loop.induct)
  case (1 ctx data)
  then show ?case by (cases "data = []") (auto simp: sha_update_loop_step)
qed

lemma sha_inv_total [simp]: "sha_inv (ctx\<lparr>sha_total := t\<rparr>) msg = sha_inv ctx msg"
  by (simp add: sha_inv_def)

lemma sha_ctx_inv_update:
  "sha_ctx_inv ctx msg \<Longrightarrow> sha_ctx_inv (chain_sha256_update ctx data) (msg @ data)"
  by (auto simp: sha_ctx_inv_def chain_sha256_update_def intro: sha_inv_update_loop)

lemma sha_ctx_inv_init:
  "length (sha_block ctx) = 128 \<Longrightarrow> sha_ctx_inv (chain_sha256_init ctx) []"
  by (simp add: sha_ctx_inv_def sha_inv_def chain_sha256_init_def)

subsection \<open>Padding\<close>

lemma sha_zero_until_spec:
  assumes "unat (sha_used ctx) \<le> unat limit" and "unat limit \<le> length (sha_block ctx)"
  shows "take (unat limit) (sha_block (sha_zero_until limit ctx)) =
           take (unat (sha_used ctx)) (sha_block ctx) @ replicate (unat limit - unat (sha_used ctx)) 0
       \<and> length (sha_block (sha_zero_until limit ctx)) = length (sha_block ctx)
       \<and> sha_used (sha_zero_until limit ctx) = limit
       \<and> sha_h (sha_zero_until limit ctx) = sha_h ctx"
  using assms
proof (induction limit ctx rule: sha_zero_until.induct)
  case (1 limit ctx)
  let ?u = "unat (sha_used ctx)"
  let ?ctx = "ctx\<lparr>sha_block := (sha_block ctx)[?u := 0], sha_used := sha_used ctx + 1\<rparr>"
  show ?case
  proof (cases "sha_used ctx < limit")
    case False
    then have "sha_used ctx = limit"
      using "1.prems" by (metis linorder_neqE_linordered_idom not_less order_less_le word_le_nat_alt)
    then show ?thesis by (simp add: sha_zero_until.simps [of limit ctx])
  next
    case True
    then have lt: "?u < unat limit" by (simp add: word_less_nat_alt)
    then have u1: "unat (sha_used ctx + 1) = ?u + 1"
      using unat_u64_less [of limit] unat_plus_no_wrap [of "sha_used ctx" 1] by simp
    have step: "sha_zero_until limit ctx = sha_zero_until limit ?ctx"
      using True by (subst sha_zero_until.simps) simp
    have "take (?u + 1) ((sha_block ctx)[?u := 0]) = take ?u (sha_block ctx) @ [0]"
      using lt "1.prems" by (simp add: take_Suc_conv_app_nth)
    moreover have "replicate (unat limit - ?u) (0::u8) = 0 # replicate (unat limit - (?u + 1)) 0"
      using lt by (simp flip: replicate_Suc)
    ultimately show ?thesis
      unfolding step using "1.IH" [OF True] "1.prems" lt u1 by simp
  qed
qed

lemma length_sha_length_bytes [simp]: "length (sha_length_bytes b) = 8"
  by (simp add: sha_length_bytes_def)

lemma sha_append_byte_spec:
  assumes "unat (sha_used ctx) < length (sha_block ctx)"
  shows "take (unat (sha_used ctx) + 1) (sha_block (sha_append_byte ctx b)) =
           take (unat (sha_used ctx)) (sha_block ctx) @ [b]"
    and "length (sha_block (sha_append_byte ctx b)) = length (sha_block ctx)"
    and "sha_h (sha_append_byte ctx b) = sha_h ctx"
    and "sha_total (sha_append_byte ctx b) = sha_total ctx"
  using assms by (simp_all add: sha_append_byte_def take_Suc_conv_app_nth)

text \<open>The last block: what \<open>copy_bytes\<close> leaves in the first 64 bytes after the length is stored.\<close>

lemma sha_last_block:
  assumes "length blk = 128"
  shows "take 64 (copy_bytes blk 56 (sha_length_bytes b)) = take 56 blk @ sha_length_bytes b"
  using assms by (simp add: copy_bytes_def)

lemma sha_blocks_two:
  "length a = 64 \<Longrightarrow> length b = 64 \<Longrightarrow> sha_blocks (a @ b) = [a, b]"
  using sha_blocks_64 [of a b] sha_blocks_64 [of b "[]"] by simp

lemma sha_blocks_one: "length a = 64 \<Longrightarrow> sha_blocks a = [a]"
  using sha_blocks_64 [of a "[]"] by simp

text \<open>The blocks that are compressed at the end: one when the length still fits behind the last bytes and the
  byte 0x80, else two.\<close>

lemma sha_final_blocks:
  assumes used: "unat (sha_used ctx) = length part" and part: "length part < 64" "length (sha_block ctx) = 128"
    "take (length part) (sha_block ctx) = part"
  shows "chain_sha256_final ctx = concat (map sha_digest_word (foldl transform (sha_h ctx)
    (sha_blocks (part @ 0x80 # replicate ((119 - length part) mod 64) 0 @ sha_length_bytes (sha_total ctx * 8)))))"
proof -
  let ?k = "length part"
  let ?len = "sha_length_bytes (sha_total ctx * 8)"
  let ?c = "sha_append_byte ctx 0x80"
  have used1: "unat (sha_used ?c) = ?k + 1"
    using used part(1) unat_plus_no_wrap [of "sha_used ctx" 1] by (simp add: sha_append_byte_def)
  have c: "take (?k + 1) (sha_block ?c) = part @ [0x80]" "length (sha_block ?c) = 128" "sha_h ?c = sha_h ctx"
    using sha_append_byte_spec [of ctx "0x80"] part used by simp_all
  have last: "transform h (copy_bytes (sha_block z) 56 ?len) = transform h (pre @ ?len)"
    if "take 56 (sha_block z) = pre" "length (sha_block z) = 128" for h z pre
    using transform_take_64 [of h "copy_bytes (sha_block z) 56 ?len"] sha_last_block [OF that(2)] that(1) by simp
  show ?thesis
  proof (cases "?k + 1 > 56")
    case False
    let ?z = "sha_zero_until 56 ?c"
    have z: "take 56 (sha_block ?z) = part @ 0x80 # replicate (56 - (?k + 1)) 0"
      "length (sha_block ?z) = 128" "sha_h ?z = sha_h ctx"
      using sha_zero_until_spec [of ?c 56] False used1 c by simp_all
    have "chain_sha256_final ctx = concat (map sha_digest_word
        (transform (sha_h ctx) (copy_bytes (sha_block ?z) 56 ?len)))"
      using False used1 z(3) by (simp add: chain_sha256_final_def Let_def word_less_nat_alt)
    moreover have "(119 - ?k) mod 64 = 56 - (?k + 1)" using False by (simp add: le_mod_geq)
    ultimately show ?thesis
      unfolding last [OF z(1,2)] using False by (simp add: sha_blocks_one)
  next
    case True
    let ?f = "sha_zero_until 64 ?c"
    let ?g = "?f\<lparr>sha_h := transform (sha_h ?f) (sha_block ?f), sha_used := 0\<rparr>"
    let ?z = "sha_zero_until 56 ?g"
    have f: "take 64 (sha_block ?f) = part @ 0x80 # replicate (64 - (?k + 1)) 0"
      "length (sha_block ?f) = 128" "sha_h ?f = sha_h ctx"
      using sha_zero_until_spec [of ?c 64] used1 c part(1) by simp_all
    have z: "take 56 (sha_block ?z) = replicate 56 0" "length (sha_block ?z) = 128"
      "sha_h ?z = transform (sha_h ctx) (sha_block ?f)"
      using sha_zero_until_spec [of ?g 56] f by simp_all
    have final: "chain_sha256_final ctx = concat (map sha_digest_word
        (transform (transform (sha_h ctx) (sha_block ?f)) (copy_bytes (sha_block ?z) 56 ?len)))"
      using True used1 z(3) by (simp add: chain_sha256_final_def Let_def word_less_nat_alt)
    have first: "transform (sha_h ctx) (sha_block ?f) = transform (sha_h ctx) (part @ 0x80 # replicate (64 - (?k + 1)) 0)"
      using transform_take_64 [of "sha_h ctx" "sha_block ?f"] f(1) by simp
    have "(119 - ?k) mod 64 = (64 - (?k + 1)) + 56" using True part(1) by simp
    then have eq: "part @ 0x80 # replicate ((119 - ?k) mod 64) 0 @ ?len
        = (part @ 0x80 # replicate (64 - (?k + 1)) 0) @ (replicate 56 0 @ ?len)"
      by (simp only: replicate_add append_assoc append_Cons)
    have "sha_blocks ((part @ 0x80 # replicate (64 - (?k + 1)) 0) @ (replicate 56 0 @ ?len))
        = [part @ 0x80 # replicate (64 - (?k + 1)) 0, replicate 56 0 @ ?len]"
      using part(1) by (intro sha_blocks_two) simp_all
    then show ?thesis
      unfolding final first last [OF z(1,2)] eq by (simp only: foldl.simps)
  qed
qed

lemma sha_final_correct:
  assumes inv: "sha_ctx_inv ctx msg"
  shows "chain_sha256_final ctx = sha256_spec msg"
proof -
  from inv obtain full part where msg: "msg = full @ part" "length full mod 64 = 0"
    and part: "length part < 64" "sha_used ctx = of_nat (length part)"
      "length (sha_block ctx) = 128" "take (length part) (sha_block ctx) = part"
    and hs: "sha_h ctx = foldl transform sha_initial (sha_blocks full)"
    and total: "sha_total ctx = of_nat (length msg)"
    by (auto simp: sha_ctx_inv_def sha_inv_def)
  have used: "unat (sha_used ctx) = length part" using part by (simp add: unat_of_nat_small)
  have bits: "sha_total ctx * 8 = of_nat (8 * length msg)" by (simp add: total)
  have modk: "length msg mod 64 = length part"
    using msg part(1) mod_add_eq [of "length full" 64 "length part"] by simp
  have "sha_pad msg = full @ (part @ 0x80 # replicate ((119 - length part) mod 64) 0 @ sha_length_bytes (sha_total ctx * 8))"
    unfolding sha_pad_def modk bits [symmetric] unfolding msg(1) by simp
  then show ?thesis
    by (simp add: sha256_spec_def sha_blocks_append msg(2) hs [symmetric] sha_final_blocks [OF used part(1,3,4)])
qed

subsection \<open>The interface of a streaming hash\<close>

text \<open>
  What the rest of the chainloader may assume of a hash that is computed by feeding a
  context: an invariant that relates a context to the bytes it has absorbed, and a digest
  that depends on those bytes alone.
\<close>

locale stream_hash =
  fixes upd :: "'c \<Rightarrow> 'b list \<Rightarrow> 'c"
    and fin :: "'c \<Rightarrow> 'd"
    and inv :: "'c \<Rightarrow> 'b list \<Rightarrow> bool"
    and digest_of :: "'b list \<Rightarrow> 'd"
  assumes upd_inv: "inv c msg \<Longrightarrow> inv (upd c data) (msg @ data)"
    and fin_digest: "inv c msg \<Longrightarrow> fin c = digest_of msg"
begin

lemma foldl_inv: "inv c msg \<Longrightarrow> inv (foldl upd c chunks) (msg @ concat chunks)"
proof (induction chunks arbitrary: c msg)
  case Nil
  then show ?case by simp
next
  case (Cons d ds)
  from Cons.IH [OF upd_inv [OF Cons.prems]] show ?case by simp
qed

lemma foldl_digest: "inv c [] \<Longrightarrow> fin (foldl upd c chunks) = digest_of (concat chunks)"
  using fin_digest [OF foldl_inv] by simp

lemma one_shot_digest: "inv c [] \<Longrightarrow> fin (upd c data) = digest_of data"
  using foldl_digest [of c "[data]"] by simp

end

interpretation sha: stream_hash chain_sha256_update chain_sha256_final sha_ctx_inv sha256_spec
  by unfold_locales (auto intro: sha_ctx_inv_update sha_final_correct)

lemma sha_stack_inv: "sha_ctx_inv (chain_sha256_init sha_stack_context) []"
  by (rule sha_ctx_inv_init) (simp add: sha_stack_context_def)

lemma chain_sha256_spec: "chain_sha256 data = sha256_spec data"
  unfolding chain_sha256_def by (rule sha.one_shot_digest [OF sha_stack_inv])

text \<open>C3. The digest the chainloader computes is SHA-256 of the data as FIPS 180-4 defines it:
  whatever the length, the buffered, block-by-block computation agrees with padding the whole
  message and folding the compression function over its blocks.\<close>

theorem chain_sha256_is_sha256: "chain_sha256 data = sha256_spec data"
  by (rule chain_sha256_spec)

text \<open>Feeding the data in pieces, however they are cut, gives the digest of the whole: the
  context's 64-byte buffer is invisible. Nothing about the stack contents of the context matters
  beyond the size of its block array.\<close>

lemma chain_sha256_chunking:
  assumes "length (sha_block ctx) = 128"
  shows "chain_sha256_final (foldl chain_sha256_update (chain_sha256_init ctx) chunks)
       = chain_sha256 (concat chunks)"
  by (simp add: chain_sha256_spec sha.foldl_digest [OF sha_ctx_inv_init [OF assms]])

theorem chain_sha256_chunking_witness:
  "chain_sha256_final (foldl chain_sha256_update (chain_sha256_init sha_stack_context) [[1, 2], [], [3]])
     = chain_sha256 [1, 2, 3]"
  using chain_sha256_chunking [of sha_stack_context "[[1, 2], [], [3]]"]
  by (simp add: sha_stack_context_def)

lemma length_concat_digest [simp]: "length (concat (map sha_digest_word ws)) = 4 * length ws"
  by (induction ws) (auto simp: sha_digest_word_def)

lemma length_foldl_transform:
  "length hs = 8 \<Longrightarrow> length (foldl transform hs blks) = 8"
  by (induction blks rule: rev_induct) auto

lemma length_sha256 [simp]: "length (chain_sha256 data) = 32"
  by (simp add: chain_sha256_def chain_sha256_final_def Let_def)

end
