(* ===== verification/Fit.thy ===== *)
theory Fit
  imports Libfdt Sha256 Mmio
begin

text \<open>
  The FIT parser and loader of the chainloader (src/chainload/fit.c). \<open>chain_fit_parse\<close>
  checks a FIT image in the staging memory and turns it into a plan: which image goes
  where, where the control device tree will be built, and where execution continues.

  A string pointer stays an address, because the loader reads the string again later; a
  literal it is compared with is a byte list. The \<open>const char **reason\<close> out-parameter is
  the left side of a sum: \<open>Inl reason\<close> for \<open>return -1\<close>, \<open>Inr\<close> the updated plan for
  \<open>return 0\<close>. Where the code returns \<open>-1\<close> without storing a reason, the model returns the
  one that is still stored.
\<close>

subsection \<open>Data (chainload.h)\<close>

datatype ChainImageRole = CHAIN_IMAGE_BL31 | CHAIN_IMAGE_BL33 | CHAIN_IMAGE_FDT

record ChainAddressRange =
  range_start :: u64
  range_end :: u64

record ChainImage =
  img_name :: addr
  img_data :: addr
  img_size :: u64
  img_load :: u64
  img_entry :: u64
  img_type :: "addr option"
  img_os :: "addr option"
  img_role :: ChainImageRole
  record_in_control_fdt :: bool
  entry_explicit :: bool

text \<open>
  The plan. The array \<open>images\<close> with its \<open>image_count\<close> is a list, the indices that start as
  \<open>UINT32_MAX\<close> are options.
\<close>

record ChainFitPlan =
  images :: "ChainImage list"
  bl31_count :: nat
  bl33_index :: "nat option"
  fdt_index :: "nat option"
  bl31_entry :: u64
  bl33_entry :: u64
  control_fdt :: u64
  control_fdt_capacity :: u64

record ChainPlatform =
  board :: string
  soc :: string
  fit_stage_start :: u64
  fit_stage_end :: u64
  params_addr :: u64
  expected_bl31_entry :: u64
  expected_bl33_entry :: u64
  bl33_limit :: u64
  handoff_protocol :: int
  bl31_ranges :: "ChainAddressRange list"
  expected_bl31_segments :: nat
  get_boot_source :: "history \<Rightarrow> string \<times> history"
  prepare_handoff :: "(history \<Rightarrow> (int \<times> history) option) option"
  range_is_cacheable :: "(u64 \<Rightarrow> u64 \<Rightarrow> bool) option"
  recover :: "string \<Rightarrow> string \<Rightarrow> history \<Rightarrow> history option"

abbreviation (input) CHAIN_MAX_IMAGES :: nat where "CHAIN_MAX_IMAGES \<equiv> 8"
abbreviation (input) CHAIN_DTB_SLACK :: u64 where "CHAIN_DTB_SLACK \<equiv> 8192"
abbreviation (input) CHAIN_PARAMS_RESERVE :: u64 where "CHAIN_PARAMS_RESERVE \<equiv> 1024"
abbreviation (input) UINTPTR_MAX :: u64 where "UINTPTR_MAX \<equiv> 0xFFFFFFFFFFFFFFFF"

subsection \<open>Reading properties\<close>

text \<open>\<open>b\<close> is a literal: its characters, none of them zero, then the terminator.\<close>

fun string_equal :: "mem \<Rightarrow> addr \<Rightarrow> bytes \<Rightarrow> bool" where
  "string_equal m a [] \<longleftrightarrow> m a = 0"
| "string_equal m a (b # bs) \<longleftrightarrow> (if m a \<noteq> 0 \<and> m a = b then string_equal m (a + 1) bs else m a = b)"

definition string_prop :: "mem \<Rightarrow> addr \<Rightarrow> int \<Rightarrow> string \<Rightarrow> addr option" where
  "string_prop m fit node name =
     (case fdt_getprop m fit node (cstr name) of
        (None, _) \<Rightarrow> None
      | (Some value', len) \<Rightarrow>
          if len < 1 \<or> memchr m value' 0 (nat len) = None then None else Some value')"

text \<open>
  The status and, when it is 0, the value stored through the pointer. \<open>uintptr_t\<close> has 64
  bits, so the test \<open>v > UINTPTR_MAX\<close> of the eight-byte case never holds.
\<close>

definition address_prop :: "mem \<Rightarrow> addr \<Rightarrow> int \<Rightarrow> string \<Rightarrow> bool \<Rightarrow> int \<times> u64 option" where
  "address_prop m fit node name required =
     (case fdt_getprop m fit node (cstr name) of
        (None, _) \<Rightarrow> (if required then -1 else 1, None)
      | (Some cells, len) \<Rightarrow>
          if len = 4 then (0, Some (word_of_int (be32 m cells)))
          else if len = 8
          then (0, Some (push_bit 32 (word_of_int (be32 m cells)) OR word_of_int (be32 m (cells + 4))))
          else (-1, None))"

definition checked_end :: "u64 \<Rightarrow> u64 \<Rightarrow> u64 option" where
  "checked_end start size' = (if size' > UINTPTR_MAX - start then None else Some (start + size'))"

definition in_range :: "u64 \<Rightarrow> u64 \<Rightarrow> ChainAddressRange \<Rightarrow> bool" where
  "in_range start end' range' \<longleftrightarrow>
     start \<ge> range_start range' \<and> end' > start \<and> end' \<le> range_end range'"

definition bl31_address_allowed :: "ChainPlatform \<Rightarrow> u64 \<Rightarrow> u64 \<Rightarrow> bool" where
  "bl31_address_allowed platform start end' \<longleftrightarrow> list_ex (in_range start end') (bl31_ranges platform)"

subsection \<open>Hashes\<close>

text \<open>The loop over the subnodes of an image; the result says whether it returns 0.\<close>

function validate_hash_loop :: "mem \<Rightarrow> addr \<Rightarrow> int \<Rightarrow> addr \<Rightarrow> u64 \<Rightarrow> nat \<Rightarrow> bool" where
  "validate_hash_loop m fit hash data size' valid_hashes =
     (if hash \<ge> 0 then
        (case string_prop m fit hash ''algo'' of
           None \<Rightarrow> validate_hash_loop m fit (fdt_next_subnode m fit hash) data size' valid_hashes
         | Some algo \<Rightarrow>
             if \<not> string_equal m algo (cstr ''sha256'')
             then validate_hash_loop m fit (fdt_next_subnode m fit hash) data size' valid_hashes
             else case fdt_getprop m fit hash (cstr ''value'') of
               (None, _) \<Rightarrow> False
             | (Some expected, len) \<Rightarrow>
                 if len \<noteq> 32 then False
                 else if \<not> memcmp_lit m expected (chain_sha256 (read_bytes m data (unat size')))
                 then False
                 else validate_hash_loop m fit (fdt_next_subnode m fit hash) data size' (valid_hashes + 1))
      else valid_hashes = 1)"
  by pat_completeness auto

text \<open>What bounds the loop: the next subnode lies behind this one.\<close>

lemma fdt_next_subnode_decr:
  "0 \<le> fdt_next_subnode m fit hash \<longrightarrow>
     nat (2147483648 - fdt_next_subnode m fit hash) < nat (2147483648 - hash)"
  using fdt_next_subnode_gt [of m fit hash] by auto

termination validate_hash_loop
  by (relation "measure (\<lambda>(m, fit, hash, data, size', n).
      if hash \<ge> 0 then nat (2147483648 - hash) + 1 else 0)")
    (use fdt_next_subnode_decr in auto)

declare validate_hash_loop.simps [simp del]

definition validate_hash :: "mem \<Rightarrow> addr \<Rightarrow> int \<Rightarrow> addr \<Rightarrow> u64 \<Rightarrow> bool" where
  "validate_hash m fit image' data size' =
     validate_hash_loop m fit (fdt_first_subnode m fit image') data size' 0"

subsection \<open>Adding an image to the plan\<close>

text \<open>
  The part of \<open>add_image\<close> after the common checks, for a control device tree and for an
  executable. \<open>out\<close> is the image as filled in so far.
\<close>

definition add_fdt_image :: "mem \<Rightarrow> addr \<Rightarrow> int \<Rightarrow> addr option \<Rightarrow> ChainImage \<Rightarrow> ChainFitPlan
    \<Rightarrow> string + ChainFitPlan" where
  "add_fdt_image m fit node arch out plan =
     (if (case arch of None \<Rightarrow> False | Some p \<Rightarrow> \<not> string_equal m p (cstr ''arm64''))
      then Inl ''control DTB has an incompatible architecture''
      else if fst (fdt_getprop m fit node (cstr ''load'')) \<noteq> None \<or> img_entry out \<noteq> UINTPTR_MAX
      then Inl ''control DTB must not carry a load or entry address''
      else if fdt_index plan \<noteq> None
      then Inl ''multiple control DTBs are not supported''
      else Inr (plan\<lparr>fdt_index := Some (length (images plan)),
          images := images plan @ [out\<lparr>img_role := CHAIN_IMAGE_FDT, record_in_control_fdt := False\<rparr>]\<rparr>))"

definition os_is :: "mem \<Rightarrow> addr option \<Rightarrow> string \<Rightarrow> bool" where
  "os_is m os name = (case os of None \<Rightarrow> False | Some p \<Rightarrow> string_equal m p (cstr name))"

definition add_bl33_image :: "mem \<Rightarrow> ChainPlatform \<Rightarrow> u64 \<Rightarrow> ChainImage \<Rightarrow> ChainFitPlan
    \<Rightarrow> string + ChainFitPlan" where
  "add_bl33_image m platform end' out plan =
     (if \<not> os_is m (img_type out) ''standalone''
      then Inl ''BL33 is not a standalone U-Boot image''
      else let out = (if img_entry out = UINTPTR_MAX then out\<lparr>img_entry := img_load out\<rparr> else out);
               out = out\<lparr>img_role := CHAIN_IMAGE_BL33\<rparr>
           in if bl33_index plan \<noteq> None \<or> img_load out \<noteq> expected_bl33_entry platform \<or>
                 img_entry out \<noteq> expected_bl33_entry platform \<or> end' > bl33_limit platform
              then Inl ''unsafe or duplicate BL33 image''
              else Inr (plan\<lparr>bl33_index := Some (length (images plan)), bl33_entry := img_entry out,
                             images := images plan @ [out]\<rparr>))"

definition add_bl31_image :: "mem \<Rightarrow> ChainPlatform \<Rightarrow> bool \<Rightarrow> u64 \<Rightarrow> ChainImage \<Rightarrow> ChainFitPlan
    \<Rightarrow> string + ChainFitPlan" where
  "add_bl31_image m platform primary end' out plan =
     (if \<not> os_is m (img_type out) ''firmware''
      then Inl ''BL31 segment is not firmware''
      else let out = (if primary \<and> img_entry out = UINTPTR_MAX
                      then out\<lparr>img_entry := img_load out\<rparr> else out);
               out = out\<lparr>img_role := CHAIN_IMAGE_BL31\<rparr>
           in if \<not> bl31_address_allowed platform (img_load out) end'
              then Inl ''BL31 segment violates board address policy''
              else if img_entry out \<noteq> UINTPTR_MAX \<and>
                      (img_entry out \<noteq> expected_bl31_entry platform \<or> bl31_entry plan \<noteq> 0)
              then Inl ''invalid BL31 entry point''
              else Inr (plan\<lparr>bl31_entry := (if img_entry out \<noteq> UINTPTR_MAX then img_entry out
                                               else bl31_entry plan),
                             bl31_count := bl31_count plan + 1,
                             images := images plan @ [out]\<rparr>))"

definition add_executable_image :: "mem \<Rightarrow> addr \<Rightarrow> int \<Rightarrow> addr option \<Rightarrow> bool \<Rightarrow> ChainPlatform \<Rightarrow> ChainImage
    \<Rightarrow> ChainFitPlan \<Rightarrow> string + ChainFitPlan" where
  "add_executable_image m fit node arch primary platform out plan =
     (if \<not> os_is m arch ''arm64'' then Inl ''FIT executable image is not ARM64''
      else case address_prop m fit node ''load'' True of
        (status, load) \<Rightarrow>
          let out = (case load of None \<Rightarrow> out | Some v \<Rightarrow> out\<lparr>img_load := v\<rparr>) in
          if status \<noteq> 0 then Inl ''invalid FIT load range''
          else case checked_end (img_load out) (img_size out) of
            None \<Rightarrow> Inl ''invalid FIT load range''
          | Some end' \<Rightarrow>
              if os_is m (img_os out) ''tee'' \<or> os_is m (img_os out) ''op-tee''
              then Inl ''BL32/OP-TEE is not supported''
              else if os_is m (img_os out) ''U-Boot'' \<or> os_is m (img_os out) ''u-boot''
              then add_bl33_image m platform end' out plan
              else if os_is m (img_os out) ''arm-trusted-firmware''
              then add_bl31_image m platform primary end' out plan
              else Inl ''unsupported FIT operating system'')"

definition add_image :: "mem \<Rightarrow> addr \<Rightarrow> int \<Rightarrow> addr \<Rightarrow> bool \<Rightarrow> ChainPlatform \<Rightarrow> ChainFitPlan
    \<Rightarrow> string + ChainFitPlan" where
  "add_image m fit images_node name primary platform plan =
     (if length (images plan) = CHAIN_MAX_IMAGES then Inl ''too many FIT images''
      else let node = fdt_subnode_offset m fit images_node (c_string m name) in
      if node < 0 then Inl ''configuration references a missing image''
      else if fst (fdt_getprop m fit node (cstr ''data-position'')) \<noteq> None \<or>
              fst (fdt_getprop m fit node (cstr ''data-offset'')) \<noteq> None
      then Inl ''external FIT data is not supported''
      else let arch = string_prop m fit node ''arch'';
               type' = string_prop m fit node ''type'';
               os = string_prop m fit node ''os''
      in if \<not> os_is m (string_prop m fit node ''compression'') ''none''
      then Inl ''FIT compression is not supported''
      else case fdt_getprop m fit node (cstr ''data'') of
        (None, _) \<Rightarrow> Inl ''FIT image has no inline data''
      | (Some data, len) \<Rightarrow>
          if len \<le> 0 then Inl ''FIT image has no inline data''
          else if \<not> validate_hash m fit node data (word_of_int len)
          then Inl ''FIT SHA-256 verification failed''
          else case address_prop m fit node ''entry'' False of
            (entry_status, entry) \<Rightarrow>
              let out = \<lparr>img_name = name, img_data = data, img_size = word_of_int len,
                         img_load = 0,
                         img_entry = (case entry of None \<Rightarrow> UINTPTR_MAX | Some v \<Rightarrow> v),
                         img_type = type', img_os = os, img_role = CHAIN_IMAGE_BL31,
                         record_in_control_fdt = (\<not> primary), entry_explicit = (entry_status = 0)\<rparr>
              in if entry_status < 0 then Inl ''invalid FIT entry point''
                 else if os_is m type' ''flat_dt''
                 then add_fdt_image m fit node arch out plan
                 else add_executable_image m fit node arch primary platform out plan)"

subsection \<open>Parsing\<close>

definition images_overlap :: "ChainImage \<Rightarrow> ChainImage \<Rightarrow> bool" where
  "images_overlap a b =
     (if img_role a = CHAIN_IMAGE_FDT \<or> img_role b = CHAIN_IMAGE_FDT then False
      else case (checked_end (img_load a) (img_size a), checked_end (img_load b) (img_size b)) of
        (Some a_end, Some b_end) \<Rightarrow> img_load a < b_end \<and> img_load b < a_end
      | _ \<Rightarrow> True)"

text \<open>The two nested loops over the pairs \<open>i < j\<close>.\<close>

fun some_images_overlap :: "ChainImage list \<Rightarrow> bool" where
  "some_images_overlap [] = False"
| "some_images_overlap (x # xs) = (list_ex (images_overlap x) xs \<or> some_images_overlap xs)"

text \<open>The loop over the loadables, from index \<open>i\<close>.\<close>

fun add_loadables :: "mem \<Rightarrow> addr \<Rightarrow> int \<Rightarrow> int \<Rightarrow> ChainPlatform \<Rightarrow> int list \<Rightarrow> ChainFitPlan
    \<Rightarrow> string + ChainFitPlan" where
  "add_loadables m fit configuration images_node platform [] plan = Inr plan"
| "add_loadables m fit configuration images_node platform (i # is) plan =
     (case fst (fdt_stringlist_get m fit configuration (cstr ''loadables'') i) of
        None \<Rightarrow> Inl ''invalid FIT header''
      | Some name \<Rightarrow>
          (case add_image m fit images_node name False platform plan of
             Inl reason \<Rightarrow> Inl reason
           | Inr plan \<Rightarrow> add_loadables m fit configuration images_node platform is plan))"

definition empty_plan :: ChainFitPlan where
  "empty_plan = \<lparr>images = [], bl31_count = 0, bl33_index = None, fdt_index = None,
     bl31_entry = 0, bl33_entry = 0, control_fdt = 0, control_fdt_capacity = 0\<rparr>"

text \<open>The first half of \<open>chain_fit_parse\<close>: find the nodes and add the images.\<close>

definition fit_collect :: "mem \<Rightarrow> addr \<Rightarrow> int \<Rightarrow> int \<Rightarrow> ChainPlatform \<Rightarrow> string + ChainFitPlan" where
  "fit_collect m fit configuration images_node platform =
     (case fst (fdt_stringlist_get m fit configuration (cstr ''firmware'') 0) of
        None \<Rightarrow> Inl ''invalid FIT header''
      | Some name \<Rightarrow>
     (case add_image m fit images_node name True platform empty_plan of
        Inl reason \<Rightarrow> Inl reason
      | Inr plan \<Rightarrow>
     (let count = fdt_stringlist_count m fit configuration (cstr ''loadables'') in
      if count < 1 then Inl ''FIT has no loadables''
      else
     (case add_loadables m fit configuration images_node platform [0..count - 1] plan of
        Inl reason \<Rightarrow> Inl reason
      | Inr plan \<Rightarrow>
     (case fst (fdt_stringlist_get m fit configuration (cstr ''fdt'') 0) of
        None \<Rightarrow> Inl ''invalid FIT header''
      | Some name \<Rightarrow> add_image m fit images_node name False platform plan)))))"

text \<open>The loop over the executable images of the placement check: does one wrap around, or
  overlap the staging memory or the BL31 parameters?\<close>

definition image_misplaced :: "ChainPlatform \<Rightarrow> u64 \<Rightarrow> ChainImage \<Rightarrow> bool" where
  "image_misplaced platform params_end im =
     (if img_role im = CHAIN_IMAGE_FDT then False
      else case checked_end (img_load im) (img_size im) of
        None \<Rightarrow> True
      | Some image_end \<Rightarrow>
          (img_load im < fit_stage_end platform \<and> fit_stage_start platform < image_end) \<or>
          (img_load im < params_end \<and> params_addr platform < image_end))"

text \<open>The last block of \<open>chain_fit_parse\<close>: place the control device tree behind U-Boot and
  check it and every image against the memory that is in use.\<close>

definition fit_place :: "ChainPlatform \<Rightarrow> nat \<Rightarrow> nat \<Rightarrow> ChainFitPlan \<Rightarrow> string + ChainFitPlan" where
  "fit_place platform uboot_index dtb_index plan =
     (let uboot = images plan ! uboot_index;
          dtb = images plan ! dtb_index;
          fdt = img_load uboot + img_size uboot;
          capacity = img_size dtb + CHAIN_DTB_SLACK;
          plan = plan\<lparr>control_fdt := fdt, control_fdt_capacity := capacity\<rparr>
      in case checked_end fdt capacity of
        None \<Rightarrow> Inl ''U-Boot plus control DTB exceeds its initial stack limit''
      | Some dtb_end \<Rightarrow>
          if dtb_end > bl33_limit platform
          then Inl ''U-Boot plus control DTB exceeds its initial stack limit''
          else case checked_end (params_addr platform) CHAIN_PARAMS_RESERVE of
            None \<Rightarrow> Inl ''invalid BL31 parameter range''
          | Some params_end \<Rightarrow>
              if list_ex (image_misplaced platform params_end) (images plan)
              then Inl ''loaded image overlaps staging or BL31 parameters''
              else if (fdt < fit_stage_end platform \<and> fit_stage_start platform < dtb_end) \<or>
                      (fdt < params_end \<and> params_addr platform < dtb_end)
              then Inl ''control DTB overlaps staging or BL31 parameters''
              else Inr plan)"

text \<open>The completeness and overlap checks between collecting and placing.\<close>

definition fit_check_plan :: "ChainPlatform \<Rightarrow> ChainFitPlan \<Rightarrow> string + ChainFitPlan" where
  "fit_check_plan platform plan =
     (if bl31_count plan = 0 \<or> bl31_entry plan = 0 then
        Inl ''FIT is missing BL31, BL33, or its control DTB''
      else case (bl33_index plan, fdt_index plan) of
        (Some uboot_index, Some dtb_index) \<Rightarrow>
          if expected_bl31_segments platform \<noteq> 0 \<and> bl31_count plan \<noteq> expected_bl31_segments platform
          then Inl ''unexpected number of split BL31 segments''
          else if some_images_overlap (images plan) then Inl ''FIT load ranges overlap''
          else fit_place platform uboot_index dtb_index plan
      | _ \<Rightarrow> Inl ''FIT is missing BL31, BL33, or its control DTB'')"

definition chain_fit_parse :: "mem \<Rightarrow> addr \<Rightarrow> u64 \<Rightarrow> ChainPlatform \<Rightarrow> string + ChainFitPlan" where
  "chain_fit_parse m fit available platform =
     (if fit = 0 \<or> fdt_check_header m fit \<noteq> 0 then Inl ''invalid FIT header''
      else let total = word_of_int (fdt_totalsize m fit) :: u64 in
      if total > available \<or> total < 40 then Inl ''invalid FIT header''
      else let configurations = fdt_path_offset m fit (cstr ''/configurations'');
               images_node = fdt_path_offset m fit (cstr ''/images'') in
      if configurations < 0 \<or> images_node < 0 then Inl ''FIT lacks images or configurations''
      else let configuration = (case string_prop m fit configurations ''default'' of
                 None \<Rightarrow> -1
               | Some name \<Rightarrow> fdt_subnode_offset m fit configurations (c_string m name)) in
      if configuration < 0 then Inl ''FIT has no valid default configuration''
      else case fit_collect m fit configuration images_node platform of
        Inl reason \<Rightarrow> Inl reason
      | Inr plan \<Rightarrow> fit_check_plan platform plan)"

end
