(* ===== verification/Rk3568.thy ===== *)
theory Rk3568
  imports Page_Tables Console Fit
begin

text \<open>
  The chainloader's platform code (src/chainload/rk3568.c): UART set-up, the identity page
  tables, the preparation for BL31, boot source, recovery, and the table of these functions
  that the loader gets. The board's addresses come from the file board_config.h that the
  build generates; they are the data fields of the \<open>ChainPlatform\<close> argument.
\<close>

subsection \<open>The code\<close>

abbreviation (input) PMUGRF_BASE :: addr where "PMUGRF_BASE \<equiv> 0xfdc20000"
abbreviation (input) CPU_GRF_BASE :: addr where "CPU_GRF_BASE \<equiv> 0xfdc30000"
abbreviation (input) GRF_BASE :: addr where "GRF_BASE \<equiv> 0xfdc60000"
abbreviation (input) USBPHY_U3_GRF :: addr where "USBPHY_U3_GRF \<equiv> 0xfdca0000"
abbreviation (input) USBPHY_U2_GRF :: addr where "USBPHY_U2_GRF \<equiv> 0xfdca8000"
abbreviation (input) SGRF_BASE :: addr where "SGRF_BASE \<equiv> 0xfdd18000"
abbreviation (input) CRU_BASE :: addr where "CRU_BASE \<equiv> 0xfdd20000"
abbreviation (input) PMU_BASE :: addr where "PMU_BASE \<equiv> 0xfdd90000"
abbreviation (input) UART2_BASE :: addr where "UART2_BASE \<equiv> 0xfe660000"
abbreviation (input) EBC_PRIORITY_REG :: addr where "EBC_PRIORITY_REG \<equiv> 0xfe158008"
abbreviation (input) BROM_BOOTSOURCE_ID_ADDR :: addr where "BROM_BOOTSOURCE_ID_ADDR \<equiv> 0xfdcc0010"

definition enable_uart :: "history \<Rightarrow> history" where
  "enable_uart t =
     (let t = rk_clr_set_bits (PMUGRF_BASE + 0x18) 2 0 1 t;
          t = rk_clr_set_bits (PMUGRF_BASE + 0x18) 6 4 1 t;
          t = rk_clr_set_bits (GRF_BASE + 0x30c) 11 10 0 t;
          t = rk_clr_set_bits (CRU_BASE + 0x100 + 54 * 4) 13 12 2 t;
          t = rk_clr_set_bits (CRU_BASE + 0x300 + 26 * 4) 1 1 0 t;
          t = rk_clr_set_bits (CRU_BASE + 0x300 + 28 * 4) 0 0 0 t;
          t = rk_clr_set_bits (CRU_BASE + 0x300 + 28 * 4) 3 3 0 t
      in rk_clr_set_bits (CRU_BASE + 0x400 + 25 * 4) 1 0 0 t)"

text \<open>The page tables are at \<open>page_tables\<close>: level 1, then the two level 2 tables.\<close>

definition plat_setup_mmu :: "addr \<Rightarrow> mem \<Rightarrow> mem" where
  "plat_setup_mmu page_tables m =
     (let l1 = page_tables; low = page_tables + 4096; high = page_tables + 8192;
          m = memset m page_tables 0 12288;
          m = ttbl_table_entry m l1 low;
          m = ttbl_block_1gb m (l1 + 8) 0x40000000 3;
          m = ttbl_block_1gb m (l1 + 16) 0x80000000 3;
          m = ttbl_table_entry m (l1 + 24) high;
          m = fold (\<lambda>i m. ttbl_block_2mb m (low + of_nat (i * 8)) (push_bit 21 (of_nat i)) 3) [0..<512] m
      in fold (\<lambda>i m. let address = 0xc0000000 + push_bit 21 (of_nat i) in
             ttbl_block_2mb m (high + of_nat (i * 8)) address (if address \<ge> 0xf0000000 then 0 else 3))
           [0..<512] m)"

text \<open>The rest of \<open>plat_setup_mmu\<close> loads the registers.\<close>

definition plat_enable_mmu :: "addr \<Rightarrow> history \<Rightarrow> history" where
  "plat_enable_mmu page_tables t = EnableMMU # SetupTT 0x3520 0xeeff440400 page_tables # t"

fun wait_clear_from :: "device \<Rightarrow> addr \<Rightarrow> u32 \<Rightarrow> nat \<Rightarrow> history \<Rightarrow> (int \<times> history) option" where
  "wait_clear_from dev address mask' 0 t = Some (-1, t)"
| "wait_clear_from dev address mask' (Suc n) t =
     (case read32 dev address t of (v, t) \<Rightarrow>
        if v AND mask' = 0 then Some (0, t)
        else do { t \<leftarrow> usleep dev 1 t; wait_clear_from dev address mask' n t })"

definition wait_clear :: "device \<Rightarrow> addr \<Rightarrow> u32 \<Rightarrow> history \<Rightarrow> (int \<times> history) option" where
  "wait_clear dev address mask' t = wait_clear_from dev address mask' 1000 t"

definition rk3568_prepare_handoff :: "device \<Rightarrow> history \<Rightarrow> (int \<times> history) option" where
  "rk3568_prepare_handoff dev t =
     (let t = write32 (PMU_BASE + 0x70) 0xffffffff t;
          t = write32 (PMU_BASE + 0x74) 0x000f000f t;
          t = write32 (SGRF_BASE + 0x10) (push_bit 16 (push_bit 11 3 OR push_bit 4 1)) t;
          t = write32 (CPU_GRF_BASE + 0x10) 0x00ff002b t;
          t = write32 (CRU_BASE + 0x470) 0x02a002a0 t;
          t = write32 (USBPHY_U3_GRF + 0x04) 0x01ff01d1 t;
          t = write32 (USBPHY_U2_GRF + 0x00) 0x01ff01d1 t;
          t = write32 (USBPHY_U2_GRF + 0x04) 0x01ff01d1 t;
          t = write32 (PMU_BASE + 0xa0) 0xfffc0000 t
      in do {
        (err, t) \<leftarrow> wait_clear dev (PMU_BASE + 0x98) 0xfffffffc t;
        if err \<noteq> 0 then Some (-1, t)
        else do {
          let t = write32 (PMU_BASE + 0x50) 0xfff90000 t;
          (err, t) \<leftarrow> wait_clear dev (PMU_BASE + 0x60) 0xfffffff9 t;
          if err \<noteq> 0 then Some (-1, t)
          else do {
            (err, t) \<leftarrow> wait_clear dev (PMU_BASE + 0x68) 0xfffffff9 t;
            if err \<noteq> 0 then Some (-1, t)
            else Some (0, write32 EBC_PRIORITY_REG 0x303 t)
          }
        }
      })"

definition rk3568_range_is_cacheable :: "u64 \<Rightarrow> u64 \<Rightarrow> bool" where
  "rk3568_range_is_cacheable start end' \<longleftrightarrow> end' \<le> 0xf0000000"

definition rk3568_boot_source :: "device \<Rightarrow> history \<Rightarrow> string \<times> history" where
  "rk3568_boot_source dev t =
     (case read32 dev BROM_BOOTSOURCE_ID_ADDR t of (v, t) \<Rightarrow>
        let v = v AND 0x0f in
        (if v = 1 then ''source=nand''
         else if v = 2 then ''source=emmc''
         else if v = 3 then ''source=spi-nor''
         else if v = 4 then ''source=spi-nand''
         else if v = 5 then ''source=sd''
         else if v = 10 then ''source=usb''
         else ''source=unknown'', t))"

text \<open>The recovery does not return: its history ends in \<open>halt\<close>. The loader never passes a null
  reason.\<close>

definition rk3568_recover :: "device \<Rightarrow> string \<Rightarrow> string \<Rightarrow> string \<Rightarrow> history \<Rightarrow> history option" where
  "rk3568_recover dev board_name stage reason t =
     do {
       t \<leftarrow> puts dev UART2_BASE (chars ''chainload: fatal error'') t;
       t \<leftarrow> puts dev UART2_BASE (chars (''board: '' @ board_name)) t;
       t \<leftarrow> puts dev UART2_BASE (chars ''stage:'') t;
       t \<leftarrow> puts dev UART2_BASE (chars stage) t;
       t \<leftarrow> puts dev UART2_BASE (chars ''reason:'') t;
       t \<leftarrow> puts dev UART2_BASE (chars reason) t;
       let t = write32 (PMUGRF_BASE + 0x200) 0xef08a53c t;
       let t = Barrier # t;
       let t = write32 (CRU_BASE + 0xd4) 0xfdb9 t;
       Some (Wfi # t)
     }"

definition board_platform :: "device \<Rightarrow> ChainPlatform \<Rightarrow> ChainPlatform" where
  "board_platform dev config = config
     \<lparr>handoff_protocol := 1,
      get_boot_source := rk3568_boot_source dev,
      prepare_handoff := Some (rk3568_prepare_handoff dev),
      range_is_cacheable := Some rk3568_range_is_cacheable,
      recover := rk3568_recover dev (board config)\<rparr>"

subsection \<open>The identity page tables\<close>

lemma plat_setup_mmu_tables:
  "plat_setup_mmu pt m = identity_tables (\<lambda>_. 3) (\<lambda>a. if a \<ge> 0xf0000000 then 0 else 3) pt (memset m pt 0 12288)"
  by (simp add: plat_setup_mmu_def identity_tables_def Let_def ttbl_table_entry_def ttbl_block_1gb_def
      ttbl_block_2mb_def block_2mb_def add.assoc mult.commute del: upt_rec_numeral)

text \<open>C9. The page tables of \<open>plat_setup_mmu\<close> map every address below 4 GiB to itself, as cacheable
  memory (type 3) below the device area at 0xf0000000 and as device memory (type 0) in it,
  wherever the tables are, if they are page aligned and below 2 to the 48.\<close>

theorem identity_map:
  assumes pt: "take_bit 12 pt = 0" "unat pt + 12288 \<le> 281474976710656"
    and va: "va < 0x100000000"
  shows "translate (plat_setup_mmu pt m) pt va = Some (va, if va \<ge> 0xf0000000 then 0 else 3)"
proof -
  have "0xf0000000 \<le> push_bit 21 (drop_bit 21 va) \<longleftrightarrow> 0xf0000000 \<le> va"
    by (rule block_bound [where n = 1920]) simp
  then show ?thesis
    using identity_tables_translate [OF pt va, of "\<lambda>_. 3" "\<lambda>a. if a \<ge> 0xf0000000 then 0 else 3" "memset m pt 0 12288"]
    by (auto simp: plat_setup_mmu_tables word_less_nat_alt word_le_nat_alt)
qed

lemma identity_map_witness:
  "translate (plat_setup_mmu 0x4000 (\<lambda>_. 0xff)) 0x4000 0xfe660014 = Some (0xfe660014, 0)"
  using identity_map [of "0x4000" "0xfe660014" "\<lambda>_. 0xff"] by simp

subsection \<open>Waiting and preparing\<close>

text \<open>The events of a wait: no write, and a reading with the bits clear if it succeeded.\<close>

definition waited_clear :: "addr \<Rightarrow> u32 \<Rightarrow> int \<Rightarrow> history \<Rightarrow> bool" where
  "waited_clear a mask' r new \<longleftrightarrow> (r = 0 \<or> r = -1) \<and> (\<forall>b v. Write32 b v \<notin> set new) \<and>
     (r = 0 \<longrightarrow> (\<exists>v. Read32 a v \<in> set new \<and> v AND mask' = 0))"

lemma wait_clear_from_spec:
  "timer_runs dev \<Longrightarrow> \<exists>r new. wait_clear_from dev a mask' n t = Some (r, new @ t) \<and> waited_clear a mask' r new"
proof (induction n arbitrary: t)
  case 0
  then show ?case by (intro exI [of _ "-1"] exI [of _ "[]"]) (simp add: waited_clear_def)
next
  case (Suc n)
  let ?v = "dev_rd dev t a"
  show ?case
  proof (cases "?v AND mask' = 0")
    case True
    then show ?thesis
      by (intro exI [of _ 0] exI [of _ "[Read32 a ?v]"]) (auto simp: waited_clear_def read32_def)
  next
    case False
    obtain t1 where t1: "usleep dev 1 (Read32 a ?v # t) = Some t1"
      using usleep_returns [OF Suc.prems] by blast
    obtain ts where ts: "t1 = map ReadTime ts @ Read32 a ?v # t" using usleep_history [OF t1] by blast
    obtain r new where ih: "wait_clear_from dev a mask' n t1 = Some (r, new @ t1)" "waited_clear a mask' r new"
      using Suc.IH [OF Suc.prems] by blast
    have "waited_clear a mask' r (new @ map ReadTime ts @ [Read32 a ?v])"
      using ih(2) by (auto simp: waited_clear_def)
    moreover have "wait_clear_from dev a mask' (Suc n) t = Some (r, (new @ map ReadTime ts @ [Read32 a ?v]) @ t)"
      using False t1 ih(1) by (simp add: read32_def ts)
    ultimately show ?thesis by blast
  qed
qed

lemma wait_clear_spec:
  "timer_runs dev \<Longrightarrow> \<exists>r new. wait_clear dev a mask' t = Some (r, new @ t) \<and> waited_clear a mask' r new"
  unfolding wait_clear_def by (rule wait_clear_from_spec)

text \<open>The power domains and the interconnect are up: the three status registers have been read with
  the bits of every domain but the GPU's and the NPU's clear.\<close>

definition domains_ready :: "history \<Rightarrow> bool" where
  "domains_ready new \<longleftrightarrow> (\<exists>v. Read32 (PMU_BASE + 0x98) v \<in> set new \<and> v AND 0xfffffffc = 0) \<and>
     (\<exists>v. Read32 (PMU_BASE + 0x60) v \<in> set new \<and> v AND 0xfffffff9 = 0) \<and>
     (\<exists>v. Read32 (PMU_BASE + 0x68) v \<in> set new \<and> v AND 0xfffffff9 = 0)"

lemma rk3568_prepare_handoff_spec:
  assumes "timer_runs dev"
  shows "\<exists>r new. rk3568_prepare_handoff dev t = Some (r, new @ t) \<and>
     (if r = 0 then domains_ready new \<and> hd new = Write32 EBC_PRIORITY_REG 0x303
      else r = -1 \<and> (\<forall>v. Write32 EBC_PRIORITY_REG v \<notin> set new))"
proof -
  define p where "p = [Write32 (PMU_BASE + 0xa0) 0xfffc0000, Write32 (USBPHY_U2_GRF + 0x04) 0x01ff01d1,
    Write32 (USBPHY_U2_GRF + 0x00) 0x01ff01d1, Write32 (USBPHY_U3_GRF + 0x04) 0x01ff01d1,
    Write32 (CRU_BASE + 0x470) 0x02a002a0, Write32 (CPU_GRF_BASE + 0x10) 0x00ff002b,
    Write32 (SGRF_BASE + 0x10) (push_bit 16 (push_bit 11 3 OR push_bit 4 1)),
    Write32 (PMU_BASE + 0x74) 0x000f000f, Write32 (PMU_BASE + 0x70) 0xffffffff]"
  have no_ebc: "Write32 EBC_PRIORITY_REG v \<notin> set p" for v by (simp add: p_def)
  let ?w = "Write32 (PMU_BASE + 0x50) 0xfff90000"
  obtain r1 n1 where 1: "wait_clear dev (PMU_BASE + 0x98) 0xfffffffc (p @ t) = Some (r1, n1 @ p @ t)"
    "waited_clear (PMU_BASE + 0x98) 0xfffffffc r1 n1" using wait_clear_spec [OF assms] by metis
  obtain r2 n2 where 2: "wait_clear dev (PMU_BASE + 0x60) 0xfffffff9 (?w # n1 @ p @ t)
      = Some (r2, n2 @ ?w # n1 @ p @ t)"
    "waited_clear (PMU_BASE + 0x60) 0xfffffff9 r2 n2" using wait_clear_spec [OF assms] by metis
  obtain r3 n3 where 3: "wait_clear dev (PMU_BASE + 0x68) 0xfffffff9 (n2 @ ?w # n1 @ p @ t)
      = Some (r3, n3 @ n2 @ ?w # n1 @ p @ t)"
    "waited_clear (PMU_BASE + 0x68) 0xfffffff9 r3 n3" using wait_clear_spec [OF assms] by metis
  have eq: "rk3568_prepare_handoff dev t =
    (if r1 \<noteq> 0 then Some (-1, (n1 @ p) @ t)
     else if r2 \<noteq> 0 then Some (-1, (n2 @ ?w # n1 @ p) @ t)
     else if r3 \<noteq> 0 then Some (-1, (n3 @ n2 @ ?w # n1 @ p) @ t)
     else Some (0, (Write32 EBC_PRIORITY_REG 0x303 # n3 @ n2 @ ?w # n1 @ p) @ t))"
    using 1(1) 2(1) 3(1) by (simp add: rk3568_prepare_handoff_def write32_def Let_def p_def)
  show ?thesis
    unfolding eq using 1(2) 2(2) 3(2) no_ebc
    by (auto simp: waited_clear_def domains_ready_def)
qed

text \<open>C16. The preparation for BL31 always returns, whatever the hardware answers, if only the timer
  runs. It reports success exactly when it ends with the display priority, which it sets
  only after all power domains and the interconnect have been seen to be up.\<close>

theorem rk3568_prepare_handoff_ready:
  assumes "timer_runs dev"
  shows "\<exists>r new. rk3568_prepare_handoff dev t = Some (r, new @ t) \<and>
     (if r = 0 then domains_ready new \<and> hd new = Write32 EBC_PRIORITY_REG 0x303
      else r = -1 \<and> (\<forall>v. Write32 EBC_PRIORITY_REG v \<notin> set new))"
  by (rule rk3568_prepare_handoff_spec [OF assms])

text \<open>A device whose UART is always ready, whose other registers read 0 and whose timer is the length
  of the history.\<close>

definition quiet_device :: device where
  "quiet_device = \<lparr>dev_rd = \<lambda>t a. if a = UART2_BASE + UART_LSR then 0x20 else 0,
     dev_time = \<lambda>t. of_nat (length t)\<rparr>"

lemma quiet_device_runs: "timer_runs quiet_device"
proof -
  have len: "length (after_times dev n t) = length t + n" for dev n t
    by (induction n arbitrary: t) (simp_all add: asm_get_cpu_timer_def)
  have "d \<le> dev_time quiet_device (after_times quiet_device (unat (d - of_nat (length t))) t)" for d t
    by (simp add: quiet_device_def len)
  then show ?thesis unfolding timer_runs_def by blast
qed

lemma quiet_device_ready: "uart_ready quiet_device UART2_BASE"
  by (simp add: uart_ready_def quiet_device_def)

lemma rk3568_prepare_handoff_ready_witness:
  "\<exists>r new. rk3568_prepare_handoff quiet_device [] = Some (r, new @ []) \<and>
     (if r = 0 then domains_ready new \<and> hd new = Write32 EBC_PRIORITY_REG 0x303
      else r = -1 \<and> (\<forall>v. Write32 EBC_PRIORITY_REG v \<notin> set new))"
  by (rule rk3568_prepare_handoff_ready [OF quiet_device_runs])

subsection \<open>UART and recovery\<close>

lemma word32_eqI: "list_all (\<lambda>n. bit (a :: u32) n = bit b n) [0..<32] \<Longrightarrow> a = b"
  by (rule bit_word_eqI) (simp add: list_all_iff)

lemma enable_uart_pins: "hiword_reg (PMUGRF_BASE + 0x18) old (enable_uart []) = (old AND NOT 0x77) OR 0x11"
  by (simp add: enable_uart_def rk_clr_set_bits_def write32_def hiword_reg_def hiword_write_def)
    (rule word32_eqI, simp add: upt_rec bit_simps)

text \<open>What the recovery prints.\<close>

definition recover_text :: "string \<Rightarrow> string \<Rightarrow> string \<Rightarrow> bytes" where
  "recover_text board_name stage reason =
     puts_text (chars ''chainload: fatal error'') @ puts_text (chars (''board: '' @ board_name)) @
     puts_text (chars ''stage:'') @ puts_text (chars stage) @
     puts_text (chars ''reason:'') @ puts_text (chars reason)"

lemma recover_outputs:
  "outputs dev UART2_BASE (\<lambda>t. do {
       t \<leftarrow> puts dev UART2_BASE (chars ''chainload: fatal error'') t;
       t \<leftarrow> puts dev UART2_BASE (chars (''board: '' @ board_name)) t;
       t \<leftarrow> puts dev UART2_BASE (chars ''stage:'') t;
       t \<leftarrow> puts dev UART2_BASE (chars stage) t;
       t \<leftarrow> puts dev UART2_BASE (chars ''reason:'') t;
       puts dev UART2_BASE (chars reason) t }) (recover_text board_name stage reason)"
  unfolding recover_text_def by (intro outputs_bind outputs_puts_text)

lemma rk3568_recover_spec:
  "(uart_ready dev UART2_BASE \<longrightarrow> rk3568_recover dev board_name stage reason t \<noteq> None) \<and>
   (\<forall>t'. rk3568_recover dev board_name stage reason t = Some t' \<longrightarrow>
      (\<exists>t1. t' = [Wfi, Write32 (CRU_BASE + 0xd4) 0xfdb9, Barrier, Write32 (PMUGRF_BASE + 0x200) 0xef08a53c] @ t1 \<and>
        writes_to UART2_BASE t1 = writes_to UART2_BASE t @ map ucast (recover_text board_name stage reason)))"
proof -
  define f where "f = (\<lambda>t. do {
       t \<leftarrow> puts dev UART2_BASE (chars ''chainload: fatal error'') t;
       t \<leftarrow> puts dev UART2_BASE (chars (''board: '' @ board_name)) t;
       t \<leftarrow> puts dev UART2_BASE (chars ''stage:'') t;
       t \<leftarrow> puts dev UART2_BASE (chars stage) t;
       t \<leftarrow> puts dev UART2_BASE (chars ''reason:'') t;
       puts dev UART2_BASE (chars reason) t })"
  have o: "outputs dev UART2_BASE f (recover_text board_name stage reason)"
    unfolding f_def by (rule recover_outputs)
  have eq: "rk3568_recover dev board_name stage reason t = map_option (\<lambda>t1.
      [Wfi, Write32 (CRU_BASE + 0xd4) 0xfdb9, Barrier, Write32 (PMUGRF_BASE + 0x200) 0xef08a53c] @ t1) (f t)"
    by (simp add: rk3568_recover_def f_def write32_def map_conv_bind_option comp_def)
  show ?thesis unfolding eq using outputsD [OF o] by auto
qed

text \<open>C17. The recovery prints the board, the stage and the reason, then sets the boot ROM's download
  marker, and only after a barrier resets the chip; it gets there whenever the UART keeps
  getting ready.\<close>

theorem rk3568_recover_resets:
  "(uart_ready dev UART2_BASE \<longrightarrow> rk3568_recover dev board_name stage reason t \<noteq> None) \<and>
   (\<forall>t'. rk3568_recover dev board_name stage reason t = Some t' \<longrightarrow>
      (\<exists>t1. t' = [Wfi, Write32 (CRU_BASE + 0xd4) 0xfdb9, Barrier, Write32 (PMUGRF_BASE + 0x200) 0xef08a53c] @ t1 \<and>
        writes_to UART2_BASE t1 = writes_to UART2_BASE t @ map ucast (recover_text board_name stage reason)))"
  by (rule rk3568_recover_spec)

lemma rk3568_recover_resets_witness:
  "\<exists>t'. rk3568_recover quiet_device ''b'' ''validate'' ''r'' [] = Some t'"
  using rk3568_recover_resets [of quiet_device "''b''" "''validate''" "''r''" "[]"] quiet_device_ready
  by auto

end
