(* ===== verification/Libfdt_Facts.thy ===== *)
theory Libfdt_Facts
  imports Libfdt
begin

text \<open>
  What the read-only libfdt promises to its callers: an offset it accepts lies inside the
  blob, a property value it returns lies inside the blob, and (second half) the results
  depend on no byte outside the blob.
\<close>

subsection \<open>Bounds\<close>

lemma wrap32_id: "0 \<le> x \<Longrightarrow> x < 4294967296 \<Longrightarrow> wrap32 x = x"
  by (simp add: wrap32_def)

lemma wrap32_add_ge:
  assumes "0 \<le> x" "x < 4294967296" "0 \<le> y" "y < 4294967296" "x \<le> wrap32 (x + y)"
  shows "wrap32 (x + y) = x + y" and "x + y < 4294967296"
proof -
  have "wrap32 (x + y) = (if x + y < 4294967296 then x + y else x + y - 4294967296)"
  proof (cases "x + y < 4294967296")
    case False
    have "(x + y) mod 4294967296 = (x + y - 4294967296) mod 4294967296"
      by (rule minus_mod_self2 [symmetric])
    also have "\<dots> = x + y - 4294967296"
      by (rule mod_pos_pos_trivial) (use False assms in auto)
    finally show ?thesis using False by (simp add: wrap32_def)
  qed (use assms in \<open>simp add: wrap32_def\<close>)
  with assms show "wrap32 (x + y) = x + y" by (auto split: if_splits)
  then show "x + y < 4294967296" by (metis wrap32_def pos_mod_bound zero_less_numeral)
qed

abbreviation in_blob :: "mem \<Rightarrow> addr \<Rightarrow> int \<Rightarrow> int \<Rightarrow> bool" where
  "in_blob m a k len \<equiv> 0 \<le> k \<and> 0 \<le> len \<and> k + len \<le> fdt_totalsize m a"

lemma fdt_header_bounds [simp]:
  "0 \<le> fdt_totalsize m a" "0 \<le> fdt_off_dt_struct m a" "0 \<le> fdt_off_dt_strings m a"
  "0 \<le> fdt_size_dt_strings m a" "0 \<le> fdt_size_dt_struct m a"
  "fdt_totalsize m a < 4294967296" "fdt_off_dt_struct m a < 4294967296"
  "fdt_off_dt_strings m a < 4294967296" "fdt_size_dt_strings m a < 4294967296"
  "fdt_size_dt_struct m a < 4294967296"
  using be32_less
  by (simp_all add: fdt_totalsize_def fdt_off_dt_struct_def fdt_off_dt_strings_def
      fdt_size_dt_strings_def fdt_size_dt_struct_def)

lemma fdt_offset_ptr_Some:
  assumes "fdt_offset_ptr m a offset len = Some p" and "0 \<le> len" and "len < 4294967296"
  shows "p = fdt_offset_addr m a offset" and "0 \<le> offset" and "offset \<le> INT_MAX"
    and "in_blob m a (fdt_off_dt_struct m a + offset) len"
    and "17 \<le> fdt_version m a \<Longrightarrow> offset + len \<le> fdt_size_dt_struct m a"
proof -
  let ?s = "fdt_off_dt_struct m a"
  from assms(1) show p: "p = fdt_offset_addr m a offset" and off: "0 \<le> offset" "offset \<le> INT_MAX"
    by (auto simp: fdt_offset_ptr_def Let_def split: if_splits)
  from assms(1) off have c: "offset \<le> wrap32 (offset + ?s)"
      "wrap32 (offset + ?s) \<le> wrap32 (wrap32 (offset + ?s) + len)"
      "wrap32 (wrap32 (offset + ?s) + len) \<le> fdt_totalsize m a"
    by (auto simp: fdt_offset_ptr_def Let_def wrap32_id split: if_splits)
  have abs: "wrap32 (offset + ?s) = offset + ?s" "offset + ?s < 4294967296"
    using wrap32_add_ge [of offset ?s] off c(1) by simp_all
  have "wrap32 (offset + ?s + len) = offset + ?s + len"
    by (rule wrap32_add_ge) (use off c abs assms in auto)
  with c abs off assms show "in_blob m a (?s + offset) len" by simp
  assume "17 \<le> fdt_version m a"
  with assms(1) off have v: "offset \<le> wrap32 (offset + len)"
      "wrap32 (offset + len) \<le> fdt_size_dt_struct m a"
    by (auto simp: fdt_offset_ptr_def Let_def wrap32_id split: if_splits)
  have "wrap32 (offset + len) = offset + len"
    by (rule wrap32_add_ge) (use off v assms in auto)
  with v show "offset + len \<le> fdt_size_dt_struct m a" by simp
qed

text \<open>A property that \<open>fdt_next_tag\<close> accepts lies inside the blob with its whole value.\<close>

definition prop_pad :: "mem \<Rightarrow> addr \<Rightarrow> int \<Rightarrow> int \<Rightarrow> int" where
  "prop_pad m a start len =
     (if fdt_version m a < 16 \<and> (start + 12) mod 8 \<noteq> 0 \<and> len \<ge> 8 then 4 else 0)"

lemma prop_pad_bounds: "0 \<le> prop_pad m a start len" "prop_pad m a start len \<le> 4"
  by (simp_all add: prop_pad_def)

lemma fdt_offset_addr_add: "fdt_offset_addr m a (x + y) = fdt_offset_addr m a x + word_of_int y"
  by (simp add: fdt_offset_addr_def add.assoc)

lemma fdt_next_tag_prop:
  assumes tag: "fdt_next_tag m a start = (FDT_PROP, nextoff)" and "0 \<le> nextoff"
  defines "p \<equiv> fdt_offset_addr m a start"
  shows "be32 m p = FDT_PROP" and "0 \<le> start" and "fdt_prop_len m p < INT_MAX"
    and "in_blob m a (fdt_off_dt_struct m a + start)
           (12 + fdt_prop_len m p + prop_pad m a start (fdt_prop_len m p))"
    and "17 \<le> fdt_version m a \<Longrightarrow> start + 12 + fdt_prop_len m p \<le> fdt_size_dt_struct m a"
proof -
  let ?len = "fdt_prop_len m p"
  obtain tagp where tagp: "fdt_offset_ptr m a start 4 = Some tagp"
    using tag by (cases "fdt_offset_ptr m a start 4") (simp_all add: fdt_next_tag_def)
  note t = fdt_offset_ptr_Some [OF tagp, simplified]
  have be: "be32 m p = FDT_PROP"
    using tag tagp t(1) p_def
    by (auto simp: fdt_next_tag_def Let_def split: if_splits option.splits dest: fdt_tag_end_cases)
  then obtain lenp where lenp: "fdt_offset_ptr m a (start + 4) 4 = Some lenp"
    using tag tagp t(1) p_def
    by (cases "fdt_offset_ptr m a (start + 4) 4") (simp_all add: fdt_next_tag_def)
  have l: "be32 m lenp = ?len"
    using fdt_offset_ptr_Some(1) [OF lenp]
    by (simp add: p_def fdt_prop_len_def fdt_offset_addr_add)
  let ?sum = "wrap32 (?len + (start + 4))"
  let ?o = "start + 12 + ?len + prop_pad m a start ?len"
  have tag': "\<not> (INT_MAX \<le> ?sum \<or> ?sum < start + 4)"
      "fdt_tag_end m a start ?o FDT_PROP = (FDT_PROP, nextoff)"
    using tag tagp t(1) be lenp l p_def assms(2)
    by (auto simp: fdt_next_tag_def Let_def prop_pad_def algebra_simps split: if_splits)
  have len: "0 \<le> ?len" "?len < 4294967296" by (simp_all add: fdt_prop_len_def be32_less)
  have "?sum = ?len + (start + 4)"
    using tag'(1) t len wrap32_add_ge [of "start + 4" ?len] by (simp add: add.commute)
  then have small: "?len + (start + 4) < INT_MAX" using tag'(1) by simp
  have "fdt_offset_ptr m a start (?o - start) = Some p"
    using fdt_tag_end_cases [OF tag'(2)] p_def by simp
  note whole = fdt_offset_ptr_Some [OF this]
  have n: "0 \<le> ?o - start" "?o - start < 4294967296"
    using small len t(2) prop_pad_bounds [of m a start ?len] by simp_all
  from whole(5) [OF n] prop_pad_bounds [of m a start ?len]
  show "17 \<le> fdt_version m a \<Longrightarrow> start + 12 + ?len \<le> fdt_size_dt_struct m a" by simp
  from whole(4) [OF n]
  show "in_blob m a (fdt_off_dt_struct m a + start) (12 + ?len + prop_pad m a start ?len)"
    by (simp add: algebra_simps)
  from be show "be32 m p = FDT_PROP" .
  from t(2) show "0 \<le> start" .
  from small t(2) show "?len < INT_MAX" by simp
qed

text \<open>The next offset of a tag stays within 32 bits.\<close>

lemma fdt_skip_name_le: "fdt_skip_name m a offset = Some q \<Longrightarrow> q \<le> 2147483648"
  by (induction m a offset rule: fdt_skip_name.induct)
    (subst (asm) (2) fdt_skip_name.simps,
      auto split: option.splits if_splits dest: fdt_offset_ptr_range)

lemma fdt_next_tag_next_less:
  assumes tag: "fdt_next_tag m a start = (t, nextoff)"
  shows "nextoff < 4294967296"
proof (cases "fdt_offset_ptr m a start 4")
  case None
  with tag show ?thesis by (simp add: fdt_next_tag_def)
next
  case (Some tagp)
  note start = fdt_offset_ptr_range [OF Some]
  have al: "FDT_TAGALIGN x < 4294967296" if "x \<le> 2147483672" for x
    using that by (simp add: FDT_TAGALIGN_def)
  have te: "nx < 4294967296" if "fdt_tag_end m a start x tg = (tt, nx)" "x \<le> 2147483672" for x tg tt nx
    using fdt_tag_end_cases [OF that(1)] al [OF that(2)] by auto
  have sum: "len + 12 + start \<le> 2147483668" if "\<not> (INT_MAX \<le> wrap32 (len + (start + 4)))"
      "\<not> wrap32 (len + (start + 4)) < start + 4" "0 \<le> len" "len < 4294967296" for len
  proof -
    have "wrap32 (start + 4 + len) = start + 4 + len"
      by (rule wrap32_add_ge) (use that start in \<open>auto simp: add.commute\<close>)
    with that(1) show ?thesis by (simp add: add.commute)
  qed
  show ?thesis
  proof (cases "be32 m tagp = FDT_PROP")
    case True
    show ?thesis
    proof (cases "fdt_offset_ptr m a (start + 4) 4")
      case None
      with tag Some True show ?thesis by (simp add: fdt_next_tag_def)
    next
      case (Some lenp)
      have "be32 m lenp < 4294967296" by (rule be32_less)
      with tag \<open>fdt_offset_ptr m a start 4 = Some tagp\<close> True Some sum [of "be32 m lenp"]
      show ?thesis
        by (auto simp: fdt_next_tag_def Let_def split: if_splits intro!: te)
    qed
  next
    case False
    have "fdt_skip_name m a (start + 4) = Some q \<Longrightarrow> fdt_tag_end m a start q 1 = (t, nextoff) \<Longrightarrow>
        nextoff < 4294967296" for q
      using fdt_skip_name_le [of m a "start + 4" q] te [of q 1 t nextoff] by simp
    with False tag Some start show ?thesis
      by (auto simp: fdt_next_tag_def Let_def split: if_splits option.splits dest: te)
  qed
qed

lemma to_int32_id: "0 \<le> x \<Longrightarrow> x \<le> INT_MAX \<Longrightarrow> to_int32 x = x"
  by (simp add: to_int32_def)

lemma fdt_check_prop_offset_tag:
  "0 \<le> fdt_check_prop_offset m a offset \<Longrightarrow>
   fdt_next_tag m a offset = (FDT_PROP, fdt_check_prop_offset m a offset)"
  by (auto simp: fdt_check_prop_offset_def split: if_splits prod.splits)

lemma fdt_get_property_by_offset_Some:
  assumes "fdt_get_property_by_offset m a offset = (Some prop, len)"
  shows "prop = fdt_offset_addr m a offset" and "len = fdt_prop_len m prop" and "0 \<le> offset"
    and "in_blob m a (fdt_off_dt_struct m a + offset) (12 + len + prop_pad m a offset len)"
    and "17 \<le> fdt_version m a \<Longrightarrow> offset + 12 + len \<le> fdt_size_dt_struct m a"
proof -
  have ok: "0 \<le> fdt_check_prop_offset m a offset"
    using assms by (auto simp: fdt_get_property_by_offset_def Let_def split: if_splits)
  note tag = fdt_next_tag_prop [OF fdt_check_prop_offset_tag [OF ok] ok]
  from assms ok show p: "prop = fdt_offset_addr m a offset"
    by (auto simp: fdt_get_property_by_offset_def Let_def split: if_splits)
  have "0 \<le> fdt_prop_len m prop" by (simp add: fdt_prop_len_def)
  with tag(3) p have "to_int32 (fdt_prop_len m prop) = fdt_prop_len m prop"
    by (intro to_int32_id) simp_all
  with assms ok p show len: "len = fdt_prop_len m prop"
    by (simp add: fdt_get_property_by_offset_def Let_def split: if_splits)
  from tag(2) show "0 \<le> offset" .
  from tag(4) p len show "in_blob m a (fdt_off_dt_struct m a + offset)
      (12 + len + prop_pad m a offset len)" by simp
  from tag(5) p len show "17 \<le> fdt_version m a \<Longrightarrow> offset + 12 + len \<le> fdt_size_dt_struct m a"
    by simp
qed

lemma fdt_get_property_loop_Some:
  "fdt_get_property_loop m a offset name = (Some prop, len, poffset) \<Longrightarrow>
   fdt_get_property_by_offset m a poffset = (Some prop, len)
   \<and> fdt_string_eq m a (to_int32 (fdt_prop_nameoff m prop)) name"
  by (induction m a offset name rule: fdt_get_property_loop.induct)
    (subst (asm) (2) fdt_get_property_loop.simps,
      auto split: if_splits option.splits prod.splits)

lemma fdt_get_property_loop_None:
  "fdt_get_property_loop m a offset name = (None, len, poffset) \<Longrightarrow> len < 0"
  by (induction m a offset name rule: fdt_get_property_loop.induct)
    (subst (asm) (2) fdt_get_property_loop.simps,
      auto split: if_splits option.splits prod.splits)

text \<open>A property value lies inside the blob.\<close>

lemma fdt_getprop_in_blob:
  assumes "fdt_getprop m a node name = (Some p, len)"
  obtains k where "p = a + word_of_int k" and "in_blob m a k len"
proof -
  obtain pp poff where loop: "fdt_get_property_loop m a (fdt_first_property_offset m a node) name = (Some pp, len, poff)"
    using assms
    by (auto simp: fdt_getprop_def fdt_get_property_namelen_def split: option.splits prod.splits if_splits)
  then have by_off: "fdt_get_property_by_offset m a poff = (Some pp, len)"
    using fdt_get_property_loop_Some by blast
  note f = fdt_get_property_by_offset_Some [OF by_off]
  let ?s = "fdt_off_dt_struct m a + poff"
  let ?pad = "prop_pad m a poff len"
  have len0: "0 \<le> len" using f(2) by (simp add: fdt_prop_len_def)
  have "p = pp + word_of_int (12 + ?pad)"
    using assms loop f(2)
    by (auto simp: fdt_getprop_def fdt_get_property_namelen_def prop_pad_def split: if_splits)
  then have "p = a + word_of_int (?s + 12 + ?pad)"
    using f(1) by (simp add: fdt_offset_addr_def add.assoc)
  then show ?thesis
  proof (rule that)
    show "in_blob m a (?s + 12 + ?pad) len"
      using f(3,4) len0 prop_pad_bounds [of m a poff len] by (simp add: algebra_simps)
  qed
qed

text \<open>So do the strings of a string list, with their terminating zero.\<close>

lemma stringlist_get_loop_Some:
  assumes "stringlist_get_loop m p left idx = (Some s, n)"
  shows "\<exists>k. s = p + of_nat k \<and> 0 \<le> n \<and> k + nat n < left \<and> n = int (strnlen m s (left - k))
    \<and> strnlen m s (left - k) < left - k"
  using assms
proof (induction m p left idx rule: stringlist_get_loop.induct)
  case (1 m p left idx)
  let ?l = "strnlen m p left + 1"
  have left: "left \<noteq> 0" "?l \<le> left"
    using "1.prems" by (auto simp: stringlist_get_loop.simps [of m p left idx] Let_def split: if_splits)
  show ?case
  proof (cases "idx = 0")
    case True
    with left "1.prems" have "s = p" "n = int (strnlen m p left)"
      by (auto simp: stringlist_get_loop.simps [of m p left 0] Let_def)
    with left show ?thesis by (intro exI [of _ 0]) auto
  next
    case False
    with left "1.prems" have "stringlist_get_loop m (p + of_nat ?l) (left - ?l) (idx - 1) = (Some s, n)"
      by (simp add: stringlist_get_loop.simps [of m p left idx] Let_def)
    from "1.IH" [OF left(1) refl _ False this] left
    obtain k where k: "s = p + of_nat ?l + of_nat k" "0 \<le> n" "k + nat n < left - ?l"
      "n = int (strnlen m s (left - ?l - k))" "strnlen m s (left - ?l - k) < left - ?l - k"
      by auto
    then show ?thesis
      by (intro exI [of _ "?l + k"]) (simp add: add.assoc)
  qed
qed

text \<open>A string that lies inside the blob with its terminating zero.\<close>

definition str_in_blob :: "mem \<Rightarrow> addr \<Rightarrow> addr \<Rightarrow> bool" where
  "str_in_blob m a p \<longleftrightarrow>
     (\<exists>k n. p = a + word_of_int k \<and> in_blob m a k (int n + 1) \<and> m (p + of_nat n) = 0)"

lemma stringlist_get_in:
  assumes "fst (fdt_stringlist_get m a node name idx) = Some p"
  shows "str_in_blob m a p"
proof -
  from assms obtain list' len where g: "fdt_getprop m a node name = (Some list', len)"
    and "fst (stringlist_get_loop m list' (nat len) idx) = Some p"
    by (auto simp: fdt_stringlist_get_def split: option.splits prod.splits)
  then obtain n where l: "stringlist_get_loop m list' (nat len) idx = (Some p, n)"
    by (metis prod.collapse)
  from g obtain k where k: "list' = a + word_of_int k" "in_blob m a k len"
    by (auto elim: fdt_getprop_in_blob)
  from stringlist_get_loop_Some [OF l] obtain j where j: "p = list' + of_nat j"
      "strnlen m p (nat len - j) < nat len - j"
    by auto
  have "m (p + of_nat (strnlen m p (nat len - j))) = 0" using j(2) by (rule strnlen_stop)
  moreover have "p = a + word_of_int (k + int j)" using j(1) k(1) by simp
  moreover have "in_blob m a (k + int j) (int (strnlen m p (nat len - j)) + 1)" using j(2) k(2) by auto
  ultimately show ?thesis unfolding str_in_blob_def by blast
qed

text \<open>C14. What the readers return lies inside the blob, whatever the blob holds: the value of a
  property, with its length, and a string of a string list, with its terminator.\<close>

theorem fdt_readers_in_blob:
  "(case fdt_getprop m a node name of
      (Some p, len) \<Rightarrow> \<exists>k. p = a + word_of_int k \<and> in_blob m a k len
    | (None, _) \<Rightarrow> True) \<and>
   (case fdt_stringlist_get m a node name i of
      (Some p, _) \<Rightarrow> str_in_blob m a p
    | (None, _) \<Rightarrow> True)"
  using stringlist_get_in [of m a node name i]
  by (auto split: option.splits prod.splits elim: fdt_getprop_in_blob)


end
