(* ===== verification/Fit_Parse.thy ===== *)
theory Fit_Parse
  imports Fit Libfdt_Facts
begin

text \<open>
  What an accepted FIT guarantees: the specification \<open>plan_accepted\<close> of a plan, in terms of
  intervals of natural numbers instead of the code's 64-bit comparisons, and the proof that
  \<open>chain_fit_parse\<close> returns only such plans.
\<close>

subsection \<open>The specification\<close>

definition span :: "ChainImage \<Rightarrow> nat set" where
  "span im = {unat (img_load im)..<unat (img_load im) + unat (img_size im)}"

definition executable :: "ChainImage \<Rightarrow> bool" where
  "executable im \<longleftrightarrow> img_role im \<noteq> CHAIN_IMAGE_FDT"

text \<open>The image's data lies inside the FIT, is not empty, and its SHA-256 digest is stored in
  the FIT; so do its name, type and operating system.\<close>

definition data_ok :: "mem \<Rightarrow> addr \<Rightarrow> ChainImage \<Rightarrow> bool" where
  "data_ok m fit im \<longleftrightarrow>
     (\<exists>k. img_data im = fit + word_of_int k \<and> in_blob m fit k (uint (img_size im)))
     \<and> 0 < img_size im
     \<and> (\<exists>k. in_blob m fit k 32 \<and> read_bytes m (fit + word_of_int k) 32 =
           sha256_spec (read_bytes m (img_data im) (unat (img_size im))))
     \<and> str_in_blob m fit (img_name im)
     \<and> (\<forall>p. img_type im = Some p \<longrightarrow> str_in_blob m fit p)
     \<and> (\<forall>p. img_os im = Some p \<longrightarrow> str_in_blob m fit p)"

definition role_ok :: "ChainPlatform \<Rightarrow> ChainImage \<Rightarrow> bool" where
  "role_ok platform im = (case img_role im of
     CHAIN_IMAGE_FDT \<Rightarrow> True
   | CHAIN_IMAGE_BL33 \<Rightarrow>
       img_load im = expected_bl33_entry platform \<and> img_entry im = expected_bl33_entry platform \<and>
       unat (img_load im) + unat (img_size im) \<le> unat (bl33_limit platform)
   | CHAIN_IMAGE_BL31 \<Rightarrow>
       (\<exists>r \<in> set (bl31_ranges platform). unat (range_start r) \<le> unat (img_load im) \<and>
          unat (img_load im) + unat (img_size im) \<le> unat (range_end r)) \<and>
       (img_entry im = UINTPTR_MAX \<or> img_entry im = expected_bl31_entry platform))"

definition index_ok :: "ChainImageRole \<Rightarrow> nat option \<Rightarrow> ChainImage list \<Rightarrow> bool" where
  "index_ok role index ims \<longleftrightarrow>
     (\<forall>i<length ims. img_role (ims ! i) = role \<longleftrightarrow> index = Some i) \<and>
     (\<forall>i. index = Some i \<longrightarrow> i < length ims)"

text \<open>What holds of the plan while images are being added.\<close>

definition plan_inv :: "mem \<Rightarrow> addr \<Rightarrow> ChainPlatform \<Rightarrow> ChainFitPlan \<Rightarrow> bool" where
  "plan_inv m fit platform plan \<longleftrightarrow>
     length (images plan) \<le> CHAIN_MAX_IMAGES \<and>
     (\<forall>im \<in> set (images plan). data_ok m fit im \<and> role_ok platform im) \<and>
     index_ok CHAIN_IMAGE_BL33 (bl33_index plan) (images plan) \<and>
     index_ok CHAIN_IMAGE_FDT (fdt_index plan) (images plan) \<and>
     bl31_count plan = length (filter (\<lambda>im. img_role im = CHAIN_IMAGE_BL31) (images plan)) \<and>
     (bl31_entry plan \<noteq> 0 \<longrightarrow> bl31_entry plan = expected_bl31_entry platform) \<and>
     (bl33_index plan \<noteq> None \<longrightarrow> bl33_entry plan = expected_bl33_entry platform)"

definition apart :: "nat set \<Rightarrow> ChainPlatform \<Rightarrow> bool" where
  "apart s platform \<longleftrightarrow>
     s \<inter> {unat (fit_stage_start platform)..<unat (fit_stage_end platform)} = {} \<and>
     s \<inter> {unat (params_addr platform)..<unat (params_addr platform) + 1024} = {}"

definition control_span :: "ChainFitPlan \<Rightarrow> nat set" where
  "control_span plan =
     {unat (control_fdt plan)..<unat (control_fdt plan) + unat (control_fdt_capacity plan)}"

definition control_ok :: "ChainPlatform \<Rightarrow> ChainFitPlan \<Rightarrow> bool" where
  "control_ok platform plan \<longleftrightarrow>
     (\<exists>u d. bl33_index plan = Some u \<and> fdt_index plan = Some d \<and>
        unat (control_fdt plan) = unat (img_load (images plan ! u)) + unat (img_size (images plan ! u)) \<and>
        unat (control_fdt_capacity plan) = unat (img_size (images plan ! d)) + 8192) \<and>
     unat (control_fdt plan) + unat (control_fdt_capacity plan) \<le> unat (bl33_limit platform) \<and>
     apart (control_span plan) platform"

definition plan_accepted :: "mem \<Rightarrow> addr \<Rightarrow> ChainPlatform \<Rightarrow> ChainFitPlan \<Rightarrow> bool" where
  "plan_accepted m fit platform plan \<longleftrightarrow>
     plan_inv m fit platform plan \<and>
     bl31_entry plan = expected_bl31_entry platform \<and> bl31_entry plan \<noteq> 0 \<and>
     bl33_entry plan = expected_bl33_entry platform \<and>
     bl31_count plan > 0 \<and>
     (expected_bl31_segments platform \<noteq> 0 \<longrightarrow> bl31_count plan = expected_bl31_segments platform) \<and>
     (\<forall>i j. i < j \<and> j < length (images plan) \<and> executable (images plan ! i) \<and>
        executable (images plan ! j) \<longrightarrow> span (images plan ! i) \<inter> span (images plan ! j) = {}) \<and>
     (\<forall>im \<in> set (images plan). executable im \<longrightarrow> apart (span im) platform) \<and>
     control_ok platform plan"

subsection \<open>The checks, in terms of natural numbers\<close>

lemma checked_end_Some:
  "checked_end start len = Some e \<longleftrightarrow>
     unat start + unat len < 18446744073709551616 \<and> e = start + len"
  "checked_end start len = None \<longleftrightarrow> 18446744073709551616 \<le> unat start + unat len"
proof -
  have "unat (UINTPTR_MAX - start) = 18446744073709551615 - unat start"
    using unat_u64_less [of start] by (simp add: unat_sub word_le_nat_alt)
  then have "len > UINTPTR_MAX - start \<longleftrightarrow> 18446744073709551616 \<le> unat start + unat len"
    using unat_u64_less [of start] by (auto simp: word_less_nat_alt)
  then show "checked_end start len = Some e \<longleftrightarrow>
       unat start + unat len < 18446744073709551616 \<and> e = start + len"
    and "checked_end start len = None \<longleftrightarrow> 18446744073709551616 \<le> unat start + unat len"
    by (auto simp: checked_end_def)
qed

lemma checked_end_unat:
  "checked_end start len = Some e \<Longrightarrow> unat e = unat start + unat len"
  by (simp add: checked_end_Some unat_plus_no_wrap)

lemma intervals_disjoint:
  "\<not> (a < f \<and> b < e) \<Longrightarrow> {a..<e} \<inter> {b..<f :: nat} = {}"
  by auto

subsection \<open>Adding an image keeps the invariant\<close>

text \<open>A successful hash check found a matching digest, and it is in the FIT.\<close>

lemma validate_hash_loop_digest:
  "validate_hash_loop m fit hash data len n \<Longrightarrow>
   n = 1 \<or> (\<exists>k. in_blob m fit k 32 \<and>
     read_bytes m (fit + word_of_int k) 32 = sha256_spec (read_bytes m data (unat len)))"
proof (induction m fit hash data len n rule: validate_hash_loop.induct)
  case (1 m fit hash data len n)
  show ?case
  proof (cases "0 \<le> hash")
    case False
    with "1.prems" show ?thesis by (simp add: validate_hash_loop.simps)
  next
    case True
    obtain p l where gp: "fdt_getprop m fit hash (cstr ''value'') = (p, l)" by fastforce
    show ?thesis
    proof (cases "string_prop m fit hash ''algo''")
      case None
      with True "1.prems" "1.IH"(1) [OF True None] show ?thesis
        by (simp add: validate_hash_loop.simps [of m fit hash])
    next
      case (Some algo)
      show ?thesis
      proof (cases "string_equal m algo (cstr ''sha256'')")
        case False
        with True Some "1.prems" "1.IH"(2) [OF True Some] show ?thesis
          by (simp add: validate_hash_loop.simps [of m fit hash])
      next
        case eq: True
        with True Some "1.prems" gp obtain expected where e: "p = Some expected" "l = 32"
            "memcmp_lit m expected (chain_sha256 (read_bytes m data (unat len)))"
          by (auto simp: validate_hash_loop.simps [of m fit hash] split: option.splits if_splits)
        from e gp obtain k where k: "expected = fit + word_of_int k" "in_blob m fit k 32"
          by (auto elim: fdt_getprop_in_blob)
        with e(3) show ?thesis
          by (auto simp: memcmp_lit_def chain_sha256_spec [symmetric])
      qed
    qed
  qed
qed

lemma index_ok_snoc_other:
  "index_ok role index ims \<Longrightarrow> img_role out \<noteq> role \<Longrightarrow> index_ok role index (ims @ [out])"
  by (fastforce simp: index_ok_def nth_append less_Suc_eq)

lemma index_ok_snoc_new:
  "index_ok role None ims \<Longrightarrow> img_role out = role \<Longrightarrow>
   index_ok role (Some (length ims)) (ims @ [out])"
  by (auto simp: index_ok_def nth_append less_Suc_eq)

lemma plan_inv_empty: "plan_inv m fit platform empty_plan"
  by (simp add: plan_inv_def empty_plan_def index_ok_def)

text \<open>Appending a good image, with its index and its entry recorded, keeps the invariant.\<close>

lemma plan_inv_snoc:
  assumes inv: "plan_inv m fit platform plan" and len: "length (images plan) < CHAIN_MAX_IMAGES"
    and out: "data_ok m fit out" "role_ok platform out" "images p' = images plan @ [out]"
    and uboot: "bl33_index p' = (if img_role out = CHAIN_IMAGE_BL33 then Some (length (images plan))
        else bl33_index plan)" "img_role out = CHAIN_IMAGE_BL33 \<longrightarrow> bl33_index plan = None"
    and dtb: "fdt_index p' = (if img_role out = CHAIN_IMAGE_FDT then Some (length (images plan))
        else fdt_index plan)" "img_role out = CHAIN_IMAGE_FDT \<longrightarrow> fdt_index plan = None"
    and atf: "bl31_count p' = (if img_role out = CHAIN_IMAGE_BL31 then bl31_count plan + 1
        else bl31_count plan)" "bl31_entry p' = bl31_entry plan \<or> bl31_entry p' = expected_bl31_entry platform"
    and entry: "bl33_entry p' = (if img_role out = CHAIN_IMAGE_BL33 then expected_bl33_entry platform
        else bl33_entry plan)"
  shows "plan_inv m fit platform p'"
  unfolding plan_inv_def out(3)
proof (intro conjI)
  note i = inv [unfolded plan_inv_def]
  show "length (images plan @ [out]) \<le> CHAIN_MAX_IMAGES" using len by simp
  show "\<forall>im\<in>set (images plan @ [out]). data_ok m fit im \<and> role_ok platform im"
    using i out by auto
  show "index_ok CHAIN_IMAGE_BL33 (bl33_index p') (images plan @ [out])"
    using i uboot by (auto intro: index_ok_snoc_other index_ok_snoc_new)
  show "index_ok CHAIN_IMAGE_FDT (fdt_index p') (images plan @ [out])"
    using i dtb by (auto intro: index_ok_snoc_other index_ok_snoc_new)
  show "bl31_count p' = length (filter (\<lambda>im. img_role im = CHAIN_IMAGE_BL31) (images plan @ [out]))"
    using i atf(1) by simp
  show "bl31_entry p' \<noteq> 0 \<longrightarrow> bl31_entry p' = expected_bl31_entry platform"
    using i atf(2) by auto
  show "bl33_index p' \<noteq> None \<longrightarrow> bl33_entry p' = expected_bl33_entry platform"
    using i uboot(1) entry by (simp split: if_splits)
qed

lemma add_fdt_image_inv:
  assumes "plan_inv m fit platform plan" and "length (images plan) < CHAIN_MAX_IMAGES"
    and "data_ok m fit out" and add: "add_fdt_image m fit node arch out plan = Inr plan'"
  shows "plan_inv m fit platform plan'"
proof -
  let ?out = "out\<lparr>img_role := CHAIN_IMAGE_FDT, record_in_control_fdt := False\<rparr>"
  from add have idx: "fdt_index plan = None"
    and plan': "plan' = plan\<lparr>fdt_index := Some (length (images plan)), images := images plan @ [?out]\<rparr>"
    by (auto simp: add_fdt_image_def split: if_splits)
  have "data_ok m fit ?out" "role_ok platform ?out"
    using assms(3) by (simp_all add: data_ok_def role_ok_def)
  from plan_inv_snoc [OF assms(1,2) this] show ?thesis by (simp add: plan' idx)
qed

lemma add_bl33_image_inv:
  assumes "plan_inv m fit platform plan" and "length (images plan) < CHAIN_MAX_IMAGES"
    and "data_ok m fit out" and "checked_end (img_load out) (img_size out) = Some e"
    and add: "add_bl33_image m platform e out plan = Inr plan'"
  shows "plan_inv m fit platform plan'"
proof -
  let ?out = "(if img_entry out = UINTPTR_MAX then out\<lparr>img_entry := img_load out\<rparr> else out)
      \<lparr>img_role := CHAIN_IMAGE_BL33\<rparr>"
  from add have c: "bl33_index plan = None" "img_load ?out = expected_bl33_entry platform"
      "img_entry ?out = expected_bl33_entry platform" "e \<le> bl33_limit platform"
    and plan': "plan' = plan\<lparr>bl33_index := Some (length (images plan)), bl33_entry := img_entry ?out,
        images := images plan @ [?out]\<rparr>"
    unfolding add_bl33_image_def Let_def by (simp_all only: split: if_splits) auto
  have load: "img_load ?out = img_load out" "img_size ?out = img_size out" by simp_all
  have "data_ok m fit ?out" using assms(3) by (simp add: data_ok_def)
  moreover have "role_ok platform ?out"
    using c checked_end_unat [OF assms(4)] load
    by (auto simp add: role_ok_def word_le_nat_alt simp del: if_split)
  ultimately have "data_ok m fit ?out" "role_ok platform ?out" .
  from plan_inv_snoc [OF assms(1,2) this] show ?thesis
    by (simp add: plan' c(1) c(3) del: if_split)
qed

lemma add_bl31_image_inv:
  assumes "plan_inv m fit platform plan" and "length (images plan) < CHAIN_MAX_IMAGES"
    and "data_ok m fit out" and "checked_end (img_load out) (img_size out) = Some e"
    and add: "add_bl31_image m platform primary e out plan = Inr plan'"
  shows "plan_inv m fit platform plan'"
proof -
  let ?out = "(if primary \<and> img_entry out = UINTPTR_MAX then out\<lparr>img_entry := img_load out\<rparr>
      else out)\<lparr>img_role := CHAIN_IMAGE_BL31\<rparr>"
  from add have c: "bl31_address_allowed platform (img_load ?out) e"
      "img_entry ?out \<noteq> UINTPTR_MAX \<longrightarrow> img_entry ?out = expected_bl31_entry platform"
    and plan': "plan' = plan\<lparr>bl31_entry := (if img_entry ?out \<noteq> UINTPTR_MAX then img_entry ?out
        else bl31_entry plan), bl31_count := bl31_count plan + 1, images := images plan @ [?out]\<rparr>"
    unfolding add_bl31_image_def Let_def by (simp_all only: split: if_splits) auto
  have "data_ok m fit ?out" "role_ok platform ?out"
    using assms(3) c checked_end_unat [OF assms(4)]
    by (auto simp add: data_ok_def role_ok_def bl31_address_allowed_def list_ex_iff in_range_def
        word_le_nat_alt)
  from plan_inv_snoc [OF assms(1,2) this] show ?thesis
    using c(2) by (simp add: plan' del: if_split)
qed

lemma add_executable_image_inv:
  assumes "plan_inv m fit platform plan" and "length (images plan) < CHAIN_MAX_IMAGES"
    and "data_ok m fit out"
    and add: "add_executable_image m fit node arch primary platform out plan = Inr plan'"
  shows "plan_inv m fit platform plan'"
proof -
  obtain status load where load: "address_prop m fit node ''load'' True = (status, load)" by fastforce
  let ?out = "case load of None \<Rightarrow> out | Some v \<Rightarrow> out\<lparr>img_load := v\<rparr>"
  have data: "data_ok m fit ?out" using assms(3) by (cases load) (simp_all add: data_ok_def)
  from add load obtain e where e: "checked_end (img_load ?out) (img_size ?out) = Some e"
    and c: "add_bl33_image m platform e ?out plan = Inr plan'
      \<or> add_bl31_image m platform primary e ?out plan = Inr plan'"
    unfolding add_executable_image_def Let_def by (auto split: if_splits option.splits)
  from c show ?thesis
    using add_bl33_image_inv [OF assms(1,2) data e] add_bl31_image_inv [OF assms(1,2) data e]
    by blast
qed

lemma word_of_int_len:
  assumes "in_blob m a k len"
  shows "uint (word_of_int len :: u64) = len"
proof -
  have "len < 4294967296" using assms fdt_header_bounds(6) [of m a] by linarith
  with assms show ?thesis by (simp add: unsigned_of_int take_bit_int_eq_self)
qed

lemma string_prop_in:
  assumes "string_prop m fit node name = Some p"
  shows "str_in_blob m fit p"
proof -
  from assms obtain len q where g: "fdt_getprop m fit node (cstr name) = (Some p, len)" "1 \<le> len"
    and q: "memchr m p 0 (nat len) = Some q"
    by (auto simp: string_prop_def split: option.splits prod.splits if_splits)
  from g obtain k where k: "p = fit + word_of_int k" "in_blob m fit k len"
    by (auto elim: fdt_getprop_in_blob)
  from memchr_Some [OF q] obtain i where "m q = 0" "i < nat len" "q = p + of_nat i" by auto
  then have "m (p + of_nat i) = 0" "in_blob m fit k (int i + 1)" using k(2) by auto
  then show ?thesis using k(1) unfolding str_in_blob_def by blast
qed

lemma add_image_inv:
  assumes inv: "plan_inv m fit platform plan" and name: "str_in_blob m fit name"
    and add: "add_image m fit images_node name primary platform plan = Inr plan'"
  shows "plan_inv m fit platform plan'"
proof -
  let ?node = "fdt_subnode_offset m fit images_node (c_string m name)"
  let ?arch = "string_prop m fit ?node ''arch''"
  let ?type = "string_prop m fit ?node ''type''"
  let ?os = "string_prop m fit ?node ''os''"
  obtain d len where data: "fdt_getprop m fit ?node (cstr ''data'') = (d, len)" by fastforce
  obtain es entry where entry: "address_prop m fit ?node ''entry'' False = (es, entry)" by fastforce
  let ?out = "\<lparr>img_name = name, img_data = the d, img_size = word_of_int len, img_load = 0,
      img_entry = (case entry of None \<Rightarrow> UINTPTR_MAX | Some v \<Rightarrow> v), img_type = ?type, img_os = ?os,
      img_role = CHAIN_IMAGE_BL31, record_in_control_fdt = (\<not> primary), entry_explicit = (es = 0)\<rparr>"
  from add data entry have c: "length (images plan) \<noteq> CHAIN_MAX_IMAGES" "d \<noteq> None" "len > 0"
      "validate_hash m fit ?node (the d) (word_of_int len)"
    and sub: "add_fdt_image m fit ?node ?arch ?out plan = Inr plan'
      \<or> add_executable_image m fit ?node ?arch primary platform ?out plan = Inr plan'"
    unfolding add_image_def Let_def by (auto split: if_splits option.splits)
  from c(2) data obtain k where k: "the d = fit + word_of_int k" "in_blob m fit k len"
    by (auto elim: fdt_getprop_in_blob)
  note len = word_of_int_len [OF k(2)]
  have "0 < (word_of_int len :: u64)"
    using c(3) len by (simp add: word_less_def)
  then have "data_ok m fit ?out"
    using k len name validate_hash_loop_digest [OF c(4) [unfolded validate_hash_def]]
      string_prop_in [of m fit ?node]
    by (simp add: data_ok_def del: unsigned_of_int) blast
  moreover have "length (images plan) < CHAIN_MAX_IMAGES"
    using c(1) inv by (simp add: plan_inv_def)
  ultimately show ?thesis
    using sub add_fdt_image_inv [OF inv] add_executable_image_inv [OF inv] by blast
qed

lemma add_loadables_inv:
  "plan_inv m fit platform plan \<Longrightarrow>
   add_loadables m fit configuration images_node platform is plan = Inr plan' \<Longrightarrow>
   plan_inv m fit platform plan'"
  by (induction "is" arbitrary: plan)
    (auto split: option.splits sum.splits dest: add_image_inv stringlist_get_in)

lemma fit_collect_inv:
  assumes "fit_collect m fit configuration images_node platform = Inr plan"
  shows "plan_inv m fit platform plan"
proof -
  from assms obtain name where
    n1: "fst (fdt_stringlist_get m fit configuration (cstr ''firmware'') 0) = Some name"
    by (auto simp: fit_collect_def split: option.splits)
  with assms obtain p1 where p1: "add_image m fit images_node name True platform empty_plan = Inr p1"
    by (auto simp: fit_collect_def split: sum.splits)
  let ?is = "[0..fdt_stringlist_count m fit configuration (cstr ''loadables'') - 1]"
  from assms n1 p1 obtain p2 where
    p2: "add_loadables m fit configuration images_node platform ?is p1 = Inr p2"
    and "(case fst (fdt_stringlist_get m fit configuration (cstr ''fdt'') 0) of
            None \<Rightarrow> Inl ''invalid FIT header''
          | Some name \<Rightarrow> add_image m fit images_node name False platform p2) = Inr plan"
    by (auto simp: fit_collect_def Let_def split: sum.splits if_splits)
  then obtain name2 where n2: "fst (fdt_stringlist_get m fit configuration (cstr ''fdt'') 0) = Some name2"
    and p3: "add_image m fit images_node name2 False platform p2 = Inr plan"
    by (auto split: option.splits)
  have "plan_inv m fit platform p1"
    by (rule add_image_inv [OF plan_inv_empty stringlist_get_in [OF n1] p1])
  then have "plan_inv m fit platform p2" using p2 by (rule add_loadables_inv)
  then show ?thesis using stringlist_get_in [OF n2] p3 by (rule add_image_inv)
qed

subsection \<open>The accepted plan\<close>

lemma some_images_overlap_iff:
  "\<not> some_images_overlap ims \<longleftrightarrow>
     (\<forall>i j. i < j \<and> j < length ims \<longrightarrow> \<not> images_overlap (ims ! i) (ims ! j))"
proof (induction ims)
  case (Cons x xs)
  have "(\<forall>i j. i < j \<and> j < length (x # xs) \<longrightarrow> \<not> images_overlap ((x # xs) ! i) ((x # xs) ! j))
    \<longleftrightarrow> (\<forall>j<length xs. \<not> images_overlap x (xs ! j)) \<and>
        (\<forall>i j. i < j \<and> j < length xs \<longrightarrow> \<not> images_overlap (xs ! i) (xs ! j))"
    (is "?l \<longleftrightarrow> ?a \<and> ?b")
  proof
    assume l: ?l
    have "\<not> images_overlap x (xs ! j)" if "j < length xs" for j
      using l [rule_format, of 0 "Suc j"] that by simp
    moreover have "\<not> images_overlap (xs ! i) (xs ! j)" if "i < j" "j < length xs" for i j
      using l [rule_format, of "Suc i" "Suc j"] that by simp
    ultimately show "?a \<and> ?b" by blast
  next
    assume r: "?a \<and> ?b"
    show ?l
    proof (intro allI impI)
      fix i j assume ij: "i < j \<and> j < length (x # xs)"
      then obtain j' where "j = Suc j'" by (cases j) auto
      with ij r show "\<not> images_overlap ((x # xs) ! i) ((x # xs) ! j)" by (cases i) auto
    qed
  qed
  moreover have "list_ex (images_overlap x) xs \<longleftrightarrow> \<not> (\<forall>j<length xs. \<not> images_overlap x (xs ! j))"
    unfolding list_ex_iff by (metis in_set_conv_nth)
  ultimately show ?case
    unfolding some_images_overlap.simps using Cons.IH by blast
qed simp

lemma images_overlap_span:
  "\<not> images_overlap a b \<Longrightarrow> executable a \<Longrightarrow> executable b \<Longrightarrow> span a \<inter> span b = {}"
  by (auto simp: images_overlap_def executable_def span_def word_less_nat_alt
      split: option.splits if_splits dest!: checked_end_unat)

lemma image_misplaced_apart:
  assumes "\<not> image_misplaced platform params_end im" and "executable im"
    and "checked_end (params_addr platform) CHAIN_PARAMS_RESERVE = Some params_end"
  shows "apart (span im) platform"
  using assms checked_end_unat [OF assms(3)]
  by (auto simp: image_misplaced_def executable_def apart_def span_def word_less_nat_alt
      split: option.splits if_splits dest!: checked_end_unat)

lemma fit_place_accepted:
  assumes inv: "plan_inv m fit platform plan"
    and idx: "bl33_index plan = Some u" "fdt_index plan = Some d"
    and place: "fit_place platform u d plan = Inr plan'"
  shows "control_ok platform plan'"
    and "\<forall>im \<in> set (images plan'). executable im \<longrightarrow> apart (span im) platform"
    and "plan' = plan\<lparr>control_fdt := control_fdt plan', control_fdt_capacity := control_fdt_capacity plan'\<rparr>"
proof -
  let ?u = "images plan ! u" and ?d = "images plan ! d"
  let ?fdt = "img_load ?u + img_size ?u" and ?cap = "img_size ?d + CHAIN_DTB_SLACK"
  from place obtain e pe where e: "checked_end ?fdt ?cap = Some e" "e \<le> bl33_limit platform"
    and pe: "checked_end (params_addr platform) CHAIN_PARAMS_RESERVE = Some pe"
    and mis: "\<not> list_ex (image_misplaced platform pe) (images plan)"
    and ctl: "\<not> (?fdt < fit_stage_end platform \<and> fit_stage_start platform < e)"
      "\<not> (?fdt < pe \<and> params_addr platform < e)"
    and plan': "plan' = plan\<lparr>control_fdt := ?fdt, control_fdt_capacity := ?cap\<rparr>"
    by (auto simp: fit_place_def Let_def split: option.splits if_splits)
  have iu: "u < length (images plan)" "img_role ?u = CHAIN_IMAGE_BL33"
    using inv idx(1) by (auto simp: plan_inv_def index_ok_def)
  have id: "d < length (images plan)" using inv idx(2) by (auto simp: plan_inv_def index_ok_def)
  have "role_ok platform ?u" "data_ok m fit ?d"
    using inv iu id by (auto simp: plan_inv_def)
  then have u: "unat (img_load ?u) + unat (img_size ?u) \<le> unat (bl33_limit platform)"
    and d: "uint (img_size ?d) \<le> fdt_totalsize m fit"
    using iu(2) by (auto simp: role_ok_def data_ok_def)
  have "unat (img_size ?d) < 4294967296"
  proof -
    have "uint (img_size ?d) < 4294967296"
      using d fdt_header_bounds(6) [of m fit] by (rule le_less_trans)
    then show ?thesis by (simp add: uint_lt_unat)
  qed
  then have cap: "unat ?cap = unat (img_size ?d) + 8192"
    by (subst unat_plus_no_wrap) simp_all
  have fdt: "unat ?fdt = unat (img_load ?u) + unat (img_size ?u)"
    using u unat_u64_less [of "bl33_limit platform"] by (intro unat_plus_no_wrap) simp
  note ue = checked_end_unat [OF e(1)] checked_end_unat [OF pe]
  have "apart (control_span plan') platform"
    using ctl ue unfolding plan' apart_def control_span_def
    by (auto simp: word_less_nat_alt)
  then show "control_ok platform plan'"
    using fdt cap idx ue e(2) by (simp add: control_ok_def plan' word_le_nat_alt)
  show "\<forall>im \<in> set (images plan'). executable im \<longrightarrow> apart (span im) platform"
    using mis image_misplaced_apart [OF _ _ pe] by (auto simp: plan' list_ex_iff)
  show "plan' = plan\<lparr>control_fdt := control_fdt plan', control_fdt_capacity := control_fdt_capacity plan'\<rparr>"
    by (simp add: plan')
qed

lemma fit_check_plan_accepted:
  assumes inv: "plan_inv m fit platform plan" and ok: "fit_check_plan platform plan = Inr plan'"
  shows "plan_accepted m fit platform plan'"
proof -
  from ok obtain u d where idx: "bl33_index plan = Some u" "fdt_index plan = Some d"
    and c: "bl31_count plan \<noteq> 0" "bl31_entry plan \<noteq> 0"
      "expected_bl31_segments platform \<noteq> 0 \<longrightarrow> bl31_count plan = expected_bl31_segments platform"
      "\<not> some_images_overlap (images plan)"
    and place: "fit_place platform u d plan = Inr plan'"
    by (auto simp: fit_check_plan_def split: option.splits if_splits)
  note p = fit_place_accepted [OF inv idx place]
  have same: "images plan' = images plan" "bl31_count plan' = bl31_count plan"
      "bl31_entry plan' = bl31_entry plan" "bl33_entry plan' = bl33_entry plan"
      "bl33_index plan' = bl33_index plan" "fdt_index plan' = fdt_index plan"
    by (subst p(3), simp)+
  have inv': "plan_inv m fit platform plan'"
    using inv by (simp add: plan_inv_def same)
  have "\<forall>i j. i < j \<and> j < length (images plan) \<and> executable (images plan ! i) \<and>
      executable (images plan ! j) \<longrightarrow> span (images plan ! i) \<inter> span (images plan ! j) = {}"
    using c(4) images_overlap_span by (simp add: some_images_overlap_iff)
  then show ?thesis
    using inv' p(1,2) c(1-3) inv idx
    by (auto simp: plan_accepted_def same) (auto simp: plan_inv_def)
qed

lemma chain_fit_parse_accepted:
  assumes "chain_fit_parse m fit available platform = Inr plan"
  shows "plan_accepted m fit platform plan"
proof -
  from assms obtain configuration images_node p where
    "fit_collect m fit configuration images_node platform = Inr p"
    "fit_check_plan platform p = Inr plan"
    by (auto simp: chain_fit_parse_def Let_def split: if_splits sum.splits)
  then show ?thesis by (metis fit_collect_inv fit_check_plan_accepted)
qed

text \<open>C2. \<open>chain_fit_parse\<close> accepts only safe plans: every image's data lies in the FIT together with its
  SHA-256 digest; there is one U-Boot at its expected address and below its limit, one control
  device tree, and at least one BL31 segment, each inside an address range of the board; the
  executables do not overlap each other, the staging memory or the parameters; neither does the
  memory of the control device tree, right behind U-Boot; and the entry points are the
  expected ones.\<close>

theorem chain_fit_parse_sound:
  "case chain_fit_parse m fit available platform of
     Inl reason \<Rightarrow> True
   | Inr plan \<Rightarrow> plan_accepted m fit platform plan"
  by (auto split: sum.splits intro: chain_fit_parse_accepted)

end
