(* ===== verification/Libfdt_Local.thy ===== *)
theory Libfdt_Local
  imports Libfdt_Facts
begin

text \<open>
  The read-only libfdt reads nothing outside the blob: on two memories that agree on the
  bytes of the blob every function returns the same result. This is memory safety of the
  walkers, stated without a notion of fault: what is outside cannot influence the result.
\<close>

subsection \<open>Agreement on the blob\<close>

definition same_bytes :: "addr \<Rightarrow> int \<Rightarrow> mem \<Rightarrow> mem \<Rightarrow> bool" where
  "same_bytes a n m m' \<longleftrightarrow> (\<forall>k. 0 \<le> k \<and> k < n \<longrightarrow> m' (a + word_of_int k) = m (a + word_of_int k))"

text \<open>The blob has a complete header, and the memories agree on it.\<close>

definition blob_eq :: "mem \<Rightarrow> mem \<Rightarrow> addr \<Rightarrow> bool" where
  "blob_eq m m' a \<longleftrightarrow> 40 \<le> fdt_totalsize m a \<and> fdt_totalsize m a \<le> INT_MAX \<and>
     same_bytes a (fdt_totalsize m a) m m'"

lemma same_bytes_byte:
  "same_bytes a n m m' \<Longrightarrow> 0 \<le> k \<Longrightarrow> k < n \<Longrightarrow> m' (a + word_of_int k) = m (a + word_of_int k)"
  by (simp add: same_bytes_def)

lemma same_bytes_be32:
  assumes "same_bytes a n m m'" and "0 \<le> k" and "k + 4 \<le> n"
  shows "be32 m' (a + word_of_int k) = be32 m (a + word_of_int k)"
proof -
  have "m' (a + word_of_int k + word_of_int i) = m (a + word_of_int k + word_of_int i)"
    if "0 \<le> i" "i < 4" for i
    using same_bytes_byte [OF assms(1), of "k + i"] assms that by (simp add: add.assoc)
  from this [of 0] this [of 1] this [of 2] this [of 3] show ?thesis by (simp add: be32_def)
qed

lemma same_bytes_read:
  assumes "same_bytes a n m m'" and "0 \<le> k" and "k + int l \<le> n"
  shows "read_bytes m' (a + word_of_int k) l = read_bytes m (a + word_of_int k) l"
proof (rule read_bytes_cong)
  fix i assume "i < l"
  then show "m' (a + word_of_int k + of_nat i) = m (a + word_of_int k + of_nat i)"
    using same_bytes_byte [OF assms(1), of "k + int i"] assms by (simp add: add.assoc)
qed

lemma same_bytes_mono: "same_bytes a n m m' \<Longrightarrow> k \<le> n \<Longrightarrow> same_bytes a k m m'"
  by (simp add: same_bytes_def)

lemma same_bytes_header:
  assumes "same_bytes a 40 m m'"
  shows "fdt_magic m' a = fdt_magic m a" "fdt_totalsize m' a = fdt_totalsize m a"
    "fdt_off_dt_struct m' a = fdt_off_dt_struct m a" "fdt_off_dt_strings m' a = fdt_off_dt_strings m a"
    "fdt_off_mem_rsvmap m' a = fdt_off_mem_rsvmap m a" "fdt_version m' a = fdt_version m a"
    "fdt_last_comp_version m' a = fdt_last_comp_version m a"
    "fdt_size_dt_strings m' a = fdt_size_dt_strings m a"
    "fdt_size_dt_struct m' a = fdt_size_dt_struct m a"
  using same_bytes_be32 [OF assms, of 0] same_bytes_be32 [OF assms, of 4]
    same_bytes_be32 [OF assms, of 8] same_bytes_be32 [OF assms, of 12]
    same_bytes_be32 [OF assms, of 16] same_bytes_be32 [OF assms, of 20]
    same_bytes_be32 [OF assms, of 24] same_bytes_be32 [OF assms, of 32]
    same_bytes_be32 [OF assms, of 36]
  by (simp_all add: fdt_magic_def fdt_totalsize_def fdt_off_dt_struct_def fdt_off_dt_strings_def
      fdt_off_mem_rsvmap_def fdt_version_def fdt_last_comp_version_def fdt_size_dt_strings_def
      fdt_size_dt_struct_def)

lemma fdt_check_header_same:
  assumes "same_bytes a 40 m m'"
  shows "fdt_check_header m' a = fdt_check_header m a"
  unfolding fdt_check_header_def same_bytes_header [OF assms] by (rule refl)

lemma blob_eq_header:
  assumes "blob_eq m m' a"
  shows "fdt_magic m' a = fdt_magic m a" "fdt_totalsize m' a = fdt_totalsize m a"
    "fdt_off_dt_struct m' a = fdt_off_dt_struct m a" "fdt_off_dt_strings m' a = fdt_off_dt_strings m a"
    "fdt_off_mem_rsvmap m' a = fdt_off_mem_rsvmap m a" "fdt_version m' a = fdt_version m a"
    "fdt_last_comp_version m' a = fdt_last_comp_version m a"
    "fdt_size_dt_strings m' a = fdt_size_dt_strings m a"
    "fdt_size_dt_struct m' a = fdt_size_dt_struct m a"
  using assms by (auto simp: blob_eq_def intro: same_bytes_header same_bytes_mono)

lemma blob_eq_byte:
  "blob_eq m m' a \<Longrightarrow> in_blob m a k 1 \<Longrightarrow> m' (a + word_of_int k) = m (a + word_of_int k)"
  by (auto simp: blob_eq_def intro: same_bytes_byte)

lemma blob_eq_be32:
  "blob_eq m m' a \<Longrightarrow> in_blob m a k 4 \<Longrightarrow> be32 m' (a + word_of_int k) = be32 m (a + word_of_int k)"
  by (auto simp: blob_eq_def intro: same_bytes_be32)

lemma blob_eq_read:
  "blob_eq m m' a \<Longrightarrow> in_blob m a k (int l) \<Longrightarrow>
   read_bytes m' (a + word_of_int k) l = read_bytes m (a + word_of_int k) l"
  by (auto simp: blob_eq_def intro: same_bytes_read)

lemma blob_eq_probe: "blob_eq m m' a \<Longrightarrow> fdt_ro_probe m' a = fdt_ro_probe m a"
  by (simp only: fdt_ro_probe_def blob_eq_header [of m m' a])

lemma blob_eq_offset_addr: "blob_eq m m' a \<Longrightarrow> fdt_offset_addr m' a off = fdt_offset_addr m a off"
  by (simp only: fdt_offset_addr_def blob_eq_header [of m m' a])

lemma blob_eq_offset_ptr: "blob_eq m m' a \<Longrightarrow> fdt_offset_ptr m' a off len = fdt_offset_ptr m a off len"
  by (simp only: fdt_offset_ptr_def blob_eq_header [of m m' a] blob_eq_offset_addr [of m m' a])

subsection \<open>Tags and nodes\<close>

lemma blob_eq_offset_ptr_byte:
  assumes "blob_eq m m' a" and "fdt_offset_ptr m a off 1 = Some p"
  shows "m' p = m p"
  using fdt_offset_ptr_Some [OF assms(2)] blob_eq_byte [OF assms(1), of "fdt_off_dt_struct m a + off"]
  by (simp add: fdt_offset_addr_def)

lemma blob_eq_offset_ptr_be32:
  assumes "blob_eq m m' a" and "fdt_offset_ptr m a off 4 = Some p"
  shows "be32 m' p = be32 m p"
  using fdt_offset_ptr_Some [OF assms(2)] blob_eq_be32 [OF assms(1), of "fdt_off_dt_struct m a + off"]
  by (simp add: fdt_offset_addr_def)

lemma blob_eq_skip_name: "blob_eq m m' a \<Longrightarrow> fdt_skip_name m' a off = fdt_skip_name m a off"
proof (induction m a off rule: fdt_skip_name.induct)
  case (1 m a off)
  note ptr = blob_eq_offset_ptr [OF "1.prems"]
  show ?case
  proof (cases "fdt_offset_ptr m a off 1")
    case None
    then show ?thesis by (subst (1 2) fdt_skip_name.simps) (simp add: ptr)
  next
    case (Some p)
    with "1.IH" [OF Some _ "1.prems"] blob_eq_offset_ptr_byte [OF "1.prems" Some] show ?thesis
      by (subst (1 2) fdt_skip_name.simps) (simp add: ptr)
  qed
qed

lemma blob_eq_next_tag:
  assumes e: "blob_eq m m' a"
  shows "fdt_next_tag m' a off = fdt_next_tag m a off"
proof -
  have te: "fdt_tag_end m' a x y t = fdt_tag_end m a x y t" for x y t
    by (simp only: fdt_tag_end_def blob_eq_offset_ptr [OF e])
  have be: "fdt_offset_ptr m a x 4 = Some p \<Longrightarrow> be32 m' p = be32 m p" for x p
    by (rule blob_eq_offset_ptr_be32 [OF e])
  show ?thesis
    unfolding fdt_next_tag_def te blob_eq_offset_ptr [OF e] blob_eq_skip_name [OF e]
      blob_eq_header [OF e]
    by (intro option.case_cong refl) (simp add: be Let_def cong: option.case_cong if_cong)
qed

lemma blob_eq_check_node: "blob_eq m m' a \<Longrightarrow> fdt_check_node_offset m' a off = fdt_check_node_offset m a off"
  by (simp only: fdt_check_node_offset_def blob_eq_next_tag [of m m' a])

lemma blob_eq_check_prop: "blob_eq m m' a \<Longrightarrow> fdt_check_prop_offset m' a off = fdt_check_prop_offset m a off"
  by (simp only: fdt_check_prop_offset_def blob_eq_next_tag [of m m' a])

lemma blob_eq_next_node_loop:
  "blob_eq m m' a \<Longrightarrow> fdt_next_node_loop m' a off d = fdt_next_node_loop m a off d"
proof (induction m a off d rule: fdt_next_node_loop.induct)
  case (1 m a off d)
  obtain tag nx where tag: "fdt_next_tag m a off = (tag, nx)" by fastforce
  then have tag': "fdt_next_tag m' a off = (tag, nx)" by (simp add: blob_eq_next_tag [OF "1.prems"])
  note ih = "1.IH" [OF tag [symmetric] refl]
  from "1.prems" ih show ?case
    by (simp add: fdt_next_node_loop.simps [of m a off] fdt_next_node_loop.simps [of m' a off]
        tag tag' split: option.splits)
qed

lemma blob_eq_next_node: "blob_eq m m' a \<Longrightarrow> fdt_next_node m' a off d = fdt_next_node m a off d"
  by (simp only: fdt_next_node_def blob_eq_check_node [of m m' a] blob_eq_next_node_loop [of m m' a])

lemma blob_eq_first_subnode: "blob_eq m m' a \<Longrightarrow> fdt_first_subnode m' a off = fdt_first_subnode m a off"
  by (simp only: fdt_first_subnode_def blob_eq_next_node [of m m' a])

lemma blob_eq_next_subnode_loop:
  "blob_eq m m' a \<Longrightarrow> fdt_next_subnode_loop m' a off d = fdt_next_subnode_loop m a off d"
proof (induction m a off d rule: fdt_next_subnode_loop.induct)
  case (1 m a off d)
  obtain nx d' where n: "fdt_next_node m a off (Some d) = (nx, d')" by fastforce
  then have n': "fdt_next_node m' a off (Some d) = (nx, d')" by (simp add: blob_eq_next_node [OF "1.prems"])
  note ih = "1.IH" [OF n [symmetric]]
  from "1.prems" ih show ?case
    by (simp add: fdt_next_subnode_loop.simps [of m a off] fdt_next_subnode_loop.simps [of m' a off]
        n n' split: option.splits)
qed

lemma blob_eq_next_subnode: "blob_eq m m' a \<Longrightarrow> fdt_next_subnode m' a off = fdt_next_subnode m a off"
  by (simp only: fdt_next_subnode_def blob_eq_next_subnode_loop [of m m' a])

subsection \<open>Strings\<close>

text \<open>A zero inside the blob bounds the string that ends there, in both memories.\<close>

lemma blob_eq_strlen:
  assumes e: "blob_eq m m' a" and b: "in_blob m a k (int n + 1)"
    and z: "m (a + word_of_int k + of_nat n) = 0"
  shows "strlen m' (a + word_of_int k) = strlen m (a + word_of_int k)"
    and "strlen m (a + word_of_int k) \<le> n"
    and "m (a + word_of_int k + of_nat (strlen m (a + word_of_int k))) = 0"
proof -
  let ?p = "a + word_of_int k"
  define l where "l = (LEAST i. m (?p + of_nat i) = 0)"
  have lz: "m (?p + of_nat l) = 0" unfolding l_def by (rule LeastI [of _ n]) (rule z)
  have ln: "l \<le> n" unfolding l_def by (rule Least_le) (rule z)
  have nz: "m (?p + of_nat j) \<noteq> 0" if "j < l" for j
    using not_less_Least [of j "\<lambda>i. m (?p + of_nat i) = 0"] that unfolding l_def by simp
  have eq: "m' (?p + of_nat j) = m (?p + of_nat j)" if "j \<le> n" for j
    using blob_eq_byte [OF e, of "k + int j"] b that by (simp add: add.assoc)
  have "int n < 18446744073709551616" using b fdt_header_bounds(6) [of m a] by linarith
  then have small: "l < 18446744073709551616" using ln by linarith
  have s: "strlen m ?p = l" by (rule strlen_eqI) (use lz nz small in auto)
  have "strlen m' ?p = l" by (rule strlen_eqI) (use lz nz small eq ln in auto)
  with s lz ln show "strlen m' ?p = strlen m ?p" "strlen m ?p \<le> n" "m (?p + of_nat (strlen m ?p)) = 0"
    by simp_all
qed

lemma blob_eq_c_string:
  assumes "blob_eq m m' a" and "in_blob m a k (int n + 1)" and "m (a + word_of_int k + of_nat n) = 0"
  shows "c_string m' (a + word_of_int k) = c_string m (a + word_of_int k)"
proof -
  note s = blob_eq_strlen [OF assms]
  have "in_blob m a k (int (strlen m (a + word_of_int k)))" using s(2) assms(2) by simp
  from blob_eq_read [OF assms(1) this] show ?thesis by (simp add: c_string_def s(1))
qed

lemma fdt_skip_name_zero:
  "fdt_skip_name m a off = Some q \<Longrightarrow>
   m (fdt_offset_addr m a (q - 1)) = 0 \<and> in_blob m a (fdt_off_dt_struct m a + off) (q - off)"
proof (induction m a off rule: fdt_skip_name.induct)
  case (1 m a off)
  obtain p where p: "fdt_offset_ptr m a off 1 = Some p"
    using "1.prems" by (auto simp: fdt_skip_name.simps [of m a off] split: option.splits)
  note f = fdt_offset_ptr_Some [OF p]
  show ?case
  proof (cases "m p = 0")
    case True
    with "1.prems" p have "q = off + 1" by (simp add: fdt_skip_name.simps [of m a off])
    with True f show ?thesis by simp
  next
    case False
    with "1.prems" p have q: "fdt_skip_name m a (off + 1) = Some q"
      by (simp add: fdt_skip_name.simps [of m a off])
    from "1.IH" [OF p False q] f fdt_skip_name_gt [OF q] show ?thesis by (simp add: algebra_simps)
  qed
qed

text \<open>A node's name is a string inside the blob.\<close>

lemma fdt_check_node_name:
  assumes "0 \<le> fdt_check_node_offset m a off"
  obtains n where "in_blob m a (fdt_off_dt_struct m a + off + 4) (int n + 1)"
    and "m (a + word_of_int (fdt_off_dt_struct m a + off + 4) + of_nat n) = 0"
proof -
  obtain t nx where tag: "fdt_next_tag m a off = (t, nx)" by fastforce
  with assms have t: "t = FDT_BEGIN_NODE" "0 \<le> nx"
    by (auto simp: fdt_check_node_offset_def split: if_splits)
  have "\<exists>q. fdt_skip_name m a (off + 4) = Some q"
    using tag t
    by (auto simp: fdt_next_tag_def Let_def split: option.splits if_splits dest!: fdt_tag_end_cases)
  then obtain q where q: "fdt_skip_name m a (off + 4) = Some q" by blast
  note z = fdt_skip_name_zero [OF q] and g = fdt_skip_name_gt [OF q]
  show ?thesis
  proof (rule that)
    show "in_blob m a (fdt_off_dt_struct m a + off + 4) (int (nat (q - off - 5)) + 1)"
      using z g by (simp add: algebra_simps)
    have "a + word_of_int (fdt_off_dt_struct m a + off + 4) + of_nat (nat (q - off - 5))
        = fdt_offset_addr m a (q - 1)"
      using g by (simp add: fdt_offset_addr_def)
    with z show "m (a + word_of_int (fdt_off_dt_struct m a + off + 4) + of_nat (nat (q - off - 5))) = 0"
      by simp
  qed
qed

lemma strrchr_upto_same:
  assumes "\<And>j. j \<le> n \<Longrightarrow> m' (s + of_nat j) = m (s + of_nat j)"
  shows "strrchr_upto m' s c n l = strrchr_upto m s c n l"
  using assms
proof (induction n arbitrary: s l)
  case 0
  from "0.prems" [of 0] show ?case by (subst (1 2) strrchr_upto.simps) simp
next
  case (Suc n)
  have "strrchr_upto m' (s + 1) c n x = strrchr_upto m (s + 1) c n x" for x
    by (rule Suc.IH) (use Suc.prems [of "Suc j" for j] in \<open>simp add: add.assoc\<close>)
  with Suc.prems [of 0] show ?case by (subst (1 2) strrchr_upto.simps) (simp add: Let_def)
qed

lemma strrchr_upto_Some:
  "strrchr_upto m s c n l = Some p \<Longrightarrow> (\<exists>j\<le>n. p = s + of_nat j \<and> m p = c) \<or> l = Some p"
proof (induction n arbitrary: s l)
  case 0
  then show ?case by (subst (asm) strrchr_upto.simps) (auto split: if_splits)
next
  case (Suc n)
  from Suc.prems have "strrchr_upto m (s + 1) c n (if m s = c then Some s else l) = Some p"
    by (subst (asm) strrchr_upto.simps) (simp add: Let_def)
  from Suc.IH [OF this] show ?case
  proof
    assume "\<exists>j\<le>n. p = s + 1 + of_nat j \<and> m p = c"
    then obtain j where "j \<le> n" "p = s + of_nat (Suc j)" "m p = c" by (auto simp: add.assoc)
    then show ?thesis by (metis Suc_le_mono)
  next
    assume "(if m s = c then Some s else l) = Some p"
    then show ?thesis by (auto split: if_splits intro!: exI [of _ 0])
  qed
qed

lemma fdt_get_name_same:
  assumes e: "blob_eq m m' a"
  shows "fdt_get_name m' a off = fdt_get_name m a off"
    and "fdt_get_name m a off = (Some p, olen) \<Longrightarrow>
      \<exists>k n. p = a + word_of_int k \<and> in_blob m a k (int n + 1) \<and> m (p + of_nat n) = 0 \<and> olen = int n"
proof -
  let ?P = "\<exists>k n. p = a + word_of_int k \<and> in_blob m a k (int n + 1) \<and> m (p + of_nat n) = 0 \<and> olen = int n"
  have "fdt_get_name m' a off = fdt_get_name m a off \<and>
      (fdt_get_name m a off = (Some p, olen) \<longrightarrow> ?P)"
  proof (cases "fdt_ro_probe m a < 0 \<or> fdt_check_node_offset m a off < 0")
    case True
    then show ?thesis
      by (auto simp: fdt_get_name_def blob_eq_probe [OF e] blob_eq_check_node [OF e] Let_def)
  next
    case False
    then obtain n where n: "in_blob m a (fdt_off_dt_struct m a + off + 4) (int n + 1)"
      "m (a + word_of_int (fdt_off_dt_struct m a + off + 4) + of_nat n) = 0"
      using fdt_check_node_name [of m a off] by (metis not_less)
    let ?k = "fdt_off_dt_struct m a + off + 4"
    let ?s = "a + word_of_int ?k :: addr"
    note sl = blob_eq_strlen [OF e n]
    have ns: "fdt_offset_addr m a off + 4 = ?s" by (simp add: fdt_offset_addr_def)
    have "in_blob m a ?k (int (strlen m ?s) + 1)" using n sl(2) by simp
    note str = this sl(3)
    have rr: "strrchr m' ?s c = strrchr m ?s c" for c
      unfolding strrchr_def sl(1)
      by (rule strrchr_upto_same) (use blob_eq_byte [OF e, of "?k + int j" for j] str in \<open>simp add: add.assoc\<close>)
    have leaf: "\<exists>k n. leaf + 1 = a + word_of_int k \<and> in_blob m a k (int n + 1) \<and> m (leaf + 1 + of_nat n) = 0"
      if "strrchr m ?s 0x2F = Some leaf" for leaf
    proof -
      from strrchr_upto_Some [OF that [unfolded strrchr_def]] obtain j where
        j: "j \<le> strlen m ?s" "leaf = ?s + of_nat j" "m leaf = 0x2F" by auto
      with str have "j \<noteq> strlen m ?s" by auto
      with j have lt: "j < strlen m ?s" by simp
      show ?thesis
      proof (intro exI conjI)
        show "leaf + 1 = a + word_of_int (?k + int j + 1)" using j by simp
        show "0 \<le> ?k + int j + 1" using str by simp
        show "0 \<le> int (strlen m ?s - j - 1) + 1" by simp
        show "?k + int j + 1 + (int (strlen m ?s - j - 1) + 1) \<le> fdt_totalsize m a" using str lt by simp
        have at_end: "leaf + 1 + of_nat (strlen m ?s - j - 1) = ?s + of_nat (strlen m ?s)"
          using j lt by (simp add: of_nat_diff)
        show "m (leaf + 1 + of_nat (strlen m ?s - j - 1)) = 0" unfolding at_end by (rule sl(3))
      qed
    qed
    show ?thesis
    proof (cases "fdt_version m a < 16")
      case old: False
      have g: "fdt_get_name m a off = (Some ?s, int (strlen m ?s))"
        using False old by (simp add: fdt_get_name_def Let_def ns)
      moreover have "fdt_get_name m' a off = (Some ?s, int (strlen m' ?s))"
        using False old by (simp add: fdt_get_name_def Let_def ns blob_eq_probe [OF e]
            blob_eq_check_node [OF e] blob_eq_offset_addr [OF e] blob_eq_header [OF e])
      moreover have "(Some ?s, int (strlen m ?s)) = (Some p, olen) \<longrightarrow> ?P"
      proof
        assume "(Some ?s, int (strlen m ?s)) = (Some p, olen)"
        then have "p = ?s" "olen = int (strlen m ?s)" by auto
        with str show ?P by blast
      qed
      ultimately show ?thesis by (simp only: sl(1))
    next
      case old: True
      show ?thesis
      proof (cases "strrchr m ?s 0x2F")
        case None
        with False old rr show ?thesis
          by (simp add: fdt_get_name_def Let_def ns blob_eq_probe [OF e]
              blob_eq_check_node [OF e] blob_eq_offset_addr [OF e] blob_eq_header [OF e])
      next
        case (Some l)
        from leaf [OF Some] obtain k2 n2 where l: "l + 1 = a + word_of_int k2"
          "in_blob m a k2 (int n2 + 1)" "m (a + word_of_int k2 + of_nat n2) = 0" by auto
        note sl2 = blob_eq_strlen [OF e l(2,3)]
        have g: "fdt_get_name m a off = (Some (l + 1), int (strlen m (l + 1)))"
          using False old Some by (simp add: fdt_get_name_def Let_def ns)
        moreover have "fdt_get_name m' a off = (Some (l + 1), int (strlen m' (l + 1)))"
          using False old Some rr by (simp add: fdt_get_name_def Let_def ns blob_eq_probe [OF e]
              blob_eq_check_node [OF e] blob_eq_offset_addr [OF e] blob_eq_header [OF e])
        moreover have "strlen m' (l + 1) = strlen m (l + 1)" using sl2(1) l(1) by simp
        moreover have "(Some (l + 1), int (strlen m (l + 1))) = (Some p, olen) \<longrightarrow> ?P"
        proof
          assume "(Some (l + 1), int (strlen m (l + 1))) = (Some p, olen)"
          then have p: "p = a + word_of_int k2" "olen = int (strlen m (a + word_of_int k2))"
            using l(1) by auto
          have "in_blob m a k2 (int (strlen m (a + word_of_int k2)) + 1)" using l(2) sl2(2) by simp
          with sl2(3) p show ?P by blast
        qed
        ultimately show ?thesis by (simp only:) 
      qed
    qed
  qed
  then show "fdt_get_name m' a off = fdt_get_name m a off"
    and "fdt_get_name m a off = (Some p, olen) \<Longrightarrow> ?P" by auto
qed

lemma blob_eq_nodename:
  assumes e: "blob_eq m m' a"
  shows "fdt_nodename_eq m' a off s = fdt_nodename_eq m a off s"
proof -
  obtain p olen where g: "fdt_get_name m a off = (p, olen)" by fastforce
  have g': "fdt_get_name m' a off = (p, olen)" by (simp add: fdt_get_name_same(1) [OF e] g)
  show ?thesis
  proof (cases "p = None \<or> olen < int (length s)")
    case True
    then show ?thesis by (auto simp: fdt_nodename_eq_def g g' split: option.splits)
  next
    case False
    then obtain q where q: "p = Some q" by auto
    with g fdt_get_name_same(2) [OF e, of off q olen] obtain k n where k: "q = a + word_of_int k"
      "in_blob m a k (int n + 1)" "olen = int n" by auto
    have "memcmp_lit m' q s = memcmp_lit m q s"
      unfolding memcmp_lit_def k(1) using k False blob_eq_read [OF e, of k "length s"] by simp
    moreover have "m' (q + of_nat (length s)) = m (q + of_nat (length s))"
      using k False blob_eq_byte [OF e, of "k + int (length s)"] by (simp add: add.assoc)
    ultimately show ?thesis by (simp only: fdt_nodename_eq_def g g' q prod.case option.case)
  qed
qed

subsection \<open>Searching\<close>

lemma blob_eq_subnode_loop:
  "blob_eq m m' a \<Longrightarrow> fdt_subnode_loop m' a off d name = fdt_subnode_loop m a off d name"
proof (induction m a off d name rule: fdt_subnode_loop.induct)
  case (1 m a off d name)
  obtain nx d' where n: "fdt_next_node m a off d = (nx, d')" by fastforce
  then have n': "fdt_next_node m' a off d = (nx, d')" by (simp add: blob_eq_next_node [OF "1.prems"])
  note ih = "1.IH" [OF _ _ _ n [symmetric] "1.prems"]
  show ?case
  proof (cases d)
    case None
    then show ?thesis by (simp add: fdt_subnode_loop.simps [of _ a off])
  next
    case (Some x)
    with ih show ?thesis
      by (auto simp: fdt_subnode_loop.simps [of m a off] fdt_subnode_loop.simps [of m' a off]
          n [unfolded Some] n' [unfolded Some] blob_eq_nodename [OF "1.prems"])
  qed
qed

lemma blob_eq_subnode_offset:
  "blob_eq m m' a \<Longrightarrow>
   fdt_subnode_offset_namelen m' a off name = fdt_subnode_offset_namelen m a off name"
  "blob_eq m m' a \<Longrightarrow> fdt_subnode_offset m' a off name = fdt_subnode_offset m a off name"
  by (simp_all only: fdt_subnode_offset_def fdt_subnode_offset_namelen_def
      blob_eq_probe [of m m' a] blob_eq_subnode_loop [of m m' a])

lemma memchr_same:
  "(\<And>i. i < n \<Longrightarrow> m' (s + of_nat i) = m (s + of_nat i)) \<Longrightarrow> memchr m' s c n = memchr m s c n"
proof (induction n arbitrary: s)
  case 0
  show ?case by (simp add: memchr.simps)
next
  case (Suc n)
  have "memchr m' (s + 1) c n = memchr m (s + 1) c n"
    by (rule Suc.IH) (use Suc.prems [of "Suc i" for i] in \<open>simp add: add.assoc\<close>)
  with Suc.prems [of 0] show ?case by (subst (1 2) memchr.simps) simp
qed

lemma blob_eq_memchr:
  "blob_eq m m' a \<Longrightarrow> in_blob m a k (int n) \<Longrightarrow>
   memchr m' (a + word_of_int k) c n = memchr m (a + word_of_int k) c n"
  by (rule memchr_same) (use blob_eq_byte [of m m' a "k + int i" for i] in \<open>simp add: add.assoc\<close>)

lemma fdt_get_string_same:
  assumes e: "blob_eq m m' a"
  shows "fdt_get_string m' a off = fdt_get_string m a off"
proof -
  let ?abs = "wrap32 (off + fdt_off_dt_strings m a)"
  have abs: "0 \<le> ?abs" by (simp add: wrap32_def)
  have mc: "memchr m' (a + word_of_int ?abs) 0 (nat l) = memchr m (a + word_of_int ?abs) 0 (nat l)"
    if "?abs + l \<le> fdt_totalsize m a" "?abs \<le> fdt_totalsize m a" for l
    using that abs by (intro blob_eq_memchr [OF e]) auto
  have T: "fdt_ro_probe m a = fdt_totalsize m a \<or> fdt_ro_probe m a < 0"
    by (auto simp: fdt_ro_probe_def Let_def)
  show ?thesis
  proof (cases "fdt_ro_probe m a < 0 \<or> ?abs \<ge> fdt_ro_probe m a")
    case True
    then show ?thesis
      unfolding fdt_get_string_def blob_eq_header [OF e] blob_eq_probe [OF e]
      by (auto simp: Let_def)
  next
    case False
    with T have r: "fdt_ro_probe m a = fdt_totalsize m a" "?abs < fdt_totalsize m a" by auto
    show ?thesis
      unfolding fdt_get_string_def blob_eq_header [OF e] blob_eq_probe [OF e]
      using r abs mc
      by (simp add: Let_def not_less cong: if_cong)
  qed
qed

lemma fdt_get_string_in:
  assumes "fdt_get_string m a off = (Some p, l)"
  obtains k where "p = a + word_of_int k" and "in_blob m a k l"
proof -
  let ?abs = "wrap32 (off + fdt_off_dt_strings m a)"
  have abs: "0 \<le> ?abs" by (simp add: wrap32_def)
  have T: "fdt_ro_probe m a = fdt_totalsize m a \<or> fdt_ro_probe m a < 0"
    by (auto simp: fdt_ro_probe_def Let_def)
  from assms T obtain n len where p: "p = a + word_of_int ?abs"
    and n: "memchr m p 0 (nat len) = Some n" "l = uint (n - p)" "?abs < fdt_totalsize m a"
      "?abs + len \<le> fdt_totalsize m a"
    by (auto simp: fdt_get_string_def Let_def split: if_splits option.splits)
  from memchr_Some(2) [OF n(1)] obtain i where i: "i < nat len" "n = p + of_nat i" by auto
  have "int i < 4294967296" using i n(4) abs fdt_header_bounds(6) [of m a] by linarith
  then have "l = int i" using i(2) n(2) by (simp add: unsigned_of_nat take_bit_nat_eq_self)
  then have "in_blob m a ?abs l" using i n(4) abs by auto
  with p show ?thesis by (rule that)
qed

lemma blob_eq_string_eq:
  assumes e: "blob_eq m m' a"
  shows "fdt_string_eq m' a off s = fdt_string_eq m a off s"
proof -
  obtain p l where g: "fdt_get_string m a off = (p, l)" by fastforce
  have g': "fdt_get_string m' a off = (p, l)" by (simp add: fdt_get_string_same [OF e] g)
  show ?thesis
  proof (cases p)
    case None
    then show ?thesis by (simp add: fdt_string_eq_def g g')
  next
    case (Some q)
    with g obtain k where k: "q = a + word_of_int k" "in_blob m a k l"
      by (auto elim: fdt_get_string_in)
    have "l = int (length s) \<Longrightarrow> memcmp_lit m' q s = memcmp_lit m q s"
      unfolding memcmp_lit_def k(1) using k blob_eq_read [OF e, of k "length s"] by simp
    then show ?thesis by (auto simp: fdt_string_eq_def g g' Some)
  qed
qed

lemma blob_eq_nextprop: "blob_eq m m' a \<Longrightarrow> fdt_nextprop m' a off = fdt_nextprop m a off"
proof (induction m a off rule: fdt_nextprop.induct)
  case (1 m a off)
  obtain tag nx where tag: "fdt_next_tag m a off = (tag, nx)" by fastforce
  then have tag': "fdt_next_tag m' a off = (tag, nx)" by (simp add: blob_eq_next_tag [OF "1.prems"])
  note ih = "1.IH" [OF tag [symmetric] refl]
  from "1.prems" ih show ?case
    by (simp add: fdt_nextprop.simps [of m a off] fdt_nextprop.simps [of m' a off] tag tag')
qed

lemma blob_eq_property_offsets:
  "blob_eq m m' a \<Longrightarrow> fdt_first_property_offset m' a off = fdt_first_property_offset m a off"
  "blob_eq m m' a \<Longrightarrow> fdt_next_property_offset m' a off = fdt_next_property_offset m a off"
  by (simp_all only: fdt_first_property_offset_def fdt_next_property_offset_def
      blob_eq_check_node [of m m' a] blob_eq_check_prop [of m m' a] blob_eq_nextprop [of m m' a])

lemma blob_eq_by_offset:
  assumes e: "blob_eq m m' a"
  shows "fdt_get_property_by_offset m' a off = fdt_get_property_by_offset m a off"
    and "fdt_get_property_by_offset m a off = (Some pp, len) \<Longrightarrow>
      fdt_prop_nameoff m' pp = fdt_prop_nameoff m pp \<and> fdt_prop_len m' pp = fdt_prop_len m pp"
proof -
  let ?pp = "fdt_offset_addr m a off"
  have same: "fdt_prop_nameoff m' ?pp = fdt_prop_nameoff m ?pp \<and> fdt_prop_len m' ?pp = fdt_prop_len m ?pp"
    if "0 \<le> fdt_check_prop_offset m a off"
  proof -
    note t = fdt_next_tag_prop [OF fdt_check_prop_offset_tag [OF that] that]
    have "0 \<le> fdt_prop_len m ?pp" by (simp add: fdt_prop_len_def)
    with t prop_pad_bounds [of m a off "fdt_prop_len m ?pp"]
    have "in_blob m a (fdt_off_dt_struct m a + off) 12" by simp
    then show ?thesis
      using blob_eq_be32 [OF e, of "fdt_off_dt_struct m a + off + 4"]
        blob_eq_be32 [OF e, of "fdt_off_dt_struct m a + off + 8"]
      by (simp add: fdt_prop_len_def fdt_prop_nameoff_def fdt_offset_addr_def add.assoc)
  qed
  then show "fdt_get_property_by_offset m' a off = fdt_get_property_by_offset m a off"
    by (auto simp: fdt_get_property_by_offset_def Let_def blob_eq_check_prop [OF e]
        blob_eq_offset_addr [OF e])
  assume "fdt_get_property_by_offset m a off = (Some pp, len)"
  with same show "fdt_prop_nameoff m' pp = fdt_prop_nameoff m pp \<and> fdt_prop_len m' pp = fdt_prop_len m pp"
    by (auto simp: fdt_get_property_by_offset_def Let_def split: if_splits)
qed

lemma blob_eq_property_loop:
  "blob_eq m m' a \<Longrightarrow> fdt_get_property_loop m' a off name = fdt_get_property_loop m a off name"
proof (induction m a off name rule: fdt_get_property_loop.induct)
  case (1 m a off name)
  note e = "1.prems"
  obtain p len where b: "fdt_get_property_by_offset m a off = (p, len)" by fastforce
  have b': "fdt_get_property_by_offset m' a off = (p, len)"
    by (simp add: blob_eq_by_offset(1) [OF e] b)
  show ?case
  proof (cases "0 \<le> off \<and> p \<noteq> None")
    case False
    then show ?thesis
      by (auto simp: fdt_get_property_loop.simps [of _ a off] b b' split: option.splits)
  next
    case True
    then obtain pp where p: "p = Some pp" by auto
    have nm: "fdt_prop_nameoff m' pp = fdt_prop_nameoff m pp"
      using blob_eq_by_offset(2) [OF e] b p by blast
    have off: "0 \<le> off" using True by simp
    note ih = "1.IH" [OF off b [symmetric] p _ e]
    from ih off show ?thesis
      by (simp add: fdt_get_property_loop.simps [of m a off] fdt_get_property_loop.simps [of m' a off]
          b b' p nm blob_eq_string_eq [OF e] blob_eq_property_offsets [OF e])
  qed
qed

lemma blob_eq_getprop:
  assumes e: "blob_eq m m' a"
  shows "fdt_getprop m' a node name = fdt_getprop m a node name"
proof -
  obtain p len off where l:
    "fdt_get_property_loop m a (fdt_first_property_offset m a node) name = (p, len, off)"
    by (metis prod_cases3)
  have l': "fdt_get_property_loop m' a (fdt_first_property_offset m' a node) name = (p, len, off)"
    by (simp add: blob_eq_property_loop [OF e] blob_eq_property_offsets [OF e] l)
  have "fdt_prop_len m' pp = fdt_prop_len m pp" if "p = Some pp" for pp
    using fdt_get_property_loop_Some [of m a _ name pp len off] l that
      blob_eq_by_offset(2) [OF e, of off pp len] by blast
  then show ?thesis
    by (cases p) (simp_all add: fdt_getprop_def fdt_get_property_namelen_def l l' blob_eq_header [OF e])
qed

subsection \<open>Paths and string lists\<close>

lemma blob_eq_path_walk: "blob_eq m m' a \<Longrightarrow> fdt_path_walk m' a off path = fdt_path_walk m a off path"
proof (induction m a off path rule: fdt_path_walk.induct)
  case (1 m a off path)
  then show ?case
    by (simp add: fdt_path_walk.simps [of m a off] fdt_path_walk.simps [of m' a off]
        blob_eq_subnode_offset(1) [OF "1.prems"] Let_def)
qed

lemma str_in_blob_string:
  assumes "blob_eq m m' a" and "str_in_blob m a p"
  shows "strlen m' p = strlen m p" and "c_string m' p = c_string m p"
proof -
  from assms(2) obtain k n where k: "p = a + word_of_int k" "in_blob m a k (int n + 1)"
    "m (p + of_nat n) = 0" by (auto simp: str_in_blob_def)
  show "strlen m' p = strlen m p" using blob_eq_strlen(1) [OF assms(1) k(2)] k by simp
  show "c_string m' p = c_string m p" using blob_eq_c_string [OF assms(1) k(2)] k by simp
qed

lemma blob_eq_alias:
  assumes e: "blob_eq m m' a"
  shows "fdt_get_alias m' a name = fdt_get_alias m a name"
proof -
  obtain p len where g: "fdt_getprop m a (fdt_path_walk m a 0 (cstr ''/aliases'')) name = (p, len)"
    by fastforce
  show ?thesis
  proof (cases "p = None \<or> len \<le> 0")
    case True
    then show ?thesis
      by (auto simp: fdt_get_alias_def Let_def blob_eq_getprop [OF e] blob_eq_path_walk [OF e] g
          split: option.splits)
  next
    case False
    then obtain al where p: "p = Some al" and len: "0 < len" by auto
    with g obtain k where k: "al = a + word_of_int k" "in_blob m a k len"
      by (auto elim: fdt_getprop_in_blob)
    have b: "m' (al + word_of_int (len - 1)) = m (al + word_of_int (len - 1))" "m' al = m al"
      using blob_eq_byte [OF e, of "k + (len - 1)"] blob_eq_byte [OF e, of k] k len
      by (simp_all add: add.assoc)
    have "m (al + word_of_int (len - 1)) = 0 \<Longrightarrow> c_string m' al = c_string m al"
    proof -
      assume z: "m (al + word_of_int (len - 1)) = 0"
      then have "m (al + of_nat (nat (len - 1))) = 0" using len by simp
      moreover have "in_blob m a k (int (nat (len - 1)) + 1)" using k len by simp
      ultimately have "str_in_blob m a al" using k(1) unfolding str_in_blob_def by blast
      then show "c_string m' al = c_string m al" by (rule str_in_blob_string [OF e])
    qed
    then show ?thesis
      using p b by (simp add: fdt_get_alias_def Let_def blob_eq_getprop [OF e] blob_eq_path_walk [OF e]
          g cong: if_cong)
  qed
qed

lemma blob_eq_path_offset: "blob_eq m m' a \<Longrightarrow> fdt_path_offset m' a path = fdt_path_offset m a path"
  by (simp only: fdt_path_offset_def blob_eq_probe [of m m' a] blob_eq_alias [of m m' a]
      blob_eq_path_walk [of m m' a])

lemma strnlen_same:
  "(\<And>i. i < n \<Longrightarrow> m' (s + of_nat i) = m (s + of_nat i)) \<Longrightarrow> strnlen m' s n = strnlen m s n"
proof (induction n arbitrary: s)
  case 0
  show ?case by (simp add: strnlen.simps)
next
  case (Suc n)
  have "strnlen m' (s + 1) n = strnlen m (s + 1) n"
    by (rule Suc.IH) (use Suc.prems [of "Suc i" for i] in \<open>simp add: add.assoc\<close>)
  with Suc.prems [of 0] show ?case by (subst (1 2) strnlen.simps) simp
qed

lemma stringlist_loops_same:
  assumes "\<And>i. i < left \<Longrightarrow> m' (p + of_nat i) = m (p + of_nat i)"
  shows "stringlist_get_loop m' p left idx = stringlist_get_loop m p left idx"
    and "stringlist_count_loop m' p left c = stringlist_count_loop m p left c"
proof -
  have "stringlist_get_loop m' p left idx = stringlist_get_loop m p left idx \<and>
      stringlist_count_loop m' p left c = stringlist_count_loop m p left c" for idx c
    using assms
  proof (induction left arbitrary: p idx c rule: less_induct)
    case (less left)
    have s: "strnlen m' p left = strnlen m p left" by (rule strnlen_same) (rule less.prems)
    let ?l = "strnlen m p left + 1"
    show ?case
    proof (cases "left = 0 \<or> ?l > left")
      case True
      then show ?thesis
        by (auto simp: stringlist_get_loop.simps [of _ p left] stringlist_count_loop.simps [of _ p left] s)
    next
      case False
      have rest: "m' (p + of_nat ?l + of_nat i) = m (p + of_nat ?l + of_nat i)" if "i < left - ?l" for i
        using less.prems [of "?l + i"] that by (simp add: add.assoc)
      from less.IH [of "left - ?l" "p + of_nat ?l"] rest False
      have "stringlist_get_loop m' (p + of_nat ?l) (left - ?l) i
          = stringlist_get_loop m (p + of_nat ?l) (left - ?l) i"
        "stringlist_count_loop m' (p + of_nat ?l) (left - ?l) n
          = stringlist_count_loop m (p + of_nat ?l) (left - ?l) n" for i n
        by auto
      then show ?thesis
        by (simp add: stringlist_get_loop.simps [of _ p left] stringlist_count_loop.simps [of _ p left]
            s Let_def del: of_nat_add of_nat_Suc)
    qed
  qed
  then show "stringlist_get_loop m' p left idx = stringlist_get_loop m p left idx"
    and "stringlist_count_loop m' p left c = stringlist_count_loop m p left c" by auto
qed

lemma blob_eq_stringlist:
  assumes e: "blob_eq m m' a"
  shows "fdt_stringlist_get m' a node name idx = fdt_stringlist_get m a node name idx"
    and "fdt_stringlist_count m' a node name = fdt_stringlist_count m a node name"
proof -
  obtain p len where g: "fdt_getprop m a node name = (p, len)" by fastforce
  have byte: "m' (q + of_nat i) = m (q + of_nat i)" if "p = Some q" "i < nat len" for q i
  proof -
    from g that(1) obtain k where k: "q = a + word_of_int k" "in_blob m a k len"
      by (auto elim: fdt_getprop_in_blob)
    then have "in_blob m a (k + int i) 1" using that(2) by auto
    from blob_eq_byte [OF e this] k(1) show ?thesis by (simp add: add.assoc)
  qed
  show "fdt_stringlist_get m' a node name idx = fdt_stringlist_get m a node name idx"
    "fdt_stringlist_count m' a node name = fdt_stringlist_count m a node name"
    using stringlist_loops_same [of "nat len" m' _ m] byte
    by (auto simp: fdt_stringlist_get_def fdt_stringlist_count_def blob_eq_getprop [OF e] g
        split: option.splits)
qed

end
