(* ===== verification/Fit_Local.thy ===== *)
theory Fit_Local
  imports Fit_Parse Libfdt_Local
begin

text \<open>
  The verdict of \<open>chain_fit_parse\<close> depends on the bytes of the FIT alone: nothing the parser
  reads lies outside \<open>[fit, fit + totalsize)\<close>, beyond the 40 header bytes it must look at to
  learn that size.
\<close>

lemma string_equal_same:
  assumes "\<And>i. i \<le> n \<Longrightarrow> m' (p + of_nat i) = m (p + of_nat i)" and "m (p + of_nat n) = 0"
  shows "string_equal m' p s = string_equal m p s"
  using assms
proof (induction s arbitrary: p n)
  case Nil
  from Nil.prems(1) [of 0] show ?case by simp
next
  case (Cons c cs)
  have hd: "m' p = m p" using Cons.prems(1) [of 0] by simp
  show ?case
  proof (cases "m p \<noteq> 0 \<and> m p = c")
    case False
    with hd show ?thesis by auto
  next
    case True
    with Cons.prems(2) have "n \<noteq> 0" by (cases n) auto
    then obtain k where n: "n = Suc k" by (cases n) auto
    have "string_equal m' (p + 1) cs = string_equal m (p + 1) cs"
    proof (rule Cons.IH [of k])
      show "m' (p + 1 + of_nat i) = m (p + 1 + of_nat i)" if "i \<le> k" for i
        using Cons.prems(1) [of "Suc i"] that n by (simp add: add.assoc)
      show "m (p + 1 + of_nat k) = 0" using Cons.prems(2) n by (simp add: add.assoc)
    qed
    with True hd show ?thesis by simp
  qed
qed

lemma blob_eq_string_equal:
  assumes e: "blob_eq m m' fit" and p: "str_in_blob m fit p"
  shows "string_equal m' p s = string_equal m p s"
proof -
  from p obtain k n where k: "p = fit + word_of_int k" "in_blob m fit k (int n + 1)"
    "m (p + of_nat n) = 0" by (auto simp: str_in_blob_def)
  show ?thesis
  proof (rule string_equal_same [of n])
    fix i assume "i \<le> n"
    then have "in_blob m fit (k + int i) 1" using k(2) by auto
    from blob_eq_byte [OF e this] k(1) show "m' (p + of_nat i) = m (p + of_nat i)"
      by (simp add: add.assoc)
  qed (rule k(3))
qed

lemma blob_eq_string_prop:
  assumes e: "blob_eq m m' fit"
  shows "string_prop m' fit node name = string_prop m fit node name"
proof -
  obtain p len where g: "fdt_getprop m fit node (cstr name) = (p, len)" by fastforce
  have "memchr m' q 0 (nat len) = memchr m q 0 (nat len)" if "p = Some q" for q
  proof -
    from g that obtain k where k: "q = fit + word_of_int k" "in_blob m fit k len"
      by (auto elim: fdt_getprop_in_blob)
    then show ?thesis using blob_eq_memchr [OF e, of k "nat len"] by simp
  qed
  then show ?thesis
    by (cases p) (simp_all add: string_prop_def blob_eq_getprop [OF e] g)
qed

lemma blob_eq_os_is:
  assumes e: "blob_eq m m' fit" and "\<And>q. p = Some q \<Longrightarrow> str_in_blob m fit q"
  shows "os_is m' p s = os_is m p s"
  using assms blob_eq_string_equal [OF e] by (cases p) (simp_all add: os_is_def)

lemma blob_eq_address_prop:
  assumes e: "blob_eq m m' fit"
  shows "address_prop m' fit node name req = address_prop m fit node name req"
proof -
  obtain p len where g: "fdt_getprop m fit node (cstr name) = (p, len)" by fastforce
  show ?thesis
  proof (cases p)
    case None
    then show ?thesis by (simp add: address_prop_def blob_eq_getprop [OF e] g)
  next
    case (Some q)
    with g obtain k where k: "q = fit + word_of_int k" "in_blob m fit k len"
      by (auto elim: fdt_getprop_in_blob)
    have "4 \<le> len \<Longrightarrow> be32 m' q = be32 m q" "8 \<le> len \<Longrightarrow> be32 m' (q + 4) = be32 m (q + 4)"
      using blob_eq_be32 [OF e, of k] blob_eq_be32 [OF e, of "k + 4"] k by (simp_all add: add.assoc)
    then show ?thesis using Some by (auto simp: address_prop_def blob_eq_getprop [OF e] g)
  qed
qed

lemma blob_eq_hash_loop:
  "blob_eq m m' fit \<Longrightarrow> in_blob m fit k (uint len) \<Longrightarrow> data = fit + word_of_int k \<Longrightarrow>
   validate_hash_loop m' fit hash data len n = validate_hash_loop m fit hash data len n"
proof (induction m fit hash data len n rule: validate_hash_loop.induct)
  case (1 m fit hash data len n)
  note e = "1.prems"(1)
  obtain p l where g: "fdt_getprop m fit hash (cstr ''value'') = (p, l)" by fastforce
  have rd: "read_bytes m' data (unat len) = read_bytes m data (unat len)"
    using blob_eq_read [OF e, of k "unat len"] "1.prems" by simp
  have algo: "string_equal m' q s = string_equal m q s" if "string_prop m fit hash ''algo'' = Some q" for q s
    by (rule blob_eq_string_equal [OF e string_prop_in [OF that]])
  have digest: "memcmp_lit m' q d = memcmp_lit m q d" if "p = Some q" "l = 32" "length d = 32" for q d
  proof -
    from g that obtain j where "q = fit + word_of_int j" "in_blob m fit j 32"
      by (auto elim: fdt_getprop_in_blob)
    with that(3) blob_eq_read [OF e, of j 32] show ?thesis by (simp add: memcmp_lit_def)
  qed
  note step = validate_hash_loop.simps [of m fit hash] validate_hash_loop.simps [of m' fit hash]
  show ?case
  proof (cases "0 \<le> hash")
    case False
    then show ?thesis by (simp add: step)
  next
    case True
    show ?thesis
    proof (cases "string_prop m fit hash ''algo''")
      case None
      with "1.IH"(1) [OF True None] "1.prems" True show ?thesis
        by (simp add: step blob_eq_string_prop [OF e] blob_eq_next_subnode [OF e])
    next
      case (Some q)
      show ?thesis
      proof (cases "string_equal m q (cstr ''sha256'')")
        case False
        with "1.IH"(2) [OF True Some False] "1.prems" True Some show ?thesis
          by (simp add: step blob_eq_string_prop [OF e] blob_eq_next_subnode [OF e] algo)
      next
        case eq: True
        show ?thesis
        proof (cases "p = None \<or> l \<noteq> 32")
          case True
          with \<open>0 \<le> hash\<close> Some eq show ?thesis
            by (auto simp: step blob_eq_string_prop [OF e] algo blob_eq_getprop [OF e] g split: option.splits)
        next
          case False
          then obtain x where x: "p = Some x" "l = 32" by auto
          let ?d = "chain_sha256 (read_bytes m data (unat len))"
          have d: "memcmp_lit m' x ?d = memcmp_lit m x ?d" by (rule digest) (simp_all add: x)
          show ?thesis
          proof (cases "memcmp_lit m x ?d")
            case False
            with \<open>0 \<le> hash\<close> Some eq x d show ?thesis
              by (simp add: step blob_eq_string_prop [OF e] algo blob_eq_getprop [OF e] g rd)
          next
            case True
            have ih: "validate_hash_loop m' fit (fdt_next_subnode m fit hash) data len (n + 1)
                = validate_hash_loop m fit (fdt_next_subnode m fit hash) data len (n + 1)"
              using "1.IH"(3) [OF \<open>0 \<le> hash\<close> Some _ g [symmetric] x(1)] eq x True "1.prems" by simp
            with \<open>0 \<le> hash\<close> Some eq x d True show ?thesis
              by (simp add: step blob_eq_string_prop [OF e] algo blob_eq_getprop [OF e] g rd
                  blob_eq_next_subnode [OF e])
          qed
        qed
      qed
    qed
  qed
qed

lemma blob_eq_add_fdt_image:
  assumes e: "blob_eq m m' fit" and "\<And>q. arch = Some q \<Longrightarrow> str_in_blob m fit q"
  shows "add_fdt_image m' fit node arch out plan = add_fdt_image m fit node arch out plan"
proof -
  have "(case arch of None \<Rightarrow> False | Some p \<Rightarrow> \<not> string_equal m' p s)
      = (case arch of None \<Rightarrow> False | Some p \<Rightarrow> \<not> string_equal m p s)" for s
    using assms(2) blob_eq_string_equal [OF e] by (cases arch) simp_all
  then show ?thesis by (simp only: add_fdt_image_def blob_eq_getprop [OF e])
qed

lemma blob_eq_add_executable_image:
  assumes e: "blob_eq m m' fit" and arch: "\<And>q. arch = Some q \<Longrightarrow> str_in_blob m fit q"
    and type': "\<And>q. img_type out = Some q \<Longrightarrow> str_in_blob m fit q"
    and os: "\<And>q. img_os out = Some q \<Longrightarrow> str_in_blob m fit q"
  shows "add_executable_image m' fit node arch primary platform out plan
       = add_executable_image m fit node arch primary platform out plan"
proof -
  have t: "os_is m' (img_type o') s = os_is m (img_type o') s" if "img_type o' = img_type out" for o' s
    by (rule blob_eq_os_is [OF e]) (use that type' in simp)
  have o: "os_is m' (img_os o') s = os_is m (img_os o') s" if "img_os o' = img_os out" for o' s
    by (rule blob_eq_os_is [OF e]) (use that os in simp)
  have a: "os_is m' arch s = os_is m arch s" for s by (rule blob_eq_os_is [OF e arch])
  obtain status load where l: "address_prop m fit node ''load'' True = (status, load)" by fastforce
  let ?out = "case load of None \<Rightarrow> out | Some v \<Rightarrow> out\<lparr>img_load := v\<rparr>"
  have same: "img_type ?out = img_type out" "img_os ?out = img_os out"
    by (simp_all split: option.splits)
  have "add_bl33_image m' platform x ?out plan = add_bl33_image m platform x ?out plan"
    "add_bl31_image m' platform primary x ?out plan = add_bl31_image m platform primary x ?out plan" for x
    by (simp_all only: add_bl33_image_def add_bl31_image_def t [OF same(1)])
  then show ?thesis
    by (simp only: add_executable_image_def blob_eq_address_prop [OF e] a l prod.case Let_def
        o [OF same(2)])
qed

lemma blob_eq_add_image:
  assumes e: "blob_eq m m' fit" and name: "str_in_blob m fit name"
  shows "add_image m' fit images_node name primary platform plan
       = add_image m fit images_node name primary platform plan"
proof -
  let ?node = "fdt_subnode_offset m fit images_node (c_string m name)"
  obtain d len where data: "fdt_getprop m fit ?node (cstr ''data'') = (d, len)" by fastforce
  have h: "validate_hash m' fit ?node q (word_of_int len) = validate_hash m fit ?node q (word_of_int len)"
    if "d = Some q" for q
  proof -
    from data that obtain k where k: "q = fit + word_of_int k" "in_blob m fit k len"
      by (auto elim: fdt_getprop_in_blob)
    have "in_blob m fit k (uint (word_of_int len :: u64))" using k(2) word_of_int_len [OF k(2)] by simp
    from blob_eq_hash_loop [OF e this k(1)] show ?thesis
      by (simp add: validate_hash_def blob_eq_first_subnode [OF e])
  qed
  have sp: "string_prop m' fit ?node s = string_prop m fit ?node s" for s
    by (rule blob_eq_string_prop [OF e])
  have os: "os_is m' (string_prop m fit ?node s) t = os_is m (string_prop m fit ?node s) t" for s t
    by (rule blob_eq_os_is [OF e string_prop_in])
  have fdt: "add_fdt_image m' fit ?node (string_prop m fit ?node s) out plan
      = add_fdt_image m fit ?node (string_prop m fit ?node s) out plan" for s out
    by (rule blob_eq_add_fdt_image [OF e string_prop_in])
  have exe: "add_executable_image m' fit ?node (string_prop m fit ?node s) primary platform out plan
      = add_executable_image m fit ?node (string_prop m fit ?node s) primary platform out plan"
    if "img_type out = string_prop m fit ?node ''type''" "img_os out = string_prop m fit ?node ''os''" for s out
    by (rule blob_eq_add_executable_image [OF e]) (use that in \<open>auto intro: string_prop_in\<close>)
  show ?thesis
    unfolding add_image_def Let_def str_in_blob_string(2) [OF e name] blob_eq_subnode_offset(2) [OF e]
      blob_eq_getprop [OF e] blob_eq_address_prop [OF e] sp os fdt data
    by (cases d) (simp_all add: h exe split: prod.splits)
qed

lemma blob_eq_add_loadables:
  assumes e: "blob_eq m m' fit"
  shows "add_loadables m' fit configuration images_node platform is plan
       = add_loadables m fit configuration images_node platform is plan"
proof (induction "is" arbitrary: plan)
  case (Cons i "is")
  have add: "add_image m' fit images_node name False platform plan
      = add_image m fit images_node name False platform plan"
    if "fst (fdt_stringlist_get m fit configuration (cstr ''loadables'') i) = Some name" for name
    by (rule blob_eq_add_image [OF e stringlist_get_in [OF that]])
  show ?case
    using add Cons.IH
    by (simp add: blob_eq_stringlist [OF e] split: option.splits sum.splits)
qed simp

lemma blob_eq_fit_collect:
  assumes e: "blob_eq m m' fit"
  shows "fit_collect m' fit configuration images_node platform
       = fit_collect m fit configuration images_node platform"
proof -
  have add: "add_image m' fit images_node name p platform plan
      = add_image m fit images_node name p platform plan"
    if "fst (fdt_stringlist_get m fit configuration l i) = Some name" for name p plan l i
    by (rule blob_eq_add_image [OF e stringlist_get_in [OF that]])
  show ?thesis
    unfolding fit_collect_def blob_eq_stringlist [OF e] blob_eq_add_loadables [OF e]
    by (simp add: add Let_def cong: option.case_cong sum.case_cong if_cong)
qed

lemma chain_fit_parse_same:
  assumes hdr: "same_bytes fit 40 m m'" and blob: "same_bytes fit (fdt_totalsize m fit) m m'"
  shows "chain_fit_parse m' fit available platform = chain_fit_parse m fit available platform"
proof (cases "fit = 0 \<or> fdt_check_header m fit \<noteq> 0 \<or>
    (word_of_int (fdt_totalsize m fit) :: u64) > available \<or> (word_of_int (fdt_totalsize m fit) :: u64) < 40")
  case True
  then show ?thesis
    by (auto simp: chain_fit_parse_def fdt_check_header_same [OF hdr] same_bytes_header [OF hdr] Let_def)
next
  case False
  have "40 \<le> fdt_totalsize m fit"
  proof -
    have "(40 :: u64) \<le> word_of_int (fdt_totalsize m fit)"
      using False by (simp add: not_less)
    then have "uint (40 :: u64) \<le> uint (word_of_int (fdt_totalsize m fit) :: u64)"
      by (simp only: word_le_def)
    moreover have "uint (word_of_int (fdt_totalsize m fit) :: u64) = fdt_totalsize m fit"
      by (rule uint_word_of_int_u64) (use fdt_header_bounds(1,6) [of m fit] in linarith)+
    ultimately show ?thesis by simp
  qed
  moreover have "fdt_totalsize m fit \<le> INT_MAX"
    using False by (auto simp: fdt_check_header_def Let_def split: if_splits)
  ultimately have e: "blob_eq m m' fit" using blob by (simp add: blob_eq_def)
  have name: "fdt_subnode_offset m fit c (c_string m' name) = fdt_subnode_offset m fit c (c_string m name)"
    if "string_prop m fit c ''default'' = Some name" for c name
    by (simp only: str_in_blob_string(2) [OF e string_prop_in [OF that]])
  have conf: "(case string_prop m fit c ''default'' of None \<Rightarrow> -1
        | Some name \<Rightarrow> fdt_subnode_offset m fit c (c_string m' name))
      = (case string_prop m fit c ''default'' of None \<Rightarrow> -1
        | Some name \<Rightarrow> fdt_subnode_offset m fit c (c_string m name))" for c
    using name by (cases "string_prop m fit c ''default''") simp_all
  show ?thesis
    unfolding chain_fit_parse_def fdt_check_header_same [OF hdr] blob_eq_header [OF e]
      blob_eq_path_offset [OF e] blob_eq_string_prop [OF e] blob_eq_subnode_offset(2) [OF e]
      blob_eq_fit_collect [OF e] conf
    by (rule refl)
qed

text \<open>C13. The verdict on a FIT, plan or error, depends on the bytes of the FIT alone: the parser looks at
  nothing outside its header and total size, whatever these bytes are.\<close>

theorem chain_fit_parse_local:
  assumes "same_bytes fit 40 m m'" and "same_bytes fit (fdt_totalsize m fit) m m'"
  shows "chain_fit_parse m' fit available platform = chain_fit_parse m fit available platform"
  by (rule chain_fit_parse_same [OF assms])

lemma chain_fit_parse_local_witness:
  "\<forall>platform. chain_fit_parse ((\<lambda>_. 0)(0x1000 := 5)) 0x2000 0x100 platform
    = chain_fit_parse (\<lambda>_. 0) 0x2000 0x100 platform"
proof
  fix platform :: ChainPlatform
  have "same_bytes 0x2000 40 (\<lambda>_. 0) ((\<lambda>_. 0)(0x1000 := 5))"
    unfolding same_bytes_def
  proof (intro allI impI)
    fix k :: int assume k: "0 \<le> k \<and> k < 40"
    then have "uint (word_of_int k :: u64) = k" by (intro uint_word_of_int_u64) auto
    then have "uint (0x2000 + word_of_int k :: u64) = 0x2000 + k"
      using k by (simp add: uint_word_ariths)
    then have "uint (0x2000 + word_of_int k :: u64) \<noteq> uint (0x1000 :: u64)" using k by simp
    then have "0x2000 + word_of_int k \<noteq> (0x1000 :: u64)" by metis
    then show "((\<lambda>_. 0)(0x1000 := 5)) (0x2000 + word_of_int k :: addr) = (\<lambda>_. 0 :: u8) (0x2000 + word_of_int k :: addr)"
      by simp
  qed
  then show "chain_fit_parse ((\<lambda>_. 0)(0x1000 := 5)) 0x2000 0x100 platform
    = chain_fit_parse (\<lambda>_. 0) 0x2000 0x100 platform"
    by (rule chain_fit_parse_local) (simp add: fdt_totalsize_def be32_def same_bytes_def)
qed

end
