(* ===== verification/Libfdt_Rw.thy ===== *)
theory Libfdt_Rw
  imports Libfdt
begin

text \<open>
  The read-write half of libfdt that the chainloader uses to extend the control device tree
  (external/libfdt/fdt_rw.c, with \<open>fdt_move\<close> and \<open>fdt_find_string_len_\<close> of fdt.c): expand
  a blob into a larger buffer, add a node, set a property. A function that changes the blob
  returns the new memory and the C result. The value of a property is a function of the
  memory, because the C code reads it at the moment it copies it, after the blob was moved.
\<close>

subsection \<open>Header fields\<close>

definition be32_bytes :: "int \<Rightarrow> bytes" where
  "be32_bytes v = [word_of_int (v div 16777216), word_of_int (v div 65536),
     word_of_int (v div 256), word_of_int v]"

definition set_be32 :: "mem \<Rightarrow> addr \<Rightarrow> int \<Rightarrow> mem" where
  "set_be32 m p v = write_bytes m p (be32_bytes v)"

definition fdt_set_magic :: "mem \<Rightarrow> addr \<Rightarrow> int \<Rightarrow> mem" where
  "fdt_set_magic m a v = set_be32 m a v"
definition fdt_set_totalsize :: "mem \<Rightarrow> addr \<Rightarrow> int \<Rightarrow> mem" where
  "fdt_set_totalsize m a v = set_be32 m (a + 4) v"
definition fdt_set_off_dt_struct :: "mem \<Rightarrow> addr \<Rightarrow> int \<Rightarrow> mem" where
  "fdt_set_off_dt_struct m a v = set_be32 m (a + 8) v"
definition fdt_set_off_dt_strings :: "mem \<Rightarrow> addr \<Rightarrow> int \<Rightarrow> mem" where
  "fdt_set_off_dt_strings m a v = set_be32 m (a + 12) v"
definition fdt_set_off_mem_rsvmap :: "mem \<Rightarrow> addr \<Rightarrow> int \<Rightarrow> mem" where
  "fdt_set_off_mem_rsvmap m a v = set_be32 m (a + 16) v"
definition fdt_set_version :: "mem \<Rightarrow> addr \<Rightarrow> int \<Rightarrow> mem" where
  "fdt_set_version m a v = set_be32 m (a + 20) v"
definition fdt_set_last_comp_version :: "mem \<Rightarrow> addr \<Rightarrow> int \<Rightarrow> mem" where
  "fdt_set_last_comp_version m a v = set_be32 m (a + 24) v"
definition fdt_set_boot_cpuid_phys :: "mem \<Rightarrow> addr \<Rightarrow> int \<Rightarrow> mem" where
  "fdt_set_boot_cpuid_phys m a v = set_be32 m (a + 28) v"
definition fdt_set_size_dt_strings :: "mem \<Rightarrow> addr \<Rightarrow> int \<Rightarrow> mem" where
  "fdt_set_size_dt_strings m a v = set_be32 m (a + 32) v"
definition fdt_set_size_dt_struct :: "mem \<Rightarrow> addr \<Rightarrow> int \<Rightarrow> mem" where
  "fdt_set_size_dt_struct m a v = set_be32 m (a + 36) v"

subsection \<open>Probing and splicing\<close>

definition fdt_blocks_misordered :: "mem \<Rightarrow> addr \<Rightarrow> int \<Rightarrow> int \<Rightarrow> bool" where
  "fdt_blocks_misordered m a mem_rsv_size struct_size \<longleftrightarrow>
     fdt_off_mem_rsvmap m a < 40
     \<or> fdt_off_dt_struct m a < wrap32 (fdt_off_mem_rsvmap m a + mem_rsv_size)
     \<or> fdt_off_dt_strings m a < wrap32 (fdt_off_dt_struct m a + struct_size)
     \<or> fdt_totalsize m a < wrap32 (fdt_off_dt_strings m a + fdt_size_dt_strings m a)"

definition fdt_rw_probe :: "mem \<Rightarrow> addr \<Rightarrow> mem \<times> int" where
  "fdt_rw_probe m a =
     (if fdt_ro_probe m a < 0 then (m, fdt_ro_probe m a)
      else if fdt_version m a < 17 then (m, - FDT_ERR_BADVERSION)
      else if fdt_blocks_misordered m a 16 (fdt_size_dt_struct m a) then (m, - FDT_ERR_BADLAYOUT)
      else if fdt_version m a > 17 then (fdt_set_version m a 17, 0)
      else (m, 0))"

definition fdt_data_size :: "mem \<Rightarrow> addr \<Rightarrow> int" where
  "fdt_data_size m a = wrap32 (fdt_off_dt_strings m a + fdt_size_dt_strings m a)"

text \<open>
  \<open>soff\<close> is the \<open>size_t\<close> distance of the splice point from the start of the blob; a point
  before the blob is refused by the same comparison as in C.
\<close>

definition fdt_splice :: "mem \<Rightarrow> addr \<Rightarrow> addr \<Rightarrow> int \<Rightarrow> int \<Rightarrow> mem \<times> int" where
  "fdt_splice m a p oldlen newlen =
     (let dsize = fdt_data_size m a;
          soff = uint (p - a)
      in if oldlen < 0 \<or> soff + oldlen \<ge> 18446744073709551616 \<or> soff + oldlen > dsize
         then (m, - FDT_ERR_BADOFFSET)
         else if p < a \<or> wrap32 (dsize + newlen) < oldlen then (m, - FDT_ERR_BADOFFSET)
         else if wrap32 (dsize - oldlen + newlen) > fdt_totalsize m a then (m, - FDT_ERR_NOSPACE)
         else (memmove m (p + word_of_int newlen) (p + word_of_int oldlen)
                 (nat (dsize - (soff + oldlen))), 0))"

definition fdt_splice_struct :: "mem \<Rightarrow> addr \<Rightarrow> addr \<Rightarrow> int \<Rightarrow> int \<Rightarrow> mem \<times> int" where
  "fdt_splice_struct m a p oldlen newlen =
     (let delta = newlen - oldlen in
      case fdt_splice m a p oldlen newlen of
        (m, err) \<Rightarrow>
          if err \<noteq> 0 then (m, err)
          else let m = fdt_set_size_dt_struct m a (wrap32 (fdt_size_dt_struct m a + delta));
                   m = fdt_set_off_dt_strings m a (wrap32 (fdt_off_dt_strings m a + delta))
               in (m, 0))"

definition fdt_del_last_string :: "mem \<Rightarrow> addr \<Rightarrow> bytes \<Rightarrow> mem" where
  "fdt_del_last_string m a s =
     fdt_set_size_dt_strings m a (wrap32 (fdt_size_dt_strings m a - (int (length s) + 1)))"

definition fdt_splice_string :: "mem \<Rightarrow> addr \<Rightarrow> int \<Rightarrow> mem \<times> int" where
  "fdt_splice_string m a newlen =
     (let p = a + word_of_int (fdt_off_dt_strings m a) + word_of_int (fdt_size_dt_strings m a) in
      case fdt_splice m a p 0 newlen of
        (m, err) \<Rightarrow>
          if err \<noteq> 0 then (m, err)
          else (fdt_set_size_dt_strings m a (wrap32 (fdt_size_dt_strings m a + newlen)), 0))"

subsection \<open>The strings block\<close>

text \<open>The loop of \<open>fdt_find_string_len_\<close>, from offset \<open>i\<close> of the table; the result is the
  offset of the string. \<open>i\<close> runs up to \<open>tabsize - (slen + 1)\<close>.\<close>

function fdt_find_string_len :: "mem \<Rightarrow> addr \<Rightarrow> int \<Rightarrow> bytes \<Rightarrow> int \<Rightarrow> int option" where
  "fdt_find_string_len m strtab tabsize s i =
     (if i > tabsize - (int (length s) + 1) then None
      else if memcmp_lit m (strtab + word_of_int i) s \<and>
              m (strtab + word_of_int (i + int (length s))) = 0
      then Some i
      else fdt_find_string_len m strtab tabsize s (i + 1))"
  by pat_completeness auto
termination
  by (relation "measure (\<lambda>(m, strtab, tabsize, s, i). nat (tabsize + 1 - i))") auto

declare fdt_find_string_len.simps [simp del]

text \<open>The memory, the offset of the string (or the error) and whether it was added.\<close>

definition fdt_find_add_string :: "mem \<Rightarrow> addr \<Rightarrow> bytes \<Rightarrow> mem \<times> int \<times> bool" where
  "fdt_find_add_string m a s =
     (let strtab = a + word_of_int (fdt_off_dt_strings m a);
          new = strtab + word_of_int (fdt_size_dt_strings m a)
      in case fdt_find_string_len m strtab (to_int32 (fdt_size_dt_strings m a)) s 0 of
           Some off \<Rightarrow> (m, off, False)
         | None \<Rightarrow>
             (case fdt_splice_string m a (int (length s) + 1) of
                (m, err) \<Rightarrow>
                  if err \<noteq> 0 then (m, err, False)
                  else (write_bytes m new (s @ [0]), uint (new - strtab), True)))"

subsection \<open>Properties\<close>

definition fdt_get_property_namelen_w :: "mem \<Rightarrow> addr \<Rightarrow> int \<Rightarrow> bytes \<Rightarrow> addr option \<times> int" where
  "fdt_get_property_namelen_w m a nodeoffset name =
     (if fdt_version m a < 16 then (None, - FDT_ERR_BADVERSION)
      else case fdt_get_property_namelen m a nodeoffset name of (p, len, _) \<Rightarrow> (p, len))"

text \<open>The property (when there is one) and the result.\<close>

definition fdt_resize_property :: "mem \<Rightarrow> addr \<Rightarrow> int \<Rightarrow> bytes \<Rightarrow> int \<Rightarrow> mem \<times> addr \<times> int" where
  "fdt_resize_property m a nodeoffset name len =
     (case fdt_get_property_namelen_w m a nodeoffset name of
        (None, oldlen) \<Rightarrow> (m, 0, oldlen)
      | (Some pp, oldlen) \<Rightarrow>
          (case fdt_splice_struct m a (pp + 12) (FDT_TAGALIGN oldlen) (FDT_TAGALIGN len) of
             (m, err) \<Rightarrow> if err \<noteq> 0 then (m, pp, err) else (set_be32 m (pp + 4) len, pp, 0)))"

definition fdt_add_property :: "mem \<Rightarrow> addr \<Rightarrow> int \<Rightarrow> bytes \<Rightarrow> int \<Rightarrow> mem \<times> addr \<times> int" where
  "fdt_add_property m a nodeoffset name len =
     (let nextoffset = fdt_check_node_offset m a nodeoffset in
      if nextoffset < 0 then (m, 0, nextoffset)
      else case fdt_find_add_string m a name of
        (m, namestroff, allocated) \<Rightarrow>
          if namestroff < 0 then (m, 0, namestroff)
          else let pp = fdt_offset_addr m a nextoffset;
                   proplen = 12 + FDT_TAGALIGN len
               in case fdt_splice_struct m a pp 0 proplen of
                    (m, err) \<Rightarrow>
                      if err \<noteq> 0
                      then (if allocated then fdt_del_last_string m a name else m, pp, err)
                      else let m = set_be32 m pp FDT_PROP;
                               m = set_be32 m (pp + 8) namestroff;
                               m = set_be32 m (pp + 4) len
                           in (m, pp, 0))"

definition fdt_setprop_placeholder :: "mem \<Rightarrow> addr \<Rightarrow> int \<Rightarrow> bytes \<Rightarrow> int \<Rightarrow> mem \<times> addr \<times> int" where
  "fdt_setprop_placeholder m a nodeoffset name len =
     (case fdt_rw_probe m a of
        (m, perr) \<Rightarrow>
          if perr \<noteq> 0 then (m, 0, perr)
          else case fdt_resize_property m a nodeoffset name len of
            (m, pp, err) \<Rightarrow>
              (case (if err = - FDT_ERR_NOTFOUND then fdt_add_property m a nodeoffset name len
                     else (m, pp, err)) of
                 (m, pp, err) \<Rightarrow> if err \<noteq> 0 then (m, 0, err) else (m, pp + 12, 0)))"

definition fdt_setprop :: "mem \<Rightarrow> addr \<Rightarrow> int \<Rightarrow> bytes \<Rightarrow> (mem \<Rightarrow> bytes) \<Rightarrow> int \<Rightarrow> mem \<times> int" where
  "fdt_setprop m a nodeoffset name val len =
     (case fdt_setprop_placeholder m a nodeoffset name len of
        (m, prop_data, err) \<Rightarrow>
          if err \<noteq> 0 then (m, err)
          else (if len \<noteq> 0 then write_bytes m prop_data (val m) else m, 0))"

definition fdt_setprop_u32 :: "mem \<Rightarrow> addr \<Rightarrow> int \<Rightarrow> string \<Rightarrow> u32 \<Rightarrow> mem \<times> int" where
  "fdt_setprop_u32 m a nodeoffset name val =
     fdt_setprop m a nodeoffset (cstr name) (\<lambda>m. be32_bytes (uint val)) 4"

definition fdt_setprop_string :: "mem \<Rightarrow> addr \<Rightarrow> int \<Rightarrow> string \<Rightarrow> addr \<Rightarrow> mem \<times> int" where
  "fdt_setprop_string m a nodeoffset name str =
     (let len = strlen m str + 1 in
      fdt_setprop m a nodeoffset (cstr name) (\<lambda>m. read_bytes m str len) (int len))"

subsection \<open>Nodes\<close>

text \<open>The \<open>do .. while\<close> that skips the properties of the parent: the offset of the first tag
  that is neither a property nor a no-op.\<close>

function fdt_skip_props :: "mem \<Rightarrow> addr \<Rightarrow> int \<Rightarrow> int" where
  "fdt_skip_props m a offset =
     (let (tag, nextoffset) = fdt_next_tag m a offset in
      if tag = FDT_PROP \<or> tag = FDT_NOP then fdt_skip_props m a nextoffset else offset)"
  by pat_completeness auto
termination
  by (relation "measure (\<lambda>(m, a, offset). nat (2147483648 - offset))")
    (auto dest!: fdt_next_tag_step [OF sym])

declare fdt_skip_props.simps [simp del]

text \<open>A node header: the begin tag, the name padded with zeros, the end tag.\<close>

definition fdt_node_bytes :: "bytes \<Rightarrow> bytes" where
  "fdt_node_bytes name =
     be32_bytes FDT_BEGIN_NODE @ name @
     replicate (nat (FDT_TAGALIGN (int (length name) + 1)) - length name) 0 @
     be32_bytes FDT_END_NODE"

definition fdt_add_subnode :: "mem \<Rightarrow> addr \<Rightarrow> int \<Rightarrow> bytes \<Rightarrow> mem \<times> int" where
  "fdt_add_subnode m a parentoffset name =
     (case fdt_rw_probe m a of
        (m, perr) \<Rightarrow>
          if perr \<noteq> 0 then (m, perr)
          else let offset = fdt_subnode_offset_namelen m a parentoffset name in
          if offset \<ge> 0 then (m, - FDT_ERR_EXISTS)
          else if offset \<noteq> - FDT_ERR_NOTFOUND then (m, offset)
          else case fdt_next_tag m a parentoffset of
            (tag, nextoffset) \<Rightarrow>
              if tag \<noteq> FDT_BEGIN_NODE then (m, - FDT_ERR_INTERNAL)
              else let offset = fdt_skip_props m a nextoffset;
                       nh = fdt_offset_addr m a offset;
                       nodelen = 4 + FDT_TAGALIGN (int (length name) + 1) + 4
                   in case fdt_splice_struct m a nh 0 nodelen of
                        (m, err) \<Rightarrow>
                          if err \<noteq> 0 then (m, err)
                          else (write_bytes m nh (fdt_node_bytes name), offset))"

subsection \<open>Expanding a blob\<close>

text \<open>
  \<open>fdt_mem_rsv\<close>: entry \<open>n\<close> of the reservation map. \<open>fdt_totalsize(fdt) - 16\<close> is computed
  in \<open>size_t\<close>, so a total size below 16 makes the bound huge.
\<close>

definition fdt_mem_rsv :: "mem \<Rightarrow> addr \<Rightarrow> int \<Rightarrow> addr option" where
  "fdt_mem_rsv m a n =
     (let offset = wrap32 (n * 16);
          absoffset = wrap32 (fdt_off_mem_rsvmap m a + offset)
      in if absoffset < fdt_off_mem_rsvmap m a then None
         else if absoffset > (fdt_totalsize m a - 16) mod 18446744073709551616 then None
         else Some (a + word_of_int (fdt_off_mem_rsvmap m a) + word_of_int (n * 16)))"

text \<open>
  The loop of \<open>fdt_num_mem_rsv\<close>. The 32-bit offset of entry \<open>2 ^ 28\<close> is that of entry 0
  again, so a map without an end (possible only in a blob of less than 16 bytes) would be
  read forever; the recursion gives up there.
\<close>

function fdt_num_mem_rsv_from :: "mem \<Rightarrow> addr \<Rightarrow> int \<Rightarrow> int" where
  "fdt_num_mem_rsv_from m a i =
     (if i \<ge> 268435456 then - FDT_ERR_TRUNCATED
      else case fdt_mem_rsv m a i of
        None \<Rightarrow> - FDT_ERR_TRUNCATED
      | Some re \<Rightarrow>
          if be32 m (re + 8) = 0 \<and> be32 m (re + 12) = 0 then i
          else fdt_num_mem_rsv_from m a (i + 1))"
  by pat_completeness auto
termination
  by (relation "measure (\<lambda>(m, a, i). nat (268435456 - i))") auto

declare fdt_num_mem_rsv_from.simps [simp del]

definition fdt_num_mem_rsv :: "mem \<Rightarrow> addr \<Rightarrow> int" where
  "fdt_num_mem_rsv m a = fdt_num_mem_rsv_from m a 0"

text \<open>The \<open>size_t\<close> a C \<open>int\<close> length becomes.\<close>

definition to_size :: "int \<Rightarrow> nat" where
  "to_size n = nat (n mod 18446744073709551616)"

definition fdt_move :: "mem \<Rightarrow> addr \<Rightarrow> addr \<Rightarrow> int \<Rightarrow> mem \<times> int" where
  "fdt_move m a buf bufsize =
     (if bufsize < 0 then (m, - FDT_ERR_NOSPACE)
      else if fdt_ro_probe m a < 0 then (m, fdt_ro_probe m a)
      else if fdt_totalsize m a > bufsize then (m, - FDT_ERR_NOSPACE)
      else (memmove m buf a (nat (fdt_totalsize m a)), 0))"

definition fdt_packblocks :: "mem \<Rightarrow> addr \<Rightarrow> addr \<Rightarrow> int \<Rightarrow> int \<Rightarrow> int \<Rightarrow> mem" where
  "fdt_packblocks m old new mem_rsv_size struct_size strings_size =
     (let mem_rsv_off = 40;
          struct_off = mem_rsv_off + mem_rsv_size;
          strings_off = struct_off + struct_size;
          m = memmove m (new + word_of_int mem_rsv_off)
                (old + word_of_int (fdt_off_mem_rsvmap m old)) (to_size mem_rsv_size);
          m = fdt_set_off_mem_rsvmap m new mem_rsv_off;
          m = memmove m (new + word_of_int struct_off)
                (old + word_of_int (fdt_off_dt_struct m old)) (to_size struct_size);
          m = fdt_set_off_dt_struct m new (wrap32 struct_off);
          m = fdt_set_size_dt_struct m new (wrap32 struct_size);
          m = memmove m (new + word_of_int strings_off)
                (old + word_of_int (fdt_off_dt_strings m old)) (to_size strings_size);
          m = fdt_set_off_dt_strings m new (wrap32 strings_off)
      in fdt_set_size_dt_strings m new (fdt_size_dt_strings m old))"

text \<open>The loop that measures the structure block of a version 16 blob.\<close>

function fdt_struct_size_v16 :: "mem \<Rightarrow> addr \<Rightarrow> int \<Rightarrow> int" where
  "fdt_struct_size_v16 m a struct_size =
     (let (tag, nextoffset) = fdt_next_tag m a struct_size in
      if tag \<noteq> FDT_END then fdt_struct_size_v16 m a nextoffset else nextoffset)"
  by pat_completeness auto
termination
  by (relation "measure (\<lambda>(m, a, offset). nat (2147483648 - offset))")
    (auto dest!: fdt_next_tag_step [OF sym])

declare fdt_struct_size_v16.simps [simp del]

definition fdt_open_into_sized :: "mem \<Rightarrow> addr \<Rightarrow> addr \<Rightarrow> int \<Rightarrow> int \<Rightarrow> int \<Rightarrow> mem \<times> int" where
  "fdt_open_into_sized m a buf bufsize mem_rsv_size struct_size =
     (if \<not> fdt_blocks_misordered m a mem_rsv_size struct_size then
        (case fdt_move m a buf bufsize of
           (m, err) \<Rightarrow>
             if err \<noteq> 0 then (m, err)
             else let m = fdt_set_version m buf 17;
                      m = fdt_set_size_dt_struct m buf (wrap32 struct_size)
                  in (fdt_set_totalsize m buf (wrap32 bufsize), 0))
      else
        let newsize = to_int32 (40 + mem_rsv_size + struct_size + fdt_size_dt_strings m a);
            fdtend = a + word_of_int (fdt_totalsize m a);
            overlaps = (buf + word_of_int newsize > a \<and> buf < fdtend);
            tmp = (if overlaps then fdtend else buf)
        in if bufsize < newsize then (m, - FDT_ERR_NOSPACE)
           else if overlaps \<and> tmp + word_of_int newsize > buf + word_of_int bufsize
           then (m, - FDT_ERR_NOSPACE)
           else let m' = fdt_packblocks m a tmp mem_rsv_size struct_size (fdt_size_dt_strings m a);
                    m' = memmove m' buf tmp (to_size newsize);
                    m' = fdt_set_magic m' buf FDT_MAGIC;
                    m' = fdt_set_totalsize m' buf (wrap32 bufsize);
                    m' = fdt_set_version m' buf 17;
                    m' = fdt_set_last_comp_version m' buf 16
                in (fdt_set_boot_cpuid_phys m' buf (fdt_boot_cpuid_phys m' a), 0))"

definition fdt_open_into :: "mem \<Rightarrow> addr \<Rightarrow> addr \<Rightarrow> int \<Rightarrow> mem \<times> int" where
  "fdt_open_into m a buf bufsize =
     (if fdt_ro_probe m a < 0 then (m, fdt_ro_probe m a)
      else let mem_rsv_size = to_int32 ((fdt_num_mem_rsv m a + 1) * 16) in
      if fdt_version m a \<ge> 17
      then fdt_open_into_sized m a buf bufsize mem_rsv_size (to_int32 (fdt_size_dt_struct m a))
      else if fdt_version m a = 16
      then let struct_size = fdt_struct_size_v16 m a 0
           in if struct_size < 0 then (m, struct_size)
              else fdt_open_into_sized m a buf bufsize mem_rsv_size struct_size
      else (m, - FDT_ERR_BADVERSION))"

end
