(* ===== verification/Libfdt_Rw_Facts.thy ===== *)
theory Libfdt_Rw_Facts
  imports Libfdt_Facts Libfdt_Rw
begin

text \<open>
  The frame of the read-write libfdt: on a blob whose blocks are laid out in order inside its
  total size, \<open>fdt_setprop\<close> and \<open>fdt_add_subnode\<close> change no byte outside the blob and keep
  the layout, whatever they return; \<open>fdt_open_into\<close> establishes the layout in its buffer
  and changes no byte outside it.
\<close>

subsection \<open>Changes relative to a base\<close>

text \<open>\<open>m'\<close> differs from \<open>m\<close> only at offsets \<open>lo .. hi - 1\<close> from \<open>a\<close>.\<close>

definition chg :: "addr \<Rightarrow> int \<Rightarrow> int \<Rightarrow> mem \<Rightarrow> mem \<Rightarrow> bool" where
  "chg a lo hi m m' \<longleftrightarrow> (\<forall>x. \<not> (lo \<le> uint (x - a) \<and> uint (x - a) < hi) \<longrightarrow> m' x = m x)"

lemma chg_refl [simp]: "chg a lo hi m m"
  by (simp add: chg_def)

lemma chg_trans: "chg a lo hi m m' \<Longrightarrow> chg a lo hi m' m'' \<Longrightarrow> chg a lo hi m m''"
  by (auto simp: chg_def)

lemma chg_mono: "chg a lo hi m m' \<Longrightarrow> lo' \<le> lo \<Longrightarrow> hi \<le> hi' \<Longrightarrow> chg a lo' hi' m m'"
  by (fastforce simp: chg_def)

lemma uint_u64_add_small:
  assumes "0 \<le> k" and "uint (x :: u64) + k < 18446744073709551616"
  shows "uint (x + word_of_int k) = uint x + k"
proof -
  have "uint (word_of_int k :: u64) = k"
    by (rule uint_word_of_int_u64) (use assms uint_ge_0 [of x] in linarith)+
  with assms show ?thesis by (simp add: uint_word_ariths)
qed

lemma uint_offset: "0 \<le> k \<Longrightarrow> k < 18446744073709551616 \<Longrightarrow> uint (a + word_of_int k - a :: u64) = k"
  by (simp add: uint_word_of_int_u64)

text \<open>A byte at distance \<open>d\<close> behind offset \<open>k\<close> is at offset \<open>k + d\<close>.\<close>

lemma uint_from_offset:
  assumes "unat (x - (a + word_of_int k)) < n" and "0 \<le> k" and "k + int n \<le> 18446744073709551616"
  shows "k \<le> uint (x - a :: u64) \<and> uint (x - a) < k + int n"
proof -
  let ?d = "x - (a + word_of_int k)"
  have d: "uint ?d < int n" using assms(1) by (simp only: unat_less_iff_uint)
  have eq: "x - a = ?d + word_of_int k" by simp
  have "uint (?d + word_of_int k) = uint ?d + k"
    by (rule uint_u64_add_small) (use d assms in auto)
  then have "uint (x - a) = uint ?d + k" by (simp only: eq)
  with d show ?thesis by simp
qed

lemma chg_write_bytes:
  assumes "0 \<le> k" and "k + int (length bs) \<le> 18446744073709551616"
  shows "chg a k (k + int (length bs)) m (write_bytes m (a + word_of_int k) bs)"
  using uint_from_offset [of _ a k "length bs"] assms
  by (fastforce simp: chg_def write_bytes_def Let_def)

lemma copy_forward_outside:
  "n \<le> 18446744073709551616 \<Longrightarrow> \<not> in_range_of d n x \<Longrightarrow> copy_forward m d s n x = m x"
proof (induction n arbitrary: m d s)
  case 0
  show ?case by (simp add: copy_forward.simps)
next
  case (Suc n)
  have "\<not> in_range_of (d + 1) n x"
    using Suc.prems in_range_of_Suc [of d n x] by auto
  moreover have "x \<noteq> d" using Suc.prems by (auto simp: in_range_of_def)
  ultimately show ?case
    using Suc.IH [of "d + 1"] Suc.prems(1) by (subst copy_forward.simps) simp
qed

lemma copy_backward_outside:
  "n \<le> 18446744073709551616 \<Longrightarrow> \<not> in_range_of d n x \<Longrightarrow>
   copy_backward m (d + of_nat n) s n x = m x"
proof (induction n arbitrary: m s)
  case 0
  show ?case by (simp add: copy_backward.simps)
next
  case (Suc n)
  have "x \<noteq> d + of_nat n"
    using Suc.prems in_range_of_add [of n "Suc n" d] by auto
  moreover have "\<not> in_range_of d n x" using Suc.prems by (auto simp: in_range_of_def)
  ultimately show ?case
    using Suc.IH Suc.prems(1) by (subst copy_backward.simps) (simp add: algebra_simps)
qed

lemma chg_memmove:
  assumes "0 \<le> k" and "k + int n \<le> 18446744073709551616"
  shows "chg a k (k + int n) m (memmove m (a + word_of_int k) src n)"
proof -
  have out: "\<not> in_range_of (a + word_of_int k) n x"
    if "\<not> (k \<le> uint (x - a) \<and> uint (x - a) < k + int n)" for x
    using uint_from_offset [of x a k n] assms that by (auto simp: in_range_of_def)
  have n: "n \<le> 18446744073709551616" using assms by simp
  show ?thesis
    unfolding chg_def memmove_def
    using copy_forward_outside [OF n out] copy_backward_outside [OF n out] by auto
qed

text \<open>A 32-bit field outside the changed range keeps its value.\<close>

lemma be32_chg:
  assumes "chg a lo hi m m'" and "0 \<le> k" and "k + 4 \<le> lo \<or> hi \<le> k" and "k + 4 \<le> 18446744073709551616"
  shows "be32 m' (a + word_of_int k) = be32 m (a + word_of_int k)"
proof -
  have "m' (a + word_of_int k + word_of_int i) = m (a + word_of_int k + word_of_int i)"
    if "0 \<le> i" "i < 4" for i
  proof -
    have "a + word_of_int k + word_of_int i = a + word_of_int (k + i)" by simp
    moreover have "uint (a + word_of_int (k + i) - a) = k + i"
      using assms that by (intro uint_offset) auto
    ultimately show ?thesis using assms that by (auto simp: chg_def)
  qed
  from this [of 0] this [of 1] this [of 2] this [of 3] show ?thesis
    by (simp add: be32_def)
qed

lemma be32_bytes_value: "read_bytes m p 4 = be32_bytes v \<Longrightarrow> be32 m p = wrap32 v"
proof -
  assume r: "read_bytes m p 4 = be32_bytes v"
  have n: "m (p + of_nat i) = be32_bytes v ! i" if "i < 4" for i
    using that arg_cong [OF r, of "\<lambda>l. l ! i"] by simp
  from n [of 0] n [of 1] n [of 2] n [of 3]
  have b: "uint (m p) = v div 16777216 mod 256" "uint (m (p + 1)) = v div 65536 mod 256"
    "uint (m (p + 2)) = v div 256 mod 256" "uint (m (p + 3)) = v mod 256"
    by (simp_all add: be32_bytes_def unsigned_of_int take_bit_eq_mod)
  have n: "(4294967296 :: int) = 16777216 * 256" "(16777216 :: int) = 65536 * 256"
      "(65536 :: int) = 256 * 256"
    by simp_all
  have e1: "v mod 4294967296 = 16777216 * (v div 16777216 mod 256) + v mod 16777216"
    by (subst n(1), rule zmod_zmult2_eq) simp
  have e2: "v mod 16777216 = 65536 * (v div 65536 mod 256) + v mod 65536"
    by (subst n(2), rule zmod_zmult2_eq) simp
  have e3: "v mod 65536 = 256 * (v div 256 mod 256) + v mod 256"
    by (subst n(3), rule zmod_zmult2_eq) simp
  show ?thesis
    unfolding be32_def b wrap32_def e1 e2 e3 by (simp only: ac_simps)
qed

lemma be32_set_be32: "be32 (set_be32 m p v) p = wrap32 v"
  by (rule be32_bytes_value) (simp add: set_be32_def be32_bytes_def read_write_same)

lemma chg_set_be32:
  "0 \<le> k \<Longrightarrow> k + 4 \<le> 18446744073709551616 \<Longrightarrow>
   chg a k (k + 4) m (set_be32 m (a + word_of_int k) v)"
  using chg_write_bytes [of k "be32_bytes v" a m] by (simp add: set_be32_def be32_bytes_def)

subsection \<open>The layout of a blob\<close>

definition fdt_layout :: "mem \<Rightarrow> addr \<Rightarrow> int \<Rightarrow> bool" where
  "fdt_layout m a T \<longleftrightarrow>
     fdt_totalsize m a = T \<and> T < 2147483648 \<and> 56 \<le> fdt_off_dt_struct m a \<and>
     fdt_off_dt_struct m a + fdt_size_dt_struct m a \<le> fdt_off_dt_strings m a \<and>
     fdt_off_dt_strings m a + fdt_size_dt_strings m a \<le> T"

text \<open>What every operation keeps: the layout, and the memory outside the blob.\<close>

definition fdt_keeps :: "addr \<Rightarrow> int \<Rightarrow> mem \<Rightarrow> mem \<Rightarrow> bool" where
  "fdt_keeps a T m m' \<longleftrightarrow> fdt_layout m' a T \<and> chg a 0 T m m'"

lemma fdt_keeps_trans: "fdt_keeps a T m m' \<Longrightarrow> fdt_keeps a T m' m'' \<Longrightarrow> fdt_keeps a T m m''"
  by (auto simp: fdt_keeps_def intro: chg_trans)

lemma fdt_keeps_refl: "fdt_layout m a T \<Longrightarrow> fdt_keeps a T m m"
  by (simp add: fdt_keeps_def)

lemma header_chg:
  assumes "chg a 40 hi m m'"
  shows "fdt_totalsize m' a = fdt_totalsize m a" "fdt_off_dt_struct m' a = fdt_off_dt_struct m a"
    "fdt_off_dt_strings m' a = fdt_off_dt_strings m a"
    "fdt_size_dt_strings m' a = fdt_size_dt_strings m a"
    "fdt_size_dt_struct m' a = fdt_size_dt_struct m a"
  using be32_chg [OF assms, of 4] be32_chg [OF assms, of 8] be32_chg [OF assms, of 12]
    be32_chg [OF assms, of 32] be32_chg [OF assms, of 36]
  by (simp_all add: fdt_totalsize_def fdt_off_dt_struct_def fdt_off_dt_strings_def
      fdt_size_dt_strings_def fdt_size_dt_struct_def)

lemma fdt_layout_chg:
  "fdt_layout m a T \<Longrightarrow> chg a 40 T m m' \<Longrightarrow> fdt_keeps a T m m'"
  by (auto simp: fdt_layout_def fdt_keeps_def header_chg intro: chg_mono)

lemma set_size_struct_fields:
  "fdt_totalsize (fdt_set_size_dt_struct m a v) a = fdt_totalsize m a"
  "fdt_off_dt_struct (fdt_set_size_dt_struct m a v) a = fdt_off_dt_struct m a"
  "fdt_off_dt_strings (fdt_set_size_dt_struct m a v) a = fdt_off_dt_strings m a"
  "fdt_size_dt_strings (fdt_set_size_dt_struct m a v) a = fdt_size_dt_strings m a"
  "fdt_size_dt_struct (fdt_set_size_dt_struct m a v) a = wrap32 v"
  "chg a 36 40 m (fdt_set_size_dt_struct m a v)"
proof -
  have c: "chg a 36 40 m (set_be32 m (a + 36) v)" using chg_set_be32 [of 36 a m v] by simp
  from be32_chg [OF c, of 4] be32_chg [OF c, of 8] be32_chg [OF c, of 12] be32_chg [OF c, of 32]
    c be32_set_be32 [of m "a + 36" v]
  show "fdt_totalsize (fdt_set_size_dt_struct m a v) a = fdt_totalsize m a"
    "fdt_off_dt_struct (fdt_set_size_dt_struct m a v) a = fdt_off_dt_struct m a"
    "fdt_off_dt_strings (fdt_set_size_dt_struct m a v) a = fdt_off_dt_strings m a"
    "fdt_size_dt_strings (fdt_set_size_dt_struct m a v) a = fdt_size_dt_strings m a"
    "fdt_size_dt_struct (fdt_set_size_dt_struct m a v) a = wrap32 v"
    "chg a 36 40 m (fdt_set_size_dt_struct m a v)"
    by (simp_all add: fdt_totalsize_def fdt_off_dt_struct_def fdt_off_dt_strings_def
        fdt_size_dt_strings_def fdt_size_dt_struct_def fdt_set_size_dt_struct_def)
qed

lemma set_off_strings_fields:
  "fdt_totalsize (fdt_set_off_dt_strings m a v) a = fdt_totalsize m a"
  "fdt_off_dt_struct (fdt_set_off_dt_strings m a v) a = fdt_off_dt_struct m a"
  "fdt_off_dt_strings (fdt_set_off_dt_strings m a v) a = wrap32 v"
  "fdt_size_dt_strings (fdt_set_off_dt_strings m a v) a = fdt_size_dt_strings m a"
  "fdt_size_dt_struct (fdt_set_off_dt_strings m a v) a = fdt_size_dt_struct m a"
  "chg a 12 16 m (fdt_set_off_dt_strings m a v)"
proof -
  have c: "chg a 12 16 m (set_be32 m (a + 12) v)" using chg_set_be32 [of 12 a m v] by simp
  from be32_chg [OF c, of 4] be32_chg [OF c, of 8] be32_chg [OF c, of 36] be32_chg [OF c, of 32]
    c be32_set_be32 [of m "a + 12" v]
  show "fdt_totalsize (fdt_set_off_dt_strings m a v) a = fdt_totalsize m a"
    "fdt_off_dt_struct (fdt_set_off_dt_strings m a v) a = fdt_off_dt_struct m a"
    "fdt_off_dt_strings (fdt_set_off_dt_strings m a v) a = wrap32 v"
    "fdt_size_dt_strings (fdt_set_off_dt_strings m a v) a = fdt_size_dt_strings m a"
    "fdt_size_dt_struct (fdt_set_off_dt_strings m a v) a = fdt_size_dt_struct m a"
    "chg a 12 16 m (fdt_set_off_dt_strings m a v)"
    by (simp_all add: fdt_totalsize_def fdt_off_dt_struct_def fdt_off_dt_strings_def
        fdt_size_dt_strings_def fdt_size_dt_struct_def fdt_set_off_dt_strings_def)
qed

lemma set_size_strings_fields:
  "fdt_totalsize (fdt_set_size_dt_strings m a v) a = fdt_totalsize m a"
  "fdt_off_dt_struct (fdt_set_size_dt_strings m a v) a = fdt_off_dt_struct m a"
  "fdt_off_dt_strings (fdt_set_size_dt_strings m a v) a = fdt_off_dt_strings m a"
  "fdt_size_dt_strings (fdt_set_size_dt_strings m a v) a = wrap32 v"
  "fdt_size_dt_struct (fdt_set_size_dt_strings m a v) a = fdt_size_dt_struct m a"
  "chg a 32 36 m (fdt_set_size_dt_strings m a v)"
proof -
  have c: "chg a 32 36 m (set_be32 m (a + 32) v)" using chg_set_be32 [of 32 a m v] by simp
  from be32_chg [OF c, of 4] be32_chg [OF c, of 8] be32_chg [OF c, of 36] be32_chg [OF c, of 12]
    c be32_set_be32 [of m "a + 32" v]
  show "fdt_totalsize (fdt_set_size_dt_strings m a v) a = fdt_totalsize m a"
    "fdt_off_dt_struct (fdt_set_size_dt_strings m a v) a = fdt_off_dt_struct m a"
    "fdt_off_dt_strings (fdt_set_size_dt_strings m a v) a = fdt_off_dt_strings m a"
    "fdt_size_dt_strings (fdt_set_size_dt_strings m a v) a = wrap32 v"
    "fdt_size_dt_struct (fdt_set_size_dt_strings m a v) a = fdt_size_dt_struct m a"
    "chg a 32 36 m (fdt_set_size_dt_strings m a v)"
    by (simp_all add: fdt_totalsize_def fdt_off_dt_struct_def fdt_off_dt_strings_def
        fdt_size_dt_strings_def fdt_size_dt_struct_def fdt_set_size_dt_strings_def)
qed

subsection \<open>Splicing\<close>

lemma fdt_data_size_layout:
  "fdt_layout m a T \<Longrightarrow> fdt_data_size m a = fdt_off_dt_strings m a + fdt_size_dt_strings m a"
  by (simp add: fdt_data_size_def fdt_layout_def wrap32_id)

text \<open>A splice that succeeds moves the tail of the data, from the splice point on; it never
  writes before the splice point or behind the total size.\<close>

lemma fdt_splice_ok:
  assumes lay: "fdt_layout m a T" and new: "0 \<le> newlen" "newlen < 2147483648"
    and sp: "fdt_splice m a p oldlen newlen = (m', e)"
  defines "s \<equiv> uint (p - a)" and "d \<equiv> fdt_data_size m a"
  shows "e \<noteq> 0 \<Longrightarrow> m' = m"
    and "e = 0 \<Longrightarrow> 0 \<le> oldlen \<and> s + oldlen \<le> d \<and> d - oldlen + newlen \<le> T \<and> chg a s T m m'"
proof -
  from sp show "e \<noteq> 0 \<Longrightarrow> m' = m"
    by (auto simp: fdt_splice_def Let_def split: if_splits)
  assume e: "e = 0"
  have T: "fdt_totalsize m a = T" "T < 2147483648" "d \<le> T" "0 \<le> d"
    using lay fdt_data_size_layout [OF lay] by (auto simp: fdt_layout_def d_def)
  from sp e have c: "0 \<le> oldlen" "s + oldlen \<le> d" "oldlen \<le> wrap32 (d + newlen)"
      "wrap32 (d - oldlen + newlen) \<le> fdt_totalsize m a"
    and m': "m' = memmove m (p + word_of_int newlen) (p + word_of_int oldlen) (nat (d - (s + oldlen)))"
    by (auto simp: fdt_splice_def Let_def s_def d_def split: if_splits)
  have s: "0 \<le> s" by (simp add: s_def)
  have "wrap32 (d - oldlen + newlen) = d - oldlen + newlen"
    by (rule wrap32_id) (use T c s new in linarith)+
  with c T have le: "d - oldlen + newlen \<le> T" by simp
  have p: "p + word_of_int newlen = a + word_of_int (s + newlen)"
    by (simp add: s_def)
  have "chg a (s + newlen) (s + newlen + int (nat (d - (s + oldlen)))) m m'"
    unfolding m' p by (rule chg_memmove) (use s new c T le in auto)
  then have "chg a s T m m'"
    by (rule chg_mono) (use new c le in auto)
  with c le show "0 \<le> oldlen \<and> s + oldlen \<le> d \<and> d - oldlen + newlen \<le> T \<and> chg a s T m m'" by simp
qed

lemma fdt_splice_struct_ok:
  assumes lay: "fdt_layout m a T" and new: "0 \<le> newlen" "newlen < 2147483648"
    and s: "56 \<le> uint (p - a)"
    and size: "oldlen \<le> fdt_size_dt_struct m a + newlen"
    and sp: "fdt_splice_struct m a p oldlen newlen = (m', e)"
  shows "fdt_keeps a T m m'"
    and "e = 0 \<Longrightarrow> uint (p - a) + newlen \<le> T \<and> fdt_off_dt_struct m' a = fdt_off_dt_struct m a"
proof -
  obtain m1 e1 where s1: "fdt_splice m a p oldlen newlen = (m1, e1)" by fastforce
  note ok = fdt_splice_ok [OF lay new s1]
  let ?delta = "newlen - oldlen"
  let ?m2 = "fdt_set_size_dt_struct m1 a (wrap32 (fdt_size_dt_struct m1 a + ?delta))"
  let ?m3 = "fdt_set_off_dt_strings ?m2 a (wrap32 (fdt_off_dt_strings ?m2 a + ?delta))"
  have "fdt_keeps a T m m' \<and> (e = 0 \<longrightarrow> uint (p - a) + newlen \<le> T
      \<and> fdt_off_dt_struct m' a = fdt_off_dt_struct m a)"
  proof (cases "e1 = 0")
    case False
    with sp s1 ok(1) have "m' = m" "e \<noteq> 0"
      by (auto simp: fdt_splice_struct_def Let_def)
    then show ?thesis using lay by (simp add: fdt_keeps_refl)
  next
    case True
    with sp s1 have m': "m' = ?m3" "e = 0"
      by (auto simp: fdt_splice_struct_def Let_def)
    have c: "0 \<le> oldlen" "uint (p - a) + oldlen \<le> fdt_data_size m a"
        "fdt_data_size m a - oldlen + newlen \<le> T" "chg a (uint (p - a)) T m m1"
      using ok(2) [OF True] by auto
    have "chg a 40 T m m1" using c(4) by (rule chg_mono) (use s in auto)
    note h = header_chg [OF this]
    note l = lay [unfolded fdt_layout_def] fdt_data_size_layout [OF lay]
    have "0 \<le> fdt_size_dt_strings m a" "0 \<le> fdt_size_dt_struct m a" by simp_all
    note l = l this
    have w1: "wrap32 (fdt_size_dt_struct m a + ?delta) = fdt_size_dt_struct m a + ?delta"
      by (rule wrap32_id) (use l c size new in linarith)+
    have w2: "wrap32 (fdt_off_dt_strings m a + ?delta) = fdt_off_dt_strings m a + ?delta"
      by (rule wrap32_id) (use l c size new in linarith)+
    note w = w1 w2
    have f: "fdt_totalsize ?m3 a = T" "fdt_off_dt_struct ?m3 a = fdt_off_dt_struct m a"
        "fdt_off_dt_strings ?m3 a = fdt_off_dt_strings m a + ?delta"
        "fdt_size_dt_strings ?m3 a = fdt_size_dt_strings m a"
        "fdt_size_dt_struct ?m3 a = fdt_size_dt_struct m a + ?delta"
      using l w by (simp_all add: set_size_struct_fields set_off_strings_fields h)
    have "fdt_layout ?m3 a T"
      unfolding fdt_layout_def f using l c size by auto
    moreover have "chg a 0 T m ?m3"
    proof (rule chg_trans [OF chg_trans])
      show "chg a 0 T m m1" using c(4) by (rule chg_mono) (use s in auto)
      have T: "40 \<le> T" using l s c by linarith
      show "chg a 0 T m1 ?m2" by (rule chg_mono [OF set_size_struct_fields(6)]) (use T in auto)
      show "chg a 0 T ?m2 ?m3" by (rule chg_mono [OF set_off_strings_fields(6)]) (use T in auto)
    qed
    ultimately show ?thesis
      using m' c f by (simp add: fdt_keeps_def)
  qed
  then show "fdt_keeps a T m m'"
    and "e = 0 \<Longrightarrow> uint (p - a) + newlen \<le> T \<and> fdt_off_dt_struct m' a = fdt_off_dt_struct m a"
    by auto
qed

subsection \<open>Strings and properties\<close>

lemma chg_at:
  assumes "chg a k (k + n) m m'" and "0 \<le> k" and "k + n \<le> T"
  shows "chg a 0 T m m'"
  by (rule chg_mono [OF assms(1)]) (use assms in auto)

text \<open>A write inside the blob and behind its header keeps the layout.\<close>

lemma fdt_keeps_write:
  assumes lay: "fdt_layout m a T" and k: "40 \<le> k" "k + int (length bs) \<le> T"
  shows "fdt_keeps a T m (write_bytes m (a + word_of_int k) bs)"
proof -
  have "chg a k (k + int (length bs)) m (write_bytes m (a + word_of_int k) bs)"
    by (rule chg_write_bytes) (use lay k in \<open>auto simp: fdt_layout_def\<close>)
  then show ?thesis
    using lay k by (intro fdt_layout_chg) (auto intro: chg_mono)
qed

lemma fdt_keeps_set_be32:
  "fdt_layout m a T \<Longrightarrow> 40 \<le> k \<Longrightarrow> k + 4 \<le> T \<Longrightarrow> fdt_keeps a T m (set_be32 m (a + word_of_int k) v)"
  unfolding set_be32_def by (rule fdt_keeps_write) (simp_all add: be32_bytes_def)

lemma fdt_keeps_layout: "fdt_keeps a T m m' \<Longrightarrow> fdt_layout m' a T"
  by (simp add: fdt_keeps_def)

lemma fdt_set_size_strings_keeps:
  assumes lay: "fdt_layout m a T" and v: "0 \<le> v" "fdt_off_dt_strings m a + v \<le> T"
  shows "fdt_keeps a T m (fdt_set_size_dt_strings m a v)"
proof -
  have "v \<le> T" using v fdt_header_bounds(3) [of m a] by linarith
  then have w: "wrap32 v = v" by (intro wrap32_id) (use lay v in \<open>auto simp: fdt_layout_def\<close>)
  have "56 \<le> fdt_off_dt_strings m a"
    using lay fdt_header_bounds(5) [of m a] unfolding fdt_layout_def by linarith
  with v have "40 \<le> T" by linarith
  then have "chg a 0 T m (fdt_set_size_dt_strings m a v)"
    by (intro chg_mono [OF set_size_strings_fields(6)]) simp_all
  with lay v w show ?thesis
    by (simp add: fdt_keeps_def fdt_layout_def set_size_strings_fields)
qed

lemma fdt_find_add_string_ok:
  assumes lay: "fdt_layout m a T" and s: "length s < 1073741824"
    and add: "fdt_find_add_string m a s = (m', off, allocated)"
  shows "fdt_keeps a T m m'" and "fdt_off_dt_struct m' a = fdt_off_dt_struct m a"
    and "allocated \<Longrightarrow> int (length s) + 1 \<le> fdt_size_dt_strings m' a"
proof -
  let ?strtab = "a + word_of_int (fdt_off_dt_strings m a) :: addr"
  let ?d = "fdt_off_dt_strings m a + fdt_size_dt_strings m a"
  let ?n = "int (length s) + 1"
  have d: "fdt_data_size m a = ?d" using lay by (rule fdt_data_size_layout)
  have size0: "0 \<le> fdt_size_dt_strings m a" "0 \<le> fdt_size_dt_struct m a" by simp_all
  note l = lay [unfolded fdt_layout_def] size0
  have d56: "56 \<le> ?d" "?d \<le> T" using l by linarith+
  have p: "?strtab + word_of_int (fdt_size_dt_strings m a) = a + word_of_int ?d" by simp
  have up: "uint (a + word_of_int ?d - a) = ?d"
    by (rule uint_offset) (use l d56 in linarith)+
  have "fdt_keeps a T m m' \<and> fdt_off_dt_struct m' a = fdt_off_dt_struct m a \<and>
      (allocated \<longrightarrow> ?n \<le> fdt_size_dt_strings m' a)"
  proof (cases "fdt_find_string_len m ?strtab (to_int32 (fdt_size_dt_strings m a)) s 0")
    case (Some x)
    with add lay show ?thesis by (simp add: fdt_find_add_string_def Let_def fdt_keeps_refl)
  next
    case None
    obtain m1 e1 where sp: "fdt_splice m a (a + word_of_int ?d) 0 ?n = (m1, e1)" by fastforce
    have n: "0 \<le> ?n" "?n < 2147483648" using s by simp_all
    note ok = fdt_splice_ok [OF lay n sp, unfolded up d]
    show ?thesis
    proof (cases "e1 = 0")
      case False
      with None add sp ok(1) lay show ?thesis
        by (auto simp: fdt_find_add_string_def fdt_splice_string_def Let_def p fdt_keeps_refl)
    next
      case True
      let ?m2 = "fdt_set_size_dt_strings m1 a (wrap32 (fdt_size_dt_strings m1 a + ?n))"
      let ?m3 = "write_bytes ?m2 (a + word_of_int ?d) (s @ [0])"
      from None add sp True have r: "m' = ?m3" "allocated"
        by (auto simp: fdt_find_add_string_def fdt_splice_string_def Let_def p)
      have c: "?d + ?n \<le> T" "chg a ?d T m m1" using ok(2) [OF True] by auto
      have c40: "chg a 40 T m m1" by (rule chg_mono [OF c(2)]) (use d56 in auto)
      note h = header_chg [OF c40]
      have k1: "fdt_keeps a T m m1" by (rule fdt_layout_chg [OF lay c40])
      have w: "wrap32 (fdt_size_dt_strings m1 a + ?n) = fdt_size_dt_strings m a + ?n"
        unfolding h by (rule wrap32_id) (use l c n in linarith)+
      have k2: "fdt_keeps a T m1 ?m2"
        unfolding w by (rule fdt_set_size_strings_keeps [OF fdt_keeps_layout [OF k1]])
          (use c n l h in auto)
      have k3: "fdt_keeps a T ?m2 ?m3"
        by (rule fdt_keeps_write [OF fdt_keeps_layout [OF k2]]) (use d56 c in auto)
      have len: "int (length (s @ [0 :: u8])) = ?n" by simp
      have c3: "chg a 40 T ?m2 ?m3"
        by (rule chg_mono [OF chg_write_bytes]) (use d56 c(1) n l len in linarith)+
      have w2: "wrap32 (fdt_size_dt_strings m a + ?n) = fdt_size_dt_strings m a + ?n"
        by (rule wrap32_id) (use l c n in linarith)+
      have "fdt_size_dt_strings m' a = fdt_size_dt_strings m a + ?n"
        unfolding r(1) header_chg [OF c3] set_size_strings_fields by (simp only: w w2)
      moreover have "fdt_off_dt_struct m' a = fdt_off_dt_struct m a"
        unfolding r(1) header_chg [OF c3] set_size_strings_fields by (simp only: h)
      ultimately have "fdt_size_dt_strings m' a = fdt_size_dt_strings m a + ?n"
        "fdt_off_dt_struct m' a = fdt_off_dt_struct m a" .
      with k1 k2 k3 r size0 show ?thesis by (auto intro: fdt_keeps_trans)
    qed
  qed
  then show "fdt_keeps a T m m'" and "fdt_off_dt_struct m' a = fdt_off_dt_struct m a"
    and "allocated \<Longrightarrow> int (length s) + 1 \<le> fdt_size_dt_strings m' a" by auto
qed

lemma FDT_TAGALIGN_bounds: "x \<le> FDT_TAGALIGN x" "FDT_TAGALIGN x \<le> x + 3"
  by (simp_all add: FDT_TAGALIGN_def)

lemma uint_offset_addr:
  assumes "0 \<le> x" "x < 4294967296"
  shows "uint (fdt_offset_addr m a x - a) = fdt_off_dt_struct m a + x"
  unfolding fdt_offset_addr_def
  by (rule uint_offset) (use assms fdt_header_bounds(2,7) [of m a] in linarith)+

lemma fdt_resize_property_ok:
  assumes lay: "fdt_layout m a T" and v: "17 \<le> fdt_version m a" and len: "0 \<le> len" "len < 1073741824"
    and rs: "fdt_resize_property m a node name len = (m', pp, e)"
  shows "fdt_keeps a T m m'" and "e = - FDT_ERR_NOTFOUND \<Longrightarrow> m' = m"
    and "e = 0 \<Longrightarrow> 40 \<le> uint (pp - a) \<and> uint (pp - a) + 12 + len \<le> T"
proof -
  obtain q oldlen where g: "fdt_get_property_namelen_w m a node name = (q, oldlen)" by fastforce
  have "fdt_keeps a T m m' \<and> (e = - FDT_ERR_NOTFOUND \<longrightarrow> m' = m)
      \<and> (e = 0 \<longrightarrow> 40 \<le> uint (pp - a) \<and> uint (pp - a) + 12 + len \<le> T)"
  proof (cases q)
    case None
    have "e \<noteq> 0"
    proof -
      have "oldlen < 0 \<or> oldlen = - FDT_ERR_INTERNAL"
        using g None v fdt_get_property_loop_None
        by (fastforce simp: fdt_get_property_namelen_w_def fdt_get_property_namelen_def
            split: prod.splits if_splits)
      then show ?thesis using rs g None by (auto simp: fdt_resize_property_def)
    qed
    with rs g None lay show ?thesis by (auto simp: fdt_resize_property_def fdt_keeps_refl)
  next
    case (Some p)
    from g Some v obtain poff where "fdt_get_property_loop m a (fdt_first_property_offset m a node) name
        = (Some p, oldlen, poff)"
      by (auto simp: fdt_get_property_namelen_w_def fdt_get_property_namelen_def split: prod.splits if_splits)
    then have "fdt_get_property_by_offset m a poff = (Some p, oldlen)"
      using fdt_get_property_loop_Some by blast
    note f = fdt_get_property_by_offset_Some [OF this]
    let ?S = "fdt_off_dt_struct m a"
    have old: "0 \<le> oldlen" using f(2) by (simp add: fdt_prop_len_def)
    note l = lay [unfolded fdt_layout_def] fdt_header_bounds(4,5) [of m a]
    have b: "poff + 12 + oldlen \<le> fdt_size_dt_struct m a" using f(5) [OF v] .
    have small: "poff < 2147483648" using b l old by linarith
    have up: "uint (p - a) = ?S + poff"
      unfolding f(1) by (rule uint_offset_addr) (use f(3) small in auto)
    have p: "p = a + word_of_int (?S + poff)" by (simp add: f(1) fdt_offset_addr_def)
    have p12: "p + 12 = a + word_of_int (?S + poff + 12)" by (simp add: p)
    have up12: "uint (p + 12 - a) = ?S + poff + 12"
      unfolding p12 by (rule uint_offset) (use l f(3) small in linarith)+
    obtain m1 e1 where sp:
        "fdt_splice_struct m a (p + 12) (FDT_TAGALIGN oldlen) (FDT_TAGALIGN len) = (m1, e1)" by fastforce
    note t = FDT_TAGALIGN_bounds [of oldlen] FDT_TAGALIGN_bounds [of len]
    have n: "0 \<le> FDT_TAGALIGN len" "FDT_TAGALIGN len < 2147483648"
      using t len by linarith+
    have s56: "56 \<le> uint (p + 12 - a)" using up12 l f(3) by linarith
    have sz: "FDT_TAGALIGN oldlen \<le> fdt_size_dt_struct m a + FDT_TAGALIGN len"
      using t b f(3) n by linarith
    note ok = fdt_splice_struct_ok [OF lay n s56 sz sp]
    show ?thesis
    proof (cases "e1 = 0")
      case False
      then have "m1 = m" using sp fdt_splice_ok(1) [OF lay n]
        by (auto simp: fdt_splice_struct_def Let_def split: prod.splits if_splits)
      with False rs g Some sp ok(1) show ?thesis by (auto simp: fdt_resize_property_def)
    next
      case True
      let ?m2 = "set_be32 m1 (p + 4) len"
      from rs g Some sp True have r: "m' = ?m2" "pp = p" "e = 0"
        by (auto simp: fdt_resize_property_def)
      have p4: "p + 4 = a + word_of_int (?S + poff + 4)" by (simp add: p)
      have "fdt_keeps a T m1 ?m2"
        unfolding p4 by (rule fdt_keeps_set_be32 [OF fdt_keeps_layout [OF ok(1)]])
          (use l f(3) ok(2) [OF True] up12 n in linarith)+
      with ok(1) r show ?thesis
        using ok(2) [OF True] up up12 t l f(3) by (auto intro: fdt_keeps_trans)
    qed
  qed
  then show "fdt_keeps a T m m'" and "e = - FDT_ERR_NOTFOUND \<Longrightarrow> m' = m"
    and "e = 0 \<Longrightarrow> 40 \<le> uint (pp - a) \<and> uint (pp - a) + 12 + len \<le> T" by auto
qed

lemma fdt_set_version_keeps:
  assumes lay: "fdt_layout m a T"
  shows "fdt_keeps a T m (fdt_set_version m a v)" and "fdt_version (fdt_set_version m a v) a = wrap32 v"
proof -
  have c: "chg a 20 24 m (set_be32 m (a + 20) v)" using chg_set_be32 [of 20 a m v] by simp
  have "56 \<le> T" using lay fdt_header_bounds(4,5) [of m a] unfolding fdt_layout_def by linarith
  then have "chg a 0 T m (set_be32 m (a + 20) v)" by (intro chg_mono [OF c]) simp_all
  moreover have "fdt_layout (set_be32 m (a + 20) v) a T"
    using lay be32_chg [OF c, of 4] be32_chg [OF c, of 8] be32_chg [OF c, of 12]
      be32_chg [OF c, of 32] be32_chg [OF c, of 36]
    by (simp add: fdt_layout_def fdt_totalsize_def fdt_off_dt_struct_def fdt_off_dt_strings_def
        fdt_size_dt_strings_def fdt_size_dt_struct_def)
  ultimately show "fdt_keeps a T m (fdt_set_version m a v)"
    by (simp add: fdt_keeps_def fdt_set_version_def)
  show "fdt_version (fdt_set_version m a v) a = wrap32 v"
    by (simp add: fdt_version_def fdt_set_version_def be32_set_be32)
qed

lemma fdt_rw_probe_ok:
  assumes lay: "fdt_layout m a T" and pr: "fdt_rw_probe m a = (m', e)"
  shows "fdt_keeps a T m m'" and "e = 0 \<Longrightarrow> 17 \<le> fdt_version m' a"
  using pr lay fdt_set_version_keeps [OF lay, of 17]
  by (auto simp: fdt_rw_probe_def wrap32_def intro: fdt_keeps_refl split: if_splits)

lemma fdt_add_property_ok:
  assumes lay: "fdt_layout m a T" and name: "length name < 1073741824"
    and len: "0 \<le> len" "len < 1073741824"
    and ap: "fdt_add_property m a node name len = (m', pp, e)"
  shows "fdt_keeps a T m m'"
    and "e = 0 \<Longrightarrow> 40 \<le> uint (pp - a) \<and> uint (pp - a) + 12 + len \<le> T"
proof -
  let ?next = "fdt_check_node_offset m a node"
  obtain m1 off alloc where fa: "fdt_find_add_string m a name = (m1, off, alloc)"
    by (metis prod_cases3)
  note s = fdt_find_add_string_ok [OF lay name fa]
  note lay1 = fdt_keeps_layout [OF s(1)]
  note t = FDT_TAGALIGN_bounds [of len]
  let ?p = "fdt_offset_addr m1 a ?next"
  let ?n = "12 + FDT_TAGALIGN len"
  have n: "0 \<le> ?n" "?n < 2147483648" using t len by linarith+
  have "fdt_keeps a T m m' \<and> (e = 0 \<longrightarrow> 40 \<le> uint (pp - a) \<and> uint (pp - a) + 12 + len \<le> T)"
  proof (cases "?next < 0 \<or> off < 0")
    case True
    with ap fa s(1) lay show ?thesis
      by (auto simp: fdt_add_property_def Let_def fdt_keeps_refl split: if_splits)
  next
    case False
    then have next0: "0 \<le> ?next" and off0: "0 \<le> off" by auto
    have nlt: "?next < 4294967296"
    proof -
      obtain tag nx where nt: "fdt_next_tag m a node = (tag, nx)" by fastforce
      have "?next = nx" "tag = FDT_BEGIN_NODE"
        using next0 nt by (auto simp: fdt_check_node_offset_def split: if_splits)
      then show ?thesis using fdt_next_tag_next_less [OF nt] by simp
    qed
    have p: "?p = a + word_of_int (fdt_off_dt_struct m1 a + ?next)" by (simp add: fdt_offset_addr_def)
    have up: "uint (?p - a) = fdt_off_dt_struct m1 a + ?next"
      by (rule uint_offset_addr [OF next0 nlt])
    have s56: "56 \<le> uint (?p - a)" using up lay1 next0 unfolding fdt_layout_def by linarith
    obtain m2 e2 where sp: "fdt_splice_struct m1 a ?p 0 ?n = (m2, e2)" by fastforce
    have sz: "0 \<le> fdt_size_dt_struct m1 a + ?n" using n fdt_header_bounds(5) [of m1 a] by linarith
    note ok = fdt_splice_struct_ok [OF lay1 n s56 sz sp]
    show ?thesis
    proof (cases "e2 = 0")
      case False
      have m2: "m2 = m1" using sp False fdt_splice_ok(1) [OF lay1 n]
        by (auto simp: fdt_splice_struct_def Let_def split: prod.splits if_splits)
      have "fdt_keeps a T m1 (fdt_del_last_string m1 a name)" if alloc
      proof -
        let ?v = "fdt_size_dt_strings m1 a - (int (length name) + 1)"
        have v0: "0 \<le> ?v" using s(3) that by simp
        moreover have "?v < 4294967296" using fdt_header_bounds(9) [of m1 a] by linarith
        ultimately have "wrap32 ?v = ?v" by (rule wrap32_id)
        then show ?thesis
          unfolding fdt_del_last_string_def
          using fdt_set_size_strings_keeps [OF lay1 v0] lay1 by (simp add: fdt_layout_def)
      qed
      with False next0 off0 ap fa sp m2 s(1) show ?thesis
        by (auto simp: fdt_add_property_def Let_def intro: fdt_keeps_trans split: if_splits)
    next
      case True
      let ?k = "fdt_off_dt_struct m1 a + ?next"
      let ?m3 = "set_be32 m2 (a + word_of_int ?k) FDT_PROP"
      let ?m4 = "set_be32 ?m3 (a + word_of_int (?k + 8)) off"
      let ?m5 = "set_be32 ?m4 (a + word_of_int (?k + 4)) len"
      have "?p + 8 = a + word_of_int (?k + 8)" "?p + 4 = a + word_of_int (?k + 4)"
        by (simp_all add: p)
      with True next0 off0 ap fa sp have r: "m' = ?m5" "pp = ?p"
        by (auto simp: fdt_add_property_def Let_def p add.assoc)
      have k: "40 \<le> ?k" "?k + ?n \<le> T" using s56 up ok(2) [OF True] by linarith+
      have k3: "fdt_keeps a T m2 ?m3"
        by (rule fdt_keeps_set_be32 [OF fdt_keeps_layout [OF ok(1)]]) (use k t len in linarith)+
      have k4: "fdt_keeps a T ?m3 ?m4"
        by (rule fdt_keeps_set_be32 [OF fdt_keeps_layout [OF k3]]) (use k t len in linarith)+
      have "fdt_keeps a T ?m4 ?m5"
        by (rule fdt_keeps_set_be32 [OF fdt_keeps_layout [OF k4]]) (use k t len in linarith)+
      then have "fdt_keeps a T m ?m5"
        using s(1) ok(1) k3 k4 by (blast intro: fdt_keeps_trans)
      then show ?thesis using r up k t by auto
    qed
  qed
  then show "fdt_keeps a T m m'"
    and "e = 0 \<Longrightarrow> 40 \<le> uint (pp - a) \<and> uint (pp - a) + 12 + len \<le> T" by auto
qed

lemma fdt_setprop_keeps:
  assumes lay: "fdt_layout m a T" and name: "length name < 1073741824"
    and len: "0 \<le> len" "len < 1073741824" and val: "\<And>m. int (length (val m)) = len"
    and sp: "fdt_setprop m a node name val len = (m', e)"
  shows "fdt_keeps a T m m'"
proof -
  obtain m1 e1 where pr: "fdt_rw_probe m a = (m1, e1)" by fastforce
  note p = fdt_rw_probe_ok [OF lay pr]
  show ?thesis
  proof (cases "e1 = 0")
    case False
    with sp pr p(1) show ?thesis by (auto simp: fdt_setprop_def fdt_setprop_placeholder_def)
  next
    case True
    note lay1 = fdt_keeps_layout [OF p(1)]
    obtain m2 p2 e2 where rs: "fdt_resize_property m1 a node name len = (m2, p2, e2)"
      by (metis prod_cases3)
    note r = fdt_resize_property_ok [OF lay1 p(2) [OF True] len rs]
    obtain m3 p3 e3 where as3: "(if e2 = - FDT_ERR_NOTFOUND then fdt_add_property m2 a node name len
        else (m2, p2, e2)) = (m3, p3, e3)"
      by (metis prod_cases3)
    have k3: "fdt_keeps a T m1 m3 \<and> (e3 = 0 \<longrightarrow> 40 \<le> uint (p3 - a) \<and> uint (p3 - a) + 12 + len \<le> T)"
    proof (cases "e2 = - FDT_ERR_NOTFOUND")
      case True
      then have "fdt_add_property m1 a node name len = (m3, p3, e3)" using as3 r(2) by simp
      from fdt_add_property_ok [OF lay1 name len this] show ?thesis by blast
    next
      case False
      with as3 r show ?thesis by auto
    qed
    show ?thesis
    proof (cases "e3 = 0")
      case False
      have "m' = m3"
        using sp False by (simp add: fdt_setprop_def fdt_setprop_placeholder_def pr True rs as3)
      then show ?thesis using k3 p(1) by (blast intro: fdt_keeps_trans)
    next
      case e3: True
      let ?k = "uint (p3 - a) + 12"
      have pd: "p3 + 12 = a + word_of_int ?k" by simp
      have m': "m' = (if len \<noteq> 0 then write_bytes m3 (p3 + 12) (val m3) else m3)"
        using sp e3 by (simp add: fdt_setprop_def fdt_setprop_placeholder_def pr True rs as3
            split: if_splits)
      have "fdt_keeps a T m3 (write_bytes m3 (p3 + 12) (val m3))"
        unfolding pd by (rule fdt_keeps_write) (use k3 e3 val in \<open>auto simp: fdt_keeps_def\<close>)
      then show ?thesis using m' k3 p(1) by (auto intro: fdt_keeps_trans)
    qed
  qed
qed

subsection \<open>Nodes\<close>

lemma fdt_skip_props_bounds:
  "0 \<le> offset \<Longrightarrow> offset < 4294967296 \<Longrightarrow>
   offset \<le> fdt_skip_props m a offset \<and> fdt_skip_props m a offset < 4294967296"
proof (induction m a offset rule: fdt_skip_props.induct)
  case (1 m a offset)
  obtain tag nextoff where tag: "fdt_next_tag m a offset = (tag, nextoff)" by fastforce
  show ?case
  proof (cases "tag = FDT_PROP \<or> tag = FDT_NOP")
    case False
    with tag "1.prems" show ?thesis by (subst (1 2) fdt_skip_props.simps) auto
  next
    case True
    with fdt_next_tag_step [OF tag] fdt_next_tag_next_less [OF tag]
    have n: "offset + 4 \<le> nextoff" "nextoff < 4294967296" by auto
    with "1.IH" [OF tag [symmetric] refl True] "1.prems"
    have "nextoff \<le> fdt_skip_props m a nextoff" "fdt_skip_props m a nextoff < 4294967296" by auto
    moreover have "fdt_skip_props m a offset = fdt_skip_props m a nextoff"
      using True tag by (subst fdt_skip_props.simps) simp
    ultimately show ?thesis using n by simp
  qed
qed

lemma fdt_add_subnode_keeps:
  assumes lay: "fdt_layout m a T" and name: "length name < 1073741824"
    and add: "fdt_add_subnode m a parent name = (m', e)"
  shows "fdt_keeps a T m m'"
proof -
  obtain m1 e1 where pr: "fdt_rw_probe m a = (m1, e1)" by fastforce
  note p = fdt_rw_probe_ok [OF lay pr]
  note lay1 = fdt_keeps_layout [OF p(1)]
  obtain tag nx where nt: "fdt_next_tag m1 a parent = (tag, nx)" by fastforce
  let ?off = "fdt_skip_props m1 a nx"
  let ?nh = "fdt_offset_addr m1 a ?off"
  let ?len = "int (length name)"
  let ?n = "4 + FDT_TAGALIGN (?len + 1) + 4"
  obtain m2 e2 where sp: "fdt_splice_struct m1 a ?nh 0 ?n = (m2, e2)" by fastforce
  show ?thesis
  proof (cases "e1 = 0 \<and> fdt_subnode_offset_namelen m1 a parent name = - FDT_ERR_NOTFOUND
      \<and> tag = FDT_BEGIN_NODE")
    case False
    then have "m' = m1" using add pr nt by (auto simp: fdt_add_subnode_def Let_def split: if_splits)
    with p(1) show ?thesis by simp
  next
    case True
    have nx: "0 \<le> nx" "nx < 4294967296"
      using fdt_next_tag_step [OF nt] fdt_next_tag_next_less [OF nt] True by auto
    note o = fdt_skip_props_bounds [OF nx, of m1 a]
    have up: "uint (?nh - a) = fdt_off_dt_struct m1 a + ?off"
      by (rule uint_offset_addr) (use nx o in auto)
    note t = FDT_TAGALIGN_bounds [of "?len + 1"]
    have n: "0 \<le> ?n" "?n < 2147483648" using t name by linarith+
    have s56: "56 \<le> uint (?nh - a)" using up lay1 nx o unfolding fdt_layout_def by linarith
    have sz: "0 \<le> fdt_size_dt_struct m1 a + ?n" using n fdt_header_bounds(5) [of m1 a] by linarith
    note ok = fdt_splice_struct_ok [OF lay1 n s56 sz sp]
    show ?thesis
    proof (cases "e2 = 0")
      case False
      with add pr nt True sp have "m' = m2"
        by (auto simp: fdt_add_subnode_def Let_def split: if_splits)
      with ok(1) p(1) show ?thesis by (auto intro: fdt_keeps_trans)
    next
      case e2: True
      with add pr nt True sp have m': "m' = write_bytes m2 ?nh (fdt_node_bytes name)"
        by (auto simp: fdt_add_subnode_def Let_def split: if_splits)
      have "int (length (fdt_node_bytes name)) = ?n"
        using t by (simp add: fdt_node_bytes_def be32_bytes_def)
      then have "fdt_keeps a T m2 (write_bytes m2 (a + word_of_int (uint (?nh - a))) (fdt_node_bytes name))"
        using ok(2) [OF e2] s56 by (intro fdt_keeps_write [OF fdt_keeps_layout [OF ok(1)]]) auto
      with ok(1) p(1) m' show ?thesis by (auto intro: fdt_keeps_trans)
    qed
  qed
qed

subsection \<open>Expanding a blob\<close>

text \<open>
  A device tree as the compiler produces it: a valid header of version 17, a terminated
  reservation map, and the blocks in order.
\<close>

definition dtb_ok :: "mem \<Rightarrow> addr \<Rightarrow> bool" where
  "dtb_ok m d \<longleftrightarrow>
     fdt_check_header m d = 0 \<and> 17 \<le> fdt_version m d \<and> 0 \<le> fdt_num_mem_rsv m d \<and>
     \<not> fdt_blocks_misordered m d ((fdt_num_mem_rsv m d + 1) * 16) (fdt_size_dt_struct m d)"

lemma fdt_num_mem_rsv_from_bound:
  "fdt_num_mem_rsv_from m a i = n \<Longrightarrow> 0 \<le> n \<Longrightarrow> 0 \<le> i \<Longrightarrow>
   n < 268435456 \<and> fdt_mem_rsv m a n \<noteq> None"
proof (induction m a i rule: fdt_num_mem_rsv_from.induct)
  case (1 m a i)
  from "1.prems" "1.IH" show ?case
    by (auto simp: fdt_num_mem_rsv_from.simps [of m a i] split: if_splits option.splits)
qed

lemma check_header_bounds:
  assumes "fdt_check_header m d = 0" and "17 \<le> fdt_version m d"
  shows "fdt_totalsize m d \<le> INT_MAX" and "40 \<le> fdt_totalsize m d"
    and "fdt_off_dt_struct m d + fdt_size_dt_struct m d \<le> fdt_totalsize m d"
    and "fdt_off_dt_strings m d + fdt_size_dt_strings m d \<le> fdt_totalsize m d"
    and "fdt_off_mem_rsvmap m d \<le> fdt_totalsize m d"
    and "d AND 7 = 0" and "fdt_magic m d = FDT_MAGIC" and "fdt_last_comp_version m d \<le> 17"
proof -
  note h = assms(1) [unfolded fdt_check_header_def Let_def fdt_header_size_def]
  have c: "d AND 7 = 0" "fdt_magic m d = FDT_MAGIC" "fdt_last_comp_version m d \<le> 17"
      "fdt_totalsize m d \<le> INT_MAX" "40 \<le> fdt_totalsize m d"
      "check_off 40 (fdt_totalsize m d) (fdt_off_mem_rsvmap m d)"
      "check_block 40 (fdt_totalsize m d) (fdt_off_dt_struct m d) (fdt_size_dt_struct m d)"
      "check_block 40 (fdt_totalsize m d) (fdt_off_dt_strings m d) (fdt_size_dt_strings m d)"
    using h assms(2) by (auto split: if_splits)
  then show "fdt_totalsize m d \<le> INT_MAX" "40 \<le> fdt_totalsize m d"
    "d AND 7 = 0" "fdt_magic m d = FDT_MAGIC" "fdt_last_comp_version m d \<le> 17"
    "fdt_off_mem_rsvmap m d \<le> fdt_totalsize m d"
    by (simp_all add: check_off_def)
  have blk: "x + y \<le> fdt_totalsize m d"
    if "check_block 40 (fdt_totalsize m d) x y" "0 \<le> x" "x < 4294967296" "0 \<le> y" "y < 4294967296" for x y
    using that wrap32_add_ge [of x y] by (auto simp: check_block_def check_off_def split: if_splits)
  show "fdt_off_dt_struct m d + fdt_size_dt_struct m d \<le> fdt_totalsize m d"
    "fdt_off_dt_strings m d + fdt_size_dt_strings m d \<le> fdt_totalsize m d"
    using c blk by simp_all
qed

lemma num_mem_rsv_bounds:
  assumes "fdt_check_header m d = 0" and "17 \<le> fdt_version m d" and "0 \<le> fdt_num_mem_rsv m d"
  shows "fdt_off_mem_rsvmap m d + (fdt_num_mem_rsv m d + 1) * 16 \<le> fdt_totalsize m d"
proof -
  let ?n = "fdt_num_mem_rsv m d" and ?o = "fdt_off_mem_rsvmap m d"
  have n: "?n < 268435456" "fdt_mem_rsv m d ?n \<noteq> None"
    using fdt_num_mem_rsv_from_bound [of m d 0 ?n] assms(3) by (auto simp: fdt_num_mem_rsv_def)
  note b = check_header_bounds [OF assms(1,2)]
  have o: "0 \<le> ?o" "?o < 4294967296" by (simp_all add: fdt_off_mem_rsvmap_def be32_less)
  have w: "wrap32 (?n * 16) = ?n * 16" using n(1) assms(3) by (intro wrap32_id) auto
  have T: "(fdt_totalsize m d - 16) mod 18446744073709551616 = fdt_totalsize m d - 16"
    using b(1,2) by simp
  from n(2) have c: "?o \<le> wrap32 (?o + ?n * 16)" "wrap32 (?o + ?n * 16) \<le> fdt_totalsize m d - 16"
    by (auto simp: fdt_mem_rsv_def Let_def w T split: if_splits)
  have "wrap32 (?o + ?n * 16) = ?o + ?n * 16"
    by (rule wrap32_add_ge) (use o c n assms(3) in auto)
  with c show ?thesis by simp
qed

lemma be32_read_bytes: "read_bytes m p 4 = read_bytes m' q 4 \<Longrightarrow> be32 m p = be32 m' q"
proof -
  assume r: "read_bytes m p 4 = read_bytes m' q 4"
  have n: "m (p + of_nat i) = m' (q + of_nat i)" if "i < 4" for i
    using that arg_cong [OF r, of "\<lambda>l. l ! i"] by simp
  from n [of 0] n [of 1] n [of 2] n [of 3] show ?thesis by (simp add: be32_def)
qed

text \<open>The fields of a copied blob.\<close>

lemma be32_memmove:
  assumes "unat dst + n \<le> 18446744073709551616" and "unat src + n \<le> 18446744073709551616"
    and "k + 4 \<le> n"
  shows "be32 (memmove m dst src n) (dst + of_nat k) = be32 m (src + of_nat k)"
proof (rule be32_read_bytes)
  have n: "k + (4 + (n - (k + 4))) = n" using assms(3) by simp
  have r: "read_bytes (memmove m dst src n) dst n = read_bytes m src n"
    unfolding memmove_write [OF assms(1,2)] by (rule read_write_same) (use assms in simp_all)
  have "take 4 (drop k (read_bytes (memmove m dst src n) dst n)) = take 4 (drop k (read_bytes m src n))"
    by (simp only: r)
  moreover have "take 4 (drop k (read_bytes m' p n)) = read_bytes m' (p + of_nat k) 4" for m' p
    using read_bytes_append [of m' p k "4 + (n - (k + 4))"]
      read_bytes_append [of m' "p + of_nat k" 4 "n - (k + 4)"] unfolding n by simp
  ultimately show "read_bytes (memmove m dst src n) (dst + of_nat k) 4 = read_bytes m (src + of_nat k) 4"
    by simp
qed

lemma set_totalsize_fields:
  "fdt_totalsize (fdt_set_totalsize m a v) a = wrap32 v"
  "fdt_off_dt_struct (fdt_set_totalsize m a v) a = fdt_off_dt_struct m a"
  "fdt_off_dt_strings (fdt_set_totalsize m a v) a = fdt_off_dt_strings m a"
  "fdt_size_dt_strings (fdt_set_totalsize m a v) a = fdt_size_dt_strings m a"
  "fdt_size_dt_struct (fdt_set_totalsize m a v) a = fdt_size_dt_struct m a"
  "chg a 4 8 m (fdt_set_totalsize m a v)"
proof -
  have c: "chg a 4 8 m (set_be32 m (a + 4) v)" using chg_set_be32 [of 4 a m v] by simp
  from be32_chg [OF c, of 12] be32_chg [OF c, of 8] be32_chg [OF c, of 36] be32_chg [OF c, of 32]
    c be32_set_be32 [of m "a + 4" v]
  show "fdt_totalsize (fdt_set_totalsize m a v) a = wrap32 v"
    "fdt_off_dt_struct (fdt_set_totalsize m a v) a = fdt_off_dt_struct m a"
    "fdt_off_dt_strings (fdt_set_totalsize m a v) a = fdt_off_dt_strings m a"
    "fdt_size_dt_strings (fdt_set_totalsize m a v) a = fdt_size_dt_strings m a"
    "fdt_size_dt_struct (fdt_set_totalsize m a v) a = fdt_size_dt_struct m a"
    "chg a 4 8 m (fdt_set_totalsize m a v)"
    by (simp_all add: fdt_totalsize_def fdt_off_dt_struct_def fdt_off_dt_strings_def
        fdt_size_dt_strings_def fdt_size_dt_struct_def fdt_set_totalsize_def)
qed

lemma set_version_fields:
  "fdt_off_dt_struct (fdt_set_version m a v) a = fdt_off_dt_struct m a"
  "fdt_off_dt_strings (fdt_set_version m a v) a = fdt_off_dt_strings m a"
  "fdt_size_dt_strings (fdt_set_version m a v) a = fdt_size_dt_strings m a"
  "chg a 20 24 m (fdt_set_version m a v)"
proof -
  have c: "chg a 20 24 m (set_be32 m (a + 20) v)" using chg_set_be32 [of 20 a m v] by simp
  from be32_chg [OF c, of 12] be32_chg [OF c, of 8] be32_chg [OF c, of 32] c
  show "fdt_off_dt_struct (fdt_set_version m a v) a = fdt_off_dt_struct m a"
    "fdt_off_dt_strings (fdt_set_version m a v) a = fdt_off_dt_strings m a"
    "fdt_size_dt_strings (fdt_set_version m a v) a = fdt_size_dt_strings m a"
    "chg a 20 24 m (fdt_set_version m a v)"
    by (simp_all add: fdt_off_dt_struct_def fdt_off_dt_strings_def fdt_size_dt_strings_def
        fdt_set_version_def)
qed

text \<open>The device tree moved into the buffer, with its new version and sizes.\<close>

definition fdt_opened :: "mem \<Rightarrow> addr \<Rightarrow> addr \<Rightarrow> int \<Rightarrow> mem" where
  "fdt_opened m d buf bufsize =
     fdt_set_totalsize (fdt_set_size_dt_struct (fdt_set_version (memmove m buf d (nat (fdt_totalsize m d))) buf 17) buf
       (wrap32 (fdt_size_dt_struct m d))) buf (wrap32 bufsize)"

lemma fdt_open_into_result:
  assumes dtb: "dtb_ok m d" and bs: "0 \<le> bufsize" "bufsize < 2147483648"
    and op: "fdt_open_into m d buf bufsize = (m', e)"
  shows "e \<noteq> 0 \<and> m' = m \<or> e = 0 \<and> fdt_totalsize m d \<le> bufsize \<and> m' = fdt_opened m d buf bufsize"
proof -
  let ?T = "fdt_totalsize m d" and ?ss = "fdt_size_dt_struct m d"
  let ?rsv = "(fdt_num_mem_rsv m d + 1) * 16"
  from dtb have h: "fdt_check_header m d = 0" "17 \<le> fdt_version m d" "0 \<le> fdt_num_mem_rsv m d"
    and ord: "\<not> fdt_blocks_misordered m d ?rsv ?ss" by (auto simp: dtb_ok_def)
  note b = check_header_bounds [OF h(1,2)] and r = num_mem_rsv_bounds [OF h] and z = fdt_header_bounds(2-5) [of m d]
  have o0: "0 \<le> fdt_off_mem_rsvmap m d" by (simp add: fdt_off_mem_rsvmap_def)
  have i: "to_int32 ?rsv = ?rsv" "to_int32 ?ss = ?ss"
    using h(3) r o0 b(1) by (auto intro!: to_int32_id) (use z b(1,3) in linarith)+
  obtain m1 e1 where mv: "fdt_move m d buf bufsize = (m1, e1)" by fastforce
  have sized: "fdt_open_into_sized m d buf bufsize ?rsv ?ss = (if e1 \<noteq> 0 then (m1, e1) else
      (fdt_set_totalsize (fdt_set_size_dt_struct (fdt_set_version m1 buf 17) buf (wrap32 ?ss)) buf (wrap32 bufsize), 0))"
    unfolding fdt_open_into_sized_def mv by (simp only: ord not_False_eq_True if_True prod.case Let_def)
  show ?thesis
  proof (cases "fdt_ro_probe m d < 0")
    case True
    then show ?thesis using op by (auto simp: fdt_open_into_def)
  next
    case False
    have "(m', e) = fdt_open_into_sized m d buf bufsize ?rsv ?ss"
      unfolding op [symmetric] fdt_open_into_def Let_def i using False h(2) by simp
    moreover have "(m1, e1) = (if ?T > bufsize then (m, - FDT_ERR_NOSPACE) else (memmove m buf d (nat ?T), 0))"
      using mv bs False by (simp add: fdt_move_def split: if_splits)
    ultimately show ?thesis
      unfolding sized fdt_opened_def by (auto split: if_splits)
  qed
qed

lemma fdt_open_into_ok:
  assumes dtb: "dtb_ok m d" and bs: "0 \<le> bufsize" "bufsize < 2147483648"
    and buf: "unat buf + nat bufsize \<le> 18446744073709551616"
    and src: "unat d + nat (fdt_totalsize m d) \<le> 18446744073709551616"
    and op: "fdt_open_into m d buf bufsize = (m', e)"
  shows "e \<noteq> 0 \<Longrightarrow> m' = m" and "e = 0 \<Longrightarrow> fdt_keeps buf bufsize m m'"
proof -
  let ?T = "fdt_totalsize m d" and ?ss = "fdt_size_dt_struct m d"
  let ?rsv = "(fdt_num_mem_rsv m d + 1) * 16"
  note result = fdt_open_into_result [OF dtb bs op]
  then show "m' = m" if "e \<noteq> 0" using that by blast
  assume "e = 0"
  with result have T: "?T \<le> bufsize" and m': "m' = fdt_opened m d buf bufsize" by blast+
  from dtb have h: "fdt_check_header m d = 0" "17 \<le> fdt_version m d" "0 \<le> fdt_num_mem_rsv m d"
    and ord: "\<not> fdt_blocks_misordered m d ?rsv ?ss" by (auto simp: dtb_ok_def)
  note b = check_header_bounds [OF h(1,2)] and r = num_mem_rsv_bounds [OF h] and z = fdt_header_bounds(2-5) [of m d]
  have o0: "0 \<le> fdt_off_mem_rsvmap m d" by (simp add: fdt_off_mem_rsvmap_def)
  define m1 where "m1 = memmove m buf d (nat ?T)"
  let ?m2 = "fdt_set_version m1 buf 17"
  let ?m3 = "fdt_set_size_dt_struct ?m2 buf (wrap32 ?ss)"
  let ?m4 = "fdt_set_totalsize ?m3 buf (wrap32 bufsize)"
  have m4: "m' = ?m4" by (simp add: m' fdt_opened_def m1_def)
  have nb: "unat buf + nat ?T \<le> 18446744073709551616" using buf T by linarith
  have f: "be32 m1 (buf + of_nat k) = be32 m (d + of_nat k)" if "k + 4 \<le> 40" for k
    unfolding m1_def by (rule be32_memmove [OF nb src]) (use that b in linarith)
  from f [of 8] f [of 12] f [of 32]
  have f1: "fdt_off_dt_struct m1 buf = fdt_off_dt_struct m d"
      "fdt_off_dt_strings m1 buf = fdt_off_dt_strings m d"
      "fdt_size_dt_strings m1 buf = fdt_size_dt_strings m d"
    by (simp_all add: fdt_off_dt_struct_def fdt_off_dt_strings_def fdt_size_dt_strings_def)
  have w: "wrap32 (wrap32 ?ss) = ?ss" "wrap32 (wrap32 bufsize) = bufsize"
    using z b bs by (simp_all add: wrap32_id)
  have fields: "fdt_totalsize ?m4 buf = bufsize" "fdt_off_dt_struct ?m4 buf = fdt_off_dt_struct m d"
      "fdt_off_dt_strings ?m4 buf = fdt_off_dt_strings m d"
      "fdt_size_dt_strings ?m4 buf = fdt_size_dt_strings m d" "fdt_size_dt_struct ?m4 buf = ?ss"
    unfolding set_totalsize_fields set_size_struct_fields set_version_fields f1 w by simp_all
  have o1: "wrap32 (fdt_off_mem_rsvmap m d + ?rsv) = fdt_off_mem_rsvmap m d + ?rsv"
    using h(3) r o0 b(1) by (intro wrap32_id) auto
  have o2: "wrap32 (fdt_off_dt_struct m d + ?ss) = fdt_off_dt_struct m d + ?ss"
    by (rule wrap32_id) (use z b(1,3) in linarith)+
  from ord have "40 \<le> fdt_off_mem_rsvmap m d" "fdt_off_mem_rsvmap m d + ?rsv \<le> fdt_off_dt_struct m d"
      "fdt_off_dt_struct m d + ?ss \<le> fdt_off_dt_strings m d"
    unfolding fdt_blocks_misordered_def o1 o2 by auto
  then have "fdt_layout ?m4 buf bufsize"
    unfolding fdt_layout_def fields using bs b T h by auto
  moreover have "chg buf 0 bufsize m ?m4"
  proof (rule chg_trans [OF chg_trans [OF chg_trans]])
    have "chg buf 0 (0 + int (nat ?T)) m (memmove m (buf + word_of_int 0) d (nat ?T))"
      by (rule chg_memmove) (use nb in auto)
    then show "chg buf 0 bufsize m m1" unfolding m1_def by (auto intro: chg_mono T)
    show "chg buf 0 bufsize m1 ?m2"
      by (rule chg_mono [OF set_version_fields(4)]) (use b T in linarith)+
    show "chg buf 0 bufsize ?m2 ?m3"
      by (rule chg_mono [OF set_size_struct_fields(6)]) (use b T in linarith)+
    show "chg buf 0 bufsize ?m3 ?m4"
      by (rule chg_mono [OF set_totalsize_fields(6)]) (use b T in linarith)+
  qed
  ultimately show "fdt_keeps buf bufsize m m'" by (simp add: fdt_keeps_def m4)
qed

text \<open>C15. Setting a property of a device tree with a consistent layout keeps the layout (the structure
  block before the strings block, both inside the total size) and writes only inside the
  blob, also when it fails.\<close>

theorem fdt_setprop_inside:
  assumes "fdt_layout m a T" and "length name < 1073741824"
    and "0 \<le> len" and "len < 1073741824" and "\<And>m. int (length (val m)) = len"
  shows "case fdt_setprop m a node name val len of (m', e) \<Rightarrow> fdt_layout m' a T \<and> chg a 0 T m m'"
  using fdt_setprop_keeps [OF assms] by (auto simp: fdt_keeps_def split: prod.splits)

lemma fdt_setprop_inside_witness:
  "case fdt_setprop ((\<lambda>_. 0)(0x1006 := 1, 0x100b := 56, 0x100f := 72)) 0x1000 0 [120] (\<lambda>_. [1, 2, 3, 4]) 4 of
     (m', e) \<Rightarrow> m' 0x1100 = 0"
proof -
  let ?m = "(\<lambda>_. 0)(0x1006 := 1, 0x100b := 56, 0x100f := 72) :: mem"
  have "fdt_layout ?m 0x1000 256"
    by (simp add: fdt_layout_def fdt_totalsize_def fdt_off_dt_struct_def fdt_size_dt_struct_def
        fdt_off_dt_strings_def fdt_size_dt_strings_def be32_def)
  from fdt_setprop_inside [OF this, of "[120]" 4 "\<lambda>_. [1, 2, 3, 4]" 0] show ?thesis
    by (auto simp: chg_def split: prod.splits)
qed

end
