(* ===== verification/Fit_Load.thy ===== *)
theory Fit_Load
  imports Fit_Local Libfdt_Rw_Facts
begin

text \<open>
  The second half of src/chainload/fit.c: \<open>chain_fit_load\<close> copies the executable images to
  their load addresses, expands the control device tree behind U-Boot and records the
  loadables under \<open>/fit-images\<close> in it. It returns the memory as it leaves it, also on an
  error, and the error.
\<close>

subsection \<open>The code\<close>

definition record_image :: "mem \<Rightarrow> addr \<Rightarrow> ChainImage \<Rightarrow> mem \<times> int" where
  "record_image m dtb im =
     (let parent = fdt_subnode_offset m dtb 0 (cstr ''fit-images'');
          (m, parent) = (if parent = - FDT_ERR_NOTFOUND
                         then fdt_add_subnode m dtb 0 (cstr ''fit-images'') else (m, parent))
      in if parent < 0 then (m, parent)
      else let node = fdt_subnode_offset m dtb parent (c_string m (img_name im));
               (m, node) = (if node = - FDT_ERR_NOTFOUND
                            then fdt_add_subnode m dtb parent (c_string m (img_name im)) else (m, node))
      in if node < 0 then (m, node)
      else case fdt_setprop_u32 m dtb node ''load-addr'' (ucast (img_load im)) of
        (m, err) \<Rightarrow> if err \<noteq> 0 then (m, -1)
      else case fdt_setprop_u32 m dtb node ''size'' (ucast (img_size im)) of
        (m, err) \<Rightarrow> if err \<noteq> 0 then (m, -1)
      else case (if entry_explicit im
                 then fdt_setprop_u32 m dtb node ''entry-point'' (ucast (img_entry im)) else (m, 0)) of
        (m, err) \<Rightarrow> if err \<noteq> 0 then (m, -1)
      else case (case img_type im of None \<Rightarrow> (m, 0)
                 | Some t \<Rightarrow> fdt_setprop_string m dtb node ''type'' t) of
        (m, err) \<Rightarrow> if err \<noteq> 0 then (m, -1)
      else case (case img_os im of None \<Rightarrow> (m, 0)
                 | Some os \<Rightarrow> fdt_setprop_string m dtb node ''os'' os) of
        (m, err) \<Rightarrow> if err \<noteq> 0 then (m, -1) else (m, 0))"

text \<open>The first loop: the executable images go to their load addresses.\<close>

fun load_images :: "mem \<Rightarrow> ChainImage list \<Rightarrow> mem" where
  "load_images m [] = m"
| "load_images m (im # ims) =
     load_images (if img_role im \<noteq> CHAIN_IMAGE_FDT
                  then memcpy m (img_load im) (img_data im) (unat (img_size im)) else m) ims"

text \<open>The second loop: the images to be recorded in the control device tree.\<close>

fun record_images :: "mem \<Rightarrow> addr \<Rightarrow> ChainImage list \<Rightarrow> mem \<times> bool" where
  "record_images m dtb [] = (m, True)"
| "record_images m dtb (im # ims) =
     (if record_in_control_fdt im
      then case record_image m dtb im of
             (m, err) \<Rightarrow> if err \<noteq> 0 then (m, False) else record_images m dtb ims
      else record_images m dtb ims)"

text \<open>The capacity is passed as an \<open>int\<close>.\<close>

definition chain_fit_load :: "mem \<Rightarrow> ChainFitPlan \<Rightarrow> mem \<times> string option" where
  "chain_fit_load m plan =
     (let dtb = images plan ! the (fdt_index plan);
          m = load_images m (images plan)
      in case fdt_open_into m (img_data dtb) (control_fdt plan)
             (to_int32 (uint (control_fdt_capacity plan))) of
        (m, err) \<Rightarrow>
          if err \<noteq> 0 then (m, Some ''cannot expand U-Boot control DTB'')
          else case record_images m (control_fdt plan) (images plan) of
            (m, ok) \<Rightarrow>
              if \<not> ok then (m, Some ''cannot create /fit-images metadata'') else (m, None))"

subsection \<open>Loading the images\<close>

text \<open>The addresses of the image's data.\<close>

definition data_span :: "ChainImage \<Rightarrow> nat set" where
  "data_span im = {unat (img_data im)..<unat (img_data im) + unat (img_size im)}"

text \<open>
  What the copying needs: no executable range wraps around, no data is read from a range
  that is written, and no two executable ranges overlap.
\<close>

definition copyable :: "ChainImage list \<Rightarrow> bool" where
  "copyable ims \<longleftrightarrow>
     (\<forall>im \<in> set ims. executable im \<longrightarrow>
        unat (img_load im) + unat (img_size im) \<le> 18446744073709551616 \<and>
        unat (img_data im) + unat (img_size im) \<le> 18446744073709551616 \<and>
        (\<forall>im' \<in> set ims. executable im' \<longrightarrow> data_span im' \<inter> span im = {})) \<and>
     sorted_wrt (\<lambda>a b. executable a \<longrightarrow> executable b \<longrightarrow> span a \<inter> span b = {}) ims"

lemma copyable_tl: "copyable (im # ims) \<Longrightarrow> copyable ims"
  by (auto simp: copyable_def)

lemma memcpy_image:
  assumes "copyable (im # ims)" and "executable im"
  shows "memcpy m (img_load im) (img_data im) (unat (img_size im))
       = write_bytes m (img_load im) (read_bytes m (img_data im) (unat (img_size im)))"
proof (rule memcpy_write)
  show "unat (img_size im) \<le> 18446744073709551616" using unat_u64_less [of "img_size im"] by simp
  from assms have "data_span im \<inter> span im = {}"
    and b: "unat (img_load im) + unat (img_size im) \<le> 18446744073709551616"
      "unat (img_data im) + unat (img_size im) \<le> 18446744073709551616"
    by (auto simp: copyable_def)
  then show "disjoint_ranges (img_load im) (unat (img_size im)) (img_data im) (unat (img_size im))"
    by (auto simp: disjoint_ranges_def in_range_of_interval data_span_def span_def)
qed

lemma write_outside_span:
  assumes "unat (img_load im) + unat (img_size im) \<le> 18446744073709551616"
    and "length bs = unat (img_size im)" and "unat x \<notin> span im"
  shows "write_bytes m (img_load im) bs x = m x"
  using assms by (intro write_bytes_outside) (auto simp: in_range_of_interval span_def)

lemma load_images_outside:
  "copyable ims \<Longrightarrow> (\<And>im. im \<in> set ims \<Longrightarrow> executable im \<Longrightarrow> unat x \<notin> span im) \<Longrightarrow>
   load_images m ims x = m x"
proof (induction ims arbitrary: m)
  case (Cons im ims)
  note ih = Cons.IH [OF copyable_tl [OF Cons.prems(1)]]
  show ?case
  proof (cases "executable im")
    case False
    with ih Cons.prems(2) show ?thesis by (simp add: executable_def)
  next
    case True
    then have "write_bytes m (img_load im) (read_bytes m (img_data im) (unat (img_size im))) x = m x"
      using Cons.prems by (intro write_outside_span) (auto simp: copyable_def)
    with True ih Cons.prems show ?thesis
      by (simp add: memcpy_image [OF Cons.prems(1)] executable_def [symmetric])
  qed
qed simp

lemma read_outside_span:
  assumes "unat a + n \<le> 18446744073709551616"
    and "\<And>x. unat a \<le> unat x \<Longrightarrow> unat x < unat a + n \<Longrightarrow> m' x = m x"
  shows "read_bytes m' a n = read_bytes m a n"
proof (rule read_bytes_cong)
  fix i assume "i < n"
  then have "unat (a + of_nat i) = unat a + i" using assms(1) by (intro unat_add_nat) simp
  with \<open>i < n\<close> show "m' (a + of_nat i) = m (a + of_nat i)" by (intro assms(2)) simp_all
qed

text \<open>After the loop every executable image has its data at its load address.\<close>

lemma load_images_stores:
  "copyable ims \<Longrightarrow> im \<in> set ims \<Longrightarrow> executable im \<Longrightarrow>
   read_bytes (load_images m ims) (img_load im) (unat (img_size im))
     = read_bytes m (img_data im) (unat (img_size im))"
proof (induction ims arbitrary: m)
  case (Cons a ims)
  note tl = copyable_tl [OF Cons.prems(1)]
  let ?m = "if img_role a \<noteq> CHAIN_IMAGE_FDT
      then memcpy m (img_load a) (img_data a) (unat (img_size a)) else m"
  have bounds: "unat (img_load im) + unat (img_size im) \<le> 18446744073709551616"
      "unat (img_data im) + unat (img_size im) \<le> 18446744073709551616"
    using Cons.prems by (auto simp: copyable_def)
  show ?case
  proof (cases "im \<in> set ims")
    case True
    have "read_bytes ?m (img_data im) (unat (img_size im)) = read_bytes m (img_data im) (unat (img_size im))"
    proof (cases "executable a")
      case ex: True
      have "data_span im \<inter> span a = {}" using Cons.prems True ex by (auto simp: copyable_def)
      then have "?m x = m x" if "unat x \<in> data_span im" for x
        using that ex Cons.prems(1)
        by (auto simp: executable_def memcpy_image [OF Cons.prems(1) ex] copyable_def
            intro!: write_outside_span)
      then show ?thesis
        by (intro read_outside_span bounds) (simp add: data_span_def)
    qed (simp add: executable_def)
    with Cons.IH [OF tl True Cons.prems(3)] show ?thesis by simp
  next
    case False
    with Cons.prems have im: "im = a" by simp
    with Cons.prems(3) have ex: "executable a" by simp
    have m: "?m = write_bytes m (img_load a) (read_bytes m (img_data a) (unat (img_size a)))"
      using ex memcpy_image [OF Cons.prems(1) ex] by (simp add: executable_def)
    have "read_bytes (load_images ?m ims) (img_load im) (unat (img_size im))
        = read_bytes ?m (img_load im) (unat (img_size im))"
    proof (rule read_outside_span [OF bounds(1)])
      fix x :: addr assume "unat (img_load im) \<le> unat x" "unat x < unat (img_load im) + unat (img_size im)"
      then have "unat x \<in> span a" by (simp add: im span_def)
      then show "load_images ?m ims x = ?m x"
        using Cons.prems(1) ex by (intro load_images_outside [OF tl]) (auto simp: copyable_def)
    qed
    also have "\<dots> = read_bytes m (img_data im) (unat (img_size im))"
      unfolding m im by (rule read_write_same) (use unat_u64_less [of "img_size a"] in simp_all)
    finally show ?thesis by simp
  qed
qed simp

subsection \<open>The control device tree\<close>

lemma blob_eq_num_mem_rsv:
  assumes e: "blob_eq m m' d"
  shows "fdt_num_mem_rsv m' d = fdt_num_mem_rsv m d"
proof -
  have "fdt_num_mem_rsv_from m' d i = fdt_num_mem_rsv_from m d i" if "0 \<le> i" for i
    using e that
  proof (induction m d i rule: fdt_num_mem_rsv_from.induct)
    case (1 m d i)
    note e = "1.prems"(1)
    have rsv: "fdt_mem_rsv m' d i = fdt_mem_rsv m d i"
      by (simp only: fdt_mem_rsv_def blob_eq_header [OF e])
    show ?case
    proof (cases "268435456 \<le> i \<or> fdt_mem_rsv m d i = None")
      case True
      then show ?thesis by (auto simp: fdt_num_mem_rsv_from.simps [of _ d i] rsv)
    next
      case False
      then obtain re where re: "fdt_mem_rsv m d i = Some re" by auto
      let ?o = "fdt_off_mem_rsvmap m d"
      have o: "0 \<le> ?o" "?o < 4294967296" by (simp_all add: fdt_off_mem_rsvmap_def be32_less)
      have w: "wrap32 (i * 16) = i * 16" using False "1.prems" by (intro wrap32_id) auto
      have T: "(fdt_totalsize m d - 16) mod 18446744073709551616 = fdt_totalsize m d - 16"
        using e fdt_header_bounds(6) [of m d] by (simp add: blob_eq_def)
      from re have c: "?o \<le> wrap32 (?o + i * 16)" "wrap32 (?o + i * 16) \<le> fdt_totalsize m d - 16"
          "re = d + word_of_int (?o + i * 16)"
        by (auto simp: fdt_mem_rsv_def Let_def w T add.assoc split: if_splits)
      have "wrap32 (?o + i * 16) = ?o + i * 16"
        by (rule wrap32_add_ge) (use o c False "1.prems" in auto)
      with c o "1.prems" have b: "in_blob m d (?o + i * 16) 16" by simp
      have "be32 m' (re + 8) = be32 m (re + 8)" "be32 m' (re + 12) = be32 m (re + 12)"
        using blob_eq_be32 [OF e, of "?o + i * 16 + 8"] blob_eq_be32 [OF e, of "?o + i * 16 + 12"] b c(3)
        by (simp_all add: add.assoc)
      with "1.IH" [OF _ re] False "1.prems" show ?thesis
        by (auto simp: fdt_num_mem_rsv_from.simps [of _ d i] rsv re)
    qed
  qed
  then show ?thesis by (simp add: fdt_num_mem_rsv_def)
qed

lemma dtb_ok_same:
  assumes e: "blob_eq m m' d" and ok: "dtb_ok m d"
  shows "dtb_ok m' d"
proof -
  have "same_bytes d 40 m m'" using e by (auto simp: blob_eq_def intro: same_bytes_mono)
  then have "fdt_check_header m' d = fdt_check_header m d" by (rule fdt_check_header_same)
  with ok show ?thesis
    by (simp add: dtb_ok_def blob_eq_num_mem_rsv [OF e] fdt_blocks_misordered_def blob_eq_header [OF e])
qed

text \<open>The memory that the recording of the images needs to stay in place: the strings of the
  FIT, shorter than 1 GiB.\<close>

definition short_strings :: "mem \<Rightarrow> ChainImage \<Rightarrow> bool" where
  "short_strings m im \<longleftrightarrow> strlen m (img_name im) < 1073741823 \<and>
     (\<forall>p. img_type im = Some p \<longrightarrow> strlen m p < 1073741823) \<and>
     (\<forall>p. img_os im = Some p \<longrightarrow> strlen m p < 1073741823)"

lemma fdt_setprop_u32_keeps:
  assumes "fdt_layout m a T" and "length name < 1073741824"
    and "fdt_setprop_u32 m a node name v = (m', e)"
  shows "fdt_keeps a T m m'"
  by (rule fdt_setprop_keeps [OF assms(1) _ _ _ _ assms(3) [unfolded fdt_setprop_u32_def]])
    (use assms(2) in \<open>simp_all add: cstr_def be32_bytes_def\<close>)

lemma fdt_setprop_string_keeps:
  assumes "fdt_layout m a T" and "length name < 1073741824" and "strlen m str < 1073741823"
    and "fdt_setprop_string m a node name str = (m', e)"
  shows "fdt_keeps a T m m'"
  by (rule fdt_setprop_keeps [OF assms(1) _ _ _ _ assms(4) [unfolded fdt_setprop_string_def Let_def]])
    (use assms(2,3) in \<open>simp_all add: cstr_def\<close>)

lemma record_image_keeps:
  assumes k0: "fdt_keeps a T m0 m"
    and str: "\<And>m'. fdt_keeps a T m0 m' \<Longrightarrow> short_strings m' im"
    and rec: "record_image m a im = (m', e)"
  shows "fdt_keeps a T m0 m'"
proof -
  have step: "fdt_keeps a T m0 y" if "fdt_keeps a T m0 x" "fdt_layout x a T \<Longrightarrow> fdt_keeps a T x y" for x y
    using that fdt_keeps_layout fdt_keeps_trans by blast
  have name: "length (c_string x (img_name im)) < 1073741824" if "fdt_keeps a T m0 x" for x
    using str [OF that] by (simp add: c_string_def short_strings_def)
  obtain m1 parent where s1: "(let p = fdt_subnode_offset m a 0 (cstr ''fit-images'') in
      if p = - FDT_ERR_NOTFOUND then fdt_add_subnode m a 0 (cstr ''fit-images'') else (m, p)) = (m1, parent)"
    by fastforce
  have k1: "fdt_keeps a T m0 m1"
    by (rule step [OF k0])
      (use s1 in \<open>auto simp: Let_def cstr_def fdt_keeps_refl split: if_splits dest: fdt_add_subnode_keeps [rotated 2]\<close>)
  obtain m2 node where s2: "(let n = fdt_subnode_offset m1 a parent (c_string m1 (img_name im)) in
      if n = - FDT_ERR_NOTFOUND then fdt_add_subnode m1 a parent (c_string m1 (img_name im)) else (m1, n))
      = (m2, node)"
    by fastforce
  have k2: "fdt_keeps a T m0 m2"
    by (rule step [OF k1])
      (use s2 name [OF k1] in \<open>auto simp: Let_def fdt_keeps_refl split: if_splits dest: fdt_add_subnode_keeps [rotated 2]\<close>)
  obtain m3 e3 where s3: "fdt_setprop_u32 m2 a node ''load-addr'' (ucast (img_load im)) = (m3, e3)" by fastforce
  have k3: "fdt_keeps a T m0 m3" by (rule step [OF k2 fdt_setprop_u32_keeps [OF _ _ s3]]) simp_all
  obtain m4 e4 where s4: "fdt_setprop_u32 m3 a node ''size'' (ucast (img_size im)) = (m4, e4)" by fastforce
  have k4: "fdt_keeps a T m0 m4" by (rule step [OF k3 fdt_setprop_u32_keeps [OF _ _ s4]]) simp_all
  obtain m5 e5 where s5: "(if entry_explicit im
      then fdt_setprop_u32 m4 a node ''entry-point'' (ucast (img_entry im)) else (m4, 0)) = (m5, e5)" by fastforce
  have k5: "fdt_keeps a T m0 m5"
    by (rule step [OF k4])
      (use s5 in \<open>auto simp: fdt_keeps_refl split: if_splits dest: fdt_setprop_u32_keeps [rotated 2]\<close>)
  obtain m6 e6 where s6: "(case img_type im of None \<Rightarrow> (m5, 0)
      | Some t \<Rightarrow> fdt_setprop_string m5 a node ''type'' t) = (m6, e6)" by fastforce
  have k6: "fdt_keeps a T m0 m6"
    by (rule step [OF k5])
      (use s6 str [OF k5] in \<open>auto simp: fdt_keeps_refl short_strings_def split: option.splits
        dest: fdt_setprop_string_keeps [rotated 3]\<close>)
  obtain m7 e7 where s7: "(case img_os im of None \<Rightarrow> (m6, 0)
      | Some t \<Rightarrow> fdt_setprop_string m6 a node ''os'' t) = (m7, e7)" by fastforce
  have k7: "fdt_keeps a T m0 m7"
    by (rule step [OF k6])
      (use s7 str [OF k6] in \<open>auto simp: fdt_keeps_refl short_strings_def split: option.splits
        dest: fdt_setprop_string_keeps [rotated 3]\<close>)
  have "m' \<in> {m1, m2, m3, m4, m5, m6, m7}"
    using rec unfolding record_image_def
    by (simp only: s1 [unfolded Let_def] s2 [unfolded Let_def] s3 s4 s5 s6 s7 Let_def prod.case)
      (auto split: if_splits)
  with k1 k2 k3 k4 k5 k6 k7 show ?thesis by auto
qed

lemma record_images_keeps:
  "fdt_keeps a T m0 m \<Longrightarrow>
   (\<And>im m'. im \<in> set ims \<Longrightarrow> fdt_keeps a T m0 m' \<Longrightarrow> short_strings m' im) \<Longrightarrow>
   record_images m a ims = (m', ok) \<Longrightarrow> fdt_keeps a T m0 m'"
proof (induction ims arbitrary: m)
  case (Cons im ims)
  show ?case
  proof (cases "record_in_control_fdt im")
    case False
    with Cons.prems Cons.IH [of m] show ?thesis by simp
  next
    case True
    obtain m1 e where r: "record_image m a im = (m1, e)" by fastforce
    have "fdt_keeps a T m0 m1"
      by (rule record_image_keeps [OF Cons.prems(1) _ r]) (rule Cons.prems(2), simp)
    with True r Cons.prems Cons.IH [of m1] show ?thesis by (auto split: if_splits)
  qed
qed simp

subsection \<open>Loading an accepted plan\<close>

text \<open>The FIT lies in the staging memory, and is small enough for 32-bit sizes.\<close>

definition staged :: "mem \<Rightarrow> addr \<Rightarrow> ChainPlatform \<Rightarrow> bool" where
  "staged m fit platform \<longleftrightarrow> 40 \<le> fdt_totalsize m fit \<and> fdt_totalsize m fit < 1073741823 \<and>
     unat (fit_stage_start platform) \<le> unat fit \<and>
     unat fit + nat (fdt_totalsize m fit) \<le> unat (fit_stage_end platform)"

lemma staged_address:
  assumes st: "staged m fit platform" and k: "in_blob m fit k len"
  shows "unat (fit + word_of_int k) = unat fit + nat k"
    and "unat (fit_stage_start platform) \<le> unat (fit + word_of_int k)"
    and "unat (fit + word_of_int k) + nat len \<le> unat (fit_stage_end platform)"
proof -
  have e: "unat fit + nat (fdt_totalsize m fit) \<le> unat (fit_stage_end platform)"
      "unat (fit_stage_start platform) \<le> unat fit" "40 \<le> fdt_totalsize m fit"
    using st by (auto simp: staged_def)
  have n: "nat k + nat len \<le> nat (fdt_totalsize m fit)" using k e(3) by linarith
  have w: "(word_of_int k :: u64) = of_nat (nat k)" using k by simp
  have "nat k \<le> nat (fdt_totalsize m fit)" using n by simp
  then show u: "unat (fit + word_of_int k) = unat fit + nat k"
    unfolding w using e(1) unat_u64_less [of "fit_stage_end platform"]
    by (intro unat_add_nat) linarith
  show "unat (fit_stage_start platform) \<le> unat (fit + word_of_int k)"
    "unat (fit + word_of_int k) + nat len \<le> unat (fit_stage_end platform)"
    unfolding u using e n by linarith+
qed

lemma role_ok_no_wrap:
  assumes "role_ok platform im" and "executable im"
  shows "unat (img_load im) + unat (img_size im) < 18446744073709551616"
proof -
  obtain e where "unat (img_load im) + unat (img_size im) \<le> unat (e :: u64)"
    using assms by (auto simp: role_ok_def executable_def split: ChainImageRole.splits)
  then show ?thesis using unat_u64_less [of e] by linarith
qed

text \<open>An accepted plan for a staged FIT can be copied.\<close>

lemma data_span_staged:
  assumes "staged m fit platform" and "data_ok m fit im"
  shows "data_span im \<subseteq> {unat (fit_stage_start platform)..<unat (fit_stage_end platform)}"
proof -
  from assms(2) obtain k where k: "img_data im = fit + word_of_int k"
      "in_blob m fit k (uint (img_size im))"
    by (auto simp: data_ok_def)
  have "nat (uint (img_size im)) = unat (img_size im)" by simp
  with staged_address(2,3) [OF assms(1) k(2)] show ?thesis by (auto simp: data_span_def k(1))
qed

lemma plan_accepted_copyable:
  assumes acc: "plan_accepted m fit platform plan" and st: "staged m fit platform"
  shows "copyable (images plan)"
proof -
  have im: "data_ok m fit im" "role_ok platform im" if "im \<in> set (images plan)" for im
    using acc that by (auto simp: plan_accepted_def plan_inv_def)
  have ap: "apart (span im) platform" if "im \<in> set (images plan)" "executable im" for im
    using acc that by (auto simp: plan_accepted_def)
  have dj: "data_span a \<inter> span b = {}"
    if "a \<in> set (images plan)" "b \<in> set (images plan)" "executable b" for a b
    using data_span_staged [OF st im(1) [OF that(1)]] ap [OF that(2,3)]
    by (fastforce simp: apart_def)
  have "unat (img_data a) + unat (img_size a) \<le> 18446744073709551616" if "a \<in> set (images plan)" for a
  proof -
    from im(1) [OF that] obtain k where k: "img_data a = fit + word_of_int k"
      "in_blob m fit k (uint (img_size a))" by (auto simp: data_ok_def)
    have "nat (uint (img_size a)) = unat (img_size a)" by simp
    with staged_address(3) [OF st k(2)] unat_u64_less [of "fit_stage_end platform"] show ?thesis
      by (simp add: k(1))
  qed
  moreover have lw: "unat (img_load a) + unat (img_size a) \<le> 18446744073709551616"
    if "a \<in> set (images plan)" "executable a" for a
    using role_ok_no_wrap [OF im(2) [OF that(1)] that(2)] by simp
  moreover have "sorted_wrt (\<lambda>a b. executable a \<longrightarrow> executable b \<longrightarrow> span a \<inter> span b = {}) (images plan)"
    using acc by (auto simp: plan_accepted_def sorted_wrt_iff_nth_less)
  ultimately show ?thesis
    using dj lw by (auto simp: copyable_def)
qed


text \<open>A write that keeps to the executables and the control device tree leaves the staged FIT
  as it was.\<close>

lemma staged_blob_eq:
  assumes acc: "plan_accepted m fit platform plan" and st: "staged m fit platform"
    and same: "\<And>x. unat x \<notin> control_span plan \<Longrightarrow>
      (\<And>im. im \<in> set (images plan) \<Longrightarrow> executable im \<Longrightarrow> unat x \<notin> span im) \<Longrightarrow> m' x = m x"
  shows "blob_eq m m' fit"
    and "in_blob m fit k len \<Longrightarrow> 40 \<le> fdt_totalsize m (fit + word_of_int k) \<Longrightarrow>
      fdt_totalsize m (fit + word_of_int k) \<le> len \<Longrightarrow> blob_eq m m' (fit + word_of_int k)"
proof -
  have stage: "m' x = m x"
    if "unat (fit_stage_start platform) \<le> unat x" "unat x < unat (fit_stage_end platform)" for x
  proof (rule same)
    have "apart (control_span plan) platform" using acc by (simp add: plan_accepted_def control_ok_def)
    with that show "unat x \<notin> control_span plan" by (auto simp: apart_def)
    fix im assume "im \<in> set (images plan)" "executable im"
    then have "apart (span im) platform" using acc by (simp add: plan_accepted_def)
    with that show "unat x \<notin> span im" by (auto simp: apart_def)
  qed
  have at: "m' (fit + word_of_int j) = m (fit + word_of_int j)" if "in_blob m fit j 1" for j
    using staged_address [OF st that] by (intro stage) simp_all
  show "blob_eq m m' fit" using st at by (auto simp: blob_eq_def staged_def same_bytes_def)
  show "blob_eq m m' (fit + word_of_int k)" if b: "in_blob m fit k len"
    "40 \<le> fdt_totalsize m (fit + word_of_int k)" "fdt_totalsize m (fit + word_of_int k) \<le> len"
  proof -
    have "m' (fit + word_of_int k + word_of_int j) = m (fit + word_of_int k + word_of_int j)"
      if "0 \<le> j" "j < fdt_totalsize m (fit + word_of_int k)" for j
      using at [of "k + j"] that b by (simp add: add.assoc)
    then show ?thesis using b st by (auto simp: blob_eq_def same_bytes_def staged_def)
  qed
qed

lemma control_fdt_outside:
  fixes c :: u64
  assumes "unat c + nat n \<le> 18446744073709551616" and "0 \<le> n"
    and "\<not> (unat c \<le> unat x \<and> unat x < unat c + nat n)"
  shows "\<not> (0 \<le> uint (x - c) \<and> uint (x - c) < n)"
proof -
  have "\<not> in_range_of c (nat n) x" using assms by (simp add: in_range_of_interval)
  then have "\<not> uint (x - c) < int (nat n)"
    by (simp only: in_range_of_def unat_less_iff_uint not_False_eq_True)
  with assms(2) show ?thesis by simp
qed

text \<open>
  The loader writes to nothing but the load ranges of the executable images and the range of
  the control device tree, even when it fails, and an executable image that the control device
  tree does not cover has its verified bytes at its load address.
\<close>

text \<open>Opening the device tree and recording the images change nothing but the control device tree.\<close>

lemma control_fdt_size:
  assumes acc: "plan_accepted m fit platform plan" and st: "staged m fit platform"
  obtains d k where "fdt_index plan = Some d" "d < length (images plan)"
    "img_data (images plan ! d) = fit + word_of_int k" "in_blob m fit k (uint (img_size (images plan ! d)))"
    "uint (control_fdt_capacity plan) < 2147483648"
    "unat (control_fdt plan) + nat (uint (control_fdt_capacity plan)) \<le> 18446744073709551616"
proof -
  obtain d where d: "fdt_index plan = Some d" "d < length (images plan)"
    and capn: "unat (control_fdt_capacity plan) = unat (img_size (images plan ! d)) + 8192"
    and cend: "unat (control_fdt plan) + unat (control_fdt_capacity plan) \<le> unat (bl33_limit platform)"
    using acc by (auto simp: plan_accepted_def control_ok_def plan_inv_def index_ok_def)
  have "data_ok m fit (images plan ! d)" using acc d(2) by (auto simp: plan_accepted_def plan_inv_def)
  then obtain k where k: "img_data (images plan ! d) = fit + word_of_int k" "in_blob m fit k (uint (img_size (images plan ! d)))"
    by (auto simp: data_ok_def)
  have "uint (control_fdt_capacity plan) = uint (img_size (images plan ! d)) + 8192"
    using capn by (metis of_nat_add of_nat_numeral uint_nat)
  then have "uint (control_fdt_capacity plan) < 2147483648" using k(2) st by (auto simp: staged_def)
  moreover have "unat (control_fdt plan) + nat (uint (control_fdt_capacity plan)) \<le> 18446744073709551616"
    using cend unat_u64_less [of "bl33_limit platform"] by simp
  ultimately show thesis using that d k by blast
qed

lemma staged_strings_short:
  assumes acc: "plan_accepted m fit platform plan" and st: "staged m fit platform" and im: "im \<in> set (images plan)"
    and eq: "\<And>x. unat x \<notin> control_span plan \<Longrightarrow> mx x = load_images m (images plan) x"
  shows "short_strings mx im"
proof -
  have "blob_eq m mx fit"
    by (rule staged_blob_eq(1) [OF acc st]) (use load_images_outside [OF plan_accepted_copyable [OF acc st]] eq in auto)
  note b = this
  have "strlen mx p < 1073741823" if s: "str_in_blob m fit p" for p
  proof -
    from s obtain j n where j: "p = fit + word_of_int j" "in_blob m fit j (int n + 1)"
      "m (p + of_nat n) = 0" by (auto simp: str_in_blob_def)
    show ?thesis using blob_eq_strlen(1,2) [OF b j(2)] j st by (auto simp: staged_def)
  qed
  moreover have "data_ok m fit im" using acc im by (auto simp: plan_accepted_def plan_inv_def)
  ultimately show ?thesis by (auto simp: short_strings_def data_ok_def)
qed

lemma chain_fit_load_chg:
  assumes acc: "plan_accepted m fit platform plan" and st: "staged m fit platform"
    and dtb: "dtb_ok m (img_data (images plan ! the (fdt_index plan)))"
    and dsize: "fdt_totalsize m (img_data (images plan ! the (fdt_index plan)))
      \<le> uint (img_size (images plan ! the (fdt_index plan)))"
    and load: "chain_fit_load m plan = (m', r)"
  shows "chg (control_fdt plan) 0 (uint (control_fdt_capacity plan)) (load_images m (images plan)) m'"
proof -
  let ?dtb = "images plan ! the (fdt_index plan)" and ?c = "control_fdt plan"
  let ?cap = "uint (control_fdt_capacity plan)"
  define m1 where "m1 = load_images m (images plan)"
  obtain d k where d: "fdt_index plan = Some d" and k: "img_data ?dtb = fit + word_of_int k" "in_blob m fit k (uint (img_size ?dtb))"
    and cap: "0 \<le> ?cap" "?cap < 2147483648" and cwrap: "unat ?c + nat ?cap \<le> 18446744073709551616"
    by (rule control_fdt_size [OF acc st]) simp
  have icap: "to_int32 ?cap = ?cap" using cap by (intro to_int32_id) linarith+
  have out1: "m1 x = m x" if "\<And>im. im \<in> set (images plan) \<Longrightarrow> executable im \<Longrightarrow> unat x \<notin> span im" for x
    unfolding m1_def using that by (rule load_images_outside [OF plan_accepted_copyable [OF acc st]])
  note h = check_header_bounds [of m "img_data ?dtb"]
  have "blob_eq m m1 (img_data ?dtb)"
    unfolding k(1) by (rule staged_blob_eq(2) [OF acc st _ k(2)])
      (use dtb dsize h k out1 in \<open>auto simp: dtb_ok_def\<close>)
  note e1 = this dtb_ok_same [OF this dtb]
  have src: "unat (img_data ?dtb) + nat (fdt_totalsize m1 (img_data ?dtb)) \<le> 18446744073709551616"
  proof -
    have "nat (fdt_totalsize m (img_data ?dtb)) \<le> nat (uint (img_size ?dtb))" using dsize by (rule nat_mono)
    with staged_address(3) [OF st k(2)] show ?thesis
      using unat_u64_less [of "fit_stage_end platform"]
      unfolding blob_eq_header(2) [OF e1(1)] by (simp add: k(1))
  qed
  obtain m2 e where op: "fdt_open_into m1 (img_data ?dtb) ?c ?cap = (m2, e)" by fastforce
  note o = fdt_open_into_ok [OF e1(2) cap cwrap src op]
  show ?thesis
    unfolding m1_def [symmetric]
  proof (cases "e = 0")
    case False
    with load o(1) show "chg ?c 0 ?cap m1 m'"
      by (simp add: chain_fit_load_def m1_def [symmetric] icap op Let_def)
  next
    case True
    obtain m3 ok where rec: "record_images m2 ?c (images plan) = (m3, ok)" by fastforce
    have short: "short_strings mx im"
      if im: "im \<in> set (images plan)" and mx: "fdt_keeps ?c ?cap m1 mx" for im mx
      using mx control_fdt_outside [OF cwrap cap(1)] unfolding m1_def
      by (intro staged_strings_short [OF acc st im]) (auto simp: fdt_keeps_def chg_def control_span_def)
    have "fdt_keeps ?c ?cap m1 m3" by (rule record_images_keeps [OF o(2) [OF True] short rec])
    with load True show "chg ?c 0 ?cap m1 m'"
      by (auto simp: chain_fit_load_def m1_def [symmetric] icap op rec Let_def fdt_keeps_def split: if_splits)
  qed
qed

lemma chain_fit_load_ok:
  assumes acc: "plan_accepted m fit platform plan" and st: "staged m fit platform"
    and dtb: "dtb_ok m (img_data (images plan ! the (fdt_index plan)))"
    and dsize: "fdt_totalsize m (img_data (images plan ! the (fdt_index plan)))
      \<le> uint (img_size (images plan ! the (fdt_index plan)))"
    and load: "chain_fit_load m plan = (m', r)"
  shows "unat x \<notin> control_span plan \<Longrightarrow>
      (\<And>im. im \<in> set (images plan) \<Longrightarrow> executable im \<Longrightarrow> unat x \<notin> span im) \<Longrightarrow> m' x = m x"
    and "im \<in> set (images plan) \<Longrightarrow> executable im \<Longrightarrow> span im \<inter> control_span plan = {} \<Longrightarrow>
      read_bytes m' (img_load im) (unat (img_size im)) = read_bytes m (img_data im) (unat (img_size im))"
proof -
  note cp = plan_accepted_copyable [OF acc st]
  let ?m1 = "load_images m (images plan)"
  have cwrap: "unat (control_fdt plan) + nat (uint (control_fdt_capacity plan)) \<le> 18446744073709551616"
    by (rule control_fdt_size [OF acc st]) simp
  have out2: "m' x = ?m1 x" if "unat x \<notin> control_span plan" for x
    using chain_fit_load_chg [OF assms] control_fdt_outside [OF cwrap] that by (auto simp: chg_def control_span_def)
  show "m' x = m x" if "unat x \<notin> control_span plan"
    "\<And>im. im \<in> set (images plan) \<Longrightarrow> executable im \<Longrightarrow> unat x \<notin> span im"
    using load_images_outside [OF cp] out2 that by simp
  show "read_bytes m' (img_load im) (unat (img_size im)) = read_bytes m (img_data im) (unat (img_size im))"
    if im: "im \<in> set (images plan)" "executable im" "span im \<inter> control_span plan = {}"
  proof -
    have "read_bytes m' (img_load im) (unat (img_size im)) = read_bytes ?m1 (img_load im) (unat (img_size im))"
    proof (rule read_outside_span)
      show "unat (img_load im) + unat (img_size im) \<le> 18446744073709551616"
        using cp im by (simp add: copyable_def)
      fix x :: addr
      assume "unat (img_load im) \<le> unat x" "unat x < unat (img_load im) + unat (img_size im)"
      with im(3) show "m' x = ?m1 x" by (intro out2) (auto simp: span_def)
    qed
    also have "\<dots> = read_bytes m (img_data im) (unat (img_size im))"
      by (rule load_images_stores [OF cp im(1,2)])
    finally show ?thesis .
  qed
qed

end
