(* ===== verification/Tfa.thy ===== *)
theory Tfa
  imports Clib
begin

text \<open>
  The TF-A v1 parameter block of src/chainload/tf_a.c: five C structures that
  \<open>chain_build_bl31_params\<close> lays out in memory at a given address and that BL31 reads by
  following pointers. A field is its offset in the structure (AArch64 layout: a
  \<open>struct ParamHeader\<close> is 8 bytes, pointers are 8 bytes and aligned), a structure inside
  \<open>struct Bl31ParamMemory\<close> is its offset there.
\<close>

subsection \<open>The code\<close>

abbreviation (input) ATF_PARAM_EP :: u8 where "ATF_PARAM_EP \<equiv> 0x01"
abbreviation (input) ATF_PARAM_IMAGE_BINARY :: u8 where "ATF_PARAM_IMAGE_BINARY \<equiv> 0x02"
abbreviation (input) ATF_PARAM_BL31 :: u8 where "ATF_PARAM_BL31 \<equiv> 0x03"
abbreviation (input) ATF_VERSION_1 :: u8 where "ATF_VERSION_1 \<equiv> 0x01"
abbreviation (input) ATF_EP_NON_SECURE :: u32 where "ATF_EP_NON_SECURE \<equiv> 0x01"
abbreviation (input) SPSR_EL2H_MASKED :: u32 where "SPSR_EL2H_MASKED \<equiv> 0x3c9"

text \<open>The sizes of the structures.\<close>

abbreviation (input) sizeof_Bl31Params :: u16 where "sizeof_Bl31Params \<equiv> 48"
abbreviation (input) sizeof_ImageInfo :: u16 where "sizeof_ImageInfo \<equiv> 24"
abbreviation (input) sizeof_EntryPointInfo :: u16 where "sizeof_EntryPointInfo \<equiv> 88"
abbreviation (input) sizeof_Bl31ParamMemory :: nat where "sizeof_Bl31ParamMemory \<equiv> 184"

definition header :: "mem \<Rightarrow> addr \<Rightarrow> u8 \<Rightarrow> u16 \<Rightarrow> u32 \<Rightarrow> mem" where
  "header m h type' size' attr =
     (let m = store_le 1 m h (ucast type');
          m = store_le 1 m (h + 1) (ucast ATF_VERSION_1);
          m = store_le 2 m (h + 2) (ucast size')
      in store_le 4 m (h + 4) (ucast attr))"

text \<open>The four members of \<open>struct Bl31ParamMemory\<close>.\<close>

abbreviation (input) p_bl31_image :: "addr \<Rightarrow> addr" where "p_bl31_image a \<equiv> a + 48"
abbreviation (input) p_bl33_image :: "addr \<Rightarrow> addr" where "p_bl33_image a \<equiv> a + 72"
abbreviation (input) p_bl33_ep :: "addr \<Rightarrow> addr" where "p_bl33_ep a \<equiv> a + 96"

text \<open>The processor's affinity register is an argument.\<close>

definition chain_build_bl31_params ::
    "u64 \<Rightarrow> mem \<Rightarrow> addr \<Rightarrow> u64 \<Rightarrow> u64 \<Rightarrow> u64 \<Rightarrow> u64 \<Rightarrow> u64 \<Rightarrow> mem \<times> addr" where
  "chain_build_bl31_params mpidr m address bl31_entry bl31_size bl33_entry bl33_base bl33_size =
     (let m = memset m address 0 sizeof_Bl31ParamMemory;
          m = header m address ATF_PARAM_BL31 sizeof_Bl31Params 0;
          m = header m (p_bl31_image address) ATF_PARAM_IMAGE_BINARY sizeof_ImageInfo 0;
          m = header m (p_bl33_image address) ATF_PARAM_IMAGE_BINARY sizeof_ImageInfo 0;
          m = header m (p_bl33_ep address) ATF_PARAM_EP sizeof_EntryPointInfo ATF_EP_NON_SECURE;
          m = store_le 8 m (p_bl31_image address + 8) bl31_entry;
          m = store_le 4 m (p_bl31_image address + 16) bl31_size;
          m = store_le 8 m (p_bl33_image address + 8) bl33_base;
          m = store_le 4 m (p_bl33_image address + 16) bl33_size;
          m = store_le 8 m (p_bl33_ep address + 8) bl33_entry;
          m = store_le 4 m (p_bl33_ep address + 16) (ucast SPSR_EL2H_MASKED);
          m = store_le 8 m (p_bl33_ep address + 24) (mpidr AND 0xffff);
          m = store_le 8 m (address + 8) (p_bl31_image address);
          m = store_le 8 m (address + 16) 0;
          m = store_le 8 m (address + 24) 0;
          m = store_le 8 m (address + 32) (p_bl33_ep address);
          m = store_le 8 m (address + 40) (p_bl33_image address)
      in (m, address))"

subsection \<open>What BL31 reads\<close>

text \<open>
  The structures as BL31 sees them: it is handed the address of the \<open>bl31_params\<close>
  structure and follows the pointers in it. A null pointer stands for an image that is
  absent.
\<close>

record param_header =
  ph_type :: u64
  ph_version :: u64
  ph_size :: u64
  ph_attr :: u64

record image_info =
  ii_header :: param_header
  ii_base :: u64
  ii_size :: u64

record entry_point_info =
  ep_header :: param_header
  ep_pc :: u64
  ep_spsr :: u64
  ep_args :: "u64 list"

record bl31_params =
  bp_header :: param_header
  bp_bl31_image :: "image_info option"
  bp_bl32_ep :: "entry_point_info option"
  bp_bl32_image :: "image_info option"
  bp_bl33_ep :: "entry_point_info option"
  bp_bl33_image :: "image_info option"

definition read_header :: "mem \<Rightarrow> addr \<Rightarrow> param_header" where
  "read_header m a = \<lparr>ph_type = load_le 1 m a, ph_version = load_le 1 m (a + 1),
     ph_size = load_le 2 m (a + 2), ph_attr = load_le 4 m (a + 4)\<rparr>"

definition read_image_info :: "mem \<Rightarrow> addr \<Rightarrow> image_info" where
  "read_image_info m a = \<lparr>ii_header = read_header m a, ii_base = load_le 8 m (a + 8),
     ii_size = load_le 4 m (a + 16)\<rparr>"

definition read_entry_point :: "mem \<Rightarrow> addr \<Rightarrow> entry_point_info" where
  "read_entry_point m a = \<lparr>ep_header = read_header m a, ep_pc = load_le 8 m (a + 8),
     ep_spsr = load_le 4 m (a + 16), ep_args = map (\<lambda>k. load_le 8 m (a + k)) [24, 32, 40, 48, 56, 64, 72, 80]\<rparr>"

definition follow :: "(mem \<Rightarrow> addr \<Rightarrow> 'a) \<Rightarrow> mem \<Rightarrow> addr \<Rightarrow> 'a option" where
  "follow get m p = (if load_le 8 m p = 0 then None else Some (get m (load_le 8 m p)))"

definition read_bl31_params :: "mem \<Rightarrow> addr \<Rightarrow> bl31_params" where
  "read_bl31_params m a = \<lparr>bp_header = read_header m a,
     bp_bl31_image = follow read_image_info m (a + 8),
     bp_bl32_ep = follow read_entry_point m (a + 16),
     bp_bl32_image = follow read_image_info m (a + 24),
     bp_bl33_ep = follow read_entry_point m (a + 32),
     bp_bl33_image = follow read_image_info m (a + 40)\<rparr>"

subsection \<open>A cleared block\<close>

subsection \<open>The block is what BL31 expects\<close>

definition param_stores :: "u64 \<Rightarrow> addr \<Rightarrow> u64 \<Rightarrow> u64 \<Rightarrow> u64 \<Rightarrow> u64 \<Rightarrow> u64 \<Rightarrow> (nat \<times> nat \<times> u64) list" where
  "param_stores mpidr a e31 s31 e33 b33 s33 =
     [(40, 8, a + 72), (32, 8, a + 96), (24, 8, 0), (16, 8, 0), (8, 8, a + 48),
      (120, 8, mpidr AND 0xffff), (112, 4, 0x3c9), (104, 8, e33), (88, 4, s33), (80, 8, b33),
      (64, 4, s31), (56, 8, e31),
      (100, 4, 1), (98, 2, 88), (97, 1, 1), (96, 1, 1),
      (76, 4, 0), (74, 2, 24), (73, 1, 1), (72, 1, 2),
      (52, 4, 0), (50, 2, 24), (49, 1, 1), (48, 1, 2),
      (4, 4, 0), (2, 2, 48), (1, 1, 1), (0, 1, 3)]"

lemma chain_build_stores:
  "chain_build_bl31_params mpidr m a e31 s31 e33 b33 s33 =
     (stores (memset m a 0 184) a (param_stores mpidr a e31 s31 e33 b33 s33), a)"
  by (simp add: chain_build_bl31_params_def Let_def header_def param_stores_def add.assoc)

lemma load_param:
  assumes "stored (Some 0) (param_stores mpidr a e31 s31 e33 b33 s33) j l = Some v" and "j + l \<le> 184"
  shows "load_le l (fst (chain_build_bl31_params mpidr m a e31 s31 e33 b33 s33)) (a + of_nat j) = v"
  unfolding chain_build_stores fst_conv
  by (rule load_stores [OF assms(1) _ assms(2)]) (simp_all add: param_stores_def load_memset assms(2))

lemma load_param_numeral:
  assumes "stored (Some 0) (param_stores mpidr a e31 s31 e33 b33 s33) (numeral j) l = Some v"
    and "numeral j + l \<le> 184"
  shows "load_le l (fst (chain_build_bl31_params mpidr m a e31 s31 e33 b33 s33)) (a + numeral j) = v"
  using load_param [OF assms] by simp

text \<open>The block that \<open>expected_params\<close> describes.\<close>

definition expected_params :: "u64 \<Rightarrow> u64 \<Rightarrow> u64 \<Rightarrow> u64 \<Rightarrow> u64 \<Rightarrow> u64 \<Rightarrow> bl31_params" where
  "expected_params mpidr e31 s31 e33 b33 s33 =
     (let image_header = \<lparr>ph_type = 2, ph_version = 1, ph_size = 24, ph_attr = 0\<rparr> in
      \<lparr>bp_header = \<lparr>ph_type = 3, ph_version = 1, ph_size = 48, ph_attr = 0\<rparr>,
       bp_bl31_image = Some \<lparr>ii_header = image_header, ii_base = e31, ii_size = take_bit 32 s31\<rparr>,
       bp_bl32_ep = None, bp_bl32_image = None,
       bp_bl33_ep = Some \<lparr>ep_header = \<lparr>ph_type = 1, ph_version = 1, ph_size = 88, ph_attr = 1\<rparr>,
         ep_pc = e33, ep_spsr = 0x3c9, ep_args = [take_bit 16 mpidr, 0, 0, 0, 0, 0, 0, 0]\<rparr>,
       bp_bl33_image = Some \<lparr>ii_header = image_header, ii_base = b33, ii_size = take_bit 32 s33\<rparr>\<rparr>)"

lemma params_nonzero:
  fixes address :: addr
  assumes "address \<noteq> 0" and "unat address + 184 \<le> 18446744073709551616" and "k < 184"
  shows "address + of_nat k \<noteq> 0"
proof -
  have "unat (address + of_nat k) = unat address + k" using assms(2,3) by (intro unat_add_nat) simp
  then show ?thesis using assms(1) by (metis add_is_0 unat_0 unat_eq_0)
qed

lemma and_ffff: "x AND 0xffff = take_bit 16 (x :: u64)"
  by (simp add: take_bit_eq_mask mask_eq_exp_minus_1)

lemma read_built_params:
  assumes "address \<noteq> 0" and "unat address + 184 \<le> 18446744073709551616"
  shows "read_bl31_params (fst (chain_build_bl31_params mpidr m address e31 s31 e33 b33 s33)) address
    = expected_params mpidr e31 s31 e33 b33 s33"
proof -
  let ?m = "fst (chain_build_bl31_params mpidr m address e31 s31 e33 b33 s33)"
  have h0: "load_le (Suc 0) ?m address = 3" "load_le (Suc 0) ?m (address + 1) = 1"
    using load_param [of mpidr address e31 s31 e33 b33 s33 0 1 3]
      load_param [of mpidr address e31 s31 e33 b33 s33 1 1 1]
    by (simp_all add: param_stores_def)
  have nz: "address + 48 \<noteq> 0" "address + 72 \<noteq> 0" "address + 96 \<noteq> 0"
    using params_nonzero [OF assms, of 48] params_nonzero [OF assms, of 72]
      params_nonzero [OF assms, of 96] by simp_all
  note ld = load_param_numeral [of mpidr address e31 s31 e33 b33 s33]
  show ?thesis
    unfolding expected_params_def Let_def read_bl31_params_def follow_def read_header_def read_image_info_def read_entry_point_def
    by (simp add: h0 ld param_stores_def assms(1) nz and_ffff add.assoc take_bit_word_eq_self)
qed

lemma build_params_outside:
  "\<not> in_range_of address 184 x \<Longrightarrow>
   fst (chain_build_bl31_params mpidr m address e31 s31 e33 b33 s33) x = m x"
  unfolding chain_build_stores fst_conv
  by (subst stores_outside [where N = 184])
    (simp_all add: param_stores_def memset_write write_bytes_outside)

lemma chain_params_read:
  assumes "address \<noteq> 0" and "unat address + 184 \<le> 18446744073709551616"
    and "chain_build_bl31_params mpidr m address e31 s31 e33 b33 s33 = (m', p)"
  shows "p = address \<and> read_bl31_params m' p = expected_params mpidr e31 s31 e33 b33 s33 \<and>
    (\<forall>x. \<not> in_range_of address 184 x \<longrightarrow> m' x = m x)"
proof -
  have m': "m' = fst (chain_build_bl31_params mpidr m address e31 s31 e33 b33 s33)" "p = address"
    using assms(3) by (auto simp: chain_build_stores)
  show ?thesis using read_built_params [OF assms(1,2)] build_params_outside by (simp add: m')
qed

text \<open>C11. The block that \<open>chain_build_bl31_params\<close> lays out is the one BL31 reads back by following
  the pointers in it: the image information of BL31 and BL33, and an entry point for a
  non-secure BL33 at EL2 with interrupts masked and the processor's affinity as its first
  argument; there is no BL32. It writes to the 184 bytes of the block only.\<close>

theorem chain_params_roundtrip:
  assumes "address \<noteq> 0" and "unat address + 184 \<le> 18446744073709551616"
    and "chain_build_bl31_params mpidr m address e31 s31 e33 b33 s33 = (m', p)"
  shows "p = address \<and> read_bl31_params m' p = expected_params mpidr e31 s31 e33 b33 s33 \<and>
    (\<forall>x. \<not> in_range_of address 184 x \<longrightarrow> m' x = m x)"
  by (rule chain_params_read [OF assms])

lemma chain_params_roundtrip_witness:
  "read_bl31_params (fst (chain_build_bl31_params 0x80000000 (\<lambda>_. 0xff) 0x100000 0x40000 0x30000
     0x800000 0x800000 0x90000)) 0x100000
   = expected_params 0x80000000 0x40000 0x30000 0x800000 0x800000 0x90000"
  using chain_params_roundtrip [OF _ _ prod.collapse [symmetric],
      of "0x100000" "0x80000000" "\<lambda>_. 0xff" "0x40000" "0x30000" "0x800000" "0x800000" "0x90000"]
  by (simp add: chain_build_stores)

end
