(* ===== verification/Chainload.thy ===== *)
theory Chainload
  imports Rk3568 Fit_Load Tfa
begin

text \<open>
  The chainloader itself (src/chainload/loader.c and \<open>c_entry\<close> in rk3568.c): it stages the
  appended FIT, parses it, prepares the platform, loads the images, builds the parameters
  for BL31, cleans the caches and enters BL31, or it ends in the board's recovery.
\<close>

subsection \<open>The code\<close>

text \<open>The two ways in which \<open>chainload_run\<close> ends.\<close>

datatype chain_exit =
    Recovered string string
  | EnteredBL31 u64 addr

type_synonym chain_result = "(chain_exit \<times> mem \<times> history) option"

definition fail :: "ChainPlatform \<Rightarrow> string \<Rightarrow> string \<Rightarrow> mem \<Rightarrow> history \<Rightarrow> chain_result" where
  "fail platform stage reason m t =
     do { t \<leftarrow> recover platform stage reason t; Some (Recovered stage reason, m, t) }"

text \<open>The sizes of the BL31 segments.\<close>

fun bl31_total :: "ChainImage list \<Rightarrow> u64 \<Rightarrow> u64" where
  "bl31_total [] bl31_bytes = bl31_bytes"
| "bl31_total (im # ims) bl31_bytes =
     bl31_total ims (if img_role im = CHAIN_IMAGE_BL31 then bl31_bytes + img_size im else bl31_bytes)"

fun clean_images :: "ChainPlatform \<Rightarrow> ChainImage list \<Rightarrow> history \<Rightarrow> history option" where
  "clean_images platform [] t = Some t"
| "clean_images platform (im # ims) t =
     (let end' = img_load im + img_size im in
      do {
        t \<leftarrow> (if img_role im \<noteq> CHAIN_IMAGE_FDT \<and>
               (case range_is_cacheable platform of None \<Rightarrow> True | Some f \<Rightarrow> f (img_load im) end')
              then dcache_clean (img_load im) end' t else Some t);
        clean_images platform ims t
      })"

text \<open>From the loading of the images on.\<close>

definition chain_enter :: "device \<Rightarrow> addr \<Rightarrow> u64 \<Rightarrow> ChainPlatform \<Rightarrow> ChainFitPlan \<Rightarrow> mem \<Rightarrow> history \<Rightarrow> chain_result" where
  "chain_enter dev uart mpidr platform plan m t =
     (case chain_fit_load m plan of
        (m, Some reason) \<Rightarrow> fail platform ''load'' reason m t
      | (m, None) \<Rightarrow>
          let uboot = images plan ! the (bl33_index plan);
              (m, params) = chain_build_bl31_params mpidr m (params_addr platform) (bl31_entry plan)
                (bl31_total (images plan) 0) (bl33_entry plan) (img_load uboot) (img_size uboot)
          in do {
            t \<leftarrow> clean_images platform (images plan) t;
            t \<leftarrow> dcache_clean (control_fdt plan) (control_fdt plan + control_fdt_capacity plan) t;
            t \<leftarrow> dcache_clean (params_addr platform) (params_addr platform + CHAIN_PARAMS_RESERVE) t;
            t \<leftarrow> puts dev uart (chars ''chainload: entering BL31'') t;
            Some (EnteredBL31 (bl31_entry plan) params, m, t)
          })"

text \<open>From a parsed plan on. The stack, of which \<open>debug\<close> takes its buffer, is an argument.\<close>

definition chain_boot :: "device \<Rightarrow> addr \<Rightarrow> (int \<Rightarrow> u8) \<Rightarrow> u64 \<Rightarrow> ChainPlatform \<Rightarrow> u64 \<Rightarrow> ChainFitPlan
    \<Rightarrow> mem \<Rightarrow> history \<Rightarrow> chain_result" where
  "chain_boot dev uart stack mpidr platform fit_size plan m t =
     do {
       t \<leftarrow> debug dev uart stack (chars ''chainload: FIT bytes '') fit_size t;
       t \<leftarrow> debug dev uart stack (chars ''chainload: BL31 segments '') (of_nat (bl31_count plan)) t;
       (err, t) \<leftarrow> (case prepare_handoff platform of None \<Rightarrow> Some (0, t) | Some prepare \<Rightarrow> prepare t);
       if err \<noteq> 0 then fail platform ''prepare'' ''platform pre-BL31 preparation failed'' m t
       else chain_enter dev uart mpidr platform plan m t
     }"

definition chainload_run :: "device \<Rightarrow> addr \<Rightarrow> (int \<Rightarrow> u8) \<Rightarrow> u64 \<Rightarrow> ChainPlatform \<Rightarrow> addr
    \<Rightarrow> mem \<Rightarrow> history \<Rightarrow> chain_result" where
  "chainload_run dev uart stack mpidr platform appended_fit m t =
     (if fit_stage_end platform \<le> fit_stage_start platform
      then fail platform ''policy'' ''invalid FIT staging arena'' m t
      else if handoff_protocol platform \<noteq> 1
      then fail platform ''policy'' ''unsupported BL31/BL33 handoff protocol'' m t
      else let stage_capacity = fit_stage_end platform - fit_stage_start platform in
      do {
        t \<leftarrow> puts dev uart (chars ''chainload: validating appended FIT'') t;
        if fdt_check_header m appended_fit \<noteq> 0
        then fail platform ''stage'' ''invalid appended FIT header'' m t
        else let fit_size = word_of_int (fdt_totalsize m appended_fit) in
        if fit_size < 40 \<or> fit_size > stage_capacity
        then fail platform ''stage'' ''FIT exceeds board staging arena'' m t
        else let m = memcpy m (fit_stage_start platform) appended_fit (unat fit_size) in
        case chain_fit_parse m (fit_stage_start platform) fit_size platform of
          Inl reason \<Rightarrow> fail platform ''validate'' reason m t
        | Inr plan \<Rightarrow> chain_boot dev uart stack mpidr platform fit_size plan m t
      })"

text \<open>The entry point of the chainloader (rk3568.c).\<close>

definition c_entry :: "device \<Rightarrow> (int \<Rightarrow> u8) \<Rightarrow> u64 \<Rightarrow> ChainPlatform \<Rightarrow> addr \<Rightarrow> addr
    \<Rightarrow> mem \<Rightarrow> history \<Rightarrow> chain_result" where
  "c_entry dev stack mpidr config page_tables fit_start m t =
     (let platform = board_platform dev config;
          t = CntFreq 24000000 # t;
          t = enable_uart t;
          t = uart_init dev UART2_BASE 1500000 t
      in do {
        t \<leftarrow> puts dev UART2_BASE (chars ''rk chainloader'') t;
        t \<leftarrow> puts dev UART2_BASE (chars (board platform)) t;
        t \<leftarrow> puts dev UART2_BASE (chars (soc platform)) t;
        let (source, t) = get_boot_source platform t;
        t \<leftarrow> puts dev UART2_BASE (chars source) t;
        let m = plat_setup_mmu page_tables m;
        let t = plat_enable_mmu page_tables t;
        chainload_run dev UART2_BASE stack mpidr platform fit_start m t
      })"

subsection \<open>What BL31 finds\<close>

text \<open>The control device tree that the plan takes from the FIT is well formed, and not longer than
  the data it is in. The code checks its hash, but not this.\<close>

definition control_dtb_ok :: "mem \<Rightarrow> ChainFitPlan \<Rightarrow> bool" where
  "control_dtb_ok m plan \<longleftrightarrow>
     (let dtb = images plan ! the (fdt_index plan) in
      dtb_ok m (img_data dtb) \<and> fdt_totalsize m (img_data dtb) \<le> uint (img_size dtb))"

text \<open>The state in which BL31 is entered, where \<open>m\<close> is the memory with the staged FIT and \<open>m'\<close> the
  memory at the end.\<close>

definition handed_over :: "u64 \<Rightarrow> ChainPlatform \<Rightarrow> ChainFitPlan \<Rightarrow> mem \<Rightarrow> mem \<Rightarrow> bool" where
  "handed_over mpidr platform plan m m' \<longleftrightarrow>
     (\<forall>im \<in> set (images plan). executable im \<longrightarrow>
        read_bytes m' (img_load im) (unat (img_size im)) = read_bytes m (img_data im) (unat (img_size im))) \<and>
     (let uboot = images plan ! the (bl33_index plan) in
      read_bl31_params m' (params_addr platform) = expected_params mpidr (expected_bl31_entry platform)
        (bl31_total (images plan) 0) (expected_bl33_entry platform) (img_load uboot) (img_size uboot)) \<and>
     (\<forall>x. unat x \<notin> control_span plan \<longrightarrow> (\<forall>im \<in> set (images plan). executable im \<longrightarrow> unat x \<notin> span im) \<longrightarrow>
        \<not> in_range_of (params_addr platform) 184 x \<longrightarrow> m' x = m x)"

lemma fail_not_entered: "fail platform stage reason m t \<noteq> Some (EnteredBL31 entry params, m', t')"
  by (auto simp: fail_def split: bind_splits)

text \<open>The board keeps BL31's memory and U-Boot's apart. The code relies on it: it does not compare
  the range of the control device tree, which ends below U-Boot's limit, with BL31's segments.\<close>

definition bl31_apart :: "ChainPlatform \<Rightarrow> bool" where
  "bl31_apart platform \<longleftrightarrow> (\<forall>r \<in> set (bl31_ranges platform).
     unat (range_end r) \<le> unat (expected_bl33_entry platform) \<or>
     unat (bl33_limit platform) \<le> unat (range_start r))"

lemma control_apart:
  assumes acc: "plan_accepted m fit platform plan" and ok: "bl31_apart platform"
    and im: "im \<in> set (images plan)" "executable im"
  shows "span im \<inter> control_span plan = {}"
proof -
  obtain u where u: "bl33_index plan = Some u"
    "unat (control_fdt plan) = unat (img_load (images plan ! u)) + unat (img_size (images plan ! u))"
    "unat (control_fdt plan) + unat (control_fdt_capacity plan) \<le> unat (bl33_limit platform)"
    using acc by (auto simp: plan_accepted_def control_ok_def)
  have idx: "index_ok CHAIN_IMAGE_BL33 (bl33_index plan) (images plan)"
    using acc by (simp add: plan_accepted_def plan_inv_def)
  then have uu: "u < length (images plan)" "img_role (images plan ! u) = CHAIN_IMAGE_BL33"
    using u(1) by (auto simp: index_ok_def)
  have role: "role_ok platform i" if "i \<in> set (images plan)" for i
    using acc that by (simp add: plan_accepted_def plan_inv_def)
  have entry: "unat (expected_bl33_entry platform) \<le> unat (control_fdt plan)"
    using role [of "images plan ! u"] uu u(2) by (simp add: role_ok_def)
  obtain i where i: "i < length (images plan)" "images plan ! i = im" using im(1) by (auto simp: in_set_conv_nth)
  show ?thesis
  proof (cases "img_role im")
    case CHAIN_IMAGE_BL33
    then have "i = u" using i idx u(1) by (auto simp: index_ok_def)
    with i u(2) show ?thesis by (auto simp: span_def control_span_def)
  next
    case CHAIN_IMAGE_BL31
    then obtain r where r: "r \<in> set (bl31_ranges platform)" "unat (range_start r) \<le> unat (img_load im)"
      "unat (img_load im) + unat (img_size im) \<le> unat (range_end r)"
      using role [OF im(1)] by (auto simp: role_ok_def)
    with ok have "unat (range_end r) \<le> unat (expected_bl33_entry platform) \<or>
        unat (bl33_limit platform) \<le> unat (range_start r)" by (auto simp: bl31_apart_def)
    with r u(3) entry show ?thesis by (auto simp: span_def control_span_def)
  qed (use im(2) in \<open>simp add: executable_def\<close>)
qed

lemma chain_enter_entry:
  assumes acc: "plan_accepted m fit platform plan"
    and run: "chain_enter dev uart mpidr platform plan m t = Some (EnteredBL31 entry params, m', t')"
  shows "entry = expected_bl31_entry platform" and "params = params_addr platform"
  using run acc fail_not_entered
  by (auto simp: chain_enter_def chain_build_stores Let_def plan_accepted_def
      split: option.splits bind_splits prod.splits)

lemma chain_enter_handed_over:
  assumes acc: "plan_accepted m fit platform plan" and st: "staged m fit platform"
    and ap: "bl31_apart platform" and dtb: "control_dtb_ok m plan" and pa: "params_addr platform \<noteq> 0"
      "unat (params_addr platform) + 1024 \<le> 18446744073709551616"
    and run: "chain_enter dev uart mpidr platform plan m t = Some (EnteredBL31 entry params, m', t')"
  shows "entry = expected_bl31_entry platform \<and> params = params_addr platform \<and>
    handed_over mpidr platform plan m m'"
proof -
  let ?u = "images plan ! the (bl33_index plan)" and ?p = "params_addr platform"
  obtain m1 r where load: "chain_fit_load m plan = (m1, r)" by fastforce
  obtain m2 p where b: "chain_build_bl31_params mpidr m1 ?p (bl31_entry plan)
      (bl31_total (images plan) 0) (bl33_entry plan) (img_load ?u) (img_size ?u) = (m2, p)"
    by fastforce
  have res: "r = None" "entry = bl31_entry plan" "params = p" "m' = m2"
    using run b fail_not_entered
    by (auto simp: chain_enter_def load Let_def split: option.splits bind_splits)
  have e: "bl31_entry plan = expected_bl31_entry platform" "bl33_entry plan = expected_bl33_entry platform"
    using acc by (auto simp: plan_accepted_def)
  have "unat ?p + 184 \<le> 18446744073709551616" using pa(2) by simp
  note rt = chain_params_read [OF pa(1) this b]
  note ld = chain_fit_load_ok [OF acc st dtb [unfolded control_dtb_ok_def Let_def, THEN conjunct1]
    dtb [unfolded control_dtb_ok_def Let_def, THEN conjunct2] load]
  have images: "read_bytes m' (img_load im) (unat (img_size im)) = read_bytes m (img_data im) (unat (img_size im))"
    if im: "im \<in> set (images plan)" "executable im" for im
  proof -
    have "read_bytes m' (img_load im) (unat (img_size im)) = read_bytes m1 (img_load im) (unat (img_size im))"
    proof (rule read_outside_span)
      show "unat (img_load im) + unat (img_size im) \<le> 18446744073709551616"
        using plan_accepted_copyable [OF acc st] im by (simp add: copyable_def)
      fix x :: addr
      assume "unat (img_load im) \<le> unat x" "unat x < unat (img_load im) + unat (img_size im)"
      then have "unat x \<in> span im" by (simp add: span_def)
      moreover have "apart (span im) platform" using acc im by (simp add: plan_accepted_def)
      ultimately have "\<not> (unat ?p \<le> unat x \<and> unat x < unat ?p + 1024)" by (auto simp: apart_def)
      then have "\<not> in_range_of ?p 184 x" using pa(2) by (auto simp: in_range_of_interval)
      with rt show "m' x = m1 x" by (simp add: res)
    qed
    with ld(2) [OF im control_apart [OF acc ap im]] show ?thesis by simp
  qed
  show ?thesis
    using images rt ld(1) e by (auto simp: handed_over_def res Let_def)
qed

lemma chain_fit_parse_header:
  assumes "chain_fit_parse m fit available platform = Inr plan"
  shows "fit \<noteq> 0" and "fdt_check_header m fit = 0" and "40 \<le> fdt_totalsize m fit"
    and "nat (fdt_totalsize m fit) \<le> unat available"
    and "unat (params_addr platform) + 1024 < 18446744073709551616"
proof -
  let ?total = "word_of_int (fdt_totalsize m fit) :: u64"
  from assms obtain configuration images_node p where h: "fit \<noteq> 0" "fdt_check_header m fit = 0"
    "\<not> ?total > available" "\<not> ?total < 40"
    "fit_check_plan platform p = Inr plan"
    by (auto simp: chain_fit_parse_def Let_def split: if_splits sum.splits)
  have T: "uint ?total = fdt_totalsize m fit"
    by (rule uint_word_of_int_u64) (use fdt_header_bounds(1,6) [of m fit] in linarith)+
  show "fit \<noteq> 0" "fdt_check_header m fit = 0" by (fact h)+
  have "uint (40 :: u64) \<le> uint ?total" using h(4) by (simp only: not_less word_le_def)
  then show "40 \<le> fdt_totalsize m fit" by (simp only: T) simp
  have "unat ?total \<le> unat available" using h(3) by (simp only: not_less word_le_nat_alt)
  moreover have "unat ?total = nat (fdt_totalsize m fit)" using T by (metis nat_uint_eq)
  ultimately show "nat (fdt_totalsize m fit) \<le> unat available" by simp
  from h(5) obtain u d where "fit_place platform u d p = Inr plan"
    by (auto simp: fit_check_plan_def split: option.splits if_splits)
  then obtain pe where "checked_end (params_addr platform) CHAIN_PARAMS_RESERVE = Some pe"
    by (auto simp: fit_place_def Let_def split: option.splits if_splits)
  then show "unat (params_addr platform) + 1024 < 18446744073709551616"
    by (simp add: checked_end_Some)
qed

text \<open>The memory after the FIT has been copied to the staging memory.\<close>

definition staged_memory :: "ChainPlatform \<Rightarrow> addr \<Rightarrow> mem \<Rightarrow> mem" where
  "staged_memory platform appended_fit m = memcpy m (fit_stage_start platform) appended_fit
     (nat (fdt_totalsize m appended_fit))"

lemma chainload_run_entered:
  assumes run: "chainload_run dev uart stack mpidr platform appended_fit m t
      = Some (EnteredBL31 entry params, m', t')"
  obtains plan fit_size t1 where
    "fit_stage_start platform < fit_stage_end platform"
    "unat fit_size \<le> unat (fit_stage_end platform) - unat (fit_stage_start platform)"
    "chain_fit_parse (staged_memory platform appended_fit m) (fit_stage_start platform) fit_size platform
      = Inr plan"
    "chain_enter dev uart mpidr platform plan (staged_memory platform appended_fit m) t1
      = Some (EnteredBL31 entry params, m', t')"
proof -
  define fit_size :: u64 where "fit_size = word_of_int (fdt_totalsize m appended_fit)"
  have "unat fit_size = nat (fdt_totalsize m appended_fit)"
    using uint_word_of_int_u64 [of "fdt_totalsize m appended_fit"] fdt_header_bounds(1,6) [of m appended_fit]
    by (simp add: fit_size_def nat_uint_eq [symmetric] del: nat_uint_eq)
  then have sm: "memcpy m (fit_stage_start platform) appended_fit (unat fit_size)
      = staged_memory platform appended_fit m"
    by (simp add: staged_memory_def)
  from run obtain t0 where arena: "\<not> fit_stage_end platform \<le> fit_stage_start platform"
    and size: "\<not> fit_size > fit_stage_end platform - fit_stage_start platform"
    and rest: "(case chain_fit_parse (staged_memory platform appended_fit m) (fit_stage_start platform) fit_size platform of
          Inl reason \<Rightarrow> fail platform ''validate'' reason (staged_memory platform appended_fit m) t0
        | Inr plan \<Rightarrow> chain_boot dev uart stack mpidr platform fit_size plan
            (staged_memory platform appended_fit m) t0) = Some (EnteredBL31 entry params, m', t')"
    unfolding chainload_run_def fit_size_def [symmetric] Let_def sm
    by (auto simp: fail_not_entered split: bind_splits if_splits)
  from rest obtain plan where p: "chain_fit_parse (staged_memory platform appended_fit m)
      (fit_stage_start platform) fit_size platform = Inr plan"
    and boot: "chain_boot dev uart stack mpidr platform fit_size plan (staged_memory platform appended_fit m) t0
      = Some (EnteredBL31 entry params, m', t')"
    by (auto simp: fail_not_entered split: sum.splits)
  from boot obtain t1 where e: "chain_enter dev uart mpidr platform plan (staged_memory platform appended_fit m) t1
      = Some (EnteredBL31 entry params, m', t')"
    by (auto simp: chain_boot_def fail_not_entered split: bind_splits option.splits if_splits)
  have lt: "fit_stage_start platform < fit_stage_end platform" using arena by simp
  have "unat fit_size \<le> unat (fit_stage_end platform) - unat (fit_stage_start platform)"
    using size unat_sub [OF less_imp_le [OF lt]] by (simp add: word_less_nat_alt not_less)
  from that [OF lt this p e] show thesis .
qed

text \<open>What the proof needs of the board: a staging memory of less than 1 GiB, parameters that are
  not at address 0, and BL31's memory apart from U-Boot's.\<close>

definition board_ok :: "ChainPlatform \<Rightarrow> bool" where
  "board_ok platform \<longleftrightarrow> params_addr platform \<noteq> 0 \<and> bl31_apart platform \<and>
     unat (fit_stage_end platform) - unat (fit_stage_start platform) < 1073741823"

lemma chainload_run_entered_safe:
  assumes "board_ok platform"
    and "chainload_run dev uart stack mpidr platform appended_fit m t
      = Some (EnteredBL31 entry params, m', t')"
  shows "\<exists>plan. plan_accepted (staged_memory platform appended_fit m) (fit_stage_start platform) platform plan \<and>
    entry = expected_bl31_entry platform \<and> params = params_addr platform \<and>
    (control_dtb_ok (staged_memory platform appended_fit m) plan \<longrightarrow>
      handed_over mpidr platform plan (staged_memory platform appended_fit m) m')"
proof -
  let ?m = "staged_memory platform appended_fit m" and ?s = "fit_stage_start platform"
  from chainload_run_entered [OF assms(2)] obtain plan fit_size t1 where
    arena: "?s < fit_stage_end platform"
    "unat fit_size \<le> unat (fit_stage_end platform) - unat ?s"
    and parse: "chain_fit_parse ?m ?s fit_size platform = Inr plan"
    and enter: "chain_enter dev uart mpidr platform plan ?m t1 = Some (EnteredBL31 entry params, m', t')"
    by blast
  note h = chain_fit_parse_header [OF parse]
  have acc: "plan_accepted ?m ?s platform plan" by (rule chain_fit_parse_accepted [OF parse])
  have e: "entry = expected_bl31_entry platform" "params = params_addr platform"
    using chain_enter_entry [OF acc enter] by simp_all
  have "unat ?s \<le> unat (fit_stage_end platform)" using arena(1) by (simp add: word_less_nat_alt)
  then have "staged ?m ?s platform"
    using h(3,4) arena(2) assms(1) by (auto simp: staged_def board_ok_def)
  from chain_enter_handed_over [OF acc this _ _ _ _ enter] assms(1) acc h(5) e
  show ?thesis by (auto simp: board_ok_def)
qed


subsection \<open>The chainloader always ends\<close>

text \<open>A board whose memory ranges keep a distance of one cache line from both ends of the address
  space.\<close>

definition ranges_ok :: "ChainPlatform \<Rightarrow> bool" where
  "ranges_ok platform \<longleftrightarrow>
     (\<forall>r \<in> set (bl31_ranges platform). 64 \<le> unat (range_start r)) \<and>
     64 \<le> unat (expected_bl33_entry platform) \<and>
     unat (bl33_limit platform) + 64 < 18446744073709551616 \<and>
     64 \<le> unat (params_addr platform) \<and>
     unat (params_addr platform) + 1088 < 18446744073709551616"

lemma dcache_clean_returns:
  assumes "64 \<le> unat a" and "unat a + unat n + 64 < 18446744073709551616"
  shows "\<exists>t'. dcache_clean a (a + n) t = Some t'"
proof -
  have e: "unat (a + n) = unat a + unat n" using assms(2) by (intro unat_plus_no_wrap) simp
  then have "a \<le> a + n" by (simp add: word_le_nat_alt)
  from dcache_maintained [OF assms(1) this, of a Clean t] assms(2) e this
  show ?thesis by (auto simp: dcache_clean_def cache_line_def word_le_nat_alt)
qed

lemma clean_images_returns:
  assumes "\<And>im. im \<in> set ims \<Longrightarrow> executable im \<Longrightarrow> 64 \<le> unat (img_load im) \<and>
      unat (img_load im) + unat (img_size im) < 18446744073709551616"
    and "range_is_cacheable platform = Some rk3568_range_is_cacheable"
  shows "\<exists>t'. clean_images platform ims t = Some t'"
  using assms(1)
proof (induction ims arbitrary: t)
  case (Cons im ims)
  let ?f = "\<lambda>t. if img_role im \<noteq> CHAIN_IMAGE_FDT \<and>
      rk3568_range_is_cacheable (img_load im) (img_load im + img_size im)
    then dcache_clean (img_load im) (img_load im + img_size im) t else Some t"
  have "\<exists>t1. ?f t = Some t1"
  proof (cases "img_role im \<noteq> CHAIN_IMAGE_FDT \<and>
      rk3568_range_is_cacheable (img_load im) (img_load im + img_size im)")
    case True
    then have b: "64 \<le> unat (img_load im)"
      "unat (img_load im) + unat (img_size im) < 18446744073709551616"
      using Cons.prems [of im] by (simp_all add: executable_def)
    have "unat (img_load im + img_size im) \<le> 4026531840"
      using True by (simp add: rk3568_range_is_cacheable_def word_le_nat_alt)
    then have "unat (img_load im) + unat (img_size im) + 64 < 18446744073709551616"
      by (simp add: unat_plus_no_wrap [OF b(2)])
    with True dcache_clean_returns [OF b(1)] show ?thesis by simp
  qed auto
  then obtain t1 where "?f t = Some t1" by blast
  with Cons.IH [OF Cons.prems] show ?case by (simp add: assms(2) Let_def)
qed simp


lemma fail_returns:
  "recover platform = rk3568_recover dev board_name \<Longrightarrow> uart_ready dev UART2_BASE \<Longrightarrow>
   \<exists>r. fail platform stage reason m t = Some r"
  using rk3568_recover_spec [of dev board_name stage reason t] by (auto simp: fail_def)

lemma debug_returns:
  "uart_ready dev uart \<Longrightarrow> unat reg < 4294967296 \<Longrightarrow> \<exists>t'. debug dev uart stack str reg t = Some t'"
  using outputsD(1) [OF outputs_debug] by blast

lemma puts_returns: "uart_ready dev uart \<Longrightarrow> \<exists>t'. puts dev uart str t = Some t'"
  using outputsD(1) [OF outputs_puts] by blast

lemma plan_ranges:
  assumes acc: "plan_accepted m fit platform plan" and ok: "ranges_ok platform"
  shows "im \<in> set (images plan) \<Longrightarrow> executable im \<Longrightarrow> 64 \<le> unat (img_load im) \<and>
      unat (img_load im) + unat (img_size im) < 18446744073709551616"
    and "64 \<le> unat (control_fdt plan)"
    and "unat (control_fdt plan) + unat (control_fdt_capacity plan) + 64 < 18446744073709551616"
proof -
  have low: "64 \<le> unat (img_load im)" if "im \<in> set (images plan)" "executable im" for im
  proof -
    have "role_ok platform im" using acc that by (simp add: plan_accepted_def plan_inv_def)
    then show ?thesis using ok that
      by (fastforce simp: role_ok_def ranges_ok_def executable_def split: ChainImageRole.splits)
  qed
  then show "im \<in> set (images plan) \<Longrightarrow> executable im \<Longrightarrow> 64 \<le> unat (img_load im) \<and>
      unat (img_load im) + unat (img_size im) < 18446744073709551616"
    using acc role_ok_no_wrap by (auto simp: plan_accepted_def plan_inv_def)
  obtain u where u: "bl33_index plan = Some u"
    "unat (control_fdt plan) = unat (img_load (images plan ! u)) + unat (img_size (images plan ! u))"
    using acc by (auto simp: plan_accepted_def control_ok_def)
  have "index_ok CHAIN_IMAGE_BL33 (bl33_index plan) (images plan)"
    using acc by (simp add: plan_accepted_def plan_inv_def)
  then have "u < length (images plan)" "img_role (images plan ! u) = CHAIN_IMAGE_BL33"
    using u(1) by (auto simp: index_ok_def)
  with low [of "images plan ! u"] u(2) show "64 \<le> unat (control_fdt plan)"
    by (simp add: executable_def)
  show "unat (control_fdt plan) + unat (control_fdt_capacity plan) + 64 < 18446744073709551616"
    using acc ok by (auto simp: plan_accepted_def control_ok_def ranges_ok_def)
qed

lemma chain_enter_returns:
  assumes "plan_accepted m0 fit platform plan" and "ranges_ok platform"
    and "recover platform = rk3568_recover dev board_name"
    and "range_is_cacheable platform = Some rk3568_range_is_cacheable"
    and "uart_ready dev UART2_BASE"
  shows "\<exists>r. chain_enter dev UART2_BASE mpidr platform plan m t = Some r"
proof -
  obtain m1 r where load: "chain_fit_load m plan = (m1, r)" by fastforce
  show ?thesis
  proof (cases r)
    case (Some reason)
    then show ?thesis using fail_returns [OF assms(3,5)] by (simp add: chain_enter_def load)
  next
    case None
    obtain t1 where t1: "clean_images platform (images plan) t = Some t1"
      using clean_images_returns [OF plan_ranges(1) [OF assms(1,2)] assms(4)] by blast
    obtain t2 where t2: "dcache_clean (control_fdt plan)
        (control_fdt plan + control_fdt_capacity plan) t1 = Some t2"
      using dcache_clean_returns [OF plan_ranges(2,3) [OF assms(1,2)]] by blast
    have "64 \<le> unat (params_addr platform)"
      "unat (params_addr platform) + unat CHAIN_PARAMS_RESERVE + 64 < 18446744073709551616"
      using assms(2) by (simp_all add: ranges_ok_def)
    from dcache_clean_returns [OF this] obtain t3 where
      t3: "dcache_clean (params_addr platform) (params_addr platform + CHAIN_PARAMS_RESERVE) t2 = Some t3"
      by blast
    obtain t4 where t4: "puts dev UART2_BASE (chars ''chainload: entering BL31'') t3 = Some t4"
      using puts_returns [OF assms(5)] by blast
    show ?thesis
      unfolding chain_enter_def load None Let_def prod.case option.case t1 t2 t3 t4 bind.bind_lunit
      by (auto split: prod.splits)
  qed
qed

lemma chain_boot_returns:
  assumes "plan_accepted m0 fit platform plan" and "ranges_ok platform"
    and "platform = board_platform dev config" and "unat fit_size < 4294967296"
    and "uart_ready dev UART2_BASE" and "timer_runs dev"
  shows "\<exists>r. chain_boot dev UART2_BASE stack mpidr platform fit_size plan m t = Some r"
proof -
  have p: "recover platform = rk3568_recover dev (board config)"
    "range_is_cacheable platform = Some rk3568_range_is_cacheable"
    "prepare_handoff platform = Some (rk3568_prepare_handoff dev)"
    by (simp_all add: assms(3) board_platform_def)
  obtain t1 where t1: "debug dev UART2_BASE stack (chars ''chainload: FIT bytes '') fit_size t = Some t1"
    using debug_returns [OF assms(5,4)] by blast
  have "bl31_count plan = length (filter (\<lambda>im. img_role im = CHAIN_IMAGE_BL31) (images plan))"
    "length (images plan) \<le> 8"
    using assms(1) by (simp_all add: plan_accepted_def plan_inv_def)
  then have "bl31_count plan \<le> 8"
    using length_filter_le [of "\<lambda>im. img_role im = CHAIN_IMAGE_BL31" "images plan"] by linarith
  then have "unat (of_nat (bl31_count plan) :: u64) < 4294967296" by (simp add: unat_of_nat_u64)
  from debug_returns [OF assms(5) this] obtain t2 where
    t2: "debug dev UART2_BASE stack (chars ''chainload: BL31 segments '') (of_nat (bl31_count plan)) t1 = Some t2"
    by blast
  obtain e t3 where t3: "rk3568_prepare_handoff dev t2 = Some (e, t3)"
    using rk3568_prepare_handoff_spec [OF assms(6)] by blast
  show ?thesis
    unfolding chain_boot_def t1 t2 bind.bind_lunit p option.case t3 prod.case
    using fail_returns [OF p(1) assms(5)] chain_enter_returns [OF assms(1,2) p(1,2) assms(5)]
    by simp
qed

text \<open>C5. The chainloader always ends in BL31 or in the board's recovery: whatever is in the FIT and
  whatever the hardware answers, it never hangs, if only the timer runs and the UART keeps
  getting ready.\<close>

theorem chainload_run_returns:
  assumes "ranges_ok config" and "uart_ready dev UART2_BASE" and "timer_runs dev"
  shows "\<exists>r. chainload_run dev UART2_BASE stack mpidr (board_platform dev config) appended_fit m t = Some r"
proof -
  let ?p = "board_platform dev config"
  have r: "recover ?p = rk3568_recover dev (board config)" and ok: "ranges_ok ?p"
    using assms(1) by (simp_all add: board_platform_def ranges_ok_def)
  define fit_size :: u64 where "fit_size = word_of_int (fdt_totalsize m appended_fit)"
  have small: "unat fit_size < 4294967296"
    using uint_word_of_int_u64 [of "fdt_totalsize m appended_fit"] fdt_header_bounds(1,6) [of m appended_fit]
    by (simp add: fit_size_def nat_uint_eq [symmetric] nat_less_iff del: nat_uint_eq)
  obtain t1 where t1: "puts dev UART2_BASE (chars ''chainload: validating appended FIT'') t = Some t1"
    using puts_returns [OF assms(2)] by blast
  note fails = fail_returns [OF r assms(2)]
  note boot = chain_boot_returns [OF chain_fit_parse_accepted ok refl small assms(2,3)]
  show ?thesis
    unfolding chainload_run_def t1 bind.bind_lunit fit_size_def [symmetric] Let_def
    using fails boot by (auto split: sum.splits)
qed

subsection \<open>A board\<close>

text \<open>The addresses of config/chainload/yy3568.json, from which board_config.h is generated.\<close>

definition yy3568_config :: ChainPlatform where
  "yy3568_config =
     \<lparr>board = ''Youyeetoo YY3568'', soc = ''rk3568'', fit_stage_start = 0x08000000, fit_stage_end = 0x08400000,
      params_addr = 0x00100000, expected_bl31_entry = 0x00040000, expected_bl33_entry = 0x00800000,
      bl33_limit = 0x03f00000, handoff_protocol = 1,
      bl31_ranges = [\<lparr>range_start = 0x00040000, range_end = 0x00200000\<rparr>,
        \<lparr>range_start = 0xfdcc0000, range_end = 0xfdcf0000\<rparr>],
      expected_bl31_segments = 6, get_boot_source = \<lambda>t. ([], t), prepare_handoff = None,
      range_is_cacheable = None, recover = \<lambda>stage reason t. None\<rparr>"

lemma yy3568_ok: "board_ok yy3568_config" "ranges_ok yy3568_config"
  by (simp_all add: board_ok_def ranges_ok_def bl31_apart_def yy3568_config_def)


lemma chainload_run_returns_witness:
  "\<exists>r. chainload_run quiet_device UART2_BASE (\<lambda>_. 0) 0x80000000 (board_platform quiet_device yy3568_config)
     0x10000 (\<lambda>_. 0) [] = Some r"
  by (rule chainload_run_returns [OF yy3568_ok(2) quiet_device_ready quiet_device_runs])

end
