(* ===== verification/Chainfit.thy ===== *)
theory Chainfit
  imports Fit_Parse
begin

text \<open>
  The checker of FIT images (src/tools/chainfit.c): it runs the chainloader's parser on a file,
  with the addresses of a board from its command line. The arguments are those behind the
  program's name; \<open>files\<close> gives the bytes of a file, \<open>None\<close> when it cannot be opened, sized or
  read; \<open>fit\<close> is what \<open>malloc\<close> returns, 0 when there is no memory. The result is the exit code and
  the plan that is printed.
\<close>

subsection \<open>Numbers (strtoull with base 0)\<close>

definition is_space :: "char \<Rightarrow> bool" where
  "is_space c \<longleftrightarrow> of_char c = (32 :: nat) \<or> 9 \<le> (of_char c :: nat) \<and> of_char c \<le> (13 :: nat)"

definition digit_value :: "char \<Rightarrow> nat" where
  "digit_value c =
     (let n = of_char c in
      if 48 \<le> n \<and> n \<le> 57 then n - 48 else if 97 \<le> n \<and> n \<le> 122 then n - 87 else if 65 \<le> n \<and> n \<le> 90 then n - 55 else 36)"

definition number_value :: "nat \<Rightarrow> string \<Rightarrow> nat" where
  "number_value base ds = foldl (\<lambda>v c. base * v + digit_value c) 0 ds"

definition split_sign :: "string \<Rightarrow> bool \<times> string" where
  "split_sign s = (case s of [] \<Rightarrow> (False, [])
     | c # cs \<Rightarrow> if c = CHR ''-'' then (True, cs) else if c = CHR ''+'' then (False, cs) else (False, s))"

definition split_base :: "string \<Rightarrow> nat \<times> string" where
  "split_base s =
     (if take 1 s = ''0'' then
        (if (take 2 s = ''0x'' \<or> take 2 s = ''0X'') \<and> length s > 2 \<and> digit_value (s ! 2) < 16 then (16, drop 2 s) else (8, s))
      else (10, s))"

text \<open>The value, without the bound, whether there is a minus sign, and what follows the number.\<close>

definition strtoull :: "string \<Rightarrow> (nat \<times> bool \<times> string) option" where
  "strtoull str =
     (let (negative, s) = split_sign (dropWhile is_space str); (base, s) = split_base s;
          ds = takeWhile (\<lambda>c. digit_value c < base) s
      in if ds = [] then None else Some (number_value base ds, negative, drop (length ds) s))"

text \<open>A value of 2 to the 64 or more sets \<open>errno\<close>, and a minus sign negates the 64-bit number.\<close>

definition parse_number :: "string \<Rightarrow> u64 option" where
  "parse_number str =
     (case strtoull str of
        None \<Rightarrow> None
      | Some (v, negative, rest) \<Rightarrow>
          if v \<ge> 2 ^ 64 \<or> str = [] \<or> rest \<noteq> [] then None
          else Some (if negative then - of_nat v else of_nat v))"

subsection \<open>The program\<close>

primrec parse_numbers :: "string list \<Rightarrow> u64 list option" where
  "parse_numbers [] = Some []"
| "parse_numbers (t # ts) =
     (case parse_number t of
        None \<Rightarrow> None
      | Some v \<Rightarrow> (case parse_numbers ts of None \<Rightarrow> None | Some vs \<Rightarrow> Some (v # vs)))"

fun pair_ranges :: "u64 list \<Rightarrow> ChainAddressRange list" where
  "pair_ranges (a # b # vs) = \<lparr>range_start = a, range_end = b\<rparr> # pair_ranges vs"
| "pair_ranges vs = []"

text \<open>The platform with the seven numbers and the ranges. Its functions are null pointers, which the parser
  does not use.\<close>

definition fit_platform :: "string \<Rightarrow> u64 list \<Rightarrow> ChainAddressRange list \<Rightarrow> ChainPlatform" where
  "fit_platform name ns ranges =
     \<lparr>board = name, soc = ''rk3568'', fit_stage_start = ns ! 0, fit_stage_end = ns ! 1, params_addr = ns ! 2,
      expected_bl31_entry = ns ! 3, expected_bl33_entry = ns ! 4, bl33_limit = ns ! 5, handoff_protocol = 1,
      bl31_ranges = ranges, expected_bl31_segments = unat (ns ! 6), get_boot_source = Pair [],
      prepare_handoff = None, range_is_cacheable = None, recover = (\<lambda>_ _. Some)\<rparr>"

definition read_policy :: "string list \<Rightarrow> ChainPlatform option" where
  "read_policy args =
     (if length args < 11 \<or> (length args - 9) mod 2 \<noteq> 0 then None
      else if (length args - 9) div 2 > 8 then None
      else case parse_numbers (take 7 (drop 2 args)) of
        None \<Rightarrow> None
      | Some ns \<Rightarrow>
          if ns ! 6 > 0xffffffff then None
          else (case parse_numbers (drop 9 args) of
            None \<Rightarrow> None
          | Some rs \<Rightarrow> Some (fit_platform (args ! 0) ns (pair_ranges rs))))"

definition chainfit_main :: "mem \<Rightarrow> addr \<Rightarrow> (string \<Rightarrow> bytes option) \<Rightarrow> string list \<Rightarrow> int \<times> ChainFitPlan option" where
  "chainfit_main m fit files args =
     (case read_policy args of
        None \<Rightarrow> (2, None)
      | Some platform \<Rightarrow>
          (case files (args ! 1) of
             None \<Rightarrow> (2, None)
           | Some data \<Rightarrow>
               if data = [] \<or> fit = 0 then (2, None)
               else (case chain_fit_parse (write_bytes m fit data) fit (of_nat (length data)) platform of
                 Inl reason \<Rightarrow> (1, None)
               | Inr plan \<Rightarrow> (0, Some plan))))"

subsection \<open>Numbers as a manifest has them\<close>

text \<open>Hexadecimal behind 0x, or decimal without a leading zero.\<close>

definition numeral_for :: "string \<Rightarrow> u64 \<Rightarrow> bool" where
  "numeral_for str v \<longleftrightarrow>
     take 2 str = ''0x'' \<and> length str > 2 \<and> list_all (\<lambda>c. digit_value c < 16) (drop 2 str) \<and> number_value 16 (drop 2 str) = unat v
     \<or> str \<noteq> [] \<and> list_all (\<lambda>c. digit_value c < 10) str \<and> hd str \<noteq> CHR ''0'' \<and> number_value 10 str = unat v
     \<or> str = ''0'' \<and> v = 0"

lemma takeWhile_list_all: "list_all P xs \<Longrightarrow> takeWhile P xs = xs"
  by (induction xs) simp_all

lemma digit_no_space: "digit_value c < 36 \<Longrightarrow> \<not> is_space c \<and> c \<noteq> CHR ''-'' \<and> c \<noteq> CHR ''+''"
  by (auto simp: digit_value_def is_space_def Let_def split: if_splits)

lemma number_starts:
  assumes "s \<noteq> []" and "digit_value (hd s) < 36"
  shows "split_sign (dropWhile is_space s) = (False, s)"
  using assms digit_no_space [of "hd s"] by (cases s) (auto simp: split_sign_def)

lemma parse_numeral:
  assumes "numeral_for str v"
  shows "parse_number str = Some v"
proof -
  have v: "unat v < 2 ^ 64" "of_nat (unat v) = v" using unat_u64_less [of v] by simp_all
  consider "take 2 str = ''0x''" "drop 2 str \<noteq> []" "list_all (\<lambda>c. digit_value c < 16) (drop 2 str)" "number_value 16 (drop 2 str) = unat v"
    | "str \<noteq> []" "list_all (\<lambda>c. digit_value c < 10) str" "hd str \<noteq> CHR ''0''" "number_value 10 str = unat v"
    | "str = ''0''" "v = 0"
    using assms unfolding numeral_for_def by (auto simp: not_le)
  then show ?thesis
  proof cases
    case 1
    define ds where "ds = drop 2 str"
    note 1 = 1 [folded ds_def]
    have str: "str = ''0x'' @ ds" using 1(1) append_take_drop_id [of 2 str] unfolding ds_def by metis
    have "split_sign (dropWhile is_space str) = (False, str)"
      by (rule number_starts) (simp_all add: str digit_value_def)
    moreover have "split_base str = (16, ds)" using 1 by (cases ds) (simp_all add: split_base_def str)
    ultimately have "strtoull str = Some (number_value 16 ds, False, [])"
      using 1 by (simp add: strtoull_def takeWhile_list_all)
    with 1 v show ?thesis by (auto simp: parse_number_def)
  next
    case 2
    then have "digit_value (hd str) < 10" by (cases str) simp_all
    with 2 have "split_sign (dropWhile is_space str) = (False, str)" by (intro number_starts) simp_all
    moreover have "split_base str = (10, str)" using 2 by (cases str) (simp_all add: split_base_def)
    ultimately have "strtoull str = Some (number_value 10 str, False, [])"
      using 2 by (simp add: strtoull_def takeWhile_list_all)
    with 2 v show ?thesis by (simp add: parse_number_def)
  next
    case 3
    then show ?thesis
      by (simp add: parse_number_def strtoull_def is_space_def split_sign_def split_base_def digit_value_def number_value_def)
  qed
qed

lemma parse_numerals: "list_all2 numeral_for texts vs \<Longrightarrow> parse_numbers texts = Some vs"
  by (induction rule: list_all2_induct) (simp_all add: parse_numeral)

definition range_bounds :: "ChainAddressRange list \<Rightarrow> u64 list" where
  "range_bounds ranges = concat (map (\<lambda>r. [range_start r, range_end r]) ranges)"

lemma pair_range_bounds: "pair_ranges (range_bounds ranges) = ranges"
  by (induction ranges) (simp_all add: range_bounds_def)

lemma length_range_bounds: "length (range_bounds ranges) = 2 * length ranges"
  by (induction ranges) (simp_all add: range_bounds_def)

lemma read_policy_manifest:
  assumes "length ns = 7" and "1 \<le> length ranges" and "length ranges \<le> 8" and "ns ! 6 \<le> 0xffffffff"
    and "list_all2 numeral_for texts (ns @ range_bounds ranges)"
  shows "read_policy (name # file # texts) = Some (fit_platform name ns ranges)"
proof -
  obtain ts rs where t: "texts = ts @ rs" "list_all2 numeral_for ts ns" "list_all2 numeral_for rs (range_bounds ranges)"
    using assms(5) by (auto simp: list_all2_append2)
  have len: "length ts = 7" "length rs = 2 * length ranges"
    using t(2,3) [THEN list_all2_lengthD] assms(1) by (simp_all add: length_range_bounds)
  have "take 7 texts = ts" "drop 7 texts = rs" using len by (simp_all add: t(1))
  moreover have "drop 9 (name # file # texts) = drop 7 texts" by (simp add: numeral_eq_Suc)
  ultimately show ?thesis
    unfolding read_policy_def using assms(2-4) len
    by (simp add: parse_numerals [OF t(2)] parse_numerals [OF t(3)] pair_range_bounds t(1) not_less flip: length_greater_0_conv)
qed

text \<open>C22. Called with a board's seven numbers and one to eight address ranges, written in decimal or
  hexadecimal as the manifest has them, the checker reaches the verdict of the chainloader's
  parser on the file for exactly these numbers: the exit code 0 comes with a plan that is safe for
  them, and 1 means that the parser rejects the file. No hypothesis restricts the file other than
  that it is not empty.\<close>

theorem chainfit_verdict:
  assumes "length ns = 7" and "1 \<le> length ranges" and "length ranges \<le> 8" and "ns ! 6 \<le> 0xffffffff"
    and "list_all2 numeral_for texts (ns @ range_bounds ranges)"
    and "files file = Some data" and "data \<noteq> []" and "fit \<noteq> 0"
  shows "let m' = write_bytes m fit data; platform = fit_platform name ns ranges in
    chainfit_main m fit files (name # file # texts) =
      (case chain_fit_parse m' fit (of_nat (length data)) platform of
         Inl reason \<Rightarrow> (1, None) | Inr plan \<Rightarrow> (0, Some plan)) \<and>
    (case chainfit_main m fit files (name # file # texts) of
       (rc, None) \<Rightarrow> rc = 1 | (rc, Some plan) \<Rightarrow> rc = 0 \<and> plan_accepted m' fit platform plan)"
  using chain_fit_parse_accepted [of "write_bytes m fit data" fit]
  by (auto simp: chainfit_main_def read_policy_manifest [OF assms(1-5)] assms(6-8) Let_def split: sum.splits)

lemma chainfit_verdict_witness:
  "chainfit_main (\<lambda>_. 0) 0x1000 [''a.itb'' \<mapsto> [1, 2]]
     [''rock3a'', ''a.itb'', ''0x8000000'', ''134480384'', ''0x100000'', ''0x40000'', ''0xa00000'', ''0xC00000'', ''3'', ''0'', ''0x200000'']
   = (case chain_fit_parse (write_bytes (\<lambda>_. 0) 0x1000 [1, 2]) 0x1000 2
        (fit_platform ''rock3a'' [0x8000000, 0x8040200, 0x100000, 0x40000, 0xa00000, 0xc00000, 3]
          [\<lparr>range_start = 0, range_end = 0x200000\<rparr>]) of
        Inl reason \<Rightarrow> (1, None) | Inr plan \<Rightarrow> (0, Some plan))"
proof -
  have n: "numeral_for ''0x8000000'' 0x8000000" "numeral_for ''134480384'' 0x8040200" "numeral_for ''0x100000'' 0x100000"
    "numeral_for ''0x40000'' 0x40000" "numeral_for ''0xa00000'' 0xa00000" "numeral_for ''0xC00000'' 0xc00000"
    "numeral_for ''3'' 3" "numeral_for ''0'' 0" "numeral_for ''0x200000'' 0x200000"
    by (simp_all add: numeral_for_def digit_value_def number_value_def)
  then show ?thesis
    using chainfit_verdict [of "[0x8000000, 0x8040200, 0x100000, 0x40000, 0xa00000, 0xc00000, 3]"
        "[\<lparr>range_start = 0, range_end = 0x200000\<rparr>]"
        "[''0x8000000'', ''134480384'', ''0x100000'', ''0x40000'', ''0xa00000'', ''0xC00000'', ''3'', ''0'', ''0x200000'']"
        "[''a.itb'' \<mapsto> [1, 2]]" "''a.itb''" "[1, 2]" "0x1000" "\<lambda>_. 0" "''rock3a''"]
    by (simp add: range_bounds_def Let_def)
qed

end
