(* ===== verification/Input.thy ===== *)
theory Input
  imports Prelude
begin

text \<open>
  The input queue (src/rk356x/input.c): a ring of 64 bytes between the input drivers and
  the firmware call that reads a character. The contract of a bounded queue is the locale
  \<open>bounded_queue\<close>; the ring buffer is shown to satisfy it, and the drivers' proofs use the
  contract only.
\<close>

subsection \<open>The code\<close>

abbreviation (input) INPUT_QUEUE_SIZE :: u32 where "INPUT_QUEUE_SIZE \<equiv> 64"

text \<open>The static variables, except the poller.\<close>

record input_state =
  queue :: bytes
  read_pos :: u32
  write_pos :: u32

definition input_reset :: "input_state \<Rightarrow> input_state" where
  "input_reset s = s\<lparr>read_pos := 0, write_pos := 0\<rparr>"

text \<open>The poller is a function on the whole state of its driver, or absent.\<close>

definition input_set_poller :: "('s \<Rightarrow> 's) option \<Rightarrow> ('s \<Rightarrow> 's) option \<Rightarrow> ('s \<Rightarrow> 's) option" where
  "input_set_poller poller poll_fn = poller"

definition input_poll :: "('s \<Rightarrow> 's) option \<Rightarrow> 's \<Rightarrow> 's" where
  "input_poll poll_fn s = (case poll_fn of None \<Rightarrow> s | Some f \<Rightarrow> f s)"

definition input_enqueue :: "u8 \<Rightarrow> input_state \<Rightarrow> bool \<times> input_state" where
  "input_enqueue c s =
     (let nxt = (write_pos s + 1) mod INPUT_QUEUE_SIZE in
      if c = 0 \<or> nxt = read_pos s then (False, s)
      else (True, s\<lparr>queue := (queue s)[unat (write_pos s) := c], write_pos := nxt\<rparr>))"

definition input_available :: "input_state \<Rightarrow> bool" where
  "input_available s \<longleftrightarrow> read_pos s \<noteq> write_pos s"

definition input_get_char :: "input_state \<Rightarrow> u8 \<times> input_state" where
  "input_get_char s =
     (if read_pos s = write_pos s then (0, s)
      else (queue s ! unat (read_pos s), s\<lparr>read_pos := (read_pos s + 1) mod INPUT_QUEUE_SIZE\<rparr>))"

text \<open>The state at program start: static variables are zero.\<close>

definition input_start :: input_state where
  "input_start = \<lparr>queue = replicate 64 0, read_pos = 0, write_pos = 0\<rparr>"

subsection \<open>The contract of a bounded queue\<close>

text \<open>
  \<open>put\<close> adds an element at the end, unless the queue is full or the element is not allowed,
  and says whether it did; \<open>get\<close> takes the first element, or returns the default.
\<close>

locale bounded_queue =
  fixes put :: "'a \<Rightarrow> 's \<Rightarrow> bool \<times> 's"
    and get :: "'s \<Rightarrow> 'a \<times> 's"
    and contents :: "'s \<Rightarrow> 'a list"
    and invar :: "'s \<Rightarrow> bool"
    and allowed :: "'a \<Rightarrow> bool"
    and capacity :: nat
    and default :: 'a
  assumes put_contents: "invar s \<Longrightarrow> put x s = (ok, s') \<Longrightarrow>
      contents s' = (if allowed x \<and> length (contents s) < capacity then contents s @ [x] else contents s)
      \<and> ok = (allowed x \<and> length (contents s) < capacity)"
    and put_invar: "invar s \<Longrightarrow> put x s = (ok, s') \<Longrightarrow> invar s'"
    and get_contents: "invar s \<Longrightarrow> get s = (x, s') \<Longrightarrow>
      contents s' = tl (contents s) \<and> x = (if contents s = [] then default else hd (contents s))"
    and get_invar: "invar s \<Longrightarrow> get s = (x, s') \<Longrightarrow> invar s'"
    and bounded: "invar s \<Longrightarrow> length (contents s) \<le> capacity"
begin

text \<open>Putting and getting a sequence of elements.\<close>

fun put_all :: "'a list \<Rightarrow> 's \<Rightarrow> 's" where
  "put_all [] s = s"
| "put_all (x # xs) s = put_all xs (snd (put x s))"

fun get_all :: "nat \<Rightarrow> 's \<Rightarrow> 'a list \<times> 's" where
  "get_all 0 s = ([], s)"
| "get_all (Suc n) s = (case get s of (x, s) \<Rightarrow> case get_all n s of (xs, s) \<Rightarrow> (x # xs, s))"

lemma put_all_invar: "invar s \<Longrightarrow> invar (put_all xs s)"
  by (induction xs arbitrary: s) (auto intro: put_invar [OF _ prod.collapse [symmetric]])

text \<open>What does not fit is dropped.\<close>

lemma put_all_contents:
  "invar s \<Longrightarrow> contents (put_all xs s) = take capacity (contents s @ filter allowed xs)"
proof (induction xs arbitrary: s)
  case Nil
  then show ?case using bounded by simp
next
  case (Cons x xs)
  have inv: "invar (snd (put x s))" using Cons.prems by (rule put_invar) (rule prod.collapse [symmetric])
  have c: "contents (snd (put x s))
      = (if allowed x \<and> length (contents s) < capacity then contents s @ [x] else contents s)"
    using put_contents [OF Cons.prems prod.collapse [symmetric]] by blast
  show ?case
  proof (cases "allowed x \<and> \<not> length (contents s) < capacity")
    case True
    then have "length (contents s) = capacity" using bounded [OF Cons.prems] by simp
    with Cons.IH [OF inv] c True show ?thesis by simp
  next
    case False
    show ?thesis
    proof (cases "allowed x")
      case True
      with False have "length (contents s) < capacity" by simp
      with Cons.IH [OF inv] c True show ?thesis by (simp add: take_Cons' Suc_diff_Suc)
    next
      case False
      with Cons.IH [OF inv] c show ?thesis by simp
    qed
  qed
qed

text \<open>First in, first out: the elements come out in the order in which they went in.\<close>

lemma get_all_contents:
  "invar s \<Longrightarrow> n \<le> length (contents s) \<Longrightarrow> get_all n s = (xs, s') \<Longrightarrow>
   xs = take n (contents s) \<and> contents s' = drop n (contents s) \<and> invar s'"
proof (induction n arbitrary: s xs s')
  case (Suc n)
  obtain x s1 where g: "get s = (x, s1)" by fastforce
  obtain ys s2 where r: "get_all n s1 = (ys, s2)" by fastforce
  have xs: "xs = x # ys" "s' = s2" using Suc.prems(3) by (auto simp: g r)
  note c = get_contents [OF Suc.prems(1) g]
  have ne: "contents s \<noteq> []" using Suc.prems(2) by auto
  then have n: "n \<le> length (contents s1)" using c Suc.prems(2) by simp
  from Suc.IH [OF get_invar [OF Suc.prems(1) g] n r] c ne show ?case
    unfolding xs by (cases "contents s") auto
qed simp

end

subsection \<open>The ring buffer is a bounded queue\<close>

definition ring_ok :: "input_state \<Rightarrow> bool" where
  "ring_ok s \<longleftrightarrow> length (queue s) = 64 \<and> unat (read_pos s) < 64 \<and> unat (write_pos s) < 64"

definition ring_length :: "input_state \<Rightarrow> nat" where
  "ring_length s = (unat (write_pos s) + 64 - unat (read_pos s)) mod 64"

definition ring_contents :: "input_state \<Rightarrow> bytes" where
  "ring_contents s = map (\<lambda>i. queue s ! ((unat (read_pos s) + i) mod 64)) [0..<ring_length s]"

lemma unat_next: "unat ((p + 1 :: u32) mod 64) = (unat p + 1) mod 64" if "unat p < 64"
proof -
  have "unat (p + 1) = unat p + 1" using that by (simp add: unat_word_ariths)
  then show ?thesis by (simp add: unat_mod)
qed

lemma ring_length_less: "ring_length s < 64"
  by (simp add: ring_length_def)

lemma mod_ring: "a < 128 \<Longrightarrow> a mod 64 = (if a < 64 then a else a - 64)" for a :: nat
  by (simp add: le_mod_geq)

text \<open>The distance from the read to the write position.\<close>

abbreviation (input) gap :: "nat \<Rightarrow> nat \<Rightarrow> nat" where "gap r w \<equiv> (w + 64 - r) mod 64"

lemma gap_cases: "r < 64 \<Longrightarrow> w < 64 \<Longrightarrow> gap r w = (if r \<le> w then w - r else w + 64 - r)"
  by (simp add: mod_ring)

lemma next_cases: "w < 64 \<Longrightarrow> (w + 1) mod 64 = (if w = 63 then 0 else w + 1)" for w :: nat
  by (simp add: mod_ring)

lemma gap_full:
  assumes "r < 64" "w < 64"
  shows "(w + 1) mod 64 = r \<longleftrightarrow> gap r w = 63"
  unfolding gap_cases [OF assms] next_cases [OF assms(2)] using assms by (auto split: if_splits)

lemma gap_put:
  assumes "r < 64" "w < 64" and full: "gap r w \<noteq> 63"
  shows "gap r ((w + 1) mod 64) = Suc (gap r w)"
proof -
  have "(w + 1) mod 64 < 64" by simp
  note c = gap_cases [OF assms(1) this] gap_cases [OF assms(1,2)]
  from full assms(1,2) show ?thesis unfolding c unfolding next_cases [OF assms(2)] by (auto split: if_splits)
qed

lemma gap_get:
  assumes "r < 64" "w < 64" and ne: "r \<noteq> w"
  shows "gap r w = Suc (gap ((r + 1) mod 64) w)"
proof -
  have "(r + 1) mod 64 < 64" by simp
  note c = gap_cases [OF this assms(2)] gap_cases [OF assms(1,2)]
  from ne assms(1,2) show ?thesis unfolding c unfolding next_cases [OF assms(1)] by (auto split: if_splits)
qed

lemma gap_end: "r < 64 \<Longrightarrow> w < 64 \<Longrightarrow> (r + gap r w) mod 64 = w"
  by (auto simp: gap_cases mod_ring)

lemma gap_before: "r < 64 \<Longrightarrow> w < 64 \<Longrightarrow> i < gap r w \<Longrightarrow> (r + i) mod 64 \<noteq> w"
  by (auto simp: gap_cases mod_ring split: if_splits)

lemma gap_0: "r < 64 \<Longrightarrow> w < 64 \<Longrightarrow> gap r w = 0 \<longleftrightarrow> r = w"
  by (auto simp: gap_cases)

lemma next_full:
  assumes "ring_ok s"
  shows "(write_pos s + 1) mod 64 = read_pos s \<longleftrightarrow> ring_length s = 63"
proof -
  have b: "unat (read_pos s) < 64" "unat (write_pos s) < 64" using assms by (simp_all add: ring_ok_def)
  have "(write_pos s + 1) mod 64 = read_pos s \<longleftrightarrow> (unat (write_pos s) + 1) mod 64 = unat (read_pos s)"
    by (simp only: word_unat_eq_iff unat_next [OF b(2)])
  also have "\<dots> \<longleftrightarrow> ring_length s = 63"
    unfolding ring_length_def by (rule gap_full [OF b])
  finally show ?thesis .
qed

interpretation input_queue: bounded_queue input_enqueue input_get_char ring_contents ring_ok
    "\<lambda>c. c \<noteq> 0" 63 0
proof
  fix s s' :: input_state and x :: u8 and ok :: bool
  assume s: "ring_ok s"
  have b: "length (queue s) = 64" "unat (read_pos s) < 64" "unat (write_pos s) < 64"
    using s by (simp_all add: ring_ok_def)
  note nf = next_full [OF s] and un = unat_next [OF b(3)] unat_next [OF b(2)]
  show "length (ring_contents s) \<le> 63" using ring_length_less [of s] by (simp add: ring_contents_def)
  { assume put: "input_enqueue x s = (ok, s')"
    show "ring_ok s'" using put s un(1)
      by (auto simp: input_enqueue_def Let_def ring_ok_def split: if_splits)
    show "ring_contents s' = (if x \<noteq> 0 \<and> length (ring_contents s) < 63 then ring_contents s @ [x]
        else ring_contents s) \<and> ok = (x \<noteq> 0 \<and> length (ring_contents s) < 63)"
    proof (cases "x \<noteq> 0 \<and> ring_length s \<noteq> 63")
      case False
      with put nf ring_length_less [of s] show ?thesis
        by (auto simp: input_enqueue_def Let_def ring_contents_def)
    next
      case True
      then have s': "s' = s\<lparr>queue := (queue s)[unat (write_pos s) := x], write_pos := (write_pos s + 1) mod 64\<rparr>"
        and ok: "ok" using put nf by (auto simp: input_enqueue_def Let_def)
      have len: "ring_length s' = ring_length s + 1"
        using gap_put [OF b(2,3)] True unfolding ring_length_def s' by (simp add: un)
      have w: "(unat (read_pos s) + ring_length s) mod 64 = unat (write_pos s)"
        using gap_end [OF b(2,3)] unfolding ring_length_def .
      have neq: "(unat (read_pos s) + i) mod 64 \<noteq> unat (write_pos s)" if "i < ring_length s" for i
        using gap_before [OF b(2,3)] that unfolding ring_length_def .
      have "ring_contents s' = ring_contents s @ [x]"
        unfolding ring_contents_def len
        using b w neq by (auto simp: s' nth_list_update intro!: map_cong dest: neq [THEN not_sym])
      with True ok ring_length_less [of s] show ?thesis by (simp add: ring_contents_def)
    qed }
  { assume get: "input_get_char s = (x, s')"
    show "ring_ok s'" using get s un(2) by (auto simp: input_get_char_def ring_ok_def split: if_splits)
    have e: "read_pos s = write_pos s \<longleftrightarrow> ring_length s = 0"
      by (simp only: word_unat_eq_iff ring_length_def gap_0 [OF b(2,3)])
    show "ring_contents s' = tl (ring_contents s) \<and>
        x = (if ring_contents s = [] then 0 else hd (ring_contents s))"
    proof (cases "read_pos s = write_pos s")
      case True
      with get e show ?thesis by (auto simp: input_get_char_def ring_contents_def)
    next
      case False
      then have s': "s' = s\<lparr>read_pos := (read_pos s + 1) mod 64\<rparr>" and x: "x = queue s ! unat (read_pos s)"
        using get by (auto simp: input_get_char_def)
      have pos: "ring_length s = Suc (ring_length s')"
        using gap_get [OF b(2,3)] False unfolding ring_length_def s' by (simp add: un word_unat_eq_iff)
      have "(unat ((read_pos s + 1) mod 64) + i) mod 64 = (unat (read_pos s) + Suc i) mod 64" for i
        by (simp add: un mod_simps)
      then have "ring_contents s = queue s ! unat (read_pos s) # ring_contents s'"
        unfolding ring_contents_def pos using b
        by (simp add: upt_conv_Cons map_Suc_upt [symmetric] s' comp_def del: upt_Suc)
      then show ?thesis by (simp add: x)
    qed }
qed

text \<open>C34. The input queue is first in, first out, and never holds more than 63 characters: after any
  sequence of characters has been queued, reading returns the oldest of those that were not
  zero, in order, as many as fit behind what was there before.\<close>

theorem input_queue_fifo:
  assumes "ring_ok s" and "n \<le> 63" and "n \<le> length (ring_contents s @ filter (\<lambda>c. c \<noteq> 0) xs)"
  shows "fst (input_queue.get_all n (input_queue.put_all xs s))
    = take n (ring_contents s @ filter (\<lambda>c. c \<noteq> 0) xs)"
proof -
  note c = input_queue.put_all_contents [OF assms(1), of xs]
  obtain ys s' where g: "input_queue.get_all n (input_queue.put_all xs s) = (ys, s')" by fastforce
  have "n \<le> length (ring_contents (input_queue.put_all xs s))" using assms(2,3) by (simp add: c del: take_append)
  from input_queue.get_all_contents [OF input_queue.put_all_invar [OF assms(1)] this g] assms(2)
  show ?thesis by (simp add: c g min_absorb2 del: take_append)
qed

lemma input_queue_fifo_witness:
  "fst (input_queue.get_all 2 (input_queue.put_all [65, 0, 66, 67] input_start)) = [65, 66]"
proof -
  have "ring_ok input_start" "ring_contents input_start = []"
    by (simp_all add: ring_ok_def input_start_def ring_contents_def ring_length_def)
  with input_queue_fifo [of input_start 2 "[65, 0, 66, 67]"] show ?thesis by simp
qed

end
