(* ===== verification/Keyboard.thy ===== *)
theory Keyboard
  imports Input "HOL-Library.Char_ord"
begin

text \<open>
  The boot keyboard (src/rk356x/hid_keyboard.c): it turns the reports of a USB keyboard
  into characters in the input queue. A report is the list of its eight bytes. The proofs
  use the queue through the contract \<open>bounded_queue\<close> only.
\<close>

subsection \<open>The code\<close>

record keyboard =
  previous :: bytes
  caps_lock :: bool

definition was_pressed :: "bytes \<Rightarrow> u8 \<Rightarrow> bool" where
  "was_pressed prev usage = list_ex (\<lambda>i. prev ! i = usage) [2..<8]"

definition plain_keys :: bytes where
  "plain_keys = map of_char (''1234567890-=[]'' @ [CHR 0x5c] @ '';'' @ [CHR 0x27, CHR 0x60] @ '',./'')"

definition shifted_keys :: bytes where
  "shifted_keys = map of_char ''!@#$%^&*()_+{}|:\"~<>?''"

definition symbol_index :: "u8 \<Rightarrow> u32" where
  "symbol_index usage = (if usage \<le> 0x27 then ucast usage - 0x1e else 10 + ucast usage - 0x2d)"

definition translate_control :: "u8 \<Rightarrow> u8" where
  "translate_control usage =
     (if usage = 0x28 then 0x0d else if usage = 0x29 then 0x1b else if usage = 0x2a then 0x08
      else if usage = 0x2b then 0x09 else if usage = 0x2c then 0x20 else 0)"

definition translate :: "bool \<Rightarrow> u8 \<Rightarrow> bool \<Rightarrow> u8" where
  "translate caps usage shift =
     (if 0x04 \<le> usage \<and> usage \<le> 0x1d then (if shift \<noteq> caps then 0x41 else 0x61) + usage - 0x04
      else if (0x1e \<le> usage \<and> usage \<le> 0x27 \<or> 0x2d \<le> usage \<and> usage \<le> 0x38)
          \<and> unat (symbol_index usage) < length plain_keys
      then (if shift then shifted_keys else plain_keys) ! unat (symbol_index usage)
      else translate_control usage)"

definition hid_keyboard_reset :: "keyboard \<Rightarrow> keyboard" where
  "hid_keyboard_reset kb = \<lparr>previous = replicate 8 0, caps_lock = False\<rparr>"

text \<open>One round of the loop over the keys; \<open>previous\<close> does not change in it.\<close>

definition report_key :: "bytes \<Rightarrow> bool \<Rightarrow> u8 \<Rightarrow> bool \<times> input_state \<Rightarrow> bool \<times> input_state" where
  "report_key prev shift usage = (\<lambda>(caps, q).
     if usage = 0 \<or> was_pressed prev usage then (caps, q)
     else if usage = 0x39 then (\<not> caps, q)
     else (let c = translate caps usage shift in
           if c \<noteq> 0 then (caps, snd (input_enqueue c q)) else (caps, q)))"

definition hid_keyboard_report :: "bytes \<Rightarrow> keyboard \<times> input_state \<Rightarrow> keyboard \<times> input_state" where
  "hid_keyboard_report report = (\<lambda>(kb, q).
     let shift = report ! 0 AND 0x22 \<noteq> 0 in
     if list_ex (\<lambda>i. 1 \<le> report ! i \<and> report ! i \<le> 3) [2..<8] then (kb, q)
     else if report ! 0 AND 0xdd \<noteq> 0 then (kb\<lparr>previous := take 8 report\<rparr>, q)
     else (let (caps, q) = fold (\<lambda>i. report_key (previous kb) shift (report ! i)) [2..<8] (caps_lock kb, q) in
           (kb\<lparr>previous := take 8 report, caps_lock := caps\<rparr>, q)))"

subsection \<open>What a report types\<close>

text \<open>
  The specification says which characters a sequence of newly pressed keys types, and in
  which state it leaves caps lock, without a queue.
\<close>

fun typed :: "bool \<Rightarrow> bool \<Rightarrow> bytes \<Rightarrow> bytes" where
  "typed caps shift [] = []"
| "typed caps shift (u # us) =
     (if u = 0x39 then typed (\<not> caps) shift us else translate caps u shift # typed caps shift us)"

definition new_keys :: "bytes \<Rightarrow> bytes \<Rightarrow> bytes" where
  "new_keys prev report = filter (\<lambda>u. u \<noteq> 0 \<and> u \<notin> set (drop 2 prev)) (drop 2 report)"

lemma upt_2_8: "[2..<8] = [2, 3, 4, 5, 6, 7::nat]"
  by (simp add: upt_conv_Cons)

lemma eight_bytes:
  assumes "length (xs :: bytes) = 8"
  obtains a b c d e f g h where "xs = [a, b, c, d, e, f, g, h]"
  using assms by (auto simp: numeral_eq_Suc length_Suc_conv)

lemma was_pressed_set: "length prev = 8 \<Longrightarrow> was_pressed prev u \<longleftrightarrow> u \<in> set (drop 2 prev)"
  by (erule eight_bytes) (auto simp: was_pressed_def upt_2_8)

lemma fold_keys:
  "length (report :: bytes) = 8 \<Longrightarrow> fold (\<lambda>i. f (report ! i)) [2..<8] s = fold f (drop 2 report) s"
  by (erule eight_bytes) (simp add: upt_2_8)

text \<open>The loop queues the characters the new keys type.\<close>

lemma fold_report_key:
  assumes "length prev = 8"
  defines "new \<equiv> filter (\<lambda>u. u \<noteq> 0 \<and> u \<notin> set (drop 2 prev))"
  shows "fold (report_key prev shift) us (caps, q)
    = (caps \<noteq> odd (count_list (new us) 0x39), input_queue.put_all (typed caps shift (new us)) q)"
proof (induction us arbitrary: caps q)
  case (Cons u us)
  have zero: "snd (input_enqueue 0 q) = q" by (simp add: input_enqueue_def)
  show ?case
    using Cons.IH was_pressed_set [OF assms(1)] zero
    by (auto simp: report_key_def Let_def new_def)
qed (simp add: new_def)

definition rollover :: "bytes \<Rightarrow> bool" where
  "rollover report \<longleftrightarrow> (\<exists>u \<in> set (drop 2 report). 1 \<le> u \<and> u \<le> 3)"

lemma rollover_eq:
  "length report = 8 \<Longrightarrow> list_ex (\<lambda>i. 1 \<le> report ! i \<and> report ! i \<le> 3) [2..<8] = rollover report"
  by (erule eight_bytes) (simp add: upt_2_8 rollover_def)



subsection \<open>The characters of the keys\<close>

text \<open>The letter and digit keys type the letter and the digit of the usage code, upper case when
  exactly one of shift and caps lock is on; from the key of the semicolon (usage 0x33) on the
  table lacks an entry for the usage 0x32, so that key types an apostrophe, the key of the
  apostrophe a back quote, and the key of the slash nothing at all.\<close>

lemma translate_keys:
  "map (\<lambda>i. translate caps (0x04 + of_nat i) shift) [0..<26]
     = map of_char (if shift \<noteq> caps then ''ABCDEFGHIJKLMNOPQRSTUVWXYZ'' else ''abcdefghijklmnopqrstuvwxyz'')
   \<and> map (\<lambda>u. translate caps u False) [0x1e, 0x1f, 0x20, 0x21, 0x22, 0x23, 0x24, 0x25, 0x26, 0x27] = map of_char ''1234567890''
   \<and> map (\<lambda>u. translate caps u False) [0x2d, 0x2e, 0x2f, 0x30, 0x31] = map of_char (''-=[]'' @ [CHR 0x5c])
   \<and> map (\<lambda>u. translate caps u False) [0x32, 0x33, 0x34, 0x35, 0x36, 0x37, 0x38]
       = map of_char ([CHR '';'', CHR 0x27, CHR 0x60] @ '',./'') @ [0]"
proof (intro conjI)
  show "map (\<lambda>i. translate caps (0x04 + of_nat i) shift) [0..<26]
     = map of_char (if shift \<noteq> caps then ''ABCDEFGHIJKLMNOPQRSTUVWXYZ'' else ''abcdefghijklmnopqrstuvwxyz'')"
    by (simp add: translate_def upt_rec)
qed (simp_all add: translate_def plain_keys_def symbol_index_def translate_control_def)

end
