(* ===== verification/Pmugrf.thy ===== *)
theory Pmugrf
  imports Prelude "HOL-Library.Monad_Syntax"
begin

text \<open>
  The size of the DRAM from the registers the memory initialisation leaves behind
  (src/rk356x/pmugrf_dram.c). The local variables of the loop over the channels are
  definitions of their own; the specification states the size with the geometry of the
  ranks in natural numbers.
\<close>

subsection \<open>The code\<close>

definition field32 :: "u32 \<Rightarrow> u32 \<Rightarrow> u32 \<Rightarrow> u32" where
  "field32 value shift msk = drop_bit (unat shift) value AND msk"

definition decode_rows :: "u32 \<Rightarrow> u32" where
  "decode_rows raw = (if raw = 7 then 12 else 13 + raw)"

definition add_u64 :: "u64 \<Rightarrow> u64 \<Rightarrow> u64 option" where
  "add_u64 sum_bytes value = (if value > NOT 0 - sum_bytes then None else Some (sum_bytes + value))"

definition dram_version :: "u32 \<Rightarrow> u32" where
  "dram_version os_reg3 = field32 os_reg3 28 0xf"

definition channel_count :: "u32 \<Rightarrow> u32" where
  "channel_count os_reg2 = 1 + field32 os_reg2 12 1"

definition decode_dram_type :: "u32 \<Rightarrow> u32 \<Rightarrow> u32" where
  "decode_dram_type os_reg2 os_reg3 =
     (let dram_type = field32 os_reg2 13 7 in
      if dram_version os_reg3 \<ge> 3 then dram_type OR push_bit 3 (field32 os_reg3 12 3) else dram_type)"

definition channel_lane :: "u32 \<Rightarrow> u32 \<Rightarrow> u32" where
  "channel_lane os_reg2 channel = field32 os_reg2 (channel * 16) 0xffff"

definition ranks :: "u32 \<Rightarrow> u32" where
  "ranks lane = 1 + field32 lane 11 1"

definition cs0_columns :: "u32 \<Rightarrow> u32" where
  "cs0_columns lane = 9 + field32 lane 9 3"

definition width_code :: "u32 \<Rightarrow> u32" where
  "width_code lane = field32 lane 2 3"

definition bank_exponent :: "u32 \<Rightarrow> u32 \<Rightarrow> u32" where
  "bank_exponent dram_type lane =
     (if dram_type = 9 then 3 + field32 lane 8 1 else 3 - field32 lane 8 1)"

definition cs0_rows :: "u32 \<Rightarrow> u32 \<Rightarrow> u32 \<Rightarrow> u32" where
  "cs0_rows os_reg3 lane channel =
     (if dram_version os_reg3 < 2 then 13 + field32 lane 6 3
      else decode_rows (push_bit 2 (field32 os_reg3 (5 + 2 * channel) 1) OR field32 lane 6 3))"

definition cs1_rows :: "u32 \<Rightarrow> u32 \<Rightarrow> u32 \<Rightarrow> u32" where
  "cs1_rows os_reg3 lane channel =
     (if dram_version os_reg3 < 2 then 13 + field32 lane 4 3
      else decode_rows (push_bit 2 (field32 os_reg3 (4 + 2 * channel) 1) OR field32 lane 4 3))"

definition cs1_columns :: "u32 \<Rightarrow> u32 \<Rightarrow> u32 \<Rightarrow> u32" where
  "cs1_columns os_reg3 lane channel =
     (if dram_version os_reg3 < 2 then cs0_columns lane else 9 + field32 os_reg3 (2 * channel) 3)"

definition bank_group_exponent :: "u32 \<Rightarrow> u32 \<Rightarrow> u32 \<Rightarrow> u32" where
  "bank_group_exponent dram_type os_reg3 lane =
     (if dram_type = 0 \<and> dram_version os_reg3 \<noteq> 3
      then if field32 lane 0 3 = 2 then 2 else 1 else 0)"

text \<open>The body of the loop: the size of one channel, or \<open>None\<close> where the code returns 0.\<close>

definition channel_bytes :: "u32 \<Rightarrow> u32 \<Rightarrow> u32 \<Rightarrow> u64 option" where
  "channel_bytes os_reg2 os_reg3 channel =
     (let lane = channel_lane os_reg2 channel;
          dram_type = decode_dram_type os_reg2 os_reg3;
          cs0_rows = cs0_rows os_reg3 lane channel; cs1_rows = cs1_rows os_reg3 lane channel;
          cs0_columns = cs0_columns lane; cs1_columns = cs1_columns os_reg3 lane channel;
          exponent = cs0_rows + cs0_columns + bank_exponent dram_type lane
            + bank_group_exponent dram_type os_reg3 lane + (2 - width_code lane) in
      if width_code lane = 3 then None
      else if exponent < 20 \<or> exponent > 35 then None
      else do {
        let bytes = push_bit (unat exponent) 1;
        bytes \<leftarrow> (if ranks lane = 2 then
            (let delta = (sint cs0_rows - sint cs1_rows) + (sint cs0_columns - sint cs1_columns) in
             if delta < 0 \<or> delta > 8 then None
             else add_u64 bytes (bytes div push_bit (nat delta) 1))
          else Some bytes);
        Some (if field32 os_reg2 (30 + channel) 1 \<noteq> 0 then (bytes div 4) * 3 else bytes)
      })"

primrec add_channels :: "u32 \<Rightarrow> u32 \<Rightarrow> u32 list \<Rightarrow> u64 \<Rightarrow> u64 option" where
  "add_channels os_reg2 os_reg3 [] sum_bytes = Some sum_bytes"
| "add_channels os_reg2 os_reg3 (channel # channels) sum_bytes = do {
     bytes \<leftarrow> channel_bytes os_reg2 os_reg3 channel;
     sum_bytes \<leftarrow> add_u64 sum_bytes bytes;
     add_channels os_reg2 os_reg3 channels sum_bytes
   }"

definition rk356x_decode_pmugrf :: "u32 \<Rightarrow> u32 \<Rightarrow> u64" where
  "rk356x_decode_pmugrf os_reg2 os_reg3 =
     (if decode_dram_type os_reg2 os_reg3 > 10 then 0
      else case add_channels os_reg2 os_reg3 (map of_nat [0..<unat (channel_count os_reg2)]) 0 of
        None \<Rightarrow> 0
      | Some total_bytes \<Rightarrow>
          if total_bytes < push_bit 30 1 \<or> total_bytes > push_bit 35 1 then 0 else total_bytes)"

subsection \<open>The geometry\<close>

text \<open>
  A rank with \<open>r\<close> row and \<open>c\<close> column address bits, \<open>b\<close> bank and \<open>g\<close> bank group bits and a
  bus of 2 to the \<open>w\<close> bytes holds 2 to the \<open>r + c + b + g + w\<close> bytes.
\<close>

definition rank_size :: "nat \<Rightarrow> nat \<Rightarrow> u32 \<Rightarrow> u32 \<Rightarrow> u32 \<Rightarrow> nat" where
  "rank_size rows columns dram_type os_reg3 lane = 2 ^ (rows + columns
     + unat (bank_exponent dram_type lane) + unat (bank_group_exponent dram_type os_reg3 lane)
     + (2 - unat (width_code lane)))"

text \<open>The second rank counts when there are two, and a quarter is missing where the register says so.\<close>

definition channel_size :: "u32 \<Rightarrow> u32 \<Rightarrow> u32 \<Rightarrow> nat" where
  "channel_size os_reg2 os_reg3 channel =
     (let lane = channel_lane os_reg2 channel; dram_type = decode_dram_type os_reg2 os_reg3;
          first = rank_size (unat (cs0_rows os_reg3 lane channel)) (unat (cs0_columns lane)) dram_type os_reg3 lane;
          second = rank_size (unat (cs1_rows os_reg3 lane channel)) (unat (cs1_columns os_reg3 lane channel))
            dram_type os_reg3 lane;
          size = first + (if ranks lane = 2 then second else 0) in
      if field32 os_reg2 (30 + channel) 1 \<noteq> 0 then size * 3 div 4 else size)"

lemma field32_le: "unat (field32 v s msk) \<le> unat msk"
  by (simp add: field32_def flip: word_le_nat_alt) (rule word_and_le1)

lemma field32_below: "unat msk < n \<Longrightarrow> unat (field32 v s msk) < n"
  using field32_le [of v s msk] by simp

lemmas field32_bounds = field32_below [of 1 2] field32_below [of 3 4]

lemma unat_add_small: "unat (a :: u32) < 2 ^ 16 \<Longrightarrow> unat b < 2 ^ 16 \<Longrightarrow> unat (a + b) = unat a + unat b"
  by (simp add: unat_word_ariths)

lemma field32_bits:
  "field32 v s 1 = take_bit 1 (drop_bit (unat s) v)" "field32 v s 3 = take_bit 2 (drop_bit (unat s) v)"
  by (simp_all add: field32_def take_bit_eq_mask mask_eq_exp_minus_1)

lemma raw_rows_less: "unat (push_bit 2 (field32 a s 1) OR field32 b t 3) < 8"
proof -
  have "push_bit 2 (field32 a s 1) OR field32 b t 3 = take_bit 3 (push_bit 2 (field32 a s 1) OR field32 b t 3)"
    unfolding field32_bits
    by (rule bit_word_eqI) (auto simp: bit_simps)
  also have "unat \<dots> < 8" 
    by (simp add: take_bit_eq_mod unat_mod)
  finally show ?thesis .
qed

lemma decode_rows_bounds: "unat raw < 8 \<Longrightarrow> 12 \<le> unat (decode_rows raw) \<and> unat (decode_rows raw) \<le> 20"
  by (simp add: decode_rows_def unat_add_small)

lemma rows_bounds:
  "12 \<le> unat (cs0_rows os_reg3 lane channel) \<and> unat (cs0_rows os_reg3 lane channel) \<le> 20"
  "12 \<le> unat (cs1_rows os_reg3 lane channel) \<and> unat (cs1_rows os_reg3 lane channel) \<le> 20"
  using decode_rows_bounds [OF raw_rows_less] field32_bounds(2) [of lane 6] field32_bounds(2) [of lane 4]
  by (simp_all add: cs0_rows_def cs1_rows_def unat_add_small)

lemma columns_bounds:
  "9 \<le> unat (cs0_columns lane) \<and> unat (cs0_columns lane) \<le> 12"
  "9 \<le> unat (cs1_columns os_reg3 lane channel) \<and> unat (cs1_columns os_reg3 lane channel) \<le> 12"
  using field32_bounds(2) [of lane 9] field32_bounds(2) [of os_reg3 "2 * channel"]
  by (simp_all add: cs0_columns_def cs1_columns_def unat_add_small)

lemma bank_group_bound: "unat (bank_group_exponent t os_reg3 lane) \<le> 2"
  by (simp add: bank_group_exponent_def)

lemma exponents_bounds:
  "2 \<le> unat (bank_exponent t lane) \<and> unat (bank_exponent t lane) \<le> 4"
  "unat (width_code lane) < 4"
  using field32_bounds(1) [of lane 8] field32_bounds(2) [of lane 2]
  by (auto simp: bank_exponent_def bank_group_exponent_def width_code_def unat_add_small unat_sub word_le_nat_alt)

lemma sint_small: "unat (x :: u32) < 2 ^ 31 \<Longrightarrow> sint x = int (unat x)"
proof -
  assume "unat x < 2 ^ 31"
  then have "int (unat x) < int (2 ^ 31)" by (simp only: of_nat_less_iff)
  then have "uint x < 2 ^ 31" by simp
  then have "sint x = uint x" unfolding sint_uint by (intro signed_take_bit_int_eq_self) (simp_all add: order.trans [OF _ uint_ge_0])
  then show ?thesis by simp
qed

text \<open>The exponent of the code is the one of the first rank, and no sum in it wraps around.\<close>

lemma exponent_value:
  assumes "unat w \<le> 2" "unat r \<le> 20" "unat c \<le> 12" "unat b \<le> 4" "unat g \<le> 2"
  shows "unat (r + c + b + g + (2 - w) :: u32) = unat r + unat c + unat b + unat g + (2 - unat w)"
proof -
  have w: "unat (2 - w) = 2 - unat w" using assms(1) by (simp add: unat_sub word_le_nat_alt)
  show ?thesis using assms by (simp add: unat_add_small w)
qed

lemma unat_pow2: "n < 64 \<Longrightarrow> unat (push_bit n (1 :: u64)) = 2 ^ n"
proof -
  assume "n < 64"
  then have "(2 :: nat) ^ n < 2 ^ 64" by (intro power_strict_increasing) simp_all
  then show ?thesis using unat_of_nat_u64 [of "2 ^ n"] by (simp add: push_bit_eq_mult)
qed

lemma add_u64_value: "unat a + unat b < 2 ^ 64 \<Longrightarrow> add_u64 a b = Some (a + b)"
proof -
  assume "unat a + unat b < 2 ^ 64"
  moreover have "unat (NOT 0 :: u64) = 2 ^ 64 - 1" by (simp add: unsigned_minus_1_eq_mask mask_eq_exp_minus_1)
  moreover have "unat (NOT 0 - a) = unat (NOT 0 :: u64) - unat a" by (rule unat_sub) simp
  ultimately show ?thesis by (simp add: add_u64_def word_less_nat_alt)
qed

lemma channel_bytes_value:
  assumes "channel_bytes os_reg2 os_reg3 channel = Some bytes"
  shows "unat bytes = channel_size os_reg2 os_reg3 channel \<and> unat bytes \<le> 2 ^ 36"
proof -
  define lane where "lane = channel_lane os_reg2 channel"
  define t where "t = decode_dram_type os_reg2 os_reg3"
  define r0 where "r0 = cs0_rows os_reg3 lane channel"
  define r1 where "r1 = cs1_rows os_reg3 lane channel"
  define c0 where "c0 = cs0_columns lane"
  define c1 where "c1 = cs1_columns os_reg3 lane channel"
  define rest where "rest = unat (bank_exponent t lane) + unat (bank_group_exponent t os_reg3 lane)
    + (2 - unat (width_code lane))"
  define x where "x = r0 + c0 + bank_exponent t lane + bank_group_exponent t os_reg3 lane + (2 - width_code lane)"
  note bounds = rows_bounds [of os_reg3 lane channel] columns_bounds(1) [of lane]
    columns_bounds(2) [of os_reg3 lane channel] exponents_bounds(1) [of t lane] bank_group_bound [of t os_reg3 lane]
  have defs: "channel_lane os_reg2 channel = lane" "decode_dram_type os_reg2 os_reg3 = t" by (simp_all add: lane_def t_def)
  have w: "width_code lane \<noteq> 3" and x: "20 \<le> x" "x \<le> 35"
    using assms unfolding channel_bytes_def Let_def defs x_def r0_def c0_def by (auto split: if_splits simp: not_less)
  have nx: "\<not> (x < 20 \<or> x > 35)" using x by (simp add: not_less)
  have wle: "unat (width_code lane) \<le> 2" using w exponents_bounds(2) [of lane] by (auto simp: word_unat_eq_iff)
  have xv: "unat x = unat r0 + unat c0 + rest"
    unfolding x_def rest_def using exponent_value [OF wle, of r0 c0 "bank_exponent t lane" "bank_group_exponent t os_reg3 lane"] bounds
    by (simp add: r0_def c0_def)
  have xb: "20 \<le> unat x" "unat x \<le> 35" using x by (simp_all add: word_le_nat_alt)
  define first where "first = (2 :: nat) ^ unat x"
  have f: "unat (push_bit (unat x) 1 :: u64) = first" unfolding first_def by (rule unat_pow2) (use xb in simp)
  define size where "size = first + (if ranks lane = 2 then 2 ^ (unat r1 + unat c1 + rest) else 0)"
  obtain b where b: "unat b = size" "bytes = (if field32 os_reg2 (30 + channel) 1 \<noteq> 0 then b div 4 * 3 else b)"
    and size: "4 dvd size" "size \<le> 2 ^ 36"
  proof (cases "ranks lane = 2")
    case False
    have "(2 :: nat) ^ 2 dvd first" unfolding first_def using xb by (intro le_imp_power_dvd) simp
    then have "4 dvd first" by simp
    moreover have "first \<le> 2 ^ 35" unfolding first_def using xb by (intro power_increasing) simp_all
    ultimately show ?thesis
      using that [of "push_bit (unat x) 1"] f False assms w nx
      unfolding channel_bytes_def Let_def defs size_def r0_def [symmetric] c0_def [symmetric] x_def [symmetric]
      by (simp del: push_bit_of_1)
  next
    case True
    define delta where "delta = (sint r0 - sint r1) + (sint c0 - sint c1)"
    define d where "d = nat delta"
    have dd: "0 \<le> delta" "delta \<le> 8"
      using True assms w x
      unfolding channel_bytes_def Let_def defs r0_def [symmetric] c0_def [symmetric] x_def [symmetric]
        r1_def [symmetric] c1_def [symmetric] delta_def [symmetric] by (auto split: if_splits simp: not_less)
    have "unat r0 + unat c0 = unat r1 + unat c1 + d" and "d \<le> 8"
    proof -
      have "unat r0 < 2 ^ 31" "unat r1 < 2 ^ 31" "unat c0 < 2 ^ 31" "unat c1 < 2 ^ 31"
        using bounds by (simp_all add: r0_def r1_def c0_def c1_def)
      then have "delta = (int (unat r0) - int (unat r1)) + (int (unat c0) - int (unat c1))"
        unfolding delta_def by (simp only: sint_small)
      with dd show "unat r0 + unat c0 = unat r1 + unat c1 + d" and "d \<le> 8" unfolding d_def by linarith+
    qed
    then have xd: "unat x - d = unat r1 + unat c1 + rest" "d \<le> unat x" "d \<le> 8" using xv xb by simp_all
    define second where "second = (2 :: nat) ^ (unat x - d)"
    have "unat (push_bit (unat x) 1 div push_bit d 1 :: u64) = first div 2 ^ d"
      using xd(3) by (simp only: unat_div f unat_pow2)
    also have "\<dots> = second" unfolding first_def second_def using xd(2) by (simp add: power_diff)
    finally have s: "unat (push_bit (unat x) 1 div push_bit d 1 :: u64) = second" .
    have le: "first \<le> 2 ^ 35" "second \<le> 2 ^ 35"
      unfolding first_def second_def using xb by (intro power_increasing; simp)+
    have sum: "add_u64 (push_bit (unat x) 1) (push_bit (unat x) 1 div push_bit d 1)
        = Some (push_bit (unat x) 1 + push_bit (unat x) 1 div push_bit d 1)"
      by (rule add_u64_value) (use le in \<open>simp only: f s, simp\<close>)
    have "(2 :: nat) ^ 2 dvd first" "(2 :: nat) ^ 2 dvd second"
      unfolding first_def second_def using xb xd(3) by (intro le_imp_power_dvd; simp)+
    then have "4 dvd first + second" by simp
    moreover have "unat (push_bit (unat x) 1 + push_bit (unat x) 1 div push_bit d 1 :: u64) = first + second"
      using unat_plus_no_wrap [of "push_bit (unat x) 1" "push_bit (unat x) 1 div push_bit d 1"] le
      unfolding f s by simp
    ultimately show ?thesis
      using that [of "push_bit (unat x) 1 + push_bit (unat x) 1 div push_bit d 1"] True assms w nx dd sum le xd(1)
      unfolding channel_bytes_def Let_def defs size_def r0_def [symmetric] c0_def [symmetric] x_def [symmetric]
        r1_def [symmetric] c1_def [symmetric] delta_def [symmetric] d_def [symmetric] second_def
      by (simp del: push_bit_of_1)
  qed
  have "channel_size os_reg2 os_reg3 channel
      = (if field32 os_reg2 (30 + channel) 1 \<noteq> 0 then size * 3 div 4 else size)"
    by (simp add: channel_size_def Let_def defs size_def first_def xv rank_size_def rest_def r0_def c0_def r1_def c1_def add.assoc)
  moreover obtain k where k: "size = 4 * k" using size(1) by blast
  moreover have "unat (b div 4 * 3) = size div 4 * 3"
    using size(2) b(1) by (simp add: unat_word_ariths unat_div)
  ultimately show ?thesis using b size(2) by simp
qed

lemma channel_count_bound: "unat (channel_count os_reg2) \<le> 2"
  using field32_bounds(1) [of os_reg2 12] by (simp add: channel_count_def unat_add_small)

lemma add_channels_value:
  "add_channels os_reg2 os_reg3 cs sum_bytes = Some result \<Longrightarrow>
   unat sum_bytes + length cs * 2 ^ 36 < 2 ^ 64 \<Longrightarrow>
   unat result = unat sum_bytes + sum_list (map (channel_size os_reg2 os_reg3) cs)"
proof (induction cs arbitrary: sum_bytes)
  case (Cons c cs)
  from Cons.prems(1) obtain bytes where b: "channel_bytes os_reg2 os_reg3 c = Some bytes"
    by (auto simp: bind_eq_Some_conv)
  note v = channel_bytes_value [OF b]
  have a: "add_u64 sum_bytes bytes = Some (sum_bytes + bytes)"
    by (rule add_u64_value) (use v Cons.prems(2) in simp)
  have u: "unat (sum_bytes + bytes) = unat sum_bytes + unat bytes"
    by (rule unat_plus_no_wrap) (use v Cons.prems(2) in simp)
  have "unat result = unat (sum_bytes + bytes) + sum_list (map (channel_size os_reg2 os_reg3) cs)"
    by (rule Cons.IH) (use Cons.prems v in \<open>simp_all add: b a u\<close>)
  with v show ?case by (simp add: u)
qed simp

lemma decode_pmugrf_spec:
  "rk356x_decode_pmugrf os_reg2 os_reg3 = 0 \<or>
   (unat (rk356x_decode_pmugrf os_reg2 os_reg3)
      = sum_list (map (\<lambda>c. channel_size os_reg2 os_reg3 (of_nat c)) [0..<unat (channel_count os_reg2)])
    \<and> 2 ^ 30 \<le> unat (rk356x_decode_pmugrf os_reg2 os_reg3)
    \<and> unat (rk356x_decode_pmugrf os_reg2 os_reg3) \<le> 2 ^ 35)"
proof (cases "add_channels os_reg2 os_reg3 (map of_nat [0..<unat (channel_count os_reg2)]) 0")
  case None
  then show ?thesis by (simp add: rk356x_decode_pmugrf_def)
next
  case (Some sum_bytes)
  have "unat sum_bytes = unat (0 :: u64)
      + sum_list (map (channel_size os_reg2 os_reg3) (map of_nat [0..<unat (channel_count os_reg2)]))"
    by (rule add_channels_value [OF Some]) (use channel_count_bound [of os_reg2] in simp)
  then show ?thesis
    by (auto simp: rk356x_decode_pmugrf_def Some comp_def not_less word_le_nat_alt unat_pow2)
qed

text \<open>C32. The size decoded from the registers is 0 or, exactly, the sum of the sizes of the ranks of
  all channels, each 2 to the number of its address bits, with the three-quarter rule
  applied per channel; it lies between 1 GiB and 32 GiB, so no step of the computation
  wraps around.\<close>

theorem decode_pmugrf_geometry:
  "rk356x_decode_pmugrf os_reg2 os_reg3 = 0 \<or>
   (unat (rk356x_decode_pmugrf os_reg2 os_reg3)
      = sum_list (map (\<lambda>c. channel_size os_reg2 os_reg3 (of_nat c)) [0..<unat (channel_count os_reg2)])
    \<and> 2 ^ 30 \<le> unat (rk356x_decode_pmugrf os_reg2 os_reg3)
    \<and> unat (rk356x_decode_pmugrf os_reg2 os_reg3) \<le> 2 ^ 35)"
  by (rule decode_pmugrf_spec)

text \<open>The registers for LPDDR4 in one channel with one rank of 18 row bits, as in the tests.\<close>

lemma decode_example: "rk356x_decode_pmugrf 0xe244 0x20000020 = 0x100000000"
  by code_simp

end
