(* ===== verification/Dram.thy ===== *)
theory Dram
  imports Pmugrf Mmio
begin

text \<open>
  The DRAM layout of the RK356x (src/rk356x/dram.c): the banks an earlier boot stage
  describes in its tags (ATAGS), checked against the size that Pmugrf decodes from the
  registers, or banks made up from that size.
\<close>

subsection \<open>The code\<close>

abbreviation (input) RK356X_PMUGRF :: addr where "RK356X_PMUGRF \<equiv> 0xfdc20000"
abbreviation (input) RK356X_MMIO_START :: u64 where "RK356X_MMIO_START \<equiv> 0xf0000000"
abbreviation (input) RK356X_PHYS_4G :: u64 where "RK356X_PHYS_4G \<equiv> 0x100000000"
abbreviation (input) RK356X_MAX_DRAM_BANKS :: u32 where "RK356X_MAX_DRAM_BANKS \<equiv> 10"
abbreviation (input) ATAGS_START :: addr where "ATAGS_START \<equiv> 0x001fe000"
abbreviation (input) ATAGS_END :: addr where "ATAGS_END \<equiv> 0x00200000"
abbreviation (input) ATAG_DDR_MEM :: u32 where "ATAG_DDR_MEM \<equiv> 0x54410052"
abbreviation (input) ATAG_DDR_WORDS :: u32 where "ATAG_DDR_WORDS \<equiv> 48"
abbreviation (input) RK356X_MMIO_SIZE :: u64 where "RK356X_MMIO_SIZE \<equiv> RK356X_PHYS_4G - RK356X_MMIO_START"

datatype dram_source = RK356X_DRAM_FALLBACK | RK356X_DRAM_PMUGRF | RK356X_DRAM_ATAGS

record dram_bank =
  bank_start :: u64
  bank_size :: u64

record dram_layout =
  total_bytes :: u64
  atag_bytes :: u64
  geometry_bytes :: u64
  banks :: "dram_bank list"
  bank_count :: u32
  source :: dram_source
  atags_valid :: bool
  atags_accepted :: bool
  geometry_valid :: bool

text \<open>\<open>memset(&layout, 0, sizeof(layout))\<close>; the array has ten elements.\<close>

definition zero_layout :: dram_layout where
  "zero_layout = \<lparr>total_bytes = 0, atag_bytes = 0, geometry_bytes = 0,
     banks = replicate 10 \<lparr>bank_start = 0, bank_size = 0\<rparr>, bank_count = 0,
     source = RK356X_DRAM_FALLBACK, atags_valid = False, atags_accepted = False, geometry_valid = False\<rparr>"

definition read_le32 :: "mem \<Rightarrow> addr \<Rightarrow> u32" where
  "read_le32 m a = ucast (m a) OR push_bit 8 (ucast (m (a + 1)))
     OR push_bit 16 (ucast (m (a + 2))) OR push_bit 24 (ucast (m (a + 3)))"

definition read_le64 :: "mem \<Rightarrow> addr \<Rightarrow> u64" where
  "read_le64 m a = ucast (read_le32 m a) OR push_bit 32 (ucast (read_le32 m (a + 4)))"

definition js_hash :: "mem \<Rightarrow> addr \<Rightarrow> u32 \<Rightarrow> u32" where
  "js_hash m p len = fold (\<lambda>i hash.
     hash XOR (push_bit 5 hash + ucast (m (p + of_nat i)) + drop_bit 2 hash)) [0..<unat len] 0x47c6a7e6"

text \<open>One round of the loop over the banks of a tag. The state is \<open>banks\<close>, \<open>previous_end\<close> and \<open>total\<close>.\<close>

definition parse_bank :: "mem \<Rightarrow> addr \<Rightarrow> u32 \<Rightarrow> u32 \<Rightarrow> dram_bank list \<times> u64 \<times> u64
    \<Rightarrow> (dram_bank list \<times> u64 \<times> u64) option" where
  "parse_bank m cursor cnt i = (\<lambda>(bs, previous_end, tot).
     let start = read_le64 m (cursor + 16 + ucast (i * 8));
         size = read_le64 m (cursor + 16 + ucast ((cnt + i) * 8));
         bank_end = start + size in
     if size = 0 \<or> bank_end < start \<or> (start OR size) AND 0xfff \<noteq> 0 then None
     else if i \<noteq> 0 \<and> start < previous_end then None
     else if tot + size < tot then None
     else Some (bs[unat i := \<lparr>bank_start = start, bank_size = size\<rparr>], bank_end, tot + size))"

primrec parse_banks :: "mem \<Rightarrow> addr \<Rightarrow> u32 \<Rightarrow> u32 list \<Rightarrow> dram_bank list \<times> u64 \<times> u64
    \<Rightarrow> (dram_bank list \<times> u64 \<times> u64) option" where
  "parse_banks m cursor cnt [] st = Some st"
| "parse_banks m cursor cnt (i # ns) st = do {
     st \<leftarrow> parse_bank m cursor cnt i st;
     parse_banks m cursor cnt ns st
   }"

definition parse_ddr_mem :: "mem \<Rightarrow> addr \<Rightarrow> u64 \<Rightarrow> dram_layout option" where
  "parse_ddr_mem m cursor tag_bytes =
     (let cnt = read_le32 m (cursor + 8); expected_hash = read_le32 m (cursor + tag_bytes - 4) in
      if cnt = 0 \<or> cnt > RK356X_MAX_DRAM_BANKS \<or> expected_hash = 0 then None
      else if js_hash m cursor (ucast tag_bytes - 4) \<noteq> expected_hash then None
      else do {
        (bs, previous_end, tot) \<leftarrow> parse_banks m cursor cnt (map of_nat [0..<unat cnt]) (banks zero_layout, 0, 0);
        Some (zero_layout\<lparr>banks := bs, bank_count := cnt, total_bytes := tot, atag_bytes := tot,
          atags_valid := True, atags_accepted := True, source := RK356X_DRAM_ATAGS\<rparr>)
      })"

text \<open>A tag of at least eight bytes that fits brings the cursor closer to the end.\<close>

lemma tag_fits:
  fixes words :: u32 and left :: u64
  assumes "ucast words \<le> left div 4"
  shows "unat (ucast words * 4 :: u64) = 4 * unat words" "4 * unat words \<le> unat left"
    "unat (left - ucast words * 4) = unat left - 4 * unat words"
proof -
  have w: "unat (ucast words :: u64) = unat words"
    by (rule unat_ucast_u32)
  have le: "unat words \<le> unat left div 4"
    using assms unfolding word_le_nat_alt w by (simp add: unat_div)
  then show *: "4 * unat words \<le> unat left" by linarith
  show **: "unat (ucast words * 4 :: u64) = 4 * unat words"
    using unat_u32_less [of words] by (simp add: unat_word_ariths w)
  show "unat (left - ucast words * 4) = unat left - 4 * unat words"
    using * by (subst unat_sub) (simp_all only: word_le_nat_alt **)
qed

text \<open>The loop over the tags; a tag that is not the DRAM tag is skipped.\<close>

function parse_atags_from :: "mem \<Rightarrow> addr \<Rightarrow> addr \<Rightarrow> dram_layout option" where
  "parse_atags_from m cursor end_ptr =
     (if end_ptr - cursor < 8 then None
      else let words = read_le32 m cursor; magic = read_le32 m (cursor + 4) in
        if words = 0 then None
        else if words < 2 \<or> ucast words > (end_ptr - cursor) div 4 then None
        else let tag_bytes = ucast words * 4 in
          if magic \<noteq> ATAG_DDR_MEM then parse_atags_from m (cursor + tag_bytes) end_ptr
          else if words \<noteq> ATAG_DDR_WORDS then None
          else parse_ddr_mem m cursor tag_bytes)"
  by pat_completeness auto

termination
proof (relation "measure (\<lambda>(m, cursor, end_ptr). unat (end_ptr - cursor))")
  fix m and cursor end_ptr :: addr and words magic :: u32 and tag_bytes :: u64
  assume *: "\<not> end_ptr - cursor < 8" "\<not> (words < 2 \<or> ucast words > (end_ptr - cursor) div 4)"
    "tag_bytes = ucast words * 4"
  have "unat (end_ptr - cursor - ucast words * 4) = unat (end_ptr - cursor) - 4 * unat words"
    "4 * unat words \<le> unat (end_ptr - cursor)"
    using tag_fits [of words "end_ptr - cursor"] *(2) by (simp_all add: not_less)
  moreover have "2 \<le> unat words" using *(2) by (simp add: word_less_nat_alt)
  ultimately show "((m, cursor + tag_bytes, end_ptr), m, cursor, end_ptr)
      \<in> measure (\<lambda>(m, cursor, end_ptr). unat (end_ptr - cursor))"
    by (simp add: *(3) diff_diff_add)
qed simp

declare parse_atags_from.simps [simp del]

definition rk356x_parse_atags :: "mem \<Rightarrow> addr \<Rightarrow> u64 \<Rightarrow> dram_layout option" where
  "rk356x_parse_atags m data len = parse_atags_from m data (data + len)"

definition add_bank :: "u64 \<Rightarrow> u64 \<Rightarrow> dram_layout \<Rightarrow> dram_layout" where
  "add_bank start sz l = l\<lparr>banks := (banks l)[unat (bank_count l) := \<lparr>bank_start = start, bank_size = sz\<rparr>],
     bank_count := bank_count l + 1\<rparr>"

definition synthesize_geometry :: "u64 \<Rightarrow> dram_layout \<Rightarrow> dram_layout" where
  "synthesize_geometry capacity l =
     (let low = (if capacity < RK356X_MMIO_START then capacity else RK356X_MMIO_START);
          l = l\<lparr>bank_count := 0\<rparr>;
          l = (if low \<noteq> 0 then add_bank 0 low l else l) in
      if capacity > RK356X_PHYS_4G then add_bank RK356X_PHYS_4G (capacity - RK356X_PHYS_4G) l else l)"

definition bank_within_capacity :: "dram_bank \<Rightarrow> u64 \<Rightarrow> bool" where
  "bank_within_capacity bank capacity =
     (let end_addr = bank_start bank + bank_size bank in
      if end_addr < bank_start bank then False
      else if bank_start bank < RK356X_MMIO_START then end_addr \<le> RK356X_MMIO_START \<and> end_addr \<le> capacity
      else if bank_start bank < RK356X_PHYS_4G \<or> capacity \<le> RK356X_MMIO_START then False
      else let high_end = capacity + RK356X_MMIO_SIZE in
        if high_end < capacity then False else end_addr \<le> high_end)"

definition atags_match_geometry :: "dram_layout \<Rightarrow> u64 \<Rightarrow> bool" where
  "atags_match_geometry atags capacity =
     (if bank_count atags = 0 \<or> atag_bytes atags \<noteq> capacity \<or> bank_start (banks atags ! 0) > 0x00200000
      then False
      else list_all (\<lambda>i. bank_within_capacity (banks atags ! i) capacity) [0..<unat (bank_count atags)])"

definition rk356x_select_dram_layout :: "mem \<Rightarrow> addr \<Rightarrow> u64 \<Rightarrow> u32 \<Rightarrow> u32 \<Rightarrow> dram_layout" where
  "rk356x_select_dram_layout m atags atags_length os_reg2 os_reg3 =
     (let geometry = rk356x_decode_pmugrf os_reg2 os_reg3;
          parsed = (if atags \<noteq> 0 then rk356x_parse_atags m atags atags_length else None);
          layout = zero_layout\<lparr>geometry_bytes := geometry, geometry_valid := geometry \<noteq> 0\<rparr>;
          layout = (case parsed of None \<Rightarrow> layout
            | Some p \<Rightarrow> layout\<lparr>atag_bytes := atag_bytes p, atags_valid := True\<rparr>) in
      if geometry \<noteq> 0 \<and> (case parsed of None \<Rightarrow> False | Some p \<Rightarrow> atags_match_geometry p geometry)
      then (the parsed)\<lparr>total_bytes := geometry, geometry_bytes := geometry, geometry_valid := True\<rparr>
      else if geometry \<noteq> 0
      then synthesize_geometry geometry (layout\<lparr>total_bytes := geometry, source := RK356X_DRAM_PMUGRF\<rparr>)
      else case parsed of
        Some p \<Rightarrow> p
      | None \<Rightarrow> synthesize_geometry (push_bit 30 1)
          (layout\<lparr>total_bytes := push_bit 30 1, source := RK356X_DRAM_FALLBACK\<rparr>))"

text \<open>The layout is detected once: \<open>detected_layout\<close> and \<open>layout_ready\<close> as an option.\<close>

definition rk356x_get_dram_layout :: "device \<Rightarrow> mem \<Rightarrow> dram_layout option \<times> history
    \<Rightarrow> dram_layout \<times> dram_layout option \<times> history" where
  "rk356x_get_dram_layout dev m = (\<lambda>(detected, t).
     case detected of
       Some l \<Rightarrow> (l, Some l, t)
     | None \<Rightarrow>
         (let (os_reg2, t) = read32 dev (RK356X_PMUGRF + 0x208) t;
              (os_reg3, t) = read32 dev (RK356X_PMUGRF + 0x20c) t;
              l = rk356x_select_dram_layout m ATAGS_START (ATAGS_END - ATAGS_START) os_reg2 os_reg3 in
          (l, Some l, t)))"

definition rk356x_detect_dram :: "device \<Rightarrow> mem \<Rightarrow> dram_layout option \<times> history
    \<Rightarrow> u64 \<times> dram_layout option \<times> history" where
  "rk356x_detect_dram dev m s = (case rk356x_get_dram_layout dev m s of (l, s) \<Rightarrow> (total_bytes l, s))"

subsection \<open>Sound layouts\<close>

definition bank_end :: "dram_bank \<Rightarrow> nat" where
  "bank_end b = unat (bank_start b) + unat (bank_size b)"

definition sorted_banks :: "dram_bank list \<Rightarrow> bool" where
  "sorted_banks bs \<longleftrightarrow> sorted_wrt (\<lambda>a b. bank_end a \<le> unat (bank_start b)) bs
     \<and> (\<forall>b \<in> set bs. bank_size b \<noteq> 0 \<and> bank_end b < 2 ^ 64)"

definition used_banks :: "dram_layout \<Rightarrow> dram_bank list" where
  "used_banks l = take (unat (bank_count l)) (banks l)"

lemma used_banks_update [simp]:
  "used_banks (l\<lparr>total_bytes := a, geometry_bytes := b, geometry_valid := c\<rparr>) = used_banks l"
  by (simp add: used_banks_def)

definition banks_size :: "dram_bank list \<Rightarrow> nat" where
  "banks_size bs = sum_list (map (\<lambda>b. unat (bank_size b)) bs)"

text \<open>Between one and ten banks, each with an end, in order and apart, no larger than the DRAM.\<close>

definition sound_layout :: "dram_layout \<Rightarrow> bool" where
  "sound_layout l \<longleftrightarrow> length (banks l) = 10 \<and> bank_count l \<noteq> 0 \<and> unat (bank_count l) \<le> 10
     \<and> sorted_banks (used_banks l) \<and> banks_size (used_banks l) \<le> unat (total_bytes l)"

definition page_aligned :: "dram_bank \<Rightarrow> bool" where
  "page_aligned b \<longleftrightarrow> (bank_start b OR bank_size b) AND 0xfff = 0"

definition outside_mmio :: "dram_bank \<Rightarrow> bool" where
  "outside_mmio b \<longleftrightarrow> bank_end b \<le> 0xf0000000 \<or> 0x100000000 \<le> unat (bank_start b)"

text \<open>The state of the loop after \<open>k\<close> banks.\<close>

definition parsed_banks :: "nat \<Rightarrow> dram_bank list \<times> u64 \<times> u64 \<Rightarrow> bool" where
  "parsed_banks k = (\<lambda>(bs, previous_end, tot). length bs = 10 \<and> sorted_banks (take k bs)
     \<and> (\<forall>b \<in> set (take k bs). bank_end b \<le> unat previous_end \<and> page_aligned b)
     \<and> unat tot = banks_size (take k bs))"

lemma parse_bank_step:
  assumes "parsed_banks k st" and "k < 10" and "parse_bank m cursor cnt (of_nat k) st = Some st'"
  shows "parsed_banks (Suc k) st'"
proof -
  obtain bs pe tot where st: "st = (bs, pe, tot)" by (cases st) auto
  define b where "b = \<lparr>bank_start = read_le64 m (cursor + 16 + ucast (of_nat k * 8 :: u32)),
    bank_size = read_le64 m (cursor + 16 + ucast ((cnt + of_nat k) * 8))\<rparr>"
  have k: "unat (of_nat k :: u32) = k" using assms(2) by (simp add: unat_of_nat take_bit_nat_eq_self)
  then have k0: "(of_nat k :: u32) = 0 \<longleftrightarrow> k = 0" by (simp add: word_unat_eq_iff)
  have c: "bank_size b \<noteq> 0" "\<not> bank_start b + bank_size b < bank_start b" "page_aligned b"
    "k = 0 \<or> \<not> bank_start b < pe" "\<not> tot + bank_size b < tot"
    "st' = (bs[k := b], bank_start b + bank_size b, tot + bank_size b)"
    using assms(3) unfolding parse_bank_def st by (auto simp: Let_def b_def page_aligned_def k k0 split: if_splits)
  have inv: "length bs = 10" "sorted_banks (take k bs)" "\<forall>b \<in> set (take k bs). bank_end b \<le> unat pe \<and> page_aligned b"
    "unat tot = banks_size (take k bs)" using assms(1) by (simp_all add: parsed_banks_def st)
  have tk: "take (Suc k) (bs[k := b]) = take k bs @ [b]" using inv(1) assms(2) by (simp add: take_Suc_conv_app_nth)
  have e: "unat (bank_start b + bank_size b) = bank_end b"
    unfolding bank_end_def by (rule unat_plus_checked [OF c(2)])
  have lt: "bank_end b < 2 ^ 64" using unat_u64_less [of "bank_start b + bank_size b"] by (simp add: e)
  have before: "bank_end a \<le> unat (bank_start b)" if "a \<in> set (take k bs)" for a
    using that inv(3) c(4) by (cases "k = 0") (auto simp: word_less_nat_alt not_less intro: order_trans)
  moreover have "unat (bank_start b) \<le> bank_end b" by (simp add: bank_end_def)
  ultimately have "bank_end a \<le> bank_end b" if "a \<in> set (take k bs)" for a using that by (blast intro: order_trans)
  with before lt inv c(1,3) unat_plus_checked [OF c(5)] show ?thesis
    unfolding parsed_banks_def c(6) split_conv tk e
    by (auto simp: sorted_banks_def sorted_wrt_append banks_size_def)
qed

lemma parse_banks_steps:
  assumes "parsed_banks k st" and "k + n \<le> 10" and "parse_banks m cursor cnt (map of_nat [k..<k + n]) st = Some st'"
  shows "parsed_banks (k + n) st'"
  using assms
proof (induction n arbitrary: k st)
  case (Suc n)
  have ks: "[k..<k + Suc n] = k # [Suc k..<Suc k + n]" by (simp add: upt_conv_Cons del: upt_Suc)
  from Suc.prems(3) obtain st1 where s: "parse_bank m cursor cnt (of_nat k) st = Some st1"
    "parse_banks m cursor cnt (map of_nat [Suc k..<Suc k + n]) st1 = Some st'"
    unfolding ks by (auto simp: bind_eq_Some_conv)
  have "parsed_banks (Suc k) st1" using Suc.prems(1,2) s(1) by (intro parse_bank_step) auto
  from Suc.IH [OF this _ s(2)] Suc.prems(2) show ?case by simp
qed simp

text \<open>A parsed tag: a sound layout with page-aligned banks whose sizes add up to the total.\<close>

definition tag_layout :: "dram_layout \<Rightarrow> bool" where
  "tag_layout l \<longleftrightarrow> sound_layout l \<and> banks_size (used_banks l) = unat (total_bytes l)
     \<and> (\<forall>b \<in> set (used_banks l). page_aligned b) \<and> atag_bytes l = total_bytes l \<and> geometry_bytes l = 0
     \<and> source l = RK356X_DRAM_ATAGS \<and> atags_valid l \<and> atags_accepted l \<and> \<not> geometry_valid l"

lemma parse_ddr_mem_layout:
  assumes "parse_ddr_mem m cursor n = Some l"
  shows "tag_layout l"
proof -
  define cnt where "cnt = read_le32 m (cursor + 8)"
  obtain bs pe tot where c: "cnt \<noteq> 0" "\<not> cnt > 10"
    and p: "parse_banks m cursor cnt (map of_nat [0..<unat cnt]) (banks zero_layout, 0, 0) = Some (bs, pe, tot)"
    and l: "l = zero_layout\<lparr>banks := bs, bank_count := cnt, total_bytes := tot, atag_bytes := tot,
          atags_valid := True, atags_accepted := True, source := RK356X_DRAM_ATAGS\<rparr>"
    using assms unfolding parse_ddr_mem_def Let_def cnt_def [symmetric]
    by (auto simp: bind_eq_Some_conv split: if_splits)
  have cb: "unat cnt \<le> 10" using c(2) by (simp add: not_less word_le_nat_alt)
  have "parsed_banks 0 (banks zero_layout, 0, 0)"
    by (simp add: parsed_banks_def zero_layout_def sorted_banks_def banks_size_def)
  from parse_banks_steps [OF this, of "unat cnt" m cursor cnt] p cb
  have "parsed_banks (unat cnt) (bs, pe, tot)" by simp
  with c cb show ?thesis
    by (auto simp: l tag_layout_def sound_layout_def used_banks_def parsed_banks_def zero_layout_def)
qed

lemma parse_atags_layout: "parse_atags_from m cursor e = Some l \<Longrightarrow> tag_layout l"
proof (induction m cursor e rule: parse_atags_from.induct)
  case (1 m cursor e)
  from 1(2) show ?case
    by (subst (asm) parse_atags_from.simps)
      (auto simp: Let_def split: if_splits intro: parse_ddr_mem_layout 1(1))
qed

text \<open>C31. What rk356x_parse_atags accepts is a sound layout: one to ten banks, non-empty, aligned to
  pages, ending before the end of the address space, in ascending order and apart; the
  total is the exact sum of the sizes of the banks. Every other input is rejected.\<close>

theorem parse_atags_sound:
  "case rk356x_parse_atags m data len of
     None \<Rightarrow> True
   | Some l \<Rightarrow> sound_layout l \<and> banks_size (used_banks l) = unat (total_bytes l)
       \<and> list_all page_aligned (used_banks l) \<and> atags_valid l \<and> source l = RK356X_DRAM_ATAGS"
  by (simp add: rk356x_parse_atags_def list_all_iff split: option.split)
    (blast dest: parse_atags_layout [unfolded tag_layout_def])

subsection \<open>Reads stay inside the tags\<close>

definition same_bytes :: "mem \<Rightarrow> mem \<Rightarrow> addr \<Rightarrow> nat \<Rightarrow> bool" where
  "same_bytes m m' a n \<longleftrightarrow> (\<forall>i < n. m (a + of_nat i) = m' (a + of_nat i))"

lemma same_bytes_le: "same_bytes m m' a n \<Longrightarrow> k \<le> n \<Longrightarrow> same_bytes m m' a k"
  by (simp add: same_bytes_def)

lemma same_bytes_rest: "same_bytes m m' a n \<Longrightarrow> same_bytes m m' (a + of_nat k) (n - k)"
  unfolding same_bytes_def
proof (intro allI impI)
  fix i assume *: "\<forall>i < n. m (a + of_nat i) = m' (a + of_nat i)" and i: "i < n - k"
  from spec [OF *, of "k + i"] i show "m (a + of_nat k + of_nat i) = m' (a + of_nat k + of_nat i)"
    by (simp add: add.assoc)
qed

lemma read_le32_same:
  assumes "same_bytes m m' a n" and "k + 4 \<le> n"
  shows "read_le32 m (a + of_nat k) = read_le32 m' (a + of_nat k)"
proof -
  have "m (a + of_nat k + of_nat i) = m' (a + of_nat k + of_nat i)" if "i < 4" for i
    using same_bytes_rest [OF assms(1), of k] assms(2) that by (simp add: same_bytes_def)
  from this [of 0] this [of 1] this [of 2] this [of 3] show ?thesis by (simp add: read_le32_def)
qed

lemma read_le64_same:
  assumes "same_bytes m m' a n" and "k + 8 \<le> n"
  shows "read_le64 m (a + of_nat k) = read_le64 m' (a + of_nat k)"
  using read_le32_same [OF assms(1), of k] read_le32_same [OF assms(1), of "k + 4"] assms(2)
  by (simp add: read_le64_def add.assoc)

lemma js_hash_same: "same_bytes m m' a n \<Longrightarrow> unat len \<le> n \<Longrightarrow> js_hash m a len = js_hash m' a len"
  unfolding js_hash_def same_bytes_def by (intro fold_cong) auto

lemma bank_offset: "k < 20 \<Longrightarrow> 16 + ucast (of_nat k * 8 :: u32) = (of_nat (16 + 8 * k) :: u64)"
proof -
  assume "k < 20"
  then have "unat (of_nat k * 8 :: u32) = 8 * k" by (simp add: unat_word_ariths unat_of_nat take_bit_nat_eq_self)
  with \<open>k < 20\<close> have "ucast (of_nat k * 8 :: u32) = (of_nat (8 * k) :: u64)"
    unfolding word_unat_eq_iff unat_ucast_u32 by (subst unat_of_nat_u64) simp_all
  then show ?thesis by simp
qed

lemma parse_bank_same:
  assumes "same_bytes m m' cursor 192" and "unat cnt \<le> 10" and "k < 10"
  shows "parse_bank m cursor cnt (of_nat k) = parse_bank m' cursor cnt (of_nat k)"
proof -
  have c: "cnt + of_nat k = of_nat (unat cnt + k)" by simp
  have "read_le64 m (cursor + 16 + ucast (of_nat k * 8 :: u32)) = read_le64 m' (cursor + 16 + ucast (of_nat k * 8 :: u32))"
    "read_le64 m (cursor + 16 + ucast ((cnt + of_nat k) * 8)) = read_le64 m' (cursor + 16 + ucast ((cnt + of_nat k) * 8))"
    unfolding c add.assoc using assms(2,3) read_le64_same [OF assms(1), of "16 + 8 * k"]
      read_le64_same [OF assms(1), of "16 + 8 * (unat cnt + k)"]
    by (simp_all add: bank_offset del: of_nat_add of_nat_mult)
  then show ?thesis by (simp add: parse_bank_def)
qed

lemma parse_banks_same:
  assumes "same_bytes m m' cursor 192" and "unat cnt \<le> 10" and "\<forall>k \<in> set ks. k < 10"
  shows "parse_banks m cursor cnt (map of_nat ks) st = parse_banks m' cursor cnt (map of_nat ks) st"
  using assms(3)
proof (induction ks arbitrary: st)
  case (Cons k ks)
  then show ?case using parse_bank_same [OF assms(1,2), of k] by auto
qed simp

lemma parse_ddr_mem_same:
  assumes "same_bytes m m' cursor 192"
  shows "parse_ddr_mem m cursor 192 = parse_ddr_mem m' cursor 192"
proof -
  have r: "read_le32 m (cursor + 8) = read_le32 m' (cursor + 8)"
    "read_le32 m (188 + cursor) = read_le32 m' (188 + cursor)"
    using read_le32_same [OF assms, of 8] read_le32_same [OF assms, of 188] by (simp_all add: add.commute)
  have h: "js_hash m cursor 188 = js_hash m' cursor 188" by (rule js_hash_same [OF assms]) simp
  have "unat (read_le32 m' (cursor + 8)) \<le> 10 \<Longrightarrow>
      parse_banks m cursor (read_le32 m' (cursor + 8)) (map of_nat [0..<unat (read_le32 m' (cursor + 8))]) st
      = parse_banks m' cursor (read_le32 m' (cursor + 8)) (map of_nat [0..<unat (read_le32 m' (cursor + 8))]) st" for st
    by (rule parse_banks_same [OF assms]) auto
  with r h show ?thesis
    by (auto simp: parse_ddr_mem_def Let_def not_less word_less_nat_alt)
qed

lemma parse_atags_from_same:
  "same_bytes m m' cursor (unat (e - cursor)) \<Longrightarrow> parse_atags_from m cursor e = parse_atags_from m' cursor e"
proof (induction m cursor e rule: parse_atags_from.induct)
  case (1 m cursor e)
  define n where "n = unat (e - cursor)"
  show ?case
  proof (cases "e - cursor < 8")
    case False
    then have n8: "8 \<le> n" by (simp add: n_def word_less_nat_alt not_less)
    note same = 1(2) [folded n_def]
    have r: "read_le32 m cursor = read_le32 m' cursor" "read_le32 m (cursor + 4) = read_le32 m' (cursor + 4)"
      using read_le32_same [OF same, of 0] read_le32_same [OF same, of 4] n8 by simp_all
    define words where "words = read_le32 m' cursor"
    show ?thesis
    proof (cases "words < 2 \<or> ucast words > (e - cursor) div 4")
      case False
      then have le: "ucast words \<le> (e - cursor) div 4" by (simp add: not_less)
      note f = tag_fits [OF le]
      have "ucast words * 4 = (of_nat (4 * unat words) :: u64)" unfolding f(1) [symmetric] by simp
      then have nxt: "same_bytes m m' (cursor + ucast words * 4) (unat (e - (cursor + ucast words * 4)))"
        using same_bytes_rest [OF same, of "4 * unat words"] f(3) by (simp add: n_def diff_diff_add mult.commute)
      have ddr: "words = 48 \<Longrightarrow> parse_ddr_mem m cursor (ucast words * 4) = parse_ddr_mem m' cursor (ucast words * 4)"
        using parse_ddr_mem_same [of m m' cursor] same_bytes_le [OF same, of 192] f(2) by (simp add: n_def)
      show ?thesis
        unfolding parse_atags_from.simps [of m cursor e] parse_atags_from.simps [of m' cursor e] r Let_def words_def [symmetric]
        using 1(1) [OF \<open>\<not> e - cursor < 8\<close> refl refl] False nxt ddr by (simp add: r words_def [symmetric])
    qed (simp add: parse_atags_from.simps [of m cursor e] parse_atags_from.simps [of m' cursor e] r words_def Let_def)
  qed (simp add: parse_atags_from.simps [of m cursor e] parse_atags_from.simps [of m' cursor e])
qed

text \<open>C36. The result of rk356x_parse_atags depends on the given bytes only: memories that agree on them
  give the same result, so nothing is read before or behind the tags, whatever they hold.\<close>

theorem parse_atags_local:
  assumes "\<forall>i < unat len. m (data + of_nat i) = m' (data + of_nat i)"
  shows "rk356x_parse_atags m data len = rk356x_parse_atags m' data len"
  using parse_atags_from_same [of m m' data "data + len"] assms
  by (simp add: rk356x_parse_atags_def same_bytes_def)

lemma parse_atags_local_witness:
  "rk356x_parse_atags (\<lambda>a. 0) 0x1fe000 0x2000 = rk356x_parse_atags (\<lambda>a. if a < 0x1fe000 \<or> 0x200000 \<le> a then 1 else 0) 0x1fe000 0x2000"
proof (rule parse_atags_local, intro allI impI)
  fix i :: nat assume "i < unat (0x2000 :: u64)"
  then have "unat (0x1fe000 + of_nat i :: u64) = 0x1fe000 + i"
    by (simp add: unat_add_nat)
  with \<open>i < _\<close> show "(0 :: u8) = (if 0x1fe000 + of_nat i < (0x1fe000 :: u64) \<or> 0x200000 \<le> 0x1fe000 + (of_nat i :: u64) then 1 else 0)"
    by (simp add: word_less_nat_alt word_le_nat_alt)
qed

subsection \<open>The selected layout\<close>

lemma within_capacity_outside:
  assumes "bank_within_capacity b capacity" and "bank_end b < 2 ^ 64"
  shows "outside_mmio b"
proof -
  have e: "unat (bank_start b + bank_size b) = bank_end b"
    unfolding bank_end_def by (rule unat_plus_no_wrap) (use assms(2) in \<open>simp add: bank_end_def\<close>)
  from assms(1) show ?thesis
    unfolding bank_within_capacity_def outside_mmio_def Let_def
    by (auto simp: word_le_nat_alt word_less_nat_alt e not_less split: if_splits)
qed

lemma synthesized:
  fixes l :: dram_layout
  assumes "length (banks l) = 10" and "capacity \<noteq> 0"
  defines "s \<equiv> synthesize_geometry capacity l"
  shows "used_banks s =
      (let low = min capacity 0xf0000000 in
       \<lparr>bank_start = 0, bank_size = low\<rparr> #
         (if capacity > 0x100000000 then [\<lparr>bank_start = 0x100000000, bank_size = capacity - 0x100000000\<rparr>] else []))"
    and "length (banks s) = 10" and "bank_count s = (if capacity > 0x100000000 then 2 else 1)"
proof -
  obtain b0 b1 rest where b: "banks l = b0 # b1 # rest"
    using assms(1) by (cases "banks l"; cases "tl (banks l)") auto
  have "(if capacity < 0xf0000000 then capacity else 0xf0000000) = min capacity 0xf0000000" by (auto simp: min_def)
  moreover have "min capacity 0xf0000000 \<noteq> 0" using assms(2) by (simp add: min_def)
  ultimately have s: "s = (let l1 = add_bank 0 (min capacity 0xf0000000) (l\<lparr>bank_count := 0\<rparr>) in
      if capacity > 0x100000000 then add_bank 0x100000000 (capacity - 0x100000000) l1 else l1)"
    by (simp only: s_def synthesize_geometry_def Let_def if_True if_False not_False_eq_True)
  show "used_banks s =
      (let low = min capacity 0xf0000000 in
       \<lparr>bank_start = 0, bank_size = low\<rparr> #
         (if capacity > 0x100000000 then [\<lparr>bank_start = 0x100000000, bank_size = capacity - 0x100000000\<rparr>] else []))"
    and "length (banks s) = 10" and "bank_count s = (if capacity > 0x100000000 then 2 else 1)"
    unfolding s using assms(1) by (simp_all add: add_bank_def used_banks_def Let_def b)
qed

text \<open>
  The layout has the decoded size, and its banks avoid the hole for the devices, unless the
  registers say nothing and the tags are all there is.
\<close>

definition consistent_layout :: "u64 \<Rightarrow> dram_layout \<Rightarrow> bool" where
  "consistent_layout geometry l \<longleftrightarrow> sound_layout l
     \<and> (if geometry \<noteq> 0 then total_bytes l = geometry \<and> source l \<noteq> RK356X_DRAM_FALLBACK
        else source l \<noteq> RK356X_DRAM_PMUGRF \<and> (source l = RK356X_DRAM_FALLBACK \<longrightarrow> total_bytes l = push_bit 30 1))
     \<and> (geometry \<noteq> 0 \<or> source l = RK356X_DRAM_FALLBACK \<longrightarrow> list_all outside_mmio (used_banks l))"

lemma synthesized_sound:
  fixes l :: dram_layout
  assumes "length (banks l) = 10" and "capacity \<noteq> 0" and "total_bytes l = capacity" and "unat capacity \<le> 2 ^ 35"
  defines "s \<equiv> synthesize_geometry capacity l"
  shows "sound_layout s" and "list_all outside_mmio (used_banks s)"
    and "total_bytes s = capacity" and "source s = source l"
proof -
  note u = synthesized [OF assms(1,2), folded s_def, unfolded Let_def]
  show t: "total_bytes s = capacity" and "source s = source l"
    using assms(3) by (simp_all add: s_def synthesize_geometry_def add_bank_def Let_def)
  define low where "low = min capacity 0xf0000000"
  have low: "low \<noteq> 0" "unat low \<le> 0xf0000000" "unat low \<le> unat capacity"
    using assms(2) by (auto simp: low_def min_def word_le_nat_alt)
  have high: "unat (capacity - 0x100000000) = unat capacity - 0x100000000" "capacity - 0x100000000 \<noteq> 0"
    if "capacity > 0x100000000"
    using that by (auto simp: unat_sub word_le_nat_alt word_less_nat_alt)
  note facts = low high assms(4) word_less_nat_alt
  show "list_all outside_mmio (used_banks s)"
    unfolding u(1) low_def [symmetric] using low(2) by (auto simp: outside_mmio_def bank_end_def)
  show "sound_layout s"
    unfolding sound_layout_def u low_def [symmetric] t
    using low high assms(4) by (auto simp: sorted_banks_def bank_end_def banks_size_def word_less_nat_alt)
qed

lemma tag_layout_scaled:
  assumes "tag_layout p" and "atags_match_geometry p geometry"
  shows "sound_layout (p\<lparr>total_bytes := geometry, geometry_bytes := geometry, geometry_valid := True\<rparr>)"
    and "list_all outside_mmio (used_banks p)"
proof -
  have eq: "total_bytes p = geometry" and w: "\<forall>i < unat (bank_count p). bank_within_capacity (banks p ! i) geometry"
    using assms by (auto simp: atags_match_geometry_def tag_layout_def list_all_iff split: if_splits)
  show "sound_layout (p\<lparr>total_bytes := geometry, geometry_bytes := geometry, geometry_valid := True\<rparr>)"
    using assms(1) eq by (simp add: tag_layout_def sound_layout_def used_banks_def)
  show "list_all outside_mmio (used_banks p)"
    unfolding list_all_iff
  proof
    fix b assume b: "b \<in> set (used_banks p)"
    then have "bank_within_capacity b geometry" using w by (auto simp: used_banks_def in_set_conv_nth)
    moreover have "bank_end b < 2 ^ 64"
      using assms(1) b by (auto simp: tag_layout_def sound_layout_def sorted_banks_def)
    ultimately show "outside_mmio b" by (rule within_capacity_outside)
  qed
qed

lemma select_consistent:
  "consistent_layout (rk356x_decode_pmugrf r2 r3) (rk356x_select_dram_layout m atags len r2 r3)"
proof -
  define g where "g = rk356x_decode_pmugrf r2 r3"
  define parsed where "parsed = (if atags \<noteq> 0 then rk356x_parse_atags m atags len else None)"
  have g: "g = 0 \<or> unat g \<le> 2 ^ 35" using decode_pmugrf_spec [of r2 r3] by (auto simp: g_def)
  have p: "tag_layout p" if "parsed = Some p" for p
    using that by (auto simp: parsed_def rk356x_parse_atags_def dest: parse_atags_layout split: if_splits)
  have z: "length (banks zero_layout) = 10" by (simp add: zero_layout_def)
  have small: "unat (push_bit 30 1 :: u64) \<le> 2 ^ 35" "(push_bit 30 1 :: u64) \<noteq> 0" by simp_all
  show ?thesis
  proof (cases parsed)
    case None
    then show ?thesis
      unfolding rk356x_select_dram_layout_def Let_def g_def [symmetric] parsed_def [symmetric] consistent_layout_def
      using g small by (auto simp: synthesized_sound z)
  next
    case (Some q)
    note q = p [OF Some]
    show ?thesis
      unfolding rk356x_select_dram_layout_def Let_def g_def [symmetric] parsed_def [symmetric] consistent_layout_def
      using g q tag_layout_scaled [OF q, of g] Some
      by (auto simp: synthesized_sound z tag_layout_def)
  qed
qed

text \<open>C30. Whatever is in the tags and the registers, the selected layout is sound: one to ten sorted,
  disjoint banks that end before the end of the address space and hold no more than the
  total. When the registers hold a valid size, the total is that size and no bank touches
  the hole between 0xf0000000 and 4 GiB; when there is neither a size nor a tag, it is 1 GiB.\<close>

theorem select_layout_consistent:
  "consistent_layout (rk356x_decode_pmugrf r2 r3) (rk356x_select_dram_layout m atags len r2 r3)"
  by (rule select_consistent)

text \<open>The registers are read once: after the first call the layout comes from memory, is the same
  one, and costs no access to the hardware.\<close>

lemma get_layout_cached:
  "case rk356x_get_dram_layout dev m s of (l, s') \<Rightarrow>
     rk356x_get_dram_layout dev' m' s' = (l, s')"
  by (auto simp: rk356x_get_dram_layout_def Let_def split: prod.splits option.splits)

end
