(* ===== verification/Memmap.thy ===== *)
theory Memmap
  imports Dram
begin

text \<open>
  The memory map the firmware hands to its payload (src/rk356x/memory_map.c): the address
  space is cut at the boundaries of the DRAM banks and the reserved ranges, and every
  interval gets one attribute. The specification classifies single addresses.
\<close>

subsection \<open>The code\<close>

abbreviation (input) FU_MEM_ATTR_UNUSED :: u32 where "FU_MEM_ATTR_UNUSED \<equiv> 1"
abbreviation (input) FU_MEM_ATTR_RESERVED :: u32 where "FU_MEM_ATTR_RESERVED \<equiv> 2"
abbreviation (input) FU_MEM_ATTR_FRAMEBUFFER :: u32 where "FU_MEM_ATTR_FRAMEBUFFER \<equiv> 4"
abbreviation (input) FU_MEM_ATTR_MMIO :: u32 where "FU_MEM_ATTR_MMIO \<equiv> 8"
abbreviation (input) FU_MEM_ATTR_PAYLOAD :: u32 where "FU_MEM_ATTR_PAYLOAD \<equiv> 16"
abbreviation (input) RK356X_MAX_MAP_ITEMS :: nat where "RK356X_MAX_MAP_ITEMS \<equiv> 32"
abbreviation (input) RK356X_MAX_BOUNDARIES :: nat where "RK356X_MAX_BOUNDARIES \<equiv> 32"

record map_item =
  start_addr :: u64
  end_addr :: u64
  item_flags :: u32
  pad2 :: u32

record reserved_range =
  range_start :: u64
  range_end :: u64
  range_flags :: u32

text \<open>The map is the list of its items, \<open>length\<close> of them; \<open>items[length - 1]\<close> is the last.\<close>

definition map_add :: "map_item list \<Rightarrow> u64 \<Rightarrow> u64 \<Rightarrow> u32 \<Rightarrow> map_item list" where
  "map_add items start fin flags =
     (if fin \<le> start then items
      else if items \<noteq> [] \<and> end_addr (last items) = start \<and> item_flags (last items) = flags
      then butlast items @ [(last items)\<lparr>end_addr := fin\<rparr>]
      else if length items \<ge> RK356X_MAX_MAP_ITEMS then items
      else items @ [\<lparr>start_addr = start, end_addr = fin, item_flags = flags, pad2 = 0\<rparr>])"

text \<open>
  The boundaries in use are the first \<open>count\<close> elements of the array. The inner loop shifts
  the larger ones up by one, from the last one on, until the place of the new one is found.
\<close>

fun shift_up :: "u64 list \<Rightarrow> nat \<Rightarrow> u64 \<Rightarrow> u64 list" where
  "shift_up bs 0 v = bs[0 := v]"
| "shift_up bs (Suc position) v =
     (if bs ! position > v then shift_up (bs[Suc position := bs ! position]) position v
      else bs[Suc position := v])"

definition add_boundary :: "u64 list \<Rightarrow> u64 \<Rightarrow> u64 list option" where
  "add_boundary bs v =
     (if v \<in> set bs then Some bs
      else if length bs \<ge> RK356X_MAX_BOUNDARIES then None
      else Some (shift_up (bs @ [0]) (length bs) v))"

primrec add_boundaries :: "u64 list \<Rightarrow> u64 list \<Rightarrow> u64 list option" where
  "add_boundaries bs [] = Some bs"
| "add_boundaries bs (v # vs) = do { bs \<leftarrow> add_boundary bs v; add_boundaries bs vs }"

definition interval_in_bank :: "dram_layout \<Rightarrow> u64 \<Rightarrow> u64 \<Rightarrow> bool" where
  "interval_in_bank layout start fin = list_ex (\<lambda>i.
     let bank_start = bank_start (banks layout ! i);
         bank_end = bank_start + bank_size (banks layout ! i) in
     bank_end \<ge> bank_start \<and> start \<ge> bank_start \<and> fin \<le> bank_end) [0..<unat (bank_count layout)]"

definition reserved :: "u64 \<Rightarrow> reserved_range list" where
  "reserved payload_end =
     [\<lparr>range_start = 0, range_end = 0x00200000, range_flags = FU_MEM_ATTR_RESERVED\<rparr>,
      \<lparr>range_start = 0x00a00000, range_end = payload_end, range_flags = FU_MEM_ATTR_PAYLOAD\<rparr>,
      \<lparr>range_start = 0x07ff0000, range_end = 0x08000000, range_flags = FU_MEM_ATTR_RESERVED\<rparr>,
      \<lparr>range_start = 0x08000000, range_end = 0x08400000, range_flags = FU_MEM_ATTR_RESERVED\<rparr>,
      \<lparr>range_start = 0x10000000, range_end = 0x12000000, range_flags = FU_MEM_ATTR_FRAMEBUFFER\<rparr>]"

text \<open>The boundaries in the order in which the code adds them.\<close>

definition boundary_values :: "dram_layout \<Rightarrow> u64 \<Rightarrow> u64 list" where
  "boundary_values layout payload_end =
     concat (map (\<lambda>i. let b = banks layout ! i in [bank_start b, bank_start b + bank_size b])
       [0..<unat (bank_count layout)])
     @ concat (map (\<lambda>r. [range_start r, range_end r]) (reserved payload_end))
     @ [RK356X_MMIO_START, RK356X_PHYS_4G]"

definition interval_flags :: "dram_layout \<Rightarrow> u64 \<Rightarrow> u64 \<Rightarrow> u64 \<Rightarrow> u32" where
  "interval_flags layout payload_end start fin =
     (if start \<ge> RK356X_MMIO_START \<and> fin \<le> RK356X_PHYS_4G then FU_MEM_ATTR_MMIO
      else if interval_in_bank layout start fin
      then case find (\<lambda>r. start \<ge> range_start r \<and> fin \<le> range_end r) (reserved payload_end) of
          Some r \<Rightarrow> range_flags r
        | None \<Rightarrow> FU_MEM_ATTR_UNUSED
      else 0)"

text \<open>The round of the loop for the interval from boundary \<open>i\<close> to the next.\<close>

definition add_interval :: "dram_layout \<Rightarrow> u64 \<Rightarrow> u64 list \<Rightarrow> nat \<Rightarrow> map_item list \<Rightarrow> map_item list" where
  "add_interval layout payload_end bs i items =
     (let flags = interval_flags layout payload_end (bs ! i) (bs ! (i + 1)) in
      if flags \<noteq> 0 then map_add items (bs ! i) (bs ! (i + 1)) flags else items)"

definition rk356x_build_mem_map :: "dram_layout \<Rightarrow> u64 \<Rightarrow> map_item list" where
  "rk356x_build_mem_map layout payload_end =
     (case add_boundaries [] (boundary_values layout payload_end) of
        None \<Rightarrow> []
      | Some bs \<Rightarrow> fold (add_interval layout payload_end bs) [0..<length bs - 1] [])"

text \<open>One round of the search; \<open>best\<close> is the index of the best item so far.\<close>

definition low_free :: "map_item \<Rightarrow> bool" where
  "low_free item \<longleftrightarrow> \<not> (item_flags item AND FU_MEM_ATTR_UNUSED = 0 \<or> start_addr item \<ge> RK356X_PHYS_4G
     \<or> end_addr item > RK356X_PHYS_4G)"

definition better_item :: "map_item list \<Rightarrow> nat \<Rightarrow> nat option \<Rightarrow> nat option" where
  "better_item items i best =
     (if \<not> low_free (items ! i) then best
      else case best of
        None \<Rightarrow> Some i
      | Some j \<Rightarrow> if end_addr (items ! i) - start_addr (items ! i) > end_addr (items ! j) - start_addr (items ! j)
          then Some i else best)"

definition rk356x_largest_low_free :: "map_item list \<Rightarrow> nat option" where
  "rk356x_largest_low_free items = fold (better_item items) [0..<length items] None"

subsection \<open>The boundaries\<close>

text \<open>Insertion by shifting is insertion into a sorted list.\<close>

lemma insort_snoc: "sorted (xs @ [x]) \<Longrightarrow> v \<notin> set (xs @ [x]) \<Longrightarrow> insort v (xs @ [x]) = (if x > v then insort v xs @ [x] else xs @ [x, v])"
  for v :: u64
  by (induction xs) (auto simp: sorted_append insort_is_Cons)

lemma shift_up_insort:
  "sorted bs \<Longrightarrow> v \<notin> set bs \<Longrightarrow> shift_up (bs @ c # rest) (length bs) v = insort v bs @ rest"
proof (induction bs arbitrary: c rest rule: rev_induct)
  case (snoc b bs)
  show ?case
  proof (cases "b > v")
    case True
    have "shift_up (bs @ b # b # rest) (length bs) v = insort v bs @ b # rest"
      using snoc.prems by (intro snoc.IH) (auto simp: sorted_append)
    with True snoc.prems show ?thesis by (simp add: insort_snoc list_update_append nth_append)
  next
    case False
    with snoc.prems show ?thesis by (simp add: insort_snoc list_update_append nth_append)
  qed
qed simp

lemma add_boundary_spec:
  assumes "sorted bs" "distinct bs" "length bs < 32"
  shows "\<exists>bs'. add_boundary bs v = Some bs' \<and> sorted bs' \<and> distinct bs' \<and> set bs' = insert v (set bs)
    \<and> length bs' \<le> Suc (length bs)"
  using assms shift_up_insort [of bs v 0 "[]"]
  by (auto simp: add_boundary_def sorted_insort distinct_insort set_insort_key insert_absorb)

lemma add_boundaries_spec:
  assumes "sorted bs" "distinct bs" "length bs + length vs \<le> 32"
  shows "\<exists>bs'. add_boundaries bs vs = Some bs' \<and> sorted bs' \<and> distinct bs' \<and> set bs' = set vs \<union> set bs
    \<and> length bs' \<le> length bs + length vs"
  using assms
proof (induction vs arbitrary: bs)
  case (Cons v vs)
  obtain bs1 where b: "add_boundary bs v = Some bs1" "sorted bs1" "distinct bs1" "set bs1 = insert v (set bs)"
    "length bs1 \<le> Suc (length bs)" using add_boundary_spec [of bs v] Cons.prems by auto
  from Cons.IH [OF b(2,3)] b(4,5) Cons.prems(3) show ?case by (auto simp: b(1))
qed auto

subsection \<open>The attribute of an address\<close>

text \<open>
  The devices come first, then the DRAM: an address in a bank has the attribute of the
  first reserved range around it and is free without one. All other addresses have none.
\<close>

definition in_bank :: "dram_layout \<Rightarrow> u64 \<Rightarrow> bool" where
  "in_bank layout x \<longleftrightarrow> (\<exists>b \<in> (!) (banks layout) ` {0..<unat (bank_count layout)}.
     bank_start b \<le> x \<and> x < bank_start b + bank_size b)"

definition address_flags :: "dram_layout \<Rightarrow> u64 \<Rightarrow> u64 \<Rightarrow> u32" where
  "address_flags layout payload_end x =
     (if RK356X_MMIO_START \<le> x \<and> x < RK356X_PHYS_4G then FU_MEM_ATTR_MMIO
      else if in_bank layout x
      then case find (\<lambda>r. range_start r \<le> x \<and> x < range_end r) (reserved payload_end) of
          Some r \<Rightarrow> range_flags r
        | None \<Rightarrow> FU_MEM_ATTR_UNUSED
      else 0)"

text \<open>Between two boundaries that follow each other no address is apart from the others.\<close>

lemma le_boundary:
  assumes "sorted (bs :: u64 list)" "Suc i < length bs" "bs ! i \<le> x" "x < bs ! Suc i" "p \<in> set bs"
  shows "p \<le> x \<longleftrightarrow> p \<le> bs ! i" and "x < p \<longleftrightarrow> bs ! Suc i \<le> p"
proof -
  obtain j where j: "j < length bs" "p = bs ! j" using assms(5) by (auto simp: in_set_conv_nth)
  have "j \<le> i \<or> Suc i \<le> j" by linarith
  then have "p \<le> bs ! i \<or> bs ! Suc i \<le> p"
    using j assms(2) sorted_nth_mono [OF assms(1), of j i] sorted_nth_mono [OF assms(1), of "Suc i" j] by auto
  with assms(3,4) show "p \<le> x \<longleftrightarrow> p \<le> bs ! i" and "x < p \<longleftrightarrow> bs ! Suc i \<le> p"
    by (auto dest: order_trans order.strict_trans1 simp: not_le)
qed

lemma inside_interval:
  assumes "sorted (bs :: u64 list)" "Suc i < length bs" "bs ! i \<le> x" "x < bs ! Suc i" "p \<in> set bs" "q \<in> set bs"
  shows "p \<le> bs ! i \<and> bs ! Suc i \<le> q \<longleftrightarrow> p \<le> x \<and> x < q"
  using le_boundary [OF assms(1-5)] le_boundary [OF assms(1-4) assms(6)] by blast

lemma increasing:
  "sorted (bs :: u64 list) \<Longrightarrow> distinct bs \<Longrightarrow> Suc i < length bs \<Longrightarrow> bs ! i < bs ! Suc i"
  using sorted_nth_mono [of bs i "Suc i"] by (auto simp: order_less_le nth_eq_iff_index_eq)

lemma boundary_values_mem:
  "RK356X_MMIO_START \<in> set (boundary_values layout payload_end)"
  "RK356X_PHYS_4G \<in> set (boundary_values layout payload_end)"
  "r \<in> set (reserved payload_end) \<Longrightarrow> range_start r \<in> set (boundary_values layout payload_end)"
  "r \<in> set (reserved payload_end) \<Longrightarrow> range_end r \<in> set (boundary_values layout payload_end)"
  "k < unat (bank_count layout) \<Longrightarrow> bank_start (banks layout ! k) \<in> set (boundary_values layout payload_end)"
  "k < unat (bank_count layout) \<Longrightarrow> bank_start (banks layout ! k) + bank_size (banks layout ! k)
    \<in> set (boundary_values layout payload_end)"
  unfolding boundary_values_def Let_def by (simp_all only: set_append set_concat set_map) auto

lemma interval_flags_spec:
  assumes "sorted bs" and "set (boundary_values layout payload_end) \<subseteq> set bs"
    and "Suc i < length bs" "bs ! i \<le> x" "x < bs ! Suc i"
  shows "interval_flags layout payload_end (bs ! i) (bs ! Suc i) = address_flags layout payload_end x"
proof -
  note inside = inside_interval [OF assms(1,3-5)]
  note mem = boundary_values_mem [THEN subsetD [OF assms(2)]]
  have one: "(let bank_start = bank_start (banks layout ! k); bank_end = bank_start + bank_size (banks layout ! k) in
      bank_end \<ge> bank_start \<and> bs ! i \<ge> bank_start \<and> bs ! Suc i \<le> bank_end)
    \<longleftrightarrow> bank_start (banks layout ! k) \<le> x \<and> x < bank_start (banks layout ! k) + bank_size (banks layout ! k)"
    if "k < unat (bank_count layout)" for k
    using inside [OF mem(5,6) [OF that]] unfolding Let_def by (blast intro: order_trans less_imp_le)
  have "interval_in_bank layout (bs ! i) (bs ! Suc i) = in_bank layout x"
    unfolding interval_in_bank_def in_bank_def list_ex_iff set_upt bex_simps image_iff
    using one by (meson atLeastLessThan_iff)
  moreover have "find (\<lambda>r. range_start r \<le> bs ! i \<and> bs ! Suc i \<le> range_end r) (reserved payload_end)
      = find (\<lambda>r. range_start r \<le> x \<and> x < range_end r) (reserved payload_end)"
    using inside [OF mem(3,4)] by (intro find_cong) auto
  ultimately show ?thesis
    using inside [OF mem(1,2)] by (simp add: interval_flags_def address_flags_def)
qed

subsection \<open>The map\<close>

definition covers :: "map_item list \<Rightarrow> u64 \<Rightarrow> u32 \<Rightarrow> bool" where
  "covers items x f \<longleftrightarrow> (\<exists>it \<in> set items. start_addr it \<le> x \<and> x < end_addr it \<and> item_flags it = f)"

definition sorted_items :: "map_item list \<Rightarrow> bool" where
  "sorted_items items \<longleftrightarrow> sorted_wrt (\<lambda>a b. end_addr a \<le> start_addr b) items
     \<and> (\<forall>it \<in> set items. start_addr it < end_addr it)"

lemma map_add_spec:
  assumes "sorted_items items" and "\<forall>it \<in> set items. end_addr it \<le> start" and "start < fin"
    and "length items < 32"
  shows "covers (map_add items start fin f) x g \<longleftrightarrow> covers items x g \<or> start \<le> x \<and> x < fin \<and> g = f"
    and "sorted_items (map_add items start fin f)"
    and "\<forall>it \<in> set (map_add items start fin f). end_addr it \<le> fin"
    and "length (map_add items start fin f) \<le> Suc (length items)"
proof -
  have nle: "\<not> fin \<le> start" using assms(3) by simp
  have all: "(covers (map_add items start fin f) x g \<longleftrightarrow> covers items x g \<or> start \<le> x \<and> x < fin \<and> g = f)
      \<and> sorted_items (map_add items start fin f)
      \<and> (\<forall>it \<in> set (map_add items start fin f). end_addr it \<le> fin)
      \<and> length (map_add items start fin f) \<le> Suc (length items)"
  proof (cases "items \<noteq> [] \<and> end_addr (last items) = start \<and> item_flags (last items) = f")
    case True
    then obtain front it where items: "items = front @ [it]" "end_addr it = start" "item_flags it = f"
      by (metis append_butlast_last_id)
    have new: "map_add items start fin f = front @ [it\<lparr>end_addr := fin\<rparr>]"
      using nle items by (simp add: map_add_def)
    have it: "start_addr it < start" using assms(1) items by (auto simp: sorted_items_def)
    then have split: "start_addr it \<le> x \<and> x < fin \<longleftrightarrow> start_addr it \<le> x \<and> x < start \<or> start \<le> x \<and> x < fin"
      using assms(3) by (auto dest: less_imp_le order_trans order.strict_trans simp: not_less)
    show ?thesis
      using assms(1-3) it split unfolding new
      by (auto simp: items covers_def sorted_items_def sorted_wrt_append dest: less_imp_le order_trans order.strict_trans)
  next
    case False
    then have new: "map_add items start fin f = items @ [\<lparr>start_addr = start, end_addr = fin, item_flags = f, pad2 = 0\<rparr>]"
      using nle assms(4) by (auto simp: map_add_def not_le)
    show ?thesis
      using assms(1-3) unfolding new
      by (auto simp: covers_def sorted_items_def sorted_wrt_append dest: less_imp_le order_trans)
  qed
  from all show "covers (map_add items start fin f) x g \<longleftrightarrow> covers items x g \<or> start \<le> x \<and> x < fin \<and> g = f"
    and "sorted_items (map_add items start fin f)"
    and "\<forall>it \<in> set (map_add items start fin f). end_addr it \<le> fin"
    and "length (map_add items start fin f) \<le> Suc (length items)" by blast+
qed

text \<open>The map after the first \<open>k\<close> intervals.\<close>

definition map_upto :: "dram_layout \<Rightarrow> u64 \<Rightarrow> u64 list \<Rightarrow> nat \<Rightarrow> map_item list \<Rightarrow> bool" where
  "map_upto layout payload_end bs k items \<longleftrightarrow> sorted_items items \<and> length items \<le> k
     \<and> (\<forall>it \<in> set items. end_addr it \<le> bs ! k)
     \<and> (\<forall>x f. covers items x f \<longleftrightarrow> x < bs ! k \<and> f \<noteq> 0 \<and> address_flags layout payload_end x = f)"

lemma map_upto_step:
  assumes "sorted bs" "distinct bs" "set (boundary_values layout payload_end) \<subseteq> set bs" "length bs \<le> 32"
    and "Suc k < length bs" and "map_upto layout payload_end bs k items"
  shows "map_upto layout payload_end bs (Suc k) (add_interval layout payload_end bs k items)"
proof -
  define f where "f = interval_flags layout payload_end (bs ! k) (bs ! Suc k)"
  note spec = interval_flags_spec [OF assms(1,3,5), folded f_def]
  note inc = increasing [OF assms(1,2,5)]
  have inv: "sorted_items items" "length items \<le> k" "\<forall>it \<in> set items. end_addr it \<le> bs ! k"
    "\<And>x g. covers items x g \<longleftrightarrow> x < bs ! k \<and> g \<noteq> 0 \<and> address_flags layout payload_end x = g"
    using assms(6) by (simp_all add: map_upto_def)
  have cut: "x < bs ! Suc k \<longleftrightarrow> x < bs ! k \<or> bs ! k \<le> x \<and> x < bs ! Suc k" for x
    using inc by (auto simp: not_less)
  show ?thesis
  proof (cases "f = 0")
    case True
    then have "add_interval layout payload_end bs k items = items" by (simp add: add_interval_def f_def)
    moreover have "x < bs ! Suc k \<and> g \<noteq> 0 \<and> address_flags layout payload_end x = g
      \<longleftrightarrow> x < bs ! k \<and> g \<noteq> 0 \<and> address_flags layout payload_end x = g" for x g
      using spec [of x] True cut [of x] by auto
    ultimately show ?thesis
      using inv inc by (auto simp: map_upto_def dest: order_trans less_imp_le)
  next
    case False
    then have a: "add_interval layout payload_end bs k items = map_add items (bs ! k) (bs ! Suc k) f"
      by (simp add: add_interval_def f_def Let_def)
    have "length items < 32" using inv(2) assms(4,5) by simp
    note m = map_add_spec [OF inv(1,3) inc this, of f]
    have "covers (map_add items (bs ! k) (bs ! Suc k) f) x g \<longleftrightarrow>
        x < bs ! Suc k \<and> g \<noteq> 0 \<and> address_flags layout payload_end x = g" for x g
      unfolding m(1) inv(4) using spec [of x] False cut [of x] by auto
    then show ?thesis
      unfolding map_upto_def a using m(2-4) inv(2) by auto
  qed
qed

lemma map_upto_fold:
  assumes "sorted bs" "distinct bs" "set (boundary_values layout payload_end) \<subseteq> set bs" "length bs \<le> 32"
    and "map_upto layout payload_end bs 0 []"
  shows "k < length bs \<Longrightarrow> map_upto layout payload_end bs k (fold (add_interval layout payload_end bs) [0..<k] [])"
proof (induction k)
  case (Suc k)
  then show ?case using map_upto_step [OF assms(1-4) Suc.prems] by simp
qed (use assms(5) in simp)

lemma build_mem_map_spec:
  assumes "unat (bank_count layout) \<le> 10"
  shows "sorted_items (rk356x_build_mem_map layout payload_end)"
    and "length (rk356x_build_mem_map layout payload_end) < 32"
    and "covers (rk356x_build_mem_map layout payload_end) x f \<longleftrightarrow> f \<noteq> 0 \<and> address_flags layout payload_end x = f"
proof -
  have len: "length (boundary_values layout payload_end) = 2 * unat (bank_count layout) + 12"
    by (simp add: boundary_values_def Let_def length_concat comp_def reserved_def sum_list_triv)
  obtain bs where bs: "add_boundaries [] (boundary_values layout payload_end) = Some bs" "sorted bs" "distinct bs"
    "set bs = set (boundary_values layout payload_end)" "length bs \<le> 32"
    using add_boundaries_spec [of "[]" "boundary_values layout payload_end"] assms len by auto
  have zero: "0 \<in> set bs"
    using boundary_values_mem(3) [of "hd (reserved payload_end)"] by (simp add: bs(4) reserved_def)
  then obtain j where "j < length bs" "bs ! j = 0" by (auto simp: in_set_conv_nth)
  then have ne: "0 < length bs" and b0: "bs ! 0 = 0"
    using sorted_nth_mono [OF bs(2), of 0 j] by auto
  let ?n = "length bs - 1"
  have "map_upto layout payload_end bs 0 []" by (simp add: map_upto_def sorted_items_def covers_def b0)
  from map_upto_fold [OF bs(2,3) _ bs(5) this, of ?n] ne
  have m: "map_upto layout payload_end bs ?n (rk356x_build_mem_map layout payload_end)"
    by (simp add: bs(1,4) rk356x_build_mem_map_def)
  then show "sorted_items (rk356x_build_mem_map layout payload_end)"
    and "length (rk356x_build_mem_map layout payload_end) < 32"
    using bs(5) ne by (auto simp: map_upto_def)
  have top: "p \<le> bs ! ?n" if p: "p \<in> set (boundary_values layout payload_end)" for p
  proof -
    from p bs(4) obtain j where "j < length bs" "p = bs ! j" by (metis in_set_conv_nth)
    then show ?thesis using sorted_nth_mono [OF bs(2), of j ?n] by simp
  qed
  have "address_flags layout payload_end x = 0" if "\<not> x < bs ! ?n"
  proof -
    have "\<not> x < p" if "p \<in> set (boundary_values layout payload_end)" for p
      using top [OF that] \<open>\<not> x < bs ! ?n\<close> by auto
    from this [OF boundary_values_mem(2)] this [OF boundary_values_mem(6)] show ?thesis
      by (auto simp: address_flags_def in_bank_def)
  qed
  with m show "covers (rk356x_build_mem_map layout payload_end) x f \<longleftrightarrow> f \<noteq> 0 \<and> address_flags layout payload_end x = f"
    by (auto simp: map_upto_def)
qed

text \<open>C10. For up to ten banks, the memory map has at most 31 items, non-empty, in ascending order and
  apart, and gives every address exactly the attribute of the specification: devices
  between 0xf0000000 and 4 GiB, in a DRAM bank the first reserved range around it or free,
  and no item for anything else. Nothing is lost to the limits of the two arrays.\<close>

theorem mem_map_attributes:
  assumes "unat (bank_count layout) \<le> 10"
  shows "sorted_items (rk356x_build_mem_map layout payload_end)
    \<and> length (rk356x_build_mem_map layout payload_end) < 32
    \<and> (covers (rk356x_build_mem_map layout payload_end) x f \<longleftrightarrow> f \<noteq> 0 \<and> address_flags layout payload_end x = f)"
  using build_mem_map_spec [OF assms] by blast

text \<open>Address 16 MiB of a DRAM of 1 GiB, with a payload that ends there, is free.\<close>

lemma mem_map_attributes_witness:
  "covers (rk356x_build_mem_map (synthesize_geometry 0x40000000 zero_layout) 0x1000000) 0x1000000 1"
proof -
  have b: "unat (bank_count (synthesize_geometry 0x40000000 zero_layout)) \<le> 10"
    by (simp add: synthesize_geometry_def add_bank_def zero_layout_def Let_def)
  have "address_flags (synthesize_geometry 0x40000000 zero_layout) 0x1000000 0x1000000 = 1"
    by (simp add: address_flags_def in_bank_def reserved_def synthesize_geometry_def add_bank_def zero_layout_def Let_def)
  with mem_map_attributes [OF b, of "0x1000000" "0x1000000" 1] show ?thesis by simp
qed

subsection \<open>The largest free chunk below 4 GiB\<close>

definition item_size :: "map_item \<Rightarrow> u64" where
  "item_size it = end_addr it - start_addr it"

definition best_below :: "map_item list \<Rightarrow> nat \<Rightarrow> nat option \<Rightarrow> bool" where
  "best_below items n best = (case best of
     None \<Rightarrow> \<forall>i < n. \<not> low_free (items ! i)
   | Some j \<Rightarrow> j < n \<and> low_free (items ! j) \<and> (\<forall>i < n. low_free (items ! i) \<longrightarrow> item_size (items ! i) \<le> item_size (items ! j)))"

lemma better_item_step: "best_below items n best \<Longrightarrow> best_below items (Suc n) (better_item items n best)"
  by (auto simp: best_below_def better_item_def item_size_def less_Suc_eq not_less split: option.splits
      intro: less_imp_le order_trans)

lemma largest_low_free_spec: "best_below items (length items) (rk356x_largest_low_free items)"
proof -
  have "best_below items n (fold (better_item items) [0..<n] None)" for n
    by (induction n) (simp_all add: better_item_step, simp add: best_below_def)
  then show ?thesis by (simp add: rk356x_largest_low_free_def)
qed

lemma reserved_flags: "r \<in> set (reserved payload_end) \<Longrightarrow> range_flags r AND 1 = 0"
  by (auto simp: reserved_def)

lemma find_in_set: "find P xs = Some r \<Longrightarrow> r \<in> set xs"
  by (auto simp: find_Some_iff)

lemma address_flags_unused:
  assumes "address_flags layout payload_end x AND 1 \<noteq> 0"
  shows "address_flags layout payload_end x = 1"
  using assms
  by (auto simp: address_flags_def reserved_flags split: if_splits option.splits dest!: find_in_set)

text \<open>C33. The chunk of memory the payload is offered is, when there is one, an item of the map whose
  every address is DRAM below 4 GiB, neither reserved nor a device nor part of the
  firmware or the payload, and no other such item is larger.\<close>

theorem largest_chunk_free:
  assumes "unat (bank_count layout) \<le> 10" and "rk356x_build_mem_map layout payload_end = items"
  shows "case rk356x_largest_low_free items of
    None \<Rightarrow> \<not> (\<exists>it \<in> set items. low_free it)
  | Some i \<Rightarrow> i < length items
      \<and> (start_addr (items ! i) \<le> x \<and> x < end_addr (items ! i)
         \<longrightarrow> in_bank layout x \<and> x < 0x100000000 \<and> address_flags layout payload_end x = FU_MEM_ATTR_UNUSED)
      \<and> (\<forall>it \<in> set items. low_free it \<longrightarrow> item_size it \<le> item_size (items ! i))"
proof (cases "rk356x_largest_low_free items")
  case None
  then show ?thesis using largest_low_free_spec [of items] by (auto simp: best_below_def in_set_conv_nth)
next
  case (Some i)
  then have i: "i < length items" "low_free (items ! i)"
    "\<forall>j < length items. low_free (items ! j) \<longrightarrow> item_size (items ! j) \<le> item_size (items ! i)"
    using largest_low_free_spec [of items] by (simp_all add: best_below_def)
  have "in_bank layout x \<and> x < 0x100000000 \<and> address_flags layout payload_end x = 1"
    if x: "start_addr (items ! i) \<le> x" "x < end_addr (items ! i)"
  proof -
    have "covers items x (item_flags (items ! i))" using x i(1) by (auto simp: covers_def)
    then have f: "address_flags layout payload_end x = item_flags (items ! i)"
      using build_mem_map_spec(3) [OF assms(1)] assms(2) by blast
    then have one: "address_flags layout payload_end x = 1"
      using i(2) by (intro address_flags_unused) (simp add: low_free_def)
    moreover have "in_bank layout x" using one by (auto simp: address_flags_def split: if_splits)
    moreover have "x < 0x100000000" using i(2) x(2) by (auto simp: low_free_def not_less)
    ultimately show ?thesis by blast
  qed
  with i show ?thesis by (auto simp: Some in_set_conv_nth)
qed

text \<open>The chunk of a DRAM of 1 GiB starts behind the frame buffer.\<close>

lemma largest_chunk_free_witness:
  "case rk356x_largest_low_free (rk356x_build_mem_map (synthesize_geometry 0x40000000 zero_layout) 0x1000000) of
     None \<Rightarrow> False | Some i \<Rightarrow> i < length (rk356x_build_mem_map (synthesize_geometry 0x40000000 zero_layout) 0x1000000)"
proof -
  define l where "l = synthesize_geometry 0x40000000 zero_layout"
  have b: "unat (bank_count l) \<le> 10"
    by (simp add: l_def synthesize_geometry_def add_bank_def zero_layout_def Let_def)
  have "rk356x_largest_low_free (rk356x_build_mem_map l 0x1000000) = Some 7" unfolding l_def by code_simp
  then show ?thesis
    using largest_chunk_free [OF b refl, of "0x1000000" "0x20000000"] unfolding l_def by simp
qed

end
