(* ===== verification/Log.thy ===== *)
theory Log
  imports Console
begin

text \<open>
  Printing 64-bit numbers (src/rk356x/log.c), the replacement for \<open>itoa\<close> and \<open>debug\<close> of
  lib.c. A buffer is the list of its bytes, or \<open>None\<close> for a null pointer.
\<close>

subsection \<open>The code\<close>

text \<open>
  \<open>digit_chars\<close> are the characters of the static array, \<open>reverse\<close> the digits stored so far.
  The loop does not end for base 1.
\<close>

partial_function (option) format_digits :: "u64 \<Rightarrow> u64 \<Rightarrow> bytes \<Rightarrow> bytes option" where
  "format_digits val base reverse =
     (let reverse = reverse @ [hex (val mod base)]; val = val div base
      in if val \<noteq> 0 then format_digits val base reverse else Some reverse)"

definition copy_reversed :: "bytes \<Rightarrow> bytes \<Rightarrow> bytes" where
  "copy_reversed reverse buffer =
     (let len = length reverse in
      (fold (\<lambda>i buffer. buffer[i := reverse ! (len - i - 1)]) [0..<len] buffer)[len := 0])"

definition rk356x_format_u64 :: "u64 \<Rightarrow> bytes option \<Rightarrow> u32 \<Rightarrow> u32 \<Rightarrow> (int \<times> bytes option) option" where
  "rk356x_format_u64 val buffer buffer_size base =
     (case buffer of
        None \<Rightarrow> Some (- 1, None)
      | Some buffer \<Rightarrow>
          if buffer_size = 0 then Some (- 1, Some buffer)
          else let buffer = buffer[0 := 0] in
            if base < 2 \<or> base > 16 then Some (- 1, Some buffer)
            else do {
              reverse \<leftarrow> format_digits val (ucast base) [];
              Some (if length reverse + 1 > unat buffer_size then (- 1, Some buffer)
                else (int (length reverse), Some (copy_reversed reverse buffer)))
            })"

fun write_text :: "device \<Rightarrow> addr \<Rightarrow> bytes \<Rightarrow> history \<Rightarrow> history option" where
  "write_text dev uart [] t = Some t"
| "write_text dev uart (c # text) t = do { t \<leftarrow> uart_chr dev uart c t; write_text dev uart text t }"

text \<open>The string in a buffer ends before the first zero.\<close>

abbreviation c_string :: "bytes \<Rightarrow> bytes" where
  "c_string \<equiv> takeWhile (\<lambda>c. c \<noteq> 0)"

text \<open>The buffers of 17 and 65 bytes are on the stack and hold anything before the call.\<close>

definition rk356x_debug_u64 :: "device \<Rightarrow> addr \<Rightarrow> bytes \<Rightarrow> bytes \<Rightarrow> bytes \<Rightarrow> u64 \<Rightarrow> history \<Rightarrow> history option" where
  "rk356x_debug_u64 dev uart hex_buffer bits_buffer label val t =
     do {
       (r1, h) \<leftarrow> rk356x_format_u64 val (Some hex_buffer) 17 16;
       if r1 < 0 then Some t
       else do {
         (r2, b) \<leftarrow> rk356x_format_u64 val (Some bits_buffer) 65 2;
         if r2 < 0 then Some t
         else do {
           t \<leftarrow> write_text dev uart (chars ''[UART] '') t;
           t \<leftarrow> write_text dev uart label t;
           t \<leftarrow> write_text dev uart (c_string (the h)) t;
           t \<leftarrow> write_text dev uart (chars '' (0b'') t;
           t \<leftarrow> write_text dev uart (c_string (the b)) t;
           write_text dev uart (chars '')'' @ [10, 13]) t
         }
       }
     }"

subsection \<open>Formatting\<close>

lemma format_digits_eq:
  assumes "2 \<le> base"
  shows "format_digits val base acc
    = Some (acc @ rev (map (\<lambda>d. hex (of_nat d)) (digits (unat base) (unat val))))"
proof (induction "unat val" arbitrary: val acc rule: less_induct)
  case less
  have b: "2 \<le> unat base" using assms by (simp add: word_le_nat_alt)
  have m: "val mod base = of_nat (unat val mod unat base)" by (simp add: unat_mod [symmetric])
  note step = format_digits.simps [of val base acc, unfolded Let_def]
  have zero: "val div base = 0 \<longleftrightarrow> unat val < unat base"
    using b by (simp add: word_unat_eq_iff unat_div div_eq_0_iff)
  show ?case
  proof (cases "unat val < unat base")
    case True
    then show ?thesis
      using zero by (simp add: step m digits.simps [of _ "unat val"])
  next
    case False
    then have "unat (val div base) < unat val" using b by (simp add: unat_div)
    note ih = less [OF this, of "acc @ [hex (val mod base)]"]
    have "digits (unat base) (unat val)
        = digits (unat base) (unat (val div base)) @ [unat val mod unat base]"
      using False b by (simp add: digits.simps [of _ "unat val"] unat_div)
    with False zero ih show ?thesis by (simp add: step m)
  qed
qed

lemma fold_updates:
  "n \<le> length xs \<Longrightarrow> fold (\<lambda>i xs. xs[i := f i]) [0..<n] xs = map f [0..<n] @ drop n xs"
proof (induction n)
  case (Suc n)
  then have "drop n xs = xs ! n # drop (Suc n) xs" by (simp add: Cons_nth_drop_Suc)
  with Suc show ?case by (simp add: list_update_append)
qed simp

lemma copy_reversed_eq:
  assumes "length reverse < length buffer"
  shows "copy_reversed reverse buffer = rev reverse @ 0 # drop (length reverse + 1) buffer"
proof -
  let ?n = "length reverse"
  have "map (\<lambda>i. reverse ! (?n - i - 1)) [0..<?n] = rev reverse"
    by (rule nth_equalityI) (simp_all add: rev_nth)
  moreover have "drop ?n buffer = buffer ! ?n # drop (?n + 1) buffer"
    using assms by (simp add: Cons_nth_drop_Suc)
  ultimately show ?thesis
    using assms fold_updates [of ?n buffer "\<lambda>i. reverse ! (?n - i - 1)"]
    by (simp add: copy_reversed_def Let_def list_update_append)
qed

definition number :: "nat \<Rightarrow> nat \<Rightarrow> bytes" where
  "number base val = map (\<lambda>d. hex (of_nat d)) (digits base val)"

lemma c_string_number: "base \<le> 16 \<Longrightarrow> 2 \<le> base \<Longrightarrow> c_string (number base val @ 0 # rest) = number base val"
proof -
  assume "base \<le> 16" "2 \<le> base"
  then have "\<forall>c \<in> set (number base val). c \<noteq> 0"
    using digits_less [of base _ val] hex_nonzero by (fastforce simp: number_def)
  then show ?thesis by (simp add: takeWhile_append2)
qed

lemma format_u64_spec:
  assumes "length buffer = unat buffer_size" and "buffer_size \<noteq> 0"
  shows "rk356x_format_u64 val (Some buffer) buffer_size base =
    Some (let s = number (unat base) (unat val) in
      if 2 \<le> base \<and> base \<le> 16 \<and> length s < length buffer
      then (int (length s), Some (s @ 0 # drop (length s + 1) buffer))
      else (- 1, Some (buffer[0 := 0])))"
proof (cases "2 \<le> base \<and> base \<le> 16")
  case True
  then have "2 \<le> (ucast base :: u64)" by (simp add: word_le_nat_alt unat_ucast_u32)
  note f = format_digits_eq [OF this, of val "[]", unfolded unat_ucast_u32]
  have s: "rev (map (\<lambda>d. hex (of_nat d)) (digits (unat base) (unat val))) = rev (number (unat base) (unat val))"
    by (simp add: number_def)
  have "\<not> (base < 2 \<or> base > 16)" using True by (auto simp: not_less)
  then show ?thesis
    using True assms copy_reversed_eq [of "rev (number (unat base) (unat val))" "buffer[0 := 0]"]
    by (simp add: rk356x_format_u64_def f s Let_def del: rev_map)
next
  case False
  then show ?thesis using assms(2) by (auto simp: rk356x_format_u64_def Let_def not_le)
qed

subsection \<open>Reading the number back\<close>

definition digit_of :: "u8 \<Rightarrow> nat" where
  "digit_of c = (if c \<le> 57 then unat c - 48 else unat c - 87)"

definition parse_number :: "nat \<Rightarrow> bytes \<Rightarrow> nat" where
  "parse_number base s = foldl (\<lambda>v c. v * base + digit_of c) 0 s"

lemma digit_of_hex: "d < 16 \<Longrightarrow> digit_of (hex (of_nat d)) = d"
proof -
  assume "d < 16"
  then have "d \<in> set [0..<16]" by simp
  moreover have "\<forall>d \<in> set [0..<16]. digit_of (hex (of_nat d)) = d" by (simp add: upt_rec hex_def digit_of_def)
  ultimately show ?thesis by blast
qed

lemma parse_number_number:
  assumes "2 \<le> base" and "base \<le> 16"
  shows "parse_number base (number base n) = n"
proof -
  have "foldl (\<lambda>v c. v * base + digit_of c) v (map (\<lambda>d. hex (of_nat d)) ds) = foldl (\<lambda>v d. v * base + d) v ds"
    if "\<forall>d \<in> set ds. d < base" for v ds
    using that assms by (induction ds arbitrary: v) (simp_all add: digit_of_hex)
  then show ?thesis
    using digits_value [OF assms(1)] digits_less [OF assms(1)] by (simp add: parse_number_def number_def)
qed

text \<open>rk356x_format_u64 returns for every input. With a base from 2 to 16 and a buffer that takes
  the digits and the final zero it returns the number of digits, and the string in the
  buffer reads as the value again; otherwise it returns -1 and leaves the empty string. Bytes
  behind the string do not change.\<close>

lemma format_u64_roundtrip:
  assumes "length buffer = unat buffer_size" and "buffer_size \<noteq> 0"
  shows "case rk356x_format_u64 val (Some buffer) buffer_size base of
    Some (r, Some buffer') \<Rightarrow> length buffer' = length buffer \<and>
      (if r \<ge> 0 then parse_number (unat base) (c_string buffer') = unat val
           \<and> r = int (length (c_string buffer')) \<and> r < int (length buffer)
           \<and> drop (nat r + 1) buffer' = drop (nat r + 1) buffer
       else r = - 1 \<and> c_string buffer' = []
         \<and> (base < 2 \<or> base > 16 \<or> length (number (unat base) (unat val)) \<ge> length buffer))
  | _ \<Rightarrow> False"
proof -
  have ne: "buffer \<noteq> []" using assms by (auto simp: word_unat_eq_iff)
  have b: "2 \<le> base \<and> base \<le> 16 \<Longrightarrow> 2 \<le> unat base \<and> unat base \<le> 16" by (simp add: word_le_nat_alt)
  show ?thesis
    using ne b by (auto simp: format_u64_spec [OF assms] Let_def c_string_number parse_number_number not_less
        not_le takeWhile_eq_Nil_iff hd_conv_nth)
qed

lemma format_u64_roundtrip_witness:
  "rk356x_format_u64 255 (Some [1, 2, 3, 4]) 4 16 = Some (2, Some [102, 102, 0, 4])
   \<and> parse_number 16 [102, 102] = 255"
proof -
  have d: "digits 16 255 = [15, 15]" by (simp add: digits.simps)
  have f: "rk356x_format_u64 255 (Some [1, 2, 3, 4]) 4 16 = Some (2, Some [102, 102, 0, 4])"
    by (subst format_u64_spec) (simp_all add: number_def d hex_def)
  have "length [1, 2, 3, 4 :: u8] = unat (4 :: u32)" "(4 :: u32) \<noteq> 0" by simp_all
  from format_u64_roundtrip [OF this, where val = 255 and base = 16] f show ?thesis by simp
qed

subsection \<open>Printing\<close>

lemma outputs_write_text: "outputs dev uart (write_text dev uart cs) cs"
proof (induction cs)
  case (Cons c cs)
  from outputs_bind [OF outputs_putchar Cons] show ?case by simp
qed (simp add: outputs_def)

text \<open>rk356x_debug_u64 prints every 64-bit value completely: the marker, the label, the value in
  hexadecimal and in binary without leading zeros, each byte to a free transmitter, and it
  returns when the transmitter keeps getting ready.\<close>

lemma debug_u64_output:
  assumes "length hex_buffer = 17" and "length bits_buffer = 65"
  shows "outputs dev uart (rk356x_debug_u64 dev uart hex_buffer bits_buffer label val)
    (chars ''[UART] '' @ label @ number 16 (unat val) @ chars '' (0b'' @ number 2 (unat val) @ chars '')'' @ [10, 13])"
proof -
  have "unat val < 16 ^ 16" "unat val < 2 ^ 64" using unat_u64_less [of val] by simp_all
  then have len: "length (number 16 (unat val)) \<le> 16" "length (number 2 (unat val)) \<le> 64"
    unfolding number_def length_map by (intro digits_length; simp)+
  have h: "rk356x_format_u64 val (Some hex_buffer) 17 16 = Some (int (length (number 16 (unat val))),
      Some (number 16 (unat val) @ 0 # drop (length (number 16 (unat val)) + 1) hex_buffer))"
    using assms(1) len(1) by (subst format_u64_spec) (simp_all add: Let_def)
  have b: "rk356x_format_u64 val (Some bits_buffer) 65 2 = Some (int (length (number 2 (unat val))),
      Some (number 2 (unat val) @ 0 # drop (length (number 2 (unat val)) + 1) bits_buffer))"
    using assms(2) len(2) by (subst format_u64_spec) (simp_all add: Let_def)
  have f: "rk356x_debug_u64 dev uart hex_buffer bits_buffer label val
    = (\<lambda>t. do {
           t \<leftarrow> write_text dev uart (chars ''[UART] '') t;
           t \<leftarrow> write_text dev uart label t;
           t \<leftarrow> write_text dev uart (number 16 (unat val)) t;
           t \<leftarrow> write_text dev uart (chars '' (0b'') t;
           t \<leftarrow> write_text dev uart (number 2 (unat val)) t;
           write_text dev uart (chars '')'' @ [10, 13]) t })"
    by (rule ext) (simp add: rk356x_debug_u64_def h b c_string_number del: write_text.simps)
  show ?thesis unfolding f by (intro outputs_bind outputs_write_text)
qed


end
