(* ===== verification/Gpio.thy ===== *)
theory Gpio
  imports Mmio
begin

text \<open>
  The general purpose pins of the RK356x (src/rk356x/gpio.c). A \<open>volatile struct RkGpio *\<close>
  is its address, \<open>None\<close> when it is null.
\<close>

subsection \<open>The code\<close>

abbreviation (input) RK356X_PMUGRF :: addr where "RK356X_PMUGRF \<equiv> 0xfdc20000"
abbreviation (input) RK356X_GRF :: addr where "RK356X_GRF \<equiv> 0xfdc60000"
abbreviation (input) RK356X_PMUCRU :: addr where "RK356X_PMUCRU \<equiv> 0xfdd00000"
abbreviation (input) RK356X_CRU :: addr where "RK356X_CRU \<equiv> 0xfdd20000"

record gpio_pin =
  pin_bank :: u8
  pin_number :: u8
  active_high :: u8
  valid :: u8

definition unsigned_int :: "int \<Rightarrow> u32" where
  "unsigned_int i = word_of_int i"

definition gpio_get :: "int \<Rightarrow> addr option" where
  "gpio_get bank =
     (let bases = [0xfdd60000, 0xfe740000, 0xfe750000, 0xfe760000, 0xfe770000] in
      if unat (unsigned_int bank) \<ge> length bases then None else Some (bases ! nat bank))"

definition gpio_enable :: "int \<Rightarrow> history \<Rightarrow> history" where
  "gpio_enable bank t =
     (if bank = 0 then
        (let t = rk_clr_set_bits (RK356X_PMUCRU + 0x184) 9 9 0 t in
         rk_clr_set_bits (RK356X_PMUCRU + 0x200) 10 9 0 t)
      else if unsigned_int bank \<le> 4 then
        (let gate = 2 * unsigned_int bank; reset = 344 + 2 * unsigned_int bank;
             t = rk_clr_set_bits (RK356X_CRU + 0x300 + 31 * 4) (unat gate) (unat gate) 0 t in
         rk_clr_set_bits (RK356X_CRU + 0x400 + ucast (reset div 16) * 4)
           (unat (reset mod 16 + 1)) (unat (reset mod 16)) 0 t)
      else t)"

definition gpio_set_mux :: "int \<Rightarrow> int \<Rightarrow> history \<Rightarrow> history" where
  "gpio_set_mux bank pin t =
     (let group = unsigned_int pin div 8; shift = (unsigned_int pin mod 4) * 4 in
      if unsigned_int bank > 4 \<or> unsigned_int pin > 31 then t
      else let base = (if bank \<noteq> 0 then RK356X_GRF else RK356X_PMUGRF);
               offset = (if bank \<noteq> 0 then (unsigned_int bank - 1) * 0x20 else 0);
               offset = offset + (group * 8 + (if unsigned_int pin AND 4 \<noteq> 0 then 4 else 0)) in
        rk_clr_set_bits (base + ucast offset) (unat (shift + 3)) (unat shift) 0 t)"

definition pin_word :: "int \<Rightarrow> int \<Rightarrow> u32" where
  "pin_word pin v =
     (let bit_no = unat (unsigned_int pin AND 15) in
      push_bit (bit_no + 16) 1 OR push_bit bit_no (if v \<noteq> 0 then 1 else 0))"

definition masked_pin_write :: "addr \<Rightarrow> addr \<Rightarrow> int \<Rightarrow> int \<Rightarrow> history \<Rightarrow> history" where
  "masked_pin_write low high pin v t = write32 (if pin < 16 then low else high) (pin_word pin v) t"

definition gpio_set_dir :: "int \<Rightarrow> int \<Rightarrow> int \<Rightarrow> history \<Rightarrow> history" where
  "gpio_set_dir gpio pin b t =
     (case gpio_get gpio of None \<Rightarrow> t | Some g \<Rightarrow> masked_pin_write (g + 8) (g + 12) pin b t)"

definition gpio_set_pin :: "int \<Rightarrow> int \<Rightarrow> int \<Rightarrow> history \<Rightarrow> history" where
  "gpio_set_pin gpio pin b t =
     (case gpio_get gpio of None \<Rightarrow> t | Some g \<Rightarrow> masked_pin_write g (g + 4) pin b t)"

definition gpio_get_pin :: "device \<Rightarrow> int \<Rightarrow> int \<Rightarrow> history \<Rightarrow> int \<times> history" where
  "gpio_get_pin dev gpio pin t =
     (case gpio_get gpio of
        None \<Rightarrow> (0, t)
      | Some g \<Rightarrow> (case read32 dev (g + 0x70) t of (v, t) \<Rightarrow> (uint (drop_bit (nat pin) v AND 1), t)))"

definition gpio_pin_mask_int :: "int \<Rightarrow> int \<Rightarrow> history \<Rightarrow> history" where
  "gpio_pin_mask_int gpio pin t =
     (case gpio_get gpio of None \<Rightarrow> t | Some g \<Rightarrow> masked_pin_write (g + 0x18) (g + 0x18 + 4) pin 1 t)"

definition rk356x_gpio_output :: "gpio_pin \<Rightarrow> int \<Rightarrow> history \<Rightarrow> history" where
  "rk356x_gpio_output p asserted t =
     (if valid p = 0 then t
      else let bank = uint (pin_bank p); pin = uint (pin_number p);
               t = gpio_enable bank t;
               t = gpio_set_mux bank pin t;
               t = gpio_set_pin bank pin (if asserted = uint (active_high p) then 1 else 0) t in
        gpio_set_dir bank pin 1 t)"

subsection \<open>A pin is driven\<close>

lemma pin_word_effect:
  assumes "0 \<le> pin" and "pin < 32"
  shows "bit (hiword_write old (pin_word pin v)) n
    = (if n = nat (pin mod 16) then v \<noteq> 0 else bit old n)"
proof -
  have "unsigned_int pin AND 15 = word_of_int (pin mod 16)"
  proof -
    have "(15 :: u32) = mask 4" by (simp add: mask_eq_exp_minus_1)
    then have "unsigned_int pin AND 15 = take_bit 4 (word_of_int pin)" by (simp add: unsigned_int_def take_bit_eq_mask)
    also have "\<dots> = word_of_int (take_bit 4 pin)" by (rule bit_word_eqI) (auto simp: bit_simps)
    finally show ?thesis by (simp add: take_bit_eq_mod)
  qed
  then have b: "unat (unsigned_int pin AND 15) = nat (pin mod 16)"
    by (simp add: unsigned_of_int take_bit_int_eq_self) 
  define k where "k = nat (pin mod 16)"
  have k: "k < 16" unfolding k_def by (simp add: nat_less_iff)
  show ?thesis
    unfolding pin_word_def Let_def b k_def [symmetric] hiword_write_def
    using k by (auto simp: bit_simps dest: bit_imp_le_length)
qed

text \<open>The data register of a pin, and its function field: four bits, from bit \<open>mux_shift\<close> on.\<close>

definition data_register :: "nat \<Rightarrow> nat \<Rightarrow> addr" where
  "data_register bank pin =
     [0xfdd60000, 0xfe740000, 0xfe750000, 0xfe760000, 0xfe770000] ! bank + (if pin < 16 then 0 else 4)"

definition mux_register :: "nat \<Rightarrow> nat \<Rightarrow> addr" where
  "mux_register bank pin = (if bank = 0 then RK356X_PMUGRF else RK356X_GRF + of_nat (32 * (bank - 1)))
     + of_nat (4 * (pin div 4))"

lemma unat_unsigned_int: "unat (unsigned_int (int n)) = n mod 4294967296"
  by (simp add: unsigned_int_def unat_of_nat take_bit_eq_mod)

lemma gpio_get_valid: "bank \<le> 4 \<Longrightarrow> gpio_get (int bank) = Some (data_register bank 0)"
  by (simp add: gpio_get_def unat_unsigned_int data_register_def)

lemma data_register_high: "data_register bank pin = data_register bank 0 + (if pin < 16 then 0 else 4)"
  by (simp add: data_register_def)

lemma gpio_set_pin_eq:
  "bank \<le> 4 \<Longrightarrow> gpio_set_pin (int bank) (int pin) v t = Write32 (data_register bank pin) (pin_word (int pin) v) # t"
  by (simp add: gpio_set_pin_def gpio_get_valid masked_pin_write_def write32_def data_register_high [of _ pin])

lemma gpio_set_dir_eq:
  "bank \<le> 4 \<Longrightarrow> gpio_set_dir (int bank) (int pin) v t = Write32 (data_register bank pin + 8) (pin_word (int pin) v) # t"
  by (simp add: gpio_set_dir_def gpio_get_valid masked_pin_write_def write32_def data_register_high [of _ pin])

lemma pin_offset:
  assumes "pin < 32"
  shows "unsigned_int (int pin) div 8 * 8 + (if unsigned_int (int pin) AND 4 \<noteq> 0 then 4 else 0)
      = of_nat (4 * (pin div 4))"
    and "unat (unsigned_int (int pin) mod 4 * 4) = 4 * (pin mod 4)"
    and "unat (unsigned_int (int pin) mod 4 * 4 + 3) = 4 * (pin mod 4) + 3"
proof -
  have p: "pin \<in> set [0..<32]" using assms by simp
  have "\<forall>pin \<in> set [0..<32]. unsigned_int (int pin) div 8 * 8 + (if unsigned_int (int pin) AND 4 \<noteq> 0 then 4 else 0)
      = of_nat (4 * (pin div 4))" by code_simp
  with p show "unsigned_int (int pin) div 8 * 8 + (if unsigned_int (int pin) AND 4 \<noteq> 0 then 4 else 0)
      = of_nat (4 * (pin div 4))" by blast
  have "\<forall>pin \<in> set [0..<32]. unat (unsigned_int (int pin) mod 4 * 4) = 4 * (pin mod 4)" by code_simp
  with p show "unat (unsigned_int (int pin) mod 4 * 4) = 4 * (pin mod 4)" by blast
  have "\<forall>pin \<in> set [0..<32]. unat (unsigned_int (int pin) mod 4 * 4 + 3) = 4 * (pin mod 4) + 3" by code_simp
  with p show "unat (unsigned_int (int pin) mod 4 * 4 + 3) = 4 * (pin mod 4) + 3" by blast
qed

lemma gpio_set_mux_eq:
  assumes "bank \<le> 4" and "pin < 32"
  shows "gpio_set_mux (int bank) (int pin) t
    = Write32 (mux_register bank pin) (push_bit (16 + 4 * (pin mod 4)) 15) # t"
proof -
  have bank: "(if bank = 0 then 0 else (unsigned_int (int bank) - 1) * 0x20) = of_nat (32 * (bank - 1))"
    by (simp add: unsigned_int_def of_nat_diff)
  have le: "\<not> (unsigned_int (int bank) > 4 \<or> unsigned_int (int pin) > 31)"
    using assms by (simp add: word_less_nat_alt unat_unsigned_int)
  define offset :: u32 where "offset = of_nat (32 * (bank - 1)) + of_nat (4 * (pin div 4))"
  have "unat offset = 32 * (bank - 1) + 4 * (pin div 4)"
    unfolding offset_def of_nat_add [symmetric] unat_of_nat using assms by (simp add: take_bit_nat_eq_self)
  then have "ucast offset = (of_nat (32 * (bank - 1) + 4 * (pin div 4)) :: u64)"
    using assms unfolding word_unat_eq_iff unat_ucast_u32 by (subst unat_of_nat_u64) simp_all
  then have addr: "(if bank \<noteq> 0 then RK356X_GRF else RK356X_PMUGRF) + ucast offset = mux_register bank pin"
    by (simp add: mux_register_def)
  have "int bank \<noteq> 0 \<longleftrightarrow> bank \<noteq> 0" by simp
  then show ?thesis
    using le addr bank
    unfolding gpio_set_mux_def Let_def pin_offset [OF assms(2)] rk_clr_set_bits_def write32_def offset_def
    by (cases "bank = 0") (simp_all add: push_bit_eq_mult del: of_nat_mult)
qed

lemma clear_field:
  assumes "k < 4"
  shows "hiword_write old (push_bit (16 + 4 * k) 15) = old AND NOT (push_bit (4 * k) 15)"
proof -
  have m: "(15 :: u32) = mask 4" by (simp add: mask_eq_exp_minus_1)
  show ?thesis
    unfolding hiword_write_def Let_def m
    by (rule bit_word_eqI) (use assms in \<open>auto simp: bit_simps\<close>)
qed

text \<open>For a pin of one of the five banks, rk356x_gpio_output first gives the pin to the GPIO block
  by clearing its four function bits and no other, then sets its level and only then turns
  it into an output; the last two writes change the bit of this pin alone, to the asserted
  level and to 1.\<close>

lemma gpio_output_drives_pin:
  assumes "valid p \<noteq> 0" and "unat (pin_bank p) \<le> 4" and "unat (pin_number p) < 32"
  defines "bank \<equiv> unat (pin_bank p)" and "pin \<equiv> unat (pin_number p)"
  shows "\<exists>mux level dir.
    rk356x_gpio_output p asserted t = Write32 (data_register bank pin + 8) dir
      # Write32 (data_register bank pin) level # Write32 (mux_register bank pin) mux
      # gpio_enable (int bank) t
    \<and> (\<forall>old. hiword_write old mux = old AND NOT (push_bit (4 * (pin mod 4)) 15))
    \<and> (\<forall>old n. bit (hiword_write old level) n
         = (if n = pin mod 16 then asserted = uint (active_high p) else bit old n))
    \<and> (\<forall>old n. bit (hiword_write old dir) n = (n = pin mod 16 \<or> bit old n))"
proof -
  have i: "uint (pin_bank p) = int bank" "uint (pin_number p) = int pin"
    by (simp_all add: bank_def pin_def)
  have b: "bank \<le> 4" "pin < 32" using assms(2,3) by (simp_all add: bank_def pin_def)
  have n: "nat (int pin mod 16) = pin mod 16" by (simp add: nat_mod_distrib)
  have word: "bit (hiword_write old (pin_word (int pin) v)) k = (if k = pin mod 16 then v \<noteq> 0 else bit old k)" for old v k
    using pin_word_effect [of "int pin"] b(2) n by simp
  have "rk356x_gpio_output p asserted t
    = Write32 (data_register bank pin + 8) (pin_word (int pin) 1)
      # Write32 (data_register bank pin) (pin_word (int pin) (if asserted = uint (active_high p) then 1 else 0))
      # Write32 (mux_register bank pin) (push_bit (16 + 4 * (pin mod 4)) 15) # gpio_enable (int bank) t"
    using assms(1) unfolding rk356x_gpio_output_def Let_def i
    by (simp only: gpio_set_mux_eq [OF b] gpio_set_pin_eq [OF b(1)] gpio_set_dir_eq [OF b(1)] if_False)
  moreover have "\<forall>old. hiword_write old (push_bit (16 + 4 * (pin mod 4)) 15) = old AND NOT (push_bit (4 * (pin mod 4)) 15)"
    by (intro allI clear_field) simp
  ultimately show ?thesis
    by (intro exI [of _ "push_bit (16 + 4 * (pin mod 4)) 15"] exI [of _ "pin_word (int pin) 1"]
        exI [of _ "pin_word (int pin) (if asserted = uint (active_high p) then 1 else 0)"] conjI)
      (simp_all add: word)
qed

lemma gpio_output_drives_pin_witness:
  "\<exists>mux level dir. rk356x_gpio_output \<lparr>pin_bank = 0, pin_number = 5, active_high = 1, valid = 1\<rparr> 1 []
    = Write32 0xfdd60008 dir # Write32 0xfdd60000 level # Write32 0xfdc20004 mux # gpio_enable 0 []"
proof -
  have "valid \<lparr>pin_bank = 0, pin_number = 5, active_high = 1, valid = 1\<rparr> \<noteq> 0"
    "unat (pin_bank \<lparr>pin_bank = 0, pin_number = 5, active_high = 1, valid = 1\<rparr>) \<le> 4"
    "unat (pin_number \<lparr>pin_bank = 0, pin_number = 5, active_high = 1, valid = 1\<rparr>) < 32" by simp_all
  from gpio_output_drives_pin [OF this, of 1 "[]"] show ?thesis
    by (auto simp: data_register_def mux_register_def)
qed

end
