(* ===== verification/Bootrom.thy ===== *)
theory Bootrom
  imports Prelude "HOL-Library.Multiset"
begin

text \<open>
  What the mask ROM of the SoC expects of the host tools (src/tools/main.h): the checksum
  of a transfer and the RC4 stream cipher.
\<close>

subsection \<open>The checksum\<close>

definition table_16 :: "u16 list" where
  "table_16 =
    [0x0, 0x1021, 0x2042, 0x3063, 0x4084, 0x50a5, 0x60c6, 0x70e7, 0x8108, 0x9129, 0xa14a, 0xb16b,
     0xc18c, 0xd1ad, 0xe1ce, 0xf1ef, 0x1231, 0x210, 0x3273, 0x2252, 0x52b5, 0x4294, 0x72f7, 0x62d6,
     0x9339, 0x8318, 0xb37b, 0xa35a, 0xd3bd, 0xc39c, 0xf3ff, 0xe3de, 0x2462, 0x3443, 0x420, 0x1401,
     0x64e6, 0x74c7, 0x44a4, 0x5485, 0xa56a, 0xb54b, 0x8528, 0x9509, 0xe5ee, 0xf5cf, 0xc5ac, 0xd58d,
     0x3653, 0x2672, 0x1611, 0x630, 0x76d7, 0x66f6, 0x5695, 0x46b4, 0xb75b, 0xa77a, 0x9719, 0x8738,
     0xf7df, 0xe7fe, 0xd79d, 0xc7bc, 0x48c4, 0x58e5, 0x6886, 0x78a7, 0x840, 0x1861, 0x2802, 0x3823,
     0xc9cc, 0xd9ed, 0xe98e, 0xf9af, 0x8948, 0x9969, 0xa90a, 0xb92b, 0x5af5, 0x4ad4, 0x7ab7, 0x6a96,
     0x1a71, 0xa50, 0x3a33, 0x2a12, 0xdbfd, 0xcbdc, 0xfbbf, 0xeb9e, 0x9b79, 0x8b58, 0xbb3b, 0xab1a,
     0x6ca6, 0x7c87, 0x4ce4, 0x5cc5, 0x2c22, 0x3c03, 0xc60, 0x1c41, 0xedae, 0xfd8f, 0xcdec, 0xddcd,
     0xad2a, 0xbd0b, 0x8d68, 0x9d49, 0x7e97, 0x6eb6, 0x5ed5, 0x4ef4, 0x3e13, 0x2e32, 0x1e51, 0xe70,
     0xff9f, 0xefbe, 0xdfdd, 0xcffc, 0xbf1b, 0xaf3a, 0x9f59, 0x8f78, 0x9188, 0x81a9, 0xb1ca, 0xa1eb,
     0xd10c, 0xc12d, 0xf14e, 0xe16f, 0x1080, 0xa1, 0x30c2, 0x20e3, 0x5004, 0x4025, 0x7046, 0x6067,
     0x83b9, 0x9398, 0xa3fb, 0xb3da, 0xc33d, 0xd31c, 0xe37f, 0xf35e, 0x2b1, 0x1290, 0x22f3, 0x32d2,
     0x4235, 0x5214, 0x6277, 0x7256, 0xb5ea, 0xa5cb, 0x95a8, 0x8589, 0xf56e, 0xe54f, 0xd52c, 0xc50d,
     0x34e2, 0x24c3, 0x14a0, 0x481, 0x7466, 0x6447, 0x5424, 0x4405, 0xa7db, 0xb7fa, 0x8799, 0x97b8,
     0xe75f, 0xf77e, 0xc71d, 0xd73c, 0x26d3, 0x36f2, 0x691, 0x16b0, 0x6657, 0x7676, 0x4615, 0x5634,
     0xd94c, 0xc96d, 0xf90e, 0xe92f, 0x99c8, 0x89e9, 0xb98a, 0xa9ab, 0x5844, 0x4865, 0x7806, 0x6827,
     0x18c0, 0x8e1, 0x3882, 0x28a3, 0xcb7d, 0xdb5c, 0xeb3f, 0xfb1e, 0x8bf9, 0x9bd8, 0xabbb, 0xbb9a,
     0x4a75, 0x5a54, 0x6a37, 0x7a16, 0xaf1, 0x1ad0, 0x2ab3, 0x3a92, 0xfd2e, 0xed0f, 0xdd6c, 0xcd4d,
     0xbdaa, 0xad8b, 0x9de8, 0x8dc9, 0x7c26, 0x6c07, 0x5c64, 0x4c45, 0x3ca2, 0x2c83, 0x1ce0, 0xcc1,
     0xef1f, 0xff3e, 0xcf5d, 0xdf7c, 0xaf9b, 0xbfba, 0x8fd9, 0x9ff8, 0x6e17, 0x7e36, 0x4e55, 0x5e74,
     0x2e93, 0x3eb2, 0xed1, 0x1ef0]"

text \<open>One round of the loop; the local \<open>crc\<close> is an \<open>unsigned int\<close>.\<close>

definition crc_step :: "u8 \<Rightarrow> u32 \<Rightarrow> u32" where
  "crc_step b crc = (ucast (table_16 ! unat ((drop_bit 8 crc XOR ucast b) AND 0xff)) XOR push_bit 8 crc) AND 0xffff"

definition crc_sum_16 :: "u32 \<Rightarrow> bytes \<Rightarrow> u32" where
  "crc_sum_16 crc bs = fold crc_step bs crc"

text \<open>
  The reference: the remainder register of the polynomial \<open>x\<^sup>1\<^sup>6 + x\<^sup>1\<^sup>2 + x\<^sup>5 + 1\<close>, fed with
  one bit after the other, most significant first.
\<close>

definition crc_bit :: "bool \<Rightarrow> u16 \<Rightarrow> u16" where
  "crc_bit b r = (if bit r 15 \<noteq> b then push_bit 1 r XOR 0x1021 else push_bit 1 r)"

definition bits_of :: "u8 \<Rightarrow> bool list" where
  "bits_of b = map (bit b) [7, 6, 5, 4, 3, 2, 1, 0]"

definition crc_ccitt :: "u16 \<Rightarrow> bytes \<Rightarrow> u16" where
  "crc_ccitt r bs = fold crc_bit (concat (map bits_of bs)) r"

lemma table_16_doubling:
  "table_16 = concat (map (\<lambda>t. [crc_bit False t, crc_bit False t XOR 0x1021]) (take 128 table_16))"
  by (simp add: table_16_def crc_bit_def)

lemma crc_bit_in: "crc_bit b r = crc_bit False (r XOR push_bit 15 (of_bool b))"
proof -
  have "push_bit 1 (r XOR push_bit 15 (of_bool b)) = push_bit 1 r"
    by (rule bit_word_eqI) (auto simp: bit_simps)
  moreover have "bit (r XOR push_bit 15 (of_bool b)) 15 \<longleftrightarrow> bit r 15 \<noteq> b"
    by (auto simp: bit_simps)
  ultimately show ?thesis by (simp add: crc_bit_def)
qed

lemma crc_bit_xor: "crc_bit False (a XOR c) = crc_bit False a XOR crc_bit False c"
  by (simp add: crc_bit_def push_bit_xor bit_xor_iff ac_simps del: push_bit_Suc)

lemma crc_bit_low: "m < 15 \<Longrightarrow> crc_bit False (push_bit m (of_bool b)) = push_bit (Suc m) (of_bool b)"
  by (simp add: crc_bit_def bit_simps push_bit_push_bit)

abbreviation (input) eight :: "u16 \<Rightarrow> u16" where "eight r \<equiv> (crc_bit False ^^ 8) r"

lemma funpow_xor: "(crc_bit False ^^ n) (a XOR c) = (crc_bit False ^^ n) a XOR (crc_bit False ^^ n) c"
  by (induction n) (simp_all add: crc_bit_xor)

lemma nth_concat_pairs:
  "j < length xs \<Longrightarrow> concat (map (\<lambda>t. [f t, g t]) xs) ! (2 * j) = f (xs ! j)"
  "j < length xs \<Longrightarrow> concat (map (\<lambda>t. [f t, g t]) xs) ! (2 * j + 1) = g (xs ! j)"
proof (induction xs arbitrary: j)
  case (Cons x xs)
  { case 1 then show ?case using Cons.IH(1) [of "j - 1"] by (cases j) simp_all next
    case 2 then show ?case using Cons.IH(2) [of "j - 1"] by (cases j) simp_all }
qed simp_all

lemma length_table_16: "length table_16 = 256"
  by (simp add: table_16_def)

lemma small_no_high_bit: "j < 128 \<Longrightarrow> \<not> bit (push_bit 8 (of_nat j :: u16)) 15"
proof -
  assume "j < 128"
  then have "take_bit 7 j = j" by (simp add: take_bit_nat_eq_self)
  then have "\<not> bit j 7" by (metis bit_take_bit_iff less_irrefl)
  then show ?thesis by (simp add: bit_simps)
qed

lemma funpow_8: "(f ^^ 8) x = f (f (f (f (f (f (f (f x)))))))"
  by (simp add: numeral_eq_Suc)

lemma eight_one: "eight (push_bit 8 1) = 0x1021"
  by (simp add: crc_bit_def funpow_8)

lemma eight_double: "j < 128 \<Longrightarrow> eight (push_bit 8 (of_nat (2 * j))) = crc_bit False (eight (push_bit 8 (of_nat j)))"
proof -
  assume "j < 128"
  then have "push_bit 8 (of_nat (2 * j)) = crc_bit False (push_bit 8 (of_nat j))"
    using small_no_high_bit [of j] by (simp add: crc_bit_def push_bit_eq_mult)
  then show ?thesis by (simp only: funpow_swap1)
qed

lemma eight_odd: "eight (push_bit 8 (of_nat (2 * j + 1))) = eight (push_bit 8 (of_nat (2 * j))) XOR 0x1021"
proof -
  have "(of_nat (2 * j + 1) :: u16) = of_nat (2 * j) XOR 1"
    by (simp add: xor_one_eq)
  then have "push_bit 8 (of_nat (2 * j + 1) :: u16) = push_bit 8 (of_nat (2 * j)) XOR push_bit 8 1"
    by (simp only: push_bit_xor)
  then show ?thesis by (simp only: funpow_xor eight_one)
qed

lemma table_16_spec: "i < 256 \<Longrightarrow> table_16 ! i = eight (push_bit 8 (of_nat i))"
proof (induction i rule: less_induct)
  case (less i)
  define j where "j = i div 2"
  have j: "j < length (take 128 table_16)" "j < 128" "take 128 table_16 ! j = table_16 ! j"
    using less.prems by (auto simp: j_def length_table_16)
  have e: "table_16 ! (2 * j) = crc_bit False (table_16 ! j)" "table_16 ! (2 * j + 1) = crc_bit False (table_16 ! j) XOR 0x1021"
    using nth_concat_pairs [OF j(1)] unfolding j(3)
    by (simp_all only: trans [OF arg_cong [OF table_16_doubling, of "\<lambda>t. t ! _"]])
  show ?case
  proof (cases "i = 0")
    case True
    then show ?thesis by (simp add: table_16_def crc_bit_def funpow_8)
  next
    case False
    then have "table_16 ! j = eight (push_bit 8 (of_nat j))" using less by (simp add: j_def)
    moreover have "i = 2 * j \<or> i = 2 * j + 1" unfolding j_def by presburger
    ultimately show ?thesis using e eight_double [OF j(2)] eight_odd [of j] by auto
  qed
qed

text \<open>Feeding the next bit of a byte is the same as having added the byte to the register before.\<close>

lemma crc_bit_feed:
  assumes "k < 8"
  shows "crc_bit False (r XOR push_bit (8 + k) (ucast (b :: u8)))
    = crc_bit (bit b (7 - k)) r XOR push_bit (9 + k) (ucast b)"
proof -
  have "bit (push_bit (8 + k) (ucast b) :: u16) 15 = bit b (7 - k)"
    using assms by (auto simp: bit_simps)
  then show ?thesis
    by (auto simp: crc_bit_def push_bit_xor push_bit_push_bit bit_xor_iff ac_simps
        simp del: push_bit_Suc)
qed

lemma fold_byte: "fold crc_bit (bits_of b) r = eight (r XOR push_bit 8 (ucast b))"
proof -
  have "push_bit 16 (ucast b :: u16) = 0" by (rule bit_word_eqI) (simp add: bit_simps)
  then show ?thesis
    using crc_bit_feed [of 0 _ b] crc_bit_feed [of 1 _ b] crc_bit_feed [of 2 _ b] crc_bit_feed [of 3 _ b]
      crc_bit_feed [of 4 _ b] crc_bit_feed [of 5 _ b] crc_bit_feed [of 6 _ b] crc_bit_feed [of 7 _ b]
    by (simp add: bits_of_def funpow_8 del: push_bit_Suc)
qed

lemma funpow_low: "n \<le> 8 \<Longrightarrow> (crc_bit False ^^ n) (take_bit 8 r) = push_bit n (take_bit 8 r)"
proof (induction n)
  case (Suc n)
  then have "\<not> bit (push_bit n (take_bit 8 r)) 15" by (auto simp: bit_simps)
  with Suc show ?case by (simp add: crc_bit_def)
qed simp

lemma crc_step_byte: "crc_step b (ucast r) = ucast (fold crc_bit (bits_of b) r)"
proof -
  define h where "h = drop_bit 8 r XOR ucast b"
  have m: "(0xff :: u32) = mask 8" "(0xffff :: u32) = mask 16" by (simp_all add: mask_eq_exp_minus_1)
  have h8: "h = take_bit 8 h" unfolding h_def
    by (rule bit_word_eqI) (auto simp: bit_simps dest: bit_imp_le_length)
  have "unat (take_bit 8 h) < 256" by (simp add: take_bit_eq_mod unat_mod)
  then have i: "unat h < 256" using h8 by simp
  have "(drop_bit 8 (ucast r) XOR ucast b) AND 0xff = (ucast h :: u32)"
    unfolding m h_def by (rule bit_word_eqI) (auto simp: bit_simps dest: bit_imp_le_length)
  moreover have "unat (ucast h :: u32) = unat h" using i by (simp add: unsigned_ucast_eq take_bit_nat_eq_self)
  moreover have "table_16 ! unat h = eight (push_bit 8 h)" using table_16_spec [OF i] by simp
  ultimately have "crc_step b (ucast r) = (ucast (eight (push_bit 8 h)) XOR push_bit 8 (ucast r)) AND 0xffff"
    by (simp only: crc_step_def)
  also have "\<dots> = ucast (eight (push_bit 8 h) XOR push_bit 8 (take_bit 8 r))"
    unfolding m by (rule bit_word_eqI) (auto simp: bit_simps dest: bit_imp_le_length)
  also have "push_bit 8 (take_bit 8 r) = eight (take_bit 8 r)" by (simp only: funpow_low order_refl)
  also have "eight (push_bit 8 h) XOR eight (take_bit 8 r) = eight (push_bit 8 h XOR take_bit 8 r)"
    by (simp only: funpow_xor)
  also have "push_bit 8 h XOR take_bit 8 r = r XOR push_bit 8 (ucast b)"
    unfolding h_def by (rule bit_word_eqI) (auto simp: bit_simps dest: bit_imp_le_length)
  finally show ?thesis by (simp only: fold_byte)
qed

lemma crc_sum_16_spec: "crc_sum_16 (ucast r) bs = ucast (crc_ccitt r bs)"
  unfolding crc_sum_16_def crc_ccitt_def
  by (induction bs arbitrary: r) (simp_all add: crc_step_byte)

text \<open>C38. The table-driven checksum is the CRC-16 of the polynomial 0x1021 computed bit by bit, from
  any start value of 16 bits and for any data; so all 256 table entries are right.\<close>

theorem crc_is_ccitt: "crc_sum_16 (ucast r) bs = ucast (crc_ccitt r bs)"
  by (rule crc_sum_16_spec)

subsection \<open>The cipher\<close>

record rc4_encoder =
  rc4_j :: u32
  rc4_x :: u32
  rc4_key :: bytes

text \<open>\<open>temp = a[i]; a[i] = a[j]; a[j] = temp;\<close>\<close>

definition swap_bytes :: "nat \<Rightarrow> nat \<Rightarrow> bytes \<Rightarrow> bytes" where
  "swap_bytes i j a = (a[i := a ! j])[j := a ! i]"

definition rc4_round :: "rc4_encoder \<Rightarrow> u8 \<Rightarrow> rc4_encoder \<times> u8" where
  "rc4_round r b =
     (let x = (rc4_x r + 1) mod 256;
          j = (rc4_j r + ucast (rc4_key r ! unat x)) mod 256;
          key = swap_bytes (unat x) (unat j) (rc4_key r) in
      (r\<lparr>rc4_x := x, rc4_j := j, rc4_key := key\<rparr>,
       b XOR key ! ((unat (key ! unat x) + unat (key ! unat j)) mod 256)))"

fun rc4_encode_chunk :: "rc4_encoder \<Rightarrow> bytes \<Rightarrow> rc4_encoder \<times> bytes" where
  "rc4_encode_chunk r [] = (r, [])"
| "rc4_encode_chunk r (b # bs) =
     (let (r, c) = rc4_round r b; (r, cs) = rc4_encode_chunk r bs in (r, c # cs))"

definition setup_round :: "bytes \<Rightarrow> nat \<Rightarrow> nat \<times> bytes \<Rightarrow> nat \<times> bytes" where
  "setup_round key i = (\<lambda>(j, k).
     let j = (j + unat (k ! i) + unat (key ! (i mod 16))) mod 256 in (j, swap_bytes i j k))"

definition setup_rc4_encoder :: "bytes \<Rightarrow> rc4_encoder" where
  "setup_rc4_encoder key =
     (let (j, k) = fold (setup_round key) [0..<256] (0, map of_nat [0..<256])
      in \<lparr>rc4_j = 0, rc4_x = 0, rc4_key = k\<rparr>)"

definition rc4_encode :: "bytes \<Rightarrow> bytes \<Rightarrow> bytes" where
  "rc4_encode buf key = snd (rc4_encode_chunk (setup_rc4_encoder key) buf)"

definition rockchip_key :: bytes where
  "rockchip_key = [124, 78, 3, 4, 85, 5, 9, 7, 45, 44, 123, 56, 23, 13, 23, 17]"

text \<open>The table of the cipher is always a permutation of the bytes, and its indices are inside it.\<close>

definition rc4_ok :: "rc4_encoder \<Rightarrow> bool" where
  "rc4_ok r \<longleftrightarrow> mset (rc4_key r) = mset (map of_nat [0..<256]) \<and> unat (rc4_x r) < 256 \<and> unat (rc4_j r) < 256"

lemma length_swap_bytes [simp]: "length (swap_bytes i j a) = length a"
  by (simp add: swap_bytes_def)

lemma mset_swap_bytes: "i < length a \<Longrightarrow> j < length a \<Longrightarrow> mset (swap_bytes i j a) = mset a"
  unfolding swap_bytes_def by (rule mset_swap)

lemma unat_mod_256: "unat (a mod 256 :: u32) < 256"
  by (simp add: unat_mod)

lemma rc4_ok_length: "rc4_ok r \<Longrightarrow> length (rc4_key r) = 256"
  unfolding rc4_ok_def by (metis diff_zero length_map length_upt size_mset)

lemma rc4_round_ok: "rc4_ok r \<Longrightarrow> rc4_ok (fst (rc4_round r b))"
  using rc4_ok_length [of r]
  by (simp add: rc4_round_def Let_def rc4_ok_def mset_swap_bytes unat_mod_256)

lemma rc4_chunk_ok: "rc4_ok r \<Longrightarrow> rc4_ok (fst (rc4_encode_chunk r bs))"
  by (induction bs arbitrary: r) (auto simp: Let_def split_def rc4_round_ok)

lemma setup_rc4_ok: "rc4_ok (setup_rc4_encoder key)"
proof -
  have "mset (snd (fold (setup_round key) is (j, k))) = mset k" if "\<forall>i \<in> set is. i < 256" "length k = 256" for "is" j k
    using that
  proof (induction "is" arbitrary: j k)
    case (Cons i ns)
    then show ?case by (simp add: setup_round_def Let_def mset_swap_bytes)
  qed simp
  then show ?thesis by (simp add: setup_rc4_encoder_def rc4_ok_def split_def)
qed

text \<open>The stream does not depend on the data, so encoding twice gives the data back.\<close>

lemma rc4_chunk_inverse:
  "rc4_encode_chunk r bs = (r', cs) \<Longrightarrow> rc4_encode_chunk r cs = (r', bs)"
proof (induction bs arbitrary: r cs)
  case (Cons b bs)
  obtain k where k: "rc4_round r c = (fst (rc4_round r b), c XOR k)" for c
    by (simp add: rc4_round_def Let_def)
  obtain ds where d: "rc4_encode_chunk (fst (rc4_round r b)) bs = (r', ds)" and cs: "cs = (b XOR k) # ds"
    using Cons.prems k [of b] by (auto simp: Let_def split: prod.splits)
  have "rc4_encode_chunk r cs = (r', ((b XOR k) XOR k) # bs)"
    by (simp only: cs rc4_encode_chunk.simps k [of "b XOR k"] Cons.IH [OF d] Let_def split_conv)
  then show ?case by (simp add: xor.assoc)
qed simp

lemma rc4_chunk_append:
  "rc4_encode_chunk r (as @ bs) = (let (r, cs) = rc4_encode_chunk r as; (r, ds) = rc4_encode_chunk r bs in (r, cs @ ds))"
  by (induction as arbitrary: r) (auto simp: Let_def split: prod.splits)

lemma length_rc4_chunk: "length (snd (rc4_encode_chunk r bs)) = length bs"
  by (induction bs arbitrary: r) (simp_all add: Let_def split_def)

text \<open>RC4 with any key is its own inverse, keeps the length of the data, and its table stays a
  permutation of the 256 bytes with both indices inside, so no access is out of bounds.\<close>

lemma rc4_roundtrip:
  "rc4_encode (rc4_encode buf key) key = buf \<and> length (rc4_encode buf key) = length buf
   \<and> rc4_ok (fst (rc4_encode_chunk (setup_rc4_encoder key) buf))"
proof -
  have "rc4_encode_chunk (setup_rc4_encoder key) (rc4_encode buf key)
      = (fst (rc4_encode_chunk (setup_rc4_encoder key) buf), buf)"
    by (rule rc4_chunk_inverse) (simp add: rc4_encode_def)
  then have "rc4_encode (rc4_encode buf key) key = buf" by (simp only: rc4_encode_def [of "rc4_encode buf key"] snd_conv)
  moreover have "length (rc4_encode buf key) = length buf" by (simp only: rc4_encode_def length_rc4_chunk)
  ultimately show ?thesis using rc4_chunk_ok [OF setup_rc4_ok] by blast
qed

end
