(* ===== verification/Rock.thy ===== *)
theory Rock
  imports Bootrom
begin

text \<open>
  Sending an image to the mask ROM over USB (\<open>send_blob\<close> of src/tools/rock.c). libusb is
  not part of the program: \<open>usb\<close> says for the transfers sent before and the next one what
  the library returns; \<open>ferror\<close> says whether reading the n-th chunk failed.
\<close>

subsection \<open>The code\<close>

abbreviation (input) RK_MAX :: nat where "RK_MAX \<equiv> 0x1000"

function send_chunks :: "(bytes list \<Rightarrow> bytes \<Rightarrow> int) \<Rightarrow> (nat \<Rightarrow> bool) \<Rightarrow> bool \<Rightarrow> rc4_encoder \<Rightarrow> u32
    \<Rightarrow> bytes \<Rightarrow> bytes list \<Rightarrow> int \<times> bytes list" where
  "send_chunks usb ferror do_rc4 r crc blob sent =
     (let chunk = take RK_MAX blob; final_chunk = length chunk \<noteq> RK_MAX in
      if ferror (length sent) then (- 1, sent)
      else let (r, chunk) = (if do_rc4 then rc4_encode_chunk r chunk else (r, chunk));
               crc = crc_sum_16 crc chunk;
               transfer = chunk @ (if final_chunk then [ucast (drop_bit 8 crc), ucast (crc AND 0xff)] else []);
               rc = usb sent transfer in
        if rc < 0 then (- 1, sent @ [transfer])
        else if rc \<noteq> int (length transfer) then (- 1, sent @ [transfer])
        else if final_chunk then (0, sent @ [transfer])
        else send_chunks usb ferror do_rc4 r crc (drop RK_MAX blob) (sent @ [transfer]))"
  by pat_completeness auto
termination by (relation "measure (\<lambda>(usb, ferror, do_rc4, r, crc, blob, sent). length blob)") auto

declare send_chunks.simps [simp del]

text \<open>\<open>blob\<close> is \<open>None\<close> when it cannot be opened; \<open>open_result\<close> is what \<open>libusb_open\<close> returns.\<close>

definition send_blob :: "(bytes list \<Rightarrow> bytes \<Rightarrow> int) \<Rightarrow> (nat \<Rightarrow> bool) \<Rightarrow> int \<Rightarrow> bytes option \<Rightarrow> bool \<Rightarrow> int \<times> bytes list" where
  "send_blob usb ferror open_result blob do_rc4 =
     (case blob of
        None \<Rightarrow> (- 1, [])
      | Some data \<Rightarrow>
          if open_result \<noteq> 0 then (- 1, [])
          else send_chunks usb ferror do_rc4 (setup_rc4_encoder rockchip_key) 0xffff data [])"

subsection \<open>What is sent\<close>

text \<open>The file as the device gets it, and behind it the checksum, high byte first.\<close>

definition encoded :: "bool \<Rightarrow> rc4_encoder \<Rightarrow> bytes \<Rightarrow> bytes" where
  "encoded do_rc4 r blob = (if do_rc4 then snd (rc4_encode_chunk r blob) else blob)"

definition crc_trailer :: "u32 \<Rightarrow> bytes" where
  "crc_trailer crc = [ucast (drop_bit 8 crc), ucast (crc AND 0xff)]"

lemma crc_sum_16_append: "crc_sum_16 crc (as @ bs) = crc_sum_16 (crc_sum_16 crc as) bs"
  by (simp add: crc_sum_16_def)

text \<open>One round of the loop: the encoder behind the chunk with the encoded chunk, and the transfer.\<close>

definition chunk_of :: "bool \<Rightarrow> rc4_encoder \<Rightarrow> bytes \<Rightarrow> rc4_encoder \<times> bytes" where
  "chunk_of do_rc4 r blob = (if do_rc4 then rc4_encode_chunk r (take RK_MAX blob) else (r, take RK_MAX blob))"

definition transfer_of :: "bool \<Rightarrow> rc4_encoder \<Rightarrow> u32 \<Rightarrow> bytes \<Rightarrow> bytes" where
  "transfer_of do_rc4 r crc blob =
     (let chunk = snd (chunk_of do_rc4 r blob) in
      chunk @ (if length (take RK_MAX blob) \<noteq> RK_MAX then crc_trailer (crc_sum_16 crc chunk) else []))"

lemma send_chunks_step:
  "send_chunks usb ferror do_rc4 r crc blob sent =
     (let transfer = transfer_of do_rc4 r crc blob; (r', chunk) = chunk_of do_rc4 r blob in
      if ferror (length sent) then (- 1, sent)
      else if usb sent transfer \<noteq> int (length transfer) then (- 1, sent @ [transfer])
      else if length (take RK_MAX blob) \<noteq> RK_MAX then (0, sent @ [transfer])
      else send_chunks usb ferror do_rc4 r' (crc_sum_16 crc chunk) (drop RK_MAX blob) (sent @ [transfer]))"
  by (subst send_chunks.simps) (auto simp: Let_def split_def chunk_of_def transfer_of_def crc_trailer_def)

lemma encoded_split:
  "encoded do_rc4 r blob = snd (chunk_of do_rc4 r blob) @ encoded do_rc4 (fst (chunk_of do_rc4 r blob)) (drop RK_MAX blob)"
  using rc4_chunk_append [of r "take RK_MAX blob" "drop RK_MAX blob"]
  by (simp add: encoded_def chunk_of_def split_def Let_def)

definition stream_of :: "bool \<Rightarrow> rc4_encoder \<Rightarrow> u32 \<Rightarrow> bytes \<Rightarrow> bytes" where
  "stream_of do_rc4 r crc blob = encoded do_rc4 r blob @ crc_trailer (crc_sum_16 crc (encoded do_rc4 r blob))"

lemma stream_of_round:
  assumes "chunk_of do_rc4 r blob = (r', chunk)"
  shows "stream_of do_rc4 r crc blob = (if length (take RK_MAX blob) \<noteq> RK_MAX then transfer_of do_rc4 r crc blob
    else transfer_of do_rc4 r crc blob @ stream_of do_rc4 r' (crc_sum_16 crc chunk) (drop RK_MAX blob))"
proof -
  have "encoded do_rc4 r' [] = []" by (simp add: encoded_def)
  moreover have "drop RK_MAX blob = []" if "length (take RK_MAX blob) \<noteq> RK_MAX" using that by simp
  ultimately show ?thesis
    using encoded_split [of do_rc4 r blob] assms
    by (auto simp: stream_of_def transfer_of_def Let_def crc_sum_16_append crc_sum_16_def [of _ "[]"])
qed

lemma length_transfer_of: "length (transfer_of do_rc4 r crc blob) \<le> RK_MAX + 2"
  by (auto simp: transfer_of_def chunk_of_def crc_trailer_def length_rc4_chunk Let_def min_def)

text \<open>The transfers are pieces of the stream in order; the result is 0 exactly for all of it.\<close>

definition stream_sent :: "bytes \<Rightarrow> bytes list \<Rightarrow> int \<Rightarrow> bool" where
  "stream_sent stream sent result \<longleftrightarrow>
     (\<exists>rest. stream = concat sent @ rest \<and> (result = 0 \<and> rest = [] \<or> result = - 1))
     \<and> list_all (\<lambda>t. length t \<le> RK_MAX + 2) sent"

lemma stream_sent_intros:
  "stream_sent stream [] (- 1)"
  "length t \<le> RK_MAX + 2 \<Longrightarrow> stream_sent (t @ rest) [t] (- 1)"
  "length t \<le> RK_MAX + 2 \<Longrightarrow> stream_sent t [t] 0"
  "length t \<le> RK_MAX + 2 \<Longrightarrow> stream_sent rest new rc \<Longrightarrow> stream_sent (t @ rest) (t # new) rc"
  by (auto simp: stream_sent_def)

lemma send_chunks_stream:
  "\<exists>new. snd (send_chunks usb ferror do_rc4 r crc blob sent) = sent @ new
    \<and> stream_sent (stream_of do_rc4 r crc blob) new (fst (send_chunks usb ferror do_rc4 r crc blob sent))"
proof (induction blob arbitrary: r crc sent rule: measure_induct_rule [of length])
  case (less blob)
  obtain r' chunk where chunk: "chunk_of do_rc4 r blob = (r', chunk)" by fastforce
  define transfer where "transfer = transfer_of do_rc4 r crc blob"
  note step = send_chunks_step [of usb ferror do_rc4 r crc blob sent, unfolded Let_def, folded transfer_def, unfolded chunk split_conv]
  note stream = stream_of_round [OF chunk, of crc, folded transfer_def]
  have len: "length transfer \<le> RK_MAX + 2" unfolding transfer_def by (rule length_transfer_of)
  have stop: "\<exists>new. sent @ [transfer] = sent @ new \<and> stream_sent (stream_of do_rc4 r crc blob) new (- 1)"
    using stream_sent_intros(2) [OF len, of "[]"] stream_sent_intros(2) [OF len] by (auto simp: stream)
  show ?case
  proof (cases "length (take RK_MAX blob) = RK_MAX")
    case True
    then have "length (drop RK_MAX blob) < length blob" by simp
    from less.IH [OF this, of r' "crc_sum_16 crc chunk" "sent @ [transfer]"] show ?thesis
      using stop stream_sent_intros(1) stream_sent_intros(4) [OF len] True by (auto simp: step stream)
  next
    case False
    then show ?thesis using stop stream_sent_intros(1) stream_sent_intros(3) [OF len] by (auto simp: step stream)
  qed
qed

text \<open>Whatever the USB library answers, the bytes sent are, in order, the file (encrypted when asked)
  and behind it the CRC-16 of exactly those bytes, high byte first, in transfers of at most
  4098 bytes. send_blob ends, and returns 0 only when all of it was sent.\<close>

lemma send_blob_stream:
  "case send_blob usb ferror open_result (Some data) do_rc4 of (result, sent) \<Rightarrow>
     let payload = (if do_rc4 then rc4_encode data rockchip_key else data) in
     stream_sent (payload @ crc_trailer (ucast (crc_ccitt 0xffff payload))) sent result"
proof -
  have crc: "crc_sum_16 0xffff bs = ucast (crc_ccitt 0xffff bs)" for bs
    using crc_sum_16_spec [of "0xffff" bs] by simp
  show ?thesis
    using send_chunks_stream [of usb ferror do_rc4 "setup_rc4_encoder rockchip_key" "0xffff" data "[]"]
    by (auto simp: send_blob_def stream_of_def encoded_def rc4_encode_def crc stream_sent_def Let_def split_def)
qed

end
