(* ===== verification/Rock_Main.thy ===== *)
theory Rock_Main
  imports Rock
begin

text \<open>
  The command line of the boot tool (\<open>main\<close> of src/tools/rock.c). libusb and the files are
  arguments: what the library answers may depend on everything sent before. The log lists every
  control transfer with the index of its device and its command. Messages are left out, and with
  them the version, which is only printed.
\<close>

subsection \<open>The code\<close>

abbreviation (input) RK_SEND_DDR :: int where "RK_SEND_DDR \<equiv> 0x471"
abbreviation (input) RK_SEND_IMG :: int where "RK_SEND_IMG \<equiv> 0x472"

text \<open>\<open>descriptor_result\<close> is what \<open>libusb_get_device_descriptor\<close> returns, with two fields of the
  descriptor.\<close>

record usb_device =
  descriptor_result :: int
  idVendor :: u16
  idProduct :: u16

type_synonym transfers = "(nat \<times> int \<times> bytes) list"

text \<open>\<open>device_list\<close> is an error number or the list.\<close>

record host =
  init_result :: int
  device_list :: "int + usb_device list"
  file_bytes :: "string \<Rightarrow> bytes option"
  read_fails :: "string \<Rightarrow> nat \<Rightarrow> bool"
  open_answer :: "transfers \<Rightarrow> nat \<Rightarrow> int"
  transfer_answer :: "transfers \<Rightarrow> nat \<Rightarrow> int \<Rightarrow> bytes list \<Rightarrow> bytes \<Rightarrow> int"

record options =
  version :: int
  ddr_file :: string
  main_file :: string

definition default_options :: options where
  "default_options = \<lparr>version = 1, ddr_file = ''ddr.bin'', main_file = ''os.bin''\<rparr>"

fun parse_args :: "string list \<Rightarrow> options \<Rightarrow> options option" where
  "parse_args [] opts = Some opts"
| "parse_args (arg # args) opts =
     (if arg = ''--v2'' then parse_args args (opts\<lparr>version := 2\<rparr>)
      else if arg = ''--v1'' then parse_args args (opts\<lparr>version := 1\<rparr>)
      else if arg = ''--ddr'' then
        (case args of [] \<Rightarrow> None | file # args \<Rightarrow> parse_args args (opts\<lparr>ddr_file := file\<rparr>))
      else if arg = ''--os'' then
        (case args of [] \<Rightarrow> None | file # args \<Rightarrow> parse_args args (opts\<lparr>main_file := file\<rparr>))
      else None)"

text \<open>\<open>found\<close>, \<open>found_pid\<close> and \<open>rockchip_count\<close> of the loop over the devices from index \<open>i\<close> on.\<close>

fun discover :: "usb_device list \<Rightarrow> nat \<Rightarrow> nat \<times> u16 \<times> nat \<Rightarrow> (nat \<times> u16 \<times> nat) option" where
  "discover [] i s = Some s"
| "discover (d # ds) i (found, found_pid, rockchip_count) =
     (if descriptor_result d \<noteq> 0 then None
      else if idVendor d \<noteq> 0x2207 then discover ds (i + 1) (found, found_pid, rockchip_count)
      else discover ds (i + 1) (i, idProduct d, rockchip_count + 1))"

definition soc_rc4 :: "u16 \<Rightarrow> bool option" where
  "soc_rc4 pid =
     (if pid = 0x330c then Some True else if pid = 0x350a then Some False else if pid = 0x350b then Some False else None)"

definition send_file :: "host \<Rightarrow> nat \<Rightarrow> int \<Rightarrow> string \<Rightarrow> bool \<Rightarrow> transfers \<Rightarrow> int \<times> transfers" where
  "send_file h i cmd name do_rc4 done_before =
     (case send_blob (transfer_answer h done_before i cmd) (read_fails h name) (open_answer h done_before i)
        (file_bytes h name) do_rc4 of
        (rc, sent) \<Rightarrow> (rc, done_before @ map (\<lambda>t. (i, cmd, t)) sent))"

definition rock_main :: "host \<Rightarrow> string list \<Rightarrow> int \<times> transfers" where
  "rock_main h args =
     (case parse_args args default_options of
        None \<Rightarrow> (- 1, [])
      | Some opts \<Rightarrow>
          if init_result h < 0 then (- 1, [])
          else case device_list h of
            Inl _ \<Rightarrow> (- 1, [])
          | Inr devices \<Rightarrow>
              (case discover devices 0 (0, 0, 0) of
                 None \<Rightarrow> (- 1, [])
               | Some (found, found_pid, rockchip_count) \<Rightarrow>
                   if rockchip_count > 1 then (- 1, [])
                   else if rockchip_count = 0 then (- 1, [])
                   else case soc_rc4 found_pid of
                     None \<Rightarrow> (- 1, [])
                   | Some do_rc4 \<Rightarrow>
                       (case send_file h found RK_SEND_DDR (ddr_file opts) do_rc4 [] of (rc, log) \<Rightarrow>
                          if rc = 0 then send_file h found RK_SEND_IMG (main_file opts) do_rc4 log else (rc, log))))"

subsection \<open>Which device gets what\<close>

text \<open>The only Rockchip device of the bus, with every descriptor read.\<close>

definition only_rockchip :: "usb_device list \<Rightarrow> nat \<Rightarrow> bool" where
  "only_rockchip devices i \<longleftrightarrow> list_all (\<lambda>d. descriptor_result d = 0) devices
     \<and> i < length devices \<and> filter (\<lambda>j. idVendor (devices ! j) = 0x2207) [0..<length devices] = [i]"

definition rockchips :: "usb_device list \<Rightarrow> nat \<Rightarrow> nat list" where
  "rockchips ds i = map (\<lambda>j. i + j) (filter (\<lambda>j. idVendor (ds ! j) = 0x2207) [0..<length ds])"

lemma rockchips_simps [simp]:
  "rockchips [] i = []"
  "rockchips (d # ds) i = (if idVendor d = 0x2207 then [i] else []) @ rockchips ds (i + 1)"
  by (simp_all add: rockchips_def upt_conv_Cons map_Suc_upt [symmetric] filter_map o_def del: upt_Suc)

text \<open>The loop ends with the last Rockchip device and their number.\<close>

lemma discover_spec:
  "discover ds i (found, pid, n) =
     (if list_all (\<lambda>d. descriptor_result d = 0) ds
      then Some (case rockchips ds i of [] \<Rightarrow> (found, pid, n)
        | js \<Rightarrow> (last js, idProduct (ds ! (last js - i)), n + length js))
      else None)"
proof (induction ds arbitrary: i found pid n)
  case (Cons d ds)
  note IH = Cons.IH
  have tail: "i < j" if "j \<in> set (rockchips ds (Suc i))" for j
    using that by (auto simp: rockchips_def)
  show ?case
  proof (cases "rockchips ds (Suc i)")
    case Nil
    then show ?thesis by (simp add: IH)
  next
    case (Cons j js)
    then have "last (j # js) \<in> set (rockchips ds (Suc i))" by (metis last_in_set list.discI)
    then have "i < last (j # js)" by (rule tail)
    then have "(d # ds) ! (last (j # js) - i) = ds ! (last (j # js) - Suc i)"
      by (simp add: nth_Cons' del: last.simps)
    then show ?thesis
      using Cons by (auto simp: IH last_ConsR [of "j # js" i] simp del: last.simps)
  qed
qed simp

text \<open>So a count of one means the only one, and the other way round.\<close>

lemma discover_one:
  "discover ds 0 (0, 0, 0) = Some (found, pid, 1) \<longleftrightarrow> only_rockchip ds found \<and> pid = idProduct (ds ! found)"
proof -
  have r: "rockchips ds 0 = filter (\<lambda>j. idVendor (ds ! j) = 0x2207) [0..<length ds]"
    by (simp add: rockchips_def)
  have "found < length ds" if "rockchips ds 0 = [found]"
  proof -
    have "found \<in> set (rockchips ds 0)" using that by simp
    then show ?thesis by (auto simp: rockchips_def)
  qed
  then show ?thesis
    unfolding only_rockchip_def r [symmetric] by (auto simp: discover_spec length_Suc_conv split: list.splits)
qed

text \<open>What a file is sent as, and a file that was sent as far as the result says.\<close>

definition payload_stream :: "bool \<Rightarrow> bytes \<Rightarrow> bytes" where
  "payload_stream do_rc4 data =
     (let payload = (if do_rc4 then rc4_encode data rockchip_key else data) in
      payload @ crc_trailer (ucast (crc_ccitt 0xffff payload)))"

definition file_sent :: "host \<Rightarrow> string \<Rightarrow> bool \<Rightarrow> bytes list \<Rightarrow> int \<Rightarrow> bool" where
  "file_sent h name do_rc4 sent rc \<longleftrightarrow>
     (case file_bytes h name of None \<Rightarrow> sent = [] \<and> rc = - 1 | Some data \<Rightarrow> stream_sent (payload_stream do_rc4 data) sent rc)"

lemma send_file_sent:
  "\<exists>sent. send_file h i cmd name do_rc4 before = (rc, before @ map (\<lambda>t. (i, cmd, t)) sent) \<and> file_sent h name do_rc4 sent rc"
  if "fst (send_file h i cmd name do_rc4 before) = rc"
proof (cases "file_bytes h name")
  case None
  then show ?thesis using that by (auto simp: send_file_def send_blob_def file_sent_def)
next
  case (Some data)
  then show ?thesis
    using that send_blob_stream [of do_rc4 data "transfer_answer h before i cmd" "read_fails h name" "open_answer h before i"]
    by (auto simp: send_file_def file_sent_def payload_stream_def Let_def split: prod.splits)
qed

text \<open>The conditions for sending anything: the arguments, the library, one Rockchip device, and its SoC.\<close>

definition ready_to_send :: "host \<Rightarrow> string list \<Rightarrow> options \<Rightarrow> nat \<Rightarrow> bool \<Rightarrow> bool" where
  "ready_to_send h args opts i do_rc4 \<longleftrightarrow> parse_args args default_options = Some opts \<and> init_result h \<ge> 0
     \<and> (\<exists>ds. device_list h = Inr ds \<and> only_rockchip ds i \<and> soc_rc4 (idProduct (ds ! i)) = Some do_rc4)"

lemma rock_main_ready:
  assumes "ready_to_send h args opts i do_rc4"
  shows "rock_main h args = (case send_file h i RK_SEND_DDR (ddr_file opts) do_rc4 [] of (rc, log) \<Rightarrow>
       if rc = 0 then send_file h i RK_SEND_IMG (main_file opts) do_rc4 log else (rc, log))"
proof -
  obtain ds where "parse_args args default_options = Some opts" "init_result h \<ge> 0" "device_list h = Inr ds"
    "only_rockchip ds i" "soc_rc4 (idProduct (ds ! i)) = Some do_rc4"
    using assms by (auto simp: ready_to_send_def)
  moreover from this(4) have "discover ds 0 (0, 0, 0) = Some (i, idProduct (ds ! i), 1)"
    by (simp only: discover_one)
  ultimately show ?thesis by (simp add: rock_main_def)
qed

lemma rock_main_not_ready:
  assumes "\<nexists>opts i do_rc4. ready_to_send h args opts i do_rc4"
  shows "rock_main h args = (- 1, [])"
proof (rule ccontr)
  assume "rock_main h args \<noteq> (- 1, [])"
  then obtain opts ds found pid do_rc4 where
    "parse_args args default_options = Some opts" "init_result h \<ge> 0" "device_list h = Inr ds"
    "discover ds 0 (0, 0, 0) = Some (found, pid, 1)" "soc_rc4 pid = Some do_rc4"
    by (auto simp: rock_main_def split: option.splits sum.splits if_splits)
  then have "ready_to_send h args opts found do_rc4"
    unfolding discover_one by (simp add: ready_to_send_def)
  with assms show False by blast
qed

text \<open>C21. The boot tool ends, whatever the arguments, the bus and the USB library. It sends something
  only when the arguments are good and the bus has exactly one Rockchip device, of a known SoC,
  with every descriptor read; otherwise it fails without a single transfer. Then only this
  device is sent to: first the DRAM image, as the stream of its bytes (encrypted exactly for the
  RK3399) and their CRC-16, with the command 0x471, and only after all of it the main image in the
  same way with 0x472. The result is 0 only if both went out completely, and otherwise -1.\<close>

theorem rock_main_sends:
  "case rock_main h args of (rc, log) \<Rightarrow>
     if \<exists>opts i do_rc4. ready_to_send h args opts i do_rc4
     then \<exists>opts i do_rc4 ddr_sent ddr_rc main_sent. ready_to_send h args opts i do_rc4
        \<and> file_sent h (ddr_file opts) do_rc4 ddr_sent ddr_rc
        \<and> log = map (\<lambda>t. (i, 0x471, t)) ddr_sent @ map (\<lambda>t. (i, 0x472, t)) main_sent
        \<and> (if ddr_rc = 0 then file_sent h (main_file opts) do_rc4 main_sent rc else main_sent = [] \<and> rc = - 1)
     else rc = - 1 \<and> log = []"
proof (cases "\<exists>opts i do_rc4. ready_to_send h args opts i do_rc4")
  case ex: True
  then obtain opts i do_rc4 where ready: "ready_to_send h args opts i do_rc4" by blast
  note run = rock_main_ready [OF this]
  obtain sent rc where ddr: "send_file h i RK_SEND_DDR (ddr_file opts) do_rc4 [] = (rc, map (\<lambda>t. (i, RK_SEND_DDR, t)) sent)"
    "file_sent h (ddr_file opts) do_rc4 sent rc"
    using send_file_sent [OF refl, of h i RK_SEND_DDR "ddr_file opts" do_rc4 "[]"] by auto
  show ?thesis
  proof (cases "rc = 0")
    case True
    obtain sent' rc' where "send_file h i RK_SEND_IMG (main_file opts) do_rc4 (map (\<lambda>t. (i, RK_SEND_DDR, t)) sent)
        = (rc', map (\<lambda>t. (i, RK_SEND_DDR, t)) sent @ map (\<lambda>t. (i, RK_SEND_IMG, t)) sent')"
      "file_sent h (main_file opts) do_rc4 sent' rc'"
      using send_file_sent [OF refl] by blast
    then have all: "rock_main h args = (rc', map (\<lambda>t. (i, RK_SEND_DDR, t)) sent @ map (\<lambda>t. (i, RK_SEND_IMG, t)) sent')"
      "file_sent h (main_file opts) do_rc4 sent' rc'"
      unfolding run ddr(1) by (simp_all add: True)
    show ?thesis
      unfolding all split_conv if_P [OF ex]
      by (rule exI [of _ opts], rule exI [of _ i], rule exI [of _ do_rc4], rule exI [of _ sent], rule exI [of _ rc], rule exI [of _ sent'])
        (simp add: all(2) True ddr(2) [unfolded True] ready)
  next
    case False
    then have "rc = - 1" using ddr(2) by (auto simp: file_sent_def stream_sent_def split: option.splits)
    with False have all: "rock_main h args = (- 1, map (\<lambda>t. (i, RK_SEND_DDR, t)) sent)" unfolding run ddr(1) by simp
    show ?thesis
      unfolding all split_conv if_P [OF ex]
      by (rule exI [of _ opts], rule exI [of _ i], rule exI [of _ do_rc4], rule exI [of _ sent], rule exI [of _ rc], rule exI [of _ "[]"])
        (simp add: False ddr(2) ready \<open>rc = - 1\<close> [symmetric])
  qed
qed (use rock_main_not_ready [of h args] in simp)

end
