(* ===== verification/Makeboot.thy ===== *)
theory Makeboot
  imports Bootrom
begin

text \<open>
  Bootable images for the mask ROM (src/tools/makeboot.c): headers, the layout of the image
  file, and reading the header of an image back. A file is the list of its bytes; the
  contents of the two input files are arguments. Printing is left out.
\<close>

subsection \<open>The code\<close>

abbreviation (input) RK33_V1_MAGIC :: u32 where "RK33_V1_MAGIC \<equiv> 0x0ff0aa55"
abbreviation (input) RKNS_V2_MAGIC :: u32 where "RKNS_V2_MAGIC \<equiv> 0x534e4b52"
abbreviation (input) RK_NO_CHECKSUM :: u32 where "RK_NO_CHECKSUM \<equiv> 0x4000"

text \<open>The headers, without their reserved bytes, which are zero.\<close>

record rk_header_v1 =
  signature_v1 :: u32
  disable_rc4 :: u32
  init_offset :: u16
  init_size :: u16
  init_boot_size :: u16

record rk_image_entry_v2 =
  image_offset :: u16
  image_size :: u16

record rk_header_v2 =
  signature_v2 :: u32
  hash_field_offset :: u16
  n_images :: u16
  boot_flag :: u32
  images :: "rk_image_entry_v2 list"

text \<open>The packed structures as the bytes a little-endian machine stores.\<close>

definition header_v1_bytes :: "rk_header_v1 \<Rightarrow> bytes" where
  "header_v1_bytes h = le_bytes 4 (ucast (signature_v1 h)) @ replicate 4 0 @ le_bytes 4 (ucast (disable_rc4 h))
     @ le_bytes 2 (ucast (init_offset h)) @ replicate 492 0 @ le_bytes 2 (ucast (init_size h))
     @ le_bytes 2 (ucast (init_boot_size h)) @ replicate 2 0"

definition image_entry_bytes :: "rk_image_entry_v2 \<Rightarrow> bytes" where
  "image_entry_bytes e = le_bytes 2 (ucast (image_offset e)) @ le_bytes 2 (ucast (image_size e)) @ replicate 84 0"

definition header_v2_bytes :: "rk_header_v2 \<Rightarrow> bytes" where
  "header_v2_bytes h = le_bytes 4 (ucast (signature_v2 h)) @ replicate 4 0 @ le_bytes 2 (ucast (hash_field_offset h))
     @ le_bytes 2 (ucast (n_images h)) @ le_bytes 4 (ucast (boot_flag h)) @ replicate 0x68 0
     @ concat (map image_entry_bytes (images h))"

text \<open>\<open>fseek\<close> and \<open>fwrite\<close>: a gap is filled with zeros when something is written behind it.\<close>

definition file_write :: "nat \<Rightarrow> bytes \<Rightarrow> bytes \<Rightarrow> bytes" where
  "file_write pos bs f =
     (if bs = [] then f
      else take pos (f @ replicate (pos - length f) 0) @ bs @ drop (pos + length bs) f)"

definition file_size :: "bytes \<Rightarrow> u32" where
  "file_size f = of_nat (length f)"

definition init_sectors_v1 :: "bytes \<Rightarrow> u32" where
  "init_sectors_v1 ddr = (((file_size ddr div 512) div 4) + 1) * 4"

definition make_v1 :: "bytes \<Rightarrow> bytes \<Rightarrow> bytes" where
  "make_v1 ddr main =
     (let sectors = init_sectors_v1 ddr;
          os_size = file_size main div 512 + 2;
          hdr = \<lparr>signature_v1 = RK33_V1_MAGIC, disable_rc4 = 1, init_offset = 4,
            init_size = ucast sectors, init_boot_size = ucast (sectors + os_size)\<rparr>;
          f = file_write 0x8000 (rc4_encode (header_v1_bytes hdr) rockchip_key) [];
          f = file_write 0x8800 ddr f
      in file_write (unat (sectors * 512 + 0x8800)) main f)"

definition make_v2 :: "bytes \<Rightarrow> bytes \<Rightarrow> bytes" where
  "make_v2 ddr main =
     (let sectors = file_size ddr div 512 + 1;
          os_size = file_size main div 512 + 1;
          os_size = (os_size div 8 + 1) * 8;
          hdr = \<lparr>signature_v2 = RKNS_V2_MAGIC, hash_field_offset = 0x180, n_images = 2, boot_flag = RK_NO_CHECKSUM,
            images = [\<lparr>image_offset = 4, image_size = ucast sectors\<rparr>,
              \<lparr>image_offset = ucast (sectors + 4), image_size = ucast os_size\<rparr>,
              \<lparr>image_offset = 0, image_size = 0\<rparr>, \<lparr>image_offset = 0, image_size = 0\<rparr>]\<rparr>;
          f = file_write 0x8000 (header_v2_bytes hdr) [];
          f = file_write 0x8800 ddr f;
          f = file_write (unat (sectors * 512 + 0x8800)) main f
      in file_write (unat (sectors * 512 + os_size * 512 + 0x8800 - 4)) [0, 0, 0, 0] f)"

text \<open>Reading fields of a buffer, and what \<open>decode\<close> finds in an image.\<close>

definition field16 :: "bytes \<Rightarrow> nat \<Rightarrow> u16" where
  "field16 buf i = ucast (le_value (take 2 (drop i buf)))"

definition field32 :: "bytes \<Rightarrow> nat \<Rightarrow> u32" where
  "field32 buf i = ucast (le_value (take 4 (drop i buf)))"

definition read_header_v1 :: "bytes \<Rightarrow> rk_header_v1" where
  "read_header_v1 buf = \<lparr>signature_v1 = field32 buf 0, disable_rc4 = field32 buf 8, init_offset = field16 buf 12,
     init_size = field16 buf 506, init_boot_size = field16 buf 508\<rparr>"

definition read_header_v2 :: "bytes \<Rightarrow> rk_header_v2" where
  "read_header_v2 buf = \<lparr>signature_v2 = field32 buf 0, hash_field_offset = field16 buf 8, n_images = field16 buf 10,
     boot_flag = field32 buf 12,
     images = map (\<lambda>i. \<lparr>image_offset = field16 buf (120 + 88 * i), image_size = field16 buf (122 + 88 * i)\<rparr>) [0..<4]\<rparr>"

datatype decoded = CannotOpen | ImageV1 rk_header_v1 | ImageV2 rk_header_v2 | NotRecognized

text \<open>\<open>fread\<close> into the buffer of 2048 bytes, which holds anything before.\<close>

definition read_into :: "nat \<Rightarrow> nat \<Rightarrow> bytes \<Rightarrow> bytes \<Rightarrow> bytes" where
  "read_into n pos f buf = (let bs = take n (drop pos f) in bs @ drop (length bs) buf)"

definition decode :: "bytes \<Rightarrow> bytes option \<Rightarrow> decoded" where
  "decode header_buf img =
     (case img of
        None \<Rightarrow> CannotOpen
      | Some f \<Rightarrow>
          let buf = read_into 512 0x8000 f header_buf;
              buf = rc4_encode (take 512 buf) rockchip_key @ drop 512 buf in
          if signature_v1 (read_header_v1 buf) = RK33_V1_MAGIC then ImageV1 (read_header_v1 buf)
          else let buf = read_into 2048 0x8000 f buf in
            if signature_v2 (read_header_v2 buf) = RKNS_V2_MAGIC then ImageV2 (read_header_v2 buf)
            else NotRecognized)"

text \<open>
  The command line. \<open>argv[argc]\<close> is the null pointer, \<open>None\<close> here. \<open>Undefined\<close> is what C does
  not define: opening the null pointer, an output that cannot be opened, which the code does not
  check, and an input that is the output at the same time, read back while it is being written.
  \<open>decode\<close> only prints; its printing of a version 2 header with more than four images, which reads
  outside the buffer, is undefined too.
\<close>

type_synonym files = "string \<Rightarrow> bytes option"

datatype outcome = Exited int files | Undefined

record make_options =
  make_version :: int
  out_name :: "string option"
  ddr_name :: "string option"
  main_name :: "string option"

definition default_make :: make_options where
  "default_make = \<lparr>make_version = 1, out_name = Some ''output.img'', ddr_name = Some ''ddr.bin'', main_name = Some ''os.bin''\<rparr>"

definition next_arg :: "string list \<Rightarrow> string option" where
  "next_arg args = (case args of [] \<Rightarrow> None | arg # _ \<Rightarrow> Some arg)"

text \<open>\<open>Inl\<close> is the file to decode; the first \<open>--decode\<close> ends the loop.\<close>

fun make_args :: "string list \<Rightarrow> make_options \<Rightarrow> string option + make_options" where
  "make_args [] opts = Inr opts"
| "make_args (arg # args) opts =
     (if arg = ''--v2'' then make_args args (opts\<lparr>make_version := 2\<rparr>)
      else if arg = ''--v1'' then make_args args (opts\<lparr>make_version := 1\<rparr>)
      else if arg = ''--ddr'' then make_args (tl args) (opts\<lparr>ddr_name := next_arg args\<rparr>)
      else if arg = ''--os'' then make_args (tl args) (opts\<lparr>main_name := next_arg args\<rparr>)
      else if arg = ''--decode'' then Inl (next_arg args)
      else if arg = ''-o'' then make_args (tl args) (opts\<lparr>out_name := next_arg args\<rparr>)
      else make_args args opts)"

definition write_image :: "(string \<Rightarrow> bool) \<Rightarrow> make_options \<Rightarrow> files \<Rightarrow> outcome" where
  "write_image writable opts fs =
     (case (out_name opts, ddr_name opts, main_name opts) of
        (Some out, Some ddr, Some main) \<Rightarrow>
          if \<not> writable out \<or> out = ddr \<or> out = main then Undefined
          else (case (fs ddr, fs main) of
             (Some ddr, Some main) \<Rightarrow>
               Exited 0 (fs(out \<mapsto> if make_version opts = 1 then make_v1 ddr main else make_v2 ddr main))
           | _ \<Rightarrow> Exited 1 (fs(out \<mapsto> [])))
      | _ \<Rightarrow> Undefined)"

definition decode_file :: "bytes \<Rightarrow> string option \<Rightarrow> files \<Rightarrow> outcome" where
  "decode_file header_buf name fs =
     (case name of
        None \<Rightarrow> Undefined
      | Some name \<Rightarrow> (case decode header_buf (fs name) of
          CannotOpen \<Rightarrow> Exited (- 1) fs
        | ImageV2 h \<Rightarrow> if n_images h \<le> 4 then Exited 0 fs else Undefined
        | _ \<Rightarrow> Exited 0 fs))"

definition makeboot_main :: "(string \<Rightarrow> bool) \<Rightarrow> bytes \<Rightarrow> string list \<Rightarrow> files \<Rightarrow> outcome" where
  "makeboot_main writable header_buf args fs =
     (case make_args args default_make of
        Inl name \<Rightarrow> decode_file header_buf name fs
      | Inr opts \<Rightarrow> write_image writable opts fs)"

subsection \<open>Files\<close>

definition file_read :: "nat \<Rightarrow> nat \<Rightarrow> bytes \<Rightarrow> bytes" where
  "file_read pos n f = take n (drop pos f)"

lemma length_file_write:
  "bs \<noteq> [] \<Longrightarrow> length (file_write pos bs f) = max (length f) (pos + length bs)"
  by (simp add: file_write_def)

lemma file_read_write_same: "file_read pos (length bs) (file_write pos bs f) = bs"
  by (simp add: file_write_def file_read_def)

lemma file_read_write_before:
  "pos + n \<le> pos' \<Longrightarrow> pos + n \<le> length f \<Longrightarrow> file_read pos n (file_write pos' bs f) = file_read pos n f"
  by (rule nth_equalityI) (auto simp: file_write_def file_read_def nth_append)

lemma file_read_write_after:
  assumes "pos' + length bs \<le> pos" and "pos' \<le> length f"
  shows "file_read pos n (file_write pos' bs f) = file_read pos n f"
proof -
  have "take pos' (f @ replicate (pos' - length f) 0) = take pos' f" using assms(2) by simp
  with assms show ?thesis by (simp add: file_write_def file_read_def min_absorb2)
qed

text \<open>Three parts of a file that do not overlap can be read back.\<close>

lemma file_parts:
  fixes zs :: bytes
  assumes "a + length xs \<le> b" and "b + length ys \<le> c" and "xs \<noteq> []"
  defines "f \<equiv> file_write c zs (file_write b ys (file_write a xs []))"
  shows "file_read a (length xs) f = xs" and "file_read b (length ys) f = ys" and "file_read c (length zs) f = zs"
    and "length f = (if zs \<noteq> [] then c + length zs else if ys \<noteq> [] then b + length ys else a + length xs)"
proof -
  have la: "length (file_write a xs []) = a + length xs" using assms(3) by (simp add: length_file_write)
  have lb: "a + length xs \<le> length (file_write b ys (file_write a xs []))"
    by (cases "ys = []") (use la in \<open>simp_all add: length_file_write file_write_def\<close>)
  have "file_read a (length xs) f = file_read a (length xs) (file_write b ys (file_write a xs []))"
    unfolding f_def by (rule file_read_write_before) (use assms(1,2) lb in simp_all)
  also have "\<dots> = file_read a (length xs) (file_write a xs [])"
    by (rule file_read_write_before) (use assms(1) la in simp_all)
  finally show "file_read a (length xs) f = xs" by (simp only: file_read_write_same)
  show "file_read b (length ys) f = ys"
  proof (cases "ys = []")
    case False
    then have "file_read b (length ys) f = file_read b (length ys) (file_write b ys (file_write a xs []))"
      unfolding f_def by (intro file_read_write_before) (use assms(2) in \<open>simp_all add: length_file_write\<close>)
    then show ?thesis by (simp only: file_read_write_same)
  qed (simp add: file_read_def)
  show "file_read c (length zs) f = zs" unfolding f_def by (rule file_read_write_same)
  show "length f = (if zs \<noteq> [] then c + length zs else if ys \<noteq> [] then b + length ys else a + length xs)"
    using assms(1,2) la by (auto simp: f_def length_file_write file_write_def [of _ "[]"] max_def)
qed

subsection \<open>Headers\<close>

lemma le_value_4: "ucast (le_value (le_bytes 4 (ucast (v :: u32)))) = v"
  unfolding le_value_bytes by (rule bit_word_eqI) (auto simp: bit_simps)

lemma le_value_2: "ucast (le_value (le_bytes 2 (ucast (v :: u16)))) = v"
  unfolding le_value_bytes by (rule bit_word_eqI) (auto simp: bit_simps)

lemma read_header_v1_bytes: "read_header_v1 (header_v1_bytes h @ rest) = h"
  by (simp add: read_header_v1_def header_v1_bytes_def field32_def field16_def le_value_4 le_value_2)

lemma read_header_v2_bytes:
  assumes "length (images h) = 4"
  shows "read_header_v2 (header_v2_bytes h @ rest) = h"
proof -
  obtain a b c d where i: "images h = [a, b, c, d]"
    using assms by (auto simp: numeral_eq_Suc length_Suc_conv)
  show ?thesis
    by (rule rk_header_v2.equality)
      (simp_all add: read_header_v2_def header_v2_bytes_def i image_entry_bytes_def upt_rec field32_def field16_def
        le_value_4 le_value_2)
qed

lemma length_header_v1: "length (header_v1_bytes h) = 512"
  by (simp add: header_v1_bytes_def)

lemma length_header_v2: "length (images h) = 4 \<Longrightarrow> length (header_v2_bytes h) = 472"
  by (simp add: header_v2_bytes_def length_concat image_entry_bytes_def comp_def sum_list_triv)

subsection \<open>The images\<close>

lemma file_size_value: "length f < 2 ^ 32 \<Longrightarrow> unat (file_size f) = length f"
  by (simp add: file_size_def unat_of_nat take_bit_nat_eq_self)

text \<open>The sizes in sectors of 512 bytes, without wrap-around.\<close>

definition sectors_v1 :: "bytes \<Rightarrow> nat" where
  "sectors_v1 ddr = (length ddr div 2048 + 1) * 4"

lemma eq_of_nat: "unat x = n \<Longrightarrow> x = of_nat n" for x :: "'a::len word"
  by auto

lemma init_sectors_value:
  assumes "length ddr < 0x1fe0000"
  shows "init_sectors_v1 ddr = of_nat (sectors_v1 ddr)"
proof -
  have "unat (file_size ddr div 512 div 4) = length ddr div 2048"
    using assms by (simp add: unat_div file_size_value div_mult2_eq [symmetric])
  then have "file_size ddr div 512 div 4 = of_nat (length ddr div 2048)" by (rule eq_of_nat)
  then show ?thesis by (simp add: init_sectors_v1_def sectors_v1_def)
qed

lemma sectors_of_file: "length f < 0x1fe0000 \<Longrightarrow> file_size f div 512 = of_nat (length f div 512)"
  by (rule eq_of_nat) (simp add: unat_div file_size_value)

lemma unat_of_nat_u32: "n < 2 ^ 32 \<Longrightarrow> unat (of_nat n :: u32) = n"
  by (simp add: unat_of_nat take_bit_nat_eq_self)

lemma ucast_of_nat: "(ucast (of_nat n :: u32) :: u16) = of_nat n"
  by (rule bit_word_eqI) (auto simp: bit_simps)

lemma sector_address: "512 * s + 0x8800 < 2 ^ 32 \<Longrightarrow> unat (of_nat s * 512 + 0x8800 :: u32) = 0x8800 + 512 * s"
proof -
  assume "512 * s + 0x8800 < 2 ^ 32"
  then have "unat (of_nat (512 * s + 0x8800) :: u32) = 512 * s + 0x8800" by (rule unat_of_nat_u32)
  then show ?thesis by (simp add: mult.commute add.commute)
qed

definition header_v1 :: "bytes \<Rightarrow> bytes \<Rightarrow> rk_header_v1" where
  "header_v1 ddr main = \<lparr>signature_v1 = RK33_V1_MAGIC, disable_rc4 = 1, init_offset = 4,
     init_size = of_nat (sectors_v1 ddr), init_boot_size = of_nat (sectors_v1 ddr + length main div 512 + 2)\<rparr>"

text \<open>C24. For input files of together less than 0x1fe0000 bytes, an image written by make_v1 is read
  by decode as the header that was written, none of whose sizes is cut to 16 bits; the DDR
  blob and the program are found at their sectors unchanged, the blob within the whole
  number of 2 KiB units that the header announces.\<close>

theorem make_v1_roundtrip:
  assumes "length ddr + length main < 0x1fe0000"
  shows "decode buf (Some (make_v1 ddr main)) = ImageV1 (header_v1 ddr main)
    \<and> file_read 0x8800 (length ddr) (make_v1 ddr main) = ddr
    \<and> file_read (0x8800 + 512 * sectors_v1 ddr) (length main) (make_v1 ddr main) = main
    \<and> length ddr < 512 * sectors_v1 ddr \<and> unat (init_size (header_v1 ddr main)) = sectors_v1 ddr"
proof -
  have small: "length ddr < 0x1fe0000" "length main < 0x1fe0000" using assms by simp_all
  have "length ddr mod 2048 < 2048" by simp
  then have "length ddr < 512 * sectors_v1 ddr \<and> 512 * sectors_v1 ddr \<le> length ddr + 2048"
    using div_mult_mod_eq [of "length ddr" 2048] unfolding sectors_v1_def by auto
  then have s: "length ddr < 512 * sectors_v1 ddr" "512 * sectors_v1 ddr \<le> length ddr + 2048" by simp_all
  then have s16: "sectors_v1 ddr < 65536" using small by simp
  define h where "h = header_v1 ddr main"
  have hdr: "\<lparr>signature_v1 = RK33_V1_MAGIC, disable_rc4 = 1, init_offset = 4,
      init_size = ucast (of_nat (sectors_v1 ddr) :: u32),
      init_boot_size = ucast (of_nat (sectors_v1 ddr) + (file_size main div 512 + 2))\<rparr> = h"
    using ucast_of_nat [of "sectors_v1 ddr"] ucast_of_nat [of "sectors_v1 ddr + (length main div 512 + 2)"]
    by (simp add: h_def header_v1_def sectors_of_file [OF small(2)] ac_simps)
  have f: "make_v1 ddr main = file_write (0x8800 + 512 * sectors_v1 ddr) main (file_write 0x8800 ddr
      (file_write 0x8000 (rc4_encode (header_v1_bytes h) rockchip_key) []))"
    unfolding make_v1_def Let_def init_sectors_value [OF small(1)] hdr
    using sector_address [of "sectors_v1 ddr"] s small(1) by simp
  have len: "length (rc4_encode (header_v1_bytes h) rockchip_key) = 512"
    by (simp add: rc4_encode_def length_rc4_chunk length_header_v1)
  then have ne: "rc4_encode (header_v1_bytes h) rockchip_key \<noteq> []" by auto
  note parts = file_parts [OF _ _ ne, of "0x8000" "0x8800" ddr "0x8800 + 512 * sectors_v1 ddr" main,
      folded f, unfolded len]
  have "file_read 0x8000 512 (make_v1 ddr main) = rc4_encode (header_v1_bytes h) rockchip_key"
    using parts(1) s(1) by simp
  then have "read_into 512 0x8000 (make_v1 ddr main) buf
      = rc4_encode (header_v1_bytes h) rockchip_key @ drop 512 buf"
    by (simp add: read_into_def file_read_def len)
  moreover have "rc4_encode (rc4_encode (header_v1_bytes h) rockchip_key) rockchip_key = header_v1_bytes h"
    using rc4_chunk_inverse [of "setup_rc4_encoder rockchip_key" "header_v1_bytes h"]
    unfolding rc4_encode_def by (metis prod.collapse snd_conv)
  ultimately have "decode buf (Some (make_v1 ddr main)) = ImageV1 h"
    by (simp add: decode_def Let_def len read_header_v1_bytes) (simp add: h_def header_v1_def)
  moreover have "unat (init_size (header_v1 ddr main)) = sectors_v1 ddr"
    using s16 by (simp add: header_v1_def unat_of_nat take_bit_nat_eq_self)
  ultimately show ?thesis using parts(2,3) s(1) by (simp add: h_def)
qed

lemma make_v1_roundtrip_witness:
  "decode [] (Some (make_v1 [1, 2, 3] [4, 5])) = ImageV1 (header_v1 [1, 2, 3] [4, 5])
   \<and> file_read 0x9000 2 (make_v1 [1, 2, 3] [4, 5]) = [4, 5]"
  using make_v1_roundtrip [of "[1, 2, 3]" "[4, 5]" "[]"] by (simp add: sectors_v1_def numeral_2_eq_2)

subsection \<open>Version 2\<close>

definition ddr_sectors :: "bytes \<Rightarrow> nat" where
  "ddr_sectors ddr = length ddr div 512 + 1"

definition os_sectors :: "bytes \<Rightarrow> nat" where
  "os_sectors main = ((length main div 512 + 1) div 8 + 1) * 8"

definition header_v2 :: "bytes \<Rightarrow> bytes \<Rightarrow> rk_header_v2" where
  "header_v2 ddr main = \<lparr>signature_v2 = RKNS_V2_MAGIC, hash_field_offset = 0x180, n_images = 2,
     boot_flag = RK_NO_CHECKSUM,
     images = [\<lparr>image_offset = 4, image_size = of_nat (ddr_sectors ddr)\<rparr>,
       \<lparr>image_offset = of_nat (ddr_sectors ddr + 4), image_size = of_nat (os_sectors main)\<rparr>,
       \<lparr>image_offset = 0, image_size = 0\<rparr>, \<lparr>image_offset = 0, image_size = 0\<rparr>]\<rparr>"

lemma sectors_bounds:
  "length ddr < 512 * ddr_sectors ddr" "512 * ddr_sectors ddr \<le> length ddr + 512"
  "length main + 512 \<le> 512 * os_sectors main" "512 * os_sectors main \<le> length main + 8192"
proof -
  have "length ddr mod 512 < 512" by simp
  then show "length ddr < 512 * ddr_sectors ddr" "512 * ddr_sectors ddr \<le> length ddr + 512"
    using div_mult_mod_eq [of "length ddr" 512] unfolding ddr_sectors_def by auto
  have "length main mod 512 < 512" "(length main div 512 + 1) mod 8 < 8" by simp_all
  then show "length main + 512 \<le> 512 * os_sectors main" "512 * os_sectors main \<le> length main + 8192"
    using div_mult_mod_eq [of "length main" 512] div_mult_mod_eq [of "length main div 512 + 1" 8]
    unfolding os_sectors_def by auto
qed

lemma make_v2_eq:
  assumes "length ddr + length main < 0x1fe0000"
  shows "make_v2 ddr main = file_write (0x8800 + 512 * (ddr_sectors ddr + os_sectors main) - 4) [0, 0, 0, 0]
    (file_write (0x8800 + 512 * ddr_sectors ddr) main (file_write 0x8800 ddr
      (file_write 0x8000 (header_v2_bytes (header_v2 ddr main)) [])))"
proof -
  have small: "length ddr < 0x1fe0000" "length main < 0x1fe0000" using assms by simp_all
  have d: "file_size ddr div 512 + 1 = of_nat (ddr_sectors ddr)"
    by (simp add: sectors_of_file [OF small(1)] ddr_sectors_def)
  have m1: "file_size main div 512 + 1 = of_nat (length main div 512 + 1)"
    by (simp add: sectors_of_file [OF small(2)])
  have "(of_nat (length main div 512 + 1) :: u32) div 8 = of_nat ((length main div 512 + 1) div 8)"
    by (rule eq_of_nat) (use small(2) in \<open>simp only: unat_div\<close>, subst unat_of_nat_u32, simp_all)
  then have m: "((file_size main div 512 + 1) div 8 + 1) * 8 = of_nat (os_sectors main)"
    unfolding m1 os_sectors_def by simp
  have a: "unat (of_nat (ddr_sectors ddr) * 512 + 0x8800 :: u32) = 0x8800 + 512 * ddr_sectors ddr"
    by (rule sector_address) (use sectors_bounds(2) [of ddr] small(1) in simp)
  define k where "k = 512 * (ddr_sectors ddr + os_sectors main) + 0x87fc"
  have "unat (of_nat k :: u32) = k"
    unfolding k_def by (rule unat_of_nat_u32) (use sectors_bounds(2) [of ddr] sectors_bounds(4) [of main] small in simp)
  moreover have "(of_nat (ddr_sectors ddr) * 512 + of_nat (os_sectors main) * 512 + 0x8800 - 4 :: u32) = of_nat k"
    by (simp add: k_def algebra_simps)
  moreover have "k = 0x8800 + 512 * (ddr_sectors ddr + os_sectors main) - 4" by (simp add: k_def)
  ultimately have b: "unat (of_nat (ddr_sectors ddr) * 512 + of_nat (os_sectors main) * 512 + 0x8800 - 4 :: u32)
      = 0x8800 + 512 * (ddr_sectors ddr + os_sectors main) - 4" by (simp only:)
  have h: "ucast (of_nat (ddr_sectors ddr) + 4 :: u32) = (of_nat (ddr_sectors ddr + 4) :: u16)"
    using ucast_of_nat [of "ddr_sectors ddr + 4"] by simp
  show ?thesis
    unfolding make_v2_def Let_def d m a b h header_v2_def ucast_of_nat ..
qed

text \<open>For input files of together less than 0x1fe0000 bytes, an image written by make_v2 holds the
  header with the sector numbers of both parts, none cut to 16 bits, the two parts at these
  sectors unchanged and not touched by the padding, and ends at a sector boundary.\<close>

lemma make_v2_layout:
  assumes "length ddr + length main < 0x1fe0000"
  defines "f \<equiv> make_v2 ddr main"
  shows "read_header_v2 (file_read 0x8000 472 f) = header_v2 ddr main
    \<and> file_read 0x8800 (length ddr) f = ddr
    \<and> file_read (0x8800 + 512 * ddr_sectors ddr) (length main) f = main
    \<and> length f = 0x8800 + 512 * (ddr_sectors ddr + os_sectors main)
    \<and> ddr_sectors ddr + 4 < 65536 \<and> os_sectors main < 65536"
proof -
  define hb where "hb = header_v2_bytes (header_v2 ddr main)"
  have len: "length hb = 472" unfolding hb_def by (rule length_header_v2) (simp add: header_v2_def)
  then have ne: "hb \<noteq> []" by auto
  define body where "body = file_write (0x8800 + 512 * ddr_sectors ddr) main (file_write 0x8800 ddr (file_write 0x8000 hb []))"
  define last4 where "last4 = 0x8800 + 512 * (ddr_sectors ddr + os_sectors main) - 4"
  note b = sectors_bounds [of ddr] sectors_bounds [of main]
  have f: "f = file_write last4 [0, 0, 0, 0] body"
    unfolding f_def make_v2_eq [OF assms(1)] body_def hb_def last4_def ..
  note parts = file_parts [OF _ _ ne, of "0x8000" "0x8800" ddr "0x8800 + 512 * ddr_sectors ddr" main,
      folded body_def, unfolded len]
  have body: "0x8000 + 472 \<le> length body" "0x8800 + length ddr \<le> length body \<or> ddr = []"
    "0x8800 + 512 * ddr_sectors ddr + length main \<le> length body \<or> main = []" "length body \<le> last4"
    using parts(4) b by (auto simp: last4_def split: if_splits)
  have keep: "file_read pos n f = file_read pos n body" if "pos + n \<le> last4" "pos + n \<le> length body" for pos n
    unfolding f by (rule file_read_write_before [OF that])
  have "file_read 0x8000 472 f = hb" using keep [of "0x8000" 472] parts(1) body b by simp
  then have "read_header_v2 (file_read 0x8000 472 f) = header_v2 ddr main"
    using read_header_v2_bytes [of "header_v2 ddr main" "[]"] by (simp add: hb_def header_v2_def)
  moreover have "file_read 0x8800 (length ddr) f = ddr"
    using keep [of "0x8800" "length ddr"] parts(2) body b by (cases "ddr = []") (auto simp: file_read_def)
  moreover have "file_read (0x8800 + 512 * ddr_sectors ddr) (length main) f = main"
    using keep [of "0x8800 + 512 * ddr_sectors ddr" "length main"] parts(3) body b
    by (cases "main = []") (auto simp: file_read_def)
  moreover have "length f = 0x8800 + 512 * (ddr_sectors ddr + os_sectors main)"
    using body(4) b by (simp add: f length_file_write last4_def)
  ultimately show ?thesis using b assms(1) by simp
qed

lemma make_v2_layout_witness:
  "file_read 0x8a00 2 (make_v2 [1, 2, 3] [4, 5]) = [4, 5] \<and> length (make_v2 [1, 2, 3] [4, 5]) = 0x9a00"
  using make_v2_layout [of "[1, 2, 3]" "[4, 5]"] by (simp add: ddr_sectors_def os_sectors_def numeral_2_eq_2)

subsection \<open>The command line\<close>

text \<open>The tool changes at most the output file: to the image when both inputs exist; otherwise the
  output has already been emptied. A decoded image is not changed.\<close>

lemma makeboot_changes_output:
  assumes "makeboot_main writable header_buf args fs = Exited rc fs'"
  shows "(case make_args args default_make of
      Inl _ \<Rightarrow> fs' = fs
    | Inr opts \<Rightarrow> \<exists>out ddr main. out_name opts = Some out \<and> ddr_name opts = Some ddr \<and> main_name opts = Some main \<and>
        (case (fs ddr, fs main) of
           (Some d, Some m) \<Rightarrow> rc = 0 \<and> fs' = fs(out \<mapsto> if make_version opts = 1 then make_v1 d m else make_v2 d m)
         | _ \<Rightarrow> rc = 1 \<and> fs' = fs(out \<mapsto> [])))"
proof (cases "make_args args default_make")
  case (Inl name)
  with assms show ?thesis
    by (auto simp: makeboot_main_def decode_file_def split: option.splits decoded.splits if_splits)
next
  case (Inr opts)
  with assms have w: "write_image writable opts fs = Exited rc fs'" by (simp add: makeboot_main_def)
  then obtain out ddr main where "out_name opts = Some out" "ddr_name opts = Some ddr" "main_name opts = Some main"
    by (auto simp: write_image_def split: option.splits)
  with w Inr show ?thesis
    by (cases "fs ddr"; cases "fs main") (auto simp: write_image_def split: if_splits)
qed

end
