(* ===== verification/Progress.thy ===== *)
theory Progress
  imports Console
begin

text \<open>
  Routines that always come to an end, whatever the hardware answers: \<open>runs\<close> says that from
  every history a routine returns a result and a longer history, and what the result and the
  new events have in common; \<open>proceeds\<close> says the same of routines without a result. The rules
  follow the structure of the code; they need a timer that runs and a UART that gets ready.
\<close>

definition runs :: "(history \<Rightarrow> ('a \<times> history) option) \<Rightarrow> ('a \<Rightarrow> history \<Rightarrow> bool) \<Rightarrow> bool" where
  "runs f Q \<longleftrightarrow> (\<forall>t. \<exists>x new. f t = Some (x, new @ t) \<and> Q x new)"

definition proceeds :: "(history \<Rightarrow> history option) \<Rightarrow> (history \<Rightarrow> bool) \<Rightarrow> bool" where
  "proceeds f Q \<longleftrightarrow> (\<forall>t. \<exists>new. f t = Some (new @ t) \<and> Q new)"

definition extends :: "(history \<Rightarrow> history) \<Rightarrow> bool" where
  "extends f \<longleftrightarrow> (\<forall>t. \<exists>new. f t = new @ t)"

lemma runs_mono: "runs f P \<Longrightarrow> (\<And>x new. P x new \<Longrightarrow> Q x new) \<Longrightarrow> runs f Q"
  unfolding runs_def by blast

lemma proceeds_mono: "proceeds f P \<Longrightarrow> (\<And>new. P new \<Longrightarrow> Q new) \<Longrightarrow> proceeds f Q"
  unfolding proceeds_def by blast

lemma runs_return: "Q x [] \<Longrightarrow> runs (\<lambda>t. Some (x, t)) Q"
  unfolding runs_def by (auto intro: exI [of _ "[]"])

lemma proceeds_return: "Q [] \<Longrightarrow> proceeds Some Q"
  unfolding proceeds_def by (auto intro: exI [of _ "[]"])

lemma runs_bind:
  assumes "runs f P" and "\<And>x new. P x new \<Longrightarrow> runs (g x) (\<lambda>y new'. Q y (new' @ new))"
  shows "runs (\<lambda>t. f t \<bind> (\<lambda>(x, t). g x t)) Q"
  unfolding runs_def
proof
  fix t
  from assms(1) obtain x new where f: "f t = Some (x, new @ t)" "P x new" unfolding runs_def by blast
  from assms(2) [OF f(2)] obtain y new' where "g x (new @ t) = Some (y, new' @ new @ t)" "Q y (new' @ new)"
    unfolding runs_def by blast
  with f(1) show "\<exists>y new. f t \<bind> (\<lambda>(x, t). g x t) = Some (y, new @ t) \<and> Q y new"
    by (intro exI [of _ y] exI [of _ "new' @ new"]) simp
qed

lemma runs_after:
  assumes "proceeds f P" and "\<And>new. P new \<Longrightarrow> runs g (\<lambda>y new'. Q y (new' @ new))"
  shows "runs (\<lambda>t. f t \<bind> g) Q"
  unfolding runs_def
proof
  fix t
  from assms(1) obtain new where f: "f t = Some (new @ t)" "P new" unfolding proceeds_def by blast
  from assms(2) [OF f(2)] obtain y new' where "g (new @ t) = Some (y, new' @ new @ t)" "Q y (new' @ new)"
    unfolding runs_def by blast
  with f(1) show "\<exists>y new. f t \<bind> g = Some (y, new @ t) \<and> Q y new"
    by (intro exI [of _ y] exI [of _ "new' @ new"]) simp
qed

lemma proceeds_bind:
  assumes "proceeds f P" and "\<And>new. P new \<Longrightarrow> proceeds g (\<lambda>new'. Q (new' @ new))"
  shows "proceeds (\<lambda>t. f t \<bind> g) Q"
  unfolding proceeds_def
proof
  fix t
  from assms(1) obtain new where f: "f t = Some (new @ t)" "P new" unfolding proceeds_def by blast
  from assms(2) [OF f(2)] obtain new' where "g (new @ t) = Some (new' @ new @ t)" "Q (new' @ new)"
    unfolding proceeds_def by blast
  with f(1) show "\<exists>new. f t \<bind> g = Some (new @ t) \<and> Q new"
    by (intro exI [of _ "new' @ new"]) simp
qed

lemma proceeds_after:
  assumes "runs f P" and "\<And>x new. P x new \<Longrightarrow> proceeds (g x) (\<lambda>new'. Q (new' @ new))"
  shows "proceeds (\<lambda>t. f t \<bind> (\<lambda>(x, t). g x t)) Q"
  unfolding proceeds_def
proof
  fix t
  from assms(1) obtain x new where f: "f t = Some (x, new @ t)" "P x new" unfolding runs_def by blast
  from assms(2) [OF f(2)] obtain new' where "g x (new @ t) = Some (new' @ new @ t)" "Q (new' @ new)"
    unfolding proceeds_def by blast
  with f(1) show "\<exists>new. f t \<bind> (\<lambda>(x, t). g x t) = Some (new @ t) \<and> Q new"
    by (intro exI [of _ "new' @ new"]) simp
qed

lemma runs_if:
  "(b \<Longrightarrow> runs f Q) \<Longrightarrow> (\<not> b \<Longrightarrow> runs g Q) \<Longrightarrow> runs (\<lambda>t. if b then f t else g t) Q"
  by (cases b) simp_all

lemma proceeds_if:
  "(b \<Longrightarrow> proceeds f Q) \<Longrightarrow> (\<not> b \<Longrightarrow> proceeds g Q) \<Longrightarrow> proceeds (\<lambda>t. if b then f t else g t) Q"
  by (cases b) simp_all

text \<open>Register accesses that do not wait.\<close>

lemma runs_extends:
  assumes "extends f" and "\<And>new. runs g (\<lambda>y new'. Q y (new' @ new))"
  shows "runs (\<lambda>t. g (f t)) Q"
  unfolding runs_def
proof
  fix t
  from assms(1) obtain new where f: "f t = new @ t" unfolding extends_def by blast
  from assms(2) obtain y new' where "g (new @ t) = Some (y, new' @ new @ t)" "Q y (new' @ new)"
    unfolding runs_def by blast
  with f show "\<exists>y new. g (f t) = Some (y, new @ t) \<and> Q y new"
    by (intro exI [of _ y] exI [of _ "new' @ new"]) simp
qed

lemma runs_read:
  assumes "\<And>v. runs (g v) (\<lambda>y new. Q y (new @ [Read32 a v]))"
  shows "runs (\<lambda>t. case read32 dev a t of (v, t) \<Rightarrow> g v t) Q"
  unfolding runs_def
proof
  fix t
  let ?v = "dev_rd dev t a"
  from assms [of ?v] obtain y new where "g ?v (Read32 a ?v # t) = Some (y, new @ Read32 a ?v # t)" "Q y (new @ [Read32 a ?v])"
    unfolding runs_def by blast
  then show "\<exists>y new. (case read32 dev a t of (v, t) \<Rightarrow> g v t) = Some (y, new @ t) \<and> Q y new"
    by (intro exI [of _ y] exI [of _ "new @ [Read32 a ?v]"]) (simp add: read32_def)
qed

lemma extends_write32: "extends (write32 a v)"
  unfolding extends_def write32_def by (auto intro: exI [of _ "[_]"])

lemma extends_rk_clr_set_bits: "extends (rk_clr_set_bits d b s v)"
  using extends_write32 by (simp add: rk_clr_set_bits_def extends_def Let_def)

text \<open>The rules that take a sequence of accesses apart from its end; routines add theirs.\<close>

named_theorems grows_intros \<open>a history that grows\<close>

definition grows :: "history \<Rightarrow> history \<Rightarrow> bool" where
  "grows t t' \<longleftrightarrow> (\<exists>new. t' = new @ t)"

lemma grows_refl [grows_intros]: "grows t t"
  by (simp add: grows_def)

lemma grows_trans: "grows t s \<Longrightarrow> grows s r \<Longrightarrow> grows t r"
  by (auto simp: grows_def)

lemma extends_iff: "extends f \<longleftrightarrow> (\<forall>t. grows t (f t))"
  by (simp add: extends_def grows_def)

lemma grows_extends: "extends f \<Longrightarrow> grows t s \<Longrightarrow> grows t (f s)"
  by (auto simp: extends_iff intro: grows_trans)

lemmas grows_write32 [grows_intros] = grows_extends [OF extends_write32]
lemmas grows_rk_clr_set_bits [grows_intros] = grows_extends [OF extends_rk_clr_set_bits]

lemma grows_event [grows_intros]: "grows t s \<Longrightarrow> grows t (e # s)"
  by (auto simp: grows_def)

lemma extends_fold: "(\<And>x. extends (f x)) \<Longrightarrow> extends (fold f xs)"
  by (induction xs) (simp_all add: extends_iff grows_refl, blast intro: grows_trans)

text \<open>A routine after such accesses.\<close>

lemma runs_pre:
  assumes "runs f P" and "\<And>t. grows t (h t)" and "\<And>x new before. P x new \<Longrightarrow> Q x (new @ before)"
  shows "runs (\<lambda>t. f (h t)) Q"
  unfolding runs_def
proof
  fix t
  from assms(2) obtain before where h: "h t = before @ t" unfolding grows_def by blast
  from assms(1) obtain x new where "f (before @ t) = Some (x, new @ before @ t)" "P x new"
    unfolding runs_def by blast
  with h assms(3) show "\<exists>x new. f (h t) = Some (x, new @ t) \<and> Q x new"
    by (intro exI [of _ x] exI [of _ "new @ before"]) simp
qed

lemmas runs_pre_same = runs_pre [where P = P and Q = P for P]

lemma runs_last:
  assumes "\<And>t. grows t (h t)" and "\<And>new. Q x new"
  shows "runs (\<lambda>t. Some (x, h t)) Q"
  using assms unfolding runs_def grows_def by blast

lemma proceeds_pre:
  assumes "proceeds f P" and "\<And>t. grows t (h t)"
  shows "proceeds (\<lambda>t. f (h t)) (\<lambda>_. True)"
  using assms unfolding proceeds_def grows_def by (metis append_assoc)

text \<open>The result 0 or -1 of the routines that wait for the hardware.\<close>

definition ended :: "(history \<Rightarrow> bool) \<Rightarrow> int \<Rightarrow> history \<Rightarrow> bool" where
  "ended P r new \<longleftrightarrow> (r = 0 \<or> r = - 1) \<and> (r = 0 \<longrightarrow> P new)"

lemma ended_0 [simp]: "ended P 0 new = P new"
  by (simp add: ended_def)

lemma ended_minus_1 [simp]: "ended P (- 1) new"
  by (simp add: ended_def)

text \<open>What the new events show: a reading of a register with a property.\<close>

definition saw :: "addr \<Rightarrow> (u32 \<Rightarrow> bool) \<Rightarrow> history \<Rightarrow> bool" where
  "saw a p new \<longleftrightarrow> (\<exists>v. Read32 a v \<in> set new \<and> p v)"

lemma saw_append [simp]: "saw a p (xs @ ys) \<longleftrightarrow> saw a p xs \<or> saw a p ys"
  by (auto simp: saw_def)

lemma saw_Cons [simp]: "saw a p (e # new) \<longleftrightarrow> (\<exists>v. e = Read32 a v \<and> p v) \<or> saw a p new"
  by (auto simp: saw_def)

lemma saw_Nil [simp]: "\<not> saw a p []"
  by (simp add: saw_def)

lemma ended_more: "ended P r new \<Longrightarrow> (\<And>xs. P xs \<Longrightarrow> P (xs @ ys)) \<Longrightarrow> ended P r (new @ ys)"
  by (simp add: ended_def)

text \<open>Delays and output.\<close>

lemma proceeds_usleep: "timer_runs dev \<Longrightarrow> proceeds (usleep dev us) (\<lambda>_. True)"
  unfolding proceeds_def using usleep_returns [of dev us] usleep_history [of dev us] by metis

lemma proceeds_msleep: "timer_runs dev \<Longrightarrow> proceeds (msleep dev ms) (\<lambda>_. True)"
  using proceeds_usleep [of dev "1000 * ms"] by (simp add: msleep_def [abs_def])

lemma proceeds_outputs: "outputs dev uart f cs \<Longrightarrow> uart_ready dev uart \<Longrightarrow> proceeds f (\<lambda>_. True)"
  unfolding proceeds_def using outputsD(1,4) [of dev uart f cs] by metis

lemma proceeds_puts: "uart_ready dev uart \<Longrightarrow> proceeds (puts dev uart str) (\<lambda>_. True)"
  by (rule proceeds_outputs [OF outputs_puts])

lemma proceeds_debug: "uart_ready dev uart \<Longrightarrow> unat reg < 4294967296 \<Longrightarrow> proceeds (debug dev uart buffer str reg) (\<lambda>_. True)"
  by (rule proceeds_outputs [OF outputs_debug])

end
