(* ===== verification/Display.thy ===== *)
theory Display
  imports Progress Clib
begin

text \<open>
  The display of the RK356x firmware: clocks and scan-out (src/rk356x/vop2.c), the HDMI
  transmitter (src/rk356x/hdmi.c) and the power domain they need (src/rk356x/cru.c). The
  state is the framebuffer in memory and the static \<open>rk356x_video\<close>; a sequence of register
  writes is a list of offsets and values. The result of the set-up is 0 or -1.
\<close>

subsection \<open>Data\<close>

abbreviation (input) RK356X_CRU :: addr where "RK356X_CRU \<equiv> 0xfdd20000"
abbreviation (input) RK356X_PMU :: addr where "RK356X_PMU \<equiv> 0xfdd90000"
abbreviation (input) RK356X_VOP2 :: addr where "RK356X_VOP2 \<equiv> 0xfe040000"
abbreviation (input) RK356X_HDMI :: addr where "RK356X_HDMI \<equiv> 0xfe0a0000"
abbreviation (input) RK356X_FB_START :: addr where "RK356X_FB_START \<equiv> 0x10000000"
abbreviation (input) RK356X_FB_END :: addr where "RK356X_FB_END \<equiv> 0x12000000"

record video_mode =
  pixel_clock_khz :: u32
  hactive :: u16
  hfront_porch :: u16
  hsync_len :: u16
  hback_porch :: u16
  vactive :: u16
  vfront_porch :: u16
  vsync_len :: u16
  vback_porch :: u16
  refresh_hz :: u16
  mode_flags :: u16

record rk356x_video =
  video_mode :: video_mode
  stride :: u32
  active :: bool

definition fixed_mode :: video_mode where
  "fixed_mode = \<lparr>pixel_clock_khz = 148500, hactive = 1920, hfront_porch = 88, hsync_len = 44, hback_porch = 148,
     vactive = 1080, vfront_porch = 4, vsync_len = 5, vback_porch = 36, refresh_hz = 60, mode_flags = 3\<rparr>"

definition no_mode :: video_mode where
  "no_mode = \<lparr>pixel_clock_khz = 0, hactive = 0, hfront_porch = 0, hsync_len = 0, hback_porch = 0,
     vactive = 0, vfront_porch = 0, vsync_len = 0, vback_porch = 0, refresh_hz = 0, mode_flags = 0\<rparr>"

text \<open>The static variable at program start, and after \<open>memset\<close>.\<close>

definition no_video :: rk356x_video where
  "no_video = \<lparr>video_mode = no_mode, stride = 0, active = False\<rparr>"

subsection \<open>Power and clocks\<close>

text \<open>The status is read up to \<open>n\<close> times.\<close>

primrec vo_domain_loop :: "device \<Rightarrow> nat \<Rightarrow> history \<Rightarrow> int \<times> history" where
  "vo_domain_loop dev 0 t = (- 1, t)"
| "vo_domain_loop dev (Suc n) t =
     (case read32 dev (RK356X_PMU + 0x98) t of (v, t) \<Rightarrow> if v AND 0x80 = 0 then (0, t) else vo_domain_loop dev n t)"

definition rk356x_enable_vo_domain :: "device \<Rightarrow> history \<Rightarrow> int \<times> history" where
  "rk356x_enable_vo_domain dev t = vo_domain_loop dev 100000 (write32 (RK356X_PMU + 0xa0) 0x800000 t)"

definition cru :: "u32 \<Rightarrow> addr" where
  "cru offset = RK356X_CRU + ucast offset"

definition vop :: "u32 \<Rightarrow> addr" where
  "vop offset = RK356X_VOP2 + ucast offset"

text \<open>The loop that waits for the PLL; \<open>pll\<close> is the address of its registers.\<close>

primrec pll_wait :: "device \<Rightarrow> addr \<Rightarrow> nat \<Rightarrow> history \<Rightarrow> (int \<times> history) option" where
  "pll_wait dev pll 0 t = Some (- 1, rk_clr_set_bits (cru 0xc0) 12 12 1 t)"
| "pll_wait dev pll (Suc n) t =
     (case read32 dev (pll + 4) t of (v, t) \<Rightarrow>
        if v AND 0x400 \<noteq> 0 then Some (0, rk_clr_set_bits (cru 0xc0) 12 12 1 t)
        else do { t \<leftarrow> usleep dev 1 t; pll_wait dev pll n t })"

definition set_vpll :: "device \<Rightarrow> u32 \<Rightarrow> history \<Rightarrow> (int \<times> history) option" where
  "set_vpll dev rate_khz t =
     (let pll = cru (40 * 4); fbdiv = 99; post1 = 4; post2 = 4 in
      if rate_khz \<noteq> 148500 then Some (- 1, t)
      else let t = rk_clr_set_bits (cru 0xc0) 12 12 0 t;
               t = rk_clr_set_bits (pll + 4) 13 13 1 t;
               t = rk_clr_set_bits pll 14 0 (4096 * post1 + fbdiv) t;
               t = rk_clr_set_bits (pll + 4) 5 0 1 t;
               t = rk_clr_set_bits (pll + 4) 8 6 post2 t;
               t = rk_clr_set_bits (pll + 4) 12 12 1 t;
               (v, t) = read32 dev (pll + 8) t;
               t = write32 (pll + 8) (v AND NOT 0xffffff) t;
               t = rk_clr_set_bits (pll + 4) 13 13 0 t in
        pll_wait dev pll 1000 t)"

definition release_reset :: "u32 \<Rightarrow> history \<Rightarrow> history" where
  "release_reset i t = rk_clr_set_bits (cru (0x400 + (i div 16) * 4)) (unat (i mod 16)) (unat (i mod 16)) 0 t"

definition rk356x_display_clocks :: "device \<Rightarrow> addr \<Rightarrow> u32 \<Rightarrow> history \<Rightarrow> (int \<times> history) option" where
  "rk356x_display_clocks dev uart clock_khz t =
     (case rk356x_enable_vo_domain dev t of (r, t) \<Rightarrow>
        if r \<noteq> 0 then do { t \<leftarrow> puts dev uart (chars ''HDMI: VO power timeout'') t; Some (- 1, t) }
        else let t = rk_clr_set_bits (cru (0x300 + 20 * 4)) 2 0 0 t;
                 t = rk_clr_set_bits (cru (0x300 + 20 * 4)) 6 6 0 t;
                 t = rk_clr_set_bits (cru (0x300 + 20 * 4)) 10 8 0 t;
                 t = rk_clr_set_bits (cru (0x300 + 21 * 4)) 4 3 0 t;
                 t = fold (\<lambda>i. release_reset (of_nat i)) [256..<266] t;
                 t = release_reset 270 t;
                 t = release_reset 271 t in
          do {
            (r, t) \<leftarrow> set_vpll dev clock_khz t;
            if r \<noteq> 0 then do { t \<leftarrow> puts dev uart (chars ''HDMI: VPLL lock timeout'') t; Some (- 1, t) }
            else let t = rk_clr_set_bits (cru (0x100 + 38 * 4)) 7 0 0x43 t;
                     t = rk_clr_set_bits (cru (0x100 + 39 * 4)) 11 0 0x400 t in
              Some (0, t)
          })"

subsection \<open>Scan-out\<close>

definition vop_writes :: "(u32 \<times> u32) list \<Rightarrow> history \<Rightarrow> history" where
  "vop_writes = fold (\<lambda>(offset, v). write32 (vop offset) v)"

definition rk356x_vop2_setup :: "video_mode \<Rightarrow> u32 \<Rightarrow> history \<Rightarrow> history" where
  "rk356x_vop2_setup m pitch t =
     (let hact = ucast (hactive m); hsync = ucast (hsync_len m); vact = ucast (vactive m); vsync = ucast (vsync_len m);
          htotal = hact + ucast (hfront_porch m) + hsync + ucast (hback_porch m);
          vtotal = vact + ucast (vfront_porch m) + vsync + ucast (vback_porch m);
          hact_st = htotal - (hact + ucast (hfront_porch m));
          vact_st = vtotal - (vact + ucast (vfront_porch m));
          polarity = (if mode_flags m AND 1 \<noteq> 0 then 0x10 else 0) OR (if mode_flags m AND 2 \<noteq> 0 then 0x20 else 0) in
      vop_writes
        [(0x008, 0), (0x028, 2), (0x030, polarity OR 0x80 OR 0x10000000), (0x600, 0), (0x604, 0x76543102),
         (0x608, 0x880), (0x6e0, push_bit 24 42), (0x6f8, 20),
         (0xc00, 0), (0xc2c, 0), (0xc30, push_bit 16 (42 + drop_bit 1 hact - 1) OR hsync),
         (0xc34, push_bit 16 hact_st OR (hact_st + hact)), (0xc38, push_bit 16 vact_st OR (vact_st + vact)),
         (0xc3c, 0x10001000), (0xc40, 0), (0xc48, push_bit 16 htotal OR hsync),
         (0xc4c, push_bit 16 hact_st OR (hact_st + hact)), (0xc50, push_bit 16 vtotal OR vsync),
         (0xc54, push_bit 16 vact_st OR (vact_st + vact)),
         (0x1810, 1), (0x1814, 0x10000000), (0x181c, pitch div 4), (0x1820, push_bit 16 (vact - 1) OR (hact - 1)),
         (0x1824, push_bit 16 (vact - 1) OR (hact - 1)), (0x1828, 0), (0x000, 0x8001)] t)"

subsection \<open>The HDMI transmitter\<close>

definition HDMI :: "u32 \<Rightarrow> addr" where
  "HDMI r = RK356X_HDMI + ucast (push_bit 2 r)"

definition hdmi_read :: "device \<Rightarrow> u32 \<Rightarrow> history \<Rightarrow> u8 \<times> history" where
  "hdmi_read dev offset t = (case read32 dev (HDMI offset) t of (v, t) \<Rightarrow> (ucast v, t))"

definition hdmi_write :: "u32 \<Rightarrow> u8 \<Rightarrow> history \<Rightarrow> history" where
  "hdmi_write offset v t = write32 (HDMI offset) (ucast v) t"

definition hdmi_modify :: "device \<Rightarrow> u32 \<Rightarrow> u8 \<Rightarrow> u8 \<Rightarrow> history \<Rightarrow> history" where
  "hdmi_modify dev offset m v t =
     (case hdmi_read dev offset t of (r, t) \<Rightarrow> hdmi_write offset ((r AND NOT m) OR (v AND m)) t)"

definition fc_write16 :: "u32 \<Rightarrow> u16 \<Rightarrow> history \<Rightarrow> history" where
  "fc_write16 low v t = hdmi_write (low + 1) (ucast (drop_bit 8 v)) (hdmi_write low (ucast v) t)"

definition hdmi_writes :: "(u32 \<times> u8) list \<Rightarrow> history \<Rightarrow> history" where
  "hdmi_writes = fold (\<lambda>(offset, v). hdmi_write offset v)"

definition hdmi_video_setup :: "video_mode \<Rightarrow> history \<Rightarrow> history" where
  "hdmi_video_setup m t =
     (let hblank = hfront_porch m + hsync_len m + hback_porch m;
          vblank = ucast (vfront_porch m + vsync_len m + vback_porch m);
          invidconf = 0x98 OR (if mode_flags m AND 1 \<noteq> 0 then 0x20 else 0) OR (if mode_flags m AND 2 \<noteq> 0 then 0x40 else 0);
          t = hdmi_write 0x1000 invidconf t;
          t = fc_write16 0x1001 (hactive m) t;
          t = fc_write16 0x1003 hblank t;
          t = fc_write16 0x1005 (vactive m) t;
          t = hdmi_write 0x1007 vblank t;
          t = fc_write16 0x1008 (hfront_porch m) t;
          t = fc_write16 0x100a (hsync_len m) t;
          t = hdmi_write 0x100c (ucast (vfront_porch m)) t;
          t = hdmi_write 0x100d (ucast (vsync_len m)) t;
          t = hdmi_writes [(0x0200, 1), (0x0201, 7)] t;
          t = fold (\<lambda>r. hdmi_write (of_nat r) 0) [0x0202..<0x0208] t in
      hdmi_writes
        [(0x0801, 0), (0x0802, 7), (0x0803, 0), (0x0804, 0x47),
         (0x1019, 0), (0x101a, 0x20), (0x101b, 0x08), (0x101c, 16), (0x1011, 12), (0x1012, 32), (0x1013, 1),
         (0x1014, 0x0b), (0x1015, 0x16), (0x1016, 0x21), (0x4004, 0), (0x4001, 0x7e), (0x4001, 0x7c)] t)"

record phy_rate =
  max_khz :: u32
  cpce :: u16
  gmp :: u16
  sym :: u16
  phy_term :: u16
  vlev :: u16

definition phy_rates :: "phy_rate list" where
  "phy_rates =
     [\<lparr>max_khz = 30666, cpce = 0x00b3, gmp = 0, sym = 0x8009, phy_term = 4, vlev = 0x0272\<rparr>,
      \<lparr>max_khz = 74250, cpce = 0x0072, gmp = 1, sym = 0x8009, phy_term = 4, vlev = 0x0272\<rparr>,
      \<lparr>max_khz = 165000, cpce = 0x0051, gmp = 2, sym = 0x802b, phy_term = 4, vlev = 0x0209\<rparr>,
      \<lparr>max_khz = 184000, cpce = 0x0051, gmp = 2, sym = 0x8039, phy_term = 5, vlev = 0x028d\<rparr>,
      \<lparr>max_khz = 340000, cpce = 0x0040, gmp = 3, sym = 0x8039, phy_term = 5, vlev = 0x028d\<rparr>]"

definition phy_i2c_init :: "history \<Rightarrow> history" where
  "phy_i2c_init = hdmi_writes [(0x3027, 0x08), (0x3028, 0x88), (0x0108, 0xff)]"

primrec phy_i2c_wait :: "device \<Rightarrow> addr \<Rightarrow> (int \<Rightarrow> u8) \<Rightarrow> u8 \<Rightarrow> nat \<Rightarrow> history \<Rightarrow> (int \<times> history) option" where
  "phy_i2c_wait dev uart buffer address 0 t =
     do { t \<leftarrow> debug dev uart buffer (chars ''HDMI: PHY I2C timeout address: '') (ucast address) t; Some (- 1, t) }"
| "phy_i2c_wait dev uart buffer address (Suc n) t =
     (case hdmi_read dev 0x0108 t of (v, t) \<Rightarrow>
        let status = v AND 3 in
        if status \<noteq> 0 then
          (let t = hdmi_write 0x0108 status t in
           if status AND 2 \<noteq> 0 then Some (0, t)
           else do { t \<leftarrow> debug dev uart buffer (chars ''HDMI: PHY I2C error address: '') (ucast address) t; Some (- 1, t) })
        else do { t \<leftarrow> msleep dev 1 t; phy_i2c_wait dev uart buffer address n t })"

definition phy_i2c_write :: "device \<Rightarrow> addr \<Rightarrow> (int \<Rightarrow> u8) \<Rightarrow> u8 \<Rightarrow> u16 \<Rightarrow> history \<Rightarrow> (int \<times> history) option" where
  "phy_i2c_write dev uart buffer address v t =
     phy_i2c_wait dev uart buffer address 1000
       (hdmi_writes [(0x0108, 0xff), (0x3021, address), (0x3022, ucast (drop_bit 8 v)), (0x3023, ucast v), (0x3026, 0x10)] t)"

text \<open>The writes of one pass, until one fails.\<close>

primrec phy_i2c_writes :: "device \<Rightarrow> addr \<Rightarrow> (int \<Rightarrow> u8) \<Rightarrow> (u8 \<times> u16) list \<Rightarrow> history \<Rightarrow> (int \<times> history) option" where
  "phy_i2c_writes dev uart buffer [] t = Some (0, t)"
| "phy_i2c_writes dev uart buffer (w # ws) t = do {
     (r, t) \<leftarrow> phy_i2c_write dev uart buffer (fst w) (snd w) t;
     if r \<noteq> 0 then Some (- 1, t) else phy_i2c_writes dev uart buffer ws t
   }"

text \<open>Waiting for the lock to drop: up to \<open>n\<close> readings.\<close>

primrec phy_unlock :: "device \<Rightarrow> nat \<Rightarrow> history \<Rightarrow> history option" where
  "phy_unlock dev 0 t = Some t"
| "phy_unlock dev (Suc n) t =
     (case hdmi_read dev 0x3004 t of (v, t) \<Rightarrow>
        if v AND 1 = 0 then Some t else do { t \<leftarrow> msleep dev 2 t; phy_unlock dev n t })"

primrec phy_lock :: "device \<Rightarrow> nat \<Rightarrow> history \<Rightarrow> (bool \<times> history) option" where
  "phy_lock dev 0 t = Some (False, t)"
| "phy_lock dev (Suc n) t =
     (case hdmi_read dev 0x3004 t of (v, t) \<Rightarrow>
        if v AND 1 \<noteq> 0 then Some (True, t) else do { t \<leftarrow> msleep dev 2 t; phy_lock dev n t })"

definition phy_pass :: "device \<Rightarrow> addr \<Rightarrow> (int \<Rightarrow> u8) \<Rightarrow> phy_rate \<Rightarrow> u64 \<Rightarrow> history \<Rightarrow> (int \<times> history) option" where
  "phy_pass dev uart buffer rate pass t =
     (let t = hdmi_modify dev 0x3000 0x08 0 t in
      do {
        t \<leftarrow> phy_unlock dev 5 t;
        let t = hdmi_modify dev 0x3000 0x10 0x10 t;
        let t = hdmi_modify dev 0x3000 0x23 0x22 t;
        let t = hdmi_writes [(0x4005, 1), (0x4005, 0), (0x4007, 1)] t;
        let t = hdmi_modify dev 0x3001 0x20 0x20 t;
        let t = hdmi_write 0x3020 0x69 t;
        let t = hdmi_modify dev 0x3001 0x20 0 t;
        (r, t) \<leftarrow> phy_i2c_writes dev uart buffer
          [(0x06, cpce rate), (0x15, gmp rate), (0x10, 0), (0x13, 0), (0x17, 6), (0x19, phy_term rate), (0x09, sym rate),
           (0x0e, vlev rate), (0x05, 0x8000)] t;
        if r \<noteq> 0 then Some (- 1, t)
        else do {
          let t = hdmi_modify dev 0x3000 0x08 0x08 t;
          let t = hdmi_modify dev 0x3000 0x10 0 t;
          (locked, t) \<leftarrow> phy_lock dev 5 t;
          if \<not> locked then do {
            t \<leftarrow> debug dev uart buffer (chars ''HDMI: PHY PLL lock timeout pass: '') (pass + 1) t;
            Some (- 1, t)
          } else Some (0, t)
        }
      })"

text \<open>The loop over the two passes.\<close>

definition hdmi_phy_setup :: "device \<Rightarrow> addr \<Rightarrow> (int \<Rightarrow> u8) \<Rightarrow> u32 \<Rightarrow> history \<Rightarrow> (int \<times> history) option" where
  "hdmi_phy_setup dev uart buffer clock_khz t =
     (case find (\<lambda>rate. clock_khz \<le> max_khz rate) phy_rates of
        None \<Rightarrow> Some (- 1, t)
      | Some rate \<Rightarrow>
          let t = phy_i2c_init t in
          do {
            (r, t) \<leftarrow> phy_pass dev uart buffer rate 0 t;
            if r \<noteq> 0 then Some (- 1, t) else phy_pass dev uart buffer rate 1 t
          })"

definition rk356x_display_init :: "device \<Rightarrow> addr \<Rightarrow> (int \<Rightarrow> u8) \<Rightarrow> mem \<Rightarrow> history
    \<Rightarrow> ((int \<times> mem \<times> rk356x_video) \<times> history) option" where
  "rk356x_display_init dev uart buffer m t =
     (let v = no_video\<lparr>video_mode := fixed_mode\<rparr>;
          v = v\<lparr>stride := (ucast (hactive (video_mode v)) * 4 + 63) AND NOT 63\<rparr>;
          fb_bytes = (ucast (stride v) * ucast (vactive (video_mode v)) :: u64) in
      if fb_bytes > RK356X_FB_END - RK356X_FB_START then Some ((- 1, m, v), t)
      else do {
        (r, t) \<leftarrow> rk356x_display_clocks dev uart (pixel_clock_khz fixed_mode) t;
        if r \<noteq> 0 then Some ((- 1, m, v), t)
        else do {
          let m = memset m RK356X_FB_START 0 (unat fb_bytes);
          let t = rk356x_vop2_setup (video_mode v) (stride v) t;
          let t = hdmi_video_setup (video_mode v) t;
          (r, t) \<leftarrow> hdmi_phy_setup dev uart buffer (pixel_clock_khz (video_mode v)) t;
          if r \<noteq> 0 then Some ((- 1, m, v), t) else Some ((0, m, v\<lparr>active := True\<rparr>), t)
        }
      })"

subsection \<open>The set-up comes to an end\<close>

lemma extends_hdmi_write: "extends (hdmi_write r v)"
  by (simp add: hdmi_write_def [abs_def] extends_write32)

lemma extends_hdmi_writes: "extends (hdmi_writes ws)"
  unfolding hdmi_writes_def by (rule extends_fold) (simp add: extends_hdmi_write split: prod.split)

lemmas grows_hdmi [grows_intros] = grows_extends [OF extends_hdmi_write] grows_extends [OF extends_hdmi_writes]

lemma grows_fc_write16 [grows_intros]: "grows t s \<Longrightarrow> grows t (fc_write16 r v s)"
  unfolding fc_write16_def by (intro grows_intros)

lemma grows_hdmi_modify [grows_intros]: "grows t s \<Longrightarrow> grows t (hdmi_modify dev r m v s)"
  unfolding hdmi_modify_def hdmi_read_def read32_def prod.case by (intro grows_intros)

lemma grows_release_reset [grows_intros]: "grows t s \<Longrightarrow> grows t (release_reset i s)"
  unfolding release_reset_def by (intro grows_intros)

lemma extends_release_reset: "extends (release_reset i)"
  by (simp add: extends_iff grows_intros)

lemma grows_vop2_setup [grows_intros]: "grows t s \<Longrightarrow> grows t (rk356x_vop2_setup m pitch s)"
proof -
  have "extends (vop_writes ws)" for ws
    unfolding vop_writes_def by (rule extends_fold) (simp add: extends_write32 split: prod.split)
  then show "grows t s \<Longrightarrow> grows t (rk356x_vop2_setup m pitch s)"
    unfolding rk356x_vop2_setup_def Let_def by (rule grows_extends)
qed

lemma grows_video_setup [grows_intros]: "grows t s \<Longrightarrow> grows t (hdmi_video_setup m s)"
  unfolding hdmi_video_setup_def Let_def
  by (intro grows_intros grows_extends [OF extends_fold] extends_hdmi_write)

lemma runs_hdmi_read:
  assumes "\<And>v. runs (g (ucast v)) (\<lambda>y new. Q y (new @ [Read32 (HDMI r) v]))"
  shows "runs (\<lambda>t. case hdmi_read dev r t of (v, t) \<Rightarrow> g v t) Q"
  using runs_read [where g = "\<lambda>v. g (ucast v)", OF assms] by (simp add: hdmi_read_def split_def read32_def)

abbreviation vo_power :: "history \<Rightarrow> bool" where
  "vo_power \<equiv> saw (RK356X_PMU + 0x98) (\<lambda>v. v AND 0x80 = 0)"

abbreviation vpll_locked :: "history \<Rightarrow> bool" where
  "vpll_locked \<equiv> saw (cru 160 + 4) (\<lambda>v. v AND 0x400 \<noteq> 0)"

abbreviation phy_locked :: "history \<Rightarrow> bool" where
  "phy_locked \<equiv> saw (HDMI 0x3004) (\<lambda>v. v AND 1 \<noteq> 0)"

lemma runs_vo_loop: "runs (\<lambda>t. Some (vo_domain_loop dev n t)) (ended vo_power)"
proof (induction n)
  case 0
  then show ?case by (simp add: runs_return)
next
  case (Suc n)
  have "runs (\<lambda>t. if v AND 0x80 = 0 then Some (0, t) else Some (vo_domain_loop dev n t))
      (\<lambda>r new. ended vo_power r (new @ [Read32 (RK356X_PMU + 0x98) v]))" for v :: u32
    by (intro runs_if runs_return runs_mono [OF Suc]) (auto simp: ended_def)
  from runs_read [of "\<lambda>v t. if v AND 0x80 = 0 then Some (0, t) else Some (vo_domain_loop dev n t)", OF this]
  show ?case by (simp add: read32_def if_distrib cong: if_cong)
qed

lemma runs_vo_domain: "runs (\<lambda>t. Some (rk356x_enable_vo_domain dev t)) (ended vo_power)"
  unfolding rk356x_enable_vo_domain_def
  by (rule runs_pre [OF runs_vo_loop]) (intro grows_intros, simp add: ended_more)

lemma runs_pll_wait:
  assumes "timer_runs dev"
  shows "runs (pll_wait dev pll n) (ended (saw (pll + 4) (\<lambda>v. v AND 0x400 \<noteq> 0)))"
proof (induction n)
  case 0
  show ?case by (auto simp: pll_wait.simps(1) [abs_def] intro!: runs_last grows_intros)
next
  case (Suc n)
  show ?case
    unfolding pll_wait.simps(2) [abs_def]
    by (intro runs_read runs_if runs_last grows_intros runs_after [OF proceeds_usleep [OF assms]] runs_mono [OF Suc])
      (auto simp: ended_def)
qed

lemma runs_set_vpll:
  assumes "timer_runs dev"
  shows "runs (set_vpll dev rate) (ended vpll_locked)"
proof -
  have "runs (\<lambda>t. set_vpll dev rate t) (ended vpll_locked)"
    unfolding set_vpll_def Let_def read32_def split_def fst_conv snd_conv
    by (intro runs_if runs_return runs_pre [OF runs_pll_wait [OF assms]] grows_intros)
      (auto simp: ended_more cru_def)
  then show ?thesis by simp
qed

lemma runs_display_clocks:
  assumes "timer_runs dev" and "uart_ready dev uart"
  shows "runs (rk356x_display_clocks dev uart rate) (ended (\<lambda>new. vo_power new \<and> vpll_locked new))"
proof -
  let ?P = "\<lambda>new. vo_power new \<and> vpll_locked new"
  let ?open = "\<lambda>t. release_reset 271 (release_reset 270 (fold (\<lambda>i. release_reset (of_nat i)) [256..<266]
      (rk_clr_set_bits (cru (0x300 + 21 * 4)) 4 3 0 (rk_clr_set_bits (cru (0x300 + 20 * 4)) 10 8 0
      (rk_clr_set_bits (cru (0x300 + 20 * 4)) 6 6 0 (rk_clr_set_bits (cru (0x300 + 20 * 4)) 2 0 0 t))))))"
  let ?go = "\<lambda>t. set_vpll dev rate (?open t) \<bind> (\<lambda>(r, t).
      if r \<noteq> 0 then puts dev uart (chars ''HDMI: VPLL lock timeout'') t \<bind> (\<lambda>t. Some (- 1, t))
      else Some (0, rk_clr_set_bits (cru (0x100 + 39 * 4)) 11 0 0x400 (rk_clr_set_bits (cru (0x100 + 38 * 4)) 7 0 0x43 t)))"
  have "grows t (?open t)" for t
    by (intro grows_intros grows_extends [OF extends_fold] extends_release_reset)
  then have set: "runs (\<lambda>t. set_vpll dev rate (?open t)) (ended vpll_locked)"
    by (rule runs_pre [OF runs_set_vpll [OF assms(1)]]) (simp add: ended_more)
  have go: "runs ?go (ended vpll_locked)"
    by (rule runs_bind [OF set])
      (intro runs_if runs_after [OF proceeds_puts [OF assms(2)]] runs_return runs_last grows_intros; auto simp: ended_def)
  have "runs (\<lambda>t. Some (rk356x_enable_vo_domain dev t) \<bind> (\<lambda>(r, t).
      if r \<noteq> 0 then puts dev uart (chars ''HDMI: VO power timeout'') t \<bind> (\<lambda>t. Some (- 1, t)) else ?go t)) (ended ?P)"
    by (rule runs_bind [OF runs_vo_domain])
      (intro runs_if runs_after [OF proceeds_puts [OF assms(2)]] runs_return runs_mono [OF go]; auto simp: ended_def)
  then show ?thesis
    unfolding rk356x_display_clocks_def [abs_def] Let_def bind.bind_lunit split_conv .
qed

lemma runs_i2c_wait:
  assumes "timer_runs dev" and "uart_ready dev uart"
  shows "runs (phy_i2c_wait dev uart buffer address n) (\<lambda>r new. r = 0 \<or> r = - 1)"
proof (induction n)
  case 0
  have "unat (ucast address :: u64) < 4294967296"
    using unat_u8_less [of address] by (simp add: unsigned_ucast_eq take_bit_nat_eq_self)
  from proceeds_debug [OF assms(2) this] show ?case
    unfolding phy_i2c_wait.simps(1) [abs_def] by (rule runs_after) (simp add: runs_return)
next
  case (Suc n)
  have "unat (ucast address :: u64) < 4294967296"
    using unat_u8_less [of address] by (simp add: unsigned_ucast_eq take_bit_nat_eq_self)
  note d = proceeds_debug [OF assms(2) this]
  show ?case
    unfolding phy_i2c_wait.simps(2) [abs_def] Let_def
    by (intro runs_hdmi_read runs_if runs_last grows_intros runs_after [OF proceeds_pre [OF d]]
        runs_after [OF proceeds_msleep [OF assms(1)]] runs_return runs_mono [OF Suc]) auto
qed

lemma runs_i2c_writes:
  assumes "timer_runs dev" and "uart_ready dev uart"
  shows "runs (phy_i2c_writes dev uart buffer ws) (\<lambda>r new. r = 0 \<or> r = - 1)"
proof (induction ws)
  case Nil
  show ?case by (simp add: runs_return)
next
  case (Cons w ws)
  have w: "runs (phy_i2c_write dev uart buffer (fst w) (snd w)) (\<lambda>r new. r = 0 \<or> r = - 1)"
    unfolding phy_i2c_write_def [abs_def]
    by (rule runs_pre [OF runs_i2c_wait [OF assms]]) (intro grows_intros)
  show ?case
    unfolding phy_i2c_writes.simps(2) [abs_def]
    by (rule runs_bind [OF w]) (intro runs_if runs_return runs_mono [OF Cons]; simp)
qed

lemma proceeds_phy_unlock: "timer_runs dev \<Longrightarrow> proceeds (phy_unlock dev n) (\<lambda>_. True)"
proof (induction n)
  case (Suc n)
  have "proceeds (\<lambda>t. if ucast v AND 1 = (0 :: u8) then Some t else msleep dev 2 t \<bind> phy_unlock dev n) (\<lambda>_. True)" for v :: u32
    using Suc by (intro proceeds_if proceeds_return proceeds_bind [OF proceeds_msleep]) simp_all
  then show ?case
    unfolding proceeds_def by (simp add: hdmi_read_def read32_def) (metis append.assoc append_Cons append_Nil)
qed (simp add: phy_unlock.simps(1) [abs_def] proceeds_return)

lemma ucast_and_1: "(ucast (v :: u32) AND 1 = (0 :: u8)) = (v AND 1 = 0)"
  by (simp add: and_one_eq mod_2_eq_odd bit_0 [symmetric] bit_unsigned_iff del: bit_0)

lemma runs_phy_lock: "timer_runs dev \<Longrightarrow> runs (phy_lock dev n) (\<lambda>locked new. locked \<longrightarrow> phy_locked new)"
proof (induction n)
  case (Suc n)
  then show ?case
    unfolding phy_lock.simps(2) [abs_def]
    by (intro runs_hdmi_read runs_if runs_return runs_after [OF proceeds_msleep] runs_mono [OF Suc.IH])
      (auto simp: ucast_and_1)
qed (simp add: phy_lock.simps(1) [abs_def] runs_return)

lemma runs_phy_pass:
  assumes "timer_runs dev" and "uart_ready dev uart" and "unat (pass + 1) < 4294967296"
  shows "runs (phy_pass dev uart buffer rate pass) (ended phy_locked)"
  unfolding phy_pass_def [abs_def] Let_def
  by (intro runs_after [OF proceeds_pre [OF proceeds_phy_unlock [OF assms(1)]]]
        runs_bind [OF runs_pre_same [OF runs_i2c_writes [OF assms(1,2)]]]
        runs_bind [OF runs_pre_same [OF runs_phy_lock [OF assms(1)]]]
        runs_if runs_return runs_after [OF proceeds_debug [OF assms(2,3)]] grows_intros)
    (auto simp: ended_def)

lemma runs_phy_setup:
  assumes "timer_runs dev" and "uart_ready dev uart"
  shows "runs (hdmi_phy_setup dev uart buffer khz) (ended phy_locked)"
proof (cases "find (\<lambda>rate. khz \<le> max_khz rate) phy_rates")
  case None
  then show ?thesis by (simp add: hdmi_phy_setup_def [abs_def] runs_return)
next
  case (Some rate)
  have init: "grows t (phy_i2c_init t)" for t
    unfolding phy_i2c_init_def by (intro grows_intros)
  have first: "runs (\<lambda>t. phy_pass dev uart buffer rate 0 (phy_i2c_init t)) (ended phy_locked)"
    using assms init by (intro runs_pre [OF runs_phy_pass]) (simp_all add: ended_more)
  show ?thesis
    unfolding hdmi_phy_setup_def [abs_def] Some option.case Let_def
    using assms
    by (intro runs_bind [OF first] runs_if runs_return runs_mono [OF runs_phy_pass]) (auto simp: ended_def)
qed

text \<open>The outcome of the set-up: what is cleared, and what has been seen when it succeeds.\<close>

definition display_outcome :: "mem \<Rightarrow> int \<times> mem \<times> rk356x_video \<Rightarrow> history \<Rightarrow> bool" where
  "display_outcome m = (\<lambda>(r, m', v) new. (r = 0 \<or> r = - 1) \<and> (active v \<longleftrightarrow> r = 0)
     \<and> (m' = m \<or> m' = write_bytes m RK356X_FB_START (replicate 8294400 0))
     \<and> video_mode v = fixed_mode \<and> stride v = 7680
     \<and> (r = 0 \<longrightarrow> vo_power new \<and> vpll_locked new \<and> phy_locked new
          \<and> m' = write_bytes m RK356X_FB_START (replicate 8294400 0)))"

lemma runs_display_init:
  assumes "timer_runs dev" and "uart_ready dev uart"
  shows "runs (rk356x_display_init dev uart buffer m) (display_outcome m)"
proof -
  let ?v = "no_video\<lparr>video_mode := fixed_mode, stride := 7680\<rparr>"
  let ?m = "write_bytes m RK356X_FB_START (replicate 8294400 0)"
  have fb: "memset m RK356X_FB_START 0 8294400 = ?m" by (rule memset_write) simp
  have eq: "rk356x_display_init dev uart buffer m = (\<lambda>t. rk356x_display_clocks dev uart 148500 t \<bind> (\<lambda>(r, t).
      if r \<noteq> 0 then Some ((- 1, m, ?v), t)
      else hdmi_phy_setup dev uart buffer 148500 (hdmi_video_setup fixed_mode (rk356x_vop2_setup fixed_mode 7680 t)) \<bind> (\<lambda>(r, t).
        if r \<noteq> 0 then Some ((- 1, ?m, ?v), t) else Some ((0, ?m, ?v\<lparr>active := True\<rparr>), t))))"
    unfolding rk356x_display_init_def [abs_def] Let_def fb [symmetric] by (simp add: fixed_mode_def cong: if_cong)
  show ?thesis
    unfolding eq
    by (intro runs_bind [OF runs_display_clocks [OF assms]] runs_if runs_return
        runs_bind [OF runs_pre_same [OF runs_phy_setup [OF assms]]] grows_intros)
      (auto simp: ended_def display_outcome_def no_video_def)
qed

text \<open>C23. The set-up of the display returns, whatever the hardware answers, if only the timer runs and
  the UART gets ready. It reports success exactly when it marks the display as active, and
  only after the power domain was seen up, the pixel clock and the HDMI transmitter locked
  and the framebuffer cleared; it changes no memory outside the framebuffer.\<close>

theorem display_init_ready:
  assumes "timer_runs dev" and "uart_ready dev uart"
  shows "\<exists>x new. rk356x_display_init dev uart buffer m t = Some (x, new @ t) \<and> display_outcome m x new"
  using runs_display_init [OF assms] unfolding runs_def by blast

text \<open>A device whose UART is always ready, whose other registers read 0 and whose timer is the length
  of the history: the PLL never locks.\<close>

definition dark_device :: device where
  "dark_device = \<lparr>dev_rd = \<lambda>t a. if a = 0xfe660014 then 0x20 else 0, dev_time = \<lambda>t. of_nat (length t)\<rparr>"

lemma dark_device_runs: "timer_runs dark_device"
proof -
  have len: "length (after_times dev n t) = length t + n" for dev n t
    by (induction n arbitrary: t) (simp_all add: asm_get_cpu_timer_def)
  have "d \<le> dev_time dark_device (after_times dark_device (unat (d - of_nat (length t))) t)" for d t
    by (simp add: dark_device_def len)
  then show ?thesis unfolding timer_runs_def by blast
qed

lemma dark_device_ready: "uart_ready dark_device 0xfe660000"
  by (simp add: uart_ready_def dark_device_def)

lemma display_init_ready_witness:
  "\<exists>x new. rk356x_display_init dark_device 0xfe660000 (\<lambda>_. 0) (\<lambda>_. 1) [] = Some (x, new @ [])
     \<and> display_outcome (\<lambda>_. 1) x new"
  by (rule display_init_ready [OF dark_device_runs dark_device_ready])

end
