(* ===== verification/Rk356x.thy ===== *)
theory Rk356x
  imports Page_Tables Memmap Display Gpio
begin

text \<open>
  Platform code of the RK356x firmware: page tables, memory map, reset (src/rk356x/io.c), the
  UART's pins and clocks (src/rk356x/cru.c) and the security set-up (src/rk356x/sgrf.c).
  \<open>page_tables\<close> and \<open>_end_of_image\<close> are addresses the linker chooses, and arguments here.
\<close>

subsection \<open>The code\<close>

abbreviation (input) RK356X_SGRF :: addr where "RK356X_SGRF \<equiv> 0xfdd18000"
abbreviation (input) RK356X_UART2 :: addr where "RK356X_UART2 \<equiv> 0xfe660000"
abbreviation (input) RK356X_PAYLOAD :: u64 where "RK356X_PAYLOAD \<equiv> 0x00a00000"
abbreviation (input) RK356X_STACK_BOTTOM :: u64 where "RK356X_STACK_BOTTOM \<equiv> 0x07ff0000"
abbreviation (input) RK356X_DMA_START :: u64 where "RK356X_DMA_START \<equiv> 0x08000000"
abbreviation (input) RK356X_DMA_END :: u64 where "RK356X_DMA_END \<equiv> 0x08400000"

text \<open>The header in front of the payload (\<open>struct FuPayloadHeader\<close>), read from memory.\<close>

record payload_header =
  boot_code :: addr
  magic :: u32
  payload_flags :: u32
  payload_size :: u32
  relocation_addr :: u64

definition read_header :: "mem \<Rightarrow> addr \<Rightarrow> payload_header" where
  "read_header m h = \<lparr>boot_code = h, magic = ucast (load_le 4 m (h + 0x28)), payload_flags = ucast (load_le 4 m (h + 0x30)),
     payload_size = ucast (load_le 4 m (h + 0x34)), relocation_addr = load_le 8 m (h + 0x38)\<rparr>"

definition payload_end :: "mem \<Rightarrow> addr \<Rightarrow> u64" where
  "payload_end m end_of_image =
     (let header = read_header m end_of_image; fin = RK356X_PAYLOAD;
          fin = (if magic header = 0x08008135 \<and> payload_size header \<ge> 0x50
              \<and> ucast (payload_size header) < RK356X_STACK_BOTTOM - RK356X_PAYLOAD
            then fin + ucast (payload_size header) else fin)
      in (fin + 0xfff) AND NOT 0xfff)"

definition low_attr :: "u64 \<Rightarrow> u64" where
  "low_attr address = (if address \<ge> RK356X_DMA_START \<and> address < RK356X_DMA_END
     \<or> address \<ge> RK356X_FB_START \<and> address < RK356X_FB_END then 2 else 3)"

definition plat_setup_mmu :: "addr \<Rightarrow> mem \<Rightarrow> mem" where
  "plat_setup_mmu page_tables m =
     (let l1 = page_tables; low = page_tables + 4096; high = page_tables + 8192;
          m = memset m page_tables 0 12288;
          m = ttbl_table_entry m (l1 + 0 * 8) low;
          m = ttbl_block_1gb m (l1 + 1 * 8) 0x40000000 3;
          m = ttbl_block_1gb m (l1 + 2 * 8) 0x80000000 3;
          m = ttbl_table_entry m (l1 + 3 * 8) high;
          m = fold (\<lambda>i m. let address = push_bit 21 (of_nat i) in
             ttbl_block_2mb m (low + of_nat (i * 8)) address (low_attr address)) [0..<512] m
      in fold (\<lambda>i m. let address = 0xc0000000 + push_bit 21 (of_nat i) in
             ttbl_block_2mb m (high + of_nat (i * 8)) address (if address \<ge> RK356X_MMIO_START then 0 else 3)) [0..<512] m)"

definition plat_enable_mmu :: "addr \<Rightarrow> history \<Rightarrow> history" where
  "plat_enable_mmu page_tables t = EnableMMU # SetupTT 0x3520 0xeeff440400 page_tables # t"

text \<open>The bytes of \<open>struct FuMemoryMap\<close> with the items of a map. All its fields are set.\<close>

definition item_bytes :: "map_item \<Rightarrow> bytes" where
  "item_bytes it = le_bytes 8 (start_addr it) @ le_bytes 8 (end_addr it) @ le_bytes 4 (ucast (item_flags it))
     @ le_bytes 4 (ucast (pad2 it))"

definition map_bytes :: "map_item list \<Rightarrow> bytes" where
  "map_bytes items = le_bytes 4 (of_nat (length items)) @ le_bytes 4 0 @ concat (map item_bytes items)"

definition plat_get_mem_map :: "device \<Rightarrow> addr \<Rightarrow> addr \<Rightarrow> mem \<Rightarrow> dram_layout option \<times> history
    \<Rightarrow> map_item list \<times> mem \<times> dram_layout option \<times> history" where
  "plat_get_mem_map dev end_of_image buffer m s =
     (case rk356x_get_dram_layout dev m s of (l, s) \<Rightarrow>
        let items = rk356x_build_mem_map l (payload_end m end_of_image) in
        (items, write_bytes m buffer (map_bytes items), s))"

definition plat_get_uart_base :: addr where
  "plat_get_uart_base = RK356X_UART2"

definition plat_get_framebuffer :: "rk356x_video \<Rightarrow> addr" where
  "plat_get_framebuffer v = (if active v then RK356X_FB_START else 0)"

definition rk356x_ram_size :: "device \<Rightarrow> mem \<Rightarrow> dram_layout option \<times> history \<Rightarrow> u64 \<times> dram_layout option \<times> history" where
  "rk356x_ram_size dev m s = rk356x_detect_dram dev m s"

text \<open>The reset ends in \<open>halt\<close>.\<close>

definition plat_reset :: "history \<Rightarrow> history" where
  "plat_reset t =
     (let t = write32 (RK356X_PMUGRF + 0x200) 0xef08a53c t;
          t = Barrier # t;
          t = write32 (RK356X_CRU + 0xd4) 0xfdb9 t
      in Wfi # t)"

definition plat_shutdown :: "history \<Rightarrow> history" where
  "plat_shutdown t = plat_reset t"

definition rk356x_enable_uart :: "history \<Rightarrow> history" where
  "rk356x_enable_uart t =
     (let t = rk_clr_set_bits (RK356X_PMUGRF + 0x18) 2 0 1 t;
          t = rk_clr_set_bits (RK356X_PMUGRF + 0x18) 6 4 1 t;
          t = rk_clr_set_bits (RK356X_GRF + 0x30c) 11 10 0 t;
          t = rk_clr_set_bits (RK356X_CRU + (0x100 + 54 * 4)) 13 12 2 t;
          t = rk_clr_set_bits (RK356X_CRU + (0x300 + 26 * 4)) 1 1 0 t;
          t = rk_clr_set_bits (RK356X_CRU + (0x300 + 28 * 4)) 0 0 0 t;
          t = rk_clr_set_bits (RK356X_CRU + (0x300 + 28 * 4)) 3 3 0 t
      in rk_clr_set_bits (RK356X_CRU + (0x400 + 25 * 4)) 1 0 0 t)"

definition rk356x_setup_security :: "device \<Rightarrow> history \<Rightarrow> history" where
  "rk356x_setup_security dev t =
     (case read32 dev (RK356X_SGRF + 0x10) t of (v, t) \<Rightarrow>
        let v = v AND NOT (push_bit 11 3 OR push_bit 4 1) in write32 (RK356X_SGRF + 0x10) v t)"

subsection \<open>The page tables\<close>

lemma rk356x_setup_mmu_tables:
  "plat_setup_mmu pt m = identity_tables low_attr (\<lambda>a. if a \<ge> 0xf0000000 then 0 else 3) pt (memset m pt 0 12288)"
  by (simp add: plat_setup_mmu_def identity_tables_def Let_def ttbl_table_entry_def ttbl_block_1gb_def
      ttbl_block_2mb_def block_2mb_def add.assoc mult.commute del: upt_rec_numeral)

text \<open>The memory types: not cached for the DMA memory and the framebuffer, device memory from
  0xf0000000 on, cached for the rest.\<close>

definition memory_type :: "u64 \<Rightarrow> u64" where
  "memory_type a = (if a \<ge> 0xf0000000 then 0
     else if 0x08000000 \<le> a \<and> a < 0x08400000 \<or> 0x10000000 \<le> a \<and> a < 0x12000000 then 2 else 3)"

lemma rk356x_map_spec:
  assumes pt: "take_bit 12 pt = 0" "unat pt + 12288 \<le> 281474976710656" and va: "va < 0x100000000"
  shows "translate (plat_setup_mmu pt m) pt va = Some (va, memory_type va)"
proof -
  let ?hi = "\<lambda>a :: u64. if a \<ge> 0xf0000000 then 0 else 3 :: u64" and ?b = "push_bit 21 (drop_bit 21 va)"
  have b: "0xf0000000 \<le> ?b \<longleftrightarrow> 0xf0000000 \<le> va" "0x08000000 \<le> ?b \<longleftrightarrow> 0x08000000 \<le> va"
    "0x08400000 \<le> ?b \<longleftrightarrow> 0x08400000 \<le> va" "0x10000000 \<le> ?b \<longleftrightarrow> 0x10000000 \<le> va" "0x12000000 \<le> ?b \<longleftrightarrow> 0x12000000 \<le> va"
    by (rule block_bound [where n = 1920] block_bound [where n = 64] block_bound [where n = 66]
        block_bound [where n = 128] block_bound [where n = 144], simp)+
  have "low_attr ?b = low_attr va" "?hi ?b = ?hi va"
    unfolding low_attr_def not_le [symmetric] b by simp_all
  moreover have "low_attr a < 8" for a by (simp add: low_attr_def)
  ultimately show ?thesis
    unfolding rk356x_setup_mmu_tables using identity_tables_translate [OF pt va, of low_attr ?hi "memset m pt 0 12288"]
    by (auto simp: memory_type_def low_attr_def word_less_nat_alt word_le_nat_alt)
qed

text \<open>C12. The page tables of the RK356x firmware map every address below 4 GiB to itself: the DMA memory
  and the framebuffer as memory that is not cached, the devices from 0xf0000000 on as device
  memory and everything else as cached memory, if the tables are page aligned and below 2 to
  the 48.\<close>

theorem rk356x_identity_map:
  assumes "take_bit 12 pt = 0" and "unat pt + 12288 \<le> 281474976710656" and "va < 0x100000000"
  shows "translate (plat_setup_mmu pt m) pt va = Some (va, memory_type va)"
  by (rule rk356x_map_spec [OF assms])

lemma rk356x_identity_map_witness:
  "translate (plat_setup_mmu 0x4000 (\<lambda>_. 0xff)) 0x4000 0x10000004 = Some (0x10000004, 2)"
  using rk356x_identity_map [of "0x4000" "0x10000004" "\<lambda>_. 0xff"] by (simp add: memory_type_def)

end
