(* ===== verification/Ohci.thy ===== *)
theory Ohci
  imports Keyboard Console
begin

text \<open>
  The USB host controller driver (src/ohci.c): a state machine that brings a boot keyboard
  into use, one transition per poll, and then feeds its reports to Keyboard.

  The controller shares a block of memory with the driver; \<open>controller_dma\<close> is its content.
  The hardware changes it between two polls, in any way; within one poll it is taken as
  stable. The registers are read and written as events of Mmio, so the hardware may answer
  every access differently. Pointers the hardware gets are the lower halves of addresses.
\<close>

subsection \<open>Data\<close>

abbreviation (input) TD_CC :: u32 where "TD_CC \<equiv> 0xf0000000"
abbreviation (input) TD_DATA0 :: u32 where "TD_DATA0 \<equiv> 0x02000000"
abbreviation (input) TD_DATA1 :: u32 where "TD_DATA1 \<equiv> 0x03000000"
abbreviation (input) TD_ROUND :: u32 where "TD_ROUND \<equiv> 0x00040000"
abbreviation (input) TD_SETUP :: u32 where "TD_SETUP \<equiv> 0x00000000"
abbreviation (input) TD_OUT :: u32 where "TD_OUT \<equiv> 0x00080000"
abbreviation (input) TD_IN :: u32 where "TD_IN \<equiv> 0x00100000"
abbreviation (input) ED_LOWSPEED :: u32 where "ED_LOWSPEED \<equiv> 0x2000"
abbreviation (input) ED_SKIP :: u32 where "ED_SKIP \<equiv> 0x4000"
abbreviation (input) CTRL_PLE :: u32 where "CTRL_PLE \<equiv> 4"
abbreviation (input) CTRL_CLE :: u32 where "CTRL_CLE \<equiv> 0x10"
abbreviation (input) CTRL_OPERATIONAL :: u32 where "CTRL_OPERATIONAL \<equiv> 0x80"
abbreviation (input) CMD_RESET :: u32 where "CMD_RESET \<equiv> 1"
abbreviation (input) CMD_CLF :: u32 where "CMD_CLF \<equiv> 2"

text \<open>Offsets of the registers (\<open>struct OhciRegs\<close>) and of the fields of \<open>struct ControllerDma\<close>.\<close>

abbreviation (input) R_revision :: u64 where "R_revision \<equiv> 0x00"
abbreviation (input) R_control :: u64 where "R_control \<equiv> 0x04"
abbreviation (input) R_command_status :: u64 where "R_command_status \<equiv> 0x08"
abbreviation (input) R_interrupt_status :: u64 where "R_interrupt_status \<equiv> 0x0c"
abbreviation (input) R_interrupt_disable :: u64 where "R_interrupt_disable \<equiv> 0x14"
abbreviation (input) R_hcca :: u64 where "R_hcca \<equiv> 0x18"
abbreviation (input) R_control_head_ed :: u64 where "R_control_head_ed \<equiv> 0x20"
abbreviation (input) R_bulk_head_ed :: u64 where "R_bulk_head_ed \<equiv> 0x28"
abbreviation (input) R_frame_interval :: u64 where "R_frame_interval \<equiv> 0x34"
abbreviation (input) R_periodic_start :: u64 where "R_periodic_start \<equiv> 0x40"
abbreviation (input) R_ls_threshold :: u64 where "R_ls_threshold \<equiv> 0x44"
abbreviation (input) R_rh_descriptor_a :: u64 where "R_rh_descriptor_a \<equiv> 0x48"
abbreviation (input) R_rh_status :: u64 where "R_rh_status \<equiv> 0x50"
abbreviation (input) R_rh_port_status :: u64 where "R_rh_port_status \<equiv> 0x54"

abbreviation (input) D_hcca :: u64 where "D_hcca \<equiv> 0"
abbreviation (input) D_control_ed :: u64 where "D_control_ed \<equiv> 256"
abbreviation (input) D_control_td :: u64 where "D_control_td \<equiv> 272"
abbreviation (input) D_interrupt_ed :: u64 where "D_interrupt_ed \<equiv> 336"
abbreviation (input) D_interrupt_td :: u64 where "D_interrupt_td \<equiv> 352"
abbreviation (input) D_interrupt_tail :: u64 where "D_interrupt_tail \<equiv> 368"
abbreviation (input) D_setup :: u64 where "D_setup \<equiv> 384"
abbreviation (input) D_data :: u64 where "D_data \<equiv> 400"
abbreviation (input) D_report :: u64 where "D_report \<equiv> 912"
abbreviation (input) D_size :: u64 where "D_size \<equiv> 1024"

record ohci_ed =
  ed_info :: u32
  ed_tail :: u32
  ed_head :: u32
  ed_next :: u32

record ohci_td =
  td_info :: u32
  td_cbp :: u32
  td_next :: u32
  td_be :: u32

record controller_dma =
  interrupt_table :: "u32 list"
  hcca_done_head :: u32
  control_ed :: ohci_ed
  control_td :: "ohci_td list"
  interrupt_ed :: ohci_ed
  interrupt_td :: ohci_td
  interrupt_tail :: ohci_td
  setup_packet :: bytes
  dma_data :: bytes
  dma_report :: bytes

definition zero_ed :: ohci_ed where
  "zero_ed = \<lparr>ed_info = 0, ed_tail = 0, ed_head = 0, ed_next = 0\<rparr>"

definition zero_td :: ohci_td where
  "zero_td = \<lparr>td_info = 0, td_cbp = 0, td_next = 0, td_be = 0\<rparr>"

definition zero_dma :: controller_dma where
  "zero_dma = \<lparr>interrupt_table = replicate 32 0, hcca_done_head = 0, control_ed = zero_ed,
     control_td = replicate 4 zero_td, interrupt_ed = zero_ed, interrupt_td = zero_td,
     interrupt_tail = zero_td, setup_packet = replicate 8 0, dma_data = replicate 512 0,
     dma_report = replicate 8 0\<rparr>"

datatype enum_state =
    ENUM_SCAN | ENUM_POWER_WAIT | ENUM_RESET_WAIT | ENUM_GET_DEVICE | ENUM_SET_ADDRESS
  | ENUM_ADDRESS_WAIT | ENUM_GET_DEVICE_FULL | ENUM_GET_CONFIG_HEAD | ENUM_GET_CONFIG
  | ENUM_SET_CONFIG | ENUM_SET_PROTOCOL | ENUM_SET_IDLE

text \<open>\<open>dma_mem\<close> is what \<open>dma\<close> points to.\<close>

record controller =
  regs :: addr
  dma :: addr
  dma_mem :: controller_dma
  deadline :: u64
  retry_after :: u64
  dev_address :: u8
  port :: u8
  state :: enum_state
  configured :: bool
  low_speed :: bool
  control_packet :: u8
  endpoint :: u8
  interval :: u8
  max_packet :: u16
  interface_number :: u8

record usb_request =
  requesttype :: u8
  request :: u8
  req_value :: u16
  req_index :: u16
  req_length :: u16

record usb_boot_keyboard =
  kb_interface_number :: u8
  kb_endpoint :: u8
  kb_interval :: u8
  kb_max_packet :: u16

definition le16 :: "u16 \<Rightarrow> bytes" where
  "le16 v = [ucast v, ucast (drop_bit 8 v)]"

definition request_bytes :: "usb_request \<Rightarrow> bytes" where
  "request_bytes r = [requesttype r, request r] @ le16 (req_value r) @ le16 (req_index r) @ le16 (req_length r)"

subsection \<open>Configuration descriptors\<close>

definition le16_at :: "bytes \<Rightarrow> nat \<Rightarrow> u16" where
  "le16_at bs i = ucast (bs ! i) OR push_bit 8 (ucast (bs ! (i + 1)))"

text \<open>
  The loop over the descriptors from \<open>offset\<close> on; \<open>None\<close> is the result -1. The offsets are
  natural numbers: all callers pass at most 512 bytes.
\<close>

function find_from :: "bytes \<Rightarrow> nat \<Rightarrow> nat \<Rightarrow> bool \<Rightarrow> usb_boot_keyboard \<Rightarrow> usb_boot_keyboard option" where
  "find_from config len offset candidate keyboard =
     (if offset + 2 \<le> len then
        let dlen = unat (config ! offset); type = config ! (offset + 1) in
        if dlen < 2 \<or> offset + dlen > len then None
        else if type = 4 \<and> dlen \<ge> 9 then
          let candidate = (config ! (offset + 3) = 0 \<and> config ! (offset + 5) = 3
                \<and> config ! (offset + 6) = 1 \<and> config ! (offset + 7) = 1);
              keyboard = (if candidate then keyboard\<lparr>kb_interface_number := config ! (offset + 2)\<rparr> else keyboard) in
          find_from config len (offset + dlen) candidate keyboard
        else if candidate \<and> type = 5 \<and> dlen \<ge> 7 \<and> config ! (offset + 2) AND 0x80 \<noteq> 0
            \<and> config ! (offset + 3) AND 3 = 3 then
          let keyboard = keyboard\<lparr>kb_endpoint := config ! (offset + 2) AND 0x0f,
                kb_max_packet := le16_at config (offset + 4), kb_interval := config ! (offset + 6)\<rparr> in
          if kb_interval keyboard \<noteq> 0 \<and> kb_max_packet keyboard \<ge> 8 \<and> kb_max_packet keyboard \<le> 64
          then Some keyboard else None
        else find_from config len (offset + dlen) candidate keyboard
      else None)"
  by pat_completeness auto
termination by (relation "measure (\<lambda>(config, len, offset, candidate, keyboard). len - offset)") auto

declare find_from.simps [simp del]

definition usb_find_boot_keyboard :: "bytes \<Rightarrow> nat \<Rightarrow> usb_boot_keyboard option" where
  "usb_find_boot_keyboard config len = find_from config len 0 False
     \<lparr>kb_interface_number = 0, kb_endpoint = 0, kb_interval = 0, kb_max_packet = 0\<rparr>"

subsection \<open>Memory for the controllers\<close>

text \<open>The block that is handed out is also cleared; for a controller that is \<open>zero_dma\<close> below.\<close>

record dma_arena =
  dma_start :: u64
  dma_cursor :: u64
  dma_end :: u64

definition ohci_dma_alloc :: "u64 \<Rightarrow> u64 \<Rightarrow> dma_arena \<Rightarrow> addr option \<times> dma_arena" where
  "ohci_dma_alloc sz alignment a =
     (if alignment = 0 \<or> alignment AND (alignment - 1) \<noteq> 0 then (None, a)
      else let address = (dma_cursor a + alignment - 1) AND NOT (alignment - 1) in
        if address < dma_cursor a \<or> address > dma_end a \<or> sz > dma_end a - address then (None, a)
        else (Some address, a\<lparr>dma_cursor := address + sz\<rparr>))"

definition ohci_dma_contains :: "dma_arena \<Rightarrow> u64 \<Rightarrow> u64 \<Rightarrow> bool" where
  "ohci_dma_contains a address sz \<longleftrightarrow> address \<ge> dma_start a \<and> address \<le> dma_end a \<and> sz \<le> dma_end a - address"

subsection \<open>Transfers\<close>

definition ptr :: "addr \<Rightarrow> u32" where
  "ptr p = ucast p"

definition td_fill :: "u32 \<Rightarrow> u32 \<Rightarrow> u32 \<Rightarrow> u32 \<Rightarrow> ohci_td" where
  "td_fill info buffer len nxt = \<lparr>td_info = TD_CC OR info, td_cbp = (if len \<noteq> 0 then buffer else 0),
     td_next = nxt, td_be = (if len \<noteq> 0 then buffer + len - 1 else 0)\<rparr>"

definition td_addr :: "controller \<Rightarrow> u64 \<Rightarrow> u32" where
  "td_addr c i = ptr (dma c + D_control_td + 16 * i)"

text \<open>\<open>wait_clear\<close> reads the register and the timer in turn.\<close>

partial_function (option) wait_clear_until :: "device \<Rightarrow> addr \<Rightarrow> u32 \<Rightarrow> u64 \<Rightarrow> history \<Rightarrow> (int \<times> history) option" where
  "wait_clear_until dev a m limit t =
     (case read32 dev a t of (v, t) \<Rightarrow>
        if v AND m \<noteq> 0
        then (case asm_get_cpu_timer dev t of (now, t) \<Rightarrow>
          if now \<ge> limit then Some (- 1, t) else wait_clear_until dev a m limit t)
        else Some (0, t))"

definition wait_clear :: "device \<Rightarrow> addr \<Rightarrow> u32 \<Rightarrow> u32 \<Rightarrow> history \<Rightarrow> (int \<times> history) option" where
  "wait_clear dev a m timeout_ms t =
     (case asm_get_cpu_timer dev t of (now, t) \<Rightarrow> wait_clear_until dev a m (now + ucast timeout_ms * 1000) t)"

definition set_bits :: "device \<Rightarrow> addr \<Rightarrow> u32 \<Rightarrow> history \<Rightarrow> history" where
  "set_bits dev a bits t = (case read32 dev a t of (v, t) \<Rightarrow> write32 a (v OR bits) t)"

definition clear_bits :: "device \<Rightarrow> addr \<Rightarrow> u32 \<Rightarrow> history \<Rightarrow> history" where
  "clear_bits dev a bits t = (case read32 dev a t of (v, t) \<Rightarrow> write32 a (v AND NOT bits) t)"

text \<open>The descriptors of a control transfer: setup, data if there is any, status, and the tail.\<close>

definition control_tds :: "controller \<Rightarrow> usb_request \<Rightarrow> u32 \<Rightarrow> u32 \<Rightarrow> ohci_td list" where
  "control_tds c req buffer len =
     (let inp = (requesttype req AND 0x80 \<noteq> 0) in
      [td_fill (TD_SETUP OR TD_DATA0) (ptr (dma c + D_setup)) 8 (td_addr c (if len \<noteq> 0 then 1 else 2)),
       (if len \<noteq> 0 then td_fill ((if inp then TD_IN else TD_OUT) OR TD_DATA1 OR TD_ROUND) buffer len (td_addr c 2)
        else zero_td),
       td_fill ((if inp then TD_OUT else TD_IN) OR TD_DATA1) 0 0 (td_addr c 3),
       zero_td])"

definition control_submit :: "device \<Rightarrow> u8 \<Rightarrow> u16 \<Rightarrow> usb_request \<Rightarrow> u32 \<Rightarrow> u32 \<Rightarrow> bool
    \<Rightarrow> controller \<times> history \<Rightarrow> controller \<times> history" where
  "control_submit dev address maxp req buffer len low = (\<lambda>(c, t).
     let ed = \<lparr>ed_info = ucast address OR (if low then ED_LOWSPEED else 0) OR push_bit 16 (ucast maxp),
           ed_tail = td_addr c 3, ed_head = td_addr c 0, ed_next = 0\<rparr>;
         d = (dma_mem c)\<lparr>control_ed := ed, control_td := control_tds c req buffer len,
           setup_packet := request_bytes req\<rparr>;
         t = write32 (regs c + R_control_head_ed) (ptr (dma c + D_control_ed)) t;
         t = set_bits dev (regs c + R_control) CTRL_CLE t;
         t = write32 (regs c + R_command_status) CMD_CLF t;
         (now, t) = asm_get_cpu_timer dev t in
     (c\<lparr>dma_mem := d, deadline := now + 100000\<rparr>, t))"

text \<open>0 is pending, 1 success, -1 failed or timed out. The timer is read only when it decides.\<close>

definition skip_control :: "controller \<Rightarrow> controller" where
  "skip_control c = c\<lparr>dma_mem := (dma_mem c)\<lparr>control_ed := (control_ed (dma_mem c))
     \<lparr>ed_info := ed_info (control_ed (dma_mem c)) OR ED_SKIP\<rparr>\<rparr>\<rparr>"

definition control_status :: "device \<Rightarrow> controller \<times> history \<Rightarrow> int \<times> controller \<times> history" where
  "control_status dev = (\<lambda>(c, t).
     let condition = drop_bit 28 (td_info (control_td (dma_mem c) ! 2));
         (pending, t) = (if condition = 0xf
           then (case asm_get_cpu_timer dev t of (now, t) \<Rightarrow> (now < deadline c, t)) else (False, t)) in
     if pending then (0, c, t)
     else (if condition = 0 then 1 else - 1, skip_control c, t))"

definition request_submit :: "device \<Rightarrow> u8 \<Rightarrow> u8 \<Rightarrow> u8 \<Rightarrow> u16 \<Rightarrow> u16 \<Rightarrow> u32 \<Rightarrow> u16 \<Rightarrow> u16 \<Rightarrow> bool
    \<Rightarrow> controller \<times> history \<Rightarrow> controller \<times> history" where
  "request_submit dev address type command val ind buffer len maxp low =
     control_submit dev address maxp
       \<lparr>requesttype = type, request = command, req_value = val, req_index = ind, req_length = len\<rparr>
       buffer (ucast len) low"

subsection \<open>Starting and stopping the periodic transfer\<close>

text \<open>Stopping also resets the keyboard, which is the last component of the state.\<close>

definition periodic_stop :: "device \<Rightarrow> controller \<times> history \<times> keyboard \<Rightarrow> controller \<times> history \<times> keyboard" where
  "periodic_stop dev = (\<lambda>(c, t, kb).
     let d = (dma_mem c)\<lparr>interrupt_ed := (interrupt_ed (dma_mem c))
               \<lparr>ed_info := ed_info (interrupt_ed (dma_mem c)) OR ED_SKIP\<rparr>, interrupt_table := replicate 32 0\<rparr>;
         t = clear_bits dev (regs c + R_control) CTRL_PLE t;
         (now, t) = asm_get_cpu_timer dev t in
     (c\<lparr>dma_mem := d, configured := False, state := ENUM_SCAN, retry_after := now + 500000\<rparr>, t,
      hid_keyboard_reset kb))"

definition enumeration_fail :: "device \<Rightarrow> controller \<times> history \<Rightarrow> controller \<times> history" where
  "enumeration_fail dev = (\<lambda>(c, t).
     let (now, t) = asm_get_cpu_timer dev t in
     ((skip_control c)\<lparr>state := ENUM_SCAN, dev_address := 0, retry_after := now + 500000\<rparr>, t))"

text \<open>\<open>while (period < c->interval && period < 32) period <<= 1\<close>, which is only called with 1; the
  loop would not end from 0.\<close>

function poll_period :: "u8 \<Rightarrow> nat \<Rightarrow> nat" where
  "poll_period iv period = (if period < unat iv \<and> period < 32 \<and> 0 < period then poll_period iv (2 * period) else period)"
  by pat_completeness auto
termination by (relation "measure (\<lambda>(iv, period). 32 - period)") auto

declare poll_period.simps [simp del]

definition report_td :: "controller \<Rightarrow> ohci_td" where
  "report_td c = td_fill (TD_IN OR TD_ROUND) (ptr (dma c + D_report)) 8 (ptr (dma c + D_interrupt_tail))"

definition periodic_start :: "device \<Rightarrow> controller \<times> history \<Rightarrow> controller \<times> history" where
  "periodic_start dev = (\<lambda>(c, t).
     let period = poll_period (interval c) 1;
         ed = \<lparr>ed_info = ucast (dev_address c) OR push_bit 7 (ucast (endpoint c)) OR push_bit 11 2
               OR (if low_speed c then ED_LOWSPEED else 0) OR push_bit 16 (ucast (max_packet c)),
             ed_tail = ptr (dma c + D_interrupt_tail), ed_head = ptr (dma c + D_interrupt_td), ed_next = 0\<rparr>;
         d = (dma_mem c)\<lparr>dma_report := replicate 8 0, interrupt_ed := ed, interrupt_td := report_td c,
           interrupt_tail := zero_td,
           interrupt_table := map (\<lambda>i. if (of_nat i :: u32) AND (of_nat period - 1) \<noteq> 0 then 0 else ptr (dma c + D_interrupt_ed)) [0..<32]\<rparr>;
         t = set_bits dev (regs c + R_control) CTRL_PLE t in
     (c\<lparr>dma_mem := d, configured := True\<rparr>, t))"

subsection \<open>One step of the enumeration\<close>

abbreviation (input) port_status :: "controller \<Rightarrow> addr" where
  "port_status c \<equiv> regs c + R_rh_port_status + 4 * ucast (port c)"

primrec scan_ports :: "device \<Rightarrow> u64 \<Rightarrow> nat list \<Rightarrow> controller \<times> history \<Rightarrow> controller \<times> history" where
  "scan_ports dev now [] s = s"
| "scan_ports dev now (p # ports) s = (case s of (c, t) \<Rightarrow>
     case read32 dev (regs c + R_rh_port_status + 4 * of_nat p) t of (v, t) \<Rightarrow>
       if v AND 1 = 0 then scan_ports dev now ports (c, t)
       else (c\<lparr>port := of_nat p, deadline := now + 20000, state := ENUM_POWER_WAIT\<rparr>,
         write32 (regs c + R_rh_port_status + 4 * of_nat p) 0x100 t))"

definition step_scan :: "device \<Rightarrow> u64 \<Rightarrow> controller \<times> history \<Rightarrow> controller \<times> history" where
  "step_scan dev now = (\<lambda>(c, t).
     if now < retry_after c then (c, t)
     else case read32 dev (regs c + R_rh_descriptor_a) t of (a, t) \<Rightarrow>
       let ports = unat (a AND 0xff); ports = (if ports > 15 then 15 else ports) in
       scan_ports dev now [0..<ports] (c, t))"

definition step_power_wait :: "u64 \<Rightarrow> controller \<times> history \<Rightarrow> controller \<times> history" where
  "step_power_wait now = (\<lambda>(c, t).
     if now < deadline c then (c, t)
     else (c\<lparr>deadline := now + 100000, state := ENUM_RESET_WAIT\<rparr>, write32 (port_status c) 0x10 t))"

text \<open>\<open>data\<close>, the buffer of the control transfers, as the hardware sees it.\<close>

abbreviation (input) data_ptr :: "controller \<Rightarrow> u32" where "data_ptr c \<equiv> ptr (dma c + D_data)"

definition step_reset_wait :: "device \<Rightarrow> u64 \<Rightarrow> controller \<times> history \<Rightarrow> controller \<times> history" where
  "step_reset_wait dev now = (\<lambda>(c, t).
     case read32 dev (port_status c) t of (v, t) \<Rightarrow>
     if v AND 0x10 \<noteq> 0 then (if now \<ge> deadline c then enumeration_fail dev (c, t) else (c, t))
     else let t = write32 (port_status c) (0x100000 OR 0x20000 OR 0x10000) t; (v, t) = read32 dev (port_status c) t in
       if v AND 3 \<noteq> 3 then enumeration_fail dev (c, t)
       else let (v, t) = read32 dev (port_status c) t;
                c = c\<lparr>low_speed := v AND 0x200 \<noteq> 0, control_packet := 8\<rparr>;
                (c, t) = request_submit dev 0 0x80 6 0x100 0 (data_ptr c) 8 8 (low_speed c) (c, t) in
         (c\<lparr>state := ENUM_GET_DEVICE\<rparr>, t))"

text \<open>\<open>n\<close> is the index of the controller in the array.\<close>

definition step_get_device :: "device \<Rightarrow> nat \<Rightarrow> controller \<times> history \<Rightarrow> controller \<times> history" where
  "step_get_device dev n s =
     (case control_status dev s of (status, c, t) \<Rightarrow>
        let b = dma_data (dma_mem c) ! 7 in
        if status = 0 then (c, t)
        else if status < 0 \<or> b \<notin> {8, 16, 32, 64} then enumeration_fail dev (c, t)
        else let c = c\<lparr>control_packet := b, dev_address := of_nat (n + 1)\<rparr>;
                 (c, t) = request_submit dev 0 0 5 (ucast (dev_address c)) 0 0 0 (ucast (control_packet c))
                   (low_speed c) (c, t) in
          (c\<lparr>state := ENUM_SET_ADDRESS\<rparr>, t))"

definition step_set_address :: "device \<Rightarrow> u64 \<Rightarrow> controller \<times> history \<Rightarrow> controller \<times> history" where
  "step_set_address dev now s =
     (case control_status dev s of (status, c, t) \<Rightarrow>
        if status = 0 then (c, t)
        else if status < 0 then enumeration_fail dev (c, t)
        else (c\<lparr>deadline := now + 2000, state := ENUM_ADDRESS_WAIT\<rparr>, t))"

text \<open>A standard request for a descriptor of the device, answered into \<open>data\<close>.\<close>

definition get_descriptor :: "device \<Rightarrow> u16 \<Rightarrow> u16 \<Rightarrow> enum_state \<Rightarrow> controller \<times> history \<Rightarrow> controller \<times> history" where
  "get_descriptor dev val len st = (\<lambda>(c, t).
     let (c, t) = request_submit dev (dev_address c) 0x80 6 val 0 (data_ptr c) len (ucast (control_packet c))
       (low_speed c) (c, t) in
     (c\<lparr>state := st\<rparr>, t))"

definition step_address_wait :: "device \<Rightarrow> u64 \<Rightarrow> controller \<times> history \<Rightarrow> controller \<times> history" where
  "step_address_wait dev now = (\<lambda>(c, t).
     if now < deadline c then (c, t) else get_descriptor dev 0x100 18 ENUM_GET_DEVICE_FULL (c, t))"

definition step_get_device_full :: "device \<Rightarrow> addr \<Rightarrow> (int \<Rightarrow> u8) \<Rightarrow> controller \<times> history
    \<Rightarrow> (controller \<times> history) option" where
  "step_get_device_full dev uart buffer s =
     (case control_status dev s of (status, c, t) \<Rightarrow>
        let d = dma_data (dma_mem c) in
        if status = 0 then Some (c, t)
        else if status < 0 \<or> d ! 0 < 18 \<or> d ! 1 \<noteq> 1 then Some (enumeration_fail dev (c, t))
        else do {
          t \<leftarrow> debug dev uart buffer (chars ''USB VID: '') (ucast (le16_at d 8)) t;
          t \<leftarrow> debug dev uart buffer (chars ''USB PID: '') (ucast (le16_at d 10)) t;
          Some (get_descriptor dev 0x200 9 ENUM_GET_CONFIG_HEAD (c, t))
        })"

definition step_get_config_head :: "device \<Rightarrow> controller \<times> history \<Rightarrow> controller \<times> history" where
  "step_get_config_head dev s =
     (case control_status dev s of (status, c, t) \<Rightarrow>
        let tot = le16_at (dma_data (dma_mem c)) 2 in
        if status = 0 then (c, t)
        else if status < 0 \<or> tot < 9 \<or> tot > 512 then enumeration_fail dev (c, t)
        else get_descriptor dev 0x200 tot ENUM_GET_CONFIG (c, t))"

definition step_get_config :: "device \<Rightarrow> controller \<times> history \<Rightarrow> controller \<times> history" where
  "step_get_config dev s =
     (case control_status dev s of (status, c, t) \<Rightarrow>
        let d = dma_data (dma_mem c); tot = le16_at d 2 in
        if status = 0 then (c, t)
        else if status < 0 \<or> tot < 9 \<or> tot > 512 then enumeration_fail dev (c, t)
        else case usb_find_boot_keyboard d (unat tot) of
          None \<Rightarrow> enumeration_fail dev (c, t)
        | Some k \<Rightarrow>
            if d ! 5 = 0 then enumeration_fail dev (c, t)
            else let c = c\<lparr>endpoint := kb_endpoint k, interval := kb_interval k, max_packet := kb_max_packet k,
                       interface_number := kb_interface_number k\<rparr>;
                     (c, t) = request_submit dev (dev_address c) 0 9 (ucast (d ! 5)) 0 0 0 (ucast (control_packet c))
                       (low_speed c) (c, t) in
              (c\<lparr>state := ENUM_SET_CONFIG\<rparr>, t))"

text \<open>The two class requests to the interface, SET_PROTOCOL and SET_IDLE.\<close>

definition step_class_request :: "device \<Rightarrow> u8 \<Rightarrow> enum_state \<Rightarrow> controller \<times> history \<Rightarrow> controller \<times> history" where
  "step_class_request dev command st s =
     (case control_status dev s of (status, c, t) \<Rightarrow>
        if status = 0 then (c, t)
        else if status < 0 then enumeration_fail dev (c, t)
        else let (c, t) = request_submit dev (dev_address c) 0x21 command 0 (ucast (interface_number c)) 0 0
                   (ucast (control_packet c)) (low_speed c) (c, t) in
          (c\<lparr>state := st\<rparr>, t))"

definition step_set_idle :: "device \<Rightarrow> addr \<Rightarrow> controller \<times> history \<Rightarrow> (controller \<times> history) option" where
  "step_set_idle dev uart s =
     (case control_status dev s of (status, c, t) \<Rightarrow>
        if status = 0 then Some (c, t)
        else if status < 0 then Some (enumeration_fail dev (c, t))
        else do {
          t \<leftarrow> puts dev uart (chars ''USB HID boot keyboard ready'') t;
          Some (periodic_start dev (c, t))
        })"

definition enumerate_step :: "device \<Rightarrow> addr \<Rightarrow> (int \<Rightarrow> u8) \<Rightarrow> nat \<Rightarrow> controller \<times> history
    \<Rightarrow> (controller \<times> history) option" where
  "enumerate_step dev uart buffer n = (\<lambda>(c, t).
     let (now, t) = asm_get_cpu_timer dev t in
     if state c = ENUM_SCAN then Some (step_scan dev now (c, t))
     else case read32 dev (port_status c) t of (v, t) \<Rightarrow>
       if v AND 1 = 0 then Some (c\<lparr>state := ENUM_SCAN, retry_after := 0\<rparr>, t)
       else case state c of
         ENUM_SCAN \<Rightarrow> Some (enumeration_fail dev (c, t))
       | ENUM_POWER_WAIT \<Rightarrow> Some (step_power_wait now (c, t))
       | ENUM_RESET_WAIT \<Rightarrow> Some (step_reset_wait dev now (c, t))
       | ENUM_GET_DEVICE \<Rightarrow> Some (step_get_device dev n (c, t))
       | ENUM_SET_ADDRESS \<Rightarrow> Some (step_set_address dev now (c, t))
       | ENUM_ADDRESS_WAIT \<Rightarrow> Some (step_address_wait dev now (c, t))
       | ENUM_GET_DEVICE_FULL \<Rightarrow> step_get_device_full dev uart buffer (c, t)
       | ENUM_GET_CONFIG_HEAD \<Rightarrow> Some (step_get_config_head dev (c, t))
       | ENUM_GET_CONFIG \<Rightarrow> Some (step_get_config dev (c, t))
       | ENUM_SET_CONFIG \<Rightarrow> Some (step_class_request dev 0x0b ENUM_SET_PROTOCOL (c, t))
       | ENUM_SET_PROTOCOL \<Rightarrow> Some (step_class_request dev 0x0a ENUM_SET_IDLE (c, t))
       | ENUM_SET_IDLE \<Rightarrow> step_set_idle dev uart (c, t))"

subsection \<open>Polling\<close>

definition periodic_poll :: "device \<Rightarrow> controller \<times> history \<times> keyboard \<times> input_state
    \<Rightarrow> controller \<times> history \<times> keyboard \<times> input_state" where
  "periodic_poll dev = (\<lambda>(c, t, kb, q).
     let d = dma_mem c; cc = drop_bit 28 (td_info (interrupt_td d)) in
     if cc = 0xf then (c, t, kb, q)
     else if cc \<noteq> 0 then (case periodic_stop dev (c, t, kb) of (c, t, kb) \<Rightarrow> (c, t, kb, q))
     else let (kb, q) = hid_keyboard_report (dma_report d) (kb, q);
              info = (ed_info (interrupt_ed d) OR ED_SKIP) AND NOT ED_SKIP;
              ed = (interrupt_ed d)\<lparr>ed_info := info,
                ed_head := ptr (dma c + D_interrupt_td) OR (ed_head (interrupt_ed d) AND 2),
                ed_tail := ptr (dma c + D_interrupt_tail)\<rparr> in
       (c\<lparr>dma_mem := d\<lparr>hcca_done_head := 0, dma_report := replicate 8 0, interrupt_td := report_td c,
          interrupt_ed := ed\<rparr>\<rparr>, t, kb, q))"

text \<open>The drivers' state: the controllers in use, the first \<open>controller_count\<close> of the array.\<close>

definition poll_controller :: "device \<Rightarrow> addr \<Rightarrow> (int \<Rightarrow> u8) \<Rightarrow> nat \<Rightarrow> controller \<times> history \<times> keyboard \<times> input_state
    \<Rightarrow> (controller \<times> history \<times> keyboard \<times> input_state) option" where
  "poll_controller dev uart buffer n = (\<lambda>(c, t, kb, q).
     if configured c then
       (case read32 dev (port_status c) t of (v, t) \<Rightarrow>
          if v AND 1 = 0 then (case periodic_stop dev (c, t, kb) of (c, t, kb) \<Rightarrow> Some (c, t, kb, q))
          else Some (periodic_poll dev (c, t, kb, q)))
     else do {
       (c, t) \<leftarrow> enumerate_step dev uart buffer n (c, t);
       Some (c, t, kb, q)
     })"

primrec poll_from :: "device \<Rightarrow> addr \<Rightarrow> (int \<Rightarrow> u8) \<Rightarrow> nat list \<Rightarrow> controller list \<times> history \<times> keyboard \<times> input_state
    \<Rightarrow> (controller list \<times> history \<times> keyboard \<times> input_state) option" where
  "poll_from dev uart buffer [] s = Some s"
| "poll_from dev uart buffer (n # ns) s = (case s of (cs, t, kb, q) \<Rightarrow> do {
     (c, t, kb, q) \<leftarrow> poll_controller dev uart buffer n (cs ! n, t, kb, q);
     poll_from dev uart buffer ns (cs[n := c], t, kb, q)
   })"

record ohci_driver =
  arena :: dma_arena
  controllers :: "controller list"
  controller_count :: nat

definition zero_controller :: controller where
  "zero_controller = \<lparr>regs = 0, dma = 0, dma_mem = zero_dma, deadline = 0, retry_after = 0, dev_address = 0,
     port = 0, state = ENUM_SCAN, configured = False, low_speed = False, control_packet = 0, endpoint = 0,
     interval = 0, max_packet = 0, interface_number = 0\<rparr>"

definition ohci_dma_configure :: "u64 \<Rightarrow> u64 \<Rightarrow> ohci_driver" where
  "ohci_dma_configure start fin = \<lparr>arena = \<lparr>dma_start = start, dma_cursor = start, dma_end = fin\<rparr>,
     controllers = replicate 2 zero_controller, controller_count = 0\<rparr>"

definition ohci_poll_all :: "device \<Rightarrow> addr \<Rightarrow> (int \<Rightarrow> u8) \<Rightarrow> ohci_driver \<times> history \<times> keyboard \<times> input_state
    \<Rightarrow> (ohci_driver \<times> history \<times> keyboard \<times> input_state) option" where
  "ohci_poll_all dev uart buffer = (\<lambda>(drv, t, kb, q). do {
     (cs, t, kb, q) \<leftarrow> poll_from dev uart buffer [0..<controller_count drv] (controllers drv, t, kb, q);
     Some (drv\<lparr>controllers := cs\<rparr>, t, kb, q)
   })"

definition ohci_add_controller :: "device \<Rightarrow> addr \<Rightarrow> ohci_driver \<times> history \<Rightarrow> (int \<times> ohci_driver \<times> history) option" where
  "ohci_add_controller dev base = (\<lambda>(drv, t).
     if controller_count drv \<ge> 2 then Some (- 1, drv, t)
     else let n = controller_count drv; c = zero_controller\<lparr>regs := base\<rparr>;
              drv = drv\<lparr>controllers := (controllers drv)[n := c]\<rparr>; (v, t) = read32 dev (base + R_revision) t in
       if v AND 0xff \<noteq> 0x10 then Some (- 1, drv, t)
       else case ohci_dma_alloc D_size 256 (arena drv) of
         (None, a) \<Rightarrow> Some (- 1, drv\<lparr>arena := a\<rparr>, t)
       | (Some p, a) \<Rightarrow>
           let drv = drv\<lparr>arena := a, controllers := (controllers drv)[n := c\<lparr>dma := p, dma_mem := zero_dma\<rparr>]\<rparr>;
               t = write32 (base + R_interrupt_disable) 0xffffffff t;
               t = write32 (base + R_control) 0 t;
               t = write32 (base + R_command_status) CMD_RESET t in
           (case wait_clear dev (base + R_command_status) CMD_RESET 20 t of
              None \<Rightarrow> None
            | Some (r, t) \<Rightarrow>
                if r \<noteq> 0 then Some (- 1, drv, t)
                else let t = write32 (base + R_hcca) (ptr (p + D_hcca)) t;
                         t = write32 (base + R_control_head_ed) 0 t;
                         t = write32 (base + R_bulk_head_ed) 0 t;
                         t = write32 (base + R_frame_interval)
                               (0x80000000 OR push_bit 16 ((6 * (11999 - 210)) div 7) OR 11999) t;
                         t = write32 (base + R_periodic_start) ((0x2edf * 9) div 10) t;
                         t = write32 (base + R_ls_threshold) 0x628 t;
                         t = write32 (base + R_interrupt_status) 0xffffffff t;
                         t = write32 (base + R_rh_status) 0x10000 t;
                         t = write32 (base + R_control) (CTRL_OPERATIONAL OR 3) t in
                  Some (0, drv\<lparr>controller_count := n + 1\<rparr>, t)))"

definition setup_ohci :: "device \<Rightarrow> addr \<Rightarrow> ohci_driver \<times> history \<Rightarrow> (int \<times> ohci_driver \<times> history) option" where
  "setup_ohci = ohci_add_controller"

subsection \<open>What the search for a keyboard finds\<close>

text \<open>A usable keyboard: its numbers come from an interface descriptor and an endpoint
  descriptor behind it, both inside the given bytes.\<close>

definition usable_keyboard :: "usb_boot_keyboard \<Rightarrow> bool" where
  "usable_keyboard k \<longleftrightarrow> kb_endpoint k \<le> 15 \<and> kb_interval k \<noteq> 0 \<and> 8 \<le> kb_max_packet k \<and> kb_max_packet k \<le> 64"

definition interface_at :: "bytes \<Rightarrow> nat \<Rightarrow> u8 \<Rightarrow> bool" where
  "interface_at d i number \<longleftrightarrow> 9 \<le> d ! i \<and> d ! (i + 1) = 4 \<and> d ! (i + 2) = number \<and> d ! (i + 3) = 0
     \<and> d ! (i + 5) = 3 \<and> d ! (i + 6) = 1 \<and> d ! (i + 7) = 1"

definition endpoint_at :: "bytes \<Rightarrow> nat \<Rightarrow> usb_boot_keyboard \<Rightarrow> bool" where
  "endpoint_at d e k \<longleftrightarrow> 7 \<le> d ! e \<and> d ! (e + 1) = 5 \<and> d ! (e + 2) AND 0x80 \<noteq> 0 \<and> d ! (e + 3) AND 3 = 3
     \<and> kb_endpoint k = d ! (e + 2) AND 0x0f \<and> kb_max_packet k = le16_at d (e + 4) \<and> kb_interval k = d ! (e + 6)"

lemma find_from_Some:
  "find_from config len offset candidate keyboard = Some k \<Longrightarrow>
   (candidate \<Longrightarrow> \<exists>i. i + 9 \<le> offset \<and> interface_at config i (kb_interface_number keyboard)) \<Longrightarrow>
   usable_keyboard k \<and> (\<exists>i e. i + 9 \<le> e \<and> e + 7 \<le> len \<and> interface_at config i (kb_interface_number k) \<and> endpoint_at config e k)"
proof (induction config len offset candidate keyboard rule: find_from.induct)
  case (1 config len offset candidate keyboard)
  define dlen where "dlen = unat (config ! offset)"
  define type where "type = config ! (offset + 1)"
  have ok: "offset + 2 \<le> len" "\<not> (dlen < 2 \<or> offset + dlen > len)"
    using 1(3) by (auto simp: find_from.simps [of config len offset] Let_def dlen_def split: if_splits)
  note step = find_from.simps [of config len offset candidate keyboard, unfolded Let_def, folded dlen_def type_def]
  show ?case
  proof (cases "type = 4 \<and> dlen \<ge> 9")
    case True
    define cand where "cand \<longleftrightarrow> config ! (offset + 3) = 0 \<and> config ! (offset + 5) = 3
      \<and> config ! (offset + 6) = 1 \<and> config ! (offset + 7) = 1"
    define kb where "kb = (if cand then keyboard\<lparr>kb_interface_number := config ! (offset + 2)\<rparr> else keyboard)"
    have "find_from config len (offset + dlen) cand kb = Some k"
      using 1(3) ok True unfolding step cand_def kb_def by simp
    moreover have "\<exists>i. i + 9 \<le> offset + dlen \<and> interface_at config i (kb_interface_number kb)" if cand
      using that True unfolding kb_def
      by (intro exI [of _ offset]) (simp add: interface_at_def cand_def dlen_def type_def word_le_nat_alt)
    ultimately show ?thesis
      using 1(1) [OF ok(1) refl refl ok(2) [unfolded dlen_def] True [unfolded dlen_def type_def] refl refl]
      unfolding cand_def kb_def dlen_def by blast
  next
    case False
    show ?thesis
    proof (cases "candidate \<and> type = 5 \<and> dlen \<ge> 7 \<and> config ! (offset + 2) AND 0x80 \<noteq> 0 \<and> config ! (offset + 3) AND 3 = 3")
      case True
      define kb where "kb = keyboard\<lparr>kb_endpoint := config ! (offset + 2) AND 0x0f,
                kb_max_packet := le16_at config (offset + 4), kb_interval := config ! (offset + 6)\<rparr>"
      have k: "k = kb" "kb_interval kb \<noteq> 0" "8 \<le> kb_max_packet kb" "kb_max_packet kb \<le> 64"
        using 1(3) ok False True unfolding step kb_def by (simp_all split: if_splits)
      have "config ! (offset + 2) AND 0x0f \<le> (15 :: u8)" by (rule word_and_le1)
      then have "usable_keyboard k" using k by (simp add: usable_keyboard_def kb_def)
      moreover have "endpoint_at config offset k"
        using True by (simp add: endpoint_at_def k(1) kb_def dlen_def type_def word_le_nat_alt)
      moreover have "offset + 7 \<le> len" using ok(2) True by simp
      moreover obtain i where "i + 9 \<le> offset" "interface_at config i (kb_interface_number keyboard)"
        using 1(4) True by blast
      ultimately show ?thesis unfolding k(1) kb_def by auto
    next
      case other: False
      have "find_from config len (offset + dlen) candidate keyboard = Some k"
        using 1(3) ok False other unfolding step by (simp del: de_Morgan_conj split: if_splits)
      moreover have "\<exists>i. i + 9 \<le> offset + dlen \<and> interface_at config i (kb_interface_number keyboard)" if candidate
        using 1(4) [OF that] by (auto intro: trans_le_add1)
      ultimately show ?thesis
        using 1(2) [OF ok(1) refl refl ok(2) [unfolded dlen_def] False [unfolded dlen_def type_def]
            other [unfolded dlen_def type_def]]
        unfolding dlen_def by blast
    qed
  qed
qed

lemma usb_find_usable: "usb_find_boot_keyboard config len = Some k \<Longrightarrow> usable_keyboard k"
  unfolding usb_find_boot_keyboard_def by (drule find_from_Some) simp_all

text \<open>No byte behind the given length matters.\<close>

lemma find_from_take:
  "find_from (take len config) len offset candidate keyboard = find_from config len offset candidate keyboard"
proof (induction config len offset candidate keyboard rule: find_from.induct)
  case (1 config len offset candidate keyboard)
  show ?case
  proof (cases "offset + 2 \<le> len")
    case True
    then have b: "take len config ! offset = config ! offset" "take len config ! (offset + 1) = config ! (offset + 1)"
      by simp_all
    show ?thesis
    proof (cases "unat (config ! offset) < 2 \<or> offset + unat (config ! offset) > len")
      case True
      then show ?thesis by (simp add: find_from.simps [of _ len offset] Let_def b)
    next
      case False
      have i: "take len config ! (offset + j) = config ! (offset + j)" if "j < unat (config ! offset)" for j
        using that False by simp
      note steps = find_from.simps [of "take len config" len offset candidate keyboard]
        find_from.simps [of config len offset candidate keyboard]
      show ?thesis
      proof (cases "config ! (offset + 1) = 4 \<and> unat (config ! offset) \<ge> 9")
        case iface: True
        then have e: "take len config ! (offset + 2) = config ! (offset + 2)" "take len config ! (offset + 3) = config ! (offset + 3)"
          "take len config ! (offset + 5) = config ! (offset + 5)" "take len config ! (offset + 6) = config ! (offset + 6)"
          "take len config ! (offset + 7) = config ! (offset + 7)"
          using i [of 2] i [of 3] i [of 5] i [of 6] i [of 7] by (simp_all del: nth_take)
        then show ?thesis
          using 1(1) [OF True refl refl False iface refl refl]
          unfolding steps Let_def b e if_P [OF True] if_not_P [OF False] if_P [OF iface] by simp
      next
        case no_iface: False
        show ?thesis
        proof (cases "7 \<le> unat (config ! offset)")
          case seven: True
          have e: "take len config ! (offset + 2) = config ! (offset + 2)" "take len config ! (offset + 3) = config ! (offset + 3)"
            "le16_at (take len config) (offset + 4) = le16_at config (offset + 4)"
            "take len config ! (offset + 6) = config ! (offset + 6)"
            using i [of 2] i [of 3] i [of 4] i [of 5] i [of 6] seven
            by (simp_all add: le16_at_def add.commute [of 5] del: nth_take)
          show ?thesis
            using 1(2) [OF True refl refl False no_iface]
            unfolding steps Let_def b e if_P [OF True] if_not_P [OF False] if_not_P [OF no_iface]
            by (simp del: nth_take)
        next
          case short: False
          show ?thesis
            using 1(2) [OF True refl refl False no_iface] short
            unfolding steps Let_def b if_P [OF True] if_not_P [OF False] if_not_P [OF no_iface]
            by (simp del: nth_take)
        qed
      qed
    qed
  qed (simp add: find_from.simps [of _ len offset])
qed

text \<open>C19. What usb_find_boot_keyboard returns depends on the given bytes only, and a keyboard it finds
  is usable: endpoint below 16, interval not zero, packets of 8 to 64 bytes, taken from an
  interrupt endpoint behind the interface descriptor of a boot keyboard, both complete
  inside the given bytes.\<close>

theorem find_boot_keyboard_sound:
  "usb_find_boot_keyboard (take len config) len = usb_find_boot_keyboard config len \<and>
   (case usb_find_boot_keyboard config len of
      None \<Rightarrow> True
    | Some k \<Rightarrow> usable_keyboard k \<and> (\<exists>i e. i + 9 \<le> e \<and> e + 7 \<le> len
        \<and> interface_at config i (kb_interface_number k) \<and> endpoint_at config e k))"
  using find_from_Some [of config len 0 False "\<lparr>kb_interface_number = 0, kb_endpoint = 0, kb_interval = 0, kb_max_packet = 0\<rparr>"]
  by (auto simp: usb_find_boot_keyboard_def find_from_take split: option.split)

end
