(* ===== verification/Ohci_Safe.thy ===== *)
theory Ohci_Safe
  imports Ohci
begin

text \<open>
  Safety of the USB driver of Ohci as a state machine: the driver is configured, controllers
  are added, the hardware overwrites the shared memory with anything, characters are taken
  from the queue, and the driver is polled, in any order. Every state reached so is
  well-formed, every poll moves the enumeration along an edge of its graph, and the memory
  the controllers are told to transfer lies in their own blocks.
\<close>

named_theorems ohci_steps \<open>what a step of the driver changes\<close>

subsection \<open>Well-formed states\<close>

text \<open>The lengths of the arrays, and a block of memory the 32-bit pointers reach.\<close>

definition dma_shape :: "controller_dma \<Rightarrow> bool" where
  "dma_shape d \<longleftrightarrow> length (interrupt_table d) = 32 \<and> length (control_td d) = 4 \<and> length (setup_packet d) = 8
     \<and> length (dma_data d) = 512 \<and> length (dma_report d) = 8"

definition low_block :: "controller \<Rightarrow> bool" where
  "low_block c \<longleftrightarrow> unat (dma c) + 1024 \<le> 2 ^ 32"

text \<open>What a state of the enumeration knows about the device.\<close>

abbreviation addressed :: "enum_state \<Rightarrow> bool" where
  "addressed st \<equiv> st \<notin> {ENUM_SCAN, ENUM_POWER_WAIT, ENUM_RESET_WAIT, ENUM_GET_DEVICE}"

abbreviation keyboard_known :: "enum_state \<Rightarrow> bool" where
  "keyboard_known st \<equiv> st \<in> {ENUM_SET_CONFIG, ENUM_SET_PROTOCOL, ENUM_SET_IDLE}"

definition controller_ok :: "nat \<Rightarrow> controller \<Rightarrow> bool" where
  "controller_ok n c \<longleftrightarrow> port c < 15 \<and> low_block c \<and> dma_shape (dma_mem c)
     \<and> (addressed (state c) \<longrightarrow> dev_address c = of_nat (n + 1) \<and> control_packet c \<in> {8, 16, 32, 64})
     \<and> (keyboard_known (state c) \<longrightarrow> endpoint c \<le> 15 \<and> interval c \<noteq> 0 \<and> 8 \<le> max_packet c \<and> max_packet c \<le> 64)
     \<and> (configured c \<longrightarrow> state c = ENUM_SET_IDLE)"

text \<open>The edges of the enumeration: forward to the next state, or back to the start.\<close>

fun next_state :: "enum_state \<Rightarrow> enum_state" where
  "next_state ENUM_SCAN = ENUM_POWER_WAIT"
| "next_state ENUM_POWER_WAIT = ENUM_RESET_WAIT"
| "next_state ENUM_RESET_WAIT = ENUM_GET_DEVICE"
| "next_state ENUM_GET_DEVICE = ENUM_SET_ADDRESS"
| "next_state ENUM_SET_ADDRESS = ENUM_ADDRESS_WAIT"
| "next_state ENUM_ADDRESS_WAIT = ENUM_GET_DEVICE_FULL"
| "next_state ENUM_GET_DEVICE_FULL = ENUM_GET_CONFIG_HEAD"
| "next_state ENUM_GET_CONFIG_HEAD = ENUM_GET_CONFIG"
| "next_state ENUM_GET_CONFIG = ENUM_SET_CONFIG"
| "next_state ENUM_SET_CONFIG = ENUM_SET_PROTOCOL"
| "next_state ENUM_SET_PROTOCOL = ENUM_SET_IDLE"
| "next_state ENUM_SET_IDLE = ENUM_SET_IDLE"

text \<open>A transfer descriptor transfers nothing, or bytes of the buffers of its controller.\<close>

definition td_inside :: "controller \<Rightarrow> ohci_td \<Rightarrow> bool" where
  "td_inside c td \<longleftrightarrow> td_cbp td = 0 \<and> td_be td = 0
     \<or> unat (dma c) + 384 \<le> unat (td_cbp td) \<and> unat (td_cbp td) \<le> unat (td_be td) \<and> unat (td_be td) < unat (dma c) + 1024"

definition mem_step :: "controller \<Rightarrow> controller_dma \<Rightarrow> bool" where
  "mem_step c d \<longleftrightarrow> dma_shape d
     \<and> (control_td d = control_td (dma_mem c) \<or> list_all (td_inside c) (control_td d))
     \<and> (interrupt_td d = interrupt_td (dma_mem c) \<or> td_inside c (interrupt_td d))"

definition poll_step :: "controller \<Rightarrow> controller \<Rightarrow> bool" where
  "poll_step c c' \<longleftrightarrow> regs c' = regs c \<and> dma c' = dma c
     \<and> state c' \<in> {state c, ENUM_SCAN, next_state (state c)}
     \<and> (configured c' \<and> \<not> configured c \<longrightarrow> state c = ENUM_SET_IDLE)
     \<and> mem_step c (dma_mem c')"

subsection \<open>Transfers\<close>

lemma low_ptr: "low_block c \<Longrightarrow> i < 1024 \<Longrightarrow> unat (ptr (dma c + of_nat i)) = unat (dma c) + i"
  by (simp add: ptr_def low_block_def unsigned_ucast_eq take_bit_nat_eq_self unat_add_nat)

lemma unat_add_nat_u32: "unat (a :: u32) + k < 2 ^ 32 \<Longrightarrow> unat (a + of_nat k) = unat a + k"
  by (simp add: unat_word_ariths unat_of_nat take_bit_eq_mod)

lemma td_inside_fill:
  assumes "low_block c" and "384 \<le> i" and "0 < len" and "i + len \<le> 1024"
  shows "td_inside c (td_fill info (ptr (dma c + of_nat i)) (of_nat len) nxt)"
proof -
  have b: "unat (ptr (dma c + of_nat i)) = unat (dma c) + i"
    using assms by (intro low_ptr) simp_all
  obtain k where k: "len = Suc k" using assms(3) by (cases len) simp_all
  have e: "unat (ptr (dma c + of_nat i) + of_nat k) = unat (dma c) + i + k"
    using assms k by (subst unat_add_nat_u32) (simp_all add: b low_block_def)
  have "unat (of_nat len :: u32) = len"
    using assms by (simp add: unat_of_nat take_bit_nat_eq_self)
  then have "of_nat len \<noteq> (0 :: u32)" using k by (metis unat_0 nat.distinct(1))
  moreover have "ptr (dma c + of_nat i) + of_nat len - 1 = ptr (dma c + of_nat i) + of_nat k"
    by (simp add: k)
  ultimately show ?thesis
    using assms b e k by (simp add: td_inside_def td_fill_def)
qed

lemma td_inside_none: "td_inside c zero_td" "td_inside c (td_fill info buffer 0 nxt)"
  by (simp_all add: td_inside_def zero_td_def td_fill_def)

lemma td_inside_report: "low_block c \<Longrightarrow> td_inside c (report_td c)"
  using td_inside_fill [of c 912 8] by (simp add: report_td_def)

lemma td_inside_data: "low_block c \<Longrightarrow> 0 < len \<Longrightarrow> len \<le> 512 \<Longrightarrow> td_inside c (td_fill info (ptr (dma c + D_data)) (ucast (len :: u16)) nxt)"
  using td_inside_fill [of c 400 "unat len"]
  by (simp add: word_le_nat_alt word_less_nat_alt)

text \<open>A request to the device whose data, if any, goes through the data buffer.\<close>

lemma control_tds_inside:
  assumes "low_block c" and "len \<le> 512" and "len = 0 \<or> buffer = ptr (dma c + D_data)"
  shows "list_all (td_inside c) (control_tds c req buffer (ucast (len :: u16)))"
proof -
  have z: "ucast len = (0 :: u32) \<longleftrightarrow> len = 0" by (fastforce simp: bit_eq_iff bit_simps dest: bit_imp_le_length)
  have s: "td_inside c (td_fill info (ptr (dma c + D_setup)) 8 nxt)" for info nxt
    using td_inside_fill [OF assms(1), of 384 8] by simp
  show ?thesis
    using assms s td_inside_data [OF assms(1)]
    by (cases "len = 0") (auto simp: control_tds_def Let_def td_inside_none z word_gt_0)
qed

text \<open>What submitting a request changes: the shared memory and the deadline.\<close>

lemma request_submitE:
  assumes "low_block c" and "dma_shape (dma_mem c)" and "len \<le> 512" and "len = 0 \<or> buffer = ptr (dma c + D_data)"
  obtains d due t' where
    "request_submit dev a type command val ind buffer len maxp low (c, t) = (c\<lparr>dma_mem := d, deadline := due\<rparr>, t')"
    "dma_shape d" "list_all (td_inside c) (control_td d)" "interrupt_td d = interrupt_td (dma_mem c)"
proof (rule that)
  let ?req = "\<lparr>requesttype = type, request = command, req_value = val, req_index = ind, req_length = len\<rparr>"
  show "dma_shape (dma_mem (fst (request_submit dev a type command val ind buffer len maxp low (c, t))))"
    using assms(2) by (simp add: request_submit_def control_submit_def Let_def split_def dma_shape_def
        control_tds_def request_bytes_def le16_def)
  show "list_all (td_inside c) (control_td (dma_mem (fst (request_submit dev a type command val ind buffer len maxp low (c, t)))))"
    using control_tds_inside [OF assms(1,3,4), of ?req] by (simp add: request_submit_def control_submit_def Let_def split_def)
qed (simp_all add: request_submit_def control_submit_def Let_def split_def)

lemma control_statusE:
  assumes "dma_shape (dma_mem c)"
  obtains r c' t' where "control_status dev (c, t) = (r, c', t')" "r = 0 \<Longrightarrow> c' = c"
    "c' = c\<lparr>dma_mem := dma_mem c'\<rparr>" "dma_shape (dma_mem c')" "dma_data (dma_mem c') = dma_data (dma_mem c)"
    "control_td (dma_mem c') = control_td (dma_mem c)" "interrupt_td (dma_mem c') = interrupt_td (dma_mem c)"
proof -
  obtain r c' t' where s: "control_status dev (c, t) = (r, c', t')" by (metis prod_cases3)
  then have "c' = (if r = 0 then c else skip_control c)"
    by (auto simp: control_status_def Let_def split: if_splits prod.splits)
  with s assms show ?thesis
    by (intro that [of r c' t']) (auto simp: skip_control_def dma_shape_def)
qed

subsection \<open>One step of one controller\<close>

definition good_step :: "nat \<Rightarrow> controller \<Rightarrow> controller \<Rightarrow> bool" where
  "good_step n c c' \<longleftrightarrow> controller_ok n c' \<and> poll_step c c'"

lemmas step_defs = good_step_def controller_ok_def poll_step_def

lemma mem_step_refl: "dma_shape (dma_mem c) \<Longrightarrow> mem_step c (dma_mem c)"
  by (simp add: mem_step_def)

lemma mem_step_submitted:
  "dma_shape d \<Longrightarrow> list_all (td_inside c) (control_td d) \<Longrightarrow> interrupt_td d = interrupt_td (dma_mem c) \<Longrightarrow> mem_step c d"
  by (simp add: mem_step_def)

lemma good_step_refl: "controller_ok n c \<Longrightarrow> good_step n c c"
  by (simp add: step_defs mem_step_refl)

text \<open>A failure goes back to the start, from any state.\<close>

lemma good_step_fail:
  assumes "controller_ok n c" and "mem_step c d"
    and "c1 = c\<lparr>dma_mem := d\<rparr>" and "\<not> configured c"
  shows "good_step n c (fst (enumeration_fail dev (c1, t)))"
proof -
  have "mem_step c (dma_mem (skip_control c1))" "dma_shape d"
    using assms by (simp_all add: mem_step_def skip_control_def dma_shape_def)
  then show ?thesis
    using assms by (simp add: step_defs enumeration_fail_def asm_get_cpu_timer_def skip_control_def low_block_def mem_step_def)
qed

lemma good_step_scan:
  assumes "controller_ok n c" and "state c = ENUM_SCAN" and "list_all (\<lambda>p. p < 15) ports"
  shows "good_step n c (fst (scan_ports dev now ports (c, t)))"
  using assms
proof (induction ports arbitrary: t)
  case (Cons p ports)
  have "p < 15" using Cons.prems by simp
  then have "(of_nat p :: u8) < 15" by (simp add: word_less_nat_alt unat_of_nat take_bit_nat_eq_self)
  with Cons show ?case
    by (auto simp: read32_def step_defs low_block_def mem_step_refl)
qed (simp add: good_step_refl)

lemma good_step_step_scan:
  "controller_ok n c \<Longrightarrow> state c = ENUM_SCAN \<Longrightarrow> good_step n c (fst (step_scan dev now (c, t)))"
  by (auto simp: step_scan_def Let_def list_all_iff good_step_refl split: prod.splits intro!: good_step_scan)

lemma good_step_power_wait:
  "controller_ok n c \<Longrightarrow> state c = ENUM_POWER_WAIT \<Longrightarrow> \<not> configured c \<Longrightarrow>
   good_step n c (fst (step_power_wait now (c, t)))"
  by (auto simp: step_power_wait_def step_defs low_block_def mem_step_refl)

text \<open>A request that leads to the next state. \<open>c1\<close> is the controller with what the step has
  learned about the device.\<close>

lemma good_step_submit:
  assumes ok: "controller_ok n c" "\<not> configured c"
    and c1: "regs c1 = regs c" "dma c1 = dma c" "port c1 = port c" "\<not> configured c1"
      "dma_shape (dma_mem c1)" "interrupt_td (dma_mem c1) = interrupt_td (dma_mem c)"
    and len: "len \<le> 512" "len = 0 \<or> buffer = ptr (dma c + D_data)"
    and st: "st = next_state (state c)"
    and dev: "addressed st \<Longrightarrow> dev_address c1 = of_nat (n + 1) \<and> control_packet c1 \<in> {8, 16, 32, 64}"
    and kb: "keyboard_known st \<Longrightarrow> endpoint c1 \<le> 15 \<and> interval c1 \<noteq> 0 \<and> 8 \<le> max_packet c1 \<and> max_packet c1 \<le> 64"
  shows "good_step n c (fst (case request_submit dev a type command val ind buffer len maxp low (c1, t) of
     (c, t) \<Rightarrow> (c\<lparr>state := st\<rparr>, t)))"
proof -
  have low: "low_block c1" using ok c1 by (simp add: controller_ok_def low_block_def)
  obtain d due t' where r:
    "request_submit dev a type command val ind buffer len maxp low (c1, t) = (c1\<lparr>dma_mem := d, deadline := due\<rparr>, t')"
    "dma_shape d" "list_all (td_inside c1) (control_td d)" "interrupt_td d = interrupt_td (dma_mem c1)"
    using request_submitE [OF low c1(5) len(1)] len(2) c1(2) by metis
  have "td_inside c1 = td_inside c" using c1 by (simp add: td_inside_def fun_eq_iff)
  then have "mem_step c d" using r c1 by (intro mem_step_submitted) simp_all
  then show ?thesis
    using ok c1 st dev kb by (simp add: r(1) step_defs low_block_def mem_step_def)
qed

lemma good_step_reset_wait:
  assumes "controller_ok n c" and "state c = ENUM_RESET_WAIT" and "\<not> configured c"
  shows "good_step n c (fst (step_reset_wait dev now (c, t)))"
proof -
  have m: "mem_step c (dma_mem c)" using assms by (simp add: controller_ok_def mem_step_refl)
  have f: "good_step n c (fst (enumeration_fail dev (c, t)))" for t
    using assms(1) m by (rule good_step_fail) (simp_all add: assms)
  have s: "good_step n c (fst (case request_submit dev 0 0x80 6 0x100 0 (ptr (dma c + D_data)) 8 8 low
      (c\<lparr>low_speed := low, control_packet := 8\<rparr>, t) of (c, t) \<Rightarrow> (c\<lparr>state := ENUM_GET_DEVICE\<rparr>, t)))" for low t
    using assms by (intro good_step_submit) (simp_all add: controller_ok_def)
  show ?thesis
    using f s good_step_refl [OF assms(1)] by (simp add: step_reset_wait_def read32_def Let_def)
qed

text \<open>A step that waits for a request: it is pending, it failed, or the controller that has the
  answer in its memory goes on with \<open>f\<close>. \<open>w\<close> and \<open>P\<close> are for the steps that can hang.\<close>

lemma good_step_answer:
  assumes ok: "controller_ok n c" "\<not> configured c"
    and wrap: "\<And>s. good_step n c (fst s) \<Longrightarrow> P (w s)"
    and go: "\<And>d t1. dma_shape d \<Longrightarrow> dma_data d = dma_data (dma_mem c) \<Longrightarrow> control_td d = control_td (dma_mem c) \<Longrightarrow>
      interrupt_td d = interrupt_td (dma_mem c) \<Longrightarrow> \<not> bad (dma_data d) \<Longrightarrow> P (f (c\<lparr>dma_mem := d\<rparr>) t1)"
  shows "P (case control_status dev (c, t) of (status, c, t) \<Rightarrow>
     if status = 0 then w (c, t)
     else if status < 0 \<or> bad (dma_data (dma_mem c)) then w (enumeration_fail dev (c, t)) else f c t)"
proof -
  have sh: "dma_shape (dma_mem c)" using ok by (simp add: controller_ok_def)
  obtain r c1 t1 where s: "control_status dev (c, t) = (r, c1, t1)" "r = 0 \<Longrightarrow> c1 = c"
    "c1 = c\<lparr>dma_mem := dma_mem c1\<rparr>" "dma_shape (dma_mem c1)" "dma_data (dma_mem c1) = dma_data (dma_mem c)"
    "control_td (dma_mem c1) = control_td (dma_mem c)" "interrupt_td (dma_mem c1) = interrupt_td (dma_mem c)"
    using control_statusE [OF sh] by metis
  have m: "mem_step c (dma_mem c1)" using s by (simp add: mem_step_def)
  have "P (f c1 t1)" if "\<not> bad (dma_data (dma_mem c1))"
    using go [of "dma_mem c1" t1] s that by simp
  then show ?thesis
    using s(1,2) wrap good_step_refl [OF ok(1)] good_step_fail [OF ok(1) m s(3) ok(2)] by simp
qed

lemmas good_answer = good_step_answer [where P = "\<lambda>s. good_step n c (fst s)" and w = "\<lambda>s. s" for n c, rotated 3]

lemma good_step_get_device:
  assumes "controller_ok n c" and "state c = ENUM_GET_DEVICE" and "\<not> configured c"
  shows "good_step n c (fst (step_get_device dev n (c, t)))"
  unfolding step_get_device_def Let_def
  by (rule good_answer [where bad = "\<lambda>d. d ! 7 \<notin> {8, 16, 32, 64}"])
    (use assms in \<open>auto simp: controller_ok_def intro!: good_step_submit\<close>)

lemma good_step_set_address:
  assumes "controller_ok n c" and "state c = ENUM_SET_ADDRESS" and "\<not> configured c"
  shows "good_step n c (fst (step_set_address dev now (c, t)))"
  unfolding step_set_address_def
  by (rule good_answer [where bad = "\<lambda>d. False", unfolded HOL.simp_thms])
    (use assms in \<open>auto simp: step_defs mem_step_def low_block_def\<close>)

lemma good_step_get_descriptor:
  assumes "controller_ok n c" and "\<not> configured c" and "addressed (state c)" and "next_state (state c) = st"
    and "\<not> keyboard_known st" and "len \<le> 512" and "dma_shape d" and "interrupt_td d = interrupt_td (dma_mem c)"
  shows "good_step n c (fst (get_descriptor dev val len st (c\<lparr>dma_mem := d\<rparr>, t)))"
  unfolding get_descriptor_def split_conv Let_def
  by (rule good_step_submit) (use assms in \<open>auto simp: controller_ok_def\<close>)

lemma good_step_address_wait:
  assumes "controller_ok n c" and "state c = ENUM_ADDRESS_WAIT" and "\<not> configured c"
  shows "good_step n c (fst (step_address_wait dev now (c, t)))"
  using assms good_step_refl [OF assms(1)]
    good_step_get_descriptor [of n c ENUM_GET_DEVICE_FULL 18 "dma_mem c"]
  by (simp add: step_address_wait_def controller_ok_def)

lemma good_step_get_config_head:
  assumes "controller_ok n c" and "state c = ENUM_GET_CONFIG_HEAD" and "\<not> configured c"
  shows "good_step n c (fst (step_get_config_head dev (c, t)))"
  unfolding step_get_config_head_def Let_def
  by (rule good_answer [where bad = "\<lambda>d. le16_at d 2 < 9 \<or> 512 < le16_at d 2"])
    (use assms in \<open>auto intro!: good_step_get_descriptor\<close>)

lemma good_step_class_request:
  assumes "controller_ok n c" and "state c = ENUM_SET_CONFIG \<or> state c = ENUM_SET_PROTOCOL"
    and "st = next_state (state c)" and "\<not> configured c"
  shows "good_step n c (fst (step_class_request dev command st (c, t)))"
  unfolding step_class_request_def Let_def
  by (rule good_answer [where bad = "\<lambda>d. False", unfolded HOL.simp_thms])
    (rule good_step_submit, use assms in \<open>auto simp: controller_ok_def\<close>)

lemma good_step_get_config:
  assumes "controller_ok n c" and "state c = ENUM_GET_CONFIG" and "\<not> configured c"
  shows "good_step n c (fst (step_get_config dev (c, t)))"
proof -
  let ?find = "\<lambda>d. usb_find_boot_keyboard d (unat (le16_at d 2))"
  let ?bad = "\<lambda>d. le16_at d 2 < 9 \<or> 512 < le16_at d 2 \<or> ?find d = None \<or> d ! 5 = 0"
  let ?go = "\<lambda>c t. case request_submit dev (dev_address c) 0 9 (ucast (dma_data (dma_mem c) ! 5)) 0 0 0
      (ucast (control_packet c)) (low_speed c)
      (c\<lparr>endpoint := kb_endpoint (the (?find (dma_data (dma_mem c)))), interval := kb_interval (the (?find (dma_data (dma_mem c)))),
        max_packet := kb_max_packet (the (?find (dma_data (dma_mem c)))),
        interface_number := kb_interface_number (the (?find (dma_data (dma_mem c))))\<rparr>, t) of
      (c, t) \<Rightarrow> (c\<lparr>state := ENUM_SET_CONFIG\<rparr>, t)"
  have eq: "step_get_config dev (c, t) = (case control_status dev (c, t) of (status, c, t) \<Rightarrow>
     if status = 0 then (c, t)
     else if status < 0 \<or> ?bad (dma_data (dma_mem c)) then enumeration_fail dev (c, t) else ?go c t)"
    by (auto simp: step_get_config_def Let_def split: prod.splits option.splits)
  have go: "good_step n c (fst (?go (c\<lparr>dma_mem := d\<rparr>) t1))"
    if d: "dma_shape d" "interrupt_td d = interrupt_td (dma_mem c)" "\<not> ?bad (dma_data d)" for d t1
  proof -
    obtain k where k: "?find (dma_data d) = Some k" using d(3) by auto
    with usb_find_usable [OF k] show ?thesis
      using assms d by (intro good_step_submit) (auto simp: controller_ok_def usable_keyboard_def)
  qed
  show ?thesis
    unfolding eq by (rule good_answer [where bad = ?bad and f = ?go]) (rule go, assumption+, (rule assms)+)
qed

text \<open>The steps that print wait for the UART, and return if its transmitter keeps getting ready.\<close>

definition unless_stuck :: "device \<Rightarrow> addr \<Rightarrow> ('s \<Rightarrow> bool) \<Rightarrow> 's option \<Rightarrow> bool" where
  "unless_stuck dev uart Q r \<longleftrightarrow> (case r of None \<Rightarrow> \<not> uart_ready dev uart | Some s \<Rightarrow> Q s)"

lemma unless_stuck_Some [simp]: "unless_stuck dev uart Q (Some s) = Q s"
  by (simp add: unless_stuck_def)

lemma unless_stuck_outputs:
  "outputs dev uart f cs \<Longrightarrow> (\<And>t. unless_stuck dev uart Q (g t)) \<Longrightarrow> unless_stuck dev uart Q (f t \<bind> g)"
  using outputsD(1) [of dev uart f cs t] by (cases "f t") (auto simp: unless_stuck_def)

lemma unat_u16_less: "unat (ucast (v :: u16) :: u64) < 4294967296"
  using unsigned_less [of v, where ?'a = nat] by (simp add: unsigned_ucast_eq take_bit_nat_eq_self)

lemmas good_answer_opt = good_step_answer [where w = Some, rotated 3]

lemma good_step_get_device_full:
  assumes "controller_ok n c" and "state c = ENUM_GET_DEVICE_FULL" and "\<not> configured c"
  shows "unless_stuck dev uart (\<lambda>s. good_step n c (fst s)) (step_get_device_full dev uart buffer (c, t))"
  unfolding step_get_device_full_def Let_def
  by (rule good_answer_opt [where bad = "\<lambda>d. d ! 0 < 18 \<or> d ! 1 \<noteq> 1"])
    (use assms in \<open>auto intro!: unless_stuck_outputs outputs_debug unat_u16_less good_step_get_descriptor\<close>)

lemma good_step_periodic_start:
  assumes "controller_ok n c" and "state c = ENUM_SET_IDLE" and "\<not> configured c" and "dma_shape d"
    and "control_td d = control_td (dma_mem c)"
  shows "good_step n c (fst (periodic_start dev (c\<lparr>dma_mem := d\<rparr>, t)))"
proof -
  have "td_inside c (report_td (c\<lparr>dma_mem := d\<rparr>))"
    using assms td_inside_report [of c] by (simp add: controller_ok_def report_td_def)
  then show ?thesis
    using assms by (simp add: periodic_start_def Let_def split_def step_defs mem_step_def low_block_def dma_shape_def)
qed

lemma good_step_set_idle:
  assumes "controller_ok n c" and "state c = ENUM_SET_IDLE" and "\<not> configured c"
  shows "unless_stuck dev uart (\<lambda>s. good_step n c (fst s)) (step_set_idle dev uart (c, t))"
  unfolding step_set_idle_def Let_def
  by (rule good_answer_opt [where bad = "\<lambda>d. False", unfolded HOL.simp_thms])
    (use assms in \<open>auto intro!: unless_stuck_outputs outputs_puts good_step_periodic_start\<close>)

lemma good_step_enumerate:
  assumes "controller_ok n c" and "\<not> configured c"
  shows "unless_stuck dev uart (\<lambda>s. good_step n c (fst s)) (enumerate_step dev uart buffer n (c, t))"
proof -
  have "good_step n c (c\<lparr>state := ENUM_SCAN, retry_after := 0\<rparr>)"
    using assms by (simp add: step_defs mem_step_refl low_block_def)
  then show ?thesis
    using assms by (cases "state c")
      (simp_all add: enumerate_step_def asm_get_cpu_timer_def read32_def good_step_step_scan good_step_power_wait
        good_step_reset_wait good_step_get_device good_step_set_address good_step_address_wait good_step_get_device_full
        good_step_get_config_head good_step_get_config good_step_class_request good_step_set_idle)
qed

subsection \<open>One poll of one controller\<close>

definition keyboard_ok :: "keyboard \<Rightarrow> input_state \<Rightarrow> bool" where
  "keyboard_ok kb q \<longleftrightarrow> length (previous kb) = 8 \<and> ring_ok q"

lemma keyboard_ok_report:
  assumes "keyboard_ok kb q" and "length report = 8" and "hid_keyboard_report report (kb, q) = (kb', q')"
  shows "keyboard_ok kb' q'"
proof -
  have kb: "length (previous kb) = 8" "ring_ok q" using assms(1) by (simp_all add: keyboard_ok_def)
  show ?thesis
    using assms(3) kb input_queue.put_all_invar [OF kb(2)]
    unfolding hid_keyboard_report_def split_conv Let_def rollover_eq [OF assms(2)] fold_keys [OF assms(2)] fold_report_key [OF kb(1)]
    by (auto simp: keyboard_ok_def assms(2) split: if_splits)
qed

lemma keyboard_ok_reset: "keyboard_ok kb q \<Longrightarrow> keyboard_ok (hid_keyboard_reset kb) q"
  by (simp add: keyboard_ok_def hid_keyboard_reset_def)

definition good_poll :: "nat \<Rightarrow> controller \<Rightarrow> controller \<times> history \<times> keyboard \<times> input_state \<Rightarrow> bool" where
  "good_poll n c = (\<lambda>(c', t, kb, q). good_step n c c' \<and> keyboard_ok kb q)"

text \<open>Changes of the memory alone, and those that give the device up.\<close>

lemma good_step_mem: "controller_ok n c \<Longrightarrow> mem_step c d \<Longrightarrow> good_step n c (c\<lparr>dma_mem := d\<rparr>)"
  by (cases "state c") (simp_all add: step_defs low_block_def mem_step_def)

lemma good_step_give_up:
  "controller_ok n c \<Longrightarrow> mem_step c d \<Longrightarrow>
   good_step n c (c\<lparr>dma_mem := d, configured := False, state := ENUM_SCAN, retry_after := due\<rparr>)"
  unfolding good_step_def poll_step_def controller_ok_def low_block_def by (simp add: mem_step_def)

lemma good_poll_stop:
  assumes "controller_ok n c" and "keyboard_ok kb q" and "periodic_stop dev (c, t, kb) = (c', t', kb')"
  shows "good_poll n c (c', t', kb', q)"
proof -
  let ?d = "(dma_mem c)\<lparr>interrupt_ed := (interrupt_ed (dma_mem c))
               \<lparr>ed_info := ed_info (interrupt_ed (dma_mem c)) OR ED_SKIP\<rparr>, interrupt_table := replicate 32 0\<rparr>"
  have "kb' = hid_keyboard_reset kb" and "\<exists>due. c' = c\<lparr>dma_mem := ?d, configured := False, state := ENUM_SCAN, retry_after := due\<rparr>"
    using assms(3) by (auto simp: periodic_stop_def clear_bits_def read32_def asm_get_cpu_timer_def Let_def)
  moreover have "mem_step c ?d"
    using assms(1) by (simp add: controller_ok_def mem_step_def dma_shape_def)
  ultimately have "kb' = hid_keyboard_reset kb" and "good_step n c c'"
    using good_step_give_up [OF assms(1)] by auto
  with keyboard_ok_reset [OF assms(2)] show ?thesis by (simp add: good_poll_def)
qed

lemma good_poll_periodic:
  assumes "controller_ok n c" and "keyboard_ok kb q"
  shows "good_poll n c (periodic_poll dev (c, t, kb, q))"
proof -
  obtain kb' q' where r: "hid_keyboard_report (dma_report (dma_mem c)) (kb, q) = (kb', q')" by fastforce
  have ok: "keyboard_ok kb' q'"
    using keyboard_ok_report [OF assms(2) _ r] assms(1) by (simp add: controller_ok_def dma_shape_def)
  have "td_inside c (report_td c)" using assms(1) by (simp add: controller_ok_def td_inside_report)
  then have "good_step n c (c\<lparr>dma_mem := (dma_mem c)\<lparr>hcca_done_head := 0, dma_report := replicate 8 0,
      interrupt_td := report_td c, interrupt_ed := ed\<rparr>\<rparr>)" for ed
    using assms(1) by (intro good_step_mem) (simp_all add: controller_ok_def mem_step_def dma_shape_def)
  with ok good_poll_stop [OF assms] good_step_refl [OF assms(1)] assms(2) show ?thesis
    by (simp add: periodic_poll_def r Let_def good_poll_def split: prod.splits)
qed

lemma good_poll_controller:
  assumes "controller_ok n c" and "keyboard_ok kb q"
  shows "unless_stuck dev uart (good_poll n c) (poll_controller dev uart buffer n (c, t, kb, q))"
proof (cases "configured c")
  case True
  then show ?thesis
    using good_poll_stop [OF assms] good_poll_periodic [OF assms]
    by (simp add: poll_controller_def read32_def split: prod.splits)
next
  case False
  then show ?thesis
    using good_step_enumerate [OF assms(1) False, of dev uart buffer t] assms(2)
    by (auto simp: poll_controller_def unless_stuck_def good_poll_def split: option.splits bind_splits)
qed

subsection \<open>The driver\<close>

text \<open>The blocks of the controllers in use are aligned, lie between the start of the arena and its
  cursor, and do not overlap.\<close>

definition arena_ok :: "dma_arena \<Rightarrow> bool" where
  "arena_ok a \<longleftrightarrow> dma_start a \<le> dma_cursor a \<and> dma_cursor a \<le> dma_end a \<and> unat (dma_end a) \<le> 2 ^ 32"

definition block_ok :: "dma_arena \<Rightarrow> addr \<Rightarrow> bool" where
  "block_ok a p \<longleftrightarrow> unat (dma_start a) \<le> unat p \<and> unat p + 1024 \<le> unat (dma_cursor a) \<and> take_bit 8 p = 0"

definition driver_ok :: "ohci_driver \<Rightarrow> bool" where
  "driver_ok drv \<longleftrightarrow> arena_ok (arena drv) \<and> length (controllers drv) = 2 \<and> controller_count drv \<le> 2
     \<and> (\<forall>n < controller_count drv. controller_ok n (controllers drv ! n) \<and> block_ok (arena drv) (dma (controllers drv ! n)))
     \<and> (controller_count drv = 2 \<longrightarrow> unat (dma (controllers drv ! 0)) + 1024 \<le> unat (dma (controllers drv ! 1)))"

lemma dma_alloc_Some:
  assumes "ohci_dma_alloc D_size 256 a = (Some p, a')" and "arena_ok a"
  shows "unat (dma_cursor a) \<le> unat p" "a' = a\<lparr>dma_cursor := p + D_size\<rparr>" "arena_ok a'" "block_ok a' p"
proof -
  have p: "p = (dma_cursor a + 256 - 1) AND NOT (256 - 1)" "dma_cursor a \<le> p" "p \<le> dma_end a" "D_size \<le> dma_end a - p"
    and a': "a' = a\<lparr>dma_cursor := p + D_size\<rparr>"
    using assms(1) by (auto simp: ohci_dma_alloc_def Let_def split: if_splits)
  have "unat (dma_end a - p) = unat (dma_end a) - unat p" using p(3) by (rule unat_sub)
  with p(4) have fits: "unat p + 1024 \<le> unat (dma_end a)" by (simp add: word_le_nat_alt)
  then have c: "unat (p + D_size) = unat p + 1024"
    using assms(2) by (subst unat_plus_no_wrap) (simp_all add: arena_ok_def)
  have "take_bit 8 p = 0"
    unfolding p(1) by (rule bit_word_eqI) (auto simp: bit_simps)
  with p(2) fits c assms(2) show "unat (dma_cursor a) \<le> unat p" "a' = a\<lparr>dma_cursor := p + D_size\<rparr>"
      "arena_ok a'" "block_ok a' p"
    by (simp_all add: a' arena_ok_def block_ok_def word_le_nat_alt)
qed

lemma driver_ok_configure:
  "start \<le> fin \<Longrightarrow> unat fin \<le> 2 ^ 32 \<Longrightarrow> driver_ok (ohci_dma_configure start fin)"
  by (simp add: driver_ok_def ohci_dma_configure_def arena_ok_def)

text \<open>Adding a controller changes the arena and the first unused entry of the array; the entry is
  in use afterwards only if the block could be allocated.\<close>

lemma add_controller_cases:
  assumes "ohci_add_controller dev base (drv, t) = Some (r, drv', t')"
  obtains "drv' = drv"
  | c where "controller_count drv < 2" "drv' = drv\<lparr>controllers := (controllers drv)[controller_count drv := c]\<rparr>"
  | p a where "controller_count drv < 2" "ohci_dma_alloc D_size 256 (arena drv) = (Some p, a)"
      "\<exists>new. new = drv\<lparr>arena := a, controllers := (controllers drv)[controller_count drv :=
          zero_controller\<lparr>regs := base, dma := p, dma_mem := zero_dma\<rparr>]\<rparr>
        \<and> (drv' = new \<or> drv' = new\<lparr>controller_count := controller_count drv + 1\<rparr>)"
proof (cases "controller_count drv \<ge> 2 \<or> fst (read32 dev (base + R_revision) t) AND 0xff \<noteq> 0x10")
  case True
  with assms that(1,2) show ?thesis
    by (auto simp: ohci_add_controller_def read32_def not_le split: if_splits)
next
  case False
  show ?thesis
  proof (cases "ohci_dma_alloc D_size 256 (arena drv)")
    case (Pair pp a)
    show ?thesis
    proof (cases pp)
      case None
      with Pair have "a = arena drv" by (auto simp: ohci_dma_alloc_def Let_def split: if_splits)
      with assms False Pair None that(2) show ?thesis
        by (auto simp: ohci_add_controller_def read32_def not_le)
    next
      case (Some p)
      with assms False Pair show ?thesis
        by (intro that(3)) (auto simp: ohci_add_controller_def read32_def Let_def not_le split: option.splits if_splits)
    qed
  qed
qed

lemma block_ok_later:
  "block_ok a p \<Longrightarrow> dma_start a' = dma_start a \<Longrightarrow> unat (dma_cursor a) \<le> unat (dma_cursor a') \<Longrightarrow> block_ok a' p"
  by (simp add: block_ok_def)

lemma controller_ok_new:
  assumes "block_ok a p" and "arena_ok a"
  shows "controller_ok n (zero_controller\<lparr>regs := base, dma := p, dma_mem := zero_dma\<rparr>)"
proof -
  have "unat (dma_cursor a) \<le> unat (dma_end a)" using assms(2) by (simp add: arena_ok_def word_le_nat_alt)
  with assms show ?thesis
    by (simp add: controller_ok_def zero_controller_def low_block_def zero_dma_def dma_shape_def arena_ok_def block_ok_def)
qed

lemma driver_ok_add:
  assumes "driver_ok drv" and "ohci_add_controller dev base (drv, t) = Some (r, drv', t')"
  shows "driver_ok drv'"
  using assms(2)
proof (cases rule: add_controller_cases)
  case 1
  with assms(1) show ?thesis by simp
next
  case (2 c)
  with assms(1) show ?thesis by (auto simp: driver_ok_def)
next
  case (3 p a)
  have arena: "arena_ok (arena drv)" using assms(1) by (simp add: driver_ok_def)
  note new = dma_alloc_Some [OF 3(2) arena]
  let ?n = "controller_count drv" and ?c = "zero_controller\<lparr>regs := base, dma := p, dma_mem := zero_dma\<rparr>"
  let ?cs = "(controllers drv)[?n := ?c]"
  have old: "controller_ok n (?cs ! n) \<and> block_ok a (dma (?cs ! n)) \<and> unat (dma (?cs ! n)) + 1024 \<le> unat p"
    if "n < ?n" for n
    using assms(1) that new(1,2,4) block_ok_later [of "arena drv" "dma (controllers drv ! n)" a]
    by (auto simp: driver_ok_def block_ok_def)
  have last: "controller_ok ?n (?cs ! ?n)" "block_ok a (dma (?cs ! ?n))" "dma (?cs ! ?n) = p"
    using assms(1) 3(1) new(3,4) controller_ok_new [OF new(4,3)] by (simp_all add: driver_ok_def)
  have len: "length ?cs = 2" using assms(1) by (simp add: driver_ok_def)
  have "driver_ok (drv\<lparr>arena := a, controllers := ?cs, controller_count := ?n + 1\<rparr>)"
    using old last len 3(1) new(3) by (auto simp: driver_ok_def less_Suc_eq)
  moreover have "driver_ok (drv\<lparr>arena := a, controllers := ?cs\<rparr>)"
    using old len 3(1) new(3) by (auto simp: driver_ok_def)
  ultimately show ?thesis using 3(3) by auto
qed

lemma driver_ok_poll_from:
  assumes "distinct ns" and "\<forall>n \<in> set ns. n < length cs \<and> controller_ok n (cs ! n)" and "keyboard_ok kb q"
  shows "unless_stuck dev uart (\<lambda>(cs', t', kb', q'). length cs' = length cs \<and> keyboard_ok kb' q' \<and>
      (\<forall>n. if n \<in> set ns then good_step n (cs ! n) (cs' ! n) else cs' ! n = cs ! n))
     (poll_from dev uart buffer ns (cs, t, kb, q))"
  using assms
proof (induction ns arbitrary: cs t kb q)
  case (Cons n ns)
  have n: "n < length cs" "controller_ok n (cs ! n)" using Cons.prems by simp_all
  note step = good_poll_controller [OF n(2) Cons.prems(3), of dev uart buffer t]
  show ?case
  proof (cases "poll_controller dev uart buffer n (cs ! n, t, kb, q)")
    case None
    with step show ?thesis by (simp add: unless_stuck_def)
  next
    case (Some s)
    obtain c1 t1 kb1 q1 where s: "s = (c1, t1, kb1, q1)" by (metis prod_cases4)
    with step Some have c1: "good_step n (cs ! n) c1" "keyboard_ok kb1 q1"
      by (simp_all add: unless_stuck_def good_poll_def)
    have "\<forall>m \<in> set ns. m < length (cs[n := c1]) \<and> controller_ok m (cs[n := c1] ! m)"
      using Cons.prems(1,2) by (auto simp: nth_list_update)
    from Cons.IH [OF _ this c1(2), of t1] Cons.prems(1)
    have "unless_stuck dev uart (\<lambda>(cs', t', kb', q'). length cs' = length cs \<and> keyboard_ok kb' q' \<and>
      (\<forall>m. if m \<in> set ns then good_step m (cs[n := c1] ! m) (cs' ! m) else cs' ! m = cs[n := c1] ! m))
     (poll_from dev uart buffer ns (cs[n := c1], t1, kb1, q1))" by simp
    then show ?thesis
      using Cons.prems(1) c1(1) n(1)
      by (auto simp: Some s unless_stuck_def nth_list_update split: option.splits if_splits)
  qed
qed simp

lemma good_poll_all:
  assumes "driver_ok drv" and "keyboard_ok kb q"
  shows "unless_stuck dev uart (\<lambda>(drv', t', kb', q'). driver_ok drv' \<and> keyboard_ok kb' q'
      \<and> arena drv' = arena drv \<and> controller_count drv' = controller_count drv
      \<and> (\<forall>n < controller_count drv. poll_step (controllers drv ! n) (controllers drv' ! n)))
    (ohci_poll_all dev uart buffer (drv, t, kb, q))"
proof -
  let ?ns = "[0..<controller_count drv]"
  have "\<forall>n \<in> set ?ns. n < length (controllers drv) \<and> controller_ok n (controllers drv ! n)"
    using assms(1) by (simp add: driver_ok_def)
  note polled = driver_ok_poll_from [OF distinct_upt this assms(2), of dev uart buffer t]
  show ?thesis
  proof (cases "poll_from dev uart buffer ?ns (controllers drv, t, kb, q)")
    case None
    with polled show ?thesis by (simp add: unless_stuck_def ohci_poll_all_def)
  next
    case (Some s)
    obtain cs t1 kb1 q1 where s: "s = (cs, t1, kb1, q1)" by (metis prod_cases4)
    have cs: "length cs = length (controllers drv)" "keyboard_ok kb1 q1"
      using polled by (auto simp: Some s unless_stuck_def)
    have good: "good_step n (controllers drv ! n) (cs ! n)" if "n < controller_count drv" for n
      using polled that by (auto simp: Some s unless_stuck_def split: if_splits)
    have "dma (cs ! n) = dma (controllers drv ! n)" if "n < controller_count drv" for n
      using good [OF that] by (simp add: good_step_def poll_step_def)
    then have "driver_ok (drv\<lparr>controllers := cs\<rparr>)"
      using assms(1) cs good by (auto simp: driver_ok_def good_step_def)
    with cs good show ?thesis by (simp add: Some s ohci_poll_all_def good_step_def)
  qed
qed

subsection \<open>Reachable states\<close>

text \<open>The history may grow between two steps of the driver, because other code uses the hardware
  too; \<open>hardware\<close> is anything the controller does to the memory it shares with the driver.\<close>

inductive ohci_reachable :: "device \<Rightarrow> addr \<Rightarrow> (int \<Rightarrow> u8) \<Rightarrow> ohci_driver \<times> history \<times> keyboard \<times> input_state \<Rightarrow> bool"
  for dev uart buffer where
  configured: "start \<le> fin \<Longrightarrow> unat fin \<le> 2 ^ 32 \<Longrightarrow>
     ohci_reachable dev uart buffer (ohci_dma_configure start fin, t, hid_keyboard_reset kb, input_start)"
| added: "ohci_reachable dev uart buffer (drv, t, kb, q) \<Longrightarrow> ohci_add_controller dev base (drv, t) = Some (r, drv', t') \<Longrightarrow>
     ohci_reachable dev uart buffer (drv', t', kb, q)"
| hardware: "ohci_reachable dev uart buffer (drv, t, kb, q) \<Longrightarrow> dma_shape d \<Longrightarrow>
     ohci_reachable dev uart buffer (drv\<lparr>controllers := (controllers drv)[n := (controllers drv ! n)\<lparr>dma_mem := d\<rparr>]\<rparr>, t, kb, q)"
| taken: "ohci_reachable dev uart buffer (drv, t, kb, q) \<Longrightarrow> input_get_char q = (x, q') \<Longrightarrow>
     ohci_reachable dev uart buffer (drv, t, kb, q')"
| elsewhere: "ohci_reachable dev uart buffer (drv, t, kb, q) \<Longrightarrow> ohci_reachable dev uart buffer (drv, t', kb, q)"
| polled: "ohci_reachable dev uart buffer s \<Longrightarrow> ohci_poll_all dev uart buffer s = Some s' \<Longrightarrow> ohci_reachable dev uart buffer s'"

lemma controller_ok_hardware: "controller_ok n c \<Longrightarrow> dma_shape d \<Longrightarrow> controller_ok n (c\<lparr>dma_mem := d\<rparr>)"
  by (simp add: controller_ok_def low_block_def)

lemma driver_ok_hardware:
  assumes "driver_ok drv" and "dma_shape d"
  shows "driver_ok (drv\<lparr>controllers := (controllers drv)[n := (controllers drv ! n)\<lparr>dma_mem := d\<rparr>]\<rparr>)"
proof (cases "n < 2")
  case True
  with assms show ?thesis
    by (auto simp: driver_ok_def nth_list_update less_2_cases_iff intro: controller_ok_hardware)
next
  case False
  with assms show ?thesis by (simp add: driver_ok_def list_update_beyond)
qed

lemma reachable_ok:
  "ohci_reachable dev uart buffer s \<Longrightarrow> case s of (drv, t, kb, q) \<Rightarrow> driver_ok drv \<and> keyboard_ok kb q"
proof (induction rule: ohci_reachable.induct)
  case (configured start fin t kb)
  then show ?case
    by (simp add: driver_ok_configure keyboard_ok_def hid_keyboard_reset_def ring_ok_def input_start_def)
next
  case (polled s s')
  then show ?case
    using good_poll_all [of "fst s" "fst (snd (snd s))" "snd (snd (snd s))" dev uart buffer "fst (snd s)"]
    by (auto simp: unless_stuck_def split: option.splits)
qed (auto simp: driver_ok_add driver_ok_hardware keyboard_ok_def intro: input_queue.get_invar)

text \<open>C7. However controllers are added, the hardware writes its memory and the driver is polled, the
  state of the driver stays well-formed: the blocks of the controllers are disjoint and
  inside the arena, a device that is addressed has the address of its controller and a legal
  packet size, a keyboard in use has a legal endpoint, interval and packet size. A poll
  returns unless the UART is stuck; it moves every controller to the next state, to the
  start, or not at all, starts reports only at the end of the enumeration, and gives the
  hardware no transfer outside the buffers of the block of that controller.\<close>

theorem ohci_polls_safe:
  assumes "ohci_reachable dev uart buffer (drv, t, kb, q)"
  shows "driver_ok drv \<and> keyboard_ok kb q \<and>
    (case ohci_poll_all dev uart buffer (drv, t, kb, q) of
       None \<Rightarrow> \<not> uart_ready dev uart
     | Some (drv', t', kb', q') \<Rightarrow> arena drv' = arena drv \<and> controller_count drv' = controller_count drv
         \<and> (\<forall>n < controller_count drv. poll_step (controllers drv ! n) (controllers drv' ! n)))"
  using reachable_ok [OF assms] good_poll_all [of drv kb q dev uart buffer t]
  by (auto simp: unless_stuck_def split: option.splits)

text \<open>A controller at 0x1000 whose registers read 0x10 and then 0 is added and polled.\<close>

lemma ohci_polls_safe_witness:
  "\<exists>drv t. controller_count drv = 1 \<and> driver_ok drv \<and>
     (case ohci_poll_all \<lparr>dev_rd = \<lambda>t a. if a = 0x1000 then 0x10 else 0, dev_time = \<lambda>t. 0\<rparr> 0 (\<lambda>_. 0)
         (drv, t, hid_keyboard_reset \<lparr>previous = [], caps_lock = True\<rparr>, input_start) of
        None \<Rightarrow> False
      | Some (drv', t', kb', q') \<Rightarrow> poll_step (controllers drv ! 0) (controllers drv' ! 0))"
proof -
  let ?dev = "\<lparr>dev_rd = \<lambda>t a. if a = 0x1000 then 0x10 else 0, dev_time = \<lambda>t. 0\<rparr> :: device"
  let ?kb = "hid_keyboard_reset \<lparr>previous = [], caps_lock = True\<rparr>" and ?drv = "ohci_dma_configure 0x8000 0x9000"
  have start: "ohci_reachable ?dev 0 (\<lambda>_. 0) (?drv, [], ?kb, input_start)"
    by (rule configured) simp_all
  obtain drv t where add: "ohci_add_controller ?dev 0x1000 (?drv, []) = Some (0, drv, t)" "controller_count drv = 1"
    "controllers drv ! 0 = zero_controller\<lparr>regs := 0x1000, dma := 0x8000\<rparr>"
    by (simp add: ohci_add_controller_def ohci_dma_configure_def ohci_dma_alloc_def Let_def read32_def asm_get_cpu_timer_def
        wait_clear_def wait_clear_until.simps [of _ _ 1] zero_controller_def)
  have r: "ohci_reachable ?dev 0 (\<lambda>_. 0) (drv, t, ?kb, input_start)"
    using start add(1) by (rule added)
  have "ohci_poll_all ?dev 0 (\<lambda>_. 0) (drv, t, ?kb, input_start) \<noteq> None"
    by (simp add: ohci_poll_all_def add(2,3) poll_controller_def zero_controller_def enumerate_step_def asm_get_cpu_timer_def
        step_scan_def read32_def)
  with ohci_polls_safe [OF r] add(2) show ?thesis
    by (intro exI [of _ drv] exI [of _ t]) (auto split: option.splits)
qed

end
