(* ===== verification/Board.thy ===== *)
theory Board
  imports Rk356x Log Ohci_Safe
begin

text \<open>
  The boards of the RK356x firmware (src/roc3566.c, src/rock3a.c, src/yy3568.c), what they have in
  common (src/rk356x/board.c) and their USB set-up (src/rk356x/usb.c). The static variables of
  the firmware are the fields of one record, and so is what the linker and the stack choose.
\<close>

subsection \<open>Boards\<close>

record rk356x_board =
  board_name :: string
  board_vendor :: string
  board_product :: string
  board_soc :: string
  connector_notes :: string
  leds :: "gpio_pin list"
  usb_vbus :: "gpio_pin list"
  ohci_mask :: u8

definition no_pin :: gpio_pin where
  "no_pin = \<lparr>pin_bank = 0, pin_number = 0, active_high = 0, valid = 0\<rparr>"

abbreviation (input) on_pin :: "u8 \<Rightarrow> u8 \<Rightarrow> gpio_pin" where
  "on_pin bank n \<equiv> \<lparr>pin_bank = bank, pin_number = n, active_high = 1, valid = 1\<rparr>"

definition roc3566_board :: rk356x_board where
  "roc3566_board = \<lparr>board_name = ''Firefly ROC-RK3566-PC'', board_vendor = ''Firefly'', board_product = ''ROC-RK3566-PC'',
     board_soc = ''RK3566'', connector_notes = ''USB2 host is the USB-A companion path'',
     leds = [on_pin 0 27, no_pin], usb_vbus = [on_pin 0 21, no_pin], ohci_mask = 1\<rparr>"

definition rock3a_board :: rk356x_board where
  "rock3a_board = \<lparr>board_name = ''Radxa ROCK 3A'', board_vendor = ''Radxa'', board_product = ''ROCK 3A'',
     board_soc = ''RK3568'', connector_notes = ''GPIO0_A6 powers the USB hosts; GPIO0_D5 powers the onboard hub'',
     leds = [on_pin 0 15, no_pin], usb_vbus = [on_pin 0 6, on_pin 0 29], ohci_mask = 3\<rparr>"

definition yy3568_board :: rk356x_board where
  "yy3568_board = \<lparr>board_name = ''Youyeetoo YY3568'', board_vendor = ''Youyeetoo'', board_product = ''YY3568'',
     board_soc = ''RK3568'', connector_notes = ''GPIO0_D6 powers both supported USB2 host companions'',
     leds = [on_pin 3 4, on_pin 2 10], usb_vbus = [on_pin 0 30, no_pin], ohci_mask = 3\<rparr>"

subsection \<open>The firmware's state\<close>

text \<open>
  \<open>detected\<close> is the cached layout of dram.c, \<open>video\<close> the static of hdmi.c, \<open>usb\<close>, \<open>keys\<close> and
  \<open>input\<close> those of ohci.c, hid_keyboard.c and input.c; \<open>poller\<close> says whether the poll function is
  set, which can only be the one of ohci.c.
\<close>

record firmware =
  fmem :: mem
  detected :: "dram_layout option"
  video :: rk356x_video
  dtb_addr :: addr
  usb :: ohci_driver
  keys :: keyboard
  input :: input_state
  poller :: bool

record env =
  hw :: device
  itoa_buffer :: "int \<Rightarrow> u8"
  hex_stack :: bytes
  bits_stack :: bytes
  page_tables :: addr
  end_of_image :: addr

abbreviation (input) RK356X_SHARED :: addr where "RK356X_SHARED \<equiv> 0x083f0000"
abbreviation (input) RK356X_DTB :: addr where "RK356X_DTB \<equiv> 0x08300000"
abbreviation (input) RK356X_OHCI0 :: addr where "RK356X_OHCI0 \<equiv> 0xfd840000"
abbreviation (input) RK356X_OHCI1 :: addr where "RK356X_OHCI1 \<equiv> 0xfd8c0000"
abbreviation (input) RK356X_DMA_LIMIT :: u64 where "RK356X_DMA_LIMIT \<equiv> 0x08300000"
abbreviation (input) FU_ERROR :: u64 where "FU_ERROR \<equiv> 0xffffffffffffffff"

abbreviation say :: "env \<Rightarrow> string \<Rightarrow> history \<Rightarrow> history option" where
  "say e s \<equiv> puts (hw e) plat_get_uart_base (chars s)"

abbreviation show_u64 :: "env \<Rightarrow> string \<Rightarrow> u64 \<Rightarrow> history \<Rightarrow> history option" where
  "show_u64 e label \<equiv> rk356x_debug_u64 (hw e) plat_get_uart_base (hex_stack e) (bits_stack e) (chars label)"

abbreviation show_reg :: "env \<Rightarrow> string \<Rightarrow> u64 \<Rightarrow> history \<Rightarrow> history option" where
  "show_reg e label \<equiv> debug (hw e) plat_get_uart_base (itoa_buffer e) (chars label)"

subsection \<open>USB (usb.c)\<close>

definition set_reset :: "u32 \<Rightarrow> int \<Rightarrow> history \<Rightarrow> history" where
  "set_reset i asserted = rk_clr_set_bits (RK356X_CRU + 0x400 + ucast ((i div 16) * 4)) (unat (i mod 16)) (unat (i mod 16)) asserted"

definition usb2phy1_enable :: "history \<Rightarrow> history" where
  "usb2phy1_enable t =
     (let t = write32 (0xfe8b0000 + 0x008) 0x100000 t;
          t = write32 (0xfe8b0000 + 0x000) 0x1ff01d1 t
      in write32 (0xfe8b0000 + 0x004) 0x1ff01d1 t)"

text \<open>All the resets of the USB blocks.\<close>

definition usb_resets :: "int \<Rightarrow> history \<Rightarrow> history" where
  "usb_resets asserted t =
     (let t = fold (\<lambda>i. set_reset (of_nat i) asserted) [224..<234] t;
          t = set_reset 459 asserted t
      in fold (\<lambda>i. set_reset (of_nat i) asserted) [467..<470] t)"

definition usb_clocks :: "history \<Rightarrow> history" where
  "usb_clocks t =
     (let t = rk_clr_set_bits (RK356X_CRU + 0x100 + 32 * 4) 7 0 0x15 t;
          t = rk_clr_set_bits (RK356X_CRU + 0x300 + 16 * 4) 2 0 0 t;
          t = rk_clr_set_bits (RK356X_CRU + 0x300 + 16 * 4) 15 12 0 t
      in rk_clr_set_bits (RK356X_PMUCRU + 0x180 + 2 * 4) 2 2 0 t)"

definition add_controller :: "env \<Rightarrow> addr \<Rightarrow> string \<Rightarrow> ohci_driver \<Rightarrow> history \<Rightarrow> (ohci_driver \<times> history) option" where
  "add_controller e base name drv t = do {
     (r, drv, t) \<leftarrow> ohci_add_controller (hw e) base (drv, t);
     t \<leftarrow> (if r \<noteq> 0 then say e (name @ '' unavailable'') t else say e (name @ '' ready'') t);
     Some (drv, t)
   }"

text \<open>A poll of the driver, on the state of the firmware.\<close>

definition usb_poll :: "env \<Rightarrow> firmware \<Rightarrow> history \<Rightarrow> (firmware \<times> history) option" where
  "usb_poll e fw t = do {
     (drv, t, kb, q) \<leftarrow> ohci_poll_all (hw e) plat_get_uart_base (itoa_buffer e) (usb fw, t, keys fw, input fw);
     Some (fw\<lparr>usb := drv, keys := kb, input := q\<rparr>, t)
   }"

definition rk356x_usb_init :: "env \<Rightarrow> rk356x_board \<Rightarrow> firmware \<Rightarrow> history \<Rightarrow> (firmware \<times> history) option" where
  "rk356x_usb_init e board fw t = do {
     t \<leftarrow> say e (connector_notes board) t;
     t \<leftarrow> usleep (hw e) 10 (usb_resets 1 (usb_clocks t));
     t \<leftarrow> msleep (hw e) 2 (usb2phy1_enable (usb_resets 0 t));
     let drv = ohci_dma_configure RK356X_DMA_START RK356X_DMA_LIMIT;
     (drv, t) \<leftarrow> (if ohci_mask board AND 1 \<noteq> 0 then add_controller e RK356X_OHCI0 ''OHCI0'' drv t else Some (drv, t));
     (drv, t) \<leftarrow> (if ohci_mask board AND 2 \<noteq> 0 then add_controller e RK356X_OHCI1 ''OHCI1'' drv t else Some (drv, t));
     usb_poll e (fw\<lparr>usb := drv, poller := True\<rparr>) t
   }"

subsection \<open>Common code of the boards (board.c)\<close>

definition rk356x_set_dtb :: "addr \<Rightarrow> u32 \<Rightarrow> firmware \<Rightarrow> firmware" where
  "rk356x_set_dtb dat sz fw =
     (let sz = (if ucast sz > RK356X_SHARED - RK356X_DTB then ucast (RK356X_SHARED - RK356X_DTB) else sz) in
      fw\<lparr>fmem := memcpy (fmem fw) RK356X_DTB dat (unat sz), dtb_addr := RK356X_DTB\<rparr>)"

primrec log_banks :: "env \<Rightarrow> dram_bank list \<Rightarrow> history \<Rightarrow> history option" where
  "log_banks e [] t = Some t"
| "log_banks e (b # bs) t = do {
     t \<leftarrow> show_u64 e ''DDR bank start: '' (bank_start b) t;
     t \<leftarrow> show_u64 e ''DDR bank bytes: '' (bank_size b) t;
     log_banks e bs t
   }"

definition log_dram_layout :: "env \<Rightarrow> dram_layout \<Rightarrow> history \<Rightarrow> history option" where
  "log_dram_layout e l t = do {
     t \<leftarrow> (if atags_valid l then show_u64 e ''DDR ATAG bytes: '' (atag_bytes l) t else Some t);
     t \<leftarrow> (if geometry_valid l then show_u64 e ''DDR PMUGRF bytes: '' (geometry_bytes l) t else Some t);
     t \<leftarrow> (if atags_valid l \<and> \<not> atags_accepted l then say e ''DDR ATAGS topology rejected'' t else Some t);
     t \<leftarrow> (if source l = RK356X_DRAM_ATAGS then say e ''DDR source: ATAGS'' t
       else if source l = RK356X_DRAM_PMUGRF then say e ''DDR source: PMUGRF'' t
       else say e ''DDR source: 1 GiB fallback'' t);
     t \<leftarrow> show_u64 e ''DDR bytes: '' (total_bytes l) t;
     t \<leftarrow> show_u64 e ''DDR bank count: '' (ucast (bank_count l)) t;
     log_banks e (take (unat (bank_count l)) (banks l)) t
   }"

text \<open>The structures in the shared page, and what the calls write to it.\<close>

abbreviation (input) screen_list :: addr where "screen_list \<equiv> RK356X_SHARED"
abbreviation (input) device_info :: addr where "device_info \<equiv> RK356X_SHARED + 0x80"
abbreviation (input) memory_map :: addr where "memory_map \<equiv> RK356X_SHARED + 0x100"

definition put_screens :: "rk356x_video \<Rightarrow> mem \<Rightarrow> mem" where
  "put_screens v m =
     (let m = memset m screen_list 0 0x80 in
      if active v then
        let m = store_le 4 m screen_list 1;
            m = store_le 8 m (screen_list + 8) RK356X_FB_START;
            m = store_le 4 m (screen_list + 16) (ucast (hactive (video_mode v)));
            m = store_le 4 m (screen_list + 20) (ucast (vactive (video_mode v)))
        in store_le 4 m (screen_list + 24) (ucast (stride v))
      else m)"

definition put_info :: "rk356x_board \<Rightarrow> mem \<Rightarrow> mem" where
  "put_info board m =
     (let m = memset m device_info 0 32;
          m = strcpy_lit m device_info (chars (board_vendor board))
      in strcpy_lit m (device_info + 16) (chars (board_product board)))"

text \<open>\<open>plat_get_mem_map\<close> into the shared page, on the state of the firmware.\<close>

definition put_map :: "env \<Rightarrow> firmware \<Rightarrow> history \<Rightarrow> map_item list \<times> firmware \<times> history" where
  "put_map e fw t =
     (case plat_get_mem_map (hw e) (end_of_image e) memory_map (fmem fw) (detected fw, t) of
        (items, m, l, t) \<Rightarrow> (items, fw\<lparr>fmem := m, detected := l\<rparr>, t))"

definition plat_process_firmware_call :: "env \<Rightarrow> rk356x_board \<Rightarrow> u64 \<Rightarrow> firmware \<Rightarrow> history
    \<Rightarrow> (u64 \<times> firmware) \<times> history" where
  "plat_process_firmware_call e board p1 fw t =
     (if p1 = 0xf1000000 then ((screen_list, fw\<lparr>fmem := put_screens (video fw) (fmem fw)\<rparr>), t)
      else if p1 = 0xf0000004 then
        (case put_map e fw t of (items, fw, t) \<Rightarrow>
           (((case rk356x_largest_low_free items of None \<Rightarrow> 0 | Some i \<Rightarrow> memory_map + 8 + 24 * of_nat i), fw), t))
      else if p1 = 0xf0000005 then (case put_map e fw t of (items, fw, t) \<Rightarrow> ((memory_map, fw), t))
      else if p1 = 0xf0000007 then ((device_info, fw\<lparr>fmem := put_info board (fmem fw)\<rparr>), t)
      else if p1 = 0xf0000008 then ((dtb_addr fw, fw), t)
      else ((FU_ERROR, fw), t))"

end
