(* ===== verification/Ohci_Live.thy ===== *)
theory Ohci_Live
  imports Ohci_Safe Progress
begin

text \<open>
  Progress of the USB driver of Ohci: the waits of the driver end when the timer runs on, and
  everything it does only extends the history. With the safety of Ohci_Safe a poll and the
  set-up of a controller fit the rules of Progress.
\<close>

subsection \<open>A clock that runs\<close>

text \<open>Along every sequence of growing histories the timer reaches every value, whatever else is
  read or written in between.\<close>

definition clock_runs :: "device \<Rightarrow> bool" where
  "clock_runs dev \<longleftrightarrow> (\<forall>f d. (\<forall>n. \<exists>new. new \<noteq> [] \<and> f (Suc n) = new @ f n) \<longrightarrow> (\<exists>n. d \<le> dev_time dev (f n)))"

lemma clock_runsE:
  assumes "clock_runs dev" and "\<And>n. \<exists>new. new \<noteq> [] \<and> f (Suc n) = new @ f n"
  obtains n where "d \<le> dev_time dev (f n)"
  using assms unfolding clock_runs_def by blast

lemma after_times_step: "after_times dev (Suc n) t = ReadTime (dev_time dev (after_times dev n t)) # after_times dev n t"
  by (induction n arbitrary: t) (simp_all add: asm_get_cpu_timer_def)

lemma clock_runs_timer: "clock_runs dev \<Longrightarrow> timer_runs dev"
  unfolding timer_runs_def
proof (intro allI)
  fix t d
  assume "clock_runs dev"
  then obtain n where "d \<le> dev_time dev (after_times dev n t)"
    by (rule clock_runsE [of _ "\<lambda>n. after_times dev n t"]) (rule exI [of _ "[_]"], simp only: after_times_step append.simps, simp)
  then show "\<exists>n. d \<le> dev_time dev (after_times dev n t)" ..
qed

text \<open>A round of the loop that waits for bits of a register reads the register and the timer.\<close>

definition wait_round :: "device \<Rightarrow> addr \<Rightarrow> history \<Rightarrow> history" where
  "wait_round dev a t = snd (asm_get_cpu_timer dev (snd (read32 dev a t)))"

lemma wait_clear_reaches:
  "limit \<le> dev_time dev (snd (read32 dev a ((wait_round dev a ^^ n) t))) \<Longrightarrow>
   \<exists>r new. wait_clear_until dev a m limit t = Some (r, new @ t) \<and> (r = 0 \<or> r = - 1)"
proof (induction n arbitrary: t)
  case 0
  then show ?case
    unfolding wait_clear_until.simps [of dev a m limit t]
    by (auto simp: read32_def asm_get_cpu_timer_def intro: exI [of _ "[_]"] exI [of _ "[_, _]"])
next
  case (Suc n)
  let ?t = "wait_round dev a t"
  have t: "?t = [ReadTime (dev_time dev (snd (read32 dev a t))), Read32 a (dev_rd dev t a)] @ t"
    by (simp add: wait_round_def asm_get_cpu_timer_def read32_def)
  from Suc have "\<exists>r new. wait_clear_until dev a m limit ?t = Some (r, new @ ?t) \<and> (r = 0 \<or> r = - 1)"
    by (simp only: funpow_Suc_right comp_apply)
  then obtain r new where go: "wait_clear_until dev a m limit ?t = Some (r, new @ ?t)" "r = 0 \<or> r = - 1" by blast
  show ?case
    using go unfolding wait_clear_until.simps [of dev a m limit t]
    by (auto simp: t read32_def asm_get_cpu_timer_def intro: exI [of _ "[_]"] exI [of _ "[_, _]"] exI [of _ "new @ [_, _]"])
qed

lemma wait_clear_runs:
  assumes "clock_runs dev"
  shows "runs (wait_clear dev a m ms) (\<lambda>r new. r = 0 \<or> r = - 1)"
  unfolding runs_def
proof
  fix t
  let ?t = "snd (asm_get_cpu_timer dev t)" and ?limit = "dev_time dev t + ucast ms * 1000"
  let ?f = "\<lambda>n. snd (read32 dev a ((wait_round dev a ^^ n) ?t))"
  have "\<exists>new. new \<noteq> [] \<and> ?f (Suc n) = new @ ?f n" for n
    by (rule exI [of _ "[_, _]"]) (simp add: wait_round_def read32_def asm_get_cpu_timer_def)
  then obtain n where "?limit \<le> dev_time dev (?f n)" by (rule clock_runsE [OF assms, where f = ?f])
  from wait_clear_reaches [OF this, of m] obtain r new where
    "wait_clear_until dev a m ?limit ?t = Some (r, new @ ?t)" "r = 0 \<or> r = - 1" by blast
  then show "\<exists>r new. wait_clear dev a m ms t = Some (r, new @ t) \<and> (r = 0 \<or> r = - 1)"
    by (intro exI [of _ r] exI [of _ "new @ [ReadTime (dev_time dev t)]"]) (simp add: wait_clear_def asm_get_cpu_timer_def)
qed

subsection \<open>Adding a controller\<close>

lemma grows_simps [simp]: "grows t t" "grows t s \<Longrightarrow> grows t (e # s)" "grows t s \<Longrightarrow> grows t (new @ s)"
  by (auto simp: grows_def)

lemmas io_defs = read32_def write32_def asm_get_cpu_timer_def

lemma add_controller_grows:
  assumes "clock_runs dev"
  shows "\<exists>r drv' s. ohci_add_controller dev base (drv, t) = Some (r, drv', s) \<and> grows t s"
proof (cases "controller_count drv \<ge> 2 \<or> fst (read32 dev (base + R_revision) t) AND 0xff \<noteq> 0x10")
  case True
  then show ?thesis by (auto simp: ohci_add_controller_def read32_def not_le Let_def)
next
  case False
  let ?t1 = "write32 (base + R_command_status) CMD_RESET (write32 (base + R_control) 0
    (write32 (base + R_interrupt_disable) 0xffffffff (snd (read32 dev (base + R_revision) t))))"
  obtain r new where w: "wait_clear dev (base + R_command_status) CMD_RESET 20 ?t1 = Some (r, new @ ?t1)"
    using wait_clear_runs [OF assms, of "base + R_command_status" CMD_RESET 20] unfolding runs_def by blast
  have t1: "grows t ?t1" by (simp add: io_defs)
  obtain pp a where p: "ohci_dma_alloc D_size 256 (arena drv) = (pp, a)" by fastforce
  have rev: "fst (read32 dev (base + R_revision) t) AND 0xff = 0x10" "controller_count drv < 2" using False by simp_all
  show ?thesis
    using w t1 p rev
    by (cases pp; cases "r = 0") (auto simp: ohci_add_controller_def Let_def split_def write32_def read32_def [of _ base])
qed

lemma add_controller_runs:
  assumes "clock_runs dev"
  shows "\<exists>r drv' new. ohci_add_controller dev base (drv, t) = Some (r, drv', new @ t)"
  using add_controller_grows [OF assms, of base drv t] unfolding grows_def by blast

subsection \<open>Polling\<close>

lemma grows_fail [simp]: "grows u (snd s) \<Longrightarrow> grows u (snd (enumeration_fail dev s))"
  by (cases s) (simp add: enumeration_fail_def io_defs)

lemma grows_submit [simp]:
  "grows u (snd s) \<Longrightarrow> grows u (snd (request_submit dev a type command val ind buffer len maxp low s))"
  by (cases s) (simp add: request_submit_def control_submit_def set_bits_def io_defs Let_def)

lemma grows_status [simp]: "grows u (snd s) \<Longrightarrow> grows u (snd (snd (control_status dev s)))"
  by (cases s) (simp add: control_status_def Let_def io_defs)

lemma grows_descriptor [simp]: "grows u (snd s) \<Longrightarrow> grows u (snd (get_descriptor dev val len st s))"
  by (simp add: get_descriptor_def split_def Let_def)

lemma grows_scan [simp]: "grows u (snd s) \<Longrightarrow> grows u (snd (scan_ports dev now ports s))"
  by (induction ports arbitrary: s) (auto simp: io_defs split: prod.split)

lemma grows_periodic_stop [simp]: "grows u (fst (snd s)) \<Longrightarrow> grows u (fst (snd (periodic_stop dev s)))"
  by (cases s) (simp add: periodic_stop_def clear_bits_def io_defs Let_def)

lemma grows_periodic_start [simp]: "grows u (snd s) \<Longrightarrow> grows u (snd (periodic_start dev s))"
  by (cases s) (simp add: periodic_start_def set_bits_def io_defs Let_def)

lemma grows_steps [simp]:
  assumes "grows u t"
  shows "grows u (snd (step_scan dev now (c, t)))" "grows u (snd (step_power_wait now (c, t)))"
    "grows u (snd (step_reset_wait dev now (c, t)))" "grows u (snd (step_address_wait dev now (c, t)))"
    "grows u (snd (step_get_device dev n (c, t)))" "grows u (snd (step_set_address dev now (c, t)))"
    "grows u (snd (step_get_config_head dev (c, t)))" "grows u (snd (step_get_config dev (c, t)))"
    "grows u (snd (step_class_request dev command st (c, t)))"
  using assms
  by (simp_all add: step_scan_def step_power_wait_def step_reset_wait_def step_address_wait_def io_defs Let_def split_def
      step_get_device_def step_set_address_def step_get_config_head_def step_get_config_def step_class_request_def
      split: option.split)

lemma proceeds_debug16:
  "uart_ready dev uart \<Longrightarrow> proceeds (debug dev uart buffer str (ucast (v :: u16))) (\<lambda>_. True)"
  by (rule proceeds_debug [OF _ unat_u16_less])

lemma grows_proceeds:
  assumes "proceeds f (\<lambda>_. True)" and "grows u t"
  obtains s where "f t = Some s" "grows u s"
  using assms unfolding proceeds_def by (metis grows_simps(3))

lemma enumerate_grows:
  assumes "uart_ready dev uart" and "grows u t"
  shows "\<exists>s. enumerate_step dev uart buffer n (c, t) = Some s \<and> grows u (snd s)"
proof -
  have full: "\<exists>s. step_get_device_full dev uart buffer (c, t) = Some s \<and> grows u (snd s)" if t: "grows u t" for t
  proof -
    obtain r c1 t1 where st: "control_status dev (c, t) = (r, c1, t1)" by (metis prod_cases3)
    then have "grows u t1" using grows_status [of u "(c, t)" dev] t by simp
    then obtain s where "debug dev uart buffer (chars ''USB VID: '') (ucast (le16_at (dma_data (dma_mem c1)) 8)) t1 = Some s" "grows u s"
      using grows_proceeds [OF proceeds_debug16 [OF assms(1)]] by metis
    moreover from this(2) obtain s' where
      "debug dev uart buffer (chars ''USB PID: '') (ucast (le16_at (dma_data (dma_mem c1)) 10)) s = Some s'" "grows u s'"
      using grows_proceeds [OF proceeds_debug16 [OF assms(1)]] by metis
    ultimately show ?thesis
      using \<open>grows u t1\<close> by (simp add: step_get_device_full_def st Let_def del: split_paired_Ex)
  qed
  have idle: "\<exists>s. step_set_idle dev uart (c, t) = Some s \<and> grows u (snd s)" if t: "grows u t" for t
  proof -
    obtain r c1 t1 where st: "control_status dev (c, t) = (r, c1, t1)" by (metis prod_cases3)
    then have "grows u t1" using grows_status [of u "(c, t)" dev] t by simp
    then obtain s where "puts dev uart (chars ''USB HID boot keyboard ready'') t1 = Some s" "grows u s"
      using grows_proceeds [OF proceeds_puts [OF assms(1)]] by metis
    with \<open>grows u t1\<close> show ?thesis by (simp add: step_set_idle_def st del: split_paired_Ex)
  qed
  show ?thesis
    using assms(2) full idle
    by (cases "state c") (simp_all add: enumerate_step_def io_defs Let_def del: split_paired_Ex)
qed

lemma poll_controller_grows:
  assumes "uart_ready dev uart" and "grows u t"
  shows "\<exists>c' t' kb' q'. poll_controller dev uart buffer n (c, t, kb, q) = Some (c', t', kb', q') \<and> grows u t'"
proof (cases "configured c")
  case True
  have "grows u (fst (snd (periodic_poll dev (c, t, kb, q))))" if "grows u t" for t
    using that by (simp add: periodic_poll_def Let_def split_def)
  with True assms(2) show ?thesis
    by (simp add: poll_controller_def io_defs split_def) (metis grows_simps(2) prod.collapse grows_periodic_stop fst_conv snd_conv)
next
  case False
  with enumerate_grows [OF assms, of buffer n c] show ?thesis
    by (auto simp: poll_controller_def)
qed

lemma poll_from_grows:
  assumes "uart_ready dev uart" and "grows u t"
  shows "\<exists>cs' t' kb' q'. poll_from dev uart buffer ns (cs, t, kb, q) = Some (cs', t', kb', q') \<and> grows u t'"
  using assms(2)
proof (induction ns arbitrary: cs t kb q)
  case (Cons n ns)
  obtain c1 t1 kb1 q1 where p: "poll_controller dev uart buffer n (cs ! n, t, kb, q) = Some (c1, t1, kb1, q1)" "grows u t1"
    using poll_controller_grows [OF assms(1) Cons.prems] by metis
  from Cons.IH [OF p(2)] show ?case by (simp add: p(1))
qed simp

lemma poll_all_runs:
  assumes "uart_ready dev uart" and "driver_ok drv" and "keyboard_ok kb q"
  shows "\<exists>drv' new kb' q'. ohci_poll_all dev uart buffer (drv, t, kb, q) = Some (drv', new @ t, kb', q')
    \<and> driver_ok drv' \<and> keyboard_ok kb' q'"
proof -
  obtain drv' t' kb' q' where p: "ohci_poll_all dev uart buffer (drv, t, kb, q) = Some (drv', t', kb', q')" "grows t t'"
    using poll_from_grows [OF assms(1), of t t buffer "[0..<controller_count drv]" "controllers drv" kb q]
    by (fastforce simp: ohci_poll_all_def)
  from p(2) obtain new where "t' = new @ t" unfolding grows_def by blast
  with p good_poll_all [OF assms(2,3), of dev uart buffer t] show ?thesis
    by (simp add: unless_stuck_def)
qed

end
