(* ===== verification/Firmware.thy ===== *)
theory Firmware
  imports Board Ohci_Live
begin

text \<open>
  The firmware of the RK356x boards as a whole: its entry (\<open>rk356x_board_entry\<close> in
  src/rk356x/board.c), the hand-over to the payload and the calls the payload makes
  (src/firmware.c). What the payload does is not part of the model: the hand-over ends with
  the address that is entered, and every call is a function on the firmware's state.
\<close>

subsection \<open>Calls from the payload\<close>

text \<open>A call returns a value, or the machine is switched off and nothing returns.\<close>

datatype call_result = Returned u64 | PoweredOff

text \<open>The loop over a string of the payload, which may run past every bound.\<close>

partial_function (option) print_str :: "device \<Rightarrow> addr \<Rightarrow> mem \<Rightarrow> addr \<Rightarrow> history \<Rightarrow> history option" where
  "print_str dev uart m s t =
     (if m s \<noteq> 0 then do { t \<leftarrow> putchar dev uart (m s) t; print_str dev uart m (s + 1) t } else Some t)"

text \<open>\<open>input_poll\<close> with the poll function of the USB driver, once it is set.\<close>

definition poll_input :: "env \<Rightarrow> firmware \<Rightarrow> history \<Rightarrow> (firmware \<times> history) option" where
  "poll_input e fw t = input_poll (if poller fw then Some (\<lambda>s. s \<bind> (\<lambda>(fw, t). usb_poll e fw t)) else None) (Some (fw, t))"

definition process_firmware_call :: "env \<Rightarrow> rk356x_board \<Rightarrow> u64 \<Rightarrow> u64 \<Rightarrow> firmware \<Rightarrow> history
    \<Rightarrow> ((call_result \<times> firmware) \<times> history) option" where
  "process_firmware_call e board p1 p2 fw t =
     (if p1 = 0x84000000 then Some ((Returned 0x10000, fw), t)
      else if p1 = 0x84000008 then Some ((PoweredOff, fw), plat_shutdown t)
      else if p1 = 0x84000009 then Some ((PoweredOff, fw), plat_reset t)
      else if p1 = 0x8400000a then Some ((Returned (- 1), fw), t)
      else if p1 = 0xf0000000 then do {
        t \<leftarrow> putchar (hw e) plat_get_uart_base (ucast p2) t;
        Some ((Returned 0, fw), t)
      }
      else if p1 = 0xf0000001 then do {
        t \<leftarrow> print_str (hw e) plat_get_uart_base (fmem fw) p2 t;
        Some ((Returned 0, fw), t)
      }
      else if p1 = 0xf0000002 then do {
        (fw, t) \<leftarrow> poll_input e fw t;
        let (c, q) = input_get_char (input fw);
        Some ((Returned (ucast c), fw\<lparr>input := q\<rparr>), t)
      }
      else if p1 = 0xf0000003 then do {
        (fw, t) \<leftarrow> poll_input e fw t;
        Some ((Returned (if input_available (input fw) then 1 else 0), fw), t)
      }
      else case plat_process_firmware_call e board p1 fw t of ((rc, fw), t) \<Rightarrow> do {
        t \<leftarrow> (if rc = FU_ERROR then show_reg e ''Unknown command: '' p1 t else Some t);
        t \<leftarrow> dcache_flush (0x08000000 - 0x10000) 0x08000000 t;
        Some ((Returned rc, fw), t)
      })"

definition smc_handler :: "env \<Rightarrow> rk356x_board \<Rightarrow> u64 \<Rightarrow> u64 \<Rightarrow> firmware \<Rightarrow> history
    \<Rightarrow> ((call_result \<times> firmware) \<times> history) option" where
  "smc_handler = process_firmware_call"

subsection \<open>The hand-over\<close>

text \<open>Where the processor goes: nowhere, to the payload in EL3 with the call handler as argument,
  to EL2 with a stack pointer, or to U-Boot.\<close>

datatype handoff = Stopped | CallPayload addr | DropToEL2 addr addr | CallUboot addr

definition fill_blue :: "addr \<Rightarrow> mem \<Rightarrow> mem" where
  "fill_blue fb m = fold (\<lambda>i m. store_le 4 m (fb + 4 * of_nat i) 0x0000ff) [0..<1080 * 1920] m"

definition bsod :: "firmware \<Rightarrow> history \<Rightarrow> firmware \<times> history" where
  "bsod fw t =
     (let fb = plat_get_framebuffer (video fw) in
      (if fb \<noteq> 0 then fw\<lparr>fmem := fill_blue fb (fmem fw)\<rparr> else fw, Wfi # t))"

text \<open>The header that is used afterwards is the one at the returned address.\<close>

definition relocate :: "env \<Rightarrow> mem \<Rightarrow> history \<Rightarrow> ((addr \<times> mem) \<times> history) option" where
  "relocate e m t =
     (let header = end_of_image e; h = read_header m header in
      if payload_flags h AND 1 \<noteq> 0 \<and> header \<noteq> relocation_addr h then do {
        let m = memcpy m (relocation_addr h) header (unat (payload_size h));
        t \<leftarrow> dcache_clean (relocation_addr h) (relocation_addr h + ucast (payload_size h)) t;
        Some ((relocation_addr h, m), t)
      } else Some ((header, m), t))"

definition jump_to_payload :: "env \<Rightarrow> firmware \<Rightarrow> history \<Rightarrow> ((handoff \<times> firmware) \<times> history) option" where
  "jump_to_payload e fw t =
     (if magic (read_header (fmem fw) (end_of_image e)) \<noteq> 0x8008135 then do {
        t \<leftarrow> say e ''Bad payload magic'' t;
        let (fw, t) = bsod fw t;
        Some ((Stopped, fw), t)
      } else do {
        ((header, m), t) \<leftarrow> relocate e (fmem fw) t;
        let fw = fw\<lparr>fmem := m\<rparr>;
        let boot = boot_code (read_header m header);
        t \<leftarrow> show_reg e ''Calling '' boot t;
        if boot \<ge> 0xa00000 then do {
          t \<leftarrow> say e ''Dropping down into EL2'' t;
          Some ((DropToEL2 boot (0x08000000 - 0x10000 div 2), fw), t)
        } else do {
          t \<leftarrow> say e ''Jumping to payload in EL3'' t;
          Some ((CallPayload boot, fw), t)
        }
      })"

text \<open>What follows if the payload returns.\<close>

definition payload_returned :: "env \<Rightarrow> history \<Rightarrow> history option" where
  "payload_returned e t = do { t \<leftarrow> say e ''Returned from payload'' t; Some (Wfi # t) }"

definition jump_to_uboot :: "env \<Rightarrow> addr \<Rightarrow> u32 \<Rightarrow> firmware \<Rightarrow> history \<Rightarrow> ((handoff \<times> firmware) \<times> history) option" where
  "jump_to_uboot e text_addr image_size fw t = do {
     let fw = fw\<lparr>fmem := memcpy (fmem fw) text_addr (end_of_image e) (unat image_size)\<rparr>;
     t \<leftarrow> dcache_clean text_addr (text_addr + ucast image_size) t;
     t \<leftarrow> say e ''Jumping to u-boot'' t;
     Some ((CallUboot text_addr, fw), t)
   }"

subsection \<open>The entry of the firmware\<close>

definition firmware_start :: "mem \<Rightarrow> firmware" where
  "firmware_start m = \<lparr>fmem = m, detected = None, video = no_video, dtb_addr = 0,
     usb = ohci_dma_configure 0 0, keys = \<lparr>previous = replicate 8 0, caps_lock = False\<rparr>,
     input = input_start, poller = False\<rparr>"

text \<open>The display of the board, with its messages.\<close>

definition start_display :: "env \<Rightarrow> firmware \<Rightarrow> history \<Rightarrow> (firmware \<times> history) option" where
  "start_display e fw t = do {
     t \<leftarrow> say e ''HDMI: initializing'' t;
     ((r, m, v), t) \<leftarrow> rk356x_display_init (hw e) plat_get_uart_base (itoa_buffer e) (fmem fw) t;
     let fw = fw\<lparr>fmem := m, video := v\<rparr>;
     t \<leftarrow> (if r \<noteq> 0 then say e ''HDMI: setup failed'' t
       else do {
         t \<leftarrow> say e ''HDMI: fixed 1920x1080p60'' t;
         t \<leftarrow> show_reg e ''HDMI width: '' (ucast (hactive (video_mode v))) t;
         show_reg e ''HDMI height: '' (ucast (vactive (video_mode v))) t
       });
     Some (fw, t)
   }"

text \<open>From the UART to the layout of the DRAM.\<close>

definition start_memory :: "env \<Rightarrow> rk356x_board \<Rightarrow> firmware \<Rightarrow> history \<Rightarrow> (firmware \<times> history) option" where
  "start_memory e board fw t = do {
     let t = CntFreq 24000000 # t;
     let t = rk356x_enable_uart t;
     let t = uart_init (hw e) plat_get_uart_base 1500000 t;
     t \<leftarrow> say e ''RK356x bare-metal firmware'' t;
     t \<leftarrow> say e (board_name board) t;
     t \<leftarrow> say e (board_soc board) t;
     let t = rk356x_setup_security (hw e) t;
     let fw = fw\<lparr>fmem := plat_setup_mmu (page_tables e) (fmem fw)\<rparr>;
     let t = plat_enable_mmu (page_tables e) t;
     let (dram, l, t) = rk356x_get_dram_layout (hw e) (fmem fw) (detected fw, t);
     let fw = fw\<lparr>detected := l\<rparr>;
     t \<leftarrow> log_dram_layout e dram t;
     Some (fw, t)
   }"

definition start_pins :: "env \<Rightarrow> rk356x_board \<Rightarrow> addr \<Rightarrow> u32 \<Rightarrow> firmware \<Rightarrow> history \<Rightarrow> (firmware \<times> history) option" where
  "start_pins e board dtb dtb_size fw t = do {
     t \<leftarrow> say e ''DTB: installing'' t;
     let fw = rk356x_set_dtb dtb dtb_size fw;
     t \<leftarrow> say e ''DTB: ready'' t;
     let t = fold (\<lambda>i. rk356x_gpio_output (usb_vbus board ! i) 1) [0..<2] t;
     let t = fold (\<lambda>i. rk356x_gpio_output (leds board ! i) 1) [0..<2] t;
     t \<leftarrow> say e ''Board GPIO: ready'' t;
     Some (fw, t)
   }"

definition rk356x_board_entry :: "env \<Rightarrow> rk356x_board \<Rightarrow> addr \<Rightarrow> u32 \<Rightarrow> firmware \<Rightarrow> history
    \<Rightarrow> ((handoff \<times> firmware) \<times> history) option" where
  "rk356x_board_entry e board dtb dtb_size fw t = do {
     (fw, t) \<leftarrow> start_memory e board fw t;
     (fw, t) \<leftarrow> start_pins e board dtb dtb_size fw t;
     (fw, t) \<leftarrow> start_display e fw t;
     let fw = fw\<lparr>input := input_reset (input fw)\<rparr>;
     t \<leftarrow> say e ''USB: initializing'' t;
     (fw, t) \<leftarrow> rk356x_usb_init e board fw t;
     t \<leftarrow> say e ''USB: polling ready'' t;
     t \<leftarrow> say e ''Transitioning payload to EL2'' t;
     jump_to_payload e fw t
   }"

end
