(* ===== verification/Firmware_Live.thy ===== *)
theory Firmware_Live
  imports Firmware
begin

text \<open>
  The firmware of the RK356x boards reaches its payload: every part of the entry comes to an
  end when the clock runs and the UART gets ready, changes only its own memory, and leaves
  the state of the drivers well-formed. The last section puts the parts together.
\<close>

subsection \<open>What other memory keeps\<close>

lemma read_header_only_changes:
  assumes "only_changes rs m m'" and "\<forall>(b, k) \<in> set rs. disjoint_ranges h n b k" and "0x50 \<le> n" and "n \<le> 18446744073709551616"
  shows "read_header m' h = read_header m h"
  using load_only_changes [OF assms(1,2) _ assms(4), where i = "0x28" and k = 4]
    load_only_changes [OF assms(1,2) _ assms(4), where i = "0x30" and k = 4]
    load_only_changes [OF assms(1,2) _ assms(4), where i = "0x34" and k = 4]
    load_only_changes [OF assms(1,2) _ assms(4), where i = "0x38" and k = 8] assms(3)
  by (simp add: read_header_def)

subsection \<open>The page tables\<close>

lemma only_changes_write64:
  "off + 8 \<le> n \<Longrightarrow> n \<le> 18446744073709551616 \<Longrightarrow> only_changes [(pt, n)] m (write64 m (pt + of_nat off) v)"
  by (simp add: write64_def store_le_def only_changes_part)

lemma only_changes_mmu: "only_changes [(pt, 12288)] m (plat_setup_mmu pt m)"
proof -
  have entry: "only_changes [(pt, 12288)] m (write64 m (pt + of_nat off) v)" if "off + 8 \<le> 12288" for off v m
    using that by (intro only_changes_write64) simp_all
  have tables: "only_changes [(pt, 12288)] m (identity_tables lo hi pt m)" for lo hi m
    unfolding identity_tables_def Let_def
    by (rule only_changes_same [OF _ only_changes_fold], rule only_changes_same [OF _ only_changes_fold])
      (intro only_changes_same [OF _ entry] only_changes_refl entry; simp)+
  show ?thesis
    unfolding rk356x_setup_mmu_tables
    by (rule only_changes_same [OF _ tables]) (simp add: memset_write only_changes_write)
qed

subsection \<open>Parts that come to an end\<close>

definition env_ok :: "env \<Rightarrow> bool" where
  "env_ok e \<longleftrightarrow> clock_runs (hw e) \<and> uart_ready (hw e) plat_get_uart_base
     \<and> length (hex_stack e) = 17 \<and> length (bits_stack e) = 65"

lemma env_timer: "env_ok e \<Longrightarrow> timer_runs (hw e)" and env_uart: "env_ok e \<Longrightarrow> uart_ready (hw e) plat_get_uart_base"
  by (simp_all add: env_ok_def clock_runs_timer)

lemma proceeds_say: "env_ok e \<Longrightarrow> proceeds (say e s) (\<lambda>_. True)"
  by (rule proceeds_puts [OF env_uart])

lemma proceeds_show_u64: "env_ok e \<Longrightarrow> proceeds (show_u64 e s v) (\<lambda>_. True)"
  unfolding env_ok_def by (intro proceeds_outputs [OF debug_u64_output]) simp_all

lemma proceeds_show_reg: "env_ok e \<Longrightarrow> unat v < 4294967296 \<Longrightarrow> proceeds (show_reg e s v) (\<lambda>_. True)"
  by (rule proceeds_debug [OF env_uart])

lemma proceeds_Some: "proceeds Some (\<lambda>_. True)"
  by (rule proceeds_return) simp

lemma proceeds_then: "proceeds f (\<lambda>_. True) \<Longrightarrow> proceeds g (\<lambda>_. True) \<Longrightarrow> proceeds (\<lambda>t. f t \<bind> g) (\<lambda>_. True)"
  by (rule proceeds_bind)

text \<open>A step without result in front of a routine whose result does not depend on the events.\<close>

lemma runs_then: "proceeds f (\<lambda>_. True) \<Longrightarrow> runs g (\<lambda>x _. Q x) \<Longrightarrow> runs (\<lambda>t. f t \<bind> g) (\<lambda>x _. Q x)"
  by (rule runs_after)

lemma runs_Some: "Q x \<Longrightarrow> (\<And>t. grows t (h t)) \<Longrightarrow> runs (\<lambda>t. Some (x, h t)) (\<lambda>x _. Q x)"
  by (rule runs_last)

lemma runs_grown: "(\<And>t. grows t (h t)) \<Longrightarrow> runs f (\<lambda>x _. Q x) \<Longrightarrow> runs (\<lambda>t. f (h t)) (\<lambda>x _. Q x)"
  by (rule runs_pre_same)

lemma runs_next: "runs f (\<lambda>x _. P x) \<Longrightarrow> (\<And>x. P x \<Longrightarrow> runs (g x) (\<lambda>y _. Q y)) \<Longrightarrow> runs (\<lambda>t. f t \<bind> (\<lambda>(x, t). g x t)) (\<lambda>y _. Q y)"
  by (rule runs_bind)

lemma proceeds_log_banks: "env_ok e \<Longrightarrow> proceeds (log_banks e bs) (\<lambda>_. True)"
proof (induction bs)
  case (Cons b bs)
  then show ?case
    unfolding log_banks.simps(2) [abs_def] by (intro proceeds_then proceeds_show_u64)
qed (simp add: log_banks.simps(1) [abs_def] proceeds_Some)

lemma proceeds_log_layout: "env_ok e \<Longrightarrow> proceeds (log_dram_layout e l) (\<lambda>_. True)"
  unfolding log_dram_layout_def [abs_def]
  by (intro proceeds_then proceeds_if proceeds_say proceeds_show_u64 proceeds_Some proceeds_log_banks)

subsection \<open>Register accesses without waiting\<close>

lemma grows_uart_init [grows_intros]: "grows t s \<Longrightarrow> grows t (uart_init dev uart rate s)"
  by (simp add: uart_init_def read32_def write32_def Let_def)

lemma grows_enable_uart [grows_intros]: "grows t s \<Longrightarrow> grows t (rk356x_enable_uart s)"
  unfolding rk356x_enable_uart_def Let_def by (intro grows_intros)

lemma grows_security [grows_intros]: "grows t s \<Longrightarrow> grows t (rk356x_setup_security dev s)"
  by (simp add: rk356x_setup_security_def read32_def write32_def Let_def)

lemma grows_enable_mmu [grows_intros]: "grows t s \<Longrightarrow> grows t (plat_enable_mmu pt s)"
  by (simp add: plat_enable_mmu_def)

lemma grows_fold: "(\<And>i s. grows t s \<Longrightarrow> grows t (f i s)) \<Longrightarrow> grows t s \<Longrightarrow> grows t (fold f is s)"
  by (induction "is" arbitrary: s) simp_all

lemma grows_masked [grows_intros]: "grows t s \<Longrightarrow> grows t (masked_pin_write a b pin v s)"
  unfolding masked_pin_write_def by (intro grows_intros)

lemma grows_gpio_output [grows_intros]: "grows t s \<Longrightarrow> grows t (rk356x_gpio_output p v s)"
  by (auto simp: rk356x_gpio_output_def gpio_enable_def gpio_set_mux_def gpio_set_pin_def gpio_set_dir_def Let_def
      intro!: grows_intros split: option.split)

lemma grows_set_reset [grows_intros]: "grows t s \<Longrightarrow> grows t (set_reset i v s)"
  unfolding set_reset_def by (intro grows_intros)

lemma grows_usb_resets [grows_intros]: "grows t s \<Longrightarrow> grows t (usb_resets v s)"
  unfolding usb_resets_def Let_def by (intro grows_intros grows_fold)

lemma grows_usb_clocks [grows_intros]: "grows t s \<Longrightarrow> grows t (usb_clocks s)"
  unfolding usb_clocks_def Let_def by (intro grows_intros)

lemma grows_usb_phy [grows_intros]: "grows t s \<Longrightarrow> grows t (usb2phy1_enable s)"
  unfolding usb2phy1_enable_def Let_def by (intro grows_intros)

subsection \<open>USB\<close>

lemma runs_add_controller:
  assumes "env_ok e" and "driver_ok drv"
  shows "runs (add_controller e base name drv) (\<lambda>drv' _. driver_ok drv')"
  unfolding runs_def
proof
  fix t
  obtain r drv' new where add: "ohci_add_controller (hw e) base (drv, t) = Some (r, drv', new @ t)"
    using add_controller_runs assms(1) unfolding env_ok_def by metis
  then have "driver_ok drv'" using assms(2) driver_ok_add by blast
  moreover have "proceeds (\<lambda>t. if r \<noteq> 0 then say e (name @ '' unavailable'') t else say e (name @ '' ready'') t) (\<lambda>_. True)"
    using assms(1) by (intro proceeds_if proceeds_say)
  then obtain new' where "(if r \<noteq> 0 then say e (name @ '' unavailable'') (new @ t) else say e (name @ '' ready'') (new @ t))
      = Some (new' @ new @ t)"
    unfolding proceeds_def by blast
  ultimately show "\<exists>x new. add_controller e base name drv t = Some (x, new @ t) \<and> driver_ok x"
    by (intro exI [of _ drv'] exI [of _ "new' @ new"]) (simp add: add_controller_def add)
qed

definition drivers_ok :: "firmware \<Rightarrow> bool" where
  "drivers_ok fw \<longleftrightarrow> driver_ok (usb fw) \<and> keyboard_ok (keys fw) (input fw)"

text \<open>The drivers change nothing else of the firmware's state.\<close>

definition same_rest :: "firmware \<Rightarrow> firmware \<Rightarrow> bool" where
  "same_rest fw fw' \<longleftrightarrow> fmem fw' = fmem fw \<and> detected fw' = detected fw \<and> video fw' = video fw
     \<and> dtb_addr fw' = dtb_addr fw"

lemma runs_usb_poll:
  assumes "env_ok e" and "drivers_ok fw"
  shows "runs (usb_poll e fw) (\<lambda>fw' _. drivers_ok fw' \<and> poller fw' = poller fw \<and> same_rest fw fw')"
  unfolding runs_def
proof
  fix t
  obtain drv new kb q where "ohci_poll_all (hw e) plat_get_uart_base (itoa_buffer e) (usb fw, t, keys fw, input fw)
      = Some (drv, new @ t, kb, q)" "driver_ok drv" "keyboard_ok kb q"
    using poll_all_runs [OF env_uart [OF assms(1)], of "usb fw" "keys fw" "input fw" "itoa_buffer e" t] assms(2)
    unfolding drivers_ok_def by blast
  then show "\<exists>x new. usb_poll e fw t = Some (x, new @ t)
      \<and> (drivers_ok x \<and> poller x = poller fw \<and> same_rest fw x)"
    by (intro exI [of _ "fw\<lparr>usb := drv, keys := kb, input := q\<rparr>"] exI [of _ new]) (auto simp: usb_poll_def drivers_ok_def same_rest_def)
qed

lemma runs_usb_init:
  assumes "env_ok e" and "keyboard_ok (keys fw) (input fw)"
  shows "runs (rk356x_usb_init e board fw)
    (\<lambda>fw' _. drivers_ok fw' \<and> poller fw' \<and> same_rest fw fw')"
proof -
  have start: "driver_ok (ohci_dma_configure RK356X_DMA_START RK356X_DMA_LIMIT)"
    by (rule driver_ok_configure) simp_all
  have add: "runs (\<lambda>t. if b then add_controller e base name drv t else Some (drv, t)) (\<lambda>drv' _. driver_ok drv')"
    if "driver_ok drv" for b base name drv
    using assms(1) that by (intro runs_if runs_add_controller runs_return)
  have poll: "runs (usb_poll e (fw\<lparr>usb := drv, poller := True\<rparr>))
      (\<lambda>fw' _. drivers_ok fw' \<and> poller fw' \<and> same_rest fw fw')"
    if "driver_ok drv" for drv
    using that assms by (intro runs_mono [OF runs_usb_poll]) (auto simp: drivers_ok_def same_rest_def)
  show ?thesis
    unfolding rk356x_usb_init_def [abs_def] Let_def
    by (intro runs_then [OF proceeds_say [OF assms(1)]]
        runs_then [OF proceeds_pre [OF proceeds_usleep [OF env_timer [OF assms(1)]]]]
        runs_then [OF proceeds_pre [OF proceeds_msleep [OF env_timer [OF assms(1)]]]]
        runs_next [OF add] poll start grows_intros)
qed

subsection \<open>The parts of the entry\<close>

lemma runs_layout:
  assumes "\<And>l. sound_layout l \<Longrightarrow> runs (f l (Some l)) (\<lambda>x _. Q x)"
  shows "runs (\<lambda>t. case rk356x_get_dram_layout dev m (None, t) of (dram, l, t) \<Rightarrow> f dram l t) (\<lambda>x _. Q x)"
  unfolding runs_def
proof
  fix t
  obtain l new where l: "rk356x_get_dram_layout dev m (None, t) = (l, Some l, new @ t)" "sound_layout l"
  proof -
    let ?t1 = "Read32 (RK356X_PMUGRF + 0x208) (dev_rd dev t (RK356X_PMUGRF + 0x208)) # t"
    let ?l = "rk356x_select_dram_layout m ATAGS_START (ATAGS_END - ATAGS_START) (dev_rd dev t (RK356X_PMUGRF + 0x208))
      (dev_rd dev ?t1 (RK356X_PMUGRF + 0x20c))"
    have "rk356x_get_dram_layout dev m (None, t)
        = (?l, Some ?l, [Read32 (RK356X_PMUGRF + 0x20c) (dev_rd dev ?t1 (RK356X_PMUGRF + 0x20c)),
             Read32 (RK356X_PMUGRF + 0x208) (dev_rd dev t (RK356X_PMUGRF + 0x208))] @ t)"
      by (simp add: rk356x_get_dram_layout_def read32_def Let_def)
    moreover have "sound_layout ?l" using select_consistent by (simp add: consistent_layout_def)
    ultimately show ?thesis by (rule that)
  qed
  from assms [OF l(2)] obtain x new' where "f l (Some l) (new @ t) = Some (x, new' @ new @ t)" "Q x"
    unfolding runs_def by blast
  with l show "\<exists>x new. (case rk356x_get_dram_layout dev m (None, t) of (dram, l, t) \<Rightarrow> f dram l t) = Some (x, new @ t) \<and> Q x"
    by (intro exI [of _ x] exI [of _ "new' @ new"]) simp
qed

lemma runs_start_memory:
  assumes "env_ok e" and "detected fw = None"
  shows "runs (start_memory e board fw) (\<lambda>fw' _. \<exists>l. sound_layout l
    \<and> fw' = fw\<lparr>fmem := plat_setup_mmu (page_tables e) (fmem fw), detected := Some l\<rparr>)"
proof -
  have "proceeds (\<lambda>t. say e s (uart_init (hw e) plat_get_uart_base 1500000 (rk356x_enable_uart (CntFreq 24000000 # t)))) (\<lambda>_. True)" for s
    by (rule proceeds_pre [OF proceeds_say [OF assms(1)]]) (intro grows_intros)
  note first = runs_then [OF this]
  have last: "runs (\<lambda>t. case rk356x_get_dram_layout (hw e) m (None, plat_enable_mmu (page_tables e) (rk356x_setup_security (hw e) t)) of
      (dram, l, t) \<Rightarrow> log_dram_layout e dram t \<bind> (\<lambda>t. Some (fw\<lparr>fmem := m, detected := l\<rparr>, t)))
    (\<lambda>fw' _. \<exists>l. sound_layout l \<and> fw' = fw\<lparr>fmem := m, detected := Some l\<rparr>)" for m
    by (rule runs_grown [where h = "\<lambda>t. plat_enable_mmu (page_tables e) (rk356x_setup_security (hw e) t)"], intro grows_intros,
        rule runs_layout, rule runs_then [OF proceeds_log_layout [OF assms(1)]], rule runs_return, blast)
  show ?thesis
    unfolding start_memory_def [abs_def] Let_def assms(2) split_def
    using last by (intro first runs_then [OF proceeds_say [OF assms(1)]]) (simp add: split_def assms(2))
qed

lemma runs_start_pins:
  assumes "env_ok e"
  shows "runs (start_pins e board dtb sz fw) (\<lambda>fw' _. fw' = rk356x_set_dtb dtb sz fw)"
  unfolding start_pins_def [abs_def] Let_def
  by (intro runs_then [OF proceeds_say [OF assms]] runs_then [OF proceeds_pre [OF proceeds_say [OF assms]]] runs_return
      grows_fold grows_intros refl)

lemma fb_only_changes: "display_outcome m (r, m', v) new \<Longrightarrow> only_changes [(RK356X_FB_START, 8294400)] m m'"
  by (auto simp: display_outcome_def only_changes_refl intro!: only_changes_write)

lemma runs_start_display:
  assumes "env_ok e"
  shows "runs (start_display e fw) (\<lambda>fw' _. \<exists>m v. only_changes [(RK356X_FB_START, 8294400)] (fmem fw) m
    \<and> video_mode v = fixed_mode \<and> stride v = 7680 \<and> fw' = fw\<lparr>fmem := m, video := v\<rparr>)"
proof -
  have small: "unat (ucast (hactive fixed_mode) :: u64) < 4294967296" "unat (ucast (vactive fixed_mode) :: u64) < 4294967296"
    by (simp_all add: fixed_mode_def)
  have msg: "proceeds (\<lambda>t. if r \<noteq> 0 then say e ''HDMI: setup failed'' t
      else say e ''HDMI: fixed 1920x1080p60'' t \<bind> (\<lambda>t. show_reg e ''HDMI width: '' (ucast (hactive fixed_mode)) t
        \<bind> show_reg e ''HDMI height: '' (ucast (vactive fixed_mode)))) (\<lambda>_. True)" for r :: int
    by (intro proceeds_if proceeds_then proceeds_say proceeds_show_reg assms small)
  let ?g = "\<lambda>(r, m, v) t. (if r \<noteq> 0 then say e ''HDMI: setup failed'' t
      else say e ''HDMI: fixed 1920x1080p60'' t \<bind> (\<lambda>t. show_reg e ''HDMI width: '' (ucast (hactive (video_mode v))) t
        \<bind> show_reg e ''HDMI height: '' (ucast (vactive (video_mode v))))) \<bind> (\<lambda>t. Some (fw\<lparr>fmem := m, video := v\<rparr>, t))"
  have "runs (?g x) (\<lambda>fw' _. \<exists>m v. only_changes [(RK356X_FB_START, 8294400)] (fmem fw) m
    \<and> video_mode v = fixed_mode \<and> stride v = 7680 \<and> fw' = fw\<lparr>fmem := m, video := v\<rparr>)"
    if d: "display_outcome (fmem fw) x new" for x new
  proof -
    obtain r m v where x: "x = (r, m, v)" by (metis prod_cases3)
    have v: "video_mode v = fixed_mode" "stride v = 7680" using d by (simp_all add: x display_outcome_def)
    show ?thesis
      unfolding x prod.case v(1)
      using v fb_only_changes [OF d [unfolded x]] by (intro runs_then [OF msg] runs_return) blast
  qed
  from runs_bind [OF runs_display_init [OF env_timer [OF assms] env_uart [OF assms]], where g = ?g, OF this]
  have "runs (\<lambda>t. rk356x_display_init (hw e) plat_get_uart_base (itoa_buffer e) (fmem fw) t \<bind> (\<lambda>(x, t). ?g x t))
    (\<lambda>fw' _. \<exists>m v. only_changes [(RK356X_FB_START, 8294400)] (fmem fw) m
    \<and> video_mode v = fixed_mode \<and> stride v = 7680 \<and> fw' = fw\<lparr>fmem := m, video := v\<rparr>)" .
  from runs_then [OF proceeds_say [OF assms] this, of "''HDMI: initializing''"]
  show ?thesis
    unfolding start_display_def [abs_def] Let_def by (simp add: split_def cong: if_cong)
qed

subsection \<open>The hand-over\<close>

lemma proceeds_dcache:
  shows "proceeds (dcache_clean a b) (\<lambda>_. True)" and "proceeds (dcache_flush a b) (\<lambda>_. True)"
    and "proceeds (dcache_invalidate a b) (\<lambda>_. True)"
proof -
  have "\<exists>new. dcache_lines line ((a - 0x40) AND NOT 0x3f) ((b + 0x40) AND NOT 0x3f) (Barrier # t) = Some (new @ t)" for line t
    using dcache_lines_ends [of line "a - 0x40" "b + 0x40" "Barrier # t"] unfolding cache_line_def
    by (metis append.assoc append_Cons append_Nil)
  then show "proceeds (dcache_clean a b) (\<lambda>_. True)" "proceeds (dcache_flush a b) (\<lambda>_. True)"
      "proceeds (dcache_invalidate a b) (\<lambda>_. True)"
    by (simp_all add: proceeds_def dcache_clean_def dcache_flush_def dcache_invalidate_def)
qed

text \<open>Where the payload starts, what memory it finds, and how it is entered.\<close>

definition entry_point :: "env \<Rightarrow> mem \<Rightarrow> addr" where
  "entry_point e m = (let h = read_header m (end_of_image e) in
     if payload_flags h AND 1 \<noteq> 0 then relocation_addr h else end_of_image e)"

definition relocated :: "env \<Rightarrow> mem \<Rightarrow> mem" where
  "relocated e m = (if entry_point e m = end_of_image e then m
     else memcpy m (entry_point e m) (end_of_image e) (unat (payload_size (read_header m (end_of_image e)))))"

definition payload_exit :: "env \<Rightarrow> mem \<Rightarrow> handoff" where
  "payload_exit e m =
     (if magic (read_header m (end_of_image e)) \<noteq> 0x8008135 then Stopped
      else if entry_point e m \<ge> 0xa00000 then DropToEL2 (entry_point e m) 0x07ff8000
      else CallPayload (entry_point e m))"

lemma runs_relocate: "runs (relocate e m) (\<lambda>x _. x = (entry_point e m, relocated e m))"
proof (cases "entry_point e m = end_of_image e")
  case True
  then have "relocate e m = (\<lambda>t. Some ((entry_point e m, relocated e m), t))"
    by (auto simp: relocate_def Let_def entry_point_def relocated_def fun_eq_iff split: if_splits)
  then show ?thesis by (simp add: runs_return)
next
  case False
  then have "relocate e m = (\<lambda>t. dcache_clean (entry_point e m)
      (entry_point e m + ucast (payload_size (read_header m (end_of_image e)))) t \<bind> (\<lambda>t. Some ((entry_point e m, relocated e m), t)))"
    by (auto simp: relocate_def Let_def entry_point_def relocated_def fun_eq_iff split: if_splits)
  then show ?thesis by (simp add: runs_then proceeds_dcache runs_return)
qed

lemma runs_jump:
  assumes "env_ok e" and "unat (entry_point e (fmem fw)) < 4294967296"
  shows "runs (jump_to_payload e fw) (\<lambda>r _. fst r = payload_exit e (fmem fw)
    \<and> (fst r \<noteq> Stopped \<longrightarrow> snd r = fw\<lparr>fmem := relocated e (fmem fw)\<rparr>))"
proof (cases "magic (read_header (fmem fw) (end_of_image e)) = 0x8008135")
  case False
  define fw' where "fw' = fst (bsod fw [])"
  have "bsod fw t = (fw', Wfi # t)" for t by (simp add: bsod_def fw'_def Let_def)
  then have jump: "jump_to_payload e fw = (\<lambda>t. say e ''Bad payload magic'' t \<bind> (\<lambda>t. Some ((Stopped, fw'), Wfi # t)))"
    using False by (simp add: jump_to_payload_def fun_eq_iff)
  show ?thesis
    unfolding jump
    by (intro runs_then [OF proceeds_say [OF assms(1)]] runs_Some grows_intros) (simp add: payload_exit_def False)
next
  case True
  let ?a = "entry_point e (fmem fw)" and ?fw = "fw\<lparr>fmem := relocated e (fmem fw)\<rparr>"
  let ?enter = "\<lambda>t. show_reg e ''Calling '' ?a t \<bind> (\<lambda>t. if ?a \<ge> 0xa00000
    then say e ''Dropping down into EL2'' t \<bind> (\<lambda>t. Some ((DropToEL2 ?a 0x07ff8000, ?fw), t))
    else say e ''Jumping to payload in EL3'' t \<bind> (\<lambda>t. Some ((CallPayload ?a, ?fw), t)))"
  have enter: "runs ?enter (\<lambda>r _. fst r = payload_exit e (fmem fw) \<and> (fst r \<noteq> Stopped \<longrightarrow> snd r = ?fw))"
    using True
    by (intro runs_then [OF proceeds_show_reg [OF assms]] runs_if runs_then [OF proceeds_say [OF assms(1)]] runs_return)
      (simp_all add: payload_exit_def)
  have boot: "boot_code (read_header m h) = h" for m h by (simp add: read_header_def)
  have "runs (\<lambda>t. relocate e (fmem fw) t \<bind> (\<lambda>(x, t). ?enter t))
      (\<lambda>r _. fst r = payload_exit e (fmem fw) \<and> (fst r \<noteq> Stopped \<longrightarrow> snd r = ?fw))"
    by (rule runs_next [OF runs_relocate enter])
  moreover have "jump_to_payload e fw t = relocate e (fmem fw) t \<bind> (\<lambda>(x, t). ?enter t)" for t
  proof -
    obtain new where "relocate e (fmem fw) t = Some ((?a, relocated e (fmem fw)), new @ t)"
      using runs_relocate [of e "fmem fw"] unfolding runs_def by blast
    with True show ?thesis by (simp add: jump_to_payload_def boot Let_def cong: if_cong)
  qed
  ultimately show ?thesis by (simp only: runs_def simp_thms)
qed

subsection \<open>The entry\<close>

text \<open>The image, the payload and the device tree lie apart from the memory the firmware uses, and
  the payload starts below 4 GiB.\<close>

definition payload_room :: "env \<Rightarrow> mem \<Rightarrow> nat" where
  "payload_room e m = max 0x50 (unat (payload_size (read_header m (end_of_image e))))"

definition firmware_memory :: "env \<Rightarrow> (addr \<times> nat) list" where
  "firmware_memory e = [(page_tables e, 12288), (RK356X_DTB, 0xf0000), (RK356X_FB_START, 8294400)]"

definition well_placed :: "env \<Rightarrow> addr \<Rightarrow> u32 \<Rightarrow> mem \<Rightarrow> bool" where
  "well_placed e dtb sz m \<longleftrightarrow> (let n = payload_room e m in
     (\<forall>(a, k) \<in> set (firmware_memory e). disjoint_ranges (end_of_image e) n a k)
     \<and> disjoint_ranges dtb (unat sz) (page_tables e) 12288 \<and> disjoint_ranges dtb (unat sz) RK356X_DTB 0xf0000
     \<and> (entry_point e m \<noteq> end_of_image e \<longrightarrow> disjoint_ranges (entry_point e m) n (end_of_image e) n
          \<and> disjoint_ranges (entry_point e m) n RK356X_DTB 0xf0000)
     \<and> unat (entry_point e m) < 4294967296)"

text \<open>What the entry leaves in the memory and in the state.\<close>

definition firmware_ok :: "firmware \<Rightarrow> bool" where
  "firmware_ok fw \<longleftrightarrow> drivers_ok fw \<and> poller fw \<and> dtb_addr fw = RK356X_DTB
     \<and> video_mode (video fw) = fixed_mode \<and> stride (video fw) = 7680
     \<and> (\<exists>l. detected fw = Some l \<and> sound_layout l)"

definition payload_ready :: "env \<Rightarrow> addr \<Rightarrow> u32 \<Rightarrow> mem \<Rightarrow> firmware \<Rightarrow> bool" where
  "payload_ready e dtb sz m fw \<longleftrightarrow> firmware_ok fw
     \<and> (let n = unat (payload_size (read_header m (end_of_image e))) in
        read_bytes (fmem fw) (entry_point e m) n = read_bytes m (end_of_image e) n)
     \<and> (let n = min (unat sz) 0xf0000 in read_bytes (fmem fw) RK356X_DTB n = read_bytes m dtb n)"

lemma set_dtb_memory:
  assumes "disjoint_ranges dtb (unat sz) RK356X_DTB 0xf0000"
  shows "rk356x_set_dtb dtb sz fw = fw\<lparr>fmem := write_bytes (fmem fw) RK356X_DTB (read_bytes (fmem fw) dtb (min (unat sz) 0xf0000)),
    dtb_addr := RK356X_DTB\<rparr>"
proof -
  let ?n = "min (unat sz) 0xf0000"
  have "unat (ucast sz :: u64) = unat sz" by (rule unat_ucast_u32)
  then have "unat (if ucast sz > RK356X_SHARED - RK356X_DTB then ucast (RK356X_SHARED - RK356X_DTB) else sz :: u32) = ?n"
    by (auto simp: word_less_nat_alt min_def)
  moreover have "memcpy (fmem fw) RK356X_DTB dtb ?n = write_bytes (fmem fw) RK356X_DTB (read_bytes (fmem fw) dtb ?n)"
    using assms by (intro memcpy_write) (auto intro: disjoint_ranges_less simp: disjoint_ranges_sym [of RK356X_DTB])
  ultimately show ?thesis by (simp add: rk356x_set_dtb_def Let_def)
qed


lemma runs_jump_ready:
  assumes "env_ok e" and "well_placed e dtb sz m" and "firmware_ok fw"
    and c: "only_changes (firmware_memory e) m (fmem fw)"
    and d: "read_bytes (fmem fw) RK356X_DTB (min (unat sz) 0xf0000) = read_bytes m dtb (min (unat sz) 0xf0000)"
  shows "runs (jump_to_payload e fw)
    (\<lambda>r _. fst r = payload_exit e m \<and> (fst r \<noteq> Stopped \<longrightarrow> payload_ready e dtb sz m (snd r)))"
proof -
  let ?h = "end_of_image e" and ?n = "payload_room e m" and ?m = "fmem fw" and ?dn = "min (unat sz) 0xf0000"
  have well: "\<forall>(a, k) \<in> set (firmware_memory e). disjoint_ranges ?h ?n a k"
    "entry_point e m \<noteq> ?h \<Longrightarrow> disjoint_ranges (entry_point e m) ?n ?h ?n"
    "entry_point e m \<noteq> ?h \<Longrightarrow> disjoint_ranges (entry_point e m) ?n RK356X_DTB 0xf0000"
    "unat (entry_point e m) < 4294967296"
    using assms(2) by (simp_all add: well_placed_def Let_def)
  have n: "0x50 \<le> ?n" "unat (payload_size (read_header m ?h)) \<le> ?n" "?n \<le> 18446744073709551616"
    using unat_u32_less [of "payload_size (read_header m ?h)"] by (simp_all add: payload_room_def)
  have hd: "read_header ?m ?h = read_header m ?h"
    by (rule read_header_only_changes [OF c well(1) n(1,3)])
  then have e: "entry_point e ?m = entry_point e m" "payload_exit e ?m = payload_exit e m"
    by (simp_all add: entry_point_def payload_exit_def)
  have image: "read_bytes ?m ?h k = read_bytes m ?h k" if "k \<le> ?n" for k
    using well(1) that n(3) by (intro only_changes_read [OF c]) (auto intro: disjoint_ranges_less)
  have "payload_ready e dtb sz m (fw\<lparr>fmem := relocated e ?m\<rparr>)"
  proof (cases "entry_point e m = ?h")
    case True
    with assms(3) d image n(2) show ?thesis
      by (simp add: payload_ready_def relocated_def e Let_def firmware_ok_def drivers_ok_def)
  next
    case False
    let ?k = "unat (payload_size (read_header m ?h))"
    have "disjoint_ranges (entry_point e m) ?k ?h ?k" "disjoint_ranges RK356X_DTB ?dn (entry_point e m) ?k"
      using well(2,3) [OF False] n(2) disjoint_ranges_sym by (auto intro: disjoint_ranges_less)
    moreover from this(1) have "relocated e ?m = write_bytes ?m (entry_point e m) (read_bytes m ?h ?k)"
      using False image [OF n(2)] n(2,3) by (simp add: relocated_def e hd memcpy_write)
    ultimately show ?thesis
      using assms(3) d n(2,3) by (simp add: payload_ready_def Let_def firmware_ok_def drivers_ok_def
          read_write_same read_write_disjoint)
  qed
  with well(4) show ?thesis
    using runs_jump [OF assms(1), of fw] by (auto simp: e elim!: runs_mono)
qed

lemma runs_board_entry:
  assumes "env_ok e" and "well_placed e dtb sz m"
  shows "runs (rk356x_board_entry e board dtb sz (firmware_start m))
    (\<lambda>r _. fst r = payload_exit e m \<and> (fst r \<noteq> Stopped \<longrightarrow> payload_ready e dtb sz m (snd r)))"
proof -
  let ?dn = "min (unat sz) 0xf0000"
  have well: "disjoint_ranges dtb (unat sz) (page_tables e) 12288" "disjoint_ranges dtb (unat sz) RK356X_DTB 0xf0000"
    using assms(2) by (simp_all add: well_placed_def Let_def)
  define m1 where "m1 = plat_setup_mmu (page_tables e) m"
  define m2 where "m2 = write_bytes m1 RK356X_DTB (read_bytes m1 dtb ?dn)"
  have "only_changes [(page_tables e, 12288)] m m1" unfolding m1_def by (rule only_changes_mmu)
  moreover have "only_changes [(RK356X_DTB, 0xf0000)] m1 m2" unfolding m2_def by (rule only_changes_write) simp
  ultimately have c2: "only_changes [(page_tables e, 12288), (RK356X_DTB, 0xf0000)] m m2"
    using only_changes_trans by fastforce
  have "read_bytes m1 dtb ?dn = read_bytes m dtb ?dn"
    unfolding m1_def by (rule only_changes_read [OF only_changes_mmu]) (auto intro: disjoint_ranges_less [OF well(1)])
  then have dtb: "read_bytes m2 RK356X_DTB ?dn = read_bytes m dtb ?dn" by (simp add: m2_def read_write_same)
  have jump: "runs (jump_to_payload e fw) (\<lambda>r _. fst r = payload_exit e m \<and> (fst r \<noteq> Stopped \<longrightarrow> payload_ready e dtb sz m (snd r)))"
    if fw: "firmware_ok fw" "only_changes [(RK356X_FB_START, 8294400)] m2 (fmem fw)" for fw
  proof (rule runs_jump_ready [OF assms fw(1)])
    show "only_changes (firmware_memory e) m (fmem fw)"
      using only_changes_trans [OF c2 fw(2)] by (simp add: firmware_memory_def)
    have "disjoint_ranges (RK356X_DTB :: addr) ?dn RK356X_FB_START 8294400" by (rule disjoint_intervals) simp_all
    then show "read_bytes (fmem fw) RK356X_DTB ?dn = read_bytes m dtb ?dn"
      by (subst only_changes_read [OF fw(2)]) (simp_all add: dtb)
  qed
  let ?fw2 = "\<lambda>l. (firmware_start m)\<lparr>fmem := m2, detected := Some l, dtb_addr := RK356X_DTB\<rparr>"
  have set: "rk356x_set_dtb dtb sz ((firmware_start m)\<lparr>fmem := m1, detected := Some l\<rparr>) = ?fw2 l" for l
    using set_dtb_memory [OF well(2)] by (simp add: m2_def)
  have kb: "keyboard_ok (keys (firmware_start m)) (input_reset (input (firmware_start m)))"
    by (simp add: firmware_start_def keyboard_ok_def ring_ok_def input_start_def input_reset_def)
  have usb: "runs (rk356x_usb_init e board (fw\<lparr>input := input_reset (input fw)\<rparr>))
      (\<lambda>fw' _. firmware_ok fw' \<and> only_changes [(RK356X_FB_START, 8294400)] m2 (fmem fw'))"
    if fw: "fw = (?fw2 l)\<lparr>fmem := m3, video := v\<rparr>" "sound_layout l" "only_changes [(RK356X_FB_START, 8294400)] m2 m3"
      "video_mode v = fixed_mode" "stride v = 7680" for fw l m3 v
    using fw kb by (intro runs_mono [OF runs_usb_init [OF assms(1)]]) (simp_all add: firmware_ok_def same_rest_def)
  note say = runs_then [OF proceeds_say [OF assms(1)]]
  have memory: "runs (start_memory e board (firmware_start m))
      (\<lambda>fw _. \<exists>l. sound_layout l \<and> fw = (firmware_start m)\<lparr>fmem := m1, detected := Some l\<rparr>)"
    using runs_start_memory [OF assms(1), of "firmware_start m" board] by (simp add: firmware_start_def m1_def)
  show ?thesis
    unfolding rk356x_board_entry_def [abs_def] Let_def
  proof (rule runs_next [OF memory])
    fix fw1 assume "\<exists>l. sound_layout l \<and> fw1 = (firmware_start m)\<lparr>fmem := m1, detected := Some l\<rparr>"
    then obtain l where l: "sound_layout l" "rk356x_set_dtb dtb sz fw1 = ?fw2 l" using set by blast
    show "runs (\<lambda>t. start_pins e board dtb sz fw1 t \<bind> (\<lambda>(fw, t). start_display e fw t \<bind> (\<lambda>(fw, t).
        say e ''USB: initializing'' t \<bind> (\<lambda>t. rk356x_usb_init e board (fw\<lparr>input := input_reset (input fw)\<rparr>) t \<bind> (\<lambda>(fw, t).
        say e ''USB: polling ready'' t \<bind> (\<lambda>t. say e ''Transitioning payload to EL2'' t \<bind> jump_to_payload e fw))))))
      (\<lambda>r _. fst r = payload_exit e m \<and> (fst r \<noteq> Stopped \<longrightarrow> payload_ready e dtb sz m (snd r)))"
    proof (rule runs_next [OF runs_start_pins [OF assms(1)]], rule runs_next [OF runs_start_display [OF assms(1)]])
      fix fw2 fw3 assume "fw2 = rk356x_set_dtb dtb sz fw1" "\<exists>m v. only_changes [(RK356X_FB_START, 8294400)] (fmem fw2) m
        \<and> video_mode v = fixed_mode \<and> stride v = 7680 \<and> fw3 = fw2\<lparr>fmem := m, video := v\<rparr>"
      then obtain m3 v where "fw3 = (?fw2 l)\<lparr>fmem := m3, video := v\<rparr>" "only_changes [(RK356X_FB_START, 8294400)] m2 m3"
        "video_mode v = fixed_mode" "stride v = 7680"
        using l(2) by auto
      note go = usb [OF this(1) l(1) this(2-4)]
      show "runs (\<lambda>t. say e ''USB: initializing'' t \<bind> (\<lambda>t. rk356x_usb_init e board (fw3\<lparr>input := input_reset (input fw3)\<rparr>) t \<bind> (\<lambda>(fw, t).
        say e ''USB: polling ready'' t \<bind> (\<lambda>t. say e ''Transitioning payload to EL2'' t \<bind> jump_to_payload e fw))))
        (\<lambda>r _. fst r = payload_exit e m \<and> (fst r \<noteq> Stopped \<longrightarrow> payload_ready e dtb sz m (snd r)))"
        by (intro say runs_next [OF go] jump) simp_all
    qed
  qed
qed

text \<open>What a routine does whose result does not depend on the events.\<close>

lemma runsD:
  assumes "runs f (\<lambda>x _. Q x)"
  shows "\<exists>x new. f t = Some (x, new @ t) \<and> Q x" and "f t = Some (x, t') \<Longrightarrow> Q x"
  using assms unfolding runs_def by (metis, metis option.inject prod.inject)

text \<open>C4. The firmware reaches its payload: whatever the hardware answers, if the clock runs and the
  UART gets ready, and if the image, the payload and the device tree lie apart from the memory
  the firmware uses. It stops only for a payload without the magic number; otherwise it enters
  the payload at its first byte, in EL2 from 0xa00000 on and in EL3 below, with the whole
  payload in place, the device tree installed, a sound layout of the DRAM and the drivers
  well-formed.\<close>

theorem board_entry_reaches_payload:
  assumes "env_ok e" and "well_placed e dtb sz m"
  shows "\<exists>fw new. rk356x_board_entry e board dtb sz (firmware_start m) t = Some ((payload_exit e m, fw), new @ t)
    \<and> (payload_exit e m \<noteq> Stopped \<longrightarrow> payload_ready e dtb sz m fw)"
  using runsD(1) [OF runs_board_entry [OF assms, of board], of t] by fastforce

text \<open>A device with a clock that counts the events and a UART that is always ready, and a payload at
  0xa00000 that is only a header.\<close>

definition steady_device :: device where
  "steady_device = \<lparr>dev_rd = \<lambda>t a. if a = 0xfe660014 then 0x20 else 0,
     dev_time = \<lambda>t. of_nat (min (length t) 0xffffffffffffffff)\<rparr>"

definition steady_env :: env where
  "steady_env = \<lparr>hw = steady_device, itoa_buffer = \<lambda>_. 0, hex_stack = replicate 17 0, bits_stack = replicate 65 0,
     page_tables = 0x4000, end_of_image = 0xa00000\<rparr>"

definition header_only :: mem where
  "header_only = (\<lambda>a. if a = 0xa00028 then 0x35 else if a = 0xa00029 then 0x81 else if a = 0xa0002b then 0x08 else 0)"

lemma steady_env_ok: "env_ok steady_env"
proof -
  have "clock_runs steady_device"
    unfolding clock_runs_def
  proof (intro allI impI)
    fix f :: "nat \<Rightarrow> history" and d :: u64
    assume grow: "\<forall>n. \<exists>new. new \<noteq> [] \<and> f (Suc n) = new @ f n"
    have "n \<le> length (f n)" for n
    proof (induction n)
      case (Suc n)
      obtain new where "new \<noteq> []" "f (Suc n) = new @ f n" using grow by blast
      with Suc show ?case by (cases new) simp_all
    qed simp
    from this [of "unat d"] have "d \<le> dev_time steady_device (f (unat d))"
      using unat_u64_less [of d] by (simp add: steady_device_def word_le_nat_alt unat_of_nat_u64 min_def)
    then show "\<exists>n. d \<le> dev_time steady_device (f n)" ..
  qed
  moreover have "uart_ready steady_device 0xfe660000"
    by (simp add: uart_ready_def steady_device_def)
  ultimately show ?thesis by (simp add: env_ok_def steady_env_def plat_get_uart_base_def)
qed

lemma header_only_fields:
  "read_header header_only 0xa00000 = \<lparr>boot_code = 0xa00000, magic = 0x8008135, payload_flags = 0,
     payload_size = 0, relocation_addr = 0\<rparr>"
  by (simp add: read_header_def load_le_def read_bytes_def header_only_def upt_conv_Cons)

lemma header_only_placed:
  shows "well_placed steady_env 0x100000 4 header_only"
    and "payload_exit steady_env header_only = DropToEL2 0xa00000 0x7ff8000"
proof -
  have e: "entry_point steady_env header_only = 0xa00000"
    by (simp add: entry_point_def steady_env_def header_only_fields Let_def)
  show "well_placed steady_env 0x100000 4 header_only"
    unfolding well_placed_def Let_def e
    by (simp add: firmware_memory_def payload_room_def steady_env_def header_only_fields disjoint_intervals)
  show "payload_exit steady_env header_only = DropToEL2 0xa00000 0x7ff8000"
    by (simp add: payload_exit_def e) (simp add: steady_env_def header_only_fields)
qed

lemma board_entry_reaches_payload_witness:
  "\<exists>fw new. rk356x_board_entry steady_env rock3a_board 0x100000 4 (firmware_start header_only) []
      = Some ((DropToEL2 0xa00000 0x7ff8000, fw), new @ []) \<and> payload_ready steady_env 0x100000 4 header_only fw"
  using board_entry_reaches_payload [OF steady_env_ok header_only_placed(1), of rock3a_board "[]"]
  by (simp add: header_only_placed(2))

end
