(* ===== verification/Firmware_Calls.thy ===== *)
theory Firmware_Calls
  imports Firmware_Live
begin

text \<open>
  The calls of the payload: what each of them answers. The abstract answer is a value and one
  object written to the shared page; the code builds the object field by field. With the
  invariant of Firmware_Live every call returns, keeps the invariant and changes nothing but
  the shared page.
\<close>

subsection \<open>Objects in memory\<close>

text \<open>A write inside an object that was just written.\<close>

lemma write_bytes_inside:
  assumes "i + length cs \<le> length bs" and "length bs < 18446744073709551616"
  shows "write_bytes (write_bytes m a bs) (a + of_nat i) cs = write_bytes m a (take i bs @ cs @ drop (i + length cs) bs)"
proof
  fix x
  let ?j = "unat (x - a)"
  have sub: "unat (y - of_nat i) = (if i \<le> unat y then unat y - i else unat y + 18446744073709551616 - i)" for y :: u64
    using assms by (simp add: unat_sub_if' unat_of_nat_u64)
  have shift: "unat (x - (a + of_nat i)) = (if i \<le> ?j then ?j - i else ?j + 18446744073709551616 - i)"
    using sub [of "x - a"] by (simp only: diff_diff_eq)
  show "write_bytes (write_bytes m a bs) (a + of_nat i) cs x = write_bytes m a (take i bs @ cs @ drop (i + length cs) bs) x"
    using assms unfolding write_bytes_def Let_def shift by (auto simp: nth_append)
qed

definition screen_bytes :: "rk356x_video \<Rightarrow> bytes" where
  "screen_bytes v = (if active v
     then le_bytes 4 1 @ replicate 4 0 @ le_bytes 8 RK356X_FB_START @ le_bytes 4 (ucast (hactive (video_mode v)))
       @ le_bytes 4 (ucast (vactive (video_mode v))) @ le_bytes 4 (ucast (stride v)) @ replicate 100 0
     else replicate 128 0)"

definition field16 :: "string \<Rightarrow> bytes" where
  "field16 s = chars s @ replicate (16 - length s) 0"

definition info_bytes :: "rk356x_board \<Rightarrow> bytes" where
  "info_bytes board = field16 (board_vendor board) @ field16 (board_product board)"

text \<open>The strings fit into their fields of 16 bytes, with the terminator.\<close>

definition board_fits :: "rk356x_board \<Rightarrow> bool" where
  "board_fits board \<longleftrightarrow> length (board_vendor board) < 16 \<and> length (board_product board) < 16"

lemma put_screens_write: "put_screens v m = write_bytes m screen_list (screen_bytes v)"
proof -
  have zero: "memset m screen_list 0 0x80 = write_bytes m screen_list (replicate 128 0)"
    by (simp add: memset_write)
  let ?one = "le_bytes 4 1 @ replicate 4 0" and ?fb = "le_bytes 8 RK356X_FB_START"
  have s1: "write_bytes (write_bytes m screen_list (replicate 128 0)) screen_list (le_bytes 4 1)
      = write_bytes m screen_list (le_bytes 4 1 @ replicate 124 0)"
    using write_bytes_inside [of 0 "le_bytes 4 1" "replicate 128 0" m screen_list] by simp
  have s2: "write_bytes (write_bytes m screen_list (le_bytes 4 1 @ replicate 124 0)) (screen_list + 8) ?fb
      = write_bytes m screen_list (?one @ ?fb @ replicate 112 0)"
    using write_bytes_inside [of 8 ?fb "le_bytes 4 1 @ replicate 124 0" m screen_list] by simp
  have s3: "write_bytes (write_bytes m screen_list (?one @ ?fb @ replicate 112 0)) (screen_list + 16) (le_bytes 4 w)
      = write_bytes m screen_list (?one @ ?fb @ le_bytes 4 w @ replicate 108 0)" for w
    using write_bytes_inside [of 16 "le_bytes 4 w" "?one @ ?fb @ replicate 112 0" m screen_list] by simp
  have s4: "write_bytes (write_bytes m screen_list (?one @ ?fb @ le_bytes 4 w @ replicate 108 0)) (screen_list + 20) (le_bytes 4 h)
      = write_bytes m screen_list (?one @ ?fb @ le_bytes 4 w @ le_bytes 4 h @ replicate 104 0)" for w h
    using write_bytes_inside [of 20 "le_bytes 4 h" "?one @ ?fb @ le_bytes 4 w @ replicate 108 0" m screen_list] by simp
  have s5: "write_bytes (write_bytes m screen_list (?one @ ?fb @ le_bytes 4 w @ le_bytes 4 h @ replicate 104 0))
      (screen_list + 24) (le_bytes 4 l)
      = write_bytes m screen_list (?one @ ?fb @ le_bytes 4 w @ le_bytes 4 h @ le_bytes 4 l @ replicate 100 0)" for w h l
    using write_bytes_inside [of 24 "le_bytes 4 l" "?one @ ?fb @ le_bytes 4 w @ le_bytes 4 h @ replicate 104 0" m screen_list]
    by simp
  show ?thesis
    unfolding put_screens_def Let_def zero store_le_def s1 s2 s3 s4 s5 by (simp add: screen_bytes_def)
qed

lemma put_info_write:
  assumes "board_fits board"
  shows "put_info board m = write_bytes m device_info (info_bytes board)"
proof -
  let ?v = "chars (board_vendor board)" and ?p = "chars (board_product board)"
  have len: "length ?v < 16" "length ?p < 16" using assms by (simp_all add: board_fits_def)
  have zero: "memset m device_info 0 32 = write_bytes m device_info (replicate 32 0)"
    by (simp add: memset_write)
  have pad: "replicate (16 - length s) (0 :: u8) = 0 # replicate (15 - length s) 0" if "length s < 16" for s :: string
  proof -
    have "16 - length s = Suc (15 - length s)" using that by simp
    then show ?thesis by (simp only: replicate_Suc)
  qed
  have s1: "write_bytes (write_bytes m device_info (replicate 32 0)) device_info (?v @ [0])
      = write_bytes m device_info (field16 (board_vendor board) @ replicate 16 0)"
  proof -
    have "31 - length ?v = (15 - length ?v) + 16" using len by simp
    then have "replicate (31 - length ?v) (0 :: u8) = replicate (15 - length ?v) 0 @ replicate 16 0"
      by (simp only: replicate_add)
    with len pad [of "board_vendor board"] have "?v @ [0] @ replicate (31 - length ?v) 0 = field16 (board_vendor board) @ replicate 16 0"
      by (simp add: field16_def del: replicate_Suc)
    moreover have "write_bytes (write_bytes m device_info (replicate 32 0)) (device_info + of_nat 0) (?v @ [0])
        = write_bytes m device_info (take 0 (replicate 32 0) @ (?v @ [0]) @ drop (0 + length (?v @ [0])) (replicate 32 0))"
      using len by (intro write_bytes_inside) simp_all
    moreover have "drop (0 + length (?v @ [0])) (replicate 32 (0 :: u8)) = replicate (31 - length ?v) 0" by simp
    ultimately show ?thesis by simp
  qed
  have s2: "write_bytes (write_bytes m device_info (field16 (board_vendor board) @ replicate 16 0)) (device_info + 16) (?p @ [0])
      = write_bytes m device_info (info_bytes board)"
  proof -
    have l: "length (field16 (board_vendor board)) = 16" using len by (simp add: field16_def)
    have "write_bytes (write_bytes m device_info (field16 (board_vendor board) @ replicate 16 0)) (device_info + of_nat 16) (?p @ [0])
        = write_bytes m device_info (take 16 (field16 (board_vendor board) @ replicate 16 0) @ (?p @ [0])
            @ drop (16 + length (?p @ [0])) (field16 (board_vendor board) @ replicate 16 0))"
      using len l by (intro write_bytes_inside) simp_all
    moreover have "drop (16 + length (?p @ [0])) (field16 (board_vendor board) @ replicate 16 (0 :: u8)) = replicate (15 - length ?p) 0"
      using l by simp
    moreover have "(?p @ [0]) @ replicate (15 - length ?p) 0 = field16 (board_product board)"
      using len pad [of "board_product board"] by (simp add: field16_def del: replicate_Suc)
    ultimately show ?thesis using l by (simp add: info_bytes_def)
  qed
  have copy: "strcpy_lit m d ?v = write_bytes m d (?v @ [0])" "strcpy_lit m d ?p = write_bytes m d (?p @ [0])" for m d
    by (rule strcpy_lit_write, use len in simp)+
  show ?thesis
    unfolding put_info_def Let_def zero copy s1 s2 ..
qed

subsection \<open>Answers\<close>

text \<open>The memory map of a state of the firmware, and the answers of the calls that hand out data: the
  value, and the object that is written.\<close>

definition current_map :: "env \<Rightarrow> firmware \<Rightarrow> map_item list" where
  "current_map e fw = rk356x_build_mem_map (the (detected fw)) (payload_end (fmem fw) (end_of_image e))"

definition item_addr :: "map_item list \<Rightarrow> addr" where
  "item_addr items = (case rk356x_largest_low_free items of None \<Rightarrow> 0 | Some i \<Rightarrow> memory_map + 8 + 24 * of_nat i)"

definition answer :: "env \<Rightarrow> rk356x_board \<Rightarrow> firmware \<Rightarrow> u64 \<Rightarrow> u64 \<times> addr \<times> bytes" where
  "answer e board fw p1 =
     (if p1 = 0xf1000000 then (screen_list, screen_list, screen_bytes (video fw))
      else if p1 = 0xf0000004 then (item_addr (current_map e fw), memory_map, map_bytes (current_map e fw))
      else if p1 = 0xf0000005 then (memory_map, memory_map, map_bytes (current_map e fw))
      else if p1 = 0xf0000007 then (device_info, device_info, info_bytes board)
      else if p1 = 0xf0000008 then (dtb_addr fw, 0, [])
      else (FU_ERROR, 0, []))"

lemma put_map_answer:
  assumes "detected fw = Some l"
  shows "put_map e fw t = (current_map e fw, fw\<lparr>fmem := write_bytes (fmem fw) memory_map (map_bytes (current_map e fw))\<rparr>, t)"
  using assms by (simp add: put_map_def plat_get_mem_map_def rk356x_get_dram_layout_def current_map_def Let_def)

lemma plat_call_answer:
  assumes "detected fw = Some l" and "board_fits board"
  shows "plat_process_firmware_call e board p1 fw t = (case answer e board fw p1 of
    (v, a, bs) \<Rightarrow> ((v, fw\<lparr>fmem := write_bytes (fmem fw) a bs\<rparr>), t))"
  using assms
  by (simp add: plat_process_firmware_call_def answer_def put_screens_write put_info_write put_map_answer item_addr_def)

text \<open>The objects are small and stay inside the shared page.\<close>

lemma length_map_bytes: "length (map_bytes items) = 8 + 24 * length items"
proof -
  have "length (concat (map item_bytes items)) = 24 * length items"
    by (induction items) (simp_all add: item_bytes_def)
  then show ?thesis by (simp add: map_bytes_def)
qed

lemma current_map_short:
  assumes "detected fw = Some l" and "sound_layout l"
  shows "length (current_map e fw) < 32"
  using build_mem_map_spec(2) [of l] assms by (simp add: current_map_def sound_layout_def)

lemma answer_shared:
  assumes "detected fw = Some l" and "sound_layout l" and "board_fits board" and "answer e board fw p1 = (v, a, bs)"
  shows "only_changes [(RK356X_SHARED, 0x10000)] m (write_bytes m a bs)"
proof -
  have part: "only_changes [(RK356X_SHARED, 0x10000)] m (write_bytes m (RK356X_SHARED + of_nat i) bs)"
    if "i + length bs \<le> 0x10000" for i bs
    using that by (intro only_changes_part) simp_all
  have "length (map_bytes (current_map e fw)) \<le> 776"
    using current_map_short [OF assms(1,2), of e] by (simp add: length_map_bytes)
  moreover have "length (screen_bytes v) = 128" for v by (simp add: screen_bytes_def)
  moreover have "length (info_bytes board) = 32" using assms(3) by (simp add: info_bytes_def field16_def board_fits_def)
  ultimately show ?thesis
    using assms(4) part [of 0 bs] part [of 128 bs] part [of 256 bs]
    by (auto simp: answer_def only_changes_refl split: if_splits)
qed

text \<open>Reading a part of an object, and a block of a list of blocks.\<close>

lemma read_write_part:
  assumes "i + k \<le> length bs" and "length bs \<le> 18446744073709551616"
  shows "read_bytes (write_bytes m a bs) (a + of_nat i) k = take k (drop i bs)"
proof (rule nth_equalityI)
  fix j assume "j < length (read_bytes (write_bytes m a bs) (a + of_nat i) k)"
  then show "read_bytes (write_bytes m a bs) (a + of_nat i) k ! j = take k (drop i bs) ! j"
    using assms write_bytes_at [of "i + j" bs m a] by (simp add: add.assoc)
qed (use assms in simp)

lemma take_drop_concat:
  "(\<And>x. length (f x) = n) \<Longrightarrow> i < length xs \<Longrightarrow> take n (drop (n * i) (concat (map f xs))) = f (xs ! i)"
proof (induction xs arbitrary: i)
  case (Cons x xs)
  then show ?case by (cases i) simp_all
qed simp

subsection \<open>Every call comes back\<close>

lemma proceeds_print_str:
  assumes "uart_ready dev uart" and "m (s + of_nat k) = 0"
  shows "proceeds (print_str dev uart m s) (\<lambda>_. True)"
  using assms(2)
proof (induction k arbitrary: s)
  case 0
  then have "print_str dev uart m s = Some" by (intro ext) (simp add: print_str.simps)
  then show ?case by (simp add: proceeds_Some)
next
  case (Suc k)
  then have "proceeds (print_str dev uart m (s + 1)) (\<lambda>_. True)" by (simp add: add.assoc)
  then have "proceeds (\<lambda>t. if m s \<noteq> 0 then putchar dev uart (m s) t \<bind> print_str dev uart m (s + 1) else Some t) (\<lambda>_. True)"
    using assms(1) by (intro proceeds_if proceeds_then proceeds_outputs [OF outputs_putchar] proceeds_Some)
  moreover have "print_str dev uart m s = (\<lambda>t. if m s \<noteq> 0 then putchar dev uart (m s) t \<bind> print_str dev uart m (s + 1) else Some t)"
    by (intro ext) (simp add: print_str.simps [of dev uart m s])
  ultimately show ?case by simp
qed

abbreviation data_call :: "u64 \<Rightarrow> bool" where
  "data_call p1 \<equiv> p1 \<in> {0xf1000000, 0xf0000004, 0xf0000005, 0xf0000007, 0xf0000008}"

abbreviation basic_call :: "u64 \<Rightarrow> bool" where
  "basic_call p1 \<equiv> p1 \<in> {0x84000000, 0x84000008, 0x84000009, 0x8400000a, 0xf0000000, 0xf0000001, 0xf0000002, 0xf0000003}"

text \<open>What holds after a call.\<close>

definition call_outcome :: "env \<Rightarrow> rk356x_board \<Rightarrow> firmware \<Rightarrow> u64 \<Rightarrow> call_result \<times> firmware \<Rightarrow> bool" where
  "call_outcome e board fw p1 = (\<lambda>(r, fw'). firmware_ok fw'
     \<and> only_changes [(RK356X_SHARED, 0x10000)] (fmem fw) (fmem fw') \<and> detected fw' = detected fw \<and> video fw' = video fw
     \<and> (r = PoweredOff \<longleftrightarrow> p1 \<in> {0x84000008, 0x84000009})
     \<and> (basic_call p1 \<or> (case answer e board fw p1 of (v, a, bs) \<Rightarrow> r = Returned v \<and> fw' = fw\<lparr>fmem := write_bytes (fmem fw) a bs\<rparr>)))"

lemma grows_plat_reset [grows_intros]: "grows t s \<Longrightarrow> grows t (plat_reset s)"
  by (simp add: plat_reset_def write32_def Let_def)

lemma poll_input_eq: "poller fw \<Longrightarrow> poll_input e fw = usb_poll e fw"
  by (simp add: poll_input_def input_poll_def fun_eq_iff)

lemma call_outcome_same:
  "firmware_ok fw \<Longrightarrow> basic_call p1 \<Longrightarrow> (r = PoweredOff \<longleftrightarrow> p1 \<in> {0x84000008, 0x84000009}) \<Longrightarrow> call_outcome e board fw p1 (r, fw)"
  by (auto simp: call_outcome_def only_changes_refl)

lemma runs_call_input:
  assumes "env_ok e" and "firmware_ok fw"
  shows "runs (poll_input e fw) (\<lambda>fw' _. firmware_ok fw' \<and> same_rest fw fw')"
proof -
  have d: "drivers_ok fw" "poller fw" using assms(2) by (simp_all add: firmware_ok_def)
  from runs_usb_poll [OF assms(1) d(1)] show ?thesis
    using assms(2) by (auto simp: poll_input_eq [OF d(2)] firmware_ok_def same_rest_def elim!: runs_mono)
qed

lemma runs_data_call:
  assumes "env_ok e" and "firmware_ok fw" and "board_fits board" and "unat p1 < 4294967296" and "\<not> basic_call p1"
  shows "runs (process_firmware_call e board p1 p2 fw) (\<lambda>r _. call_outcome e board fw p1 r)"
proof -
  obtain l where l: "detected fw = Some l" "sound_layout l" using assms(2) by (auto simp: firmware_ok_def)
  obtain v a bs where ans: "answer e board fw p1 = (v, a, bs)" by (metis prod_cases3)
  let ?fw = "fw\<lparr>fmem := write_bytes (fmem fw) a bs\<rparr>"
  have plat: "plat_process_firmware_call e board p1 fw t = ((v, ?fw), t)" for t
    using plat_call_answer [OF l(1) assms(3)] by (simp add: ans)
  have call: "process_firmware_call e board p1 p2 fw = (\<lambda>t.
      (if v = FU_ERROR then show_reg e ''Unknown command: '' p1 t else Some t)
      \<bind> (\<lambda>t. dcache_flush (0x08000000 - 0x10000) 0x08000000 t \<bind> (\<lambda>t. Some ((Returned v, ?fw), t))))"
    using assms(5) by (intro ext) (simp only: process_firmware_call_def insert_iff empty_iff de_Morgan_disj if_False plat split_conv simp_thms)
  have "call_outcome e board fw p1 (Returned v, ?fw)"
    using assms(2,5) answer_shared [OF l assms(3) ans, of "fmem fw"]
    by (simp add: call_outcome_def ans firmware_ok_def drivers_ok_def)
  then show ?thesis
    unfolding call
    by (intro runs_then proceeds_if proceeds_show_reg proceeds_Some proceeds_dcache runs_return assms(1,4))
qed

lemma keyboard_ok_get: "keyboard_ok kb q \<Longrightarrow> keyboard_ok kb (snd (input_get_char q))"
  by (cases "input_get_char q") (auto simp: keyboard_ok_def intro: input_queue.get_invar)

text \<open>A string argument ends somewhere in the memory.\<close>

definition string_ends :: "u64 \<Rightarrow> u64 \<Rightarrow> firmware \<Rightarrow> bool" where
  "string_ends p1 p2 fw \<longleftrightarrow> (p1 = 0xf0000001 \<longrightarrow> (\<exists>k. fmem fw (p2 + of_nat k) = 0))"

lemma runs_basic_call:
  assumes e: "env_ok e" and ok: "firmware_ok fw" and basic: "basic_call p1" and ends: "string_ends p1 p2 fw"
  shows "runs (process_firmware_call e board p1 p2 fw) (\<lambda>r _. call_outcome e board fw p1 r)"
proof -
  have same: "runs (\<lambda>t. Some ((Returned v, fw), t)) (\<lambda>r _. call_outcome e board fw p1 r)"
    if "p1 \<notin> {0x84000008, 0x84000009}" for v
    using that by (intro runs_return call_outcome_same ok basic) simp
  have after_poll: "call_outcome e board fw p1 (Returned v, fw')"
    if "firmware_ok fw'" "same_rest fw fw'" "p1 \<notin> {0x84000008, 0x84000009}" for fw' v
    using that basic by (simp add: call_outcome_def same_rest_def only_changes_refl)
  consider "p1 \<in> {0x84000000, 0x8400000a}" | "p1 \<in> {0x84000008, 0x84000009}" | "p1 = 0xf0000000" | "p1 = 0xf0000001"
    | "p1 = 0xf0000002" | "p1 = 0xf0000003" using basic by auto
  then show ?thesis
  proof cases
    case 1
    then show ?thesis using same by (auto simp: process_firmware_call_def [abs_def])
  next
    case 2
    then have call: "process_firmware_call e board p1 p2 fw = (\<lambda>t. Some ((PoweredOff, fw), plat_reset t))"
      by (auto simp: process_firmware_call_def plat_shutdown_def fun_eq_iff)
    show ?thesis
      unfolding call by (intro runs_Some call_outcome_same ok basic grows_intros) (use 2 in simp)
  next
    case 3
    then have call: "process_firmware_call e board p1 p2 fw
        = (\<lambda>t. putchar (hw e) plat_get_uart_base (ucast p2) t \<bind> (\<lambda>t. Some ((Returned 0, fw), t)))"
      by (simp add: process_firmware_call_def fun_eq_iff)
    show ?thesis
      unfolding call by (intro runs_then [OF proceeds_outputs [OF outputs_putchar env_uart [OF e]]] same) (use 3 in simp)
  next
    case 4
    then obtain k where "fmem fw (p2 + of_nat k) = 0" using ends by (auto simp: string_ends_def)
    note print = proceeds_print_str [where m = "fmem fw", OF env_uart [OF e] this]
    from 4 have call: "process_firmware_call e board p1 p2 fw
        = (\<lambda>t. print_str (hw e) plat_get_uart_base (fmem fw) p2 t \<bind> (\<lambda>t. Some ((Returned 0, fw), t)))"
      by (simp add: process_firmware_call_def fun_eq_iff)
    show ?thesis
      unfolding call by (intro runs_then [OF print] same) (use 4 in simp)
  next
    case 5
    let ?g = "\<lambda>fw t. Some ((Returned (ucast (fst (input_get_char (input fw)))), fw\<lparr>input := snd (input_get_char (input fw))\<rparr>), t)"
    have "firmware_ok (fw'\<lparr>input := snd (input_get_char (input fw'))\<rparr>)" if "firmware_ok fw'" for fw'
      using that keyboard_ok_get [of "keys fw'" "input fw'"] by (simp add: firmware_ok_def drivers_ok_def)
    then have "runs (\<lambda>t. poll_input e fw t \<bind> (\<lambda>(fw, t). ?g fw t)) (\<lambda>r _. call_outcome e board fw p1 r)"
      using 5 by (intro runs_next [OF runs_call_input [OF e ok]] runs_return after_poll) (simp_all add: same_rest_def)
    moreover have "process_firmware_call e board p1 p2 fw = (\<lambda>t. poll_input e fw t \<bind> (\<lambda>(fw, t). ?g fw t))"
      using 5 by (simp add: process_firmware_call_def fun_eq_iff split_def Let_def)
    ultimately show ?thesis by (simp only:)
  next
    case 6
    let ?g = "\<lambda>fw t. Some ((Returned (if input_available (input fw) then 1 else 0), fw), t)"
    have "runs (\<lambda>t. poll_input e fw t \<bind> (\<lambda>(fw, t). ?g fw t)) (\<lambda>r _. call_outcome e board fw p1 r)"
      using 6 by (intro runs_next [OF runs_call_input [OF e ok]] runs_return after_poll) simp_all
    moreover have "process_firmware_call e board p1 p2 fw = (\<lambda>t. poll_input e fw t \<bind> (\<lambda>(fw, t). ?g fw t))"
      using 6 by (simp add: process_firmware_call_def fun_eq_iff)
    ultimately show ?thesis by (simp only:)
  qed
qed

lemma runs_call:
  assumes "env_ok e" and "firmware_ok fw" and "board_fits board" and "unat p1 < 4294967296" and "string_ends p1 p2 fw"
  shows "runs (process_firmware_call e board p1 p2 fw) (\<lambda>r _. call_outcome e board fw p1 r)"
  using runs_basic_call [OF assms(1,2) _ assms(5)] runs_data_call [OF assms(1-4)] by blast

subsection \<open>The payload's session\<close>

text \<open>
  From the hand-over on the payload makes calls in any order, writes to any memory, the
  hardware writes to the memory of the USB driver, and other accesses go by. The device, the
  stack and the addresses of the linker are those of \<open>e\<close>.
\<close>

inductive session :: "env \<Rightarrow> rk356x_board \<Rightarrow> addr \<Rightarrow> u32 \<Rightarrow> mem \<Rightarrow> firmware \<Rightarrow> history \<Rightarrow> bool"
  for e board dtb sz m where
  entered: "rk356x_board_entry e board dtb sz (firmware_start m) t = Some ((x, fw), t') \<Longrightarrow> x \<noteq> Stopped \<Longrightarrow>
     session e board dtb sz m fw t'"
| called: "session e board dtb sz m fw t \<Longrightarrow> unat p1 < 4294967296 \<Longrightarrow> string_ends p1 p2 fw \<Longrightarrow>
     process_firmware_call e board p1 p2 fw t = Some ((Returned v, fw'), t') \<Longrightarrow> session e board dtb sz m fw' t'"
| payload: "session e board dtb sz m fw t \<Longrightarrow> session e board dtb sz m (fw\<lparr>fmem := m'\<rparr>) t'"
| hardware: "session e board dtb sz m fw t \<Longrightarrow> dma_shape d \<Longrightarrow>
     session e board dtb sz m (fw\<lparr>usb := (usb fw)\<lparr>controllers :=
       (controllers (usb fw))[n := (controllers (usb fw) ! n)\<lparr>dma_mem := d\<rparr>]\<rparr>\<rparr>) t"

lemma session_ok:
  assumes "session e board dtb sz m fw t" and "env_ok e" and "well_placed e dtb sz m" and "board_fits board"
  shows "firmware_ok fw"
  using assms(1)
proof (induction rule: session.induct)
  case (entered t x fw t')
  then show ?case
    using runsD(2) [OF runs_board_entry [OF assms(2,3)] entered(1)] by (simp add: payload_ready_def)
next
  case (called fw t p1 p2 v fw' t')
  then show ?case
    using runsD(2) [OF runs_call [OF assms(2) called(5) assms(4) called(2,3)] called(4)] by (simp add: call_outcome_def)
next
  case (hardware fw t d n)
  then show ?case using driver_ok_hardware [of "usb fw" d n] by (simp add: firmware_ok_def drivers_ok_def)
qed (simp add: firmware_ok_def drivers_ok_def)

lemma boards_fit: "board_fits roc3566_board" "board_fits rock3a_board" "board_fits yy3568_board"
  by (simp_all add: board_fits_def roc3566_board_def rock3a_board_def yy3568_board_def)


lemma steady_session: "\<exists>fw t. session steady_env rock3a_board 0x100000 4 header_only fw t"
proof -
  obtain fw t where "rk356x_board_entry steady_env rock3a_board 0x100000 4 (firmware_start header_only) []
      = Some ((DropToEL2 0xa00000 0x7ff8000, fw), t)"
    using runsD(1) [OF runs_board_entry [OF steady_env_ok header_only_placed(1)], of rock3a_board "[]"]
    unfolding header_only_placed(2) by (metis prod.collapse)
  then have "session steady_env rock3a_board 0x100000 4 header_only fw t" by (rule entered) simp
  then show ?thesis by blast
qed


text \<open>C8. What the payload is told: the calls that hand out data write exactly one object to the shared
  page and return its address: the screen, the memory map of the detected DRAM, the names of
  the board; the call for free memory returns the address of the map's largest free item
  below 4 GiB, or 0 if there is none; the device tree is where the entry put it.\<close>

theorem firmware_call_answers:
  assumes "env_ok e" and "firmware_ok fw" and "board_fits board" and "data_call p1"
    and "answer e board fw p1 = (v, a, bs)"
  shows "(\<exists>new. process_firmware_call e board p1 p2 fw t = Some ((Returned v, fw\<lparr>fmem := write_bytes (fmem fw) a bs\<rparr>), new @ t))
    \<and> (p1 = 0xf0000004 \<and> v \<noteq> 0 \<longrightarrow> (\<exists>it \<in> set (current_map e fw). low_free it
          \<and> read_bytes (write_bytes (fmem fw) a bs) v 24 = item_bytes it))
    \<and> (p1 = 0xf0000008 \<longrightarrow> v = RK356X_DTB)"
proof (intro conjI impI)
  have "unat p1 < 4294967296" "\<not> basic_call p1" using assms(4) by auto
  from runsD(1) [OF runs_data_call [OF assms(1-3) this], of p2 t] this(2)
  show "\<exists>new. process_firmware_call e board p1 p2 fw t = Some ((Returned v, fw\<lparr>fmem := write_bytes (fmem fw) a bs\<rparr>), new @ t)"
    by (fastforce simp: call_outcome_def assms(5))
next
  assume "p1 = 0xf0000008"
  with assms(2,5) show "v = RK356X_DTB" by (simp add: answer_def firmware_ok_def)
next
  let ?items = "current_map e fw"
  assume p: "p1 = 0xf0000004 \<and> v \<noteq> 0"
  then obtain i where i: "rk356x_largest_low_free ?items = Some i" "v = memory_map + 8 + 24 * of_nat i"
    and ab: "a = memory_map" "bs = map_bytes ?items"
    using assms(5) by (auto simp: answer_def item_addr_def split: option.splits)
  have free: "i < length ?items" "low_free (?items ! i)"
    using largest_low_free_spec [of ?items] by (simp_all add: i(1) best_below_def)
  have "read_bytes (write_bytes (fmem fw) a bs) v 24 = take 24 (drop (8 + 24 * i) bs)"
    using read_write_part [of "8 + 24 * i" 24 bs "fmem fw" memory_map] free(1) current_map_short [of fw _ e] assms(2)
    by (auto simp: i(2) ab length_map_bytes add.assoc firmware_ok_def)
  moreover have "take 24 (drop (8 + 24 * i) (map_bytes ?items)) = item_bytes (?items ! i)"
    using take_drop_concat [of item_bytes 24 i ?items] free(1) by (simp add: map_bytes_def item_bytes_def mult.commute)
  ultimately show "\<exists>it \<in> set ?items. low_free it \<and> read_bytes (write_bytes (fmem fw) a bs) v 24 = item_bytes it"
    using free ab by auto
qed

text \<open>The names of the ROCK 3A as its payload reads them.\<close>

lemma firmware_call_answers_witness:
  "\<exists>fw new. firmware_ok fw \<and> process_firmware_call steady_env rock3a_board 0xf0000007 0 fw [] =
     Some ((Returned 0x83f0080, fw\<lparr>fmem := write_bytes (fmem fw) 0x83f0080 (info_bytes rock3a_board)\<rparr>), new @ [])"
proof -
  obtain fw t where s: "session steady_env rock3a_board 0x100000 4 header_only fw t" using steady_session by blast
  have ok: "firmware_ok fw" by (rule session_ok [OF s steady_env_ok header_only_placed(1) boards_fit(2)])
  have a: "answer steady_env rock3a_board fw 0xf0000007 = (0x83f0080, 0x83f0080, info_bytes rock3a_board)"
    by (simp add: answer_def)
  from firmware_call_answers [OF steady_env_ok ok boards_fit(2) _ a, of 0 "[]"] ok show ?thesis by auto
qed


end
