(* ===== verification/Soc.thy ===== *)
theory Soc
  imports Progress
begin

text \<open>
  What the drivers of the RK3588 and the RK3399 share: read-modify-write accesses, sequences of
  writes, the alignment of the page table (src/main.h), the items of the memory map
  (src/firmware.h) and the structures that a laptop shares with the payload.
\<close>

text \<open>\<open>*a = f(*a)\<close>, and a reading that is only printed.\<close>

definition rmw32 :: "device \<Rightarrow> addr \<Rightarrow> (u32 \<Rightarrow> u32) \<Rightarrow> history \<Rightarrow> history" where
  "rmw32 dev a f t = (case read32 dev a t of (v, t) \<Rightarrow> write32 a (f v) t)"

definition debug_reg :: "device \<Rightarrow> addr \<Rightarrow> (int \<Rightarrow> u8) \<Rightarrow> string \<Rightarrow> addr \<Rightarrow> history \<Rightarrow> history option" where
  "debug_reg dev uart stack label a t =
     (case read32 dev a t of (v, t) \<Rightarrow> debug dev uart stack (chars label) (ucast v) t)"

text \<open>Writes to the registers at \<open>base\<close>: offsets and values.\<close>

definition reg_writes :: "addr \<Rightarrow> (addr \<times> u32) list \<Rightarrow> history \<Rightarrow> history" where
  "reg_writes base = fold (\<lambda>(offset, v). write32 (base + offset) v)"

definition align_to_4kb :: "u64 \<Rightarrow> u64" where
  "align_to_4kb buf = (if buf AND 0xfff \<noteq> 0 then (buf + 0x1000) AND NOT 0xfff else buf)"

text \<open>One item of \<open>struct FuMemoryMap\<close> at \<open>mmap\<close>; its last field keeps what is in memory.\<close>

definition put_item :: "addr \<Rightarrow> nat \<Rightarrow> u64 \<Rightarrow> u64 \<Rightarrow> u64 \<Rightarrow> mem \<Rightarrow> mem" where
  "put_item mmap i flags start fin m =
     (let a = mmap + 8 + 24 * of_nat i;
          m = store_le 4 m (a + 16) flags;
          m = store_le 8 m a start
      in store_le 8 m (a + 8) fin)"

subsection \<open>They come to an end\<close>

lemma grows_rmw32 [grows_intros]: "grows t s \<Longrightarrow> grows t (rmw32 dev a f s)"
  by (auto simp: rmw32_def read32_def split_def write32_def intro: grows_intros)

lemma grows_reg_writes [grows_intros]: "grows t s \<Longrightarrow> grows t (reg_writes base xs s)"
  unfolding reg_writes_def
  by (rule grows_extends [OF extends_fold]) (auto simp: extends_iff split_def intro: grows_intros)

lemma proceeds_debug_u32: "uart_ready dev uart \<Longrightarrow> proceeds (debug dev uart stack str (ucast (v :: u32))) (\<lambda>_. True)"
  by (rule proceeds_debug) (simp_all add: unat_ucast_u32 unat_u32_less)

lemma proceeds_debug_reg:
  assumes "uart_ready dev uart"
  shows "proceeds (debug_reg dev uart stack label a) (\<lambda>_. True)"
  unfolding proceeds_def
proof
  fix t
  let ?v = "dev_rd dev t a"
  obtain new where "debug dev uart stack (chars label) (ucast ?v) (Read32 a ?v # t) = Some (new @ Read32 a ?v # t)"
    using proceeds_debug_u32 [OF assms] unfolding proceeds_def by blast
  then show "\<exists>new. debug_reg dev uart stack label a t = Some (new @ t) \<and> True"
    by (intro exI [of _ "new @ [Read32 a ?v]"]) (simp add: debug_reg_def read32_def)
qed

lemma proceeds_read:
  assumes "\<And>v. proceeds (g v) (\<lambda>_. True)"
  shows "proceeds (\<lambda>t. case read32 dev a t of (v, t) \<Rightarrow> g v t) (\<lambda>_. True)"
  unfolding proceeds_def
proof
  fix t
  let ?v = "dev_rd dev t a"
  obtain new where "g ?v (Read32 a ?v # t) = Some (new @ Read32 a ?v # t)"
    using assms unfolding proceeds_def by blast
  then show "\<exists>new. (case read32 dev a t of (v, t) \<Rightarrow> g v t) = Some (new @ t) \<and> True"
    by (intro exI [of _ "new @ [Read32 a ?v]"]) (simp add: read32_def)
qed

lemma grows_if [grows_intros]: "grows t s \<Longrightarrow> grows t s' \<Longrightarrow> grows t (if b then s else s')"
  by simp

lemma proceeds_last: "(\<And>t. grows t (h t)) \<Longrightarrow> proceeds (\<lambda>t. Some (h t)) (\<lambda>_. True)"
  unfolding proceeds_def grows_def by blast

end
