(* ===== verification/Rk3588.thy ===== *)
theory Rk3588
  imports Page_Tables Soc
begin

text \<open>
  The drivers of the RK3588 (src/rk3588/): power domains (pmu.c), PLLs and the PHY's reset (cru.c),
  pins (gpio.c, ioc.c), PWM (pwm.c), security (sgrf.c), platform code (io.c) and what
  src/rk3588/genbook-ddr.c does with them. Waits may not return when the timer stands still, hence
  the options. A field of a register structure is its offset; a bank or a pin is an \<open>int\<close> as
  in the code, and the banks are 0 to 4, the pins 0 to 31 (C gives no meaning to others).
\<close>

subsection \<open>Addresses\<close>

abbreviation (input) RK_UART2 :: addr where "RK_UART2 \<equiv> 0xfeb50000"
abbreviation (input) PMU :: addr where "PMU \<equiv> 0xfd8d0000"
abbreviation (input) CRU :: addr where "CRU \<equiv> 0xfd7c0000"
abbreviation (input) PMU1CRU :: addr where "PMU1CRU \<equiv> 0xfd7f0000"
abbreviation (input) HDPTXPHY0_GRF :: addr where "HDPTXPHY0_GRF \<equiv> 0xfd5e0000"
abbreviation (input) BUS_IOC :: addr where "BUS_IOC \<equiv> 0xfd5f8000"
abbreviation (input) PMU2_IOC :: addr where "PMU2_IOC \<equiv> 0xfd5f4000"

text \<open>\<open>while (timeout--) { if (<ready>) break; usleep(1); }\<close>, from a timeout of \<open>n\<close>; the result is the
  value of \<open>timeout\<close> after the loop, -1 when it has run out.\<close>

primrec status_wait :: "device \<Rightarrow> addr \<Rightarrow> (u32 \<Rightarrow> bool) \<Rightarrow> nat \<Rightarrow> history \<Rightarrow> (int \<times> history) option" where
  "status_wait dev a ready 0 t = Some (- 1, t)"
| "status_wait dev a ready (Suc n) t =
     (case read32 dev a t of (v, t) \<Rightarrow>
        if ready v then Some (int n, t) else do { t \<leftarrow> usleep dev 1 t; status_wait dev a ready n t })"

definition say :: "device \<Rightarrow> string \<Rightarrow> history \<Rightarrow> history option" where
  "say dev s = puts dev RK_UART2 (chars s)"

subsection \<open>Power domains (pmu.c)\<close>

record setup_config =
  gate_sftcon_reg :: int
  gate_sftcon_bit :: int
  gate_sts_reg :: int
  gate_sts_bit :: int
  has_biu :: int
  biu_idle_sftcon_reg :: int
  biu_idle_sftcon_bit :: int
  biu_idle_ack_sts_reg :: int
  biu_idle_ack_sts_bit :: int
  bisr_sts_bit :: int
  mem_pwr_gate_sftcon_reg :: int
  mem_pwr_gate_sftcon_bit :: int
  pwr_mem_sts_reg :: int
  pwr_mem_sts_bit :: int

abbreviation (input) PD_VOP :: int where "PD_VOP \<equiv> 0x11"
abbreviation (input) PD_VO0 :: int where "PD_VO0 \<equiv> 0x12"
abbreviation (input) PD_VO1 :: int where "PD_VO1 \<equiv> 0x13"
abbreviation (input) PD_PHP :: int where "PD_PHP \<equiv> 0x15"
abbreviation (input) PD_SECURE :: int where "PD_SECURE \<equiv> 0x1c"

definition get_pd_config :: "int \<Rightarrow> setup_config" where
  "get_pd_config pd =
     (if pd = PD_VO0 then
        \<lparr>gate_sftcon_reg = 1, gate_sftcon_bit = 2, gate_sts_reg = 0, gate_sts_bit = 0x12, has_biu = 1,
         biu_idle_sftcon_reg = 0, biu_idle_sftcon_bit = 0xf, biu_idle_ack_sts_reg = 0, biu_idle_ack_sts_bit = 0xf,
         bisr_sts_bit = 0x11, mem_pwr_gate_sftcon_reg = 1, mem_pwr_gate_sftcon_bit = 2,
         pwr_mem_sts_reg = 0, pwr_mem_sts_bit = 0x1a\<rparr>
      else if pd = PD_VO1 then
        \<lparr>gate_sftcon_reg = 1, gate_sftcon_bit = 3, gate_sts_reg = 0, gate_sts_bit = 0x13, has_biu = 1,
         biu_idle_sftcon_reg = 1, biu_idle_sftcon_bit = 0, biu_idle_ack_sts_reg = 0, biu_idle_ack_sts_bit = 0x10,
         bisr_sts_bit = 0x12, mem_pwr_gate_sftcon_reg = 1, mem_pwr_gate_sftcon_bit = 3,
         pwr_mem_sts_reg = 0, pwr_mem_sts_bit = 0x1b\<rparr>
      else if pd = PD_SECURE then
        \<lparr>gate_sftcon_reg = 1, gate_sftcon_bit = 0xc, gate_sts_reg = 0, gate_sts_bit = 0x1c, has_biu = 1,
         biu_idle_sftcon_reg = 1, biu_idle_sftcon_bit = 7, biu_idle_ack_sts_reg = 0, biu_idle_ack_sts_bit = 0x17,
         bisr_sts_bit = - 1, mem_pwr_gate_sftcon_reg = - 1, mem_pwr_gate_sftcon_bit = - 1,
         pwr_mem_sts_reg = - 1, pwr_mem_sts_bit = - 1\<rparr>
      else if pd = PD_PHP then
        \<lparr>gate_sftcon_reg = 1, gate_sftcon_bit = 5, gate_sts_reg = 0, gate_sts_bit = 0x15, has_biu = 0,
         biu_idle_sftcon_reg = 0, biu_idle_sftcon_bit = 0, biu_idle_ack_sts_reg = 0, biu_idle_ack_sts_bit = 0,
         bisr_sts_bit = 0, mem_pwr_gate_sftcon_reg = 1, mem_pwr_gate_sftcon_bit = 5,
         pwr_mem_sts_reg = 0, pwr_mem_sts_bit = 0x1d\<rparr>
      else if pd = PD_VOP then
        \<lparr>gate_sftcon_reg = 1, gate_sftcon_bit = 1, gate_sts_reg = 0, gate_sts_bit = 0x11, has_biu = 1,
         biu_idle_sftcon_reg = 0, biu_idle_sftcon_bit = 0xd, biu_idle_ack_sts_reg = 0, biu_idle_ack_sts_bit = 0xd,
         bisr_sts_bit = 0x10, mem_pwr_gate_sftcon_reg = 1, mem_pwr_gate_sftcon_bit = 1,
         pwr_mem_sts_reg = 0, pwr_mem_sts_bit = 0x19\<rparr>
      else
        \<lparr>gate_sftcon_reg = 0, gate_sftcon_bit = 0, gate_sts_reg = 0, gate_sts_bit = 0, has_biu = 0,
         biu_idle_sftcon_reg = 0, biu_idle_sftcon_bit = 0, biu_idle_ack_sts_reg = 0, biu_idle_ack_sts_bit = 0,
         bisr_sts_bit = 0, mem_pwr_gate_sftcon_reg = 0, mem_pwr_gate_sftcon_bit = 0,
         pwr_mem_sts_reg = 0, pwr_mem_sts_bit = 0\<rparr>)"

text \<open>An element of an array of registers, and a bit tested in a register.\<close>

definition reg_index :: "addr \<Rightarrow> int \<Rightarrow> addr" where
  "reg_index a i = a + 4 * word_of_int i"

definition bit_set :: "int \<Rightarrow> u32 \<Rightarrow> bool" where
  "bit_set b v \<longleftrightarrow> v AND push_bit (nat b) 1 \<noteq> 0"

definition power_up_memory :: "device \<Rightarrow> setup_config \<Rightarrow> history \<Rightarrow> (int \<times> history) option" where
  "power_up_memory dev cfg t =
     (let gate = reg_index (PMU + 0x81a0) (mem_pwr_gate_sftcon_reg cfg); b = nat (mem_pwr_gate_sftcon_bit cfg) in do {
        t \<leftarrow> usleep dev 1000 (rk_clr_set_bits gate b b 1 t);
        (timeout, t) \<leftarrow> status_wait dev (reg_index (PMU + 0x81f8) (pwr_mem_sts_reg cfg))
          (\<lambda>v. \<not> bit_set (pwr_mem_sts_bit cfg) v) 0x1000 (rk_clr_set_bits gate b b 0 t);
        if timeout = 0 then do { t \<leftarrow> say dev ''Timeout powering up memory'' t; Some (- 1, t) }
        else Some (0, t)
      })"

definition power_up :: "device \<Rightarrow> (int \<Rightarrow> u8) \<Rightarrow> int \<Rightarrow> history \<Rightarrow> (int \<times> history) option" where
  "power_up dev stack pd t = do {
     t \<leftarrow> debug dev RK_UART2 stack (chars ''Powering up pd '') (word_of_int pd) t;
     let cfg = get_pd_config pd;
     let sts = reg_index (PMU + 0x8180) (gate_sts_reg cfg);
     let b = nat (gate_sftcon_bit cfg);
     let (v, t) = read32 dev sts t;
     if \<not> bit_set (gate_sts_bit cfg) v then Some (0, t)
     else do {
       let t = rk_clr_set_bits (reg_index (PMU + 0x8140) (gate_sftcon_reg cfg)) b b 0 t;
       let t = rk_clr_set_bits (reg_index (PMU + 0x814c) (gate_sftcon_reg cfg)) b b 0 t;
       (timeout, t) \<leftarrow> status_wait dev sts (\<lambda>v. \<not> bit_set (gate_sts_bit cfg) v) 0x1000 t;
       if timeout = 0 then do { t \<leftarrow> say dev ''PD power up timeout'' t; Some (- 1, t) }
       else if mem_pwr_gate_sftcon_reg cfg \<noteq> - 1 then power_up_memory dev cfg t
       else Some (0, t)
     }
   }"

text \<open>One \<open>if (power_up(pd)) return -1\<close> after the other.\<close>

primrec power_up_all :: "device \<Rightarrow> (int \<Rightarrow> u8) \<Rightarrow> int list \<Rightarrow> history \<Rightarrow> (int \<times> history) option" where
  "power_up_all dev stack [] t = Some (0, t)"
| "power_up_all dev stack (pd # pds) t = do {
     (r, t) \<leftarrow> power_up dev stack pd t;
     if r \<noteq> 0 then Some (- 1, t) else power_up_all dev stack pds t
   }"

definition rk3588_init_power_domains :: "device \<Rightarrow> (int \<Rightarrow> u8) \<Rightarrow> history \<Rightarrow> (int \<times> history) option" where
  "rk3588_init_power_domains dev stack t =
     (case read32 dev (PMU + 0x4000) t of (version, t) \<Rightarrow>
        if version \<noteq> 0x3588 then Some (- 1, t)
        else let t = write32 (PMU + 0x8204) 0xffffffff t;
                 t = write32 (PMU + 0x8208) 0xffffffff t;
                 t = write32 (PMU + 0x820c) 0xffffffff t;
                 t = write32 (PMU + 0x8128) 0xffffffff t;
                 t = write32 (PMU + 0x812c) 0xffffffff t in
          power_up_all dev stack [PD_PHP, PD_SECURE, PD_VOP, PD_VO1] t)"

subsection \<open>Clocks and resets (cru.c)\<close>

datatype rk_pll = PPLL | HPLL | APLL | DPLL | GPLL | CPLL | NPLL | V0PLL | B0PLL | B1PLL

record pll_config =
  pll_id :: rk_pll
  con0 :: addr
  con1 :: addr
  con2 :: addr
  con6 :: addr
  pll_mode :: addr
  mode_b1 :: nat
  mode_b2 :: nat

text \<open>The default is the structure with all fields 0, and \<open>PPLL\<close> is the constant 0.\<close>

definition get_config :: "rk_pll \<Rightarrow> pll_config" where
  "get_config pll = (case pll of
     V0PLL \<Rightarrow> \<lparr>pll_id = pll, con0 = CRU + 0x160, con1 = CRU + 0x164, con2 = CRU + 0x168, con6 = CRU + 0x178,
       pll_mode = CRU + 0x280, mode_b1 = 5, mode_b2 = 4\<rparr>
   | PPLL \<Rightarrow> \<lparr>pll_id = pll, con0 = CRU + 0x200, con1 = CRU + 0x204, con2 = CRU + 0x208, con6 = CRU + 0x218,
       pll_mode = 0, mode_b1 = 0, mode_b2 = 0\<rparr>
   | _ \<Rightarrow> \<lparr>pll_id = PPLL, con0 = 0, con1 = 0, con2 = 0, con6 = 0, pll_mode = 0, mode_b1 = 0, mode_b2 = 0\<rparr>)"

definition rk3588_set_pll :: "device \<Rightarrow> pll_config \<Rightarrow> int \<Rightarrow> int \<Rightarrow> int \<Rightarrow> history \<Rightarrow> (int \<times> history) option" where
  "rk3588_set_pll dev cfg p m s t =
     (let set_mode = (\<lambda>v t. if pll_mode cfg \<noteq> 0 then rk_clr_set_bits (pll_mode cfg) (mode_b1 cfg) (mode_b2 cfg) v t else t);
          t = set_mode 2 t;
          t = rk_clr_set_bits (con1 cfg) 13 13 1 t;
          t = rk_clr_set_bits (con1 cfg) 5 0 p t;
          t = rk_clr_set_bits (con1 cfg) 8 6 s t;
          t = rk_clr_set_bits (con0 cfg) 9 0 m t;
          t = rk_clr_set_bits (con1 cfg) 13 13 0 t;
          t = set_mode 1 t in do {
        (timeout, t) \<leftarrow> status_wait dev (con6 cfg) (bit_set 15) 0x1000 t;
        t \<leftarrow> (if timeout = 0 then say dev ''PLL didn't lock in time'' t else Some t);
        Some (0, t)
      })"

definition rk3588_pll_set_freq :: "device \<Rightarrow> rk_pll \<Rightarrow> u32 \<Rightarrow> history \<Rightarrow> (int \<times> history) option" where
  "rk3588_pll_set_freq dev pll freq t =
     (let cfg = get_config pll in
      if freq = 148500000 then do { (_, t) \<leftarrow> rk3588_set_pll dev cfg 2 0xc6 1 t; Some (0, t) } else Some (0, t))"

definition rk3588_setup_v0pll :: "device \<Rightarrow> history \<Rightarrow> history option" where
  "rk3588_setup_v0pll dev t = do { (_, t) \<leftarrow> rk3588_pll_set_freq dev V0PLL 148500000 t; Some t }"

definition rk3588_reset_hdptx :: "device \<Rightarrow> history \<Rightarrow> history option" where
  "rk3588_reset_hdptx dev t = do {
     let t = rk_clr_set_bits (PMU1CRU + 0xa0c) 15 15 1 t;
     let t = rk_clr_set_bits (PMU1CRU + 0xa10) 0 0 1 t;
     let t = rk_clr_set_bits (PMU1CRU + 0xa10) 1 1 1 t;
     let t = rk_clr_set_bits HDPTXPHY0_GRF 6 5 3 t;
     t \<leftarrow> usleep dev 10 t;
     let t = rk_clr_set_bits (PMU1CRU + 0xa0c) 15 15 1 t;
     t \<leftarrow> usleep dev 10 t;
     let t = rk_clr_set_bits HDPTXPHY0_GRF 7 7 1 t;
     t \<leftarrow> usleep dev 10 t;
     Some (rk_clr_set_bits (PMU1CRU + 0xa10) 0 0 1 t)
   }"


subsection \<open>Pins (gpio.c, ioc.c)\<close>

definition gpio_get :: "int \<Rightarrow> addr" where
  "gpio_get gpio = [0xfd8a0000, 0xfec20000, 0xfec30000, 0xfec40000, 0xfec50000] ! nat gpio"

text \<open>The words for the lower and the upper half of the pins.\<close>

definition gen_pin_mask :: "int \<Rightarrow> int \<Rightarrow> u32 \<times> u32" where
  "gen_pin_mask pin on =
     (if on \<noteq> 0 then
        (if pin > 0xf then (0, push_bit (nat (pin - 0x10)) 1 OR push_bit (nat pin) 1)
         else (push_bit (nat pin) 1 OR push_bit (nat (pin + 0x10)) 1, 0))
      else if pin > 0xf then (0, push_bit (nat pin) 1)
      else (push_bit (nat (pin + 0x10)) 1, 0))"

definition gpio_set_dir :: "int \<Rightarrow> int \<Rightarrow> int \<Rightarrow> history \<Rightarrow> history" where
  "gpio_set_dir gpio pin b t =
     (let g = gpio_get gpio; (l, h) = gen_pin_mask pin b; t = write32 g l t in write32 (g + 4) h t)"

definition gpio_set_pin :: "int \<Rightarrow> int \<Rightarrow> int \<Rightarrow> history \<Rightarrow> history" where
  "gpio_set_pin gpio pin b t =
     (let g = gpio_get gpio; (l, h) = gen_pin_mask pin b; t = write32 (g + 8) l t in write32 (g + 12) h t)"

definition rk3588_iomux_uart2 :: "history \<Rightarrow> history" where
  "rk3588_iomux_uart2 t =
     (let t = rk_clr_set_bits (BUS_IOC + 0x0c) 7 4 10 t in rk_clr_set_bits (BUS_IOC + 0x0c) 10 8 10 t)"

definition rk3588_iomux_emmc :: "history \<Rightarrow> history" where
  "rk3588_iomux_emmc t =
     (let t = rk_clr_set_bits (BUS_IOC + 0x40) 15 0 1111 t;
          t = rk_clr_set_bits (BUS_IOC + 0x58) 15 0 1111 t
      in rk_clr_set_bits (BUS_IOC + 0x5c) 15 0 1111 t)"

abbreviation (input) RK_PIN_A0 :: int where "RK_PIN_A0 \<equiv> 0"
abbreviation (input) RK_PIN_A2 :: int where "RK_PIN_A2 \<equiv> 2"
abbreviation (input) RK_PIN_A3 :: int where "RK_PIN_A3 \<equiv> 3"
abbreviation (input) RK_PIN_A6 :: int where "RK_PIN_A6 \<equiv> 6"
abbreviation (input) RK_PIN_A7 :: int where "RK_PIN_A7 \<equiv> 7"
abbreviation (input) RK_PIN_B5 :: int where "RK_PIN_B5 \<equiv> 13"
abbreviation (input) RK_PIN_B6 :: int where "RK_PIN_B6 \<equiv> 14"
abbreviation (input) RK_PIN_C0 :: int where "RK_PIN_C0 \<equiv> 16"
abbreviation (input) RK_PIN_C1 :: int where "RK_PIN_C1 \<equiv> 17"
abbreviation (input) RK_PIN_C2 :: int where "RK_PIN_C2 \<equiv> 18"
abbreviation (input) RK_PIN_C4 :: int where "RK_PIN_C4 \<equiv> 20"
abbreviation (input) RK_PIN_D0 :: int where "RK_PIN_D0 \<equiv> 24"
abbreviation (input) RK_PIN_D1 :: int where "RK_PIN_D1 \<equiv> 25"
abbreviation (input) RK_PIN_D4 :: int where "RK_PIN_D4 \<equiv> 28"
abbreviation (input) RK_PIN_D5 :: int where "RK_PIN_D5 \<equiv> 29"

definition rk3588_set_pin_func :: "int \<Rightarrow> int \<Rightarrow> int \<Rightarrow> history \<Rightarrow> history" where
  "rk3588_set_pin_func bank pin func t =
     (let busioc = BUS_IOC; pmu2ioc = PMU2_IOC;
          set_if = (\<lambda>p a b s t. if pin = p then rk_clr_set_bits a b s func t else t);
          t = (if bank = 0 then
            (let t = set_if RK_PIN_B5 (busioc + 0x0c) 7 4 t;
                 t = set_if RK_PIN_B6 (busioc + 0x0c) 10 8 t;
                 t = set_if RK_PIN_C0 (busioc + 0x90) 3 0 t;
                 t = set_if RK_PIN_C1 (busioc + 0x90) 7 4 t;
                 t = set_if RK_PIN_C2 (busioc + 0x90) 11 8 t;
                 t = set_if RK_PIN_C2 (busioc + 0x90) 15 12 t;
                 t = set_if RK_PIN_D0 (busioc + 0x18) 3 0 t;
                 t = set_if RK_PIN_D1 (busioc + 0x18) 7 4 t;
                 t = set_if RK_PIN_D4 (busioc + 0x1c) 3 0 t
             in if pin = RK_PIN_D5 then
                  (if func > 2 then
                     (let t = rk_clr_set_bits (pmu2ioc + 0x10) 7 4 8 t in rk_clr_set_bits (busioc + 0x1c) 7 4 func t)
                   else rk_clr_set_bits (pmu2ioc + 0x10) 7 4 func t)
                else t)
            else t)
      in if bank = 1 then
           (let t = set_if RK_PIN_A2 (busioc + 0x20) 11 8 t;
                t = set_if RK_PIN_A3 (busioc + 0x20) 15 12 t
            in set_if RK_PIN_A6 (busioc + 0x24) 11 8 t)
         else t)"

subsection \<open>PWM (pwm.c)\<close>

text \<open>A channel is the address of its registers: counter, period, duty and control.\<close>

definition get_channel :: "int \<Rightarrow> addr" where
  "get_channel idx =
     (let pwm = [0xfd8b0000, 0xfebd0000, 0xfebe0000, 0xfebf0000] ! nat (idx div 4) in pwm + 0x10 * word_of_int (idx mod 4))"

definition pwm_stop :: "device \<Rightarrow> addr \<Rightarrow> history \<Rightarrow> history" where
  "pwm_stop dev c t = (case read32 dev (c + 12) t of (v, t) \<Rightarrow> write32 (c + 12) (v AND NOT 1) t)"

definition pwm_setup_continuous :: "device \<Rightarrow> int \<Rightarrow> u32 \<Rightarrow> u32 \<Rightarrow> history \<Rightarrow> history" where
  "pwm_setup_continuous dev idx period duty t =
     (let c = get_channel idx;
          t = pwm_stop dev c t;
          t = write32 c 0 t;
          t = write32 (c + 4) period t;
          t = write32 (c + 8) duty t
      in write32 (c + 12) 3 t)"

definition pwm_set_peroid :: "device \<Rightarrow> int \<Rightarrow> u32 \<Rightarrow> history \<Rightarrow> history" where
  "pwm_set_peroid dev idx period t =
     (let c = get_channel idx; t = pwm_stop dev c t; t = write32 (c + 4) period t in write32 (c + 12) 3 t)"

definition pwm_set_duty :: "device \<Rightarrow> int \<Rightarrow> u32 \<Rightarrow> history \<Rightarrow> history" where
  "pwm_set_duty dev idx duty t =
     (let c = get_channel idx; t = pwm_stop dev c t; t = write32 (c + 8) duty t in write32 (c + 12) 3 t)"

subsection \<open>Security (sgrf.c)\<close>

definition unknown_setup :: "device \<Rightarrow> history \<Rightarrow> history" where
  "unknown_setup dev t =
     (let t = reg_writes 0 [(0xfd5f8040, 0xffff0000), (0xfd5f8058, 0xffff0000), (0xfd5f805c, 0xffff0000)] t;
          t = rmw32 dev 0xfe0380a8 (\<lambda>v. v OR 0xffff0000) t
      in rmw32 dev 0xfe0300a8 (\<lambda>v. v OR 0xffff0000) t)"

definition rk3588_sgrf_init :: "device \<Rightarrow> history \<Rightarrow> history" where
  "rk3588_sgrf_init dev t =
     (let t = fold (\<lambda>a. rmw32 dev a (\<lambda>v. v AND 0xffff0001))
            [0xfe0300f0, 0xfe0100f0, 0xfe0100f4, 0xfe0100f8, 0xfe0100fc, 0xfe0380f0] t;
          t = reg_writes 0
            [(0xfe030044, 0xffff), (0xfe030078, 0), (0xfe0300d0, 0xffff0000),
             (0xfe030040 + 1 * 4, 0xffffffff), (0xfe030040 + 0xe * 4, 0xffffffff), (0xfe030040 + 0x24 * 4, 0xffffffff),
             (0xfe03808c, 0xff), (0xfe0380d8, 0xff), (0xfe0380e4, 0),
             (0xfe038040 + 1 * 4, 0xff00ff), (0xfe038040 + 0x26 * 4, 0xff00ff), (0xfe038040 + 0x29 * 4, 0xff00ff),
             (0xfe010040, 0xffffffff), (0xfe010044, 0)] t;
          t = Barrier # t;
          t = write32 0xfe010000 0 t;
          t = fold (\<lambda>a. rmw32 dev a (\<lambda>v. v OR 1)) [0xfe0100f0, 0xfe0100f4, 0xfe0100f8, 0xfe0100fc] t;
          t = write32 0xfe030000 0 t;
          t = rmw32 dev 0xfe0300f0 (\<lambda>v. v OR 1) t;
          t = reg_writes 0 [(0xfe038000, 0), (0xfe03801c, 0xff00f0)] t;
          t = rmw32 dev 0xfe0380f0 (\<lambda>v. v OR 0x81) t;
          t = reg_writes 0
            [(0xfd586038, 0x1f0011), (0xfd58603c, 0xffffffff), (0xfd586040, 0x3ff03ff), (0xfd586250, 0xffff2000),
             (0xfd586254, 0xffff0060), (0xfd5862a0, 0xffff0fbf), (0xfd5862a4, 0xffff03ff)] t;
          t = fold (\<lambda>i t. if i = 4 \<or> i = 5 \<or> i = 24 \<or> i = 25 then t
            else write32 (0xfd586240 + 4 * of_nat i) 0xffff0000 t) [0..<43] t;
          t = reg_writes 0
            [(0xfd582000, 0x180010), (0xfd582004, 0xefbe6020), (0xfd582008, 0x1f900c0), (0xfd586034, 0x180018),
             (0xfd586044, 0x11111111), (0xfd586048, 0x11111111), (0xfd58604c, 0x110011),
             (0xfd7c0c10, 0xffdf), (0xfd586008, 0xc000c00), (0xfd58a004, 0xffffffff), (0xfd582000, 0x70007),
             (0xfd58a01c, 0x30003000), (0xfd582038, 0x200020), (0xfd5f0000, 0xf00020)] t
      in unknown_setup dev t)"

subsection \<open>Platform code (io.c)\<close>

text \<open>The entries are written one after the other; the rest of the buffer is not initialised.\<close>

definition plat_setup_mmu :: "addr \<Rightarrow> mem \<Rightarrow> history \<Rightarrow> mem \<times> history" where
  "plat_setup_mmu buffer m t =
     (let buffer = align_to_4kb buffer;
          tcr = 0x351c OR push_bit 0x10 1; mair = 0xeeff440400;
          m = ttbl_block_1gb m buffer 0x00000000 3;
          m = ttbl_block_1gb m (buffer + 8) 0x40000000 3;
          m = ttbl_block_1gb m (buffer + 16) 0x80000000 3;
          m = ttbl_block_1gb m (buffer + 24) 0xc0000000 0;
          m = ttbl_block_1gb m (buffer + 32) 0x100000000 0;
          m = ttbl_block_1gb m (buffer + 40) 0x140000000 3;
          m = ttbl_block_1gb m (buffer + 48) 0x180000000 3;
          m = ttbl_block_1gb m (buffer + 56) 0x1c0000000 3
      in (m, EnableMMU # SetupTT tcr mair buffer # t))"

definition plat_get_mem_map :: "addr \<Rightarrow> addr \<Rightarrow> mem \<Rightarrow> mem" where
  "plat_get_mem_map end_of_image buffer m =
     (let m = store_le 4 m buffer 4;
          m = put_item buffer 0 2 0 end_of_image m;
          m = put_item buffer 1 16 end_of_image 0x10000000 m;
          m = put_item buffer 2 1 0x10000000 (0xc0000000 - 0x10000) m
      in put_item buffer 3 8 0xc0000000 0x100000000 m)"

definition plat_get_uart_base :: addr where
  "plat_get_uart_base = RK_UART2"

definition plat_get_framebuffer :: addr where
  "plat_get_framebuffer = 0xd0000000"

text \<open>The reset ends in \<open>halt\<close>.\<close>

definition plat_reset :: "history \<Rightarrow> history" where
  "plat_reset t =
     (let t = gpio_set_dir 0 RK_PIN_C4 0 t;
          t = gpio_set_dir 4 RK_PIN_A3 0 t;
          t = gpio_set_dir 0 RK_PIN_A0 0 t;
          t = gpio_set_dir 1 RK_PIN_D5 0 t;
          t = gpio_set_dir 1 RK_PIN_A7 0 t;
          t = gpio_set_pin 0 RK_PIN_C4 0 t;
          t = gpio_set_pin 4 RK_PIN_A3 0 t;
          t = gpio_set_pin 0 RK_PIN_A0 0 t;
          t = gpio_set_pin 1 RK_PIN_D5 0 t;
          t = gpio_set_pin 1 RK_PIN_A7 0 t;
          t = write32 0xfd588080 0xef08a53c t;
          t = write32 0xfd58a004 0xffff0000 t;
          t = write32 0xfd7c0c08 0xfdb9 t
      in Wfi # t)"

definition plat_shutdown :: "history \<Rightarrow> history" where
  "plat_shutdown t = plat_reset t"

text \<open>The DDR shim of the Genbook (genbook-ddr.c): power on, pins and backlight.\<close>

definition ddr_shim :: "device \<Rightarrow> history \<Rightarrow> history" where
  "ddr_shim dev t =
     (let on = (\<lambda>bank pin t. gpio_set_pin bank pin 1 (gpio_set_dir bank pin 1 t));
          t = on 0 RK_PIN_C4 t;
          t = on 4 RK_PIN_A3 t;
          t = on 0 RK_PIN_A0 t;
          t = on 1 RK_PIN_D5 t;
          t = on 1 RK_PIN_A7 t;
          t = rk_clr_set_bits (BUS_IOC + 0x90) 7 4 0xb t
      in pwm_setup_continuous dev 6 0x400 0x100 t)"

text \<open>The entry of src/opi5.c; \<open>ttbl_buffer\<close> is on the stack.\<close>

definition opi5_entry :: "device \<Rightarrow> addr \<Rightarrow> mem \<Rightarrow> history \<Rightarrow> (mem \<times> history) option" where
  "opi5_entry dev ttbl_buffer m t =
     (case plat_setup_mmu ttbl_buffer m t of (m, t) \<Rightarrow> do { t \<leftarrow> say dev ''Hello, World'' t; Some (m, t) })"

subsection \<open>Power\<close>

text \<open>A register that is constant.\<close>

lemma runs_read_constant:
  assumes "\<And>t. dev_rd dev t a = v" and "runs (g v) (\<lambda>y new. Q y (new @ [Read32 a v]))"
  shows "runs (\<lambda>t. case read32 dev a t of (v, t) \<Rightarrow> g v t) Q"
  unfolding runs_def
proof
  fix t
  from assms(2) obtain y new where "g v (Read32 a v # t) = Some (y, new @ Read32 a v # t)" "Q y (new @ [Read32 a v])"
    unfolding runs_def by blast
  then show "\<exists>y new. (case read32 dev a t of (v, t) \<Rightarrow> g v t) = Some (y, new @ t) \<and> Q y new"
    by (intro exI [of _ y] exI [of _ "new @ [Read32 a v]"]) (simp add: read32_def assms(1))
qed

text \<open>Domains whose status registers never report that the power is on.\<close>

definition never_on :: "device \<Rightarrow> bool" where
  "never_on dev \<longleftrightarrow> (\<forall>t. dev_rd dev t (PMU + 0x8180) = 0xffffffff \<and> dev_rd dev t (PMU + 0x81f8) = 0xffffffff)"

lemma status_wait_zero:
  "status_wait dev a ready n t = Some (0, t') \<Longrightarrow> \<exists>v before. t' = Read32 a v # before \<and> ready v"
proof (induction n arbitrary: t)
  case (Suc n)
  then show ?case by (auto simp: read32_def split: if_splits bind_splits)
qed simp

lemma status_wait_stuck:
  "(\<And>t. \<not> ready (dev_rd dev t a)) \<Longrightarrow> status_wait dev a ready n t = Some (r, t') \<Longrightarrow> r = - 1"
  by (induction n arbitrary: t) (auto simp: read32_def split: bind_splits)

lemma runs_status_wait:
  assumes "timer_runs dev"
  shows "runs (status_wait dev a ready n) (\<lambda>r _. (\<forall>t. \<not> ready (dev_rd dev t a)) \<longrightarrow> r = - 1)"
proof -
  have "runs (status_wait dev a ready n) (\<lambda>_ _. True)"
  proof (induction n)
    case (Suc n)
    show ?case
      unfolding status_wait.simps
      by (rule runs_read, rule runs_if) (auto intro: runs_return runs_after proceeds_usleep assms Suc)
  qed (auto intro: runs_return)
  then show ?thesis
    unfolding runs_def using status_wait_stuck [of ready dev a n] by metis
qed

lemma pd_domains:
  assumes "pd \<in> {PD_PHP, PD_SECURE, PD_VOP, PD_VO1}"
  shows "gate_sts_reg (get_pd_config pd) = 0" "0 \<le> gate_sts_bit (get_pd_config pd)" "gate_sts_bit (get_pd_config pd) < 32"
    "mem_pwr_gate_sftcon_reg (get_pd_config pd) \<noteq> - 1 \<Longrightarrow> pwr_mem_sts_reg (get_pd_config pd) = 0"
    "mem_pwr_gate_sftcon_reg (get_pd_config pd) \<noteq> - 1 \<Longrightarrow> 0 \<le> pwr_mem_sts_bit (get_pd_config pd)"
    "mem_pwr_gate_sftcon_reg (get_pd_config pd) \<noteq> - 1 \<Longrightarrow> pwr_mem_sts_bit (get_pd_config pd) < 32"
    "unat (word_of_int pd :: u64) < 4294967296"
  using assms by (auto simp: get_pd_config_def)

lemma bit_set_ones: "0 \<le> b \<Longrightarrow> b < 32 \<Longrightarrow> bit_set b 0xffffffff"
proof -
  assume b: "0 \<le> b" "b < 32"
  have "bit (mask 32 AND push_bit (nat b) 1 :: u32) (nat b)" using b by (simp add: bit_simps nat_less_iff)
  moreover have "mask 32 = (0xffffffff :: u32)" by (simp add: mask_eq_exp_minus_1)
  ultimately show ?thesis unfolding bit_set_def by (metis bit_0_eq bot_apply bot_bool_def)
qed

lemma runs_power_up_memory:
  assumes "timer_runs dev" and "uart_ready dev RK_UART2"
    and "pwr_mem_sts_reg cfg = 0" and "0 \<le> pwr_mem_sts_bit cfg" and "pwr_mem_sts_bit cfg < 32"
  shows "runs (power_up_memory dev cfg) (\<lambda>r _. never_on dev \<longrightarrow> r = 0)"
proof -
  have stuck: "never_on dev \<Longrightarrow> \<not> \<not> bit_set (pwr_mem_sts_bit cfg) (dev_rd dev t (reg_index (PMU + 0x81f8) (pwr_mem_sts_reg cfg)))" for t
    using bit_set_ones [OF assms(4,5)] by (simp add: never_on_def reg_index_def assms(3))
  show ?thesis
    unfolding power_up_memory_def [abs_def] Let_def say_def
    by (rule runs_after [OF proceeds_pre [OF proceeds_usleep [OF assms(1)]]], intro grows_intros,
        rule runs_bind [OF runs_pre_same [OF runs_status_wait [OF assms(1)]]], intro grows_intros, assumption,
        intro runs_if runs_after [OF proceeds_puts [OF assms(2)]] runs_return)
      (use stuck in auto)
qed

lemma runs_power_up:
  assumes "timer_runs dev" and "uart_ready dev RK_UART2" and pd: "pd \<in> {PD_PHP, PD_SECURE, PD_VOP, PD_VO1}"
  shows "runs (power_up dev stack pd) (\<lambda>r _. never_on dev \<longrightarrow> r = 0)"
proof -
  let ?cfg = "get_pd_config pd"
  have stuck: "never_on dev \<Longrightarrow> \<not> \<not> bit_set (gate_sts_bit ?cfg) (dev_rd dev t (reg_index (PMU + 0x8180) (gate_sts_reg ?cfg)))" for t
    using bit_set_ones [OF pd_domains(2,3) [OF pd]] by (simp add: never_on_def reg_index_def pd_domains(1) [OF pd])
  show ?thesis
    unfolding power_up_def [abs_def] Let_def say_def
    by (rule runs_after [OF proceeds_debug [OF assms(2) pd_domains(7) [OF pd]]],
        rule runs_read, rule runs_if, simp add: runs_return,
        rule runs_bind [OF runs_pre_same [OF runs_status_wait [OF assms(1)]]], intro grows_intros, assumption,
        intro runs_if runs_after [OF proceeds_puts [OF assms(2)]] runs_return
          runs_mono [OF runs_power_up_memory [OF assms(1,2) pd_domains(4,5,6) [OF pd]]])
      (use stuck in auto)
qed

lemma runs_power_up_all:
  assumes "timer_runs dev" and "uart_ready dev RK_UART2"
  shows "set pds \<subseteq> {PD_PHP, PD_SECURE, PD_VOP, PD_VO1} \<Longrightarrow>
    runs (power_up_all dev stack pds) (\<lambda>r _. never_on dev \<longrightarrow> r = 0)"
proof (induction pds)
  case (Cons pd pds)
  then have pd: "pd \<in> {PD_PHP, PD_SECURE, PD_VOP, PD_VO1}" and rest: "set pds \<subseteq> {PD_PHP, PD_SECURE, PD_VOP, PD_VO1}"
    by auto
  show ?case
    unfolding power_up_all.simps(2) [abs_def]
    by (rule runs_bind [OF runs_power_up [OF assms pd]])
      (intro runs_if runs_return runs_mono [OF Cons.IH [OF rest]]; simp)
qed (simp add: runs_return power_up_all.simps(1) [abs_def])

lemma runs_init_power_domains:
  assumes "timer_runs dev" and "uart_ready dev RK_UART2"
  shows "runs (rk3588_init_power_domains dev stack)
    (\<lambda>r _. never_on dev \<and> (\<forall>t. dev_rd dev t (PMU + 0x4000) = 0x3588) \<longrightarrow> r = 0)"
proof -
  let ?up = "\<lambda>t. power_up_all dev stack [PD_PHP, PD_SECURE, PD_VOP, PD_VO1] (write32 (PMU + 0x812c) 0xffffffff
    (write32 (PMU + 0x8128) 0xffffffff (write32 (PMU + 0x820c) 0xffffffff (write32 (PMU + 0x8208) 0xffffffff
    (write32 (PMU + 0x8204) 0xffffffff t)))))"
  have up: "runs ?up (\<lambda>r _. never_on dev \<longrightarrow> r = 0)"
    by (rule runs_pre_same [OF runs_power_up_all [OF assms]], simp, intro grows_intros, simp)
  show ?thesis
  proof (cases "\<forall>t. dev_rd dev t (PMU + 0x4000) = 0x3588")
    case True
    then show ?thesis
      unfolding rk3588_init_power_domains_def [abs_def] Let_def
      by (intro runs_read_constant [where v = "0x3588"] runs_if runs_mono [OF up]) simp_all
  next
    case False
    then show ?thesis
      unfolding rk3588_init_power_domains_def [abs_def] Let_def
      by (intro runs_read runs_if runs_return runs_mono [OF up]) simp_all
  qed
qed

text \<open>C39. The set-up of the power domains always returns, and a domain that never comes up goes
  unnoticed: when the status registers never report power, neither for the domains nor for their
  memories, the result is 0 all the same. The timeout is recognised by the counter being 0 after
  the loop, which is so only when the very last reading showed that the domain is up.\<close>

theorem power_timeout_unnoticed:
  assumes "timer_runs dev" and "uart_ready dev RK_UART2"
  shows "\<exists>r t'. rk3588_init_power_domains dev stack t = Some (r, t') \<and>
    (never_on dev \<and> (\<forall>t. dev_rd dev t (PMU + 0x4000) = 0x3588) \<longrightarrow> r = 0) \<and>
    (\<forall>a ready s s'. status_wait dev a ready 0x1000 s = Some (0, s') \<longrightarrow> (\<exists>v before. s' = Read32 a v # before \<and> ready v))"
proof -
  obtain r new where "rk3588_init_power_domains dev stack t = Some (r, new @ t)"
      "never_on dev \<and> (\<forall>t. dev_rd dev t (PMU + 0x4000) = 0x3588) \<longrightarrow> r = 0"
    using runs_init_power_domains [OF assms, of stack] unfolding runs_def by blast
  then show ?thesis
    using status_wait_zero by (intro exI [of _ r] exI [of _ "new @ t"] conjI) blast+
qed

text \<open>Hardware whose registers read as all ones.\<close>

definition dead_domains :: device where
  "dead_domains = \<lparr>dev_rd = (\<lambda>t a. if a = PMU + 0x4000 then 0x3588 else 0xffffffff), dev_time = (\<lambda>_. - 1)\<rparr>"

lemma power_timeout_unnoticed_witness:
  "\<exists>t'. rk3588_init_power_domains dead_domains (\<lambda>_. 0) [] = Some (0, t')"
proof -
  have d: "timer_runs dead_domains"
    unfolding timer_runs_def by (simp add: dead_domains_def)
  have u: "uart_ready dead_domains RK_UART2"
    unfolding uart_ready_def by (auto simp: dead_domains_def)
  from power_timeout_unnoticed [OF d u, of "\<lambda>_. 0" "[]"] show ?thesis
    by (auto simp: never_on_def dead_domains_def)
qed


subsection \<open>Pins\<close>

lemma pin_mask_effect:
  assumes "pin < 32"
  shows "\<exists>l h. gen_pin_mask (int pin) v = (l, h) \<and>
    (\<forall>old n. bit (hiword_write old l) n = (if pin < 16 \<and> n = pin then v \<noteq> 0 else bit old n)) \<and>
    (\<forall>old n. bit (hiword_write old h) n = (if 16 \<le> pin \<and> n = pin - 16 then v \<noteq> 0 else bit old n))"
proof (cases "pin < 16")
  case True
  have n: "nat (int pin + 16) = pin + 16" by simp
  have g: "gen_pin_mask (int pin) v = ((if v \<noteq> 0 then push_bit pin 1 else 0) OR push_bit (pin + 16) 1, 0)"
    using True by (simp add: gen_pin_mask_def n)
  show ?thesis
    unfolding g prod.inject
    using True by (auto simp: hiword_write_def bit_simps dest: bit_imp_le_length)
next
  case False
  have n: "nat (int pin - 16) = pin - 16" by simp
  have g: "gen_pin_mask (int pin) v = (0, (if v \<noteq> 0 then push_bit (pin - 16) 1 else 0) OR push_bit pin 1)"
    using False by (simp add: gen_pin_mask_def n)
  show ?thesis
    unfolding g prod.inject
    using False assms by (auto simp: hiword_write_def bit_simps dest: bit_imp_le_length)
qed

text \<open>C37. gpio_set_dir writes the data registers and gpio_set_pin the direction registers. Where both are
  called for a pin with the same argument, as in genbook.c, genbook-ddr.c and plat_reset, the
  pin ends up as meant: its bit of the data and of the direction register becomes this
  argument, and no other bit changes.\<close>

theorem gpio_pair_sets_pin:
  assumes "bank \<le> 4" and "pin < 32"
  shows "\<exists>l h. gpio_set_dir (int bank) (int pin) v t = Write32 (gpio_get (int bank) + 4) h # Write32 (gpio_get (int bank)) l # t \<and>
    gpio_set_pin (int bank) (int pin) v (gpio_set_dir (int bank) (int pin) v t) =
      [Write32 (gpio_get (int bank) + 12) h, Write32 (gpio_get (int bank) + 8) l, Write32 (gpio_get (int bank) + 4) h, Write32 (gpio_get (int bank)) l] @ t \<and>
    (\<forall>old n. bit (hiword_write old l) n = (if pin < 16 \<and> n = pin then v \<noteq> 0 else bit old n)) \<and>
    (\<forall>old n. bit (hiword_write old h) n = (if 16 \<le> pin \<and> n = pin - 16 then v \<noteq> 0 else bit old n))"
proof -
  obtain l h where g: "gen_pin_mask (int pin) v = (l, h)"
    "\<forall>old n. bit (hiword_write old l) n = (if pin < 16 \<and> n = pin then v \<noteq> 0 else bit old n)"
    "\<forall>old n. bit (hiword_write old h) n = (if 16 \<le> pin \<and> n = pin - 16 then v \<noteq> 0 else bit old n)"
    using pin_mask_effect [OF assms(2)] by blast
  show ?thesis
    by (rule exI [of _ l], rule exI [of _ h], intro conjI g(2,3))
      (simp_all add: gpio_set_dir_def gpio_set_pin_def write32_def Let_def g(1))
qed

lemma gpio_pair_sets_pin_witness:
  "\<exists>l h. gpio_set_pin 0 20 1 (gpio_set_dir 0 20 1 []) =
      [Write32 0xfd8a000c h, Write32 0xfd8a0008 l, Write32 0xfd8a0004 h, Write32 0xfd8a0000 l]
    \<and> (\<forall>old n. bit (hiword_write old l) n = bit old n)
    \<and> (\<forall>old n. bit (hiword_write old h) n = (n = 4 \<or> bit old n))"
  using gpio_pair_sets_pin [of 0 20 1 "[]"] by (auto simp: gpio_get_def)

subsection \<open>The page table\<close>

definition giga_attr :: "nat \<Rightarrow> u64" where
  "giga_attr k = (if k = 3 \<or> k = 4 then 0 else 3)"

lemma rk3588_tables: "fst (plat_setup_mmu buffer m t) = giga_tables 8 giga_attr (align_to_4kb buffer) m"
proof -
  have u: "[0..<8] = [0, 1, 2, 3, 4, 5, 6, 7 :: nat]" by (simp add: upt_rec)
  show ?thesis
    unfolding plat_setup_mmu_def giga_tables_def Let_def u by (simp add: giga_attr_def)
qed

text \<open>The identity below 8 GiB. The processor is told of 64 GiB; the other 56 entries of the table are
  what was on the stack.\<close>

lemma rk3588_identity_map:
  assumes "va < 0x200000000"
  shows "translate (fst (plat_setup_mmu buffer m t)) (align_to_4kb buffer) va
    = Some (va, if 0xc0000000 \<le> va \<and> va < 0x140000000 then 0 else 3)"
proof -
  have va: "unat va < 8 * 1073741824" using assms by (simp add: word_less_nat_alt)
  have "unat va div 1073741824 = 3 \<or> unat va div 1073741824 = 4 \<longleftrightarrow> 3221225472 \<le> unat va \<and> unat va < 5368709120"
    using less_eq_div_iff_mult_less_eq [of 1073741824 3 "unat va"] less_eq_div_iff_mult_less_eq [of 1073741824 5 "unat va"]
    by auto
  then have "giga_attr (unat va div 1073741824) = (if 0xc0000000 \<le> va \<and> va < 0x140000000 then 0 else 3)"
    unfolding giga_attr_def word_less_nat_alt word_le_nat_alt by simp
  then show ?thesis
    unfolding rk3588_tables using giga_tables_translate [of 8 va giga_attr] va by (simp add: giga_attr_def)
qed

lemma rk3588_entries_left:
  "8 \<le> k \<Longrightarrow> k < 64 \<Longrightarrow> load_le 8 (fst (plat_setup_mmu buffer m t)) (align_to_4kb buffer + 8 * of_nat k)
    = load_le 8 m (align_to_4kb buffer + 8 * of_nat k)"
  unfolding rk3588_tables by (simp add: giga_tables_entry(2))

end
