(* ===== verification/Edp.thy ===== *)
theory Edp
  imports Soc
begin

text \<open>
  The eDP transmitter of the laptops (src/analogix_edp.c). \<open>edp\<close> is the address of its registers,
  \<open>uart\<close> the UART's and \<open>stack\<close> the buffer of \<open>itoa\<close>. The results are those of the C
  functions: 0 for success.
\<close>

subsection \<open>The code\<close>

text \<open>The loop that waits for a screen, with \<open>n\<close> rounds left.\<close>

primrec hpd_wait :: "device \<Rightarrow> addr \<Rightarrow> (int \<Rightarrow> u8) \<Rightarrow> addr \<Rightarrow> nat \<Rightarrow> history \<Rightarrow> history option" where
  "hpd_wait dev uart stack edp 0 t = Some t"
| "hpd_wait dev uart stack edp (Suc n) t =
     (case read32 dev (edp + 0x608) t of (v, t) \<Rightarrow>
        if v AND push_bit 6 1 \<noteq> 0 then debug_reg dev uart stack ''HPD status OK: '' (edp + 0x608) t
        else do {
          t \<leftarrow> (if n > 0 then do {
            t \<leftarrow> debug_reg dev uart stack ''Forcing HPD: '' (edp + 0x608) t;
            Some (rmw32 dev (edp + 0x608) (\<lambda>v. v OR (push_bit 4 1 OR push_bit 5 1)) t)
          } else Some t);
          t \<leftarrow> usleep dev 1 t;
          hpd_wait dev uart stack edp n t
        })"

primrec edp_pll_wait :: "device \<Rightarrow> addr \<Rightarrow> (int \<Rightarrow> u8) \<Rightarrow> addr \<Rightarrow> nat \<Rightarrow> history \<Rightarrow> (int \<times> history) option" where
  "edp_pll_wait dev uart stack edp 0 t = Some (0, t)"
| "edp_pll_wait dev uart stack edp (Suc n) t =
     (case read32 dev (edp + 0x6c0) t of (v, t) \<Rightarrow>
        if v AND push_bit 4 1 \<noteq> 0 then do { t \<leftarrow> puts dev uart (chars ''PLL is locked'') t; Some (0, t) }
        else do {
          t \<leftarrow> debug_reg dev uart stack ''Waiting for PLL to be locked... '' (edp + 0x6c0) t;
          if n = 0 then do { t \<leftarrow> puts dev uart (chars ''Timeout unable to lock PLL'') t; Some (- 1, t) }
          else do { t \<leftarrow> usleep dev 1 t; edp_pll_wait dev uart stack edp n t }
        })"

definition edp_init :: "device \<Rightarrow> addr \<Rightarrow> (int \<Rightarrow> u8) \<Rightarrow> addr \<Rightarrow> history \<Rightarrow> (int \<times> history) option" where
  "edp_init dev uart stack edp t = do {
     t \<leftarrow> hpd_wait dev uart stack edp 10 t;
     let t = rmw32 dev (edp + 0x18) (\<lambda>v. v AND NOT 1) t;
     let t = write32 (edp + 0x12c) 0 t;
     let t = write32 (edp + 0x3c4) (push_bit 6 1) t;
     let t = rmw32 dev (edp + 0x6c0) (\<lambda>v. v AND NOT 12) t;
     edp_pll_wait dev uart stack edp 100 t
   }"

definition edp_link_training :: "device \<Rightarrow> addr \<Rightarrow> u32 \<Rightarrow> u32 \<Rightarrow> history \<Rightarrow> (int \<times> history) option" where
  "edp_link_training dev edp link_rate lane_count t = do {
     let t = write32 (edp + 0x680) link_rate t;
     let t = write32 (edp + 0x684) lane_count t;
     t \<leftarrow> usleep dev 500 (write32 (edp + 0x688) 0x21 t);
     t \<leftarrow> usleep dev 500 (write32 (edp + 0x688) 0x22 t);
     Some (0, write32 (edp + 0x688) 0 t)
   }"

definition edp_shutdown :: "device \<Rightarrow> addr \<Rightarrow> addr \<Rightarrow> history \<Rightarrow> history option" where
  "edp_shutdown dev uart edp t = do {
     t \<leftarrow> puts dev uart (chars ''Shutting down eDP'') t;
     let t = write32 (edp + 0x20) (push_bit 6 1) t;
     let t = write32 (edp + 0x608) 0 t;
     Some (write32 (edp + 0x18) 0x61 t)
   }"

text \<open>A status bit is cleared by writing the register back: read, write, read.\<close>

definition read_again :: "device \<Rightarrow> addr \<Rightarrow> history \<Rightarrow> u32 \<times> history" where
  "read_again dev a t = (case read32 dev a t of (v, t) \<Rightarrow> read32 dev a (write32 a v t))"

text \<open>The result 1 leaves \<open>edp_enable\<close>, 0 goes on after the loop.\<close>

primrec clock_wait :: "device \<Rightarrow> addr \<Rightarrow> (int \<Rightarrow> u8) \<Rightarrow> addr \<Rightarrow> nat \<Rightarrow> history \<Rightarrow> (int \<times> history) option" where
  "clock_wait dev uart stack edp 0 t = Some (0, t)"
| "clock_wait dev uart stack edp (Suc n) t = do {
     t \<leftarrow> usleep dev 1 t;
     if n = 0 then Some (1, t)
     else case read_again dev (edp + 0x600) t of (v, t) \<Rightarrow>
       if v AND push_bit 2 1 = 0 then clock_wait dev uart stack edp n t
       else case read_again dev (edp + 0x604) t of (v, t) \<Rightarrow>
         if v AND push_bit 2 1 = 0 then do {
           t \<leftarrow> debug dev uart stack (chars ''Waiting on STA: '') (ucast v) t; Some (0, t)
         } else clock_wait dev uart stack edp n t
   }"

primrec stream_wait :: "device \<Rightarrow> addr \<Rightarrow> (int \<Rightarrow> u8) \<Rightarrow> addr \<Rightarrow> nat \<Rightarrow> history \<Rightarrow> (int \<times> history) option" where
  "stream_wait dev uart stack edp 0 t = Some (0, t)"
| "stream_wait dev uart stack edp (Suc n) t =
     (case read_again dev (edp + 0x608) t of (v, t) \<Rightarrow> do {
        t \<leftarrow> debug dev uart stack (chars ''Waiting for video to turn on... '') (ucast v) t;
        if v AND push_bit 2 1 = 0 then do { t \<leftarrow> puts dev uart (chars ''enabled video output'') t; Some (0, t) }
        else if n = 0 then do { t \<leftarrow> puts dev uart (chars ''Timeout unable to turn video signal on'') t; Some (1, t) }
        else do { t \<leftarrow> usleep dev 1 t; stream_wait dev uart stack edp n t }
      })"

definition edp_enable :: "device \<Rightarrow> addr \<Rightarrow> (int \<Rightarrow> u8) \<Rightarrow> addr \<Rightarrow> u32 \<Rightarrow> u32 \<Rightarrow> history \<Rightarrow> (int \<times> history) option" where
  "edp_enable dev uart stack edp link_rate lane_count t = do {
     let t = write32 (edp + 0x18) 0 t;
     let t = write32 (edp + 0x1c) 0 t;
     (r, t) \<leftarrow> edp_link_training dev edp link_rate lane_count t;
     t \<leftarrow> (if r \<noteq> 0 then puts dev uart (chars ''link training failed'' @ [10]) t else Some t);
     case read32 dev (edp + 0x6c0) t of (v, t) \<Rightarrow>
       if v AND push_bit 4 1 = 0 then do { t \<leftarrow> puts dev uart (chars ''PLL isn't locked'') t; Some (1, t) }
       else do {
         t \<leftarrow> puts dev uart (chars ''Checking clock...'') t;
         (r, t) \<leftarrow> clock_wait dev uart stack edp 100 t;
         if r \<noteq> 0 then Some (1, t)
         else do {
           let t = rmw32 dev (edp + 0x20) (\<lambda>v. v AND NOT (push_bit 6 1)) t;
           let t = rmw32 dev (edp + 0x20) (\<lambda>v. v OR push_bit 7 1) t;
           stream_wait dev uart stack edp 100 t
         }
       }
   }"

subsection \<open>The set-up ends, and what success means\<close>

lemma runs_read_again:
  assumes "\<And>v. runs (g v) (\<lambda>y new. \<forall>before. Q y (new @ Read32 a v # before))"
  shows "runs (\<lambda>t. case read_again dev a t of (v, t) \<Rightarrow> g v t) Q"
  unfolding runs_def
proof
  fix t
  let ?s = "write32 a (dev_rd dev t a) (Read32 a (dev_rd dev t a) # t)"
  let ?v = "dev_rd dev ?s a"
  from assms [of ?v] obtain y new where "g ?v (Read32 a ?v # ?s) = Some (y, new @ Read32 a ?v # ?s)"
    "\<forall>before. Q y (new @ Read32 a ?v # before)" unfolding runs_def by blast
  then show "\<exists>y new. (case read_again dev a t of (v, t) \<Rightarrow> g v t) = Some (y, new @ t) \<and> Q y new"
    by (intro exI [of _ y] exI [of _ "new @ Read32 a ?v # [Write32 a (dev_rd dev t a), Read32 a (dev_rd dev t a)]"])
      (simp add: read_again_def read32_def write32_def)
qed

lemma proceeds_hpd_wait:
  assumes "timer_runs dev" and "uart_ready dev uart"
  shows "proceeds (hpd_wait dev uart stack edp n) (\<lambda>_. True)"
proof (induction n)
  case (Suc n)
  have force: "proceeds (\<lambda>t. if n > 0 then do {
       t \<leftarrow> debug_reg dev uart stack ''Forcing HPD: '' (edp + 0x608) t;
       Some (rmw32 dev (edp + 0x608) (\<lambda>v. v OR (push_bit 4 1 OR push_bit 5 1)) t)
     } else Some t) (\<lambda>_. True)"
    by (rule proceeds_if, rule proceeds_bind [OF proceeds_debug_reg [OF assms(2)]])
      (use grows_rmw32 [OF grows_refl] in \<open>auto simp: proceeds_def grows_def\<close>)
  show ?case
    unfolding hpd_wait.simps(2) [abs_def]
    by (rule proceeds_read, rule proceeds_if, rule proceeds_debug_reg [OF assms(2)])
      (intro proceeds_bind [OF force] proceeds_bind [OF proceeds_usleep [OF assms(1)]] Suc)
qed (simp add: proceeds_return hpd_wait.simps(1) [abs_def])

abbreviation (input) edp_locked :: "addr \<Rightarrow> history \<Rightarrow> bool" where
  "edp_locked edp \<equiv> saw (edp + 0x6c0) (\<lambda>v. v AND push_bit 4 1 \<noteq> 0)"

lemma runs_edp_pll_wait:
  assumes "timer_runs dev" and "uart_ready dev uart"
  shows "runs (edp_pll_wait dev uart stack edp (Suc n)) (ended (edp_locked edp))"
proof (induction n)
  case 0
  show ?case
    unfolding edp_pll_wait.simps(2) [abs_def]
    by (intro runs_read runs_if runs_after [OF proceeds_puts [OF assms(2)]]
        runs_after [OF proceeds_debug_reg [OF assms(2)]] runs_return) (auto simp: ended_def)
next
  case (Suc n)
  show ?case
    unfolding edp_pll_wait.simps(2) [abs_def, of _ _ _ _ "Suc n"]
    by (intro runs_read runs_if runs_after [OF proceeds_puts [OF assms(2)]] runs_after [OF proceeds_usleep [OF assms(1)]]
        runs_after [OF proceeds_debug_reg [OF assms(2)]] runs_return runs_mono [OF Suc]) (auto simp: ended_def)
qed

lemma runs_edp_init:
  assumes "timer_runs dev" and "uart_ready dev uart"
  shows "runs (edp_init dev uart stack edp) (ended (edp_locked edp))"
  unfolding edp_init_def [abs_def] Let_def
  by (rule runs_after [OF proceeds_hpd_wait [OF assms]],
      rule runs_pre [OF runs_edp_pll_wait [OF assms, of _ _ 99, simplified]],
      intro grows_intros, simp add: ended_more)


abbreviation (input) edp_clock :: "addr \<Rightarrow> history \<Rightarrow> bool" where
  "edp_clock edp new \<equiv> saw (edp + 0x600) (\<lambda>v. v AND push_bit 2 1 \<noteq> 0) new \<and> saw (edp + 0x604) (\<lambda>v. v AND push_bit 2 1 = 0) new"

abbreviation (input) edp_stream :: "addr \<Rightarrow> history \<Rightarrow> bool" where
  "edp_stream edp \<equiv> saw (edp + 0x608) (\<lambda>v. v AND push_bit 2 1 = 0)"

lemma runs_clock_wait:
  assumes "timer_runs dev" and "uart_ready dev uart"
  shows "runs (clock_wait dev uart stack edp (Suc n)) (\<lambda>r new. (r = 0 \<or> r = 1) \<and> (r = 0 \<longrightarrow> edp_clock edp new))"
proof (induction n)
  case 0
  show ?case
    unfolding clock_wait.simps(2) [abs_def]
    by (intro runs_after [OF proceeds_usleep [OF assms(1)]] runs_if runs_return) auto
next
  case (Suc n)
  show ?case
    unfolding clock_wait.simps(2) [abs_def, of _ _ _ _ "Suc n"]
    by (intro runs_after [OF proceeds_usleep [OF assms(1)]] runs_read_again runs_if
        runs_after [OF proceeds_debug_u32 [OF assms(2)]] runs_return runs_mono [OF Suc]) auto
qed

lemma runs_stream_wait:
  assumes "timer_runs dev" and "uart_ready dev uart"
  shows "runs (stream_wait dev uart stack edp (Suc n)) (\<lambda>r new. (r = 0 \<or> r = 1) \<and> (r = 0 \<longrightarrow> edp_stream edp new))"
proof (induction n)
  case 0
  show ?case
    unfolding stream_wait.simps(2) [abs_def]
    by (intro runs_read_again runs_if runs_after [OF proceeds_puts [OF assms(2)]]
        runs_after [OF proceeds_debug_u32 [OF assms(2)]] runs_return) auto
next
  case (Suc n)
  show ?case
    unfolding stream_wait.simps(2) [abs_def, of _ _ _ _ "Suc n"]
    by (intro runs_read_again runs_if runs_after [OF proceeds_puts [OF assms(2)]] runs_after [OF proceeds_usleep [OF assms(1)]]
        runs_after [OF proceeds_debug_u32 [OF assms(2)]] runs_return runs_mono [OF Suc]) auto
qed

lemma runs_link_training:
  assumes "timer_runs dev"
  shows "runs (edp_link_training dev edp rate lanes) (\<lambda>r _. r = 0)"
  unfolding edp_link_training_def [abs_def] Let_def
  by (rule runs_after [OF proceeds_pre [OF proceeds_usleep [OF assms]]], intro grows_intros,
      rule runs_after [OF proceeds_pre [OF proceeds_usleep [OF assms]]], intro grows_intros,
      intro runs_last grows_intros) simp

lemma runs_edp_enable:
  assumes "timer_runs dev" and "uart_ready dev uart"
  shows "runs (edp_enable dev uart stack edp rate lanes)
    (\<lambda>r new. (r = 0 \<or> r = 1) \<and> (r = 0 \<longrightarrow> edp_locked edp new \<and> edp_clock edp new \<and> edp_stream edp new))"
proof -
  note wait = runs_clock_wait [OF assms, of _ _ 99, simplified]
    and stream = runs_pre [OF runs_stream_wait [OF assms, of _ _ 99, simplified]]
  have warn: "proceeds (\<lambda>t. if r \<noteq> 0 then puts dev uart s t else Some t) (\<lambda>_. True)" for r :: int and s
    by (intro proceeds_if proceeds_puts assms(2) proceeds_return) simp
  show ?thesis
    unfolding edp_enable_def [abs_def] Let_def
    by (rule runs_bind [OF runs_pre_same [OF runs_link_training [OF assms(1)]]], intro grows_intros, assumption,
        intro runs_after [OF warn] runs_read runs_if runs_after [OF proceeds_puts [OF assms(2)]] runs_return
          runs_bind [OF wait] stream grows_intros)
      auto
qed

text \<open>C27. Whatever the hardware answers, edp_init and edp_enable end, if the timer runs and the UART gets
  ready. edp_init returns 0 or -1, and 0 only after the status showed the lock of the PLL; edp_enable
  returns 0 or 1, and 0 only after it saw the PLL locked, the clock present and no longer changing,
  and the status bit by which the code takes the stream to be on.\<close>

theorem edp_ready:
  assumes "timer_runs dev" and "uart_ready dev uart"
  shows "(\<exists>r new. edp_init dev uart stack edp t = Some (r, new @ t) \<and> (r = 0 \<or> r = - 1) \<and>
      (r = 0 \<longrightarrow> saw (edp + 0x6c0) (\<lambda>v. v AND 0x10 \<noteq> 0) new)) \<and>
    (\<exists>r new. edp_enable dev uart stack edp rate lanes t = Some (r, new @ t) \<and> (r = 0 \<or> r = 1) \<and>
      (r = 0 \<longrightarrow> saw (edp + 0x6c0) (\<lambda>v. v AND 0x10 \<noteq> 0) new \<and> saw (edp + 0x600) (\<lambda>v. v AND 4 \<noteq> 0) new \<and>
        saw (edp + 0x604) (\<lambda>v. v AND 4 = 0) new \<and> saw (edp + 0x608) (\<lambda>v. v AND 4 = 0) new))"
  using runs_edp_init [OF assms, of stack edp] runs_edp_enable [OF assms, of stack edp rate lanes]
  unfolding runs_def ended_def by (simp add: push_bit_eq_mult)

text \<open>Hardware whose registers read as all ones: the PLL is locked, but the clock never settles.\<close>

definition all_ones :: device where
  "all_ones = \<lparr>dev_rd = (\<lambda>_ _. 0xffffffff), dev_time = (\<lambda>_. - 1)\<rparr>"

lemma all_ones_ready: "timer_runs all_ones" "uart_ready all_ones uart"
  by (simp_all add: timer_runs_def uart_ready_def all_ones_def)

lemma edp_ready_witness:
  "\<exists>r new. edp_init all_ones 0xff1a0000 (\<lambda>_. 0) 0xff970000 [] = Some (r, new) \<and> (r = 0 \<or> r = - 1)"
  using edp_ready [OF all_ones_ready, of "0xff1a0000" "\<lambda>_. 0" "0xff970000" "[]" 10 2] by blast

end
