(* ===== verification/Rk3588_Display.thy ===== *)
theory Rk3588_Display
  imports Rk3588 Edp
begin

text \<open>
  The display of the RK3588: the scan-out unit (src/rk3588/vop2.c) and the two ways to set it up
  (src/rk3588/video.c). The driver of the HDMI/DP PHY, src/external/samsung_phy_edp.c, is a
  vendored file and not modelled: \<open>hdptx\<close> is what its two calls do to the history.
\<close>

abbreviation (input) VOP :: addr where "VOP \<equiv> 0xfdd90000"
abbreviation (input) VOP_GRF :: addr where "VOP_GRF \<equiv> 0xfd5a4000"
abbreviation (input) VO1_GRF :: addr where "VO1_GRF \<equiv> 0xfd5a8000"
abbreviation (input) EDP1 :: addr where "EDP1 \<equiv> 0xfded0000"

subsection \<open>Scan-out (vop2.c)\<close>

definition get_overlay :: "addr \<Rightarrow> addr" where
  "get_overlay base = base + 0x600"

definition get_esmart :: "addr \<Rightarrow> int \<Rightarrow> addr" where
  "get_esmart base i = (base + 0x1800) + word_of_int (i * 0x200)"

definition get_post :: "addr \<Rightarrow> int \<Rightarrow> addr" where
  "get_post base i = (base + 0xc00) + word_of_int (i * 0x100)"

definition config_smart_layer :: "addr \<Rightarrow> addr \<Rightarrow> u32 \<Rightarrow> u32 \<Rightarrow> history \<Rightarrow> history" where
  "config_smart_layer base framebuffer_addr width height t =
     reg_writes (get_esmart base 2)
       [(0x10, 0), (0x34, 0), (0x30, 0x44), (4, 0xd0c0), (0x1c, width),
        (0x20, push_bit 0x10 (height - 1) OR (width - 1)), (0x24, push_bit 0x10 (height - 1) OR (width - 1)),
        (0x28, 0), (0x14, ucast framebuffer_addr), (0, 4), (0x10, 1)] t"

abbreviation (input) RGB101010 :: u32 where "RGB101010 \<equiv> 0xf"

definition config_post :: "addr \<Rightarrow> history \<Rightarrow> history" where
  "config_post base t =
     reg_writes (get_post base 2)
       [(0x0c, 2), (0, RGB101010 OR push_bit 0x1f 1), (0, 0), (0, RGB101010),
        (0x48, 20 OR push_bit 0x10 2200), (0x4c, 2152 OR push_bit 0x10 232), (0x54, 1122 OR push_bit 0x10 42),
        (0x50, 10 OR push_bit 0x10 1125), (4, 0), (0x2c, 0), (0x40, 0),
        (0x30, 0x3f30020), (0x34, 0xe80868), (0x38, 0x2a0462), (0x3c, 0x10001000)] t"

definition vop2_config_hdmi :: "device \<Rightarrow> addr \<Rightarrow> history \<Rightarrow> history" where
  "vop2_config_hdmi dev base t =
     (let t = rmw32 dev (base + 0x28) (\<lambda>v. v OR push_bit 2 2) t;
          t = rmw32 dev (base + 0x28) (\<lambda>v. v OR push_bit 0x10 2) t;
          t = rmw32 dev (base + 0x2c) (\<lambda>v. v OR push_bit 0x10 2) t
      in rmw32 dev (base + 0x2c) (\<lambda>v. v OR push_bit 0x12 1) t)"

definition vop2_config_edp0 :: "device \<Rightarrow> addr \<Rightarrow> history \<Rightarrow> history" where
  "vop2_config_edp0 dev base t =
     (let t = rmw32 dev (base + 0x28) (\<lambda>v. v OR push_bit 2 1) t;
          t = rmw32 dev (base + 0x28) (\<lambda>v. v OR push_bit 0 1) t
      in rmw32 dev (base + 0x28) (\<lambda>v. v OR push_bit 0xe 1) t)"

definition vop2_config_edp1 :: "addr \<Rightarrow> history \<Rightarrow> history" where
  "vop2_config_edp1 base = reg_writes base [(0x28, 0x100a0018), (0x2c, 0x60000)]"

definition vop2_init :: "device \<Rightarrow> addr \<Rightarrow> history \<Rightarrow> history option" where
  "vop2_init dev base t = do {
     t \<leftarrow> usleep dev 1000 (write32 (base + 0x34) 0 t);
     let t = rmw32 dev (get_overlay base) (\<lambda>v. v OR push_bit 0x1c 1) t;
     let t = rmw32 dev (base + 0x30) (\<lambda>v. v OR push_bit 0x1c 1) t;
     Some (reg_writes (get_overlay base) [(4, 0x76543210), (8, 0xa5a47738), (0xe8, 0x34000000)] t)
   }"

definition vop2_setup_display :: "addr \<Rightarrow> history \<Rightarrow> history" where
  "vop2_setup_display base t = write32 (base + 0x78) 0x462 (config_post base t)"

definition vop2_start_video :: "device \<Rightarrow> addr \<Rightarrow> history \<Rightarrow> history option" where
  "vop2_start_video dev base t =
     (let t = rmw32 dev (get_post base 2) (\<lambda>v. v AND NOT (push_bit 0x1f 1)) t;
          t = write32 base 0x48004 t
      in say dev ''VOP video is active'' t)"

subsection \<open>The set-up (video.c)\<close>

definition rk3588_setup_video :: "device \<Rightarrow> history \<Rightarrow> history option" where
  "rk3588_setup_video dev t =
     (let t = rk_clr_set_bits (PMU + 0x8150) 15 0 0 t;
          t = rk_clr_set_bits (CRU + 0x280) 15 0 0x155 t;
          t = rk_clr_set_bits (CRU + 0x4c0) 4 0 7 t;
          t = rk_clr_set_bits (CRU + 0x4c0) 6 5 2 t
      in vop2_init dev VOP t)"

definition rk3588_setup_video_edp1 :: "device \<Rightarrow> (history \<Rightarrow> history option) \<Rightarrow> (int \<Rightarrow> u8) \<Rightarrow> addr \<Rightarrow> u32 \<Rightarrow> u32
    \<Rightarrow> history \<Rightarrow> history option" where
  "rk3588_setup_video_edp1 dev hdptx stack framebuffer width height t = do {
     t \<leftarrow> rk3588_setup_video dev t;
     t \<leftarrow> vop2_init dev VOP t;
     let t = rk_clr_set_bits (VO1_GRF + 4) 0 0 1 t;
     let t = rk_clr_set_bits (VOP_GRF + 8) 4 3 1 t;
     t \<leftarrow> rk3588_setup_v0pll dev t;
     let t = vop2_setup_display VOP (vop2_config_edp1 VOP t);
     let t = config_smart_layer VOP framebuffer width height t;
     t \<leftarrow> vop2_start_video dev VOP t;
     t \<leftarrow> hdptx t;
     (_, t) \<leftarrow> edp_init dev RK_UART2 stack EDP1 t;
     (_, t) \<leftarrow> edp_enable dev RK_UART2 stack EDP1 10 2 t;
     Some t
   }"

definition rk3588_setup_video_hdmi0 :: "device \<Rightarrow> addr \<Rightarrow> u32 \<Rightarrow> u32 \<Rightarrow> history \<Rightarrow> history option" where
  "rk3588_setup_video_hdmi0 dev framebuffer width height t = do {
     t \<leftarrow> rk3588_setup_video dev t;
     let t = rk_clr_set_bits VO1_GRF 6 5 3 t;
     let t = rk_clr_set_bits (VOP_GRF + 8) 1 1 1 t;
     let t = vop2_setup_display VOP (vop2_config_hdmi dev VOP t);
     let t = config_smart_layer VOP framebuffer width height t;
     vop2_start_video dev VOP t
   }"

subsection \<open>It comes to an end\<close>

lemma grows_config_smart_layer [grows_intros]: "grows t s \<Longrightarrow> grows t (config_smart_layer base fb w h s)"
  unfolding config_smart_layer_def by (intro grows_intros)

lemma grows_vop2_setup_display [grows_intros]: "grows t s \<Longrightarrow> grows t (vop2_setup_display base s)"
  unfolding vop2_setup_display_def config_post_def by (intro grows_intros)

lemma grows_vop2_config_hdmi [grows_intros]: "grows t s \<Longrightarrow> grows t (vop2_config_hdmi dev base s)"
  unfolding vop2_config_hdmi_def Let_def by (intro grows_intros)

lemma grows_vop2_config_edp1 [grows_intros]: "grows t s \<Longrightarrow> grows t (vop2_config_edp1 base s)"
  unfolding vop2_config_edp1_def by (intro grows_intros)

lemma proceeds_vop2_init:
  assumes "timer_runs dev"
  shows "proceeds (vop2_init dev base) (\<lambda>_. True)"
  unfolding vop2_init_def [abs_def] Let_def
  by (rule proceeds_bind [OF proceeds_pre [OF proceeds_usleep [OF assms]]], intro grows_intros)
    (intro proceeds_last grows_intros)

lemma proceeds_start_video:
  assumes "uart_ready dev RK_UART2"
  shows "proceeds (vop2_start_video dev base) (\<lambda>_. True)"
  unfolding vop2_start_video_def [abs_def] Let_def say_def
  by (rule proceeds_pre [OF proceeds_puts [OF assms]]) (intro grows_intros)

lemma proceeds_setup_video:
  assumes "timer_runs dev"
  shows "proceeds (rk3588_setup_video dev) (\<lambda>_. True)"
  unfolding rk3588_setup_video_def [abs_def] Let_def
  by (rule proceeds_pre [OF proceeds_vop2_init [OF assms]]) (intro grows_intros)

lemma runs_set_pll:
  assumes "timer_runs dev" and "uart_ready dev RK_UART2"
  shows "runs (rk3588_set_pll dev cfg p m s) (\<lambda>r _. r = 0)"
proof -
  have warn: "proceeds (\<lambda>t. if (r :: int) = 0 then puts dev RK_UART2 str t else Some t) (\<lambda>_. True)" for r str
    by (intro proceeds_if proceeds_puts assms(2) proceeds_return) simp
  show ?thesis
    unfolding rk3588_set_pll_def [abs_def] Let_def say_def
    by (rule runs_bind [OF runs_pre_same [OF runs_status_wait [OF assms(1)]]], intro grows_intros, assumption)
      (intro runs_after [OF warn] runs_return refl)
qed

lemma proceeds_setup_v0pll:
  assumes "timer_runs dev" and "uart_ready dev RK_UART2"
  shows "proceeds (rk3588_setup_v0pll dev) (\<lambda>_. True)"
proof -
  have "runs (rk3588_pll_set_freq dev V0PLL 148500000) (\<lambda>r _. r = 0)"
    unfolding rk3588_pll_set_freq_def [abs_def] Let_def
    by (rule runs_if, rule runs_bind [OF runs_set_pll [OF assms]]) (simp_all add: runs_return)
  then show ?thesis
    unfolding rk3588_setup_v0pll_def [abs_def]
    by (rule proceeds_after) (simp add: proceeds_return)
qed

lemma proceeds_setup_video_edp1:
  assumes "timer_runs dev" and "uart_ready dev RK_UART2" and "proceeds hdptx (\<lambda>_. True)"
  shows "proceeds (rk3588_setup_video_edp1 dev hdptx stack fb w h) (\<lambda>_. True)"
  unfolding rk3588_setup_video_edp1_def [abs_def] Let_def
  by (intro proceeds_bind [OF proceeds_setup_video [OF assms(1)]] proceeds_bind [OF proceeds_vop2_init [OF assms(1)]]
      proceeds_bind [OF proceeds_pre [OF proceeds_setup_v0pll [OF assms(1,2)]]]
      proceeds_bind [OF proceeds_pre [OF proceeds_start_video [OF assms(2)]]] proceeds_bind [OF assms(3)]
      proceeds_after [OF runs_edp_init [OF assms(1,2)]] proceeds_after [OF runs_edp_enable [OF assms(1,2)]]
      proceeds_return grows_intros) simp_all

lemma proceeds_setup_video_hdmi0:
  assumes "timer_runs dev" and "uart_ready dev RK_UART2"
  shows "proceeds (rk3588_setup_video_hdmi0 dev fb w h) (\<lambda>_. True)"
  unfolding rk3588_setup_video_hdmi0_def [abs_def] Let_def
  by (intro proceeds_bind [OF proceeds_setup_video [OF assms(1)]] proceeds_pre [OF proceeds_start_video [OF assms(2)]] grows_intros)

end
