(* ===== verification/Rk3399.thy ===== *)
theory Rk3399
  imports Page_Tables Soc
begin

text \<open>
  The drivers of the RK3399 (src/rk3399/): timers (timer.c), clocks (clock.c), pins (gpio.c),
  scan-out (vop.c), security and reset set-up (soc.c) and platform code (io.c). A field of a
  register structure is its offset. The timer here is a register of the SoC, not the processor's;
  a wait for it may not return. A routine that can call \<open>abort\<close> returns a sum: \<open>Inl\<close> is the
  history of a processor that sleeps for ever, \<open>Inr\<close> that of one that goes on.
\<close>

subsection \<open>Timers (timer.c)\<close>

abbreviation (input) TIMER0_START :: addr where "TIMER0_START \<equiv> 0xff850000"
abbreviation (input) TIMER6_START :: addr where "TIMER6_START \<equiv> 0xff858000"

definition rk3399_get_timer :: "int \<Rightarrow> addr" where
  "rk3399_get_timer n = (if n > 5 then TIMER6_START + word_of_int n * 0x20 else TIMER0_START + word_of_int n * 0x20)"

definition timer_check_int :: "device \<Rightarrow> int \<Rightarrow> history \<Rightarrow> u32 \<times> history" where
  "timer_check_int dev n t =
     (let reg = rk3399_get_timer n in
      case read32 dev (reg + 0x18) t of (s, t) \<Rightarrow> (s, write32 (reg + 0x18) 1 t))"

definition reset_timer :: "int \<Rightarrow> u64 \<Rightarrow> u64 \<Rightarrow> history \<Rightarrow> history" where
  "reset_timer n start limit t =
     (let reg = rk3399_get_timer n;
          t = write32 (reg + 0x1c) 0 t;
          t = write32 reg (ucast (limit AND 0xffffffff)) t;
          t = write32 (reg + 4) (ucast (drop_bit 32 limit)) t;
          t = write32 (reg + 0x10) (ucast (start AND 0xffffffff)) t;
          t = write32 (reg + 0x14) (ucast (drop_bit 32 start)) t;
          t = write32 (reg + 0x1c) 5 t
      in write32 (reg + 0x18) 1 t)"

definition reset_timer0 :: "history \<Rightarrow> history" where
  "reset_timer0 t = reset_timer 0 0 0xffffffff t"

definition timer_get32 :: "device \<Rightarrow> int \<Rightarrow> history \<Rightarrow> u32 \<times> history" where
  "timer_get32 dev n t = read32 dev (rk3399_get_timer n + 8) t"

definition timer0_get_val :: "device \<Rightarrow> history \<Rightarrow> u32 \<times> history" where
  "timer0_get_val dev t = read32 dev (TIMER0_START + 8) t"

text \<open>Each round of the endless loop reads the timer once.\<close>

definition timer0_usleep :: "device \<Rightarrow> int \<Rightarrow> history \<Rightarrow> history option" where
  "timer0_usleep dev ticks t =
     (case timer0_get_val dev t of (earlier, t) \<Rightarrow>
        let ticks = word_of_int (ticks * 24) :: u32 in do {
          (_, t) \<leftarrow> poll_until dev (TIMER0_START + 8) (\<lambda>now. now < earlier \<or> now - earlier > ticks) t;
          Some t
        })"

definition timer0_msleep :: "device \<Rightarrow> u32 \<Rightarrow> history \<Rightarrow> history option" where
  "timer0_msleep dev ms t = usleep dev (ms * 1000) t"

subsection \<open>Pins (gpio.c)\<close>

abbreviation (input) GRF_BASE :: addr where "GRF_BASE \<equiv> 0xff770000"
abbreviation (input) GRF_IOMUX_BASE :: addr where "GRF_IOMUX_BASE \<equiv> 0xff770000 + 0xe000"
abbreviation (input) PMUGRF_BASE :: addr where "PMUGRF_BASE \<equiv> 0xff320000"

definition grf_gpio_iomux_set :: "int \<Rightarrow> nat \<Rightarrow> nat \<Rightarrow> int \<Rightarrow> history \<Rightarrow> history" where
  "grf_gpio_iomux_set gpio bit1 bit2 func t = rk_clr_set_bits (GRF_IOMUX_BASE + 4 * word_of_int gpio) bit1 bit2 func t"

definition pmugrf_gpio_iomux_set :: "int \<Rightarrow> nat \<Rightarrow> nat \<Rightarrow> int \<Rightarrow> history \<Rightarrow> history" where
  "pmugrf_gpio_iomux_set gpio bit1 bit2 func t = rk_clr_set_bits (PMUGRF_BASE + 4 * word_of_int gpio) bit1 bit2 func t"

definition gpio_get :: "int \<Rightarrow> addr" where
  "gpio_get gpio = [0xff720000, 0xff730000, 0xff780000, 0xff788000, 0xff790000] ! nat gpio"

text \<open>\<open>*a |= 1 << pin\<close> or \<open>*a &= ~(1 << pin)\<close>.\<close>

definition change_pin :: "device \<Rightarrow> addr \<Rightarrow> int \<Rightarrow> int \<Rightarrow> history \<Rightarrow> history" where
  "change_pin dev a pin b = rmw32 dev a (\<lambda>v. if b \<noteq> 0 then v OR push_bit (nat pin) 1 else v AND NOT (push_bit (nat pin) 1))"

definition gpio_set_dir :: "device \<Rightarrow> int \<Rightarrow> int \<Rightarrow> int \<Rightarrow> history \<Rightarrow> history" where
  "gpio_set_dir dev gpio pin b t = change_pin dev (gpio_get gpio + 4) pin b t"

definition gpio_get_pin :: "device \<Rightarrow> int \<Rightarrow> int \<Rightarrow> history \<Rightarrow> int \<times> history" where
  "gpio_get_pin dev gpio pin t =
     (case read32 dev (gpio_get gpio + 0x50) t of (v, t) \<Rightarrow> (if v AND push_bit (nat pin) 1 \<noteq> 0 then 1 else 0, t))"

definition gpio_pin_mask_int :: "device \<Rightarrow> int \<Rightarrow> int \<Rightarrow> history \<Rightarrow> history" where
  "gpio_pin_mask_int dev gpio pin t =
     (let t = change_pin dev (gpio_get gpio + 0x34) pin 1 t in change_pin dev (gpio_get gpio + 0x30) pin 1 t)"

definition gpio_set_pin :: "device \<Rightarrow> int \<Rightarrow> int \<Rightarrow> int \<Rightarrow> history \<Rightarrow> history" where
  "gpio_set_pin dev gpio pin b t = change_pin dev (gpio_get gpio) pin b t"

subsection \<open>Clocks (clock.c)\<close>

abbreviation (input) RK_UART2 :: addr where "RK_UART2 \<equiv> 0xff1a0000"
abbreviation (input) CRU_BASE :: addr where "CRU_BASE \<equiv> 0xff760000"

type_synonym outcome = "history + history"

definition abort :: "device \<Rightarrow> history \<Rightarrow> outcome option" where
  "abort dev t = do { t \<leftarrow> puts dev RK_UART2 (chars ''abort() called'') t; Some (Inl (Wfi # t)) }"

text \<open>What comes after a routine that can abort.\<close>

definition go_on :: "outcome option \<Rightarrow> (history \<Rightarrow> outcome option) \<Rightarrow> outcome option" where
  "go_on r f = (case r of None \<Rightarrow> None | Some (Inl t) \<Rightarrow> Some (Inl t) | Some (Inr t) \<Rightarrow> f t)"

text \<open>The loop that waits for the PLL; \<open>waits\<close> counts its rounds.\<close>

function pll_lock_wait :: "device \<Rightarrow> (int \<Rightarrow> u8) \<Rightarrow> addr \<Rightarrow> nat \<Rightarrow> history \<Rightarrow> outcome option" where
  "pll_lock_wait dev stack cons waits t =
     (case read32 dev (cons + 8) t of (v, t) \<Rightarrow>
        if v AND push_bit 31 1 \<noteq> 0 then Some (Inr t)
        else case timer0_usleep dev 1 t of
          None \<Rightarrow> None
        | Some t \<Rightarrow>
            let waits = waits + 1 in
            if waits > 1000
            then do { t \<leftarrow> debug_reg dev RK_UART2 stack ''Waited too long: '' (cons + 8) t; abort dev t }
            else pll_lock_wait dev stack cons waits t)"
  by pat_completeness auto
termination by (relation "measure (\<lambda>(dev, stack, cons, waits, t). 1001 - waits)") auto

declare pll_lock_wait.simps [simp del]

text \<open>The arithmetic is that of \<open>uint32_t\<close>; the AArch64 instruction divides by 0 with result 0.\<close>

definition foutvco :: "u32 \<Rightarrow> u32 \<Rightarrow> u32" where
  "foutvco refdiv fbdiv = 24000 * fbdiv div refdiv"

definition clock_set_pll :: "device \<Rightarrow> (int \<Rightarrow> u8) \<Rightarrow> addr \<Rightarrow> u32 \<Rightarrow> u32 \<Rightarrow> u32 \<Rightarrow> u32 \<Rightarrow> history \<Rightarrow> outcome option" where
  "clock_set_pll dev stack cons refdiv fbdiv postdiv1 postdiv2 t =
     (let vco = foutvco refdiv fbdiv; foutpostdiv = vco div postdiv1 div postdiv2 in
      if vco > 3200000 then do {
        t \<leftarrow> debug dev RK_UART2 stack (chars ''foutvco exceeded max khz: '') (ucast vco) t; abort dev t
      }
      else if foutpostdiv > 3200000 then do {
        t \<leftarrow> debug dev RK_UART2 stack (chars ''foutpostdiv exceeded max khz: '') (ucast foutpostdiv) t; abort dev t
      }
      else let t = rk_clr_set_bits (cons + 12) 9 8 0 t;
               t = rk_clr_set_bits (cons + 12) 3 3 1 t;
               t = rk_clr_set_bits cons 11 0 (uint fbdiv) t;
               t = rk_clr_set_bits (cons + 4) 14 0 (uint (push_bit 12 postdiv2 OR push_bit 8 postdiv1 OR refdiv)) t in
        go_on (pll_lock_wait dev stack cons 0 t) (\<lambda>t. Some (Inr (rk_clr_set_bits (cons + 12) 9 8 1 t))))"

definition clock_set_pll_div :: "device \<Rightarrow> (int \<Rightarrow> u8) \<Rightarrow> addr \<Rightarrow> u32 \<Rightarrow> u32 \<Rightarrow> u32 \<Rightarrow> u32 \<Rightarrow> history \<Rightarrow> outcome option" where
  "clock_set_pll_div dev stack cons div_hz refdiv postdiv1 postdiv2 t =
     clock_set_pll dev stack cons refdiv (div_hz * refdiv * postdiv1 * postdiv2 div 24000000) postdiv1 postdiv2 t"

definition clksel_con :: "nat \<Rightarrow> addr" where
  "clksel_con i = CRU_BASE + 0x100 + 4 * of_nat i"

definition clock_setup_vop :: "device \<Rightarrow> (int \<Rightarrow> u8) \<Rightarrow> history \<Rightarrow> outcome option" where
  "clock_setup_vop dev stack t =
     (let t = rk_clr_set_bits (clksel_con 48) 4 0 0 t;
          t = rk_clr_set_bits (clksel_con 48) 7 6 1 t in
      go_on (clock_set_pll dev stack (CRU_BASE + 0xc0) 0x14 0x2c3 6 1 t) (\<lambda>t.
        let t = rk_clr_set_bits (clksel_con 50) 15 0 0 t in
        do { t \<leftarrow> debug_reg dev RK_UART2 stack ''VOP1 Clock status: '' (clksel_con 48) t; Some (Inr t) }))"

definition setup_cru :: "history \<Rightarrow> history" where
  "setup_cru t = grf_gpio_iomux_set 10 5 4 0 t"

definition sdmmc_setup_clock :: "history \<Rightarrow> history" where
  "sdmmc_setup_clock t =
     (let t = write32 (clksel_con 13) 0x9f008300 t;
          t = write32 (clksel_con 16) 0x77f051f t
      in write32 (CRU_BASE + 0x580) 0x60004 t)"

definition rk3399_cpu_clock_start :: "device \<Rightarrow> (int \<Rightarrow> u8) \<Rightarrow> history \<Rightarrow> outcome option" where
  "rk3399_cpu_clock_start dev stack t =
     go_on (clock_set_pll dev stack CRU_BASE 1 50 2 1 t) (\<lambda>t.
       let t = write32 (clksel_con 0) 0x1fdf0100 t;
           t = write32 (clksel_con 1) 0x1f1f0501 t in
       go_on (clock_set_pll dev stack (CRU_BASE + 0x20) 1 50 2 1 t) (\<lambda>t.
         let t = write32 (clksel_con 2) 0x1fdf0140 t;
             t = write32 (clksel_con 3) 0x1f1f0501 t in
         go_on (clock_set_pll dev stack (CRU_BASE + 0x80) 2 99 2 1 t) (\<lambda>t.
           go_on (clock_set_pll dev stack (CRU_BASE + 0x60) 1 64 2 2 t) (\<lambda>t.
             let t = write32 (clksel_con 14) 0x739f3083 t;
                 t = write32 (clksel_con 23) 0x739f1085 t
             in Some (Inr (write32 (clksel_con 25) 0x79f0085 t))))))"

text \<open>The clock of the DRAM (pinebook-ddr.c).\<close>

definition dram_set_clock :: "device \<Rightarrow> (int \<Rightarrow> u8) \<Rightarrow> int \<Rightarrow> history \<Rightarrow> outcome option" where
  "dram_set_clock dev stack hz t =
     (if hz = 400000000 then clock_set_pll dev stack (CRU_BASE + 0x40) 1 50 3 1 t
      else if hz = 800000000 then clock_set_pll dev stack (CRU_BASE + 0x40) 1 100 3 1 t
      else do { t \<leftarrow> puts dev RK_UART2 (chars ''Unsupported dram freq'') t; Some (Inr t) })"

subsection \<open>Scan-out (vop.c)\<close>

abbreviation (input) STANDBY_MODE :: u32 where "STANDBY_MODE \<equiv> push_bit 22 1"
abbreviation (input) OUT_MIPI :: u32 where "OUT_MIPI \<equiv> push_bit 15 1"
abbreviation (input) OUT_EDP :: u32 where "OUT_EDP \<equiv> push_bit 14 1"
abbreviation (input) OUT_HDMI :: u32 where "OUT_HDMI \<equiv> push_bit 13 1"
abbreviation (input) OUT_RGB :: u32 where "OUT_RGB \<equiv> push_bit 12 1"

text \<open>The result of \<open>rk3399_init_vop\<close> is 0 whenever it returns.\<close>

definition rk3399_init_vop :: "device \<Rightarrow> (int \<Rightarrow> u8) \<Rightarrow> addr \<Rightarrow> u32 \<Rightarrow> history \<Rightarrow> outcome option" where
  "rk3399_init_vop dev stack vop fb_addr t =
     go_on (clock_setup_vop dev stack t) (\<lambda>t.
       let t = rmw32 dev (vop + 8) (\<lambda>v. v AND NOT STANDBY_MODE) t;
           t = rmw32 dev (vop + 8) (\<lambda>v. v AND NOT (OUT_MIPI OR OUT_HDMI OR OUT_RGB)) t;
           t = rmw32 dev (vop + 8) (\<lambda>v. v OR OUT_EDP) t;
           t = reg_writes vop
             [(0x10, 0), (0x188, 0x85e0020), (0x18c, 0xae082e), (0x190, 0x44c0006), (0x194, 0x110449),
              (0x170, 0xae082e), (0x174, 0x110449), (0, 1),
              (0x48, push_bit 16 (1080 - 1) OR (1920 - 1)), (0x50, 0x1100ae),
              (0x4c, push_bit 16 (1080 - 1) OR (1920 - 1)), (0x38, 0), (0x3c, 1920)] t;
           t = rmw32 dev (vop + 0x30) (\<lambda>v. (v AND NOT 0xef) OR 1 OR push_bit 1 0 OR push_bit 5 4) t
       in Some (Inr (reg_writes vop [(0x40, fb_addr), (0, 1)] t)))"

subsection \<open>Security and reset (soc.c)\<close>

text \<open>Each write of the secure timer's set-up follows a barrier.\<close>

definition rk_setup_stimer :: "history \<Rightarrow> history" where
  "rk_setup_stimer = fold (\<lambda>(a, v) t. write32 a v (Barrier # t))
     [(0xff8680a0, 0xffffffff), (0xff8680a4, 0xffffffff), (0xff8680b0, 0), (0xff8680b4, 0), (0xff8680bc, 1)]"

definition sgrf_init :: "device \<Rightarrow> history \<Rightarrow> history option" where
  "sgrf_init dev t = do {
     t \<leftarrow> puts dev RK_UART2 (chars ''Setting up regs in secure GRF'') t;
     Some (reg_writes 0
       [(0xff33c240, 0x30000), (0xff33c244, 0xffff0100), (0xff33e014, 0xffffffff), (0xff33e018, 0xffffffff),
        (0xff33e01c, 0xffffffff), (0xff33e3c0, 0xffff0000), (0xff33e3c4, 0xffff0000), (0xff33e3c8, 0xffff0000),
        (0xff33e3cc, 0xffff0000), (0xff33e3d0, 0xffff2000), (0xff330000, 0xfff0000), (0xff330020, 0xfff0000),
        (0xff330040, 0x2000000)] t)
   }"

definition soft_reset_setup :: "device \<Rightarrow> history \<Rightarrow> history" where
  "soft_reset_setup dev t = rmw32 dev 0xff760510 (\<lambda>v. v AND 0xffffffe3) (write32 0xff750124 0x400000 t)"

definition setup_m0 :: "device \<Rightarrow> history \<Rightarrow> history option" where
  "setup_m0 dev t = do {
     t \<leftarrow> puts dev RK_UART2 (chars ''Setting up Cortex-M0'') t;
     let t = reg_writes 0 [(0xff33c100, 0x800000), (0xff33e018, 0x10000000), (0xff750080, 0x9f008000), (0xff750108, 0x200000)] t;
     Some (rmw32 dev 0xff750130 (\<lambda>v. v OR 2) t)
   }"

text \<open>\<open>mpidr\<close> and \<open>current_el\<close> are what the processor's registers hold; the result is 0.\<close>

definition sys_soc_setup :: "device \<Rightarrow> (int \<Rightarrow> u8) \<Rightarrow> u64 \<Rightarrow> u32 \<Rightarrow> history \<Rightarrow> history option" where
  "sys_soc_setup dev stack mpidr current_el t = do {
     t \<leftarrow> sgrf_init dev t;
     t \<leftarrow> setup_m0 dev (soft_reset_setup dev t);
     t \<leftarrow> debug dev RK_UART2 stack (chars ''CPU ID: '') (mpidr AND 0xff) (rk_setup_stimer t);
     let el = drop_bit 2 current_el AND 3;
     debug dev RK_UART2 stack (chars ''We are in EL'') (ucast el) t
   }"

subsection \<open>Platform code (io.c)\<close>

definition plat_setup_mmu :: "addr \<Rightarrow> mem \<Rightarrow> history \<Rightarrow> mem \<times> history" where
  "plat_setup_mmu buffer m t =
     (let buffer = align_to_4kb buffer; tcr = 0x3520; mair = 0xeeff440400;
          m = ttbl_block_1gb m buffer 0x00000000 4;
          m = ttbl_block_1gb m (buffer + 8) 0x40000000 4;
          m = ttbl_block_1gb m (buffer + 16) 0x80000000 4;
          m = ttbl_block_1gb m (buffer + 24) 0xc0000000 0
      in (m, EnableMMU # SetupTT tcr mair buffer # t))"

definition plat_get_mem_map :: "addr \<Rightarrow> addr \<Rightarrow> mem \<Rightarrow> mem" where
  "plat_get_mem_map end_of_image buffer m =
     (let m = store_le 4 m buffer 4;
          m = put_item buffer 0 2 0 end_of_image m;
          m = put_item buffer 1 16 end_of_image 0x10000000 m;
          m = put_item buffer 2 1 0x10000000 (0xc0000000 - 0x10000) m
      in put_item buffer 3 8 0xc0000000 0x100000000 m)"

definition plat_get_uart_base :: addr where
  "plat_get_uart_base = RK_UART2"

definition plat_get_framebuffer :: addr where
  "plat_get_framebuffer = 0xf7800000"

definition enable_uart :: "history \<Rightarrow> history" where
  "enable_uart t =
     (let t = grf_gpio_iomux_set 10 9 8 1 t;
          t = grf_gpio_iomux_set 10 7 6 1 t
      in rk_clr_set_bits (GRF_BASE + 0xe21c) 11 10 2 t)"

definition plat_reset :: "device \<Rightarrow> history \<Rightarrow> history" where
  "plat_reset dev t = gpio_set_pin dev 1 6 1 (gpio_set_dir dev 1 6 1 t)"

definition plat_shutdown :: "device \<Rightarrow> history \<Rightarrow> history" where
  "plat_shutdown dev t = plat_reset dev t"

subsection \<open>The page table\<close>

lemma rk3399_tables:
  "fst (plat_setup_mmu buffer m t) = giga_tables 4 (\<lambda>k. if k = 3 then 0 else 4) (align_to_4kb buffer) m"
proof -
  have u: "[0..<4] = [0, 1, 2, 3 :: nat]" by (simp add: upt_rec)
  show ?thesis unfolding plat_setup_mmu_def giga_tables_def Let_def u by simp
qed

lemma rk3399_identity_map:
  assumes "va < 0x100000000"
  shows "translate (fst (plat_setup_mmu buffer m t)) (align_to_4kb buffer) va = Some (va, if 0xc0000000 \<le> va then 0 else 4)"
proof -
  have va: "unat va < 4 * 1073741824" using assms by (simp add: word_less_nat_alt)
  have "unat va div 1073741824 = 3 \<longleftrightarrow> 3221225472 \<le> unat va"
    using less_eq_div_iff_mult_less_eq [of 1073741824 3 "unat va"] less_eq_div_iff_mult_less_eq [of 1073741824 4 "unat va"] va
    by auto
  then have "(if unat va div 1073741824 = 3 then 0 else 4 :: u64) = (if 0xc0000000 \<le> va then 0 else 4)"
    unfolding word_le_nat_alt by simp
  then show ?thesis
    unfolding rk3399_tables using giga_tables_translate [of 4 va "\<lambda>k. if k = 3 then 0 else 4"] va by simp
qed

subsection \<open>A routine settles: it goes on, or it aborts\<close>

definition settled :: "history \<Rightarrow> outcome option \<Rightarrow> (history \<Rightarrow> bool) \<Rightarrow> bool" where
  "settled t r Q \<longleftrightarrow> (\<exists>new. r = Some (Inl (new @ t))) \<or> (\<exists>new. r = Some (Inr (new @ t)) \<and> Q new)"

definition settles :: "(history \<Rightarrow> outcome option) \<Rightarrow> (history \<Rightarrow> bool) \<Rightarrow> bool" where
  "settles f Q \<longleftrightarrow> (\<forall>t. settled t (f t) Q)"

lemma settled_Inl: "settled t (Some (Inl (new @ t))) Q"
  by (simp add: settled_def)

lemma settled_Inr: "Q new \<Longrightarrow> settled t (Some (Inr (new @ t))) Q"
  by (auto simp: settled_def)

lemma settled_longer: "settled (xs @ t) r (\<lambda>new. Q (new @ xs)) \<Longrightarrow> settled t r Q"
  unfolding settled_def by (metis append_assoc)

lemma settled_mono: "settled t r P \<Longrightarrow> (\<And>new. P new \<Longrightarrow> Q new) \<Longrightarrow> settled t r Q"
  unfolding settled_def by blast

lemma settledE:
  assumes "settled t r Q"
  obtains new where "r = Some (Inl (new @ t))" | new where "r = Some (Inr (new @ t))" "Q new"
  using assms unfolding settled_def by blast

definition only_reads :: "history \<Rightarrow> bool" where
  "only_reads new \<longleftrightarrow> (\<forall>e \<in> set new. \<exists>a v. e = Read32 a v)"

lemma only_reads_append [simp]: "only_reads (xs @ ys) \<longleftrightarrow> only_reads xs \<and> only_reads ys"
  by (auto simp: only_reads_def)

lemma only_reads_Cons [simp]: "only_reads (e # xs) \<longleftrightarrow> (\<exists>a v. e = Read32 a v) \<and> only_reads xs"
  by (auto simp: only_reads_def)

lemma only_reads_Nil [simp]: "only_reads []"
  by (simp add: only_reads_def)

lemma after_reads_only: "\<exists>new. after_reads dev a n t = new @ t \<and> only_reads new"
proof (induction n arbitrary: t)
  case (Suc n)
  from Suc [of "Read32 a (dev_rd dev t a) # t"] show ?case
    by (force simp: read32_def intro: exI [of _ "_ @ [_]"])
qed simp

text \<open>The timer counts: whatever it showed before, at some time it shows a smaller value or one
  that is further on by more than the delay.\<close>

definition timer0_runs :: "device \<Rightarrow> bool" where
  "timer0_runs dev \<longleftrightarrow> (\<forall>t earlier. \<exists>n. let now = dev_rd dev (after_reads dev (TIMER0_START + 8) n t) (TIMER0_START + 8) in
     now < earlier \<or> now - earlier > 24)"

lemma timer0_usleep_waits:
  assumes "\<And>t earlier. \<exists>n. let now = dev_rd dev (after_reads dev (TIMER0_START + 8) n t) (TIMER0_START + 8) in
     now < earlier \<or> now - earlier > word_of_int (ticks * 24)"
  shows "proceeds (timer0_usleep dev ticks) only_reads"
  unfolding proceeds_def
proof
  fix t
  let ?a = "TIMER0_START + 8" and ?earlier = "dev_rd dev t (TIMER0_START + 8)"
  let ?s = "Read32 (TIMER0_START + 8) ?earlier # t" and ?ready = "\<lambda>now. now < ?earlier \<or> now - ?earlier > word_of_int (ticks * 24)"
  obtain n where "?ready (dev_rd dev (after_reads dev ?a n ?s) ?a)"
    using assms unfolding Let_def by blast
  from poll_until_returns [where ready = ?ready, OF this] obtain v s' where p: "poll_until dev ?a ?ready ?s = Some (v, s')"
    by blast
  from poll_until_Some [OF p] obtain k where s': "s' = Read32 ?a v # after_reads dev ?a k ?s" by blast
  from after_reads_only [of dev ?a k ?s] obtain new where "after_reads dev ?a k ?s = new @ ?s" "only_reads new" by blast
  with s' p show "\<exists>new. timer0_usleep dev ticks t = Some (new @ t) \<and> only_reads new"
    by (intro exI [of _ "Read32 ?a v # new @ [Read32 ?a ?earlier]"])
      (simp add: timer0_usleep_def timer0_get_val_def read32_def)
qed

lemma timer0_usleep_one: "timer0_runs dev \<Longrightarrow> proceeds (timer0_usleep dev 1) only_reads"
  by (rule timer0_usleep_waits) (simp add: timer0_runs_def)

lemma settled_abort:
  assumes "uart_ready dev RK_UART2" and "proceeds f P"
  shows "settled t (f t \<bind> abort dev) Q"
proof -
  obtain new where f: "f t = Some (new @ t)" using assms(2) unfolding proceeds_def by blast
  obtain new' where "puts dev RK_UART2 (chars ''abort() called'') (new @ t) = Some (new' @ new @ t)"
    using proceeds_puts [OF assms(1)] unfolding proceeds_def by blast
  then have "f t \<bind> abort dev = Some (Inl ((Wfi # new' @ new) @ t))" by (simp add: f abort_def)
  then show ?thesis by (simp only: settled_Inl)
qed

lemma settled_go_on:
  assumes "settled t r P" and "\<And>new. P new \<Longrightarrow> settled (new @ t) (g (new @ t)) (\<lambda>new'. Q (new' @ new))"
  shows "settled t (go_on r g) Q"
  using assms(1)
proof (rule settledE)
  fix new assume "r = Some (Inl (new @ t))"
  then show ?thesis by (simp add: go_on_def settled_Inl)
next
  fix new assume "r = Some (Inr (new @ t))" and "P new"
  then show ?thesis using settled_longer [OF assms(2)] by (simp add: go_on_def)
qed

abbreviation (input) saw_lock :: "addr \<Rightarrow> history \<Rightarrow> bool" where
  "saw_lock cons \<equiv> saw (cons + 8) (\<lambda>v. v AND push_bit 31 1 \<noteq> 0)"

lemma settled_pll_lock_wait:
  assumes "timer0_runs dev" and "uart_ready dev RK_UART2"
  shows "settled t (pll_lock_wait dev stack cons waits t) (\<lambda>new. only_reads new \<and> saw_lock cons new)"
proof (induction "1001 - waits" arbitrary: waits t rule: less_induct)
  case less
  let ?v = "dev_rd dev t (cons + 8)"
  let ?t = "Read32 (cons + 8) ?v # t"
  obtain us where us: "timer0_usleep dev 1 ?t = Some (us @ ?t)" "only_reads us"
    using timer0_usleep_one [OF assms(1)] unfolding proceeds_def by blast
  note step = pll_lock_wait.simps [of dev stack cons waits t]
  consider (locked) "?v AND push_bit 31 1 \<noteq> 0" | (late) "?v AND push_bit 31 1 = 0" "waits + 1 > 1000"
    | (again) "?v AND push_bit 31 1 = 0" "waits + 1 \<le> 1000" by force
  then show ?case
  proof cases
    case locked
    then have eq: "pll_lock_wait dev stack cons waits t = Some (Inr ([Read32 (cons + 8) ?v] @ t))"
      by (simp add: step read32_def)
    show ?thesis unfolding eq by (rule settled_Inr) (use locked in simp)
  next
    case late
    let ?r = "debug_reg dev RK_UART2 stack ''Waited too long: '' (cons + 8) (us @ ?t) \<bind> abort dev"
    have eq: "pll_lock_wait dev stack cons waits t = ?r" using late us by (simp add: step read32_def)
    have "settled ((us @ [Read32 (cons + 8) ?v]) @ t) ?r Q" for Q
      using settled_abort [OF assms(2) proceeds_debug_reg [OF assms(2)]] by simp
    then show ?thesis unfolding eq by (rule settled_longer)
  next
    case again
    then have eq: "pll_lock_wait dev stack cons waits t = pll_lock_wait dev stack cons (waits + 1) ((us @ [Read32 (cons + 8) ?v]) @ t)"
      using us by (simp add: step read32_def)
    have "1001 - (waits + 1) < 1001 - waits" using again by simp
    from less [OF this] show ?thesis
      unfolding eq by (rule settled_longer [OF settled_mono]) (use us in auto)
  qed
qed

subsection \<open>A PLL is set\<close>

text \<open>What a write to a field of a write-enable register does, as \<open>rk_clr_set_bits\<close> forms it.\<close>

definition sets_field :: "u32 \<Rightarrow> nat \<Rightarrow> nat \<Rightarrow> u32 \<Rightarrow> bool" where
  "sets_field w from_bit n v \<longleftrightarrow>
     (\<forall>old. hiword_write old w = (old AND NOT (push_bit from_bit (mask n))) OR push_bit from_bit (take_bit n v))"

lemma rk_clr_set_bits_field:
  assumes "start \<le> end_bit" and "end_bit < 16" and "0 \<le> v" and "v < 2 ^ (16 - start)" and n: "n = end_bit - start + 1"
    and x: "x = word_of_int v"
  obtains w where "rk_clr_set_bits d end_bit start v = (\<lambda>t. Write32 d w # t)" and "sets_field w start n x"
proof
  show "rk_clr_set_bits d end_bit start v = (\<lambda>t. Write32 d (push_bit start (word_of_int v) OR
      push_bit (16 + start) (push_bit (end_bit - start + 1) 1 - 1)) # t)"
    by (simp add: fun_eq_iff rk_clr_set_bits_def write32_def)
  show "sets_field (push_bit start (word_of_int v) OR push_bit (16 + start) (push_bit (end_bit - start + 1) 1 - 1))
      start n x"
    unfolding sets_field_def n x using hiword_field [OF assms(1-4)] by blast
qed

lemma small_dividers:
  assumes "refdiv < 64" and "postdiv1 < 8" and "postdiv2 < (8 :: u32)"
  shows "uint (push_bit 12 postdiv2 OR push_bit 8 postdiv1 OR refdiv) < 2 ^ 16"
proof -
  have u: "uint refdiv < 64" "uint postdiv1 < 8" "uint postdiv2 < 8" using assms by (simp_all add: word_less_def)
  have "uint (push_bit 12 postdiv2) = push_bit 12 (uint postdiv2)" "uint (push_bit 8 postdiv1) = push_bit 8 (uint postdiv1)"
    unfolding unsigned_push_bit_eq using u by (simp_all add: push_bit_eq_mult take_bit_int_eq_self)
  then show ?thesis
    unfolding unsigned_or_eq using u by (intro OR_upper) (simp_all add: push_bit_eq_mult or_nonnegative_int_iff)
qed

lemma foutvco_exact:
  assumes "fbdiv < 4096"
  shows "unat (foutvco refdiv fbdiv) = 24000 * unat fbdiv div unat refdiv"
proof -
  have "unat fbdiv < 4096" using assms by (simp add: word_less_nat_alt)
  then have "unat (24000 * fbdiv) = 24000 * unat fbdiv" by (simp add: unat_mult_lem [THEN iffD1])
  then show ?thesis by (simp add: foutvco_def unat_div)
qed

lemma settled_clock_set_pll:
  assumes "timer0_runs dev" and "uart_ready dev RK_UART2"
    and "fbdiv < 4096" and "refdiv < 64" and "postdiv1 < 8" and "postdiv2 < 8"
  defines "dividers \<equiv> push_bit 12 postdiv2 OR push_bit 8 postdiv1 OR refdiv"
  shows "settled t (clock_set_pll dev stack cons refdiv fbdiv postdiv1 postdiv2 t) (\<lambda>new.
    24000 * unat fbdiv div unat refdiv \<le> 3200000 \<and>
    (\<exists>slow integer feedback divide normal waited.
       new = Write32 (cons + 12) normal # waited @ [Write32 (cons + 4) divide, Write32 cons feedback,
         Write32 (cons + 12) integer, Write32 (cons + 12) slow] \<and>
       only_reads waited \<and> saw_lock cons waited \<and>
       sets_field slow 8 2 0 \<and> sets_field integer 3 1 1 \<and> sets_field feedback 0 12 fbdiv \<and>
       sets_field divide 0 15 dividers \<and> sets_field normal 8 2 1))"
proof -
  let ?vco = "foutvco refdiv fbdiv" and ?out = "foutvco refdiv fbdiv div postdiv1 div postdiv2"
  note abort = settled_abort [OF assms(2) proceeds_debug_u32 [OF assms(2)]]
  have fb: "uint fbdiv < 2 ^ 16" using assms(3) by (simp add: word_less_def)
  obtain slow where slow: "rk_clr_set_bits (cons + 12) 9 8 0 = (\<lambda>t. Write32 (cons + 12) slow # t)" "sets_field slow 8 2 0"
    by (rule rk_clr_set_bits_field [of 8 9 0 2 0 "cons + 12"]) simp_all
  obtain integer where integer: "rk_clr_set_bits (cons + 12) 3 3 1 = (\<lambda>t. Write32 (cons + 12) integer # t)" "sets_field integer 3 1 1"
    by (rule rk_clr_set_bits_field [of 3 3 1 1 1 "cons + 12"]) simp_all
  obtain feedback where feedback: "rk_clr_set_bits cons 11 0 (uint fbdiv) = (\<lambda>t. Write32 cons feedback # t)"
    "sets_field feedback 0 12 fbdiv"
    by (rule rk_clr_set_bits_field [of 0 11 "uint fbdiv" 12 fbdiv cons]) (use fb in simp_all)
  obtain divide where divide: "rk_clr_set_bits (cons + 4) 14 0 (uint dividers) = (\<lambda>t. Write32 (cons + 4) divide # t)"
    "sets_field divide 0 15 dividers"
    by (rule rk_clr_set_bits_field [of 0 14 "uint dividers" 15 dividers "cons + 4"])
      (use small_dividers [OF assms(4-6)] in \<open>simp_all add: dividers_def\<close>)
  obtain normal where normal: "rk_clr_set_bits (cons + 12) 9 8 1 = (\<lambda>t. Write32 (cons + 12) normal # t)" "sets_field normal 8 2 1"
    by (rule rk_clr_set_bits_field [of 8 9 1 2 1 "cons + 12"]) simp_all
  let ?before = "[Write32 (cons + 4) divide, Write32 cons feedback, Write32 (cons + 12) integer, Write32 (cons + 12) slow]"
  consider (fast) "?vco > 3200000" | (out) "?out > 3200000" "\<not> ?vco > 3200000" | (fits) "\<not> ?vco > 3200000" "\<not> ?out > 3200000"
    by blast
  then show ?thesis
  proof cases
    case fast
    then show ?thesis using abort by (simp add: clock_set_pll_def)
  next
    case out
    then show ?thesis using abort by (simp add: clock_set_pll_def)
  next
    case fits
    have vco: "24000 * unat fbdiv div unat refdiv \<le> 3200000"
      using fits(1) foutvco_exact [OF assms(3), of refdiv] by (simp add: word_le_nat_alt not_less)
    have eq: "clock_set_pll dev stack cons refdiv fbdiv postdiv1 postdiv2 t =
      go_on (pll_lock_wait dev stack cons 0 (?before @ t)) (\<lambda>t. Some (Inr (Write32 (cons + 12) normal # t)))"
      unfolding clock_set_pll_def Let_def dividers_def [symmetric] slow(1) integer(1) feedback(1) divide(1) normal(1)
      using fits by simp
    show ?thesis
      unfolding eq
    proof (rule settled_longer [where xs = ?before], rule settled_go_on [OF settled_pll_lock_wait [OF assms(1,2)]])
      fix waited assume w: "only_reads waited \<and> saw_lock cons waited"
      have "Write32 (cons + 12) normal # waited @ ?before @ t = [Write32 (cons + 12) normal] @ waited @ ?before @ t" by simp
      then show "settled (waited @ ?before @ t) (Some (Inr (Write32 (cons + 12) normal # waited @ ?before @ t))) (\<lambda>new'.
        24000 * unat fbdiv div unat refdiv \<le> 3200000 \<and>
        (\<exists>slow integer feedback divide normal waiteda.
           (new' @ waited) @ ?before = Write32 (cons + 12) normal # waiteda @ [Write32 (cons + 4) divide, Write32 cons feedback,
             Write32 (cons + 12) integer, Write32 (cons + 12) slow] \<and>
           only_reads waiteda \<and> saw_lock cons waiteda \<and>
           sets_field slow 8 2 0 \<and> sets_field integer 3 1 1 \<and> sets_field feedback 0 12 fbdiv \<and>
           sets_field divide 0 15 dividers \<and> sets_field normal 8 2 1))"
        unfolding settled_def using w vco slow(2) integer(2) feedback(2) divide(2) normal(2)
        by (intro disjI2 exI [of _ "[Write32 (cons + 12) normal]"] conjI) auto
    qed
  qed
qed

text \<open>C25. Setting a PLL of the RK3399 always ends. Either it aborts, or the frequency of the oscillator is in
  range and the writes are, in this order: slow mode, integer mode, the feedback divider, the other
  dividers; then the status register is only read until it shows the lock; then normal mode. Each
  write sets its field to the given value and changes no other bit.\<close>

theorem clock_set_pll_sets:
  assumes "timer0_runs dev" and "uart_ready dev RK_UART2"
    and "fbdiv < 4096" and "refdiv < 64" and "postdiv1 < 8" and "postdiv2 < 8"
  shows "settled t (clock_set_pll dev stack cons refdiv fbdiv postdiv1 postdiv2 t) (\<lambda>new.
    24000 * unat fbdiv div unat refdiv \<le> 3200000 \<and>
    (\<exists>slow integer feedback divide normal waited.
       new = Write32 (cons + 12) normal # waited @ [Write32 (cons + 4) divide, Write32 cons feedback,
         Write32 (cons + 12) integer, Write32 (cons + 12) slow] \<and>
       only_reads waited \<and> saw_lock cons waited \<and>
       sets_field slow 8 2 0 \<and> sets_field integer 3 1 1 \<and> sets_field feedback 0 12 fbdiv \<and>
       sets_field divide 0 15 (push_bit 12 postdiv2 OR push_bit 8 postdiv1 OR refdiv) \<and> sets_field normal 8 2 1))"
  by (rule settled_clock_set_pll [OF assms])

text \<open>Hardware whose registers alternate between all zeros and all ones.\<close>

definition blinking :: device where
  "blinking = \<lparr>dev_rd = (\<lambda>t a. if even (length t) then 0 else 0xffffffff), dev_time = (\<lambda>_. - 1)\<rparr>"

lemma length_after_reads: "length (after_reads dev a n t) = n + length t"
  by (induction n arbitrary: t) (simp_all add: read32_def)

lemma blinking_shows: "\<exists>n. dev_rd blinking (after_reads blinking a n t) a = (if b then 0 else 0xffffffff)"
proof (cases "even (length t) = b")
  case True
  then show ?thesis by (intro exI [of _ 0]) (simp add: blinking_def)
next
  case False
  then show ?thesis by (intro exI [of _ 1]) (auto simp: blinking_def read32_def)
qed

lemma clock_set_pll_sets_witness:
  "\<exists>r. clock_set_pll blinking (\<lambda>_. 0) CRU_BASE 1 50 2 1 [] = Some r \<and> foutvco 1 50 = 1200000"
proof -
  have "timer0_runs blinking"
    unfolding timer0_runs_def Let_def
  proof (intro allI)
    fix t and earlier :: u32
    let ?a = "TIMER0_START + 8"
    show "\<exists>n. dev_rd blinking (after_reads blinking ?a n t) ?a < earlier
      \<or> dev_rd blinking (after_reads blinking ?a n t) ?a - earlier > 24"
    proof (cases "earlier = 0")
      case True
      obtain n where "dev_rd blinking (after_reads blinking ?a n t) ?a = 0xffffffff" using blinking_shows [of ?a t False] by auto
      with True show ?thesis by (intro exI [of _ n]) simp
    next
      case False
      obtain n where "dev_rd blinking (after_reads blinking ?a n t) ?a = 0" using blinking_shows [of ?a t True] by auto
      with False show ?thesis by (intro exI [of _ n]) (simp add: word_gt_0)
    qed
  qed
  moreover have "uart_ready blinking RK_UART2"
    unfolding uart_ready_def
  proof
    fix t
    show "\<exists>n. dev_rd blinking (after_reads blinking (RK_UART2 + 0x14) n t) (RK_UART2 + 0x14) AND 0x20 \<noteq> 0"
      using blinking_shows [of "RK_UART2 + 0x14" t False]
      by (elim exE) (rule exI, erule ssubst, simp)
  qed
  ultimately show ?thesis
    using clock_set_pll_sets [of blinking 50 1 2 1 "[]" "\<lambda>_. 0" CRU_BASE]
    by (auto simp: settled_def foutvco_def)
qed

end
