(* ===== verification/Laptops.thy ===== *)
theory Laptops
  imports Rk3588_Display Rk3399
begin

text \<open>
  The two laptops: the Genbook (src/genbook.c, RK3588) and the Pinebook Pro (src/pinebook.c,
  RK3399). Their entries up to the hand-over, and the calls of the payload that they answer. What
  is on the stack of the entry has its address as an argument: the page table, the page shared
  with the payload and the copy of the device tree. The device tree itself is generated;
  \<open>dtb_data\<close> is where it lies.
\<close>

subsection \<open>Calls from the payload\<close>

abbreviation (input) FU_ERROR :: u64 where "FU_ERROR \<equiv> 0xffffffffffffffff"

text \<open>What differs between the laptops in \<open>plat_process_firmware_call\<close>.\<close>

record laptop =
  vendor :: string
  product_name :: string
  framebuffer :: addr
  write_mem_map :: "addr \<Rightarrow> mem \<Rightarrow> mem"

text \<open>\<open>struct FuScreenList\<close> with one screen; its type keeps what is in memory.\<close>

definition put_screen :: "laptop \<Rightarrow> addr \<Rightarrow> mem \<Rightarrow> mem" where
  "put_screen laptop screens m =
     (let m = store_le 4 m screens 1;
          m = store_le 8 m (screens + 8) (framebuffer laptop);
          m = store_le 4 m (screens + 16) 1920;
          m = store_le 4 m (screens + 20) 1080;
          m = store_le 4 m (screens + 24) (1920 * 4)
      in store_le 4 m (screens + 28) 0)"

definition laptop_call :: "laptop \<Rightarrow> addr \<Rightarrow> addr \<Rightarrow> u64 \<Rightarrow> mem \<Rightarrow> u64 \<times> mem" where
  "laptop_call laptop shared_mem dtb p1 m =
     (let screens = shared_mem; info = shared_mem + 0x40; memmap = shared_mem + 0x80 in
      if p1 = 0xf1000000 then (screens, put_screen laptop screens m)
      else if p1 = 0xf0000004 then (memmap + 8 + 24 * 2, write_mem_map laptop memmap m)
      else if p1 = 0xf0000005 then (memmap, write_mem_map laptop memmap m)
      else if p1 = 0xf0000007 then
        (info, strcpy_lit (strcpy_lit m info (chars (vendor laptop))) (info + 16) (chars (product_name laptop)))
      else if p1 = 0xf0000008 then (dtb, m)
      else (FU_ERROR, m))"

definition genbook :: "addr \<Rightarrow> laptop" where
  "genbook end_of_image = \<lparr>vendor = ''Cool-Pi'', product_name = ''Genbook'',
     framebuffer = Rk3588.plat_get_framebuffer, write_mem_map = Rk3588.plat_get_mem_map end_of_image\<rparr>"

definition pinebook :: "addr \<Rightarrow> laptop" where
  "pinebook end_of_image = \<lparr>vendor = ''PINE64'', product_name = ''Pinebook Pro'',
     framebuffer = Rk3399.plat_get_framebuffer, write_mem_map = Rk3399.plat_get_mem_map end_of_image\<rparr>"

definition genbook_call :: "addr \<Rightarrow> addr \<Rightarrow> addr \<Rightarrow> u64 \<Rightarrow> mem \<Rightarrow> u64 \<times> mem" where
  "genbook_call end_of_image = laptop_call (genbook end_of_image)"

definition pinebook_call :: "addr \<Rightarrow> addr \<Rightarrow> addr \<Rightarrow> u64 \<Rightarrow> mem \<Rightarrow> u64 \<times> mem" where
  "pinebook_call end_of_image = laptop_call (pinebook end_of_image)"

subsection \<open>The entry of the Genbook\<close>

text \<open>\<open>gpio_set_dir(bank, pin, 1); gpio_set_pin(bank, pin, 1);\<close>\<close>

definition switch_on :: "int \<Rightarrow> int \<Rightarrow> history \<Rightarrow> history" where
  "switch_on bank pin t = Rk3588.gpio_set_pin bank pin 1 (Rk3588.gpio_set_dir bank pin 1 t)"

definition genbook_entry :: "device \<Rightarrow> (history \<Rightarrow> history option) \<Rightarrow> (int \<Rightarrow> u8) \<Rightarrow> addr \<Rightarrow> addr \<Rightarrow> addr \<Rightarrow> nat
    \<Rightarrow> mem \<Rightarrow> history \<Rightarrow> (mem \<times> history) option" where
  "genbook_entry dev hdptx stack ttbl_buffer dtb_copy dtb_data dtb_size m t = do {
     let (m, t) = Rk3588.plat_setup_mmu ttbl_buffer m t;
     let t = switch_on 0 RK_PIN_C4 t;
     let t = switch_on 4 RK_PIN_A3 t;
     let t = switch_on 0 RK_PIN_A0 t;
     let t = switch_on 1 RK_PIN_D5 t;
     let t = switch_on 1 RK_PIN_A7 t;
     let t = rk_clr_set_bits (BUS_IOC + 0x90) 7 4 0xb t;
     let t = pwm_setup_continuous dev 6 0x400 0x100 t;
     let t = rk3588_set_pin_func 1 RK_PIN_A3 9 t;
     let t = rk3588_set_pin_func 1 RK_PIN_A2 9 t;
     let t = rk3588_sgrf_init dev t;
     (_, t) \<leftarrow> rk3588_init_power_domains dev stack t;
     t \<leftarrow> rk3588_setup_video_edp1 dev hdptx stack Rk3588.plat_get_framebuffer 1920 1080 t;
     Some (memcpy m dtb_copy dtb_data dtb_size, t)
   }"

subsection \<open>The entry of the Pinebook\<close>

abbreviation (input) PIN_B5 :: int where "PIN_B5 \<equiv> 13"
abbreviation (input) PIN_C2 :: int where "PIN_C2 \<equiv> 18"
abbreviation (input) PIN_C6 :: int where "PIN_C6 \<equiv> 22"
abbreviation (input) PIN_D2 :: int where "PIN_D2 \<equiv> 26"
abbreviation (input) EDP_BASE :: addr where "EDP_BASE \<equiv> 0xff970000"
abbreviation (input) VOP_LIT_BASE :: addr where "VOP_LIT_BASE \<equiv> 0xff8f0000"

definition drive_high :: "device \<Rightarrow> int \<Rightarrow> int \<Rightarrow> history \<Rightarrow> history" where
  "drive_high dev bank pin t = Rk3399.gpio_set_pin dev bank pin 1 (Rk3399.gpio_set_dir dev bank pin 1 t)"

text \<open>The supplies that the entry and both stages before it switch on.\<close>

definition pinebook_power :: "device \<Rightarrow> history \<Rightarrow> history" where
  "pinebook_power dev t =
     (let t = drive_high dev 1 PIN_B5 t;
          t = drive_high dev 4 PIN_D2 t;
          t = drive_high dev 1 PIN_C6 t;
          t = drive_high dev 1 0 t
      in drive_high dev 4 PIN_C2 t)"

text \<open>\<open>ddr_shim\<close> of src/rk3399/pinebook-ddr.c.\<close>

definition pinebook_ddr_shim :: "device \<Rightarrow> history \<Rightarrow> history" where
  "pinebook_ddr_shim dev t = pinebook_power dev t"

definition pinebook_pins :: "device \<Rightarrow> history \<Rightarrow> history" where
  "pinebook_pins dev t =
     (let t = pinebook_power dev t;
          t = drive_high dev 0 1 t;
          t = grf_gpio_iomux_set 9 11 0 0x555 t;
          t = pmugrf_gpio_iomux_set 5 7 6 1 t
      in pmugrf_gpio_iomux_set 5 9 8 1 t)"

text \<open>The display: transmitter, scan-out, transmitter on.\<close>

definition pinebook_display :: "device \<Rightarrow> (int \<Rightarrow> u8) \<Rightarrow> history \<Rightarrow> outcome option" where
  "pinebook_display dev stack t =
     (let t = rk_clr_set_bits (GRF_BASE + 0x6264) 11 11 1 t;
          t = rk_clr_set_bits (GRF_BASE + 0x6250) 5 5 1 t in do {
        (_, t) \<leftarrow> edp_init dev Rk3399.RK_UART2 stack EDP_BASE t;
        go_on (rk3399_init_vop dev stack VOP_LIT_BASE (ucast Rk3399.plat_get_framebuffer) t) (\<lambda>t. do {
          (_, t) \<leftarrow> edp_enable dev Rk3399.RK_UART2 stack EDP_BASE 10 2 t;
          Some (Inr t)
        })
      })"

definition pinebook_entry :: "device \<Rightarrow> (int \<Rightarrow> u8) \<Rightarrow> u64 \<Rightarrow> u32 \<Rightarrow> addr \<Rightarrow> addr \<Rightarrow> addr \<Rightarrow> nat
    \<Rightarrow> mem \<Rightarrow> history \<Rightarrow> (mem \<times> outcome) option" where
  "pinebook_entry dev stack mpidr current_el ttbl_buffer dtb_copy dtb_data dtb_size m t =
     (let t = CntFreq 24000000 # t;
          (m, t) = Rk3399.plat_setup_mmu ttbl_buffer m t;
          t = uart_init dev Rk3399.RK_UART2 1500000 (enable_uart t)
      in do {
        t \<leftarrow> puts dev Rk3399.RK_UART2 (chars ''RK3399 bootloader - Copyright FUTO 2023'') t;
        let t = setup_cru (reset_timer0 (pinebook_pins dev t));
        r \<leftarrow> go_on (rk3399_cpu_clock_start dev stack t) (\<lambda>t. do {
          t \<leftarrow> sys_soc_setup dev stack mpidr current_el t;
          pinebook_display dev stack t
        });
        Some (case r of Inl t \<Rightarrow> (m, Inl t) | Inr t \<Rightarrow> (memcpy m dtb_copy dtb_data dtb_size, Inr t))
      })"

subsection \<open>The answers\<close>

definition map_stores :: "addr \<Rightarrow> (nat \<times> nat \<times> u64) list" where
  "map_stores end_of_image =
     [(88, 8, 0x100000000), (80, 8, 0xc0000000), (96, 4, 8), (64, 8, 0xc0000000 - 0x10000), (56, 8, 0x10000000), (72, 4, 1),
      (40, 8, 0x10000000), (32, 8, end_of_image), (48, 4, 16), (16, 8, end_of_image), (8, 8, 0), (24, 4, 2), (0, 4, 4)]"

definition screen_stores :: "addr \<Rightarrow> (nat \<times> nat \<times> u64) list" where
  "screen_stores fb = [(28, 4, 0), (24, 4, 1920 * 4), (20, 4, 1080), (16, 4, 1920), (8, 8, fb), (0, 4, 1)]"

lemma put_screen_stores: "put_screen laptop a m = stores m a (screen_stores (framebuffer laptop))"
  by (simp add: put_screen_def screen_stores_def)

lemma mem_map_stores:
  "Rk3588.plat_get_mem_map end_of_image a m = stores m a (map_stores end_of_image)"
  "Rk3399.plat_get_mem_map end_of_image a m = stores m a (map_stores end_of_image)"
  by (simp_all add: Rk3588.plat_get_mem_map_def Rk3399.plat_get_mem_map_def put_item_def map_stores_def Let_def add.assoc)

lemma load_map:
  "stored None (map_stores end_of_image) j l = Some v \<Longrightarrow> j + l \<le> 104 \<Longrightarrow>
   load_le l (stores m a (map_stores end_of_image)) (a + of_nat j) = v"
  by (erule load_stores [where N = 104]) (simp_all add: map_stores_def)

lemma load_screen:
  "stored None (screen_stores fb) j l = Some v \<Longrightarrow> j + l \<le> 32 \<Longrightarrow>
   load_le l (stores m a (screen_stores fb)) (a + of_nat j) = v"
  by (erule load_stores [where N = 32]) (simp_all add: screen_stores_def)

text \<open>Fields at constant offsets.\<close>

lemma load_screen_numeral:
  assumes "stored None (screen_stores fb) (numeral j) l = Some v" and "numeral j + l \<le> 32"
  shows "load_le l (stores m a (screen_stores fb)) (a + numeral j) = v"
  using load_screen [OF assms] by simp

lemma screen_contents:
  "load_le 4 (stores m a (screen_stores fb)) a = 1"
  "load_le 8 (stores m a (screen_stores fb)) (a + 8) = fb"
  "map (\<lambda>k. load_le 4 (stores m a (screen_stores fb)) (a + k)) [16, 20, 24, 28] = [1920, 1080, 7680, 0]"
proof -
  have "load_le 4 (stores m a (screen_stores fb)) (a + of_nat 0) = 1"
    by (rule load_screen; simp add: screen_stores_def take_bit_word_eq_self)
  then show "load_le 4 (stores m a (screen_stores fb)) a = 1" by simp
  show "load_le 8 (stores m a (screen_stores fb)) (a + 8) = fb"
    by (rule load_screen_numeral; simp add: screen_stores_def take_bit_word_eq_self)
  show "map (\<lambda>k. load_le 4 (stores m a (screen_stores fb)) (a + k)) [16, 20, 24, 28] = [1920, 1080, 7680, 0]"
    unfolding list.map list.inject
    by (intro conjI refl; rule load_screen_numeral; simp add: screen_stores_def take_bit_word_eq_self)
qed

definition read_item :: "mem \<Rightarrow> addr \<Rightarrow> u64 \<times> u64 \<times> u64" where
  "read_item m a = (load_le 8 m a, load_le 8 m (a + 8), load_le 4 m (a + 16))"

lemma map_item_read:
  assumes "stored None (map_stores end_of_image) (numeral j) 8 = Some start"
    "stored None (map_stores end_of_image) (numeral j + 8) 8 = Some fin"
    "stored None (map_stores end_of_image) (numeral j + 16) 4 = Some flags" "numeral j + 24 \<le> (104 :: nat)"
  shows "read_item (stores m a (map_stores end_of_image)) (a + numeral j) = (start, fin, flags)"
proof -
  have le: "numeral j + 8 \<le> (104 :: nat)" "numeral j + 8 + 8 \<le> (104 :: nat)" "numeral j + 16 + 4 \<le> (104 :: nat)"
    using assms(4) by linarith+
  have at: "a + numeral j + 8 = a + of_nat (numeral j + 8)" "a + numeral j + 16 = a + of_nat (numeral j + 16)"
    "a + numeral j = a + of_nat (numeral j)" by simp_all
  show ?thesis
    unfolding read_item_def at(1,2) unfolding at(3)
    using load_map [OF assms(1) le(1), of m a] load_map [OF assms(2) le(2), of m a] load_map [OF assms(3) le(3), of m a]
    by (simp only:)
qed

lemma map_contents:
  "load_le 4 (stores m a (map_stores end_of_image)) a = 4"
  "read_item (stores m a (map_stores end_of_image)) (a + 8) = (0, end_of_image, 2)"
  "read_item (stores m a (map_stores end_of_image)) (a + 32) = (end_of_image, 0x10000000, 16)"
  "read_item (stores m a (map_stores end_of_image)) (a + 56) = (0x10000000, 0xbfff0000, 1)"
  "read_item (stores m a (map_stores end_of_image)) (a + 80) = (0xc0000000, 0x100000000, 8)"
proof -
  have "load_le 4 (stores m a (map_stores end_of_image)) (a + of_nat 0) = 4"
    by (rule load_map; simp add: map_stores_def take_bit_word_eq_self)
  then show "load_le 4 (stores m a (map_stores end_of_image)) a = 4" by simp
qed (rule map_item_read; simp add: map_stores_def take_bit_word_eq_self)+

lemma info_contents:
  assumes "length v < 16" "length p < 16" "list_all (\<lambda>c. c \<noteq> 0) v" "list_all (\<lambda>c. c \<noteq> 0) p"
  shows "c_string (strcpy_lit (strcpy_lit m a v) (a + 16) p) a = v"
    and "c_string (strcpy_lit (strcpy_lit m a v) (a + 16) p) (a + 16) = p"
    and "only_changes [(a, 32)] m (strcpy_lit (strcpy_lit m a v) (a + 16) p)"
proof -
  have far: "\<not> in_range_of (a + 16) (length p + 1) (a + of_nat i)" if "i \<le> length v" for i
  proof
    assume *: "in_range_of (a + 16) (length p + 1) (a + of_nat i)"
    define y where "y = a + of_nat i - (a + 16)"
    have "y + of_nat 16 = of_nat i" by (simp add: y_def)
    moreover have "unat (y + of_nat 16) = unat y + 16"
      by (rule unat_add_nat) (use * assms(2) in \<open>simp add: in_range_of_def y_def\<close>)
    ultimately have "unat (of_nat i :: u64) = unat y + 16" by simp
    then show False using that assms(1) by (simp add: unat_of_nat_u64)
  qed
  show "c_string (strcpy_lit (strcpy_lit m a v) (a + 16) p) a = v"
  proof (rule c_string_eqI)
    fix i assume i: "i \<le> length v"
    then show "strcpy_lit (strcpy_lit m a v) (a + 16) p (a + of_nat i) = (v @ [0]) ! i"
      using assms far [OF i] by (simp add: strcpy_lit_outside strcpy_lit_at del: of_nat_Suc)
  qed (use assms in simp_all)
  show "c_string (strcpy_lit (strcpy_lit m a v) (a + 16) p) (a + 16) = p"
    by (rule c_string_eqI) (use assms in \<open>simp_all add: strcpy_lit_at\<close>)
  show "only_changes [(a, 32)] m (strcpy_lit (strcpy_lit m a v) (a + 16) p)"
    using only_changes_part [of 16 "p @ [0]" 32 a] only_changes_write [of "v @ [0]" 32 a m] assms
    by (auto simp: strcpy_lit_write intro: only_changes_same)
qed

text \<open>C26. Both laptops answer the calls of the payload as the interface promises, whatever was in the shared
  memory: the list has one screen of 1920 by 1080 pixels at the framebuffer, the free chunk is
  0x10000000 to 0xbfff0000, the map has four items that cover the 4 GiB without a gap up to the
  stack, vendor and product are the strings of the laptop, the device tree is the copy. Each call
  writes only its own structure, in the first 232 bytes of the shared memory; unknown calls write
  nothing and are errors.\<close>

theorem laptop_calls_answer:
  assumes "laptop = genbook end_of_image \<and> call = genbook_call end_of_image
    \<or> laptop = pinebook end_of_image \<and> call = pinebook_call end_of_image"
  shows "case call shared_mem dtb p1 m of (r, m') \<Rightarrow>
    if p1 = 0xf1000000 then
      r = shared_mem \<and> only_changes [(shared_mem, 32)] m m' \<and> load_le 4 m' r = 1 \<and> load_le 8 m' (r + 8) = framebuffer laptop \<and>
      map (\<lambda>k. load_le 4 m' (r + k)) [16, 20, 24, 28] = [1920, 1080, 7680, 0]
    else if p1 = 0xf0000004 then
      only_changes [(shared_mem + 0x80, 104)] m m' \<and> read_item m' r = (0x10000000, 0xbfff0000, 1)
    else if p1 = 0xf0000005 then
      r = shared_mem + 0x80 \<and> only_changes [(r, 104)] m m' \<and> load_le 4 m' r = 4 \<and>
      map (\<lambda>i. read_item m' (r + i)) [8, 32, 56, 80] = [(0, end_of_image, 2), (end_of_image, 0x10000000, 16),
        (0x10000000, 0xbfff0000, 1), (0xc0000000, 0x100000000, 8)]
    else if p1 = 0xf0000007 then
      r = shared_mem + 0x40 \<and> only_changes [(r, 32)] m m' \<and>
      c_string m' r = chars (vendor laptop) \<and> c_string m' (r + 16) = chars (product_name laptop)
    else m' = m \<and> r = (if p1 = 0xf0000008 then dtb else FU_ERROR)"
proof -
  let ?s = "stores m (shared_mem + 0x80) (map_stores end_of_image)"
  have memmap: "write_mem_map laptop a m = stores m a (map_stores end_of_image)" for a
    using assms by (auto simp: genbook_def pinebook_def mem_map_stores)
  have changes: "only_changes [(a, 104)] m (stores m a (map_stores end_of_image))"
    "only_changes [(a, 32)] m (stores m a (screen_stores fb))" for a fb
    by (rule only_changes_stores; simp add: map_stores_def screen_stores_def)+
  have strings: "length (chars (vendor laptop)) < 16" "length (chars (product_name laptop)) < 16"
    "list_all (\<lambda>c. c \<noteq> 0) (chars (vendor laptop))" "list_all (\<lambda>c. c \<noteq> 0) (chars (product_name laptop))"
    using assms by (auto simp: genbook_def pinebook_def)
  have chunk: "read_item ?s (shared_mem + 0x80 + 8 + 24 * 2) = (0x10000000, 0xbfff0000, 1)"
    using map_contents(4) [of m "shared_mem + 0x80" end_of_image] by (simp add: add.assoc)
  note info = info_contents [OF strings, where m = m and a = "shared_mem + 0x40"]
  have call: "call = laptop_call laptop" using assms by (auto simp: genbook_call_def pinebook_call_def)
  show ?thesis
    unfolding call laptop_call_def Let_def memmap put_screen_stores
    using changes [of shared_mem] changes(1) [of "shared_mem + 0x80"] screen_contents [of m shared_mem "framebuffer laptop"]
      map_contents [of m "shared_mem + 0x80" end_of_image] chunk info
    by simp
qed

lemma laptop_calls_answer_witness:
  "case genbook_call 0x90000 0x3000 0x5000 0xf0000007 (\<lambda>_. 0xff) of (r, m') \<Rightarrow>
     r = 0x3040 \<and> c_string m' 0x3050 = chars ''Genbook'' \<and> only_changes [(0x3040, 32)] (\<lambda>_. 0xff) m'"
  using laptop_calls_answer [where laptop = "genbook 0x90000" and call = "genbook_call 0x90000" and end_of_image = "0x90000" and shared_mem = "0x3000"
      and dtb = "0x5000" and ?p1.0 = "0xf0000007" and m = "\<lambda>_. 0xff"]
  by (auto simp: genbook_def split: prod.splits)

subsection \<open>The entries reach the payload\<close>

lemma grows_switch_on [grows_intros]: "grows t s \<Longrightarrow> grows t (switch_on bank pin s)"
  by (simp add: switch_on_def Rk3588.gpio_set_pin_def Rk3588.gpio_set_dir_def Let_def split_def) (intro grows_intros)

lemma grows_pwm [grows_intros]: "grows t s \<Longrightarrow> grows t (pwm_setup_continuous dev i period duty s)"
  by (simp add: pwm_setup_continuous_def pwm_stop_def read32_def Let_def) (intro grows_intros)

lemma grows_pin_func [grows_intros]: "grows t s \<Longrightarrow> grows t (rk3588_set_pin_func bank pin func s)"
  unfolding rk3588_set_pin_func_def Let_def by (intro grows_intros)

lemma grows_fold_rmw [grows_intros]: "grows t s \<Longrightarrow> grows t (fold (\<lambda>a. rmw32 dev a f) as s)"
  by (rule grows_extends [OF extends_fold]) (simp add: extends_iff, intro allI grows_intros)

lemma grows_sgrf [grows_intros]: "grows t s \<Longrightarrow> grows t (rk3588_sgrf_init dev s)"
proof -
  have f: "grows t s \<Longrightarrow> grows t (fold (\<lambda>i t. if i = 4 \<or> i = 5 \<or> i = 24 \<or> i = 25 then t
    else write32 (0xfd586240 + 4 * of_nat i) 0xffff0000 t) is s)" for t s and "is" :: "nat list"
    by (rule grows_extends [OF extends_fold]) (simp only: extends_iff, intro allI grows_intros)
  assume "grows t s"
  then show ?thesis
    unfolding rk3588_sgrf_init_def unknown_setup_def Let_def by (intro grows_intros f)
qed

lemma genbook_boots:
  assumes "timer_runs dev" and "uart_ready dev Rk3588.RK_UART2" and "proceeds hdptx (\<lambda>_. True)"
  shows "\<exists>new. genbook_entry dev hdptx stack ttbl_buffer dtb_copy dtb_data dtb_size m t =
    Some (memcpy (fst (Rk3588.plat_setup_mmu ttbl_buffer m t)) dtb_copy dtb_data dtb_size, new @ t)"
proof -
  obtain es m' where mmu: "\<And>t. Rk3588.plat_setup_mmu ttbl_buffer m t = (m', es @ t)"
    by (rule that [of "fst (Rk3588.plat_setup_mmu ttbl_buffer m [])" "snd (Rk3588.plat_setup_mmu ttbl_buffer m [])"])
      (simp add: Rk3588.plat_setup_mmu_def Let_def)
  let ?pre = "\<lambda>t. rk3588_sgrf_init dev (rk3588_set_pin_func 1 RK_PIN_A2 9 (rk3588_set_pin_func 1 RK_PIN_A3 9
    (pwm_setup_continuous dev 6 0x400 0x100 (rk_clr_set_bits (BUS_IOC + 0x90) 7 4 0xb (switch_on 1 RK_PIN_A7
    (switch_on 1 RK_PIN_D5 (switch_on 0 RK_PIN_A0 (switch_on 4 RK_PIN_A3 (switch_on 0 RK_PIN_C4 t)))))))))"
  have power: "runs (\<lambda>t. rk3588_init_power_domains dev stack (?pre t)) (\<lambda>_ _. True)"
    by (rule runs_pre_same [OF runs_mono [OF runs_init_power_domains [OF assms(1,2)]]], simp, intro grows_intros, simp)
  have "proceeds (\<lambda>t. rk3588_init_power_domains dev stack (?pre t) \<bind> (\<lambda>(_, t).
      rk3588_setup_video_edp1 dev hdptx stack Rk3588.plat_get_framebuffer 1920 1080 t)) (\<lambda>_. True)"
    by (rule proceeds_after [OF power]) (rule proceeds_setup_video_edp1 [OF assms])
  then obtain new where "rk3588_init_power_domains dev stack (?pre (es @ t)) \<bind> (\<lambda>(_, t).
      rk3588_setup_video_edp1 dev hdptx stack Rk3588.plat_get_framebuffer 1920 1080 t) = Some (new @ es @ t)"
    unfolding proceeds_def by blast
  then show ?thesis
    by (auto simp: genbook_entry_def mmu Let_def split: bind_splits)
qed

text \<open>The same with routines that may abort.\<close>

lemma settles_pre:
  assumes "settles f Q" and "\<And>t. grows t (h t)"
  shows "settles (\<lambda>t. f (h t)) (\<lambda>_. True)"
  unfolding settles_def
proof
  fix t
  obtain new where "h t = new @ t" using assms(2) unfolding grows_def by blast
  moreover have "settled (new @ t) (f (new @ t)) (\<lambda>_. True)"
    using assms(1) unfolding settles_def by (blast intro: settled_mono)
  ultimately show "settled t (f (h t)) (\<lambda>_. True)" using settled_longer [of new t _ "\<lambda>_. True"] by simp
qed

lemma settles_go_on: "settles f P \<Longrightarrow> settles g (\<lambda>_. True) \<Longrightarrow> settles (\<lambda>t. go_on (f t) g) (\<lambda>_. True)"
  unfolding settles_def by (blast intro: settled_go_on)

lemma settles_proceeds:
  assumes "proceeds f P" and "settles g (\<lambda>_. True)"
  shows "settles (\<lambda>t. f t \<bind> g) (\<lambda>_. True)"
  unfolding settles_def
proof
  fix t
  from assms(1) obtain new where "f t = Some (new @ t)" unfolding proceeds_def by blast
  with assms(2) settled_longer [of new t _ "\<lambda>_. True"] show "settled t (f t \<bind> g) (\<lambda>_. True)"
    unfolding settles_def by simp
qed

lemma settles_runs:
  assumes "runs f P" and "\<And>x. settles (g x) (\<lambda>_. True)"
  shows "settles (\<lambda>t. f t \<bind> (\<lambda>(x, t). g x t)) (\<lambda>_. True)"
  unfolding settles_def
proof
  fix t
  from assms(1) obtain x new where "f t = Some (x, new @ t)" unfolding runs_def by blast
  with assms(2) settled_longer [of new t _ "\<lambda>_. True"] show "settled t (f t \<bind> (\<lambda>(x, t). g x t)) (\<lambda>_. True)"
    unfolding settles_def by simp
qed

lemma settles_last: "(\<And>t. grows t (h t)) \<Longrightarrow> settles (\<lambda>t. Some (Inr (h t))) (\<lambda>_. True)"
  unfolding settles_def settled_def grows_def by blast

lemma settles_pll:
  assumes "timer0_runs dev" and "uart_ready dev Rk3399.RK_UART2"
    and "fbdiv < 4096" and "refdiv < 64" and "postdiv1 < 8" and "postdiv2 < 8"
  shows "settles (clock_set_pll dev stack cons refdiv fbdiv postdiv1 postdiv2) (\<lambda>_. True)"
  unfolding settles_def by (intro allI, rule settled_mono [OF settled_clock_set_pll [OF assms]]) simp

lemma settles_cpu_clock:
  assumes "timer0_runs dev" and "uart_ready dev Rk3399.RK_UART2"
  shows "settles (rk3399_cpu_clock_start dev stack) (\<lambda>_. True)"
  unfolding rk3399_cpu_clock_start_def [abs_def] Let_def
  by (rule settles_go_on [OF settles_pll [OF assms]], simp, simp, simp, simp,
      rule settles_go_on [OF settles_pre [OF settles_pll [OF assms]]], simp, simp, simp, simp, intro grows_intros,
      rule settles_go_on [OF settles_pre [OF settles_pll [OF assms]]], simp, simp, simp, simp, intro grows_intros,
      rule settles_go_on [OF settles_pll [OF assms]], simp, simp, simp, simp, rule settles_last, intro grows_intros)

lemma settles_init_vop:
  assumes "timer0_runs dev" and "uart_ready dev Rk3399.RK_UART2"
  shows "settles (rk3399_init_vop dev stack vop fb) (\<lambda>_. True)"
proof -
  have "settles (clock_setup_vop dev stack) (\<lambda>_. True)"
    unfolding clock_setup_vop_def [abs_def] Let_def
    by (rule settles_go_on [OF settles_pre [OF settles_pll [OF assms]]], simp, simp, simp, simp, intro grows_intros,
        rule settles_proceeds [OF proceeds_pre [OF proceeds_debug_reg [OF assms(2)]]], intro grows_intros,
        rule settles_last, rule grows_refl)
  then show ?thesis
    unfolding rk3399_init_vop_def [abs_def] Let_def
    by - (rule settles_go_on, assumption, rule settles_last, intro grows_intros)
qed

lemma grows_change_pin [grows_intros]: "grows t s \<Longrightarrow> grows t (drive_high dev bank pin s)"
  unfolding drive_high_def Rk3399.gpio_set_pin_def Rk3399.gpio_set_dir_def change_pin_def by (intro grows_intros)

lemma grows_pinebook_pins [grows_intros]: "grows t s \<Longrightarrow> grows t (pinebook_pins dev s)"
  unfolding pinebook_pins_def pinebook_power_def grf_gpio_iomux_set_def pmugrf_gpio_iomux_set_def Let_def
  by (intro grows_intros)

lemma grows_reset_timer0 [grows_intros]: "grows t s \<Longrightarrow> grows t (setup_cru (reset_timer0 s))"
  unfolding setup_cru_def reset_timer0_def reset_timer_def grf_gpio_iomux_set_def Let_def by (intro grows_intros)

lemma grows_soft_reset [grows_intros]: "grows t s \<Longrightarrow> grows t (soft_reset_setup dev s)"
  unfolding soft_reset_setup_def by (intro grows_intros)

lemma grows_stimer [grows_intros]: "grows t s \<Longrightarrow> grows t (rk_setup_stimer s)"
  unfolding rk_setup_stimer_def
  by (rule grows_extends [OF extends_fold]) (simp only: extends_iff split_def, intro allI grows_intros)

lemma grows_uart [grows_intros]: "grows t s \<Longrightarrow> grows t (uart_init dev uart rate (enable_uart s))"
  unfolding uart_init_def enable_uart_def grf_gpio_iomux_set_def read32_def Let_def split_conv
  by (intro grows_intros)

lemma proceeds_soc_setup:
  assumes "uart_ready dev Rk3399.RK_UART2"
  shows "proceeds (sys_soc_setup dev stack mpidr current_el) (\<lambda>_. True)"
proof -
  note say = proceeds_puts [OF assms]
  have sgrf: "proceeds (sgrf_init dev) (\<lambda>_. True)"
    unfolding sgrf_init_def [abs_def] by (rule proceeds_bind [OF say], rule proceeds_last, intro grows_intros)
  have m0: "proceeds (setup_m0 dev) (\<lambda>_. True)"
    unfolding setup_m0_def [abs_def] Let_def by (rule proceeds_bind [OF say], rule proceeds_last, intro grows_intros)
  have "unat (mpidr AND 0xff) \<le> 255"
    using word_and_le1 [of mpidr "0xff"] by (simp add: word_le_nat_alt)
  then have id: "unat (mpidr AND 0xff) < 4294967296" by simp
  show ?thesis
    unfolding sys_soc_setup_def [abs_def] Let_def
    by (rule proceeds_bind [OF sgrf], rule proceeds_bind [OF proceeds_pre [OF m0]], intro grows_intros,
        rule proceeds_bind [OF proceeds_pre [OF proceeds_debug [OF assms id]]], intro grows_intros,
        rule proceeds_debug_u32 [OF assms])
qed

lemma settles_display:
  assumes "timer0_runs dev" and "timer_runs dev" and "uart_ready dev Rk3399.RK_UART2"
  shows "settles (pinebook_display dev stack) (\<lambda>_. True)"
  unfolding pinebook_display_def [abs_def] Let_def
  by (rule settles_runs [OF runs_pre [OF runs_edp_init [OF assms(2,3)]]], intro grows_intros, rule TrueI,
      rule settles_go_on [OF settles_init_vop [OF assms(1,3)]], rule settles_runs [OF runs_edp_enable [OF assms(2,3)]],
      rule settles_last, rule grows_refl)

text \<open>The Pinebook reaches the payload unless a PLL does not lock; then it has said so and sleeps.\<close>

lemma pinebook_boots:
  assumes "timer0_runs dev" and "timer_runs dev" and "uart_ready dev Rk3399.RK_UART2"
  shows "\<exists>new. pinebook_entry dev stack mpidr current_el ttbl_buffer dtb_copy dtb_data dtb_size m t
      \<in> {Some (fst (Rk3399.plat_setup_mmu ttbl_buffer m t), Inl (new @ t)),
         Some (memcpy (fst (Rk3399.plat_setup_mmu ttbl_buffer m t)) dtb_copy dtb_data dtb_size, Inr (new @ t))}"
proof -
  obtain es m' where mmu: "\<And>t. Rk3399.plat_setup_mmu ttbl_buffer m t = (m', es @ t)"
    by (rule that [of "fst (Rk3399.plat_setup_mmu ttbl_buffer m [])" "snd (Rk3399.plat_setup_mmu ttbl_buffer m [])"])
      (simp add: Rk3399.plat_setup_mmu_def Let_def)
  let ?uart = "\<lambda>t. uart_init dev Rk3399.RK_UART2 1500000 (enable_uart (es @ CntFreq 24000000 # t))"
  let ?boot = "\<lambda>t. puts dev Rk3399.RK_UART2 (chars ''RK3399 bootloader - Copyright FUTO 2023'') (?uart t) \<bind>
    (\<lambda>t. go_on (rk3399_cpu_clock_start dev stack (setup_cru (reset_timer0 (pinebook_pins dev t))))
      (\<lambda>t. sys_soc_setup dev stack mpidr current_el t \<bind> pinebook_display dev stack))"
  have es: "grows t (es @ s)" if "grows t s" for t s using that by (auto simp: grows_def)
  have "settles ?boot (\<lambda>_. True)"
    by (rule settles_proceeds [OF proceeds_pre [OF proceeds_puts [OF assms(3)]]], intro grows_intros es,
        rule settles_go_on [OF settles_pre [OF settles_cpu_clock [OF assms(1,3)]]], intro grows_intros,
        rule settles_proceeds [OF proceeds_soc_setup [OF assms(3)]], rule settles_display [OF assms])
  then have settled: "settled t (?boot t) (\<lambda>_. True)" unfolding settles_def by blast
  define r where "r = ?boot t"
  have "pinebook_entry dev stack mpidr current_el ttbl_buffer dtb_copy dtb_data dtb_size m t =
    r \<bind> (\<lambda>r. Some (case r of Inl t \<Rightarrow> (m', Inl t) | Inr t \<Rightarrow> (memcpy m' dtb_copy dtb_data dtb_size, Inr t)))"
    by (simp add: r_def pinebook_entry_def mmu Let_def)
  then show ?thesis
    using settled unfolding r_def [symmetric] by (auto simp: settled_def mmu)
qed

end
