(* ===== verification/Ddr_Trace.thy ===== *)
theory Ddr_Trace
  imports Mmio
begin

text \<open>
  The initialisation of the Pinebook's DRAM (\<open>rk3399_ddr_entry\<close> of src/rk3399/ddr-4gb-lpddr4.c): a
  recorded sequence of register accesses, taken over statement by statement. Readings of the
  recording are comments in the code, and waits took their place. The last part says which
  registers the statements may write, and checks it for each of them.
\<close>

text \<open>\<open>*a = v\<close>, \<open>*a |= v\<close>, \<open>usleep(us)\<close>, \<open>wait_for_pctl()\<close>, \<open>regcpy(dest, blob, count)\<close> with the words
  of the blob, and \<open>dram_set_clock(hz)\<close>.\<close>

datatype ddr_op = Put addr u32 | SetBits addr u32 | Sleep int | WaitPctl | RegCpy addr "u32 list" nat | SetClock int

subsection \<open>The statements\<close>

definition ddr_trace_1 :: "ddr_op list" where
  "ddr_trace_1 =
   [Put 0xff760410 0x3000300, Sleep 10, Put 0xff760410 0x3000100, Sleep 10, Put 0xff760410 0x3000000, Sleep 10,
     SetBits 0xffa82158 0xc00, SetBits 0xffa82358 0xc00, SetBits 0xffa82558 0xc00, SetBits 0xffa82758 0xc00,
     SetBits 0xffa8288c 0xc0000, SetBits 0xffa82a8c 0xc0000, SetBits 0xffa82c8c 0xc0000, RegCpy 0xffa80004 [0x0, 0x0,
     0x0, 0x0, 0x13880, 0xc3500, 0x5, 0x320, 0x27100, 0x186a00, 0x5, 0x640, 0x2710, 0x186a0, 0x5, 0x1000064, 0x0,
     0x2020101, 0x102, 0x50, 0xc8, 0x0, 0x6140000, 0x81c00, 0x400040c, 0x19042008, 0x10080a11, 0x22310800, 0x200f0a,
     0xa030704, 0x8000204, 0xa0a, 0x4006db0, 0xa0a0804, 0x600db60, 0xa0a0806, 0x4000db6, 0x2030404, 0xf0a0800,
     0x8040411, 0x1400640a, 0x2010a0a, 0x10001, 0x4082012, 0x41109, 0x0, 0x3010000, 0x6100048, 0xc280090, 0xbb0009,
     0x0, 0x60005, 0xa0005, 0xa0014, 0x1000000, 0x30a0000, 0xc000002, 0x103, 0x5030a, 0x60037, 0x5006e, 0x5050007,
     0x3030605, 0x6050301, 0x6030c05, 0x5050302, 0x3030305, 0x301, 0x301, 0x1, 0x0, 0x0, 0x1000000, 0x80104002,
     0x40003, 0x40005, 0x30000, 0x50004, 0x4, 0x40003, 0x40005, 0x18400000, 0xc20, 0x185030a0, 0x2ec0000, 0x176, 0x0,
     0x0, 0x0, 0x0, 0x0, 0x6030300, 0x30303, 0x2030200, 0x40703, 0x3020302, 0x2000407, 0x7030203, 0x30f04, 0x70004,
     0x0, 0x0, 0x0, 0x0, 0x0, 0x0, 0x0, 0x10000, 0x20040020, 0x200400, 0x1000400, 0xb80, 0x0, 0x1, 0x2, 0xe, 0x0, 0x0,
     0x0, 0x0, 0x0, 0x500000, 0x640028, 0x640404, 0x5000a0, 0x60600c8, 0xa00c8, 0xd0005, 0xd0404, 0x0, 0x0, 0x0,
     0x1400a3, 0xe30009, 0x120024, 0x40063, 0x0, 0x310031, 0x31, 0x4d0000, 0x72004d, 0x4d0000, 0x72004d, 0x10101, 0x0,
     0x0, 0x1400a3, 0xe30009, 0x120024, 0x40063, 0x0, 0x310031, 0x31, 0x4d0000, 0x72004d, 0x4d0000, 0x72004d, 0x10101,
     0x180000, 0x180018, 0x0, 0x1, 0x0, 0x18151100, 0xc, 0x0, 0x0, 0x0, 0x0, 0x0, 0x0, 0x0, 0x0, 0x0, 0x0, 0x0, 0x0,
     0x0, 0x20003, 0x400100, 0xc0190, 0x1000200, 0x3200040, 0x20018, 0x400100, 0x80032, 0x140000, 0x30028, 0x1010100,
     0x2000202, 0xb000002, 0x1000f0f, 0x0, 0x0, 0x10003, 0xc03, 0x40101, 0x4010100, 0x1000000, 0x3010000, 0x1, 0x0,
     0x0, 0x0, 0x0, 0x0, 0x0, 0x0, 0x0, 0x0, 0x10000, 0x1, 0x1010001, 0x5040001, 0x40a0703, 0x2080808, 0x20e000a,
     0x20f010b, 0xd0008, 0x80b0a, 0x3000200, 0x100, 0x0, 0x0, 0xd000001, 0x28, 0x10000, 0x3, 0x0, 0x0, 0x0, 0x0, 0x0,
     0x0, 0x0, 0x0, 0x10100, 0x1000000, 0x1, 0x303, 0x0, 0x0, 0x0, 0x0, 0x0, 0x0, 0x0, 0x0, 0x0, 0x0, 0x0, 0x0, 0x0,
     0x0, 0x0, 0x556aa, 0xaaaaa, 0xaa955, 0x55555, 0xb3133, 0x4cd33, 0x4cecc, 0xb32cc, 0x10300, 0x3000100, 0x0, 0x0,
     0x0, 0x0, 0x0, 0x0, 0x0, 0x0, 0xffff00, 0x1a160000, 0x8000012, 0xc20, 0x200, 0x200, 0x200, 0x200, 0xc20, 0x7940,
     0x18500409, 0x200, 0x200, 0x200, 0x200, 0x1850, 0xf320, 0x176060c, 0x200, 0x200, 0x200, 0x200, 0x176, 0xe9c,
     0x2020205, 0x3030202, 0x18, 0x0, 0x0, 0x1403, 0x0, 0x0, 0x0, 0x30000, 0xa001c, 0xe0020, 0x60018, 0x0, 0x0,
     0x2000000, 0x90305, 0x50101, 0x0, 0x0, 0x0, 0x0, 0x0, 0x0, 0x0, 0x0, 0x1000001, 0x1010101, 0x1000101, 0x1000100,
     0x10001, 0x10002, 0x20100, 0x2] 331, Put 0xffa80000 0xb00, RegCpy 0xffa80800 [0xb00, 0x0, 0x2ec, 0x176, 0x30a0,
     0x1850, 0x1840, 0x1760c20, 0x200, 0x200, 0x200, 0x200, 0x1850, 0x200, 0x200, 0x200, 0x200, 0xc20, 0x200, 0x200,
     0x200, 0x200, 0x10000, 0x7, 0x1000001, 0x0, 0x3fffffff, 0x0, 0x0, 0x0, 0x0, 0x0, 0x0, 0x0, 0x0, 0x0, 0x0, 0x0,
     0x0, 0x0, 0x0, 0xf000101, 0x82b3223, 0x80c0004, 0x61c00, 0x1000314, 0xbb0009, 0xc280090, 0x6100048, 0x500, 0x0,
     0x0, 0x0, 0x0, 0x0, 0x0, 0x0, 0x0, 0x4040101, 0xa000004, 0x128, 0x1000000, 0x3000f, 0x18, 0x0, 0x0, 0x60002,
     0x10001, 0x101, 0x20001, 0x80004, 0x0, 0x5030000, 0x70a0404, 0x0, 0x0, 0x1000000, 0xf0f01, 0x1e, 0x0, 0x1010300,
     0x0, 0x0, 0x1000000, 0x101, 0x55555a5a, 0x55555a5a, 0x55555a5a, 0x55555a5a, 0xc050001, 0x6020009, 0x10004, 0x203,
     0x30000, 0x170f0000, 0x60018, 0xe0020, 0xa001c, 0x0, 0x0, 0x100, 0x140a0000, 0xd010a, 0x100c802, 0x10a0064,
     0xe0100, 0x100000e, 0xc900c9, 0x650100, 0x1e1a0065, 0x10010204, 0x6070605, 0x20000202, 0x201000, 0x201000,
     0x4041000, 0x10020100, 0x3010c, 0x4b004a, 0x1a0f0000, 0x102041e, 0x34000000, 0x0, 0x0, 0x10000, 0x400, 0x310000,
     0x727200, 0x120024, 0x4d000031, 0x144d, 0x310009, 0x4d4d00, 0x4, 0x72000031, 0x2472, 0x310012, 0x4d4d00, 0x90014,
     0x4d000031, 0x4004d, 0x310000, 0x727200, 0x120024, 0x4d000031, 0x144d, 0x310009, 0x4d4d00, 0x4, 0x72000031,
     0x2472, 0x310012, 0x4d4d00, 0x90014, 0x4d000031, 0x200004d, 0xc8000d, 0x8080064, 0x40a0404, 0x3000d92, 0x10a2001,
     0xf11080a, 0x110a, 0x2200d92e, 0x80c2003, 0x809080a, 0xa0a, 0x11006c97, 0x40a2002, 0x200020a, 0x2000200,
     0x2000200, 0x2000200, 0x2000200, 0x0, 0x0, 0x0, 0x0, 0x0, 0x0, 0x0, 0x0, 0x0, 0x0, 0x0, 0x0, 0x1000400, 0x17600,
     0xe9c, 0x1850, 0xf320, 0xc20, 0x7940, 0x8000000, 0x100, 0x0, 0x0, 0x0, 0x0, 0x2] 200, Put 0xffa802fc 0xb000002,
     Put 0xffa802f8 0x202, Put 0xffa80310 0xc03, Put 0xffa80b1c 0x2, Put 0xffa80a6c 0x4d, Put 0xffa808a4 0xf000101,
     Put 0xffa82e38 0x6400, Put 0xffa82e3c 0x9221902, Put 0xffa82e40 0x0, Put 0xffa82e08 0x5,
     Put 0xffa82e5c 0x9221902, Sleep 1, Put 0xffa80110 0x301, Put 0xffa82ef4 0x1000000, SetBits 0xffa80800 0x1,
     SetBits 0xffa80000 0x1, RegCpy 0xffa82e00 [0x0, 0x0, 0x5, 0x4000f01, 0x20040, 0x20055, 0x0, 0x0, 0x0, 0x50, 0x0,
     0x1010100, 0x600, 0x0, 0x6400, 0x9221902, 0x0, 0xd3101, 0xd310d31, 0xd030d31, 0x30003, 0x3000300, 0x300,
     0x9221902, 0x0, 0x0, 0x1020000, 0x1, 0x4249ef, 0x11ef, 0x11d09, 0x46509, 0x11d09ef, 0x46509ef, 0x4410, 0x4410,
     0x4410, 0x4410, 0x4410, 0x11d09ef, 0x4410, 0x11d09ef, 0x4410, 0x11d09ef, 0x4410, 0x0, 0x0, 0x0, 0x64000000, 0x0,
     0x0, 0x108, 0x0, 0x0, 0x0, 0x0, 0x0, 0x0, 0xe4000000, 0x0, 0x0, 0x1010000, 0x0] 63,
     RegCpy 0xffa82000 [0x76543210, 0x4f008, 0x30159, 0x0, 0x0, 0x0, 0xef00, 0x300ef00, 0x10f00, 0x4000100, 0x10000,
     0x170180, 0xcc0201, 0x30066, 0x0, 0x0, 0x0, 0x0, 0x0, 0x0, 0x0, 0x0, 0x4080000, 0x4080400, 0x30000000, 0xc00c007,
     0x100, 0x0, 0xfd02fe01, 0xf708fb04, 0xdf20ef10, 0x7f80bf40, 0x1aaaa, 0x0, 0x0, 0x0, 0x0, 0x0, 0x0, 0x0, 0x0, 0x0,
     0x0, 0x0, 0x0, 0x0, 0x0, 0x0, 0x0, 0x0, 0x0, 0x0, 0x200000, 0x0, 0x0, 0x0, 0x0, 0x0, 0x0, 0x2800280, 0x2800280,
     0x2800280, 0x2800280, 0x280, 0x0, 0x0, 0x0, 0x0, 0x800000, 0x800080, 0x800080, 0x800080, 0x800080, 0x800080,
     0x800080, 0x800080, 0x800080, 0x1590080, 0x0, 0x0, 0x0, 0x200, 0x0, 0x51315152, 0xc0003150, 0x10000c0, 0x100c00,
     0x7044204, 0xf0c18, 0x1000140, 0xc10] 91, RegCpy 0xffa82200 [0x76543210, 0x4f008, 0x30159, 0x0, 0x0, 0x0, 0xef00,
     0x300ef00, 0x10f00, 0x4000100, 0x10000, 0x170180, 0xcc0201, 0x30066, 0x0, 0x0, 0x0, 0x0, 0x0, 0x0, 0x0, 0x0,
     0x4080000, 0x4080400, 0x30000000, 0xc00c007, 0x100, 0x0, 0xfd02fe01, 0xf708fb04, 0xdf20ef10, 0x7f80bf40, 0xaaaa,
     0x0, 0x0, 0x0, 0x0, 0x0, 0x0, 0x0, 0x0, 0x0, 0x0, 0x0, 0x0, 0x0, 0x0, 0x0, 0x0, 0x0, 0x0, 0x0, 0x200000, 0x0,
     0x0, 0x0, 0x0, 0x0, 0x0, 0x2800280, 0x2800280, 0x2800280, 0x2800280, 0x280, 0x0, 0x0, 0x0, 0x0, 0x800000,
     0x800080, 0x800080, 0x800080, 0x800080, 0x800080, 0x800080, 0x800080, 0x800080, 0x1590080, 0x0, 0x0, 0x0, 0x200,
     0x0, 0x51315152, 0xc0003150, 0x10000c0, 0x100c00, 0x7044204, 0xf0c18, 0x1000140, 0xc10] 91,
     RegCpy 0xffa82400 [0x76543210, 0x4f008, 0x30159, 0x0, 0x0, 0x0, 0xef00, 0x300ef00, 0x10f00, 0x4000100, 0x10000,
     0x170180, 0xcc0201, 0x30066, 0x0, 0x0, 0x0, 0x0, 0x0, 0x0, 0x0, 0x0, 0x4080000, 0x4080400, 0x30000000, 0xc00c007,
     0x100, 0x0, 0xfd02fe01, 0xf708fb04, 0xdf20ef10, 0x7f80bf40, 0x1aaaa, 0x0, 0x0, 0x0, 0x0, 0x0, 0x0, 0x0, 0x0, 0x0,
     0x0, 0x0, 0x0, 0x0, 0x0, 0x0, 0x0, 0x0, 0x0, 0x0, 0x200000, 0x0, 0x0, 0x0, 0x0, 0x0, 0x0, 0x2800280, 0x2800280,
     0x2800280, 0x2800280, 0x280, 0x0, 0x0, 0x0, 0x0, 0x800000, 0x800080, 0x800080, 0x800080, 0x800080, 0x800080,
     0x800080, 0x800080, 0x800080, 0x1590080, 0x0, 0x0, 0x0, 0x200, 0x0, 0x51315152, 0xc0003150, 0x10000c0, 0x100c00,
     0x7044204, 0xf0c18, 0x1000140, 0xc10] 91, RegCpy 0xffa82600 [0x76543210, 0x4f008, 0x30159, 0x0, 0x0, 0x0, 0xef00,
     0x300ef00, 0x10f00, 0x4000100, 0x10000, 0x170180, 0xcc0201, 0x30066, 0x0, 0x0, 0x0, 0x0, 0x0, 0x0, 0x0, 0x0,
     0x4080000, 0x4080400, 0x30000000, 0xc00c007, 0x100, 0x0, 0xfd02fe01, 0xf708fb04, 0xdf20ef10, 0x7f80bf40, 0xaaaa,
     0x0, 0x0, 0x0, 0x0, 0x0, 0x0, 0x0, 0x0, 0x0, 0x0, 0x0, 0x0, 0x0, 0x0, 0x0, 0x0, 0x0, 0x0, 0x0, 0x200000, 0x0,
     0x0, 0x0, 0x0, 0x0, 0x0, 0x2800280, 0x2800280, 0x2800280, 0x2800280, 0x280, 0x0, 0x0, 0x0, 0x0, 0x800000,
     0x800080, 0x800080, 0x800080, 0x800080, 0x800080, 0x800080, 0x800080, 0x800080, 0x1590080, 0x0, 0x0, 0x0, 0x200,
     0x0, 0x51315152, 0xc0003150, 0x10000c0, 0x100c00, 0x7044204, 0xf0c18, 0x1000140, 0xc10] 91,
     RegCpy 0xffa82800 [0x0, 0x0, 0x0, 0x0, 0x0, 0x0, 0x0, 0x2, 0x0, 0x0, 0x0, 0x400320, 0x40, 0xdcba98, 0x0,
     0xdcba98, 0x1000000, 0x20003, 0x0, 0x0, 0x0, 0x2a, 0x15, 0x15, 0x2a, 0x33, 0xc, 0xc, 0x33, 0xa418820, 0x3f0000,
     0x3f, 0x300ef, 0x3000300, 0x3000300, 0xc0300, 0x42080010, 0x3] 38, RegCpy 0xffa82a00 [0x0, 0x0, 0x0, 0x0, 0x0,
     0x0, 0x0, 0x2, 0x0, 0x0, 0x0, 0x400320, 0x40, 0x0, 0x0, 0x0, 0x1000000, 0x20003, 0x0, 0x0, 0x0, 0x2a, 0x15, 0x15,
     0x2a, 0x33, 0xc, 0xc, 0x33, 0x0, 0x0, 0x0, 0x300ef, 0x3000300, 0x3000300, 0xc0300, 0x42080010, 0x3] 38,
     RegCpy 0xffa82c00 [0x0, 0x0, 0x0, 0x0, 0x0, 0x0, 0x0, 0x2, 0x0, 0x0, 0x0, 0x400320, 0x40, 0x0, 0x0, 0x0,
     0x1000000, 0x20003, 0x0, 0x0, 0x0, 0x2a, 0x15, 0x15, 0x2a, 0x33, 0xc, 0xc, 0x33, 0x1ee6b16a, 0x10000000, 0x0,
     0x300ef, 0x3000300, 0x3000300, 0xc0300, 0x42080010, 0x3] 38, Put 0xffa82e00 0x0, Put 0xffa8214c 0x51415152,
     Put 0xffa82150 0xc0004150, Put 0xffa8234c 0x51415152, Put 0xffa82350 0xc0004150, Put 0xffa8254c 0x51415152,
     Put 0xffa82550 0xc0004150, Put 0xffa8274c 0x51415152, Put 0xffa82750 0xc0004150, Put 0xffa82004 0x68008,
     Put 0xffa82204 0x68008, Put 0xffa82404 0x68008, Put 0xffa82604 0x68008, Put 0xff760410 0x30003000, Sleep 10,
     Put 0xff760410 0x30001000, Sleep 10, Put 0xff760410 0x30000000, Sleep 10, SetBits 0xffa8a158 0xc00,
     SetBits 0xffa8a358 0xc00, SetBits 0xffa8a558 0xc00, SetBits 0xffa8a758 0xc00, SetBits 0xffa8a88c 0xc0000,
     SetBits 0xffa8aa8c 0xc0000, SetBits 0xffa8ac8c 0xc0000, RegCpy 0xffa88004 [0x0, 0x0, 0x0, 0x0, 0x13880, 0xc3500,
     0x5, 0x320, 0x27100, 0x186a00, 0x5, 0x640, 0x2710, 0x186a0, 0x5, 0x1000064, 0x0, 0x2020101, 0x102, 0x50, 0xc8,
     0x0, 0x6140000, 0x81c00, 0x400040c, 0x19042008, 0x10080a11, 0x22310800, 0x200f0a, 0xa030704, 0x8000204, 0xa0a,
     0x4006db0, 0xa0a0804, 0x600db60, 0xa0a0806, 0x4000db6, 0x2030404, 0xf0a0800, 0x8040411, 0x1400640a, 0x2010a0a,
     0x10001, 0x4082012, 0x41109, 0x0, 0x3010000, 0x6100048, 0xc280090, 0xbb0009, 0x0, 0x60005, 0xa0005, 0xa0014,
     0x1000000, 0x30a0000, 0xc000002, 0x103, 0x5030a, 0x60037, 0x5006e, 0x5050007, 0x3030605, 0x6050301, 0x6030c05,
     0x5050302, 0x3030305, 0x301, 0x301, 0x1, 0x0, 0x0, 0x1000000, 0x80104002, 0x40003, 0x40005, 0x30000, 0x50004,
     0x4, 0x40003, 0x40005, 0x18400000, 0xc20, 0x185030a0, 0x2ec0000, 0x176, 0x0, 0x0, 0x0, 0x0, 0x0, 0x6030300,
     0x30303, 0x2030200, 0x40703, 0x3020302, 0x2000407, 0x7030203, 0x30f04, 0x70004, 0x0, 0x0, 0x0, 0x0, 0x0, 0x0,
     0x0, 0x10000, 0x20040020, 0x200400, 0x1000400, 0xb80, 0x0, 0x1, 0x2, 0xe, 0x0, 0x0, 0x0, 0x0, 0x0, 0x500000,
     0x640028, 0x640404, 0x5000a0, 0x60600c8, 0xa00c8, 0xd0005, 0xd0404, 0x0, 0x0, 0x0, 0x1400a3, 0xe30009, 0x120024,
     0x40063, 0x0, 0x310031, 0x31, 0x4d0000, 0x72004d, 0x4d0000, 0x72004d, 0x10101, 0x0, 0x0, 0x1400a3, 0xe30009,
     0x120024, 0x40063, 0x0, 0x310031, 0x31, 0x4d0000, 0x72004d, 0x4d0000, 0x72004d, 0x10101, 0x180000, 0x180018, 0x0,
     0x1, 0x0, 0x18151100, 0xc, 0x0, 0x0, 0x0, 0x0, 0x0, 0x0, 0x0, 0x0, 0x0, 0x0, 0x0, 0x0, 0x0, 0x20003, 0x400100,
     0xc0190, 0x1000200, 0x3200040, 0x20018, 0x400100, 0x80032, 0x140000, 0x30028, 0x1010100, 0x2000202, 0xb000002,
     0x1000f0f, 0x0, 0x0, 0x10003, 0xc03, 0x40101, 0x4010100, 0x1000000, 0x3010000, 0x1, 0x0, 0x0, 0x0, 0x0, 0x0, 0x0,
     0x0, 0x0, 0x0, 0x10000, 0x1, 0x1010001, 0x5040001, 0x40a0703, 0x2080808, 0x20e000a, 0x20f010b, 0xd0008, 0x80b0a,
     0x3000200, 0x100, 0x0, 0x0, 0xd000001, 0x28, 0x10000, 0x3, 0x0, 0x0, 0x0, 0x0, 0x0, 0x0, 0x0, 0x0, 0x10100,
     0x1000000, 0x1, 0x303, 0x0, 0x0, 0x0, 0x0, 0x0, 0x0, 0x0, 0x0, 0x0, 0x0, 0x0, 0x0, 0x0, 0x0, 0x0, 0x556aa,
     0xaaaaa, 0xaa955, 0x55555, 0xb3133, 0x4cd33, 0x4cecc, 0xb32cc, 0x10300, 0x3000100, 0x0, 0x0, 0x0, 0x0, 0x0, 0x0,
     0x0, 0x0, 0xffff00, 0x1a160000, 0x8000012, 0xc20, 0x200, 0x200, 0x200, 0x200, 0xc20, 0x7940, 0x18500409, 0x200,
     0x200, 0x200, 0x200, 0x1850, 0xf320, 0x176060c, 0x200, 0x200, 0x200, 0x200, 0x176, 0xe9c, 0x2020205, 0x3030202,
     0x18, 0x0, 0x0, 0x1403, 0x0, 0x0, 0x0, 0x30000, 0xa001c, 0xe0020, 0x60018, 0x0, 0x0, 0x2000000, 0x90305, 0x50101,
     0x0, 0x0, 0x0, 0x0, 0x0, 0x0, 0x0, 0x0, 0x1000001, 0x1010101, 0x1000101, 0x1000100, 0x10001, 0x10002, 0x20100,
     0x2] 331, Put 0xffa88000 0xb00, Sleep 1, Put 0xffa88038 0x249f0, RegCpy 0xffa88800 [0xb00, 0x0, 0x2ec, 0x176,
     0x30a0, 0x1850, 0x1840, 0x1760c20, 0x200, 0x200, 0x200, 0x200, 0x1850, 0x200, 0x200, 0x200, 0x200, 0xc20, 0x200,
     0x200, 0x200, 0x200, 0x10000, 0x7, 0x1000001, 0x0, 0x3fffffff, 0x0, 0x0, 0x0, 0x0, 0x0, 0x0, 0x0, 0x0, 0x0, 0x0,
     0x0, 0x0, 0x0, 0x0, 0xf000101, 0x82b3223, 0x80c0004, 0x61c00, 0x1000314, 0xbb0009, 0xc280090, 0x6100048, 0x500,
     0x0, 0x0, 0x0, 0x0, 0x0, 0x0, 0x0, 0x0, 0x4040101, 0xa000004, 0x128, 0x1000000, 0x3000f, 0x18, 0x0, 0x0, 0x60002,
     0x10001, 0x101, 0x20001, 0x80004, 0x0, 0x5030000, 0x70a0404, 0x0, 0x0, 0x1000000, 0xf0f01, 0x1e, 0x0, 0x1010300,
     0x0, 0x0, 0x1000000, 0x101, 0x55555a5a, 0x55555a5a, 0x55555a5a, 0x55555a5a, 0xc050001, 0x6020009, 0x10004, 0x203,
     0x30000, 0x170f0000, 0x60018, 0xe0020, 0xa001c, 0x0, 0x0, 0x100, 0x140a0000, 0xd010a, 0x100c802, 0x10a0064,
     0xe0100, 0x100000e, 0xc900c9, 0x650100, 0x1e1a0065, 0x10010204, 0x6070605, 0x20000202, 0x201000, 0x201000,
     0x4041000, 0x10020100, 0x3010c, 0x4b004a, 0x1a0f0000, 0x102041e, 0x34000000, 0x0, 0x0, 0x10000, 0x400, 0x310000,
     0x727200, 0x120024, 0x4d000031, 0x144d, 0x310009, 0x4d4d00, 0x4, 0x72000031, 0x2472, 0x310012, 0x4d4d00, 0x90014,
     0x4d000031, 0x4004d, 0x310000, 0x727200, 0x120024, 0x4d000031, 0x144d, 0x310009, 0x4d4d00, 0x4, 0x72000031,
     0x2472, 0x310012, 0x4d4d00, 0x90014, 0x4d000031, 0x200004d, 0xc8000d, 0x8080064, 0x40a0404, 0x3000d92, 0x10a2001,
     0xf11080a, 0x110a, 0x2200d92e, 0x80c2003, 0x809080a, 0xa0a, 0x11006c97, 0x40a2002, 0x200020a, 0x2000200,
     0x2000200, 0x2000200, 0x2000200, 0x0, 0x0, 0x0, 0x0, 0x0, 0x0, 0x0, 0x0, 0x0, 0x0, 0x0, 0x0, 0x1000400, 0x17600,
     0xe9c, 0x1850, 0xf320, 0xc20, 0x7940, 0x8000000, 0x100, 0x0, 0x0, 0x0, 0x0, 0x2] 200, Put 0xffa882fc 0xb000002,
     Put 0xffa882f8 0x202, Put 0xffa88310 0xc03, Put 0xffa88b1c 0x2, Put 0xffa88a6c 0x4d, Put 0xffa888a4 0xf000101,
     Put 0xffa8ae38 0x6400, Put 0xffa8ae3c 0x9221902, Put 0xffa8ae40 0x0, Put 0xffa8ae08 0x5,
     Put 0xffa8ae5c 0x9221902, Sleep 1, Put 0xffa88110 0x301, Put 0xffa8aef4 0x1000000, SetBits 0xffa88800 0x1,
     SetBits 0xffa88000 0x1, RegCpy 0xffa8ae00 [0x0, 0x0, 0x5, 0x4000f01, 0x20040, 0x20055, 0x0, 0x0, 0x0, 0x50, 0x0,
     0x1010100, 0x600, 0x0, 0x6400, 0x9221902, 0x0, 0xd3101, 0xd310d31, 0xd030d31, 0x30003, 0x3000300, 0x300,
     0x9221902, 0x0, 0x0, 0x1020000, 0x1, 0x4249ef, 0x11ef, 0x11d09, 0x46509, 0x11d09ef, 0x46509ef, 0x4410, 0x4410,
     0x4410, 0x4410, 0x4410, 0x11d09ef, 0x4410, 0x11d09ef, 0x4410, 0x11d09ef, 0x4410, 0x0, 0x0, 0x0, 0x64000000, 0x0,
     0x0, 0x108, 0x0, 0x0, 0x0, 0x0, 0x0, 0x0, 0xe4000000, 0x0, 0x0, 0x1010000, 0x0] 63,
     RegCpy 0xffa8a000 [0x76543210, 0x4f008, 0x30159, 0x0, 0x0, 0x0, 0xef00, 0x300ef00, 0x10f00, 0x4000100, 0x10000,
     0x170180, 0xcc0201, 0x30066, 0x0, 0x0, 0x0, 0x0, 0x0, 0x0, 0x0, 0x0, 0x4080000, 0x4080400, 0x30000000, 0xc00c007,
     0x100, 0x0, 0xfd02fe01, 0xf708fb04, 0xdf20ef10, 0x7f80bf40, 0x1aaaa, 0x0, 0x0, 0x0, 0x0, 0x0, 0x0, 0x0, 0x0, 0x0,
     0x0, 0x0, 0x0, 0x0, 0x0, 0x0, 0x0, 0x0, 0x0, 0x0, 0x200000, 0x0, 0x0, 0x0, 0x0, 0x0, 0x0, 0x2800280, 0x2800280,
     0x2800280, 0x2800280, 0x280, 0x0, 0x0, 0x0, 0x0, 0x800000, 0x800080, 0x800080, 0x800080, 0x800080, 0x800080,
     0x800080, 0x800080, 0x800080, 0x1590080, 0x0, 0x0, 0x0, 0x200, 0x0, 0x51315152, 0xc0003150, 0x10000c0, 0x100c00,
     0x7044204, 0xf0c18, 0x1000140, 0xc10] 91, RegCpy 0xffa8a200 [0x76543210, 0x4f008, 0x30159, 0x0, 0x0, 0x0, 0xef00,
     0x300ef00, 0x10f00, 0x4000100, 0x10000, 0x170180, 0xcc0201, 0x30066, 0x0, 0x0, 0x0, 0x0, 0x0, 0x0, 0x0, 0x0,
     0x4080000, 0x4080400, 0x30000000, 0xc00c007, 0x100, 0x0, 0xfd02fe01, 0xf708fb04, 0xdf20ef10, 0x7f80bf40, 0xaaaa,
     0x0, 0x0, 0x0, 0x0, 0x0, 0x0, 0x0, 0x0, 0x0, 0x0, 0x0, 0x0, 0x0, 0x0, 0x0, 0x0, 0x0, 0x0, 0x0, 0x200000, 0x0,
     0x0, 0x0, 0x0, 0x0, 0x0, 0x2800280, 0x2800280, 0x2800280, 0x2800280, 0x280, 0x0, 0x0, 0x0, 0x0, 0x800000,
     0x800080, 0x800080, 0x800080, 0x800080, 0x800080, 0x800080, 0x800080, 0x800080, 0x1590080, 0x0, 0x0, 0x0, 0x200,
     0x0, 0x51315152, 0xc0003150, 0x10000c0, 0x100c00, 0x7044204, 0xf0c18, 0x1000140, 0xc10] 91,
     RegCpy 0xffa8a400 [0x76543210, 0x4f008, 0x30159, 0x0, 0x0, 0x0, 0xef00, 0x300ef00, 0x10f00, 0x4000100, 0x10000,
     0x170180, 0xcc0201, 0x30066, 0x0, 0x0, 0x0, 0x0, 0x0, 0x0, 0x0, 0x0, 0x4080000, 0x4080400, 0x30000000, 0xc00c007,
     0x100, 0x0, 0xfd02fe01, 0xf708fb04, 0xdf20ef10, 0x7f80bf40, 0x1aaaa, 0x0, 0x0, 0x0, 0x0, 0x0, 0x0, 0x0, 0x0, 0x0,
     0x0, 0x0, 0x0, 0x0, 0x0, 0x0, 0x0, 0x0, 0x0, 0x0, 0x200000, 0x0, 0x0, 0x0, 0x0, 0x0, 0x0, 0x2800280, 0x2800280,
     0x2800280, 0x2800280, 0x280, 0x0, 0x0, 0x0, 0x0, 0x800000, 0x800080, 0x800080, 0x800080, 0x800080, 0x800080,
     0x800080, 0x800080, 0x800080, 0x1590080, 0x0, 0x0, 0x0, 0x200, 0x0, 0x51315152, 0xc0003150, 0x10000c0, 0x100c00,
     0x7044204, 0xf0c18, 0x1000140, 0xc10] 91, RegCpy 0xffa8a600 [0x76543210, 0x4f008, 0x30159, 0x0, 0x0, 0x0, 0xef00,
     0x300ef00, 0x10f00, 0x4000100, 0x10000, 0x170180, 0xcc0201, 0x30066, 0x0, 0x0, 0x0, 0x0, 0x0, 0x0, 0x0, 0x0,
     0x4080000, 0x4080400, 0x30000000, 0xc00c007, 0x100, 0x0, 0xfd02fe01, 0xf708fb04, 0xdf20ef10, 0x7f80bf40, 0xaaaa,
     0x0, 0x0, 0x0, 0x0, 0x0, 0x0, 0x0, 0x0, 0x0, 0x0, 0x0, 0x0, 0x0, 0x0, 0x0, 0x0, 0x0, 0x0, 0x0, 0x200000, 0x0,
     0x0, 0x0, 0x0, 0x0, 0x0, 0x2800280, 0x2800280, 0x2800280, 0x2800280, 0x280, 0x0, 0x0, 0x0, 0x0, 0x800000,
     0x800080, 0x800080, 0x800080, 0x800080, 0x800080, 0x800080, 0x800080, 0x800080, 0x1590080, 0x0, 0x0, 0x0, 0x200,
     0x0, 0x51315152, 0xc0003150, 0x10000c0, 0x100c00, 0x7044204, 0xf0c18, 0x1000140, 0xc10] 91,
     RegCpy 0xffa8a800 [0x0, 0x0, 0x0, 0x0, 0x0, 0x0, 0x0, 0x2, 0x0, 0x0, 0x0, 0x400320, 0x40, 0xdcba98, 0x0,
     0xdcba98, 0x1000000, 0x20003, 0x0, 0x0, 0x0, 0x2a, 0x15, 0x15, 0x2a, 0x33, 0xc, 0xc, 0x33, 0xa418820, 0x3f0000,
     0x3f, 0x300ef, 0x3000300, 0x3000300, 0xc0300, 0x42080010, 0x3] 38, RegCpy 0xffa8aa00 [0x0, 0x0, 0x0, 0x0, 0x0,
     0x0, 0x0, 0x2, 0x0, 0x0, 0x0, 0x400320, 0x40, 0x0, 0x0, 0x0, 0x1000000, 0x20003, 0x0, 0x0, 0x0, 0x2a, 0x15, 0x15,
     0x2a, 0x33, 0xc, 0xc, 0x33, 0x0, 0x0, 0x0, 0x300ef, 0x3000300, 0x3000300, 0xc0300, 0x42080010, 0x3] 38,
     RegCpy 0xffa8ac00 [0x0, 0x0, 0x0, 0x0, 0x0, 0x0, 0x0, 0x2, 0x0, 0x0, 0x0, 0x400320, 0x40, 0x0, 0x0, 0x0,
     0x1000000, 0x20003, 0x0, 0x0, 0x0, 0x2a, 0x15, 0x15, 0x2a, 0x33, 0xc, 0xc, 0x33, 0x1ee6b16a, 0x10000000, 0x0,
     0x300ef, 0x3000300, 0x3000300, 0xc0300, 0x42080010, 0x3] 38, Put 0xffa8ae00 0x0, Put 0xffa8a14c 0x51415152,
     Put 0xffa8a150 0xc0004150, Put 0xffa8a34c 0x51415152, Put 0xffa8a350 0xc0004150, Put 0xffa8a54c 0x51415152,
     Put 0xffa8a550 0xc0004150, Put 0xffa8a74c 0x51415152, Put 0xffa8a750 0xc0004150, Put 0xffa8a004 0x68008,
     Put 0xffa8a204 0x68008, Put 0xffa8a404 0x68008, Put 0xffa8a604 0x68008, Put 0xffa8aea4 0x11d0911,
     Put 0xffa82ef4 0x2010000, Sleep 1, Sleep 1, Sleep 1, Sleep 1, Sleep 1, Sleep 1, Sleep 1, WaitPctl,
     RegCpy 0xffa820d4 [0x8200820, 0x8200820, 0x8200820, 0x8200820, 0x8200820, 0x820] 6, RegCpy 0xffa822d4 [0x8200820,
     0x8200820, 0x8200820, 0x8200820, 0x8200820, 0x820] 6, RegCpy 0xffa824d4 [0x8200820, 0x8200820, 0x8200820,
     0x8200820, 0x8200820, 0x820] 6, RegCpy 0xffa826d4 [0x8200820, 0x8200820, 0x8200820, 0x8200820, 0x8200820,
     0x820] 6, Put 0xffa80110 0x301, Put 0xffa8aef4 0x2010000, Sleep 1, Sleep 1]"

definition ddr_trace_2 :: "ddr_op list" where
  "ddr_trace_2 =
   [Sleep 1, Sleep 1, Sleep 1, Sleep 1, Sleep 1, Sleep 1, Sleep 1, Sleep 1, Sleep 1, RegCpy 0xffa8a0d4 [0x8200820,
     0x8200820, 0x8200820, 0x8200820, 0x8200820, 0x820] 6, RegCpy 0xffa8a2d4 [0x8200820, 0x8200820, 0x8200820,
     0x8200820, 0x8200820, 0x820] 6, RegCpy 0xffa8a4d4 [0x8200820, 0x8200820, 0x8200820, 0x8200820, 0x8200820,
     0x820] 6, RegCpy 0xffa8a6d4 [0x8200820, 0x8200820, 0x8200820, 0x8200820, 0x8200820, 0x820] 6,
     Put 0xffa88110 0x301, Put 0xffa8aea4 0x11d09ef, Put 0xffa80310 0xc03, Put 0xffa8400c 0x4040,
     Put 0xffa808a4 0xf000101, Sleep 1, Put 0xffa802fc 0xb000002, Put 0xffa802f8 0x202, Put 0xffa80310 0xc03,
     Put 0xffa80b1c 0x2, Put 0xffa80a6c 0x4d, Put 0xffa808a4 0xf000101, Put 0xffa84008 0x101, Put 0xffa8400c 0x2020,
     SetBits 0xff33e010 0x7c005c00, Sleep 1, Put 0x40000100 0x1, Put 0xffa801d8 0x1010500, Sleep 1, Sleep 1, Sleep 1,
     SetBits 0xffa80334 0x201000, Put 0xffa801d8 0x1010c00, Sleep 1, Sleep 1, Sleep 1, SetBits 0xffa80334 0x201000,
     Put 0xffa801d8 0x1010e00, Sleep 1, Sleep 1, Sleep 1, SetBits 0xffa80334 0x201000, SetBits 0xff33e010 0x7c000000,
     Put 0xff760410 0x3000300, Sleep 10, Put 0xff760410 0x3000100, Sleep 10, Put 0xff760410 0x3000000, Sleep 10,
     SetBits 0xffa82158 0xc00, SetBits 0xffa82358 0xc00, SetBits 0xffa82558 0xc00, SetBits 0xffa82758 0xc00,
     SetBits 0xffa8288c 0xc0000, SetBits 0xffa82a8c 0xc0000, SetBits 0xffa82c8c 0xc0000, RegCpy 0xffa80004 [0x0, 0x0,
     0x0, 0x0, 0x13880, 0xc3500, 0x5, 0x320, 0x27100, 0x186a00, 0x5, 0x640, 0x2710, 0x186a0, 0x5, 0x1000064, 0x0,
     0x2020101, 0x102, 0x50, 0xc8, 0x0, 0x6140000, 0x81c00, 0x400040c, 0x19042008, 0x10080a11, 0x22310800, 0x200f0a,
     0xa030704, 0x8000204, 0xa0a, 0x4006db0, 0xa0a0804, 0x600db60, 0xa0a0806, 0x4000db6, 0x2030404, 0xf0a0800,
     0x8040411, 0x1400640a, 0x2010a0a, 0x10001, 0x4082012, 0x41109, 0x0, 0x3010000, 0x6100048, 0xc280090, 0xbb0009,
     0x0, 0x60005, 0xa0005, 0xa0014, 0x1000000, 0x30a0000, 0xc000002, 0x103, 0x5030a, 0x60037, 0x5006e, 0x5050007,
     0x3030605, 0x6050301, 0x6030c05, 0x5050302, 0x3030305, 0x301, 0x301, 0x1, 0x0, 0x0, 0x1000000, 0x80104002,
     0x40003, 0x40005, 0x30000, 0x50004, 0x4, 0x40003, 0x40005, 0x18400000, 0xc20, 0x185030a0, 0x2ec0000, 0x176, 0x0,
     0x0, 0x0, 0x0, 0x0, 0x6030300, 0x30303, 0x2030200, 0x40703, 0x3020302, 0x2000407, 0x7030203, 0x30f04, 0x70004,
     0x0, 0x0, 0x0, 0x0, 0x0, 0x0, 0x0, 0x10000, 0x20040020, 0x200400, 0x1000400, 0xb80, 0x0, 0x1, 0x2, 0xe, 0x0, 0x0,
     0x0, 0x0, 0x0, 0x500000, 0x640028, 0x640404, 0x5000a0, 0x60600c8, 0xa00c8, 0xd0005, 0xd0404, 0x0, 0x0, 0x0,
     0x1400a3, 0xe30009, 0x120024, 0x40063, 0x0, 0x310031, 0x31, 0x4d0000, 0x72004d, 0x4d0000, 0x72004d, 0x10101, 0x0,
     0x0, 0x1400a3, 0xe30009, 0x120024, 0x40063, 0x0, 0x310031, 0x31, 0x4d0000, 0x72004d, 0x4d0000, 0x72004d, 0x10101,
     0x180000, 0x180018, 0x0, 0x1, 0x0, 0x18151100, 0xc, 0x0, 0x0, 0x0, 0x0, 0x0, 0x0, 0x0, 0x0, 0x0, 0x0, 0x0, 0x0,
     0x0, 0x20003, 0x400100, 0xc0190, 0x1000200, 0x3200040, 0x20018, 0x400100, 0x80032, 0x140000, 0x30028, 0x1010100,
     0x2000202, 0xb000002, 0x1000f0f, 0x0, 0x0, 0x10003, 0xc03, 0x40101, 0x4010100, 0x1000000, 0x3010000, 0x1, 0x0,
     0x0, 0x0, 0x0, 0x0, 0x0, 0x0, 0x0, 0x0, 0x10000, 0x1, 0x1010001, 0x5040001, 0x40a0703, 0x2080808, 0x20e000a,
     0x20f010b, 0xd0008, 0x80b0a, 0x3000200, 0x100, 0x0, 0x0, 0xd000001, 0x28, 0x10000, 0x3, 0x0, 0x0, 0x0, 0x0, 0x0,
     0x0, 0x0, 0x0, 0x10100, 0x1000000, 0x1, 0x303, 0x0, 0x0, 0x0, 0x0, 0x0, 0x0, 0x0, 0x0, 0x0, 0x0, 0x0, 0x0, 0x0,
     0x0, 0x0, 0x556aa, 0xaaaaa, 0xaa955, 0x55555, 0xb3133, 0x4cd33, 0x4cecc, 0xb32cc, 0x10300, 0x3000100, 0x0, 0x0,
     0x0, 0x0, 0x0, 0x0, 0x0, 0x0, 0xffff00, 0x1a160000, 0x8000012, 0xc20, 0x200, 0x200, 0x200, 0x200, 0xc20, 0x7940,
     0x18500409, 0x200, 0x200, 0x200, 0x200, 0x1850, 0xf320, 0x176060c, 0x200, 0x200, 0x200, 0x200, 0x176, 0xe9c,
     0x2020205, 0x3030202, 0x18, 0x0, 0x0, 0x1403, 0x0, 0x0, 0x0, 0x30000, 0xa001c, 0xe0020, 0x60018, 0x0, 0x0,
     0x2000000, 0x90305, 0x50101, 0x0, 0x0, 0x0, 0x0, 0x0, 0x0, 0x0, 0x0, 0x1000001, 0x1010101, 0x1000101, 0x1000100,
     0x10001, 0x10002, 0x20100, 0x2] 331, Put 0xffa80000 0xb00, RegCpy 0xffa80800 [0xb00, 0x0, 0x2ec, 0x176, 0x30a0,
     0x1850, 0x1840, 0x1760c20, 0x200, 0x200, 0x200, 0x200, 0x1850, 0x200, 0x200, 0x200, 0x200, 0xc20, 0x200, 0x200,
     0x200, 0x200, 0x10000, 0x7, 0x1000001, 0x0, 0x3fffffff, 0x0, 0x0, 0x0, 0x0, 0x0, 0x0, 0x0, 0x0, 0x0, 0x0, 0x0,
     0x0, 0x0, 0x0, 0xf000101, 0x82b3223, 0x80c0004, 0x61c00, 0x1000314, 0xbb0009, 0xc280090, 0x6100048, 0x500, 0x0,
     0x0, 0x0, 0x0, 0x0, 0x0, 0x0, 0x0, 0x4040101, 0xa000004, 0x128, 0x1000000, 0x3000f, 0x18, 0x0, 0x0, 0x60002,
     0x10001, 0x101, 0x20001, 0x80004, 0x0, 0x5030000, 0x70a0404, 0x0, 0x0, 0x1000000, 0xf0f01, 0x1e, 0x0, 0x1010300,
     0x0, 0x0, 0x1000000, 0x101, 0x55555a5a, 0x55555a5a, 0x55555a5a, 0x55555a5a, 0xc050001, 0x6020009, 0x10004, 0x203,
     0x30000, 0x170f0000, 0x60018, 0xe0020, 0xa001c, 0x0, 0x0, 0x100, 0x140a0000, 0xd010a, 0x100c802, 0x10a0064,
     0xe0100, 0x100000e, 0xc900c9, 0x650100, 0x1e1a0065, 0x10010204, 0x6070605, 0x20000202, 0x201000, 0x201000,
     0x4041000, 0x10020100, 0x3010c, 0x4b004a, 0x1a0f0000, 0x102041e, 0x34000000, 0x0, 0x0, 0x10000, 0x400, 0x310000,
     0x727200, 0x120024, 0x4d000031, 0x144d, 0x310009, 0x4d4d00, 0x4, 0x72000031, 0x2472, 0x310012, 0x4d4d00, 0x90014,
     0x4d000031, 0x4004d, 0x310000, 0x727200, 0x120024, 0x4d000031, 0x144d, 0x310009, 0x4d4d00, 0x4, 0x72000031,
     0x2472, 0x310012, 0x4d4d00, 0x90014, 0x4d000031, 0x200004d, 0xc8000d, 0x8080064, 0x40a0404, 0x3000d92, 0x10a2001,
     0xf11080a, 0x110a, 0x2200d92e, 0x80c2003, 0x809080a, 0xa0a, 0x11006c97, 0x40a2002, 0x200020a, 0x2000200,
     0x2000200, 0x2000200, 0x2000200, 0x0, 0x0, 0x0, 0x0, 0x0, 0x0, 0x0, 0x0, 0x0, 0x0, 0x0, 0x0, 0x1000400, 0x17600,
     0xe9c, 0x1850, 0xf320, 0xc20, 0x7940, 0x8000000, 0x100, 0x0, 0x0, 0x0, 0x0, 0x2] 200, Put 0xffa802fc 0xb000002,
     Put 0xffa802f8 0x202, Put 0xffa80310 0xc03, Put 0xffa80b1c 0x2, Put 0xffa80a6c 0x4d, Put 0xffa808a4 0xf000101,
     Put 0xffa82e38 0x6400, Put 0xffa82e3c 0x9221902, Put 0xffa82e40 0x0, Put 0xffa82e08 0x5,
     Put 0xffa82e5c 0x9221902, Sleep 1, Put 0xffa80110 0x301, Put 0xffa82ef4 0x1000000, SetBits 0xffa80800 0x1,
     SetBits 0xffa80000 0x1, RegCpy 0xffa82e00 [0x0, 0x0, 0x5, 0x4000f01, 0x20040, 0x20055, 0x0, 0x0, 0x0, 0x50, 0x0,
     0x1010100, 0x600, 0x0, 0x6400, 0x9221902, 0x0, 0xd3101, 0xd310d31, 0xd030d31, 0x30003, 0x3000300, 0x300,
     0x9221902, 0x0, 0x0, 0x1020000, 0x1, 0x4249ef, 0x11ef, 0x11d09, 0x46509, 0x11d09ef, 0x46509ef, 0x4410, 0x4410,
     0x4410, 0x4410, 0x4410, 0x11d09ef, 0x4410, 0x11d09ef, 0x4410, 0x11d09ef, 0x4410, 0x0, 0x0, 0x0, 0x64000000, 0x0,
     0x0, 0x108, 0x0, 0x0, 0x0, 0x0, 0x0, 0x0, 0xe4000000, 0x0, 0x0, 0x1010000, 0x0] 63,
     RegCpy 0xffa82000 [0x76543210, 0x4f008, 0x30159, 0x0, 0x0, 0x0, 0xef00, 0x300ef00, 0x10f00, 0x4000100, 0x10000,
     0x170180, 0xcc0201, 0x30066, 0x0, 0x0, 0x0, 0x0, 0x0, 0x0, 0x0, 0x0, 0x4080000, 0x4080400, 0x30000000, 0xc00c007,
     0x100, 0x0, 0xfd02fe01, 0xf708fb04, 0xdf20ef10, 0x7f80bf40, 0x1aaaa, 0x0, 0x0, 0x0, 0x0, 0x0, 0x0, 0x0, 0x0, 0x0,
     0x0, 0x0, 0x0, 0x0, 0x0, 0x0, 0x0, 0x0, 0x0, 0x0, 0x200000, 0x0, 0x0, 0x0, 0x0, 0x0, 0x0, 0x2800280, 0x2800280,
     0x2800280, 0x2800280, 0x280, 0x0, 0x0, 0x0, 0x0, 0x800000, 0x800080, 0x800080, 0x800080, 0x800080, 0x800080,
     0x800080, 0x800080, 0x800080, 0x1590080, 0x0, 0x0, 0x0, 0x200, 0x0, 0x51315152, 0xc0003150, 0x10000c0, 0x100c00,
     0x7044204, 0xf0c18, 0x1000140, 0xc10] 91, RegCpy 0xffa82200 [0x76543210, 0x4f008, 0x30159, 0x0, 0x0, 0x0, 0xef00,
     0x300ef00, 0x10f00, 0x4000100, 0x10000, 0x170180, 0xcc0201, 0x30066, 0x0, 0x0, 0x0, 0x0, 0x0, 0x0, 0x0, 0x0,
     0x4080000, 0x4080400, 0x30000000, 0xc00c007, 0x100, 0x0, 0xfd02fe01, 0xf708fb04, 0xdf20ef10, 0x7f80bf40, 0xaaaa,
     0x0, 0x0, 0x0, 0x0, 0x0, 0x0, 0x0, 0x0, 0x0, 0x0, 0x0, 0x0, 0x0, 0x0, 0x0, 0x0, 0x0, 0x0, 0x0, 0x200000, 0x0,
     0x0, 0x0, 0x0, 0x0, 0x0, 0x2800280, 0x2800280, 0x2800280, 0x2800280, 0x280, 0x0, 0x0, 0x0, 0x0, 0x800000,
     0x800080, 0x800080, 0x800080, 0x800080, 0x800080, 0x800080, 0x800080, 0x800080, 0x1590080, 0x0, 0x0, 0x0, 0x200,
     0x0, 0x51315152, 0xc0003150, 0x10000c0, 0x100c00, 0x7044204, 0xf0c18, 0x1000140, 0xc10] 91,
     RegCpy 0xffa82400 [0x76543210, 0x4f008, 0x30159, 0x0, 0x0, 0x0, 0xef00, 0x300ef00, 0x10f00, 0x4000100, 0x10000,
     0x170180, 0xcc0201, 0x30066, 0x0, 0x0, 0x0, 0x0, 0x0, 0x0, 0x0, 0x0, 0x4080000, 0x4080400, 0x30000000, 0xc00c007,
     0x100, 0x0, 0xfd02fe01, 0xf708fb04, 0xdf20ef10, 0x7f80bf40, 0x1aaaa, 0x0, 0x0, 0x0, 0x0, 0x0, 0x0, 0x0, 0x0, 0x0,
     0x0, 0x0, 0x0, 0x0, 0x0, 0x0, 0x0, 0x0, 0x0, 0x0, 0x200000, 0x0, 0x0, 0x0, 0x0, 0x0, 0x0, 0x2800280, 0x2800280,
     0x2800280, 0x2800280, 0x280, 0x0, 0x0, 0x0, 0x0, 0x800000, 0x800080, 0x800080, 0x800080, 0x800080, 0x800080,
     0x800080, 0x800080, 0x800080, 0x1590080, 0x0, 0x0, 0x0, 0x200, 0x0, 0x51315152, 0xc0003150, 0x10000c0, 0x100c00,
     0x7044204, 0xf0c18, 0x1000140, 0xc10] 91, RegCpy 0xffa82600 [0x76543210, 0x4f008, 0x30159, 0x0, 0x0, 0x0, 0xef00,
     0x300ef00, 0x10f00, 0x4000100, 0x10000, 0x170180, 0xcc0201, 0x30066, 0x0, 0x0, 0x0, 0x0, 0x0, 0x0, 0x0, 0x0,
     0x4080000, 0x4080400, 0x30000000, 0xc00c007, 0x100, 0x0, 0xfd02fe01, 0xf708fb04, 0xdf20ef10, 0x7f80bf40, 0xaaaa,
     0x0, 0x0, 0x0, 0x0, 0x0, 0x0, 0x0, 0x0, 0x0, 0x0, 0x0, 0x0, 0x0, 0x0, 0x0, 0x0, 0x0, 0x0, 0x0, 0x200000, 0x0,
     0x0, 0x0, 0x0, 0x0, 0x0, 0x2800280, 0x2800280, 0x2800280, 0x2800280, 0x280, 0x0, 0x0, 0x0, 0x0, 0x800000,
     0x800080, 0x800080, 0x800080, 0x800080, 0x800080, 0x800080, 0x800080, 0x800080, 0x1590080, 0x0, 0x0, 0x0, 0x200,
     0x0, 0x51315152, 0xc0003150, 0x10000c0, 0x100c00, 0x7044204, 0xf0c18, 0x1000140, 0xc10] 91,
     RegCpy 0xffa82800 [0x0, 0x0, 0x0, 0x0, 0x0, 0x0, 0x0, 0x2, 0x0, 0x0, 0x0, 0x400320, 0x40, 0xdcba98, 0x0,
     0xdcba98, 0x1000000, 0x20003, 0x0, 0x0, 0x0, 0x2a, 0x15, 0x15, 0x2a, 0x33, 0xc, 0xc, 0x33, 0xa418820, 0x3f0000,
     0x3f, 0x300ef, 0x3000300, 0x3000300, 0xc0300, 0x42080010, 0x3] 38, RegCpy 0xffa82a00 [0x0, 0x0, 0x0, 0x0, 0x0,
     0x0, 0x0, 0x2, 0x0, 0x0, 0x0, 0x400320, 0x40, 0x0, 0x0, 0x0, 0x1000000, 0x20003, 0x0, 0x0, 0x0, 0x2a, 0x15, 0x15,
     0x2a, 0x33, 0xc, 0xc, 0x33, 0x0, 0x0, 0x0, 0x300ef, 0x3000300, 0x3000300, 0xc0300, 0x42080010, 0x3] 38,
     RegCpy 0xffa82c00 [0x0, 0x0, 0x0, 0x0, 0x0, 0x0, 0x0, 0x2, 0x0, 0x0, 0x0, 0x400320, 0x40, 0x0, 0x0, 0x0,
     0x1000000, 0x20003, 0x0, 0x0, 0x0, 0x2a, 0x15, 0x15, 0x2a, 0x33, 0xc, 0xc, 0x33, 0x1ee6b16a, 0x10000000, 0x0,
     0x300ef, 0x3000300, 0x3000300, 0xc0300, 0x42080010, 0x3] 38, Put 0xffa82e00 0x0, Put 0xffa8214c 0x51415152,
     Put 0xffa82150 0xc0004150, Put 0xffa8234c 0x51415152, Put 0xffa82350 0xc0004150, Put 0xffa8254c 0x51415152,
     Put 0xffa82550 0xc0004150, Put 0xffa8274c 0x51415152, Put 0xffa82750 0xc0004150, Put 0xffa82004 0x68008,
     Put 0xffa82204 0x68008, Put 0xffa82404 0x68008, Put 0xffa82604 0x68008, Put 0xff760410 0x30003000, Sleep 10,
     Put 0xff760410 0x30001000, Sleep 10, Put 0xff760410 0x30000000, Sleep 10, SetBits 0xffa8a158 0xc00,
     SetBits 0xffa8a358 0xc00, SetBits 0xffa8a558 0xc00, SetBits 0xffa8a758 0xc00, SetBits 0xffa8a88c 0xc0000,
     SetBits 0xffa8aa8c 0xc0000, SetBits 0xffa8ac8c 0xc0000, RegCpy 0xffa88004 [0x0, 0x0, 0x0, 0x0, 0x13880, 0xc3500,
     0x5, 0x320, 0x27100, 0x186a00, 0x5, 0x640, 0x2710, 0x186a0, 0x5, 0x1000064, 0x0, 0x2020101, 0x102, 0x50, 0xc8,
     0x0, 0x6140000, 0x81c00, 0x400040c, 0x19042008, 0x10080a11, 0x22310800, 0x200f0a, 0xa030704, 0x8000204, 0xa0a,
     0x4006db0, 0xa0a0804, 0x600db60, 0xa0a0806, 0x4000db6, 0x2030404, 0xf0a0800, 0x8040411, 0x1400640a, 0x2010a0a,
     0x10001, 0x4082012, 0x41109, 0x0, 0x3010000, 0x6100048, 0xc280090, 0xbb0009, 0x0, 0x60005, 0xa0005, 0xa0014,
     0x1000000, 0x30a0000, 0xc000002, 0x103, 0x5030a, 0x60037, 0x5006e, 0x5050007, 0x3030605, 0x6050301, 0x6030c05,
     0x5050302, 0x3030305, 0x301, 0x301, 0x1, 0x0, 0x0, 0x1000000, 0x80104002, 0x40003, 0x40005, 0x30000, 0x50004,
     0x4, 0x40003, 0x40005, 0x18400000, 0xc20, 0x185030a0, 0x2ec0000, 0x176, 0x0, 0x0, 0x0, 0x0, 0x0, 0x6030300,
     0x30303, 0x2030200, 0x40703, 0x3020302, 0x2000407, 0x7030203, 0x30f04, 0x70004, 0x0, 0x0, 0x0, 0x0, 0x0, 0x0,
     0x0, 0x10000, 0x20040020, 0x200400, 0x1000400, 0xb80, 0x0, 0x1, 0x2, 0xe, 0x0, 0x0, 0x0, 0x0, 0x0, 0x500000,
     0x640028, 0x640404, 0x5000a0, 0x60600c8, 0xa00c8, 0xd0005, 0xd0404, 0x0, 0x0, 0x0, 0x1400a3, 0xe30009, 0x120024,
     0x40063, 0x0, 0x310031, 0x31, 0x4d0000, 0x72004d, 0x4d0000, 0x72004d, 0x10101, 0x0, 0x0, 0x1400a3, 0xe30009,
     0x120024, 0x40063, 0x0, 0x310031, 0x31, 0x4d0000, 0x72004d, 0x4d0000, 0x72004d, 0x10101, 0x180000, 0x180018, 0x0,
     0x1, 0x0, 0x18151100, 0xc, 0x0, 0x0, 0x0, 0x0, 0x0, 0x0, 0x0, 0x0, 0x0, 0x0, 0x0, 0x0, 0x0, 0x20003, 0x400100,
     0xc0190, 0x1000200, 0x3200040, 0x20018, 0x400100, 0x80032, 0x140000, 0x30028, 0x1010100, 0x2000202, 0xb000002,
     0x1000f0f, 0x0, 0x0, 0x10003, 0xc03, 0x40101, 0x4010100, 0x1000000, 0x3010000, 0x1, 0x0, 0x0, 0x0, 0x0, 0x0, 0x0,
     0x0, 0x0, 0x0, 0x10000, 0x1, 0x1010001, 0x5040001, 0x40a0703, 0x2080808, 0x20e000a, 0x20f010b, 0xd0008, 0x80b0a,
     0x3000200, 0x100, 0x0, 0x0, 0xd000001, 0x28, 0x10000, 0x3, 0x0, 0x0, 0x0, 0x0, 0x0, 0x0, 0x0, 0x0, 0x10100,
     0x1000000, 0x1, 0x303, 0x0, 0x0, 0x0, 0x0, 0x0, 0x0, 0x0, 0x0, 0x0, 0x0, 0x0, 0x0, 0x0, 0x0, 0x0, 0x556aa,
     0xaaaaa, 0xaa955, 0x55555, 0xb3133, 0x4cd33, 0x4cecc, 0xb32cc, 0x10300, 0x3000100, 0x0, 0x0, 0x0, 0x0, 0x0, 0x0,
     0x0, 0x0, 0xffff00, 0x1a160000, 0x8000012, 0xc20, 0x200, 0x200, 0x200, 0x200, 0xc20, 0x7940, 0x18500409, 0x200,
     0x200, 0x200, 0x200, 0x1850, 0xf320, 0x176060c, 0x200, 0x200, 0x200, 0x200, 0x176, 0xe9c, 0x2020205, 0x3030202,
     0x18, 0x0, 0x0, 0x1403, 0x0, 0x0, 0x0, 0x30000, 0xa001c, 0xe0020, 0x60018, 0x0, 0x0, 0x2000000, 0x90305, 0x50101,
     0x0, 0x0, 0x0, 0x0, 0x0, 0x0, 0x0, 0x0, 0x1000001, 0x1010101, 0x1000101, 0x1000100, 0x10001, 0x10002, 0x20100,
     0x2] 331, Put 0xffa88000 0xb00, Sleep 1, Put 0xffa88038 0x249f0, RegCpy 0xffa88800 [0xb00, 0x0, 0x2ec, 0x176,
     0x30a0, 0x1850, 0x1840, 0x1760c20, 0x200, 0x200, 0x200, 0x200, 0x1850, 0x200, 0x200, 0x200, 0x200, 0xc20, 0x200,
     0x200, 0x200, 0x200, 0x10000, 0x7, 0x1000001, 0x0, 0x3fffffff, 0x0, 0x0, 0x0, 0x0, 0x0, 0x0, 0x0, 0x0, 0x0, 0x0,
     0x0, 0x0, 0x0, 0x0, 0xf000101, 0x82b3223, 0x80c0004, 0x61c00, 0x1000314, 0xbb0009, 0xc280090, 0x6100048, 0x500,
     0x0, 0x0, 0x0, 0x0, 0x0, 0x0, 0x0, 0x0, 0x4040101, 0xa000004, 0x128, 0x1000000, 0x3000f, 0x18, 0x0, 0x0, 0x60002,
     0x10001, 0x101, 0x20001, 0x80004, 0x0, 0x5030000, 0x70a0404, 0x0, 0x0, 0x1000000, 0xf0f01, 0x1e, 0x0, 0x1010300,
     0x0, 0x0, 0x1000000, 0x101, 0x55555a5a, 0x55555a5a, 0x55555a5a, 0x55555a5a, 0xc050001, 0x6020009, 0x10004, 0x203,
     0x30000, 0x170f0000, 0x60018, 0xe0020, 0xa001c, 0x0, 0x0, 0x100, 0x140a0000, 0xd010a, 0x100c802, 0x10a0064,
     0xe0100, 0x100000e, 0xc900c9, 0x650100, 0x1e1a0065, 0x10010204, 0x6070605, 0x20000202, 0x201000, 0x201000,
     0x4041000, 0x10020100, 0x3010c, 0x4b004a, 0x1a0f0000, 0x102041e, 0x34000000, 0x0, 0x0, 0x10000, 0x400, 0x310000,
     0x727200, 0x120024, 0x4d000031, 0x144d, 0x310009, 0x4d4d00, 0x4, 0x72000031, 0x2472, 0x310012, 0x4d4d00, 0x90014,
     0x4d000031, 0x4004d, 0x310000, 0x727200, 0x120024, 0x4d000031, 0x144d, 0x310009, 0x4d4d00, 0x4, 0x72000031,
     0x2472, 0x310012, 0x4d4d00, 0x90014, 0x4d000031, 0x200004d, 0xc8000d, 0x8080064, 0x40a0404, 0x3000d92, 0x10a2001,
     0xf11080a, 0x110a, 0x2200d92e, 0x80c2003, 0x809080a, 0xa0a, 0x11006c97, 0x40a2002, 0x200020a, 0x2000200,
     0x2000200, 0x2000200, 0x2000200, 0x0, 0x0, 0x0, 0x0, 0x0, 0x0, 0x0, 0x0, 0x0, 0x0, 0x0, 0x0, 0x1000400, 0x17600,
     0xe9c, 0x1850, 0xf320, 0xc20, 0x7940, 0x8000000, 0x100, 0x0, 0x0, 0x0, 0x0, 0x2] 200, Put 0xffa882fc 0xb000002,
     Put 0xffa882f8 0x202, Put 0xffa88310 0xc03, Put 0xffa88b1c 0x2, Put 0xffa88a6c 0x4d, Put 0xffa888a4 0xf000101,
     Put 0xffa8ae38 0x6400, Put 0xffa8ae3c 0x9221902, Put 0xffa8ae40 0x0, Put 0xffa8ae08 0x5,
     Put 0xffa8ae5c 0x9221902, Sleep 1, Put 0xffa88110 0x301, Put 0xffa8aef4 0x1000000, SetBits 0xffa88800 0x1,
     SetBits 0xffa88000 0x1]"

definition ddr_trace_3 :: "ddr_op list" where
  "ddr_trace_3 =
   [RegCpy 0xffa8ae00 [0x0, 0x0, 0x5, 0x4000f01, 0x20040, 0x20055, 0x0, 0x0, 0x0, 0x50, 0x0, 0x1010100, 0x600, 0x0,
     0x6400, 0x9221902, 0x0, 0xd3101, 0xd310d31, 0xd030d31, 0x30003, 0x3000300, 0x300, 0x9221902, 0x0, 0x0, 0x1020000,
     0x1, 0x4249ef, 0x11ef, 0x11d09, 0x46509, 0x11d09ef, 0x46509ef, 0x4410, 0x4410, 0x4410, 0x4410, 0x4410, 0x11d09ef,
     0x4410, 0x11d09ef, 0x4410, 0x11d09ef, 0x4410, 0x0, 0x0, 0x0, 0x64000000, 0x0, 0x0, 0x108, 0x0, 0x0, 0x0, 0x0,
     0x0, 0x0, 0xe4000000, 0x0, 0x0, 0x1010000, 0x0] 63, RegCpy 0xffa8a000 [0x76543210, 0x4f008, 0x30159, 0x0, 0x0,
     0x0, 0xef00, 0x300ef00, 0x10f00, 0x4000100, 0x10000, 0x170180, 0xcc0201, 0x30066, 0x0, 0x0, 0x0, 0x0, 0x0, 0x0,
     0x0, 0x0, 0x4080000, 0x4080400, 0x30000000, 0xc00c007, 0x100, 0x0, 0xfd02fe01, 0xf708fb04, 0xdf20ef10,
     0x7f80bf40, 0x1aaaa, 0x0, 0x0, 0x0, 0x0, 0x0, 0x0, 0x0, 0x0, 0x0, 0x0, 0x0, 0x0, 0x0, 0x0, 0x0, 0x0, 0x0, 0x0,
     0x0, 0x200000, 0x0, 0x0, 0x0, 0x0, 0x0, 0x0, 0x2800280, 0x2800280, 0x2800280, 0x2800280, 0x280, 0x0, 0x0, 0x0,
     0x0, 0x800000, 0x800080, 0x800080, 0x800080, 0x800080, 0x800080, 0x800080, 0x800080, 0x800080, 0x1590080, 0x0,
     0x0, 0x0, 0x200, 0x0, 0x51315152, 0xc0003150, 0x10000c0, 0x100c00, 0x7044204, 0xf0c18, 0x1000140, 0xc10] 91,
     RegCpy 0xffa8a200 [0x76543210, 0x4f008, 0x30159, 0x0, 0x0, 0x0, 0xef00, 0x300ef00, 0x10f00, 0x4000100, 0x10000,
     0x170180, 0xcc0201, 0x30066, 0x0, 0x0, 0x0, 0x0, 0x0, 0x0, 0x0, 0x0, 0x4080000, 0x4080400, 0x30000000, 0xc00c007,
     0x100, 0x0, 0xfd02fe01, 0xf708fb04, 0xdf20ef10, 0x7f80bf40, 0xaaaa, 0x0, 0x0, 0x0, 0x0, 0x0, 0x0, 0x0, 0x0, 0x0,
     0x0, 0x0, 0x0, 0x0, 0x0, 0x0, 0x0, 0x0, 0x0, 0x0, 0x200000, 0x0, 0x0, 0x0, 0x0, 0x0, 0x0, 0x2800280, 0x2800280,
     0x2800280, 0x2800280, 0x280, 0x0, 0x0, 0x0, 0x0, 0x800000, 0x800080, 0x800080, 0x800080, 0x800080, 0x800080,
     0x800080, 0x800080, 0x800080, 0x1590080, 0x0, 0x0, 0x0, 0x200, 0x0, 0x51315152, 0xc0003150, 0x10000c0, 0x100c00,
     0x7044204, 0xf0c18, 0x1000140, 0xc10] 91, RegCpy 0xffa8a400 [0x76543210, 0x4f008, 0x30159, 0x0, 0x0, 0x0, 0xef00,
     0x300ef00, 0x10f00, 0x4000100, 0x10000, 0x170180, 0xcc0201, 0x30066, 0x0, 0x0, 0x0, 0x0, 0x0, 0x0, 0x0, 0x0,
     0x4080000, 0x4080400, 0x30000000, 0xc00c007, 0x100, 0x0, 0xfd02fe01, 0xf708fb04, 0xdf20ef10, 0x7f80bf40, 0x1aaaa,
     0x0, 0x0, 0x0, 0x0, 0x0, 0x0, 0x0, 0x0, 0x0, 0x0, 0x0, 0x0, 0x0, 0x0, 0x0, 0x0, 0x0, 0x0, 0x0, 0x200000, 0x0,
     0x0, 0x0, 0x0, 0x0, 0x0, 0x2800280, 0x2800280, 0x2800280, 0x2800280, 0x280, 0x0, 0x0, 0x0, 0x0, 0x800000,
     0x800080, 0x800080, 0x800080, 0x800080, 0x800080, 0x800080, 0x800080, 0x800080, 0x1590080, 0x0, 0x0, 0x0, 0x200,
     0x0, 0x51315152, 0xc0003150, 0x10000c0, 0x100c00, 0x7044204, 0xf0c18, 0x1000140, 0xc10] 91,
     RegCpy 0xffa8a600 [0x76543210, 0x4f008, 0x30159, 0x0, 0x0, 0x0, 0xef00, 0x300ef00, 0x10f00, 0x4000100, 0x10000,
     0x170180, 0xcc0201, 0x30066, 0x0, 0x0, 0x0, 0x0, 0x0, 0x0, 0x0, 0x0, 0x4080000, 0x4080400, 0x30000000, 0xc00c007,
     0x100, 0x0, 0xfd02fe01, 0xf708fb04, 0xdf20ef10, 0x7f80bf40, 0xaaaa, 0x0, 0x0, 0x0, 0x0, 0x0, 0x0, 0x0, 0x0, 0x0,
     0x0, 0x0, 0x0, 0x0, 0x0, 0x0, 0x0, 0x0, 0x0, 0x0, 0x200000, 0x0, 0x0, 0x0, 0x0, 0x0, 0x0, 0x2800280, 0x2800280,
     0x2800280, 0x2800280, 0x280, 0x0, 0x0, 0x0, 0x0, 0x800000, 0x800080, 0x800080, 0x800080, 0x800080, 0x800080,
     0x800080, 0x800080, 0x800080, 0x1590080, 0x0, 0x0, 0x0, 0x200, 0x0, 0x51315152, 0xc0003150, 0x10000c0, 0x100c00,
     0x7044204, 0xf0c18, 0x1000140, 0xc10] 91, RegCpy 0xffa8a800 [0x0, 0x0, 0x0, 0x0, 0x0, 0x0, 0x0, 0x2, 0x0, 0x0,
     0x0, 0x400320, 0x40, 0xdcba98, 0x0, 0xdcba98, 0x1000000, 0x20003, 0x0, 0x0, 0x0, 0x2a, 0x15, 0x15, 0x2a, 0x33,
     0xc, 0xc, 0x33, 0xa418820, 0x3f0000, 0x3f, 0x300ef, 0x3000300, 0x3000300, 0xc0300, 0x42080010, 0x3] 38,
     RegCpy 0xffa8aa00 [0x0, 0x0, 0x0, 0x0, 0x0, 0x0, 0x0, 0x2, 0x0, 0x0, 0x0, 0x400320, 0x40, 0x0, 0x0, 0x0,
     0x1000000, 0x20003, 0x0, 0x0, 0x0, 0x2a, 0x15, 0x15, 0x2a, 0x33, 0xc, 0xc, 0x33, 0x0, 0x0, 0x0, 0x300ef,
     0x3000300, 0x3000300, 0xc0300, 0x42080010, 0x3] 38, RegCpy 0xffa8ac00 [0x0, 0x0, 0x0, 0x0, 0x0, 0x0, 0x0, 0x2,
     0x0, 0x0, 0x0, 0x400320, 0x40, 0x0, 0x0, 0x0, 0x1000000, 0x20003, 0x0, 0x0, 0x0, 0x2a, 0x15, 0x15, 0x2a, 0x33,
     0xc, 0xc, 0x33, 0x1ee6b16a, 0x10000000, 0x0, 0x300ef, 0x3000300, 0x3000300, 0xc0300, 0x42080010, 0x3] 38,
     Put 0xffa8ae00 0x0, Put 0xffa8a14c 0x51415152, Put 0xffa8a150 0xc0004150, Put 0xffa8a34c 0x51415152,
     Put 0xffa8a350 0xc0004150, Put 0xffa8a54c 0x51415152, Put 0xffa8a550 0xc0004150, Put 0xffa8a74c 0x51415152,
     Put 0xffa8a750 0xc0004150, Put 0xffa8a004 0x68008, Put 0xffa8a204 0x68008, Put 0xffa8a404 0x68008,
     Put 0xffa8a604 0x68008, Put 0xffa8aea4 0x11d0911, Put 0xffa82ef4 0x2010000, Sleep 1, Sleep 1, Sleep 1, Sleep 1,
     Sleep 1, Sleep 1, Sleep 1, WaitPctl, RegCpy 0xffa820d4 [0x8200820, 0x8200820, 0x8200820, 0x8200820, 0x8200820,
     0x820] 6, RegCpy 0xffa822d4 [0x8200820, 0x8200820, 0x8200820, 0x8200820, 0x8200820, 0x820] 6,
     RegCpy 0xffa824d4 [0x8200820, 0x8200820, 0x8200820, 0x8200820, 0x8200820, 0x820] 6, RegCpy 0xffa826d4 [0x8200820,
     0x8200820, 0x8200820, 0x8200820, 0x8200820, 0x820] 6, Put 0xffa80110 0x301, Put 0xffa8aef4 0x2010000, Sleep 1,
     Sleep 1, Sleep 1, Sleep 1, Sleep 1, Sleep 1, Sleep 1, Sleep 1, Sleep 1, Sleep 1, Sleep 1,
     RegCpy 0xffa8a0d4 [0x8200820, 0x8200820, 0x8200820, 0x8200820, 0x8200820, 0x820] 6, RegCpy 0xffa8a2d4 [0x8200820,
     0x8200820, 0x8200820, 0x8200820, 0x8200820, 0x820] 6, RegCpy 0xffa8a4d4 [0x8200820, 0x8200820, 0x8200820,
     0x8200820, 0x8200820, 0x820] 6, RegCpy 0xffa8a6d4 [0x8200820, 0x8200820, 0x8200820, 0x8200820, 0x8200820,
     0x820] 6, Put 0xffa88110 0x301, Put 0xffa8aea4 0x11d09ef, Put 0xffa80310 0xc01, Put 0xffa8400c 0x4040,
     Put 0xffa808a4 0x5000101, Sleep 1, Put 0xffa802fc 0xb000002, Put 0xffa802f8 0x202, Put 0xffa80310 0xc03,
     Put 0xffa80b1c 0x2, Put 0xffa80a6c 0x4d, Put 0xffa808a4 0xf000101, Put 0xffa84008 0x101, Put 0xffa8400c 0x2020,
     SetBits 0xff33e010 0x7c005c00, Sleep 1, Put 0x100 0x1, Put 0xffa801d8 0x1000500, Sleep 1, Sleep 1, Sleep 1,
     SetBits 0xffa80334 0x201000, Put 0xffa801d8 0x1000c00, Sleep 1, Sleep 1, Sleep 1, SetBits 0xffa80334 0x201000,
     Put 0xffa801d8 0x1000e00, Sleep 1, Sleep 1, Sleep 1, SetBits 0xffa80334 0x201000, SetBits 0xff33e010 0x7c000000,
     Put 0xff760410 0x3000300, Sleep 10, Put 0xff760410 0x3000100, Sleep 10, Put 0xff760410 0x3000000, Sleep 10,
     SetBits 0xffa82158 0xc00, SetBits 0xffa82358 0xc00, SetBits 0xffa82558 0xc00, SetBits 0xffa82758 0xc00,
     SetBits 0xffa8288c 0xc0000, SetBits 0xffa82a8c 0xc0000, SetBits 0xffa82c8c 0xc0000, RegCpy 0xffa80004 [0x0, 0x0,
     0x0, 0x0, 0x13880, 0xc3500, 0x5, 0x320, 0x27100, 0x186a00, 0x5, 0x640, 0x2710, 0x186a0, 0x5, 0x1000064, 0x0,
     0x2020101, 0x102, 0x50, 0xc8, 0x0, 0x6140000, 0x81c00, 0x400040c, 0x19042008, 0x10080a11, 0x22310800, 0x200f0a,
     0xa030704, 0x8000204, 0xa0a, 0x4006db0, 0xa0a0804, 0x600db60, 0xa0a0806, 0x4000db6, 0x2030404, 0xf0a0800,
     0x8040411, 0x1400640a, 0x2010a0a, 0x10001, 0x4082012, 0x41109, 0x0, 0x3010000, 0x6100048, 0xc280090, 0xbb0009,
     0x0, 0x60005, 0xa0005, 0xa0014, 0x1000000, 0x30a0000, 0xc000002, 0x103, 0x5030a, 0x60037, 0x5006e, 0x5050007,
     0x3030605, 0x6050301, 0x6030c05, 0x5050302, 0x3030305, 0x301, 0x301, 0x1, 0x0, 0x0, 0x1000000, 0x80104002,
     0x40003, 0x40005, 0x30000, 0x50004, 0x4, 0x40003, 0x40005, 0x18400000, 0xc20, 0x185030a0, 0x2ec0000, 0x176, 0x0,
     0x0, 0x0, 0x0, 0x0, 0x6030300, 0x30303, 0x2030200, 0x40703, 0x3020302, 0x2000407, 0x7030203, 0x30f04, 0x70004,
     0x0, 0x0, 0x0, 0x0, 0x0, 0x0, 0x0, 0x10000, 0x20040020, 0x200400, 0x1000400, 0xb80, 0x0, 0x1, 0x2, 0xe, 0x0, 0x0,
     0x0, 0x0, 0x0, 0x500000, 0x640028, 0x640404, 0x5000a0, 0x60600c8, 0xa00c8, 0xd0005, 0xd0404, 0x0, 0x0, 0x0,
     0x1400a3, 0xe30009, 0x120024, 0x40063, 0x0, 0x310031, 0x31, 0x4d0000, 0x72004d, 0x4d0000, 0x72004d, 0x10101, 0x0,
     0x0, 0x1400a3, 0xe30009, 0x120024, 0x40063, 0x0, 0x310031, 0x31, 0x4d0000, 0x72004d, 0x4d0000, 0x72004d, 0x10101,
     0x180000, 0x180018, 0x0, 0x1, 0x0, 0x18151100, 0xc, 0x0, 0x0, 0x0, 0x0, 0x0, 0x0, 0x0, 0x0, 0x0, 0x0, 0x0, 0x0,
     0x0, 0x20003, 0x400100, 0xc0190, 0x1000200, 0x3200040, 0x20018, 0x400100, 0x80032, 0x140000, 0x30028, 0x1010100,
     0x2000202, 0xb000002, 0x1000f0f, 0x0, 0x0, 0x10003, 0xc03, 0x40101, 0x4010100, 0x1000000, 0x3010000, 0x1, 0x0,
     0x0, 0x0, 0x0, 0x0, 0x0, 0x0, 0x0, 0x0, 0x10000, 0x1, 0x1010001, 0x5040001, 0x40a0703, 0x2080808, 0x20e000a,
     0x20f010b, 0xd0008, 0x80b0a, 0x3000200, 0x100, 0x0, 0x0, 0xd000001, 0x28, 0x10000, 0x3, 0x0, 0x0, 0x0, 0x0, 0x0,
     0x0, 0x0, 0x0, 0x10100, 0x1000000, 0x1, 0x303, 0x0, 0x0, 0x0, 0x0, 0x0, 0x0, 0x0, 0x0, 0x0, 0x0, 0x0, 0x0, 0x0,
     0x0, 0x0, 0x556aa, 0xaaaaa, 0xaa955, 0x55555, 0xb3133, 0x4cd33, 0x4cecc, 0xb32cc, 0x10300, 0x3000100, 0x0, 0x0,
     0x0, 0x0, 0x0, 0x0, 0x0, 0x0, 0xffff00, 0x1a160000, 0x8000012, 0xc20, 0x200, 0x200, 0x200, 0x200, 0xc20, 0x7940,
     0x18500409, 0x200, 0x200, 0x200, 0x200, 0x1850, 0xf320, 0x176060c, 0x200, 0x200, 0x200, 0x200, 0x176, 0xe9c,
     0x2020205, 0x3030202, 0x18, 0x0, 0x0, 0x1403, 0x0, 0x0, 0x0, 0x30000, 0xa001c, 0xe0020, 0x60018, 0x0, 0x0,
     0x2000000, 0x90305, 0x50101, 0x0, 0x0, 0x0, 0x0, 0x0, 0x0, 0x0, 0x0, 0x1000001, 0x1010101, 0x1000101, 0x1000100,
     0x10001, 0x10002, 0x20100, 0x2] 331, Put 0xffa80000 0xb00, RegCpy 0xffa80800 [0xb00, 0x0, 0x2ec, 0x176, 0x30a0,
     0x1850, 0x1840, 0x1760c20, 0x200, 0x200, 0x200, 0x200, 0x1850, 0x200, 0x200, 0x200, 0x200, 0xc20, 0x200, 0x200,
     0x200, 0x200, 0x10000, 0x7, 0x1000001, 0x0, 0x3fffffff, 0x0, 0x0, 0x0, 0x0, 0x0, 0x0, 0x0, 0x0, 0x0, 0x0, 0x0,
     0x0, 0x0, 0x0, 0xf000101, 0x82b3223, 0x80c0004, 0x61c00, 0x1000314, 0xbb0009, 0xc280090, 0x6100048, 0x500, 0x0,
     0x0, 0x0, 0x0, 0x0, 0x0, 0x0, 0x0, 0x4040101, 0xa000004, 0x128, 0x1000000, 0x3000f, 0x18, 0x0, 0x0, 0x60002,
     0x10001, 0x101, 0x20001, 0x80004, 0x0, 0x5030000, 0x70a0404, 0x0, 0x0, 0x1000000, 0xf0f01, 0x1e, 0x0, 0x1010300,
     0x0, 0x0, 0x1000000, 0x101, 0x55555a5a, 0x55555a5a, 0x55555a5a, 0x55555a5a, 0xc050001, 0x6020009, 0x10004, 0x203,
     0x30000, 0x170f0000, 0x60018, 0xe0020, 0xa001c, 0x0, 0x0, 0x100, 0x140a0000, 0xd010a, 0x100c802, 0x10a0064,
     0xe0100, 0x100000e, 0xc900c9, 0x650100, 0x1e1a0065, 0x10010204, 0x6070605, 0x20000202, 0x201000, 0x201000,
     0x4041000, 0x10020100, 0x3010c, 0x4b004a, 0x1a0f0000, 0x102041e, 0x34000000, 0x0, 0x0, 0x10000, 0x400, 0x310000,
     0x727200, 0x120024, 0x4d000031, 0x144d, 0x310009, 0x4d4d00, 0x4, 0x72000031, 0x2472, 0x310012, 0x4d4d00, 0x90014,
     0x4d000031, 0x4004d, 0x310000, 0x727200, 0x120024, 0x4d000031, 0x144d, 0x310009, 0x4d4d00, 0x4, 0x72000031,
     0x2472, 0x310012, 0x4d4d00, 0x90014, 0x4d000031, 0x200004d, 0xc8000d, 0x8080064, 0x40a0404, 0x3000d92, 0x10a2001,
     0xf11080a, 0x110a, 0x2200d92e, 0x80c2003, 0x809080a, 0xa0a, 0x11006c97, 0x40a2002, 0x200020a, 0x2000200,
     0x2000200, 0x2000200, 0x2000200, 0x0, 0x0, 0x0, 0x0, 0x0, 0x0, 0x0, 0x0, 0x0, 0x0, 0x0, 0x0, 0x1000400, 0x17600,
     0xe9c, 0x1850, 0xf320, 0xc20, 0x7940, 0x8000000, 0x100, 0x0, 0x0, 0x0, 0x0, 0x2] 200, Put 0xffa802fc 0xb000002,
     Put 0xffa802f8 0x202, Put 0xffa80310 0xc01, Put 0xffa80b1c 0x2, Put 0xffa80a6c 0x4d, Put 0xffa808a4 0x5000101,
     Put 0xffa82e38 0x6400, Put 0xffa82e3c 0x9221902, Put 0xffa82e40 0x0, Put 0xffa82e08 0x5,
     Put 0xffa82e5c 0x9221902, Sleep 1, Put 0xffa80110 0x301, Put 0xffa82ef4 0x1000000, SetBits 0xffa80800 0x1,
     SetBits 0xffa80000 0x1, RegCpy 0xffa82e00 [0x0, 0x0, 0x5, 0x4000f01, 0x20040, 0x20055, 0x0, 0x0, 0x0, 0x50, 0x0,
     0x1010100, 0x600, 0x0, 0x6400, 0x9221902, 0x0, 0xd3101, 0xd310d31, 0xd030d31, 0x30003, 0x3000300, 0x300,
     0x9221902, 0x0, 0x0, 0x1020000, 0x1, 0x4249ef, 0x11ef, 0x11d09, 0x46509, 0x11d09ef, 0x46509ef, 0x4410, 0x4410,
     0x4410, 0x4410, 0x4410, 0x11d09ef, 0x4410, 0x11d09ef, 0x4410, 0x11d09ef, 0x4410, 0x0, 0x0, 0x0, 0x64000000, 0x0,
     0x0, 0x108, 0x0, 0x0, 0x0, 0x0, 0x0, 0x0, 0xe4000000, 0x0, 0x0, 0x1010000, 0x0] 63,
     RegCpy 0xffa82000 [0x76543210, 0x4f008, 0x30159, 0x0, 0x0, 0x0, 0xef00, 0x300ef00, 0x10f00, 0x4000100, 0x10000,
     0x170180, 0xcc0201, 0x30066, 0x0, 0x0, 0x0, 0x0, 0x0, 0x0, 0x0, 0x0, 0x4080000, 0x4080400, 0x30000000, 0xc00c007,
     0x100, 0x0, 0xfd02fe01, 0xf708fb04, 0xdf20ef10, 0x7f80bf40, 0x1aaaa, 0x0, 0x0, 0x0, 0x0, 0x0, 0x0, 0x0, 0x0, 0x0,
     0x0, 0x0, 0x0, 0x0, 0x0, 0x0, 0x0, 0x0, 0x0, 0x0, 0x200000, 0x0, 0x0, 0x0, 0x0, 0x0, 0x0, 0x2800280, 0x2800280,
     0x2800280, 0x2800280, 0x280, 0x0, 0x0, 0x0, 0x0, 0x800000, 0x800080, 0x800080, 0x800080, 0x800080, 0x800080,
     0x800080, 0x800080, 0x800080, 0x1590080, 0x0, 0x0, 0x0, 0x200, 0x0, 0x51315152, 0xc0003150, 0x10000c0, 0x100c00,
     0x7044204, 0xf0c18, 0x1000140, 0xc10] 91, RegCpy 0xffa82200 [0x76543210, 0x4f008, 0x30159, 0x0, 0x0, 0x0, 0xef00,
     0x300ef00, 0x10f00, 0x4000100, 0x10000, 0x170180, 0xcc0201, 0x30066, 0x0, 0x0, 0x0, 0x0, 0x0, 0x0, 0x0, 0x0,
     0x4080000, 0x4080400, 0x30000000, 0xc00c007, 0x100, 0x0, 0xfd02fe01, 0xf708fb04, 0xdf20ef10, 0x7f80bf40, 0xaaaa,
     0x0, 0x0, 0x0, 0x0, 0x0, 0x0, 0x0, 0x0, 0x0, 0x0, 0x0, 0x0, 0x0, 0x0, 0x0, 0x0, 0x0, 0x0, 0x0, 0x200000, 0x0,
     0x0, 0x0, 0x0, 0x0, 0x0, 0x2800280, 0x2800280, 0x2800280, 0x2800280, 0x280, 0x0, 0x0, 0x0, 0x0, 0x800000,
     0x800080, 0x800080, 0x800080, 0x800080, 0x800080, 0x800080, 0x800080, 0x800080, 0x1590080, 0x0, 0x0, 0x0, 0x200,
     0x0, 0x51315152, 0xc0003150, 0x10000c0, 0x100c00, 0x7044204, 0xf0c18, 0x1000140, 0xc10] 91,
     RegCpy 0xffa82400 [0x76543210, 0x4f008, 0x30159, 0x0, 0x0, 0x0, 0xef00, 0x300ef00, 0x10f00, 0x4000100, 0x10000,
     0x170180, 0xcc0201, 0x30066, 0x0, 0x0, 0x0, 0x0, 0x0, 0x0, 0x0, 0x0, 0x4080000, 0x4080400, 0x30000000, 0xc00c007,
     0x100, 0x0, 0xfd02fe01, 0xf708fb04, 0xdf20ef10, 0x7f80bf40, 0x1aaaa, 0x0, 0x0, 0x0, 0x0, 0x0, 0x0, 0x0, 0x0, 0x0,
     0x0, 0x0, 0x0, 0x0, 0x0, 0x0, 0x0, 0x0, 0x0, 0x0, 0x200000, 0x0, 0x0, 0x0, 0x0, 0x0, 0x0, 0x2800280, 0x2800280,
     0x2800280, 0x2800280, 0x280, 0x0, 0x0, 0x0, 0x0, 0x800000, 0x800080, 0x800080, 0x800080, 0x800080, 0x800080,
     0x800080, 0x800080, 0x800080, 0x1590080, 0x0, 0x0, 0x0, 0x200, 0x0, 0x51315152, 0xc0003150, 0x10000c0, 0x100c00,
     0x7044204, 0xf0c18, 0x1000140, 0xc10] 91, RegCpy 0xffa82600 [0x76543210, 0x4f008, 0x30159, 0x0, 0x0, 0x0, 0xef00,
     0x300ef00, 0x10f00, 0x4000100, 0x10000, 0x170180, 0xcc0201, 0x30066, 0x0, 0x0, 0x0, 0x0, 0x0, 0x0, 0x0, 0x0,
     0x4080000, 0x4080400, 0x30000000, 0xc00c007, 0x100, 0x0, 0xfd02fe01, 0xf708fb04, 0xdf20ef10, 0x7f80bf40, 0xaaaa,
     0x0, 0x0, 0x0, 0x0, 0x0, 0x0, 0x0, 0x0, 0x0, 0x0, 0x0, 0x0, 0x0, 0x0, 0x0, 0x0, 0x0, 0x0, 0x0, 0x200000, 0x0,
     0x0, 0x0, 0x0, 0x0, 0x0, 0x2800280, 0x2800280, 0x2800280, 0x2800280, 0x280, 0x0, 0x0, 0x0, 0x0, 0x800000,
     0x800080, 0x800080, 0x800080, 0x800080, 0x800080, 0x800080, 0x800080, 0x800080, 0x1590080, 0x0, 0x0, 0x0, 0x200,
     0x0, 0x51315152, 0xc0003150, 0x10000c0, 0x100c00, 0x7044204, 0xf0c18, 0x1000140, 0xc10] 91,
     RegCpy 0xffa82800 [0x0, 0x0, 0x0, 0x0, 0x0, 0x0, 0x0, 0x2, 0x0, 0x0, 0x0, 0x400320, 0x40, 0xdcba98, 0x0,
     0xdcba98, 0x1000000, 0x20003, 0x0, 0x0, 0x0, 0x2a, 0x15, 0x15, 0x2a, 0x33, 0xc, 0xc, 0x33, 0xa418820, 0x3f0000,
     0x3f, 0x300ef, 0x3000300, 0x3000300, 0xc0300, 0x42080010, 0x3] 38, RegCpy 0xffa82a00 [0x0, 0x0, 0x0, 0x0, 0x0,
     0x0, 0x0, 0x2, 0x0, 0x0, 0x0, 0x400320, 0x40, 0x0, 0x0, 0x0, 0x1000000, 0x20003, 0x0, 0x0, 0x0, 0x2a, 0x15, 0x15,
     0x2a, 0x33, 0xc, 0xc, 0x33, 0x0, 0x0, 0x0, 0x300ef, 0x3000300, 0x3000300, 0xc0300, 0x42080010, 0x3] 38]"

definition ddr_trace_4 :: "ddr_op list" where
  "ddr_trace_4 =
   [RegCpy 0xffa82c00 [0x0, 0x0, 0x0, 0x0, 0x0, 0x0, 0x0, 0x2, 0x0, 0x0, 0x0, 0x400320, 0x40, 0x0, 0x0, 0x0,
     0x1000000, 0x20003, 0x0, 0x0, 0x0, 0x2a, 0x15, 0x15, 0x2a, 0x33, 0xc, 0xc, 0x33, 0x1ee6b16a, 0x10000000, 0x0,
     0x300ef, 0x3000300, 0x3000300, 0xc0300, 0x42080010, 0x3] 38, Put 0xffa82e00 0x0, Put 0xffa8214c 0x51415152,
     Put 0xffa82150 0xc0004150, Put 0xffa8234c 0x51415152, Put 0xffa82350 0xc0004150, Put 0xffa8254c 0x51415152,
     Put 0xffa82550 0xc0004150, Put 0xffa8274c 0x51415152, Put 0xffa82750 0xc0004150, Put 0xffa82004 0x68008,
     Put 0xffa82204 0x68008, Put 0xffa82404 0x68008, Put 0xffa82604 0x68008, Put 0xff760410 0x30003000, Sleep 10,
     Put 0xff760410 0x30001000, Sleep 10, Put 0xff760410 0x30000000, Sleep 10, SetBits 0xffa8a158 0xc00,
     SetBits 0xffa8a358 0xc00, SetBits 0xffa8a558 0xc00, SetBits 0xffa8a758 0xc00, SetBits 0xffa8a88c 0xc0000,
     SetBits 0xffa8aa8c 0xc0000, SetBits 0xffa8ac8c 0xc0000, RegCpy 0xffa88004 [0x0, 0x0, 0x0, 0x0, 0x13880, 0xc3500,
     0x5, 0x320, 0x27100, 0x186a00, 0x5, 0x640, 0x2710, 0x186a0, 0x5, 0x1000064, 0x0, 0x2020101, 0x102, 0x50, 0xc8,
     0x0, 0x6140000, 0x81c00, 0x400040c, 0x19042008, 0x10080a11, 0x22310800, 0x200f0a, 0xa030704, 0x8000204, 0xa0a,
     0x4006db0, 0xa0a0804, 0x600db60, 0xa0a0806, 0x4000db6, 0x2030404, 0xf0a0800, 0x8040411, 0x1400640a, 0x2010a0a,
     0x10001, 0x4082012, 0x41109, 0x0, 0x3010000, 0x6100048, 0xc280090, 0xbb0009, 0x0, 0x60005, 0xa0005, 0xa0014,
     0x1000000, 0x30a0000, 0xc000002, 0x103, 0x5030a, 0x60037, 0x5006e, 0x5050007, 0x3030605, 0x6050301, 0x6030c05,
     0x5050302, 0x3030305, 0x301, 0x301, 0x1, 0x0, 0x0, 0x1000000, 0x80104002, 0x40003, 0x40005, 0x30000, 0x50004,
     0x4, 0x40003, 0x40005, 0x18400000, 0xc20, 0x185030a0, 0x2ec0000, 0x176, 0x0, 0x0, 0x0, 0x0, 0x0, 0x6030300,
     0x30303, 0x2030200, 0x40703, 0x3020302, 0x2000407, 0x7030203, 0x30f04, 0x70004, 0x0, 0x0, 0x0, 0x0, 0x0, 0x0,
     0x0, 0x10000, 0x20040020, 0x200400, 0x1000400, 0xb80, 0x0, 0x1, 0x2, 0xe, 0x0, 0x0, 0x0, 0x0, 0x0, 0x500000,
     0x640028, 0x640404, 0x5000a0, 0x60600c8, 0xa00c8, 0xd0005, 0xd0404, 0x0, 0x0, 0x0, 0x1400a3, 0xe30009, 0x120024,
     0x40063, 0x0, 0x310031, 0x31, 0x4d0000, 0x72004d, 0x4d0000, 0x72004d, 0x10101, 0x0, 0x0, 0x1400a3, 0xe30009,
     0x120024, 0x40063, 0x0, 0x310031, 0x31, 0x4d0000, 0x72004d, 0x4d0000, 0x72004d, 0x10101, 0x180000, 0x180018, 0x0,
     0x1, 0x0, 0x18151100, 0xc, 0x0, 0x0, 0x0, 0x0, 0x0, 0x0, 0x0, 0x0, 0x0, 0x0, 0x0, 0x0, 0x0, 0x20003, 0x400100,
     0xc0190, 0x1000200, 0x3200040, 0x20018, 0x400100, 0x80032, 0x140000, 0x30028, 0x1010100, 0x2000202, 0xb000002,
     0x1000f0f, 0x0, 0x0, 0x10003, 0xc03, 0x40101, 0x4010100, 0x1000000, 0x3010000, 0x1, 0x0, 0x0, 0x0, 0x0, 0x0, 0x0,
     0x0, 0x0, 0x0, 0x10000, 0x1, 0x1010001, 0x5040001, 0x40a0703, 0x2080808, 0x20e000a, 0x20f010b, 0xd0008, 0x80b0a,
     0x3000200, 0x100, 0x0, 0x0, 0xd000001, 0x28, 0x10000, 0x3, 0x0, 0x0, 0x0, 0x0, 0x0, 0x0, 0x0, 0x0, 0x10100,
     0x1000000, 0x1, 0x303, 0x0, 0x0, 0x0, 0x0, 0x0, 0x0, 0x0, 0x0, 0x0, 0x0, 0x0, 0x0, 0x0, 0x0, 0x0, 0x556aa,
     0xaaaaa, 0xaa955, 0x55555, 0xb3133, 0x4cd33, 0x4cecc, 0xb32cc, 0x10300, 0x3000100, 0x0, 0x0, 0x0, 0x0, 0x0, 0x0,
     0x0, 0x0, 0xffff00, 0x1a160000, 0x8000012, 0xc20, 0x200, 0x200, 0x200, 0x200, 0xc20, 0x7940, 0x18500409, 0x200,
     0x200, 0x200, 0x200, 0x1850, 0xf320, 0x176060c, 0x200, 0x200, 0x200, 0x200, 0x176, 0xe9c, 0x2020205, 0x3030202,
     0x18, 0x0, 0x0, 0x1403, 0x0, 0x0, 0x0, 0x30000, 0xa001c, 0xe0020, 0x60018, 0x0, 0x0, 0x2000000, 0x90305, 0x50101,
     0x0, 0x0, 0x0, 0x0, 0x0, 0x0, 0x0, 0x0, 0x1000001, 0x1010101, 0x1000101, 0x1000100, 0x10001, 0x10002, 0x20100,
     0x2] 331, Put 0xffa88000 0xb00, Sleep 1, Put 0xffa88038 0x249f0, RegCpy 0xffa88800 [0xb00, 0x0, 0x2ec, 0x176,
     0x30a0, 0x1850, 0x1840, 0x1760c20, 0x200, 0x200, 0x200, 0x200, 0x1850, 0x200, 0x200, 0x200, 0x200, 0xc20, 0x200,
     0x200, 0x200, 0x200, 0x10000, 0x7, 0x1000001, 0x0, 0x3fffffff, 0x0, 0x0, 0x0, 0x0, 0x0, 0x0, 0x0, 0x0, 0x0, 0x0,
     0x0, 0x0, 0x0, 0x0, 0xf000101, 0x82b3223, 0x80c0004, 0x61c00, 0x1000314, 0xbb0009, 0xc280090, 0x6100048, 0x500,
     0x0, 0x0, 0x0, 0x0, 0x0, 0x0, 0x0, 0x0, 0x4040101, 0xa000004, 0x128, 0x1000000, 0x3000f, 0x18, 0x0, 0x0, 0x60002,
     0x10001, 0x101, 0x20001, 0x80004, 0x0, 0x5030000, 0x70a0404, 0x0, 0x0, 0x1000000, 0xf0f01, 0x1e, 0x0, 0x1010300,
     0x0, 0x0, 0x1000000, 0x101, 0x55555a5a, 0x55555a5a, 0x55555a5a, 0x55555a5a, 0xc050001, 0x6020009, 0x10004, 0x203,
     0x30000, 0x170f0000, 0x60018, 0xe0020, 0xa001c, 0x0, 0x0, 0x100, 0x140a0000, 0xd010a, 0x100c802, 0x10a0064,
     0xe0100, 0x100000e, 0xc900c9, 0x650100, 0x1e1a0065, 0x10010204, 0x6070605, 0x20000202, 0x201000, 0x201000,
     0x4041000, 0x10020100, 0x3010c, 0x4b004a, 0x1a0f0000, 0x102041e, 0x34000000, 0x0, 0x0, 0x10000, 0x400, 0x310000,
     0x727200, 0x120024, 0x4d000031, 0x144d, 0x310009, 0x4d4d00, 0x4, 0x72000031, 0x2472, 0x310012, 0x4d4d00, 0x90014,
     0x4d000031, 0x4004d, 0x310000, 0x727200, 0x120024, 0x4d000031, 0x144d, 0x310009, 0x4d4d00, 0x4, 0x72000031,
     0x2472, 0x310012, 0x4d4d00, 0x90014, 0x4d000031, 0x200004d, 0xc8000d, 0x8080064, 0x40a0404, 0x3000d92, 0x10a2001,
     0xf11080a, 0x110a, 0x2200d92e, 0x80c2003, 0x809080a, 0xa0a, 0x11006c97, 0x40a2002, 0x200020a, 0x2000200,
     0x2000200, 0x2000200, 0x2000200, 0x0, 0x0, 0x0, 0x0, 0x0, 0x0, 0x0, 0x0, 0x0, 0x0, 0x0, 0x0, 0x1000400, 0x17600,
     0xe9c, 0x1850, 0xf320, 0xc20, 0x7940, 0x8000000, 0x100, 0x0, 0x0, 0x0, 0x0, 0x2] 200, Put 0xffa882fc 0xb000002,
     Put 0xffa882f8 0x202, Put 0xffa88310 0xc03, Put 0xffa88b1c 0x2, Put 0xffa88a6c 0x4d, Put 0xffa888a4 0xf000101,
     Put 0xffa8ae38 0x6400, Put 0xffa8ae3c 0x9221902, Put 0xffa8ae40 0x0, Put 0xffa8ae08 0x5,
     Put 0xffa8ae5c 0x9221902, Sleep 1, Put 0xffa88110 0x301, Put 0xffa8aef4 0x1000000, SetBits 0xffa88800 0x1,
     SetBits 0xffa88000 0x1, RegCpy 0xffa8ae00 [0x0, 0x0, 0x5, 0x4000f01, 0x20040, 0x20055, 0x0, 0x0, 0x0, 0x50, 0x0,
     0x1010100, 0x600, 0x0, 0x6400, 0x9221902, 0x0, 0xd3101, 0xd310d31, 0xd030d31, 0x30003, 0x3000300, 0x300,
     0x9221902, 0x0, 0x0, 0x1020000, 0x1, 0x4249ef, 0x11ef, 0x11d09, 0x46509, 0x11d09ef, 0x46509ef, 0x4410, 0x4410,
     0x4410, 0x4410, 0x4410, 0x11d09ef, 0x4410, 0x11d09ef, 0x4410, 0x11d09ef, 0x4410, 0x0, 0x0, 0x0, 0x64000000, 0x0,
     0x0, 0x108, 0x0, 0x0, 0x0, 0x0, 0x0, 0x0, 0xe4000000, 0x0, 0x0, 0x1010000, 0x0] 63,
     RegCpy 0xffa8a000 [0x76543210, 0x4f008, 0x30159, 0x0, 0x0, 0x0, 0xef00, 0x300ef00, 0x10f00, 0x4000100, 0x10000,
     0x170180, 0xcc0201, 0x30066, 0x0, 0x0, 0x0, 0x0, 0x0, 0x0, 0x0, 0x0, 0x4080000, 0x4080400, 0x30000000, 0xc00c007,
     0x100, 0x0, 0xfd02fe01, 0xf708fb04, 0xdf20ef10, 0x7f80bf40, 0x1aaaa, 0x0, 0x0, 0x0, 0x0, 0x0, 0x0, 0x0, 0x0, 0x0,
     0x0, 0x0, 0x0, 0x0, 0x0, 0x0, 0x0, 0x0, 0x0, 0x0, 0x200000, 0x0, 0x0, 0x0, 0x0, 0x0, 0x0, 0x2800280, 0x2800280,
     0x2800280, 0x2800280, 0x280, 0x0, 0x0, 0x0, 0x0, 0x800000, 0x800080, 0x800080, 0x800080, 0x800080, 0x800080,
     0x800080, 0x800080, 0x800080, 0x1590080, 0x0, 0x0, 0x0, 0x200, 0x0, 0x51315152, 0xc0003150, 0x10000c0, 0x100c00,
     0x7044204, 0xf0c18, 0x1000140, 0xc10] 91, RegCpy 0xffa8a200 [0x76543210, 0x4f008, 0x30159, 0x0, 0x0, 0x0, 0xef00,
     0x300ef00, 0x10f00, 0x4000100, 0x10000, 0x170180, 0xcc0201, 0x30066, 0x0, 0x0, 0x0, 0x0, 0x0, 0x0, 0x0, 0x0,
     0x4080000, 0x4080400, 0x30000000, 0xc00c007, 0x100, 0x0, 0xfd02fe01, 0xf708fb04, 0xdf20ef10, 0x7f80bf40, 0xaaaa,
     0x0, 0x0, 0x0, 0x0, 0x0, 0x0, 0x0, 0x0, 0x0, 0x0, 0x0, 0x0, 0x0, 0x0, 0x0, 0x0, 0x0, 0x0, 0x0, 0x200000, 0x0,
     0x0, 0x0, 0x0, 0x0, 0x0, 0x2800280, 0x2800280, 0x2800280, 0x2800280, 0x280, 0x0, 0x0, 0x0, 0x0, 0x800000,
     0x800080, 0x800080, 0x800080, 0x800080, 0x800080, 0x800080, 0x800080, 0x800080, 0x1590080, 0x0, 0x0, 0x0, 0x200,
     0x0, 0x51315152, 0xc0003150, 0x10000c0, 0x100c00, 0x7044204, 0xf0c18, 0x1000140, 0xc10] 91,
     RegCpy 0xffa8a400 [0x76543210, 0x4f008, 0x30159, 0x0, 0x0, 0x0, 0xef00, 0x300ef00, 0x10f00, 0x4000100, 0x10000,
     0x170180, 0xcc0201, 0x30066, 0x0, 0x0, 0x0, 0x0, 0x0, 0x0, 0x0, 0x0, 0x4080000, 0x4080400, 0x30000000, 0xc00c007,
     0x100, 0x0, 0xfd02fe01, 0xf708fb04, 0xdf20ef10, 0x7f80bf40, 0x1aaaa, 0x0, 0x0, 0x0, 0x0, 0x0, 0x0, 0x0, 0x0, 0x0,
     0x0, 0x0, 0x0, 0x0, 0x0, 0x0, 0x0, 0x0, 0x0, 0x0, 0x200000, 0x0, 0x0, 0x0, 0x0, 0x0, 0x0, 0x2800280, 0x2800280,
     0x2800280, 0x2800280, 0x280, 0x0, 0x0, 0x0, 0x0, 0x800000, 0x800080, 0x800080, 0x800080, 0x800080, 0x800080,
     0x800080, 0x800080, 0x800080, 0x1590080, 0x0, 0x0, 0x0, 0x200, 0x0, 0x51315152, 0xc0003150, 0x10000c0, 0x100c00,
     0x7044204, 0xf0c18, 0x1000140, 0xc10] 91, RegCpy 0xffa8a600 [0x76543210, 0x4f008, 0x30159, 0x0, 0x0, 0x0, 0xef00,
     0x300ef00, 0x10f00, 0x4000100, 0x10000, 0x170180, 0xcc0201, 0x30066, 0x0, 0x0, 0x0, 0x0, 0x0, 0x0, 0x0, 0x0,
     0x4080000, 0x4080400, 0x30000000, 0xc00c007, 0x100, 0x0, 0xfd02fe01, 0xf708fb04, 0xdf20ef10, 0x7f80bf40, 0xaaaa,
     0x0, 0x0, 0x0, 0x0, 0x0, 0x0, 0x0, 0x0, 0x0, 0x0, 0x0, 0x0, 0x0, 0x0, 0x0, 0x0, 0x0, 0x0, 0x0, 0x200000, 0x0,
     0x0, 0x0, 0x0, 0x0, 0x0, 0x2800280, 0x2800280, 0x2800280, 0x2800280, 0x280, 0x0, 0x0, 0x0, 0x0, 0x800000,
     0x800080, 0x800080, 0x800080, 0x800080, 0x800080, 0x800080, 0x800080, 0x800080, 0x1590080, 0x0, 0x0, 0x0, 0x200,
     0x0, 0x51315152, 0xc0003150, 0x10000c0, 0x100c00, 0x7044204, 0xf0c18, 0x1000140, 0xc10] 91,
     RegCpy 0xffa8a800 [0x0, 0x0, 0x0, 0x0, 0x0, 0x0, 0x0, 0x2, 0x0, 0x0, 0x0, 0x400320, 0x40, 0xdcba98, 0x0,
     0xdcba98, 0x1000000, 0x20003, 0x0, 0x0, 0x0, 0x2a, 0x15, 0x15, 0x2a, 0x33, 0xc, 0xc, 0x33, 0xa418820, 0x3f0000,
     0x3f, 0x300ef, 0x3000300, 0x3000300, 0xc0300, 0x42080010, 0x3] 38, RegCpy 0xffa8aa00 [0x0, 0x0, 0x0, 0x0, 0x0,
     0x0, 0x0, 0x2, 0x0, 0x0, 0x0, 0x400320, 0x40, 0x0, 0x0, 0x0, 0x1000000, 0x20003, 0x0, 0x0, 0x0, 0x2a, 0x15, 0x15,
     0x2a, 0x33, 0xc, 0xc, 0x33, 0x0, 0x0, 0x0, 0x300ef, 0x3000300, 0x3000300, 0xc0300, 0x42080010, 0x3] 38,
     RegCpy 0xffa8ac00 [0x0, 0x0, 0x0, 0x0, 0x0, 0x0, 0x0, 0x2, 0x0, 0x0, 0x0, 0x400320, 0x40, 0x0, 0x0, 0x0,
     0x1000000, 0x20003, 0x0, 0x0, 0x0, 0x2a, 0x15, 0x15, 0x2a, 0x33, 0xc, 0xc, 0x33, 0x1ee6b16a, 0x10000000, 0x0,
     0x300ef, 0x3000300, 0x3000300, 0xc0300, 0x42080010, 0x3] 38, Put 0xffa8ae00 0x0, Put 0xffa8a14c 0x51415152,
     Put 0xffa8a150 0xc0004150, Put 0xffa8a34c 0x51415152, Put 0xffa8a350 0xc0004150, Put 0xffa8a54c 0x51415152,
     Put 0xffa8a550 0xc0004150, Put 0xffa8a74c 0x51415152, Put 0xffa8a750 0xc0004150, Put 0xffa8a004 0x68008,
     Put 0xffa8a204 0x68008, Put 0xffa8a404 0x68008, Put 0xffa8a604 0x68008, Put 0xffa8aea4 0x11d0911,
     Put 0xffa82ef4 0x2010000, Sleep 1, Sleep 1, Sleep 1, Sleep 1, Sleep 1, Sleep 1, Sleep 1, WaitPctl,
     RegCpy 0xffa820d4 [0x8200820, 0x8200820, 0x8200820, 0x8200820, 0x8200820, 0x820] 6, RegCpy 0xffa822d4 [0x8200820,
     0x8200820, 0x8200820, 0x8200820, 0x8200820, 0x820] 6, RegCpy 0xffa824d4 [0x8200820, 0x8200820, 0x8200820,
     0x8200820, 0x8200820, 0x820] 6, RegCpy 0xffa826d4 [0x8200820, 0x8200820, 0x8200820, 0x8200820, 0x8200820,
     0x820] 6, Put 0xffa80110 0x301, Put 0xffa8aef4 0x2010000, Sleep 1, Sleep 1, Sleep 1, Sleep 1, Sleep 1, Sleep 1,
     Sleep 1, Sleep 1, Sleep 1, Sleep 1, Sleep 1, RegCpy 0xffa8a0d4 [0x8200820, 0x8200820, 0x8200820, 0x8200820,
     0x8200820, 0x820] 6, RegCpy 0xffa8a2d4 [0x8200820, 0x8200820, 0x8200820, 0x8200820, 0x8200820, 0x820] 6,
     RegCpy 0xffa8a4d4 [0x8200820, 0x8200820, 0x8200820, 0x8200820, 0x8200820, 0x820] 6, RegCpy 0xffa8a6d4 [0x8200820,
     0x8200820, 0x8200820, 0x8200820, 0x8200820, 0x820] 6, Put 0xffa88110 0x301, Put 0xffa8aea4 0x11d09ef,
     Put 0xffa88310 0xc03, Put 0xffa8c00c 0x4040, Put 0xffa888a4 0xf000101, Sleep 1, Put 0xffa882fc 0xb000002,
     Put 0xffa882f8 0x202, Put 0xffa88310 0xc03, Put 0xffa88b1c 0x2, Put 0xffa88a6c 0x4d, Put 0xffa888a4 0xf000101,
     Put 0xffa8c008 0x101, Put 0xffa8c00c 0x2020, SetBits 0xff33e010 0x7c006000, Sleep 1, Put 0x40000100 0x1,
     Put 0xffa881d8 0x1010500, Sleep 1, Sleep 1, Sleep 1, SetBits 0xffa88334 0x201000, Put 0xffa881d8 0x1010c00,
     Sleep 1, Sleep 1, Sleep 1, SetBits 0xffa88334 0x201000, Put 0xffa881d8 0x1010e00, Sleep 1, Sleep 1, Sleep 1]"

definition ddr_trace_5 :: "ddr_op list" where
  "ddr_trace_5 =
   [SetBits 0xffa88334 0x201000, SetBits 0xff33e010 0x7c000000, Put 0xff760410 0x3000300, Sleep 10,
     Put 0xff760410 0x3000100, Sleep 10, Put 0xff760410 0x3000000, Sleep 10, SetBits 0xffa82158 0xc00,
     SetBits 0xffa82358 0xc00, SetBits 0xffa82558 0xc00, SetBits 0xffa82758 0xc00, SetBits 0xffa8288c 0xc0000,
     SetBits 0xffa82a8c 0xc0000, SetBits 0xffa82c8c 0xc0000, RegCpy 0xffa80004 [0x0, 0x0, 0x0, 0x0, 0x13880, 0xc3500,
     0x5, 0x320, 0x27100, 0x186a00, 0x5, 0x640, 0x2710, 0x186a0, 0x5, 0x1000064, 0x0, 0x2020101, 0x102, 0x50, 0xc8,
     0x0, 0x6140000, 0x81c00, 0x400040c, 0x19042008, 0x10080a11, 0x22310800, 0x200f0a, 0xa030704, 0x8000204, 0xa0a,
     0x4006db0, 0xa0a0804, 0x600db60, 0xa0a0806, 0x4000db6, 0x2030404, 0xf0a0800, 0x8040411, 0x1400640a, 0x2010a0a,
     0x10001, 0x4082012, 0x41109, 0x0, 0x3010000, 0x6100048, 0xc280090, 0xbb0009, 0x0, 0x60005, 0xa0005, 0xa0014,
     0x1000000, 0x30a0000, 0xc000002, 0x103, 0x5030a, 0x60037, 0x5006e, 0x5050007, 0x3030605, 0x6050301, 0x6030c05,
     0x5050302, 0x3030305, 0x301, 0x301, 0x1, 0x0, 0x0, 0x1000000, 0x80104002, 0x40003, 0x40005, 0x30000, 0x50004,
     0x4, 0x40003, 0x40005, 0x18400000, 0xc20, 0x185030a0, 0x2ec0000, 0x176, 0x0, 0x0, 0x0, 0x0, 0x0, 0x6030300,
     0x30303, 0x2030200, 0x40703, 0x3020302, 0x2000407, 0x7030203, 0x30f04, 0x70004, 0x0, 0x0, 0x0, 0x0, 0x0, 0x0,
     0x0, 0x10000, 0x20040020, 0x200400, 0x1000400, 0xb80, 0x0, 0x1, 0x2, 0xe, 0x0, 0x0, 0x0, 0x0, 0x0, 0x500000,
     0x640028, 0x640404, 0x5000a0, 0x60600c8, 0xa00c8, 0xd0005, 0xd0404, 0x0, 0x0, 0x0, 0x1400a3, 0xe30009, 0x120024,
     0x40063, 0x0, 0x310031, 0x31, 0x4d0000, 0x72004d, 0x4d0000, 0x72004d, 0x10101, 0x0, 0x0, 0x1400a3, 0xe30009,
     0x120024, 0x40063, 0x0, 0x310031, 0x31, 0x4d0000, 0x72004d, 0x4d0000, 0x72004d, 0x10101, 0x180000, 0x180018, 0x0,
     0x1, 0x0, 0x18151100, 0xc, 0x0, 0x0, 0x0, 0x0, 0x0, 0x0, 0x0, 0x0, 0x0, 0x0, 0x0, 0x0, 0x0, 0x20003, 0x400100,
     0xc0190, 0x1000200, 0x3200040, 0x20018, 0x400100, 0x80032, 0x140000, 0x30028, 0x1010100, 0x2000202, 0xb000002,
     0x1000f0f, 0x0, 0x0, 0x10003, 0xc03, 0x40101, 0x4010100, 0x1000000, 0x3010000, 0x1, 0x0, 0x0, 0x0, 0x0, 0x0, 0x0,
     0x0, 0x0, 0x0, 0x10000, 0x1, 0x1010001, 0x5040001, 0x40a0703, 0x2080808, 0x20e000a, 0x20f010b, 0xd0008, 0x80b0a,
     0x3000200, 0x100, 0x0, 0x0, 0xd000001, 0x28, 0x10000, 0x3, 0x0, 0x0, 0x0, 0x0, 0x0, 0x0, 0x0, 0x0, 0x10100,
     0x1000000, 0x1, 0x303, 0x0, 0x0, 0x0, 0x0, 0x0, 0x0, 0x0, 0x0, 0x0, 0x0, 0x0, 0x0, 0x0, 0x0, 0x0, 0x556aa,
     0xaaaaa, 0xaa955, 0x55555, 0xb3133, 0x4cd33, 0x4cecc, 0xb32cc, 0x10300, 0x3000100, 0x0, 0x0, 0x0, 0x0, 0x0, 0x0,
     0x0, 0x0, 0xffff00, 0x1a160000, 0x8000012, 0xc20, 0x200, 0x200, 0x200, 0x200, 0xc20, 0x7940, 0x18500409, 0x200,
     0x200, 0x200, 0x200, 0x1850, 0xf320, 0x176060c, 0x200, 0x200, 0x200, 0x200, 0x176, 0xe9c, 0x2020205, 0x3030202,
     0x18, 0x0, 0x0, 0x1403, 0x0, 0x0, 0x0, 0x30000, 0xa001c, 0xe0020, 0x60018, 0x0, 0x0, 0x2000000, 0x90305, 0x50101,
     0x0, 0x0, 0x0, 0x0, 0x0, 0x0, 0x0, 0x0, 0x1000001, 0x1010101, 0x1000101, 0x1000100, 0x10001, 0x10002, 0x20100,
     0x2] 331, Put 0xffa80000 0xb00, RegCpy 0xffa80800 [0xb00, 0x0, 0x2ec, 0x176, 0x30a0, 0x1850, 0x1840, 0x1760c20,
     0x200, 0x200, 0x200, 0x200, 0x1850, 0x200, 0x200, 0x200, 0x200, 0xc20, 0x200, 0x200, 0x200, 0x200, 0x10000, 0x7,
     0x1000001, 0x0, 0x3fffffff, 0x0, 0x0, 0x0, 0x0, 0x0, 0x0, 0x0, 0x0, 0x0, 0x0, 0x0, 0x0, 0x0, 0x0, 0xf000101,
     0x82b3223, 0x80c0004, 0x61c00, 0x1000314, 0xbb0009, 0xc280090, 0x6100048, 0x500, 0x0, 0x0, 0x0, 0x0, 0x0, 0x0,
     0x0, 0x0, 0x4040101, 0xa000004, 0x128, 0x1000000, 0x3000f, 0x18, 0x0, 0x0, 0x60002, 0x10001, 0x101, 0x20001,
     0x80004, 0x0, 0x5030000, 0x70a0404, 0x0, 0x0, 0x1000000, 0xf0f01, 0x1e, 0x0, 0x1010300, 0x0, 0x0, 0x1000000,
     0x101, 0x55555a5a, 0x55555a5a, 0x55555a5a, 0x55555a5a, 0xc050001, 0x6020009, 0x10004, 0x203, 0x30000, 0x170f0000,
     0x60018, 0xe0020, 0xa001c, 0x0, 0x0, 0x100, 0x140a0000, 0xd010a, 0x100c802, 0x10a0064, 0xe0100, 0x100000e,
     0xc900c9, 0x650100, 0x1e1a0065, 0x10010204, 0x6070605, 0x20000202, 0x201000, 0x201000, 0x4041000, 0x10020100,
     0x3010c, 0x4b004a, 0x1a0f0000, 0x102041e, 0x34000000, 0x0, 0x0, 0x10000, 0x400, 0x310000, 0x727200, 0x120024,
     0x4d000031, 0x144d, 0x310009, 0x4d4d00, 0x4, 0x72000031, 0x2472, 0x310012, 0x4d4d00, 0x90014, 0x4d000031,
     0x4004d, 0x310000, 0x727200, 0x120024, 0x4d000031, 0x144d, 0x310009, 0x4d4d00, 0x4, 0x72000031, 0x2472, 0x310012,
     0x4d4d00, 0x90014, 0x4d000031, 0x200004d, 0xc8000d, 0x8080064, 0x40a0404, 0x3000d92, 0x10a2001, 0xf11080a,
     0x110a, 0x2200d92e, 0x80c2003, 0x809080a, 0xa0a, 0x11006c97, 0x40a2002, 0x200020a, 0x2000200, 0x2000200,
     0x2000200, 0x2000200, 0x0, 0x0, 0x0, 0x0, 0x0, 0x0, 0x0, 0x0, 0x0, 0x0, 0x0, 0x0, 0x1000400, 0x17600, 0xe9c,
     0x1850, 0xf320, 0xc20, 0x7940, 0x8000000, 0x100, 0x0, 0x0, 0x0, 0x0, 0x2] 200, Put 0xffa802fc 0xb000002,
     Put 0xffa802f8 0x202, Put 0xffa80310 0xc01, Put 0xffa80b1c 0x2, Put 0xffa80a6c 0x4d, Put 0xffa808a4 0x5000101,
     Put 0xffa82e38 0x6400, Put 0xffa82e3c 0x9221902, Put 0xffa82e40 0x0, Put 0xffa82e08 0x5,
     Put 0xffa82e5c 0x9221902, Sleep 1, Put 0xffa80110 0x301, Put 0xffa82ef4 0x1000000, SetBits 0xffa80800 0x1,
     SetBits 0xffa80000 0x1, RegCpy 0xffa82e00 [0x0, 0x0, 0x5, 0x4000f01, 0x20040, 0x20055, 0x0, 0x0, 0x0, 0x50, 0x0,
     0x1010100, 0x600, 0x0, 0x6400, 0x9221902, 0x0, 0xd3101, 0xd310d31, 0xd030d31, 0x30003, 0x3000300, 0x300,
     0x9221902, 0x0, 0x0, 0x1020000, 0x1, 0x4249ef, 0x11ef, 0x11d09, 0x46509, 0x11d09ef, 0x46509ef, 0x4410, 0x4410,
     0x4410, 0x4410, 0x4410, 0x11d09ef, 0x4410, 0x11d09ef, 0x4410, 0x11d09ef, 0x4410, 0x0, 0x0, 0x0, 0x64000000, 0x0,
     0x0, 0x108, 0x0, 0x0, 0x0, 0x0, 0x0, 0x0, 0xe4000000, 0x0, 0x0, 0x1010000, 0x0] 63,
     RegCpy 0xffa82000 [0x76543210, 0x4f008, 0x30159, 0x0, 0x0, 0x0, 0xef00, 0x300ef00, 0x10f00, 0x4000100, 0x10000,
     0x170180, 0xcc0201, 0x30066, 0x0, 0x0, 0x0, 0x0, 0x0, 0x0, 0x0, 0x0, 0x4080000, 0x4080400, 0x30000000, 0xc00c007,
     0x100, 0x0, 0xfd02fe01, 0xf708fb04, 0xdf20ef10, 0x7f80bf40, 0x1aaaa, 0x0, 0x0, 0x0, 0x0, 0x0, 0x0, 0x0, 0x0, 0x0,
     0x0, 0x0, 0x0, 0x0, 0x0, 0x0, 0x0, 0x0, 0x0, 0x0, 0x200000, 0x0, 0x0, 0x0, 0x0, 0x0, 0x0, 0x2800280, 0x2800280,
     0x2800280, 0x2800280, 0x280, 0x0, 0x0, 0x0, 0x0, 0x800000, 0x800080, 0x800080, 0x800080, 0x800080, 0x800080,
     0x800080, 0x800080, 0x800080, 0x1590080, 0x0, 0x0, 0x0, 0x200, 0x0, 0x51315152, 0xc0003150, 0x10000c0, 0x100c00,
     0x7044204, 0xf0c18, 0x1000140, 0xc10] 91, RegCpy 0xffa82200 [0x76543210, 0x4f008, 0x30159, 0x0, 0x0, 0x0, 0xef00,
     0x300ef00, 0x10f00, 0x4000100, 0x10000, 0x170180, 0xcc0201, 0x30066, 0x0, 0x0, 0x0, 0x0, 0x0, 0x0, 0x0, 0x0,
     0x4080000, 0x4080400, 0x30000000, 0xc00c007, 0x100, 0x0, 0xfd02fe01, 0xf708fb04, 0xdf20ef10, 0x7f80bf40, 0xaaaa,
     0x0, 0x0, 0x0, 0x0, 0x0, 0x0, 0x0, 0x0, 0x0, 0x0, 0x0, 0x0, 0x0, 0x0, 0x0, 0x0, 0x0, 0x0, 0x0, 0x200000, 0x0,
     0x0, 0x0, 0x0, 0x0, 0x0, 0x2800280, 0x2800280, 0x2800280, 0x2800280, 0x280, 0x0, 0x0, 0x0, 0x0, 0x800000,
     0x800080, 0x800080, 0x800080, 0x800080, 0x800080, 0x800080, 0x800080, 0x800080, 0x1590080, 0x0, 0x0, 0x0, 0x200,
     0x0, 0x51315152, 0xc0003150, 0x10000c0, 0x100c00, 0x7044204, 0xf0c18, 0x1000140, 0xc10] 91,
     RegCpy 0xffa82400 [0x76543210, 0x4f008, 0x30159, 0x0, 0x0, 0x0, 0xef00, 0x300ef00, 0x10f00, 0x4000100, 0x10000,
     0x170180, 0xcc0201, 0x30066, 0x0, 0x0, 0x0, 0x0, 0x0, 0x0, 0x0, 0x0, 0x4080000, 0x4080400, 0x30000000, 0xc00c007,
     0x100, 0x0, 0xfd02fe01, 0xf708fb04, 0xdf20ef10, 0x7f80bf40, 0x1aaaa, 0x0, 0x0, 0x0, 0x0, 0x0, 0x0, 0x0, 0x0, 0x0,
     0x0, 0x0, 0x0, 0x0, 0x0, 0x0, 0x0, 0x0, 0x0, 0x0, 0x200000, 0x0, 0x0, 0x0, 0x0, 0x0, 0x0, 0x2800280, 0x2800280,
     0x2800280, 0x2800280, 0x280, 0x0, 0x0, 0x0, 0x0, 0x800000, 0x800080, 0x800080, 0x800080, 0x800080, 0x800080,
     0x800080, 0x800080, 0x800080, 0x1590080, 0x0, 0x0, 0x0, 0x200, 0x0, 0x51315152, 0xc0003150, 0x10000c0, 0x100c00,
     0x7044204, 0xf0c18, 0x1000140, 0xc10] 91, RegCpy 0xffa82600 [0x76543210, 0x4f008, 0x30159, 0x0, 0x0, 0x0, 0xef00,
     0x300ef00, 0x10f00, 0x4000100, 0x10000, 0x170180, 0xcc0201, 0x30066, 0x0, 0x0, 0x0, 0x0, 0x0, 0x0, 0x0, 0x0,
     0x4080000, 0x4080400, 0x30000000, 0xc00c007, 0x100, 0x0, 0xfd02fe01, 0xf708fb04, 0xdf20ef10, 0x7f80bf40, 0xaaaa,
     0x0, 0x0, 0x0, 0x0, 0x0, 0x0, 0x0, 0x0, 0x0, 0x0, 0x0, 0x0, 0x0, 0x0, 0x0, 0x0, 0x0, 0x0, 0x0, 0x200000, 0x0,
     0x0, 0x0, 0x0, 0x0, 0x0, 0x2800280, 0x2800280, 0x2800280, 0x2800280, 0x280, 0x0, 0x0, 0x0, 0x0, 0x800000,
     0x800080, 0x800080, 0x800080, 0x800080, 0x800080, 0x800080, 0x800080, 0x800080, 0x1590080, 0x0, 0x0, 0x0, 0x200,
     0x0, 0x51315152, 0xc0003150, 0x10000c0, 0x100c00, 0x7044204, 0xf0c18, 0x1000140, 0xc10] 91,
     RegCpy 0xffa82800 [0x0, 0x0, 0x0, 0x0, 0x0, 0x0, 0x0, 0x2, 0x0, 0x0, 0x0, 0x400320, 0x40, 0xdcba98, 0x0,
     0xdcba98, 0x1000000, 0x20003, 0x0, 0x0, 0x0, 0x2a, 0x15, 0x15, 0x2a, 0x33, 0xc, 0xc, 0x33, 0xa418820, 0x3f0000,
     0x3f, 0x300ef, 0x3000300, 0x3000300, 0xc0300, 0x42080010, 0x3] 38, RegCpy 0xffa82a00 [0x0, 0x0, 0x0, 0x0, 0x0,
     0x0, 0x0, 0x2, 0x0, 0x0, 0x0, 0x400320, 0x40, 0x0, 0x0, 0x0, 0x1000000, 0x20003, 0x0, 0x0, 0x0, 0x2a, 0x15, 0x15,
     0x2a, 0x33, 0xc, 0xc, 0x33, 0x0, 0x0, 0x0, 0x300ef, 0x3000300, 0x3000300, 0xc0300, 0x42080010, 0x3] 38,
     RegCpy 0xffa82c00 [0x0, 0x0, 0x0, 0x0, 0x0, 0x0, 0x0, 0x2, 0x0, 0x0, 0x0, 0x400320, 0x40, 0x0, 0x0, 0x0,
     0x1000000, 0x20003, 0x0, 0x0, 0x0, 0x2a, 0x15, 0x15, 0x2a, 0x33, 0xc, 0xc, 0x33, 0x1ee6b16a, 0x10000000, 0x0,
     0x300ef, 0x3000300, 0x3000300, 0xc0300, 0x42080010, 0x3] 38, Put 0xffa82e00 0x0, Put 0xffa8214c 0x51415152,
     Put 0xffa82150 0xc0004150, Put 0xffa8234c 0x51415152, Put 0xffa82350 0xc0004150, Put 0xffa8254c 0x51415152,
     Put 0xffa82550 0xc0004150, Put 0xffa8274c 0x51415152, Put 0xffa82750 0xc0004150, Put 0xffa82004 0x68008,
     Put 0xffa82204 0x68008, Put 0xffa82404 0x68008, Put 0xffa82604 0x68008, Put 0xff760410 0x30003000, Sleep 10,
     Put 0xff760410 0x30001000, Sleep 10, Put 0xff760410 0x30000000, Sleep 10, SetBits 0xffa8a158 0xc00,
     SetBits 0xffa8a358 0xc00, SetBits 0xffa8a558 0xc00, SetBits 0xffa8a758 0xc00, SetBits 0xffa8a88c 0xc0000,
     SetBits 0xffa8aa8c 0xc0000, SetBits 0xffa8ac8c 0xc0000, RegCpy 0xffa88004 [0x0, 0x0, 0x0, 0x0, 0x13880, 0xc3500,
     0x5, 0x320, 0x27100, 0x186a00, 0x5, 0x640, 0x2710, 0x186a0, 0x5, 0x1000064, 0x0, 0x2020101, 0x102, 0x50, 0xc8,
     0x0, 0x6140000, 0x81c00, 0x400040c, 0x19042008, 0x10080a11, 0x22310800, 0x200f0a, 0xa030704, 0x8000204, 0xa0a,
     0x4006db0, 0xa0a0804, 0x600db60, 0xa0a0806, 0x4000db6, 0x2030404, 0xf0a0800, 0x8040411, 0x1400640a, 0x2010a0a,
     0x10001, 0x4082012, 0x41109, 0x0, 0x3010000, 0x6100048, 0xc280090, 0xbb0009, 0x0, 0x60005, 0xa0005, 0xa0014,
     0x1000000, 0x30a0000, 0xc000002, 0x103, 0x5030a, 0x60037, 0x5006e, 0x5050007, 0x3030605, 0x6050301, 0x6030c05,
     0x5050302, 0x3030305, 0x301, 0x301, 0x1, 0x0, 0x0, 0x1000000, 0x80104002, 0x40003, 0x40005, 0x30000, 0x50004,
     0x4, 0x40003, 0x40005, 0x18400000, 0xc20, 0x185030a0, 0x2ec0000, 0x176, 0x0, 0x0, 0x0, 0x0, 0x0, 0x6030300,
     0x30303, 0x2030200, 0x40703, 0x3020302, 0x2000407, 0x7030203, 0x30f04, 0x70004, 0x0, 0x0, 0x0, 0x0, 0x0, 0x0,
     0x0, 0x10000, 0x20040020, 0x200400, 0x1000400, 0xb80, 0x0, 0x1, 0x2, 0xe, 0x0, 0x0, 0x0, 0x0, 0x0, 0x500000,
     0x640028, 0x640404, 0x5000a0, 0x60600c8, 0xa00c8, 0xd0005, 0xd0404, 0x0, 0x0, 0x0, 0x1400a3, 0xe30009, 0x120024,
     0x40063, 0x0, 0x310031, 0x31, 0x4d0000, 0x72004d, 0x4d0000, 0x72004d, 0x10101, 0x0, 0x0, 0x1400a3, 0xe30009,
     0x120024, 0x40063, 0x0, 0x310031, 0x31, 0x4d0000, 0x72004d, 0x4d0000, 0x72004d, 0x10101, 0x180000, 0x180018, 0x0,
     0x1, 0x0, 0x18151100, 0xc, 0x0, 0x0, 0x0, 0x0, 0x0, 0x0, 0x0, 0x0, 0x0, 0x0, 0x0, 0x0, 0x0, 0x20003, 0x400100,
     0xc0190, 0x1000200, 0x3200040, 0x20018, 0x400100, 0x80032, 0x140000, 0x30028, 0x1010100, 0x2000202, 0xb000002,
     0x1000f0f, 0x0, 0x0, 0x10003, 0xc03, 0x40101, 0x4010100, 0x1000000, 0x3010000, 0x1, 0x0, 0x0, 0x0, 0x0, 0x0, 0x0,
     0x0, 0x0, 0x0, 0x10000, 0x1, 0x1010001, 0x5040001, 0x40a0703, 0x2080808, 0x20e000a, 0x20f010b, 0xd0008, 0x80b0a,
     0x3000200, 0x100, 0x0, 0x0, 0xd000001, 0x28, 0x10000, 0x3, 0x0, 0x0, 0x0, 0x0, 0x0, 0x0, 0x0, 0x0, 0x10100,
     0x1000000, 0x1, 0x303, 0x0, 0x0, 0x0, 0x0, 0x0, 0x0, 0x0, 0x0, 0x0, 0x0, 0x0, 0x0, 0x0, 0x0, 0x0, 0x556aa,
     0xaaaaa, 0xaa955, 0x55555, 0xb3133, 0x4cd33, 0x4cecc, 0xb32cc, 0x10300, 0x3000100, 0x0, 0x0, 0x0, 0x0, 0x0, 0x0,
     0x0, 0x0, 0xffff00, 0x1a160000, 0x8000012, 0xc20, 0x200, 0x200, 0x200, 0x200, 0xc20, 0x7940, 0x18500409, 0x200,
     0x200, 0x200, 0x200, 0x1850, 0xf320, 0x176060c, 0x200, 0x200, 0x200, 0x200, 0x176, 0xe9c, 0x2020205, 0x3030202,
     0x18, 0x0, 0x0, 0x1403, 0x0, 0x0, 0x0, 0x30000, 0xa001c, 0xe0020, 0x60018, 0x0, 0x0, 0x2000000, 0x90305, 0x50101,
     0x0, 0x0, 0x0, 0x0, 0x0, 0x0, 0x0, 0x0, 0x1000001, 0x1010101, 0x1000101, 0x1000100, 0x10001, 0x10002, 0x20100,
     0x2] 331, Put 0xffa88000 0xb00, Sleep 1, Put 0xffa88038 0x249f0, RegCpy 0xffa88800 [0xb00, 0x0, 0x2ec, 0x176,
     0x30a0, 0x1850, 0x1840, 0x1760c20, 0x200, 0x200, 0x200, 0x200, 0x1850, 0x200, 0x200, 0x200, 0x200, 0xc20, 0x200,
     0x200, 0x200, 0x200, 0x10000, 0x7, 0x1000001, 0x0, 0x3fffffff, 0x0, 0x0, 0x0, 0x0, 0x0, 0x0, 0x0, 0x0, 0x0, 0x0,
     0x0, 0x0, 0x0, 0x0, 0xf000101, 0x82b3223, 0x80c0004, 0x61c00, 0x1000314, 0xbb0009, 0xc280090, 0x6100048, 0x500,
     0x0, 0x0, 0x0, 0x0, 0x0, 0x0, 0x0, 0x0, 0x4040101, 0xa000004, 0x128, 0x1000000, 0x3000f, 0x18, 0x0, 0x0, 0x60002,
     0x10001, 0x101, 0x20001, 0x80004, 0x0, 0x5030000, 0x70a0404, 0x0, 0x0, 0x1000000, 0xf0f01, 0x1e, 0x0, 0x1010300,
     0x0, 0x0, 0x1000000, 0x101, 0x55555a5a, 0x55555a5a, 0x55555a5a, 0x55555a5a, 0xc050001, 0x6020009, 0x10004, 0x203,
     0x30000, 0x170f0000, 0x60018, 0xe0020, 0xa001c, 0x0, 0x0, 0x100, 0x140a0000, 0xd010a, 0x100c802, 0x10a0064,
     0xe0100, 0x100000e, 0xc900c9, 0x650100, 0x1e1a0065, 0x10010204, 0x6070605, 0x20000202, 0x201000, 0x201000,
     0x4041000, 0x10020100, 0x3010c, 0x4b004a, 0x1a0f0000, 0x102041e, 0x34000000, 0x0, 0x0, 0x10000, 0x400, 0x310000,
     0x727200, 0x120024, 0x4d000031, 0x144d, 0x310009, 0x4d4d00, 0x4, 0x72000031, 0x2472, 0x310012, 0x4d4d00, 0x90014,
     0x4d000031, 0x4004d, 0x310000, 0x727200, 0x120024, 0x4d000031, 0x144d, 0x310009, 0x4d4d00, 0x4, 0x72000031,
     0x2472, 0x310012, 0x4d4d00, 0x90014, 0x4d000031, 0x200004d, 0xc8000d, 0x8080064, 0x40a0404, 0x3000d92, 0x10a2001,
     0xf11080a, 0x110a, 0x2200d92e, 0x80c2003, 0x809080a, 0xa0a, 0x11006c97, 0x40a2002, 0x200020a, 0x2000200,
     0x2000200, 0x2000200, 0x2000200, 0x0, 0x0, 0x0, 0x0, 0x0, 0x0, 0x0, 0x0, 0x0, 0x0, 0x0, 0x0, 0x1000400, 0x17600,
     0xe9c, 0x1850, 0xf320, 0xc20, 0x7940, 0x8000000, 0x100, 0x0, 0x0, 0x0, 0x0, 0x2] 200, Put 0xffa882fc 0xb000002,
     Put 0xffa882f8 0x202, Put 0xffa88310 0xc03, Put 0xffa88b1c 0x2, Put 0xffa88a6c 0x4d, Put 0xffa888a4 0xf000101,
     Put 0xffa8ae38 0x6400, Put 0xffa8ae3c 0x9221902, Put 0xffa8ae40 0x0, Put 0xffa8ae08 0x5,
     Put 0xffa8ae5c 0x9221902, Sleep 1, Put 0xffa88110 0x301, Put 0xffa8aef4 0x1000000, SetBits 0xffa88800 0x1,
     SetBits 0xffa88000 0x1, RegCpy 0xffa8ae00 [0x0, 0x0, 0x5, 0x4000f01, 0x20040, 0x20055, 0x0, 0x0, 0x0, 0x50, 0x0,
     0x1010100, 0x600, 0x0, 0x6400, 0x9221902, 0x0, 0xd3101, 0xd310d31, 0xd030d31, 0x30003, 0x3000300, 0x300,
     0x9221902, 0x0, 0x0, 0x1020000, 0x1, 0x4249ef, 0x11ef, 0x11d09, 0x46509, 0x11d09ef, 0x46509ef, 0x4410, 0x4410,
     0x4410, 0x4410, 0x4410, 0x11d09ef, 0x4410, 0x11d09ef, 0x4410, 0x11d09ef, 0x4410, 0x0, 0x0, 0x0, 0x64000000, 0x0,
     0x0, 0x108, 0x0, 0x0, 0x0, 0x0, 0x0, 0x0, 0xe4000000, 0x0, 0x0, 0x1010000, 0x0] 63,
     RegCpy 0xffa8a000 [0x76543210, 0x4f008, 0x30159, 0x0, 0x0, 0x0, 0xef00, 0x300ef00, 0x10f00, 0x4000100, 0x10000,
     0x170180, 0xcc0201, 0x30066, 0x0, 0x0, 0x0, 0x0, 0x0, 0x0, 0x0, 0x0, 0x4080000, 0x4080400, 0x30000000, 0xc00c007,
     0x100, 0x0, 0xfd02fe01, 0xf708fb04, 0xdf20ef10, 0x7f80bf40, 0x1aaaa, 0x0, 0x0, 0x0, 0x0, 0x0, 0x0, 0x0, 0x0, 0x0,
     0x0, 0x0, 0x0, 0x0, 0x0, 0x0, 0x0, 0x0, 0x0, 0x0, 0x200000, 0x0, 0x0, 0x0, 0x0, 0x0, 0x0, 0x2800280, 0x2800280,
     0x2800280, 0x2800280, 0x280, 0x0, 0x0, 0x0, 0x0, 0x800000, 0x800080, 0x800080, 0x800080, 0x800080, 0x800080,
     0x800080, 0x800080, 0x800080, 0x1590080, 0x0, 0x0, 0x0, 0x200, 0x0, 0x51315152, 0xc0003150, 0x10000c0, 0x100c00,
     0x7044204, 0xf0c18, 0x1000140, 0xc10] 91, RegCpy 0xffa8a200 [0x76543210, 0x4f008, 0x30159, 0x0, 0x0, 0x0, 0xef00,
     0x300ef00, 0x10f00, 0x4000100, 0x10000, 0x170180, 0xcc0201, 0x30066, 0x0, 0x0, 0x0, 0x0, 0x0, 0x0, 0x0, 0x0,
     0x4080000, 0x4080400, 0x30000000, 0xc00c007, 0x100, 0x0, 0xfd02fe01, 0xf708fb04, 0xdf20ef10, 0x7f80bf40, 0xaaaa,
     0x0, 0x0, 0x0, 0x0, 0x0, 0x0, 0x0, 0x0, 0x0, 0x0, 0x0, 0x0, 0x0, 0x0, 0x0, 0x0, 0x0, 0x0, 0x0, 0x200000, 0x0,
     0x0, 0x0, 0x0, 0x0, 0x0, 0x2800280, 0x2800280, 0x2800280, 0x2800280, 0x280, 0x0, 0x0, 0x0, 0x0, 0x800000,
     0x800080, 0x800080, 0x800080, 0x800080, 0x800080, 0x800080, 0x800080, 0x800080, 0x1590080, 0x0, 0x0, 0x0, 0x200,
     0x0, 0x51315152, 0xc0003150, 0x10000c0, 0x100c00, 0x7044204, 0xf0c18, 0x1000140, 0xc10] 91,
     RegCpy 0xffa8a400 [0x76543210, 0x4f008, 0x30159, 0x0, 0x0, 0x0, 0xef00, 0x300ef00, 0x10f00, 0x4000100, 0x10000,
     0x170180, 0xcc0201, 0x30066, 0x0, 0x0, 0x0, 0x0, 0x0, 0x0, 0x0, 0x0, 0x4080000, 0x4080400, 0x30000000, 0xc00c007,
     0x100, 0x0, 0xfd02fe01, 0xf708fb04, 0xdf20ef10, 0x7f80bf40, 0x1aaaa, 0x0, 0x0, 0x0, 0x0, 0x0, 0x0, 0x0, 0x0, 0x0,
     0x0, 0x0, 0x0, 0x0, 0x0, 0x0, 0x0, 0x0, 0x0, 0x0, 0x200000, 0x0, 0x0, 0x0, 0x0, 0x0, 0x0, 0x2800280, 0x2800280,
     0x2800280, 0x2800280, 0x280, 0x0, 0x0, 0x0, 0x0, 0x800000, 0x800080, 0x800080, 0x800080, 0x800080, 0x800080,
     0x800080, 0x800080, 0x800080, 0x1590080, 0x0, 0x0, 0x0, 0x200, 0x0, 0x51315152, 0xc0003150, 0x10000c0, 0x100c00,
     0x7044204, 0xf0c18, 0x1000140, 0xc10] 91, RegCpy 0xffa8a600 [0x76543210, 0x4f008, 0x30159, 0x0, 0x0, 0x0, 0xef00,
     0x300ef00, 0x10f00, 0x4000100, 0x10000, 0x170180, 0xcc0201, 0x30066, 0x0, 0x0, 0x0, 0x0, 0x0, 0x0, 0x0, 0x0,
     0x4080000, 0x4080400, 0x30000000, 0xc00c007, 0x100, 0x0, 0xfd02fe01, 0xf708fb04, 0xdf20ef10, 0x7f80bf40, 0xaaaa,
     0x0, 0x0, 0x0, 0x0, 0x0, 0x0, 0x0, 0x0, 0x0, 0x0, 0x0, 0x0, 0x0, 0x0, 0x0, 0x0, 0x0, 0x0, 0x0, 0x200000, 0x0,
     0x0, 0x0, 0x0, 0x0, 0x0, 0x2800280, 0x2800280, 0x2800280, 0x2800280, 0x280, 0x0, 0x0, 0x0, 0x0, 0x800000,
     0x800080, 0x800080, 0x800080, 0x800080, 0x800080, 0x800080, 0x800080, 0x800080, 0x1590080, 0x0, 0x0, 0x0, 0x200,
     0x0, 0x51315152, 0xc0003150, 0x10000c0, 0x100c00, 0x7044204, 0xf0c18, 0x1000140, 0xc10] 91,
     RegCpy 0xffa8a800 [0x0, 0x0, 0x0, 0x0, 0x0, 0x0, 0x0, 0x2, 0x0, 0x0, 0x0, 0x400320, 0x40, 0xdcba98, 0x0,
     0xdcba98, 0x1000000, 0x20003, 0x0, 0x0, 0x0, 0x2a, 0x15, 0x15, 0x2a, 0x33, 0xc, 0xc, 0x33, 0xa418820, 0x3f0000,
     0x3f, 0x300ef, 0x3000300, 0x3000300, 0xc0300, 0x42080010, 0x3] 38, RegCpy 0xffa8aa00 [0x0, 0x0, 0x0, 0x0, 0x0,
     0x0, 0x0, 0x2, 0x0, 0x0, 0x0, 0x400320, 0x40, 0x0, 0x0, 0x0, 0x1000000, 0x20003, 0x0, 0x0, 0x0, 0x2a, 0x15, 0x15,
     0x2a, 0x33, 0xc, 0xc, 0x33, 0x0, 0x0, 0x0, 0x300ef, 0x3000300, 0x3000300, 0xc0300, 0x42080010, 0x3] 38,
     RegCpy 0xffa8ac00 [0x0, 0x0, 0x0, 0x0, 0x0, 0x0, 0x0, 0x2, 0x0, 0x0, 0x0, 0x400320, 0x40, 0x0, 0x0, 0x0,
     0x1000000, 0x20003, 0x0, 0x0, 0x0, 0x2a, 0x15, 0x15, 0x2a, 0x33, 0xc, 0xc, 0x33, 0x1ee6b16a, 0x10000000, 0x0,
     0x300ef, 0x3000300, 0x3000300, 0xc0300, 0x42080010, 0x3] 38, Put 0xffa8ae00 0x0, Put 0xffa8a14c 0x51415152,
     Put 0xffa8a150 0xc0004150, Put 0xffa8a34c 0x51415152, Put 0xffa8a350 0xc0004150, Put 0xffa8a54c 0x51415152,
     Put 0xffa8a550 0xc0004150, Put 0xffa8a74c 0x51415152, Put 0xffa8a750 0xc0004150, Put 0xffa8a004 0x68008,
     Put 0xffa8a204 0x68008, Put 0xffa8a404 0x68008, Put 0xffa8a604 0x68008, Put 0xffa8aea4 0x11d0911,
     Put 0xffa82ef4 0x2010000, Sleep 1, Sleep 1, Sleep 1, Sleep 1, Sleep 1, Sleep 1, Sleep 1, WaitPctl,
     RegCpy 0xffa820d4 [0x8200820, 0x8200820, 0x8200820, 0x8200820, 0x8200820, 0x820] 6, RegCpy 0xffa822d4 [0x8200820,
     0x8200820, 0x8200820, 0x8200820, 0x8200820, 0x820] 6, RegCpy 0xffa824d4 [0x8200820, 0x8200820, 0x8200820,
     0x8200820, 0x8200820, 0x820] 6, RegCpy 0xffa826d4 [0x8200820, 0x8200820, 0x8200820, 0x8200820, 0x8200820,
     0x820] 6, Put 0xffa80110 0x301, Put 0xffa8aef4 0x2010000]"

definition ddr_trace_6 :: "ddr_op list" where
  "ddr_trace_6 =
   [Sleep 1, Sleep 1, Sleep 1, Sleep 1, Sleep 1, Sleep 1, Sleep 1, Sleep 1, Sleep 1, Sleep 1, Sleep 1,
     RegCpy 0xffa8a0d4 [0x8200820, 0x8200820, 0x8200820, 0x8200820, 0x8200820, 0x820] 6, RegCpy 0xffa8a2d4 [0x8200820,
     0x8200820, 0x8200820, 0x8200820, 0x8200820, 0x820] 6, RegCpy 0xffa8a4d4 [0x8200820, 0x8200820, 0x8200820,
     0x8200820, 0x8200820, 0x820] 6, RegCpy 0xffa8a6d4 [0x8200820, 0x8200820, 0x8200820, 0x8200820, 0x8200820,
     0x820] 6, Put 0xffa88110 0x301, Put 0xffa8aea4 0x11d09ef, Put 0xffa88310 0xc01, Put 0xffa8c00c 0x4040,
     Put 0xffa888a4 0x5000101, Sleep 1, Put 0xffa882fc 0xb000002, Put 0xffa882f8 0x202, Put 0xffa88310 0xc03,
     Put 0xffa88b1c 0x2, Put 0xffa88a6c 0x4d, Put 0xffa888a4 0xf000101, Put 0xffa8c008 0x101, Put 0xffa8c00c 0x2020,
     SetBits 0xff33e010 0x7c006000, Sleep 1, Put 0x100 0x1, Put 0xffa881d8 0x1000500, Sleep 1, Sleep 1, Sleep 1,
     SetBits 0xffa88334 0x201000, Put 0xffa881d8 0x1000c00, Sleep 1, Sleep 1, Sleep 1, SetBits 0xffa88334 0x201000,
     Put 0xffa881d8 0x1000e00, Sleep 1, Sleep 1, Sleep 1, SetBits 0xffa88334 0x201000, SetBits 0xff33e010 0x7c000000,
     SetBits 0xff33e010 0x7c005c00, Put 0xffa802fc 0xb000000, Put 0xffa802f8 0x2000202, Put 0xffa80b1c 0x0,
     Put 0xffa80a6c 0x400004d, Put 0xffa84008 0x303, Put 0xffa8400c 0x80, Put 0xffa802fc 0xb000000,
     Put 0xffa802f8 0x2000202, Put 0xffa80b1c 0x0, Put 0xffa80a6c 0x400004d, Put 0xffa802fc 0xb000002,
     Put 0xffa802f8 0x202, Put 0xffa80b1c 0x2, Put 0xffa80a6c 0x4d, Put 0xffa84008 0x101, Put 0xffa8400c 0x80,
     Put 0xffa802fc 0xb000002, Put 0xffa802f8 0x202, Put 0xffa80310 0xc01, Put 0xffa80b1c 0x2, Put 0xffa80a6c 0x4d,
     Put 0xffa808a4 0x5000101, Put 0xffa84008 0x101, Put 0xffa8400c 0x40, Put 0xffa802fc 0xb000002,
     Put 0xffa802f8 0x202, Put 0xffa80310 0xc01, Put 0xffa80b1c 0x2, Put 0xffa80a6c 0x4d, Put 0xffa808a4 0x5000101,
     Put 0xffa84008 0x101, Put 0xffa8400c 0x40, SetBits 0xff33e010 0x7c006000, Put 0xffa882fc 0xb000000,
     Put 0xffa882f8 0x2000202, Put 0xffa88b1c 0x0, Put 0xffa88a6c 0x400004d, Put 0xffa8c008 0x303,
     Put 0xffa8c00c 0x80, Put 0xffa882fc 0xb000000, Put 0xffa882f8 0x2000202, Put 0xffa88b1c 0x0,
     Put 0xffa88a6c 0x400004d, Put 0xffa882fc 0xb000002, Put 0xffa882f8 0x202, Put 0xffa88b1c 0x2,
     Put 0xffa88a6c 0x4d, Put 0xffa8c008 0x101, Put 0xffa8c00c 0x80, Put 0xffa882fc 0xb000002, Put 0xffa882f8 0x202,
     Put 0xffa88310 0xc01, Put 0xffa88b1c 0x2, Put 0xffa88a6c 0x4d, Put 0xffa888a4 0x5000101, Put 0xffa8c008 0x101,
     Put 0xffa8c00c 0x40, Put 0xffa882fc 0xb000002, Put 0xffa882f8 0x202, Put 0xffa88310 0xc01, Put 0xffa88b1c 0x2,
     Put 0xffa88a6c 0x4d, Put 0xffa888a4 0x5000101, Put 0xffa8c008 0x101, Put 0xffa8c00c 0x40,
     Put 0xffa84010 0x80241d22, Put 0xffa84014 0x15050f08, Put 0xffa84018 0x602, Put 0xffa8401c 0x2122,
     Put 0xffa84110 0x4c, Put 0xffa8c010 0x80241d22, Put 0xffa8c014 0x15050f08, Put 0xffa8c018 0x602,
     Put 0xffa8c01c 0x2122, Put 0xffa8c110 0x4c, Put 0xff320308 0x32c1f2c1, Put 0xff32030c 0x20000005,
     SetBits 0xff33e010 0x7c003400, Put 0xff750124 0x1c00180, Put 0xff760510 0x3, Put 0xffa82e00 0x100,
     Put 0xffa82e3c 0x3221302, Put 0xffa82e44 0xd3101, Put 0xffa82e50 0x30003, Put 0xffa82e54 0x3000300,
     Put 0xffa82e58 0x300, Put 0xffa82800 0x0, Put 0xffa82804 0x0, Put 0xffa82a00 0x0, Put 0xffa82a04 0x0,
     Put 0xffa82c00 0x0, Put 0xffa82c04 0x0, Put 0xffa82880 0x30055, Put 0xffa82884 0x3000300,
     Put 0xffa82888 0x3000300, Put 0xffa8288c 0x300, Put 0xffa82a80 0x30055]"

definition ddr_trace_7 :: "ddr_op list" where
  "ddr_trace_7 =
   [Put 0xffa82a84 0x3000300, Put 0xffa82a88 0x3000300, Put 0xffa82a8c 0x300, Put 0xffa82c80 0x30055,
     Put 0xffa82c84 0x3000300, Put 0xffa82c88 0x3000300, Put 0xffa82c8c 0x300, Put 0xffa82890 0x42080010,
     Put 0xffa82a90 0x42080010, Put 0xffa82c90 0x42080010, Put 0xffa82894 0x3, Put 0xffa82a94 0x3, Put 0xffa82c94 0x3,
     Put 0xffa820ec 0x2800280, Put 0xffa820f0 0x2800280, Put 0xffa820f4 0x2800280, Put 0xffa820f8 0x2800280,
     Put 0xffa820fc 0x280, Put 0xffa822ec 0x2800280, Put 0xffa822f0 0x2800280, Put 0xffa822f4 0x2800280,
     Put 0xffa822f8 0x2800280, Put 0xffa822fc 0x280, Put 0xffa824ec 0x2800280, Put 0xffa824f0 0x2800280,
     Put 0xffa824f4 0x2800280, Put 0xffa824f8 0x2800280, Put 0xffa824fc 0x280, Put 0xffa826ec 0x2800280,
     Put 0xffa826f0 0x2800280, Put 0xffa826f4 0x2800280, Put 0xffa826f8 0x2800280, Put 0xffa826fc 0x280,
     Put 0xffa8214c 0x51415152, Put 0xffa82150 0xc0004150, Put 0xffa82154 0x10000c0, Put 0xffa8234c 0x51415152,
     Put 0xffa82350 0xc0004150, Put 0xffa82354 0x10000c0, Put 0xffa8254c 0x51415152, Put 0xffa82550 0xc0004150,
     Put 0xffa82554 0x10000c0, Put 0xffa8274c 0x51415152, Put 0xffa82750 0xc0004150, Put 0xffa82754 0x10000c0,
     Put 0xffa8215c 0x7044204, Put 0xffa82160 0xf0c18, Put 0xffa82164 0x1000140, Put 0xffa82168 0xc10,
     Put 0xffa8235c 0x7044204, Put 0xffa82360 0xf0c18, Put 0xffa82364 0x1000140, Put 0xffa82368 0xc10,
     Put 0xffa8255c 0x7044204, Put 0xffa82560 0xf0c18, Put 0xffa82564 0x1000140, Put 0xffa82568 0xc10,
     Put 0xffa8275c 0x7044204, Put 0xffa82760 0xf0c18, Put 0xffa82764 0x1000140, Put 0xffa82768 0xc10,
     Put 0xffa82140 0x0, Put 0xffa82144 0x200, Put 0xffa82340 0x0, Put 0xffa82344 0x200, Put 0xffa82540 0x0,
     Put 0xffa82544 0x200, Put 0xffa82740 0x0, Put 0xffa82744 0x200, Put 0xffa82158 0x100000, Put 0xffa82358 0x100000,
     Put 0xffa82558 0x100000, Put 0xffa82758 0x100000, RegCpy 0xffa82100 [0x0, 0x0, 0x0, 0x0, 0x800000, 0x800080,
     0x800080, 0x800080, 0x800080, 0x800080, 0x800080, 0x800080, 0x800080, 0x1190080, 0x1, 0x0] 16,
     RegCpy 0xffa82300 [0x0, 0x0, 0x0, 0x0, 0x800000, 0x800080, 0x800080, 0x800080, 0x800080, 0x800080, 0x800080,
     0x800080, 0x800080, 0x1190080, 0x1, 0x0] 16, RegCpy 0xffa82500 [0x0, 0x0, 0x0, 0x0, 0x800000, 0x800080, 0x800080,
     0x800080, 0x800080, 0x800080, 0x800080, 0x800080, 0x800080, 0x1190080, 0x1, 0x0] 16, RegCpy 0xffa82700 [0x0, 0x0,
     0x0, 0x0, 0x800000, 0x800080, 0x800080, 0x800080, 0x800080, 0x800080, 0x800080, 0x800080, 0x800080, 0x1190080,
     0x1, 0x0] 16, Put 0xffa8201c 0x300ef00, Put 0xffa8221c 0x300ef00, Put 0xffa8241c 0x300ef00,
     Put 0xffa8261c 0x300ef00, Put 0xffa82e70 0x249ef, Put 0xffa82e78 0x11909, Put 0xffa82e7c 0x46109,
     Put 0xffa82e80 0x11909ef, Put 0xffa82e84 0x46109ef, Put 0xffa82e9c 0x11909ef, Put 0xffa82ea4 0x11909ef,
     Put 0xffa82eac 0x11909ef, Put 0xffa801d8 0x1000500, Sleep 1, Sleep 1, Sleep 1, SetBits 0xffa80334 0x201000,
     Put 0xffa80244 0x0, Put 0xffa80248 0x0, Put 0xffa8027c 0x180000, Put 0xffa80280 0x180018, Put 0xffa82018 0xdf00,
     Put 0xffa82218 0xdf00, Put 0xffa82418 0xdf00, Put 0xffa82618 0xdf00, Put 0xffa8201c 0x300df00,
     Put 0xffa8221c 0x300df00, Put 0xffa8241c 0x300df00, Put 0xffa8261c 0x300df00, Put 0xffa82880 0x300ef,
     Put 0xffa82a80 0x300ef, Put 0xffa82c80 0x300ef, Put 0xffa82e80 0x11909ef, Put 0xffa82e9c 0x11909ef,
     Put 0xffa82eac 0x11909ef, Put 0xffa82e84 0x46109ef, Put 0xffa82e70 0x249ef, Put 0xffa82e74 0x11df,
     Put 0xffa82014 0x0, Put 0xffa82214 0x0, Put 0xffa82414 0x0, Put 0xffa82614 0x0, Put 0xffa82018 0xdf00,
     Put 0xffa82218 0xdf00, Put 0xffa82418 0xdf00, Put 0xffa82618 0xdf00, Put 0xffa82818 0x0, Put 0xffa82a18 0x0,
     Put 0xffa82c18 0x0, Put 0xffa82e94 0xe49f, Put 0xffa82ea8 0xc55a, Put 0xffa82ea0 0xc55a, Put 0xffa82eb0 0xe49f,
     Put 0xffa82e98 0xe49f, Put 0xffa82e88 0xe49f, Put 0xffa82e44 0xf3701, Put 0xffa82e48 0xd310f37,
     Put 0xffa82e48 0xf370f37, Put 0xffa82e4c 0xd030f37, Put 0xffa82e4c 0xd030f37, Put 0xffa82e70 0x2c9ef,
     Put 0xffa82e78 0x11949, Put 0xffa82e7c 0x46149, Put 0xffa82e80 0x11949ef, Put 0xffa82e84 0x46149ef,
     Put 0xffa82e9c 0x11949ef, Put 0xffa82ea4 0x11949ef, Put 0xffa82eac 0x11949ef, Put 0xffa82e74 0x11df]"

definition ddr_trace_8 :: "ddr_op list" where
  "ddr_trace_8 =
   [Put 0xffa82e78 0x11949, Put 0xffa82e7c 0x46149, Put 0xffa82e80 0x11949ef, Put 0xffa82e84 0x46149ef,
     Put 0xffa82e9c 0x11949ef, Put 0xffa82ea4 0x11949ef, Put 0xffa82eac 0x11949ef, Put 0xffa82e70 0x2c9ef,
     Put 0xffa82e78 0x11949, Put 0xffa82e7c 0x46149, Put 0xffa82e80 0x11949ef, Put 0xffa82e84 0x46149ef,
     Put 0xffa82e9c 0x11949ef, Put 0xffa82ea4 0x11949ef, Put 0xffa82eac 0x11949ef, Put 0xffa82e70 0x42c9ef,
     Put 0xffa82e78 0x11d49, Put 0xffa82e7c 0x46549, Put 0xffa82e80 0x11d49ef, Put 0xffa82e84 0x46549ef,
     Put 0xffa82e9c 0x11d49ef, Put 0xffa82ea4 0x11d49ef, Put 0xffa82eac 0x11d49ef, Put 0xffa82e70 0x42c9ef,
     Put 0xffa82e78 0x11d49, Put 0xffa82e7c 0x46549, Put 0xffa82e80 0x11d49ef, Put 0xffa82e84 0x46549ef,
     Put 0xffa82e9c 0x11d49ef, Put 0xffa82ea4 0x11d49ef, Put 0xffa82eac 0x11d49ef, Put 0xffa8022c 0x1000031,
     Put 0xffa80264 0x1000031, Put 0xffa80a10 0x4d4d01, Put 0xffa80a2c 0x4d010031, Put 0xffa80a4c 0x4d4d01,
     Put 0xffa80a68 0x4d010031, Put 0xffa8022c 0x1000031, Put 0xffa80264 0x1000031, Put 0xffa80a10 0x4d4d01,
     Put 0xffa80a2c 0x4d010031, Put 0xffa80a4c 0x4d4d01, Put 0xffa80a68 0x4d010031, Put 0xffa80228 0x310031,
     Put 0xffa80260 0x310031, Put 0xffa80a0c 0x310009, Put 0xffa80a2c 0x4d010031, Put 0xffa80a48 0x310009,
     Put 0xffa80a68 0x4d010031, Put 0xffa80230 0x720000, Put 0xffa80268 0x720000, Put 0xffa80a10 0x4d7201,
     Put 0xffa80a2c 0x72010031, Put 0xffa80a4c 0x4d7201, Put 0xffa80a68 0x72010031, Put 0xffa80238 0x720000,
     Put 0xffa80270 0x720000, Put 0xffa80a10 0x727201, Put 0xffa80a30 0x40072, Put 0xffa80a4c 0x727201,
     Put 0xffa80a6c 0x72, Put 0xffa82028 0x0, Put 0xffa82228 0x0, Put 0xffa82428 0x0, Put 0xffa82628 0x0,
     Put 0xffa8ae00 0x100, Put 0xffa8ae3c 0x3221302, Put 0xffa8ae44 0xd3101, Put 0xffa8ae50 0x30003,
     Put 0xffa8ae54 0x3000300, Put 0xffa8ae58 0x300, Put 0xffa8a800 0x0, Put 0xffa8a804 0x0, Put 0xffa8aa00 0x0,
     Put 0xffa8aa04 0x0, Put 0xffa8ac00 0x0, Put 0xffa8ac04 0x0, Put 0xffa8a880 0x30055, Put 0xffa8a884 0x3000300,
     Put 0xffa8a888 0x3000300, Put 0xffa8a88c 0x300, Put 0xffa8aa80 0x30055, Put 0xffa8aa84 0x3000300,
     Put 0xffa8aa88 0x3000300, Put 0xffa8aa8c 0x300, Put 0xffa8ac80 0x30055, Put 0xffa8ac84 0x3000300,
     Put 0xffa8ac88 0x3000300, Put 0xffa8ac8c 0x300, Put 0xffa8a890 0x42080010, Put 0xffa8aa90 0x42080010,
     Put 0xffa8ac90 0x42080010, Put 0xffa8a894 0x3, Put 0xffa8aa94 0x3, Put 0xffa8ac94 0x3, Put 0xffa8a0ec 0x2800280,
     Put 0xffa8a0f0 0x2800280, Put 0xffa8a0f4 0x2800280, Put 0xffa8a0f8 0x2800280, Put 0xffa8a0fc 0x280,
     Put 0xffa8a2ec 0x2800280, Put 0xffa8a2f0 0x2800280, Put 0xffa8a2f4 0x2800280, Put 0xffa8a2f8 0x2800280,
     Put 0xffa8a2fc 0x280, Put 0xffa8a4ec 0x2800280, Put 0xffa8a4f0 0x2800280, Put 0xffa8a4f4 0x2800280,
     Put 0xffa8a4f8 0x2800280, Put 0xffa8a4fc 0x280, Put 0xffa8a6ec 0x2800280, Put 0xffa8a6f0 0x2800280,
     Put 0xffa8a6f4 0x2800280, Put 0xffa8a6f8 0x2800280, Put 0xffa8a6fc 0x280, Put 0xffa8a14c 0x51415152,
     Put 0xffa8a150 0xc0004150, Put 0xffa8a154 0x10000c0, Put 0xffa8a34c 0x51415152, Put 0xffa8a350 0xc0004150,
     Put 0xffa8a354 0x10000c0, Put 0xffa8a54c 0x51415152, Put 0xffa8a550 0xc0004150, Put 0xffa8a554 0x10000c0,
     Put 0xffa8a74c 0x51415152, Put 0xffa8a750 0xc0004150, Put 0xffa8a754 0x10000c0, Put 0xffa8a15c 0x7044204,
     Put 0xffa8a160 0xf0c18, Put 0xffa8a164 0x1000140, Put 0xffa8a168 0xc10, Put 0xffa8a35c 0x7044204,
     Put 0xffa8a360 0xf0c18, Put 0xffa8a364 0x1000140, Put 0xffa8a368 0xc10, Put 0xffa8a55c 0x7044204,
     Put 0xffa8a560 0xf0c18, Put 0xffa8a564 0x1000140, Put 0xffa8a568 0xc10, Put 0xffa8a75c 0x7044204,
     Put 0xffa8a760 0xf0c18, Put 0xffa8a764 0x1000140, Put 0xffa8a768 0xc10, Put 0xffa8a140 0x0, Put 0xffa8a144 0x200,
     Put 0xffa8a340 0x0, Put 0xffa8a344 0x200, Put 0xffa8a540 0x0, Put 0xffa8a544 0x200, Put 0xffa8a740 0x0]"

definition ddr_trace_9 :: "ddr_op list" where
  "ddr_trace_9 =
   [Put 0xffa8a744 0x200, Put 0xffa8a158 0x100000, Put 0xffa8a358 0x100000, Put 0xffa8a558 0x100000,
     Put 0xffa8a758 0x100000, RegCpy 0xffa8a100 [0x0, 0x0, 0x0, 0x0, 0x800000, 0x800080, 0x800080, 0x800080, 0x800080,
     0x800080, 0x800080, 0x800080, 0x800080, 0x1190080, 0x1, 0x0] 16, RegCpy 0xffa8a300 [0x0, 0x0, 0x0, 0x0, 0x800000,
     0x800080, 0x800080, 0x800080, 0x800080, 0x800080, 0x800080, 0x800080, 0x800080, 0x1190080, 0x1, 0x0] 16,
     RegCpy 0xffa8a500 [0x0, 0x0, 0x0, 0x0, 0x800000, 0x800080, 0x800080, 0x800080, 0x800080, 0x800080, 0x800080,
     0x800080, 0x800080, 0x1190080, 0x1, 0x0] 16, RegCpy 0xffa8a700 [0x0, 0x0, 0x0, 0x0, 0x800000, 0x800080, 0x800080,
     0x800080, 0x800080, 0x800080, 0x800080, 0x800080, 0x800080, 0x1190080, 0x1, 0x0] 16, Put 0xffa8a01c 0x300ef00,
     Put 0xffa8a21c 0x300ef00, Put 0xffa8a41c 0x300ef00, Put 0xffa8a61c 0x300ef00, Put 0xffa8ae70 0x249ef,
     Put 0xffa8ae78 0x11909, Put 0xffa8ae7c 0x46109, Put 0xffa8ae80 0x11909ef, Put 0xffa8ae84 0x46109ef,
     Put 0xffa8ae9c 0x11909ef, Put 0xffa8aea4 0x11909ef, Put 0xffa8aeac 0x11909ef, Put 0xffa881d8 0x1000500, Sleep 1,
     Sleep 1, Sleep 1, SetBits 0xffa88334 0x201000, Put 0xffa88244 0x0, Put 0xffa88248 0x0, Put 0xffa8827c 0x180000,
     Put 0xffa88280 0x180018, Put 0xffa8a018 0xdf00, Put 0xffa8a218 0xdf00, Put 0xffa8a418 0xdf00,
     Put 0xffa8a618 0xdf00, Put 0xffa8a01c 0x300df00, Put 0xffa8a21c 0x300df00, Put 0xffa8a41c 0x300df00,
     Put 0xffa8a61c 0x300df00, Put 0xffa8a880 0x300ef, Put 0xffa8aa80 0x300ef, Put 0xffa8ac80 0x300ef,
     Put 0xffa8ae80 0x11909ef, Put 0xffa8ae9c 0x11909ef, Put 0xffa8aeac 0x11909ef, Put 0xffa8ae84 0x46109ef,
     Put 0xffa8ae70 0x249ef, Put 0xffa8ae74 0x11df, Put 0xffa8a014 0x0, Put 0xffa8a214 0x0, Put 0xffa8a414 0x0,
     Put 0xffa8a614 0x0, Put 0xffa8a018 0xdf00, Put 0xffa8a218 0xdf00, Put 0xffa8a418 0xdf00, Put 0xffa8a618 0xdf00,
     Put 0xffa8a818 0x0, Put 0xffa8aa18 0x0, Put 0xffa8ac18 0x0, Put 0xffa8ae94 0xd45d, Put 0xffa8aea8 0xc519,
     Put 0xffa8aea0 0xc519, Put 0xffa8aeb0 0xd45d, Put 0xffa8ae98 0xd45d, Put 0xffa8ae88 0xd45d,
     Put 0xffa8ae44 0xf3701, Put 0xffa8ae48 0xd310f37, Put 0xffa8ae48 0xf370f37, Put 0xffa8ae4c 0xd030f37,
     Put 0xffa8ae4c 0xd030f37, Put 0xffa8ae70 0x2c9ef, Put 0xffa8ae78 0x11949, Put 0xffa8ae7c 0x46149,
     Put 0xffa8ae80 0x11949ef, Put 0xffa8ae84 0x46149ef, Put 0xffa8ae9c 0x11949ef, Put 0xffa8aea4 0x11949ef,
     Put 0xffa8aeac 0x11949ef, Put 0xffa8ae74 0x11df, Put 0xffa8ae78 0x11949, Put 0xffa8ae7c 0x46149,
     Put 0xffa8ae80 0x11949ef, Put 0xffa8ae84 0x46149ef, Put 0xffa8ae9c 0x11949ef, Put 0xffa8aea4 0x11949ef,
     Put 0xffa8aeac 0x11949ef, Put 0xffa8ae70 0x2c9ef, Put 0xffa8ae78 0x11949, Put 0xffa8ae7c 0x46149,
     Put 0xffa8ae80 0x11949ef, Put 0xffa8ae84 0x46149ef, Put 0xffa8ae9c 0x11949ef, Put 0xffa8aea4 0x11949ef,
     Put 0xffa8aeac 0x11949ef, Put 0xffa8ae70 0x42c9ef, Put 0xffa8ae78 0x11d49, Put 0xffa8ae7c 0x46549,
     Put 0xffa8ae80 0x11d49ef, Put 0xffa8ae84 0x46549ef, Put 0xffa8ae9c 0x11d49ef, Put 0xffa8aea4 0x11d49ef,
     Put 0xffa8aeac 0x11d49ef, Put 0xffa8ae70 0x42c9ef, Put 0xffa8ae78 0x11d49, Put 0xffa8ae7c 0x46549,
     Put 0xffa8ae80 0x11d49ef, Put 0xffa8ae84 0x46549ef, Put 0xffa8ae9c 0x11d49ef, Put 0xffa8aea4 0x11d49ef,
     Put 0xffa8aeac 0x11d49ef, Put 0xffa8822c 0x1000031, Put 0xffa88264 0x1000031, Put 0xffa88a10 0x4d4d01,
     Put 0xffa88a2c 0x4d010031, Put 0xffa88a4c 0x4d4d01, Put 0xffa88a68 0x4d010031, Put 0xffa8822c 0x1000031,
     Put 0xffa88264 0x1000031, Put 0xffa88a10 0x4d4d01, Put 0xffa88a2c 0x4d010031, Put 0xffa88a4c 0x4d4d01,
     Put 0xffa88a68 0x4d010031, Put 0xffa88228 0x310031, Put 0xffa88260 0x310031, Put 0xffa88a0c 0x310009,
     Put 0xffa88a2c 0x4d010031, Put 0xffa88a48 0x310009, Put 0xffa88a68 0x4d010031, Put 0xffa88230 0x720000,
     Put 0xffa88268 0x720000, Put 0xffa88a10 0x4d7201, Put 0xffa88a2c 0x72010031, Put 0xffa88a4c 0x4d7201,
     Put 0xffa88a68 0x72010031, Put 0xffa88238 0x720000, Put 0xffa88270 0x720000, Put 0xffa88a10 0x727201,
     Put 0xffa88a30 0x40072, Put 0xffa88a4c 0x727201, Put 0xffa88a6c 0x72, Put 0xffa8a028 0x0, Put 0xffa8a228 0x0,
     Put 0xffa8a428 0x0, Put 0xffa8a628 0x0, Put 0xff32e200 0x70007, SetBits 0xff3100d8 0x180,
     SetBits 0xff310060 0xc0000]"

definition ddr_trace_10 :: "ddr_op list" where
  "ddr_trace_10 =
   [Sleep 1, Put 0xff620000 0x350005, Sleep 1, Sleep 1, SetClock 400000000, Put 0xff620000 0x20002, Sleep 1, Sleep 1,
     Put 0xff310060 0x0, Sleep 1, Put 0xff3100d8 0x0, SetBits 0xffa82e7c 0x400000, Put 0xffa80abc 0x3f7c, Sleep 1,
     Put 0xffa808f0 0x228, Put 0xffa808ec 0xa000104, Sleep 1, Sleep 1, Sleep 1, Sleep 1, Sleep 1, Sleep 1, Sleep 1,
     Sleep 1, Sleep 1, Sleep 1, Put 0xffa80abc 0x3f7c, SetBits 0xffa82e00 0x1, Put 0xffa82020 0x10300,
     Put 0xffa82220 0x10300, Put 0xffa82420 0x10300, Put 0xffa82620 0x10300, Put 0xffa820fc 0x2000280,
     Put 0xffa822fc 0x2000280, Put 0xffa824fc 0x2000280, Put 0xffa826fc 0x2000280, Put 0xffa82e00 0x100,
     Put 0xffa80320 0x3010100, Put 0xffa808f0 0x28, Put 0xffa80abc 0x3f7c, Sleep 1, Put 0xffa80940 0x2010300,
     Put 0xffa80928 0x10000, Sleep 1, Sleep 1, Sleep 1, Sleep 1, Sleep 1, Sleep 1, Sleep 1, Sleep 1, Sleep 1, Sleep 1,
     Put 0xffa80abc 0x3f7c, Put 0xffa80940 0x10300, Put 0xffa80abc 0x3f7c, Sleep 1, Put 0xffa80940 0x20300,
     Put 0xffa80928 0x100, Sleep 1, Sleep 1, Put 0xffa80abc 0x3f7c, Put 0xffa80940 0x300, Put 0xffa80abc 0x3f7c,
     Sleep 1, Put 0xffa809d4 0x3000c, Put 0xffa809f0 0x20000, Put 0xffa809e4 0x34000100, Sleep 1, Sleep 1,
     Put 0xffa80abc 0x3f7c, Sleep 1, Put 0xffa809d4 0x3000c, Put 0xffa809f0 0x20000, Put 0xffa809e4 0x34020100,
     Sleep 1, Sleep 1, Put 0xffa80abc 0x3f7c, Put 0xffa809f0 0x0, Put 0xffa82e7c 0x46549, SetBits 0xffa8ae7c 0x400000,
     Put 0xffa88abc 0x3f7c, Sleep 1, Put 0xffa888f0 0x228, Put 0xffa888ec 0xa000104, Sleep 1, Sleep 1, Sleep 1,
     Sleep 1, Sleep 1, Sleep 1, Sleep 1, Sleep 1, Sleep 1, Sleep 1, Put 0xffa88abc 0x3f7c, SetBits 0xffa8ae00 0x1,
     Put 0xffa8a020 0x10300, Put 0xffa8a220 0x10300, Put 0xffa8a420 0x10300, Put 0xffa8a620 0x10300,
     Put 0xffa8a0fc 0x2000280, Put 0xffa8a2fc 0x2000280, Put 0xffa8a4fc 0x2000280, Put 0xffa8a6fc 0x2000280,
     Put 0xffa8ae00 0x100, Put 0xffa88320 0x3010100, Put 0xffa888f0 0x28, Put 0xffa88abc 0x3f7c, Sleep 1,
     Put 0xffa88940 0x2010300, Put 0xffa88928 0x10000, Sleep 1, Sleep 1, Sleep 1, Sleep 1, Sleep 1, Sleep 1, Sleep 1,
     Sleep 1, Sleep 1, Sleep 1, Put 0xffa88abc 0x3f7c, Put 0xffa88940 0x10300, Put 0xffa88abc 0x3f7c, Sleep 1,
     Put 0xffa88940 0x20300, Put 0xffa88928 0x100, Sleep 1, Sleep 1, Put 0xffa88abc 0x3f7c, Put 0xffa88940 0x300,
     Put 0xffa88abc 0x3f7c, Sleep 1, Put 0xffa889d4 0x3000c, Put 0xffa889f0 0x20000, Put 0xffa889e4 0x34000100,
     Sleep 1, Sleep 1, Put 0xffa88abc 0x3f7c, Sleep 1, Put 0xffa889d4 0x3000c, Put 0xffa889f0 0x20000,
     Put 0xffa889e4 0x34020100, Sleep 1, Sleep 1, Put 0xffa88abc 0x3f7c, Put 0xffa889f0 0x0, Put 0xffa8ae7c 0x46549,
     Put 0xffa82e00 0x0]"

definition ddr_trace_11 :: "ddr_op list" where
  "ddr_trace_11 =
   [Put 0xffa82e3c 0x1221102, Put 0xffa82e44 0xf3700, Put 0xffa82e50 0x30003, Put 0xffa82e54 0x3000300,
     Put 0xffa82e58 0x300, Put 0xffa82800 0x0, Put 0xffa82804 0x0, Put 0xffa82a00 0x0, Put 0xffa82a04 0x0,
     Put 0xffa82c00 0x0, Put 0xffa82c04 0x0, Put 0xffa82880 0x30055, Put 0xffa82884 0x3000300,
     Put 0xffa82888 0x3000300, Put 0xffa8288c 0x300, Put 0xffa82a80 0x30055, Put 0xffa82a84 0x3000300,
     Put 0xffa82a88 0x3000300, Put 0xffa82a8c 0x300, Put 0xffa82c80 0x30055, Put 0xffa82c84 0x3000300,
     Put 0xffa82c88 0x3000300, Put 0xffa82c8c 0x300, Put 0xffa82890 0x42080010, Put 0xffa82a90 0x42080010,
     Put 0xffa82c90 0x42080010, Put 0xffa82894 0x3, Put 0xffa82a94 0x3, Put 0xffa82c94 0x3, Put 0xffa820ec 0x2800280,
     Put 0xffa820f0 0x2800280, Put 0xffa820f4 0x2800280, Put 0xffa820f8 0x2800280, Put 0xffa820fc 0x280,
     Put 0xffa822ec 0x2800280, Put 0xffa822f0 0x2800280, Put 0xffa822f4 0x2800280, Put 0xffa822f8 0x2800280,
     Put 0xffa822fc 0x280, Put 0xffa824ec 0x2800280, Put 0xffa824f0 0x2800280, Put 0xffa824f4 0x2800280,
     Put 0xffa824f8 0x2800280, Put 0xffa824fc 0x280, Put 0xffa826ec 0x2800280, Put 0xffa826f0 0x2800280,
     Put 0xffa826f4 0x2800280, Put 0xffa826f8 0x2800280, Put 0xffa826fc 0x280, Put 0xffa8214c 0x51415152,
     Put 0xffa82150 0xc0014150, Put 0xffa82154 0x20000c0, Put 0xffa8234c 0x51415152, Put 0xffa82350 0xc0014150,
     Put 0xffa82354 0x20000c0, Put 0xffa8254c 0x51415152, Put 0xffa82550 0xc0014150, Put 0xffa82554 0x20000c0,
     Put 0xffa8274c 0x51415152, Put 0xffa82750 0xc0014150, Put 0xffa82754 0x20000c0, Put 0xffa8215c 0x7054204,
     Put 0xffa82160 0xf0c18, Put 0xffa82164 0x1000140, Put 0xffa82168 0xc10, Put 0xffa8235c 0x7054204,
     Put 0xffa82360 0xf0c18, Put 0xffa82364 0x1000140, Put 0xffa82368 0xc10, Put 0xffa8255c 0x7054204,
     Put 0xffa82560 0xf0c18, Put 0xffa82564 0x1000140, Put 0xffa82568 0xc10, Put 0xffa8275c 0x7054204,
     Put 0xffa82760 0xf0c18, Put 0xffa82764 0x1000140, Put 0xffa82768 0xc10, Put 0xffa82140 0x0, Put 0xffa82144 0x200,
     Put 0xffa82340 0x0, Put 0xffa82344 0x200, Put 0xffa82540 0x0, Put 0xffa82544 0x200, Put 0xffa82740 0x0,
     Put 0xffa82744 0x200, Put 0xffa82158 0x100001, Put 0xffa82358 0x100001, Put 0xffa82558 0x100001,
     Put 0xffa82758 0x100001, RegCpy 0xffa82100 [0x0, 0x0, 0x0, 0x0, 0x800000, 0x800080, 0x800080, 0x800080, 0x800080,
     0x800080, 0x800080, 0x800080, 0x800080, 0x1190080, 0x2, 0x0] 16, RegCpy 0xffa82300 [0x0, 0x0, 0x0, 0x0, 0x800000,
     0x800080, 0x800080, 0x800080, 0x800080, 0x800080, 0x800080, 0x800080, 0x800080, 0x1190080, 0x2, 0x0] 16,
     RegCpy 0xffa82500 [0x0, 0x0, 0x0, 0x0, 0x800000, 0x800080, 0x800080, 0x800080, 0x800080, 0x800080, 0x800080,
     0x800080, 0x800080, 0x1190080, 0x2, 0x0] 16, RegCpy 0xffa82700 [0x0, 0x0, 0x0, 0x0, 0x800000, 0x800080, 0x800080,
     0x800080, 0x800080, 0x800080, 0x800080, 0x800080, 0x800080, 0x1190080, 0x2, 0x0] 16, Put 0xffa8201c 0x300df00,
     Put 0xffa8221c 0x300df00, Put 0xffa8241c 0x300df00, Put 0xffa8261c 0x300df00, Put 0xffa82e70 0x2c9ef,
     Put 0xffa82e78 0x11949, Put 0xffa82e7c 0x46149, Put 0xffa82e80 0x11949ef, Put 0xffa82e84 0x46149ef,
     Put 0xffa82e9c 0x11949ef, Put 0xffa82ea4 0x11949ef, Put 0xffa82eac 0x11949ef, Put 0xffa801d8 0x1000500, Sleep 1,
     Sleep 1, Sleep 1, SetBits 0xffa80334 0x201000, Put 0xffa80244 0x30000, Put 0xffa80248 0x30003,
     Put 0xffa8027c 0x1b0000, Put 0xffa80280 0x1b001b, Put 0xffa82018 0xef09, Put 0xffa82218 0xef09,
     Put 0xffa82418 0xef09, Put 0xffa82618 0xef09, Put 0xffa8201c 0x300ef09, Put 0xffa8221c 0x300ef09,
     Put 0xffa8241c 0x300ef09, Put 0xffa8261c 0x300ef09, Put 0xffa82880 0x300ef, Put 0xffa82a80 0x300ef,
     Put 0xffa82c80 0x300ef, Put 0xffa82e80 0x11949ef, Put 0xffa82e9c 0x11949ef, Put 0xffa82eac 0x11949ef,
     Put 0xffa82e84 0x46149ef, Put 0xffa82e70 0x2c9ef, Put 0xffa82e74 0x11ef, Put 0xffa82014 0x10000,
     Put 0xffa82214 0x10000, Put 0xffa82414 0x10000, Put 0xffa82614 0x10000, Put 0xffa82018 0x100ef09,
     Put 0xffa82218 0x100ef09, Put 0xffa82418 0x100ef09, Put 0xffa82618 0x100ef09, Put 0xffa82818 0x0,
     Put 0xffa82a18 0x0, Put 0xffa82c18 0x0, Put 0xffa82e94 0xe49f, Put 0xffa82ea8 0xc55a, Put 0xffa82ea0 0xc55a,
     Put 0xffa82eb0 0xe49f]"

definition ddr_trace_12 :: "ddr_op list" where
  "ddr_trace_12 =
   [Put 0xffa82e98 0xe49f, Put 0xffa82e88 0xe49f, Put 0xffa82e44 0xf2000, Put 0xffa82e48 0xf370f20,
     Put 0xffa82e48 0xf200f20, Put 0xffa82e4c 0xd030f20, Put 0xffa82e4c 0xd030f20, Put 0xffa82e70 0x2c9ef,
     Put 0xffa82e78 0x11949, Put 0xffa82e7c 0x46149, Put 0xffa82e80 0x11949ef, Put 0xffa82e84 0x46149ef,
     Put 0xffa82e9c 0x11949ef, Put 0xffa82ea4 0x11949ef, Put 0xffa82eac 0x11949ef, Put 0xffa82e74 0x11ef,
     Put 0xffa82e78 0x11949, Put 0xffa82e7c 0x46149, Put 0xffa82e80 0x11949ef, Put 0xffa82e84 0x46149ef,
     Put 0xffa82e9c 0x11949ef, Put 0xffa82ea4 0x11949ef, Put 0xffa82eac 0x11949ef, Put 0xffa82e70 0x2c9ef,
     Put 0xffa82e78 0x11949, Put 0xffa82e7c 0x46149, Put 0xffa82e80 0x11949ef, Put 0xffa82e84 0x46149ef,
     Put 0xffa82e9c 0x11949ef, Put 0xffa82ea4 0x11949ef, Put 0xffa82eac 0x11949ef, Put 0xffa82e70 0x42c9ef,
     Put 0xffa82e78 0x11d49, Put 0xffa82e7c 0x46549, Put 0xffa82e80 0x11d49ef, Put 0xffa82e84 0x46549ef,
     Put 0xffa82e9c 0x11d49ef, Put 0xffa82ea4 0x11d49ef, Put 0xffa82eac 0x11d49ef, Put 0xffa82e70 0x42c9ef,
     Put 0xffa82e78 0x11d49, Put 0xffa82e7c 0x46549, Put 0xffa82e80 0x11d49ef, Put 0xffa82e84 0x46549ef,
     Put 0xffa82e9c 0x11d49ef, Put 0xffa82ea4 0x11d49ef, Put 0xffa82eac 0x11d49ef, Put 0xffa80230 0x720001,
     Put 0xffa80268 0x720001, Put 0xffa80a04 0x4d010031, Put 0xffa80a24 0x4d4d01, Put 0xffa80a40 0x4d010031,
     Put 0xffa80a60 0x4d4d01, Put 0xffa80230 0x720001, Put 0xffa80268 0x720001, Put 0xffa80a04 0x4d010031,
     Put 0xffa80a24 0x4d4d01, Put 0xffa80a40 0x4d010031, Put 0xffa80a60 0x4d4d01, Put 0xffa80228 0x190031,
     Put 0xffa80260 0x190031, Put 0xffa80a04 0x4d010019, Put 0xffa80a20 0x190012, Put 0xffa80a40 0x4d010019,
     Put 0xffa80a5c 0x190012, Put 0xffa80234 0x720072, Put 0xffa8026c 0x720072, Put 0xffa80a04 0x72010019,
     Put 0xffa80a24 0x4d7201, Put 0xffa80a40 0x72010019, Put 0xffa80a60 0x4d7201, Put 0xffa8023c 0x720072,
     Put 0xffa80274 0x720072, Put 0xffa80a08 0x1472, Put 0xffa80a24 0x727201, Put 0xffa80a44 0x1472,
     Put 0xffa80a60 0x727201, Put 0xffa82028 0x0, Put 0xffa82228 0x0, Put 0xffa82428 0x0, Put 0xffa82628 0x0, Sleep 1,
     Put 0xffa8ae00 0x0, Put 0xffa8ae3c 0x1221102, Put 0xffa8ae44 0xf3700, Put 0xffa8ae50 0x30003,
     Put 0xffa8ae54 0x3000300, Put 0xffa8ae58 0x300, Put 0xffa8a800 0x0, Put 0xffa8a804 0x0, Put 0xffa8aa00 0x0,
     Put 0xffa8aa04 0x0, Put 0xffa8ac00 0x0, Put 0xffa8ac04 0x0, Put 0xffa8a880 0x30055, Put 0xffa8a884 0x3000300,
     Put 0xffa8a888 0x3000300, Put 0xffa8a88c 0x300, Put 0xffa8aa80 0x30055, Put 0xffa8aa84 0x3000300,
     Put 0xffa8aa88 0x3000300, Put 0xffa8aa8c 0x300, Put 0xffa8ac80 0x30055, Put 0xffa8ac84 0x3000300,
     Put 0xffa8ac88 0x3000300, Put 0xffa8ac8c 0x300, Put 0xffa8a890 0x42080010, Put 0xffa8aa90 0x42080010,
     Put 0xffa8ac90 0x42080010, Put 0xffa8a894 0x3, Put 0xffa8aa94 0x3, Put 0xffa8ac94 0x3, Put 0xffa8a0ec 0x2800280,
     Put 0xffa8a0f0 0x2800280, Put 0xffa8a0f4 0x2800280, Put 0xffa8a0f8 0x2800280, Put 0xffa8a0fc 0x280,
     Put 0xffa8a2ec 0x2800280, Put 0xffa8a2f0 0x2800280, Put 0xffa8a2f4 0x2800280, Put 0xffa8a2f8 0x2800280,
     Put 0xffa8a2fc 0x280, Put 0xffa8a4ec 0x2800280, Put 0xffa8a4f0 0x2800280, Put 0xffa8a4f4 0x2800280,
     Put 0xffa8a4f8 0x2800280, Put 0xffa8a4fc 0x280, Put 0xffa8a6ec 0x2800280, Put 0xffa8a6f0 0x2800280,
     Put 0xffa8a6f4 0x2800280, Put 0xffa8a6f8 0x2800280, Put 0xffa8a6fc 0x280, Put 0xffa8a14c 0x51415152,
     Put 0xffa8a150 0xc0014150, Put 0xffa8a154 0x20000c0, Put 0xffa8a34c 0x51415152, Put 0xffa8a350 0xc0014150,
     Put 0xffa8a354 0x20000c0, Put 0xffa8a54c 0x51415152, Put 0xffa8a550 0xc0014150, Put 0xffa8a554 0x20000c0,
     Put 0xffa8a74c 0x51415152, Put 0xffa8a750 0xc0014150, Put 0xffa8a754 0x20000c0, Put 0xffa8a15c 0x7054204,
     Put 0xffa8a160 0xf0c18, Put 0xffa8a164 0x1000140, Put 0xffa8a168 0xc10, Put 0xffa8a35c 0x7054204,
     Put 0xffa8a360 0xf0c18]"

definition ddr_trace_13 :: "ddr_op list" where
  "ddr_trace_13 =
   [Put 0xffa8a364 0x1000140, Put 0xffa8a368 0xc10, Put 0xffa8a55c 0x7054204, Put 0xffa8a560 0xf0c18,
     Put 0xffa8a564 0x1000140, Put 0xffa8a568 0xc10, Put 0xffa8a75c 0x7054204, Put 0xffa8a760 0xf0c18,
     Put 0xffa8a764 0x1000140, Put 0xffa8a768 0xc10, Put 0xffa8a140 0x0, Put 0xffa8a144 0x200, Put 0xffa8a340 0x0,
     Put 0xffa8a344 0x200, Put 0xffa8a540 0x0, Put 0xffa8a544 0x200, Put 0xffa8a740 0x0, Put 0xffa8a744 0x200,
     Put 0xffa8a158 0x100001, Put 0xffa8a358 0x100001, Put 0xffa8a558 0x100001, Put 0xffa8a758 0x100001,
     RegCpy 0xffa8a100 [0x0, 0x0, 0x0, 0x0, 0x800000, 0x800080, 0x800080, 0x800080, 0x800080, 0x800080, 0x800080,
     0x800080, 0x800080, 0x1190080, 0x2, 0x0] 16, RegCpy 0xffa8a300 [0x0, 0x0, 0x0, 0x0, 0x800000, 0x800080, 0x800080,
     0x800080, 0x800080, 0x800080, 0x800080, 0x800080, 0x800080, 0x1190080, 0x2, 0x0] 16, RegCpy 0xffa8a500 [0x0, 0x0,
     0x0, 0x0, 0x800000, 0x800080, 0x800080, 0x800080, 0x800080, 0x800080, 0x800080, 0x800080, 0x800080, 0x1190080,
     0x2, 0x0] 16, RegCpy 0xffa8a700 [0x0, 0x0, 0x0, 0x0, 0x800000, 0x800080, 0x800080, 0x800080, 0x800080, 0x800080,
     0x800080, 0x800080, 0x800080, 0x1190080, 0x2, 0x0] 16, Put 0xffa8a01c 0x300df00, Put 0xffa8a21c 0x300df00,
     Put 0xffa8a41c 0x300df00, Put 0xffa8a61c 0x300df00, Put 0xffa8ae70 0x2c9ef, Put 0xffa8ae78 0x11949,
     Put 0xffa8ae7c 0x46149, Put 0xffa8ae80 0x11949ef, Put 0xffa8ae84 0x46149ef, Put 0xffa8ae9c 0x11949ef,
     Put 0xffa8aea4 0x11949ef, Put 0xffa8aeac 0x11949ef, Put 0xffa881d8 0x1000500, Sleep 1, Sleep 1, Sleep 1,
     SetBits 0xffa88334 0x201000, Put 0xffa88244 0x30000, Put 0xffa88248 0x30003, Put 0xffa8827c 0x1b0000,
     Put 0xffa88280 0x1b001b, Put 0xffa8a018 0xef09, Put 0xffa8a218 0xef09, Put 0xffa8a418 0xef09,
     Put 0xffa8a618 0xef09, Put 0xffa8a01c 0x300ef09, Put 0xffa8a21c 0x300ef09, Put 0xffa8a41c 0x300ef09,
     Put 0xffa8a61c 0x300ef09, Put 0xffa8a880 0x300ef, Put 0xffa8aa80 0x300ef, Put 0xffa8ac80 0x300ef,
     Put 0xffa8ae80 0x11949ef, Put 0xffa8ae9c 0x11949ef, Put 0xffa8aeac 0x11949ef, Put 0xffa8ae84 0x46149ef,
     Put 0xffa8ae70 0x2c9ef, Put 0xffa8ae74 0x11ef, Put 0xffa8a014 0x10000, Put 0xffa8a214 0x10000,
     Put 0xffa8a414 0x10000, Put 0xffa8a614 0x10000, Put 0xffa8a018 0x100ef09, Put 0xffa8a218 0x100ef09,
     Put 0xffa8a418 0x100ef09, Put 0xffa8a618 0x100ef09, Put 0xffa8a818 0x0, Put 0xffa8aa18 0x0, Put 0xffa8ac18 0x0,
     Put 0xffa8ae94 0xd45d, Put 0xffa8aea8 0xc519, Put 0xffa8aea0 0xc519, Put 0xffa8aeb0 0xd45d,
     Put 0xffa8ae98 0xd45d, Put 0xffa8ae88 0xd45d, Put 0xffa8ae44 0xf2000, Put 0xffa8ae48 0xf370f20,
     Put 0xffa8ae48 0xf200f20, Put 0xffa8ae4c 0xd030f20, Put 0xffa8ae4c 0xd030f20, Put 0xffa8ae70 0x2c9ef,
     Put 0xffa8ae78 0x11949, Put 0xffa8ae7c 0x46149, Put 0xffa8ae80 0x11949ef, Put 0xffa8ae84 0x46149ef,
     Put 0xffa8ae9c 0x11949ef, Put 0xffa8aea4 0x11949ef, Put 0xffa8aeac 0x11949ef, Put 0xffa8ae74 0x11ef,
     Put 0xffa8ae78 0x11949, Put 0xffa8ae7c 0x46149, Put 0xffa8ae80 0x11949ef, Put 0xffa8ae84 0x46149ef,
     Put 0xffa8ae9c 0x11949ef, Put 0xffa8aea4 0x11949ef, Put 0xffa8aeac 0x11949ef, Put 0xffa8ae70 0x2c9ef,
     Put 0xffa8ae78 0x11949, Put 0xffa8ae7c 0x46149, Put 0xffa8ae80 0x11949ef, Put 0xffa8ae84 0x46149ef,
     Put 0xffa8ae9c 0x11949ef, Put 0xffa8aea4 0x11949ef, Put 0xffa8aeac 0x11949ef, Put 0xffa8ae70 0x42c9ef,
     Put 0xffa8ae78 0x11d49, Put 0xffa8ae7c 0x46549, Put 0xffa8ae80 0x11d49ef, Put 0xffa8ae84 0x46549ef,
     Put 0xffa8ae9c 0x11d49ef, Put 0xffa8aea4 0x11d49ef, Put 0xffa8aeac 0x11d49ef, Put 0xffa8ae70 0x42c9ef,
     Put 0xffa8ae78 0x11d49, Put 0xffa8ae7c 0x46549, Put 0xffa8ae80 0x11d49ef, Put 0xffa8ae84 0x46549ef,
     Put 0xffa8ae9c 0x11d49ef, Put 0xffa8aea4 0x11d49ef, Put 0xffa8aeac 0x11d49ef, Put 0xffa88230 0x720001,
     Put 0xffa88268 0x720001, Put 0xffa88a04 0x4d010031, Put 0xffa88a24 0x4d4d01, Put 0xffa88a40 0x4d010031,
     Put 0xffa88a60 0x4d4d01, Put 0xffa88230 0x720001, Put 0xffa88268 0x720001, Put 0xffa88a04 0x4d010031,
     Put 0xffa88a24 0x4d4d01, Put 0xffa88a40 0x4d010031, Put 0xffa88a60 0x4d4d01, Put 0xffa88228 0x190031,
     Put 0xffa88260 0x190031, Put 0xffa88a04 0x4d010019, Put 0xffa88a20 0x190012, Put 0xffa88a40 0x4d010019,
     Put 0xffa88a5c 0x190012, Put 0xffa88234 0x720072, Put 0xffa8826c 0x720072]"

definition ddr_trace_14 :: "ddr_op list" where
  "ddr_trace_14 =
   [Put 0xffa88a04 0x72010019, Put 0xffa88a24 0x4d7201, Put 0xffa88a40 0x72010019, Put 0xffa88a60 0x4d7201,
     Put 0xffa8823c 0x720072, Put 0xffa88274 0x720072, Put 0xffa88a08 0x1472, Put 0xffa88a24 0x727201,
     Put 0xffa88a44 0x1472, Put 0xffa88a60 0x727201, Put 0xffa8a028 0x0, Put 0xffa8a228 0x0, Put 0xffa8a428 0x0,
     Put 0xffa8a628 0x0, Sleep 1, Put 0xff32e200 0x70007, SetBits 0xff3100d8 0x180, SetBits 0xff310060 0xc0000,
     Sleep 1, Put 0xff620000 0x350015, Sleep 1, SetClock 800000000, Put 0xff620000 0x20002, Sleep 1, Sleep 1,
     Put 0xff310060 0x0, Sleep 1, Put 0xff3100d8 0x0, SetBits 0xffa82e7c 0x400000, Put 0xffa80abc 0x3f7c, Sleep 1,
     Put 0xffa82020 0x10300, Put 0xffa82220 0x10300, Put 0xffa82420 0x10300, Put 0xffa82620 0x10300,
     Put 0xffa808f0 0x228, Put 0xffa808ec 0xa000104, Sleep 1, Sleep 1, Sleep 1, Sleep 1, Sleep 1, Sleep 1, Sleep 1,
     Sleep 1, Sleep 1, Sleep 1, Put 0xffa80abc 0x3f7c, SetBits 0xffa82e00 0x1, Put 0xffa82020 0x10300,
     Put 0xffa82220 0x10300, Put 0xffa82420 0x10300, Put 0xffa82620 0x10300, Put 0xffa820fc 0x2000280,
     Put 0xffa822fc 0x2000280, Put 0xffa824fc 0x2000280, Put 0xffa826fc 0x2000280, Put 0xffa82e00 0x0,
     Put 0xffa80320 0x3010100, Put 0xffa808f0 0x28, Put 0xffa80abc 0x3f7c, Sleep 1, Put 0xffa82020 0x10300,
     Put 0xffa82220 0x10300, Put 0xffa82420 0x10300, Put 0xffa82620 0x10300, Put 0xffa80940 0x2000300,
     Put 0xffa80928 0x10000, Sleep 1, Sleep 1, Sleep 1, Sleep 1, Sleep 1, Sleep 1, Sleep 1, Sleep 1, Sleep 1, Sleep 1,
     Put 0xffa80abc 0x3f7c, Put 0xffa80940 0x300, Put 0xffa80abc 0x3f7c, Sleep 1, Put 0xffa82020 0x10300,
     Put 0xffa82220 0x10300, Put 0xffa82420 0x10300, Put 0xffa82620 0x10300, Put 0xffa80940 0x20300,
     Put 0xffa80928 0x100, Sleep 1, Sleep 1, Put 0xffa80abc 0x3f7c, Put 0xffa80940 0x300, Put 0xffa80abc 0x3f7c,
     Sleep 1, Put 0xffa82020 0x10300, Put 0xffa82220 0x10300, Put 0xffa82420 0x10300, Put 0xffa82620 0x10300,
     Put 0xffa809d4 0x3000c, Put 0xffa809f0 0x20000, Put 0xffa809e4 0x34000100, Sleep 1, Sleep 1,
     Put 0xffa80abc 0x3f7c, Sleep 1, Put 0xffa82020 0x2010300, Put 0xffa82220 0x2010300, Put 0xffa82420 0x2010300,
     Put 0xffa82620 0x2010300, Put 0xffa809d4 0x3000c, Put 0xffa809f0 0x20000, Put 0xffa809e4 0x34020100, Sleep 1,
     Sleep 1, Put 0xffa80abc 0x3f7c, Put 0xffa809f0 0x0, Put 0xffa82e7c 0x46549, SetBits 0xffa8ae7c 0x400000,
     Put 0xffa88abc 0x3f7c, Sleep 1, Put 0xffa8a020 0x10300, Put 0xffa8a220 0x10300, Put 0xffa8a420 0x10300,
     Put 0xffa8a620 0x10300, Put 0xffa888f0 0x228, Put 0xffa888ec 0xa000104, Sleep 1, Sleep 1, Sleep 1, Sleep 1,
     Sleep 1, Sleep 1, Sleep 1, Sleep 1, Sleep 1, Sleep 1, Put 0xffa88abc 0x3f7c, SetBits 0xffa8ae00 0x1,
     Put 0xffa8a020 0x10300, Put 0xffa8a220 0x10300, Put 0xffa8a420 0x10300, Put 0xffa8a620 0x10300,
     Put 0xffa8a0fc 0x2000280, Put 0xffa8a2fc 0x2000280, Put 0xffa8a4fc 0x2000280, Put 0xffa8a6fc 0x2000280,
     Put 0xffa8ae00 0x0, Put 0xffa88320 0x3010100, Put 0xffa888f0 0x28, Put 0xffa88abc 0x3f7c]"

definition ddr_trace_15 :: "ddr_op list" where
  "ddr_trace_15 =
   [Sleep 1, Put 0xffa8a020 0x10300, Put 0xffa8a220 0x10300, Put 0xffa8a420 0x10300, Put 0xffa8a620 0x10300,
     Put 0xffa88940 0x2000300, Put 0xffa88928 0x10000, Sleep 1, Sleep 1, Sleep 1, Sleep 1, Sleep 1, Sleep 1, Sleep 1,
     Sleep 1, Sleep 1, Sleep 1, Put 0xffa88abc 0x3f7c, Put 0xffa88940 0x300, Put 0xffa88abc 0x3f7c, Sleep 1,
     Put 0xffa8a020 0x10300, Put 0xffa8a220 0x10300, Put 0xffa8a420 0x10300, Put 0xffa8a620 0x10300,
     Put 0xffa88940 0x20300, Put 0xffa88928 0x100, Sleep 1, Sleep 1, Put 0xffa88abc 0x3f7c, Put 0xffa88940 0x300,
     Put 0xffa88abc 0x3f7c, Sleep 1, Put 0xffa8a020 0x10300, Put 0xffa8a220 0x10300, Put 0xffa8a420 0x10300,
     Put 0xffa8a620 0x10300, Put 0xffa889d4 0x3000c, Put 0xffa889f0 0x20000, Put 0xffa889e4 0x34000100, Sleep 1,
     Sleep 1, Put 0xffa88abc 0x3f7c, Sleep 1, Put 0xffa8a020 0x2010300, Put 0xffa8a220 0x2010300,
     Put 0xffa8a420 0x2010300, Put 0xffa8a620 0x2010300, Put 0xffa889d4 0x3000c, Put 0xffa889f0 0x20000,
     Put 0xffa889e4 0x34020100, Sleep 1, Sleep 1, Put 0xffa88abc 0x3f7c, Put 0xffa889f0 0x0, Put 0xffa8ae7c 0x46549]"

definition ddr_trace :: "ddr_op list" where
  "ddr_trace = concat [ddr_trace_1, ddr_trace_2, ddr_trace_3, ddr_trace_4, ddr_trace_5, ddr_trace_6, ddr_trace_7, ddr_trace_8,
     ddr_trace_9, ddr_trace_10, ddr_trace_11, ddr_trace_12, ddr_trace_13, ddr_trace_14, ddr_trace_15]"

subsection \<open>What they write\<close>

text \<open>The DDR controllers with their PHYs (0xffa80000), the clock and reset unit, the registers of the power
  management, the security and the interconnect that the recording has, and two words of the
  DRAM, one per channel.\<close>

definition ddr_register :: "addr \<Rightarrow> bool" where
  "ddr_register a = (if 0xffa80000 \<le> a \<and> a < 0xffa90000 then True
     else a \<in> {0xff760410, 0xff760510, 0xff750124, 0xff33e010, 0xff320308, 0xff32030c, 0xff32e200,
         0xff310060, 0xff3100d8, 0xff620000, 0x100, 0x40000100})"

fun ddr_op_fits :: "ddr_op \<Rightarrow> bool" where
  "ddr_op_fits (Put a v) \<longleftrightarrow> ddr_register a"
| "ddr_op_fits (SetBits a v) \<longleftrightarrow> ddr_register a"
| "ddr_op_fits (RegCpy a ws n) \<longleftrightarrow> 0xffa80000 \<le> a \<and> a < 0xffa90000 \<and> n \<le> 331 \<and> a \<le> 0xffa90000 - 4 * of_nat n"
| "ddr_op_fits (Sleep us) \<longleftrightarrow> us = 1 \<or> us = 10"
| "ddr_op_fits WaitPctl \<longleftrightarrow> True"
| "ddr_op_fits (SetClock hz) \<longleftrightarrow> hz = 400000000 \<or> hz = 800000000"

lemma ddr_trace_1_fits: "list_all ddr_op_fits ddr_trace_1"
  unfolding ddr_trace_1_def list.pred_inject ddr_op_fits.simps ddr_register_def by simp

lemma ddr_trace_2_fits: "list_all ddr_op_fits ddr_trace_2"
  unfolding ddr_trace_2_def list.pred_inject ddr_op_fits.simps ddr_register_def by simp

lemma ddr_trace_3_fits: "list_all ddr_op_fits ddr_trace_3"
  unfolding ddr_trace_3_def list.pred_inject ddr_op_fits.simps ddr_register_def by simp

lemma ddr_trace_4_fits: "list_all ddr_op_fits ddr_trace_4"
  unfolding ddr_trace_4_def list.pred_inject ddr_op_fits.simps ddr_register_def by simp

lemma ddr_trace_5_fits: "list_all ddr_op_fits ddr_trace_5"
  unfolding ddr_trace_5_def list.pred_inject ddr_op_fits.simps ddr_register_def by simp

lemma ddr_trace_6_fits: "list_all ddr_op_fits ddr_trace_6"
  unfolding ddr_trace_6_def list.pred_inject ddr_op_fits.simps ddr_register_def by simp

lemma ddr_trace_7_fits: "list_all ddr_op_fits ddr_trace_7"
  unfolding ddr_trace_7_def list.pred_inject ddr_op_fits.simps ddr_register_def by simp

lemma ddr_trace_8_fits: "list_all ddr_op_fits ddr_trace_8"
  unfolding ddr_trace_8_def list.pred_inject ddr_op_fits.simps ddr_register_def by simp

lemma ddr_trace_9_fits: "list_all ddr_op_fits ddr_trace_9"
  unfolding ddr_trace_9_def list.pred_inject ddr_op_fits.simps ddr_register_def by simp

lemma ddr_trace_10_fits: "list_all ddr_op_fits ddr_trace_10"
  unfolding ddr_trace_10_def list.pred_inject ddr_op_fits.simps ddr_register_def by simp

lemma ddr_trace_11_fits: "list_all ddr_op_fits ddr_trace_11"
  unfolding ddr_trace_11_def list.pred_inject ddr_op_fits.simps ddr_register_def by simp

lemma ddr_trace_12_fits: "list_all ddr_op_fits ddr_trace_12"
  unfolding ddr_trace_12_def list.pred_inject ddr_op_fits.simps ddr_register_def by simp

lemma ddr_trace_13_fits: "list_all ddr_op_fits ddr_trace_13"
  unfolding ddr_trace_13_def list.pred_inject ddr_op_fits.simps ddr_register_def by simp

lemma ddr_trace_14_fits: "list_all ddr_op_fits ddr_trace_14"
  unfolding ddr_trace_14_def list.pred_inject ddr_op_fits.simps ddr_register_def by simp

lemma ddr_trace_15_fits: "list_all ddr_op_fits ddr_trace_15"
  unfolding ddr_trace_15_def list.pred_inject ddr_op_fits.simps ddr_register_def by simp

lemma ddr_trace_fits: "list_all ddr_op_fits ddr_trace"
  by (simp add: ddr_trace_def ddr_trace_1_fits ddr_trace_2_fits ddr_trace_3_fits ddr_trace_4_fits ddr_trace_5_fits
      ddr_trace_6_fits ddr_trace_7_fits ddr_trace_8_fits ddr_trace_9_fits ddr_trace_10_fits ddr_trace_11_fits
      ddr_trace_12_fits ddr_trace_13_fits ddr_trace_14_fits ddr_trace_15_fits)

end
