(* ===== verification/Rk3399_Ddr.thy ===== *)
theory Rk3399_Ddr
  imports Laptops Ddr_Trace
begin

text \<open>
  The stage of the Pinebook that sets up its DRAM: the recorded register accesses as a program
  (src/rk3399/ddr-4gb-lpddr4.c) and the entry that runs it (src/rk3399/pinebook-ddr.c).
\<close>

subsection \<open>The code\<close>

text \<open>\<open>usleep\<close> is a macro of the file: a hundred ticks for each microsecond.\<close>

definition ddr_usleep :: "device \<Rightarrow> int \<Rightarrow> history \<Rightarrow> history option" where
  "ddr_usleep dev us t = timer0_usleep dev (us * 100) t"

partial_function (option) wait_for_pctl :: "device \<Rightarrow> history \<Rightarrow> history option" where
  "wait_for_pctl dev t =
     (case read32 dev 0xffa8032c t of (v, t) \<Rightarrow>
        if v = 0 then do { t \<leftarrow> ddr_usleep dev 1 t; wait_for_pctl dev t } else Some t)"

declare wait_for_pctl.simps [code]

definition regcpy :: "addr \<Rightarrow> u32 list \<Rightarrow> nat \<Rightarrow> history \<Rightarrow> history" where
  "regcpy dest src n = fold (\<lambda>i. write32 (dest + 4 * of_nat i) (src ! i)) [0..<n]"

definition ddr_step :: "device \<Rightarrow> (int \<Rightarrow> u8) \<Rightarrow> ddr_op \<Rightarrow> history \<Rightarrow> outcome option" where
  "ddr_step dev stack op t =
     (case op of
        Put a v \<Rightarrow> Some (Inr (write32 a v t))
      | SetBits a v \<Rightarrow> Some (Inr (rmw32 dev a (\<lambda>old. old OR v) t))
      | Sleep us \<Rightarrow> do { t \<leftarrow> ddr_usleep dev us t; Some (Inr t) }
      | WaitPctl \<Rightarrow> do { t \<leftarrow> wait_for_pctl dev t; Some (Inr t) }
      | RegCpy dest src n \<Rightarrow> Some (Inr (regcpy dest src n t))
      | SetClock hz \<Rightarrow> dram_set_clock dev stack hz t)"

primrec ddr_run :: "device \<Rightarrow> (int \<Rightarrow> u8) \<Rightarrow> ddr_op list \<Rightarrow> history \<Rightarrow> outcome option" where
  "ddr_run dev stack [] t = Some (Inr t)"
| "ddr_run dev stack (op # ops) t = go_on (ddr_step dev stack op t) (ddr_run dev stack ops)"

definition rk3399_ddr_entry :: "device \<Rightarrow> (int \<Rightarrow> u8) \<Rightarrow> history \<Rightarrow> outcome option" where
  "rk3399_ddr_entry dev stack t = ddr_run dev stack ddr_trace t"

text \<open>The entry of the stage. The test of the DRAM is a write of the history, since the memory is not yet
  one.\<close>

definition ddr_entry :: "device \<Rightarrow> (int \<Rightarrow> u8) \<Rightarrow> history \<Rightarrow> outcome option" where
  "ddr_entry dev stack t =
     (let t = drive_high dev 0 2 t;
          t = pinebook_power dev t;
          t = setup_cru (reset_timer0 t) in
      go_on (rk3399_cpu_clock_start dev stack t) (\<lambda>t.
        let t = write32 (0xff330000 + 4 * 16) 0xc000c000 t in
        go_on (clock_set_pll dev stack (CRU_BASE + 0x40) 1 12 3 2 t) (\<lambda>t.
          go_on (rk3399_ddr_entry dev stack t) (\<lambda>t.
            let t = write32 0x10000000 0x1234567 t;
                t = Rk3399.gpio_set_dir dev 0 2 0 t
            in Some (Inr (Rk3399.gpio_set_pin dev 0 2 0 t))))))"

subsection \<open>It ends, and what it writes\<close>

text \<open>A timer that goes on: whatever it showed, some time later it shows less or 24000 ticks more.\<close>

definition timer0_goes_on :: "device \<Rightarrow> bool" where
  "timer0_goes_on dev \<longleftrightarrow> (\<forall>t earlier. \<exists>n. let now = dev_rd dev (after_reads dev (TIMER0_START + 8) n t) (TIMER0_START + 8) in
     now < earlier \<or> now - earlier > 24000)"

text \<open>While the program only reads, the controller gets ready at some time and stays so.\<close>

definition pctl_gets_ready :: "device \<Rightarrow> bool" where
  "pctl_gets_ready dev \<longleftrightarrow> (\<forall>t. \<exists>n. \<forall>new. only_reads new \<and> length new \<ge> n \<longrightarrow> dev_rd dev (new @ t) 0xffa8032c \<noteq> 0)"

definition in_registers :: "history \<Rightarrow> bool" where
  "in_registers new \<longleftrightarrow> (\<forall>a v. Write32 a v \<in> set new \<longrightarrow> ddr_register a \<or> 0xff760040 \<le> a \<and> a < 0xff760050)"

lemma in_registers_simps [simp]:
  "in_registers []"
  "in_registers (xs @ ys) \<longleftrightarrow> in_registers xs \<and> in_registers ys"
  "in_registers (Write32 a v # xs) \<longleftrightarrow> (ddr_register a \<or> 0xff760040 \<le> a \<and> a < 0xff760050) \<and> in_registers xs"
  "in_registers (Read32 a v # xs) \<longleftrightarrow> in_registers xs"
  by (auto simp: in_registers_def)

lemma only_reads_in_registers: "only_reads new \<Longrightarrow> in_registers new"
  by (auto simp: in_registers_def only_reads_def)

lemma ddr_usleep_waits:
  assumes "timer0_goes_on dev" and "us = 1 \<or> us = 10"
  shows "proceeds (ddr_usleep dev us) only_reads"
proof -
  have "\<exists>n. let now = dev_rd dev (after_reads dev (TIMER0_START + 8) n t) (TIMER0_START + 8) in
     now < earlier \<or> now - earlier > word_of_int (us * 100 * 24)" for t earlier
  proof -
    have "word_of_int (us * 100 * 24) \<le> (24000 :: u32)" using assms(2) by auto
    then show ?thesis
      using assms(1) unfolding timer0_goes_on_def Let_def by (meson order_le_less_trans)
  qed
  then show ?thesis
    unfolding ddr_usleep_def [abs_def] by (rule timer0_usleep_waits)
qed

lemma wait_for_pctl_ends:
  assumes "timer0_goes_on dev" and "pctl_gets_ready dev"
  shows "proceeds (wait_for_pctl dev) only_reads"
  unfolding proceeds_def
proof
  fix t
  obtain n where n: "\<And>new. only_reads new \<Longrightarrow> length new \<ge> n \<Longrightarrow> dev_rd dev (new @ t) 0xffa8032c \<noteq> 0"
    using assms(2) unfolding pctl_gets_ready_def by blast
  have "\<exists>more. wait_for_pctl dev (new @ t) = Some (more @ new @ t) \<and> only_reads more" if "only_reads new" for new
    using that
  proof (induction "n - length new" arbitrary: new rule: less_induct)
    case less
    let ?e = "Read32 0xffa8032c (dev_rd dev (new @ t) 0xffa8032c)"
    note step = wait_for_pctl.simps [of dev "new @ t"]
    show ?case
    proof (cases "dev_rd dev (new @ t) 0xffa8032c = 0")
      case True
      with n [OF less.prems] have "length new < n" by (meson not_less)
      obtain us where us: "ddr_usleep dev 1 (?e # new @ t) = Some (us @ ?e # new @ t)" "only_reads us"
        using ddr_usleep_waits [OF assms(1), of 1] unfolding proceeds_def by blast
      have "\<exists>more. wait_for_pctl dev ((us @ ?e # new) @ t) = Some (more @ (us @ ?e # new) @ t) \<and> only_reads more"
        by (rule less.hyps) (use \<open>length new < n\<close> us(2) less.prems in simp_all)
      then obtain more where "wait_for_pctl dev (us @ ?e # new @ t) = Some (more @ us @ ?e # new @ t)" "only_reads more"
        by auto
      then show ?thesis
        using us True by (intro exI [of _ "more @ us @ [?e]"]) (simp add: step read32_def)
    next
      case False
      then show ?thesis by (intro exI [of _ "[?e]"]) (simp add: step read32_def)
    qed
  qed
  from this [of "[]"] show "\<exists>new. wait_for_pctl dev t = Some (new @ t) \<and> only_reads new" by simp
qed

lemma regcpy_in_registers:
  assumes "0xffa80000 \<le> a" "n \<le> 331" "a \<le> 0xffa90000 - 4 * of_nat n"
  shows "\<exists>new. regcpy a ws n t = new @ t \<and> in_registers new"
proof -
  have "\<exists>new. regcpy a ws k t = new @ t \<and> in_registers new" if "k \<le> n" for k
    using that
  proof (induction k)
    case (Suc k)
    then obtain new where new: "regcpy a ws k t = new @ t" "in_registers new" by auto
    have "unat (of_nat n :: u64) = n" "unat (of_nat k :: u64) = k" using Suc.prems assms(2) by (simp_all add: unat_of_nat_u64)
    then have m: "unat (4 * of_nat n :: u64) = 4 * n" "unat (4 * of_nat k :: u64) = 4 * k"
      using Suc.prems assms(2) by (simp_all add: unat_mult_lem [THEN iffD1])
    have "4 * of_nat n \<le> (0xffa90000 :: u64)" using m assms(2) by (simp add: word_le_nat_alt)
    then have "unat a \<le> 0xffa90000 - 4 * n" using assms(3) m by (simp add: word_le_nat_alt unat_sub)
    moreover have "unat (a + 4 * of_nat k) = unat a + 4 * k"
      using calculation m by (subst unat_plus_no_wrap) (use assms(2) Suc.prems in auto)
    moreover from calculation have "unat a + 4 * k < 0xffa90000" using Suc.prems assms(2) by linarith
    ultimately have "ddr_register (a + 4 * of_nat k)"
      using assms(1) by (simp add: ddr_register_def word_le_nat_alt word_less_nat_alt)
    with new show ?case
      by (intro exI [of _ "Write32 (a + 4 * of_nat k) (ws ! k) # new"]) (simp add: regcpy_def write32_def)
  qed (simp add: regcpy_def)
  then show ?thesis by simp
qed

lemma dram_set_clock_in_registers:
  assumes "timer0_runs dev" "uart_ready dev Rk3399.RK_UART2" "hz = 400000000 \<or> hz = 800000000"
  shows "settled t (dram_set_clock dev stack hz t) in_registers"
proof -
  have "settled t (clock_set_pll dev stack (CRU_BASE + 0x40) 1 fb 3 1 t) in_registers" if "fb = 50 \<or> fb = 100" for fb
    by (rule settled_mono [OF settled_clock_set_pll [OF assms(1,2)]])
      (use that in \<open>auto simp: only_reads_in_registers\<close>)
  then show ?thesis using assms(3) by (auto simp: dram_set_clock_def)
qed

lemma timer0_goes_on_runs:
  assumes "timer0_goes_on dev"
  shows "timer0_runs dev"
  unfolding timer0_runs_def
proof (intro allI)
  fix t and earlier :: u32
  define now where "now n = dev_rd dev (after_reads dev (TIMER0_START + 8) n t) (TIMER0_START + 8)" for n
  have less: "now n - earlier > 24" if "now n - earlier > 24000" for n using that by (simp add: word_less_nat_alt)
  have "\<exists>n. now n < earlier \<or> now n - earlier > 24000"
    using assms unfolding timer0_goes_on_def Let_def now_def by (elim allE)
  then show "\<exists>n. let now = dev_rd dev (after_reads dev (TIMER0_START + 8) n t) (TIMER0_START + 8) in
      now < earlier \<or> now - earlier > 24"
    unfolding Let_def now_def [symmetric] using less by auto
qed

lemma ddr_step_settles:
  assumes "timer0_goes_on dev" "pctl_gets_ready dev" "uart_ready dev Rk3399.RK_UART2" "ddr_op_fits op"
  shows "settled t (ddr_step dev stack op t) in_registers"
proof -
  note runs = timer0_goes_on_runs [OF assms(1)]
  show ?thesis
  proof (cases op)
    case (Put a v)
    then show ?thesis using assms(4) settled_Inr [of in_registers "[Write32 a v]" t] by (simp add: ddr_step_def write32_def)
  next
    case (SetBits a v)
    let ?r = "dev_rd dev t a"
    show ?thesis
      using assms(4) SetBits settled_Inr [of in_registers "[Write32 a (?r OR v), Read32 a ?r]" t]
      by (simp add: ddr_step_def rmw32_def read32_def write32_def)
  next
    case (Sleep us)
    then have "us = 1 \<or> us = 10" using assms(4) by simp
    then obtain new where "ddr_usleep dev us t = Some (new @ t)" "only_reads new"
      using ddr_usleep_waits [OF assms(1)] unfolding proceeds_def by blast
    then show ?thesis using Sleep by (simp add: ddr_step_def settled_Inr only_reads_in_registers)
  next
    case WaitPctl
    obtain new where "wait_for_pctl dev t = Some (new @ t)" "only_reads new"
      using wait_for_pctl_ends [OF assms(1,2)] unfolding proceeds_def by blast
    then show ?thesis using WaitPctl by (simp add: ddr_step_def settled_Inr only_reads_in_registers)
  next
    case (RegCpy a ws n)
    then obtain new where "regcpy a ws n t = new @ t" "in_registers new"
      using regcpy_in_registers [of a n ws t] assms(4) by auto
    then show ?thesis using RegCpy by (simp add: ddr_step_def settled_Inr)
  next
    case (SetClock hz)
    then show ?thesis using dram_set_clock_in_registers [OF runs assms(3)] assms(4) by (simp add: ddr_step_def)
  qed
qed

lemma ddr_run_settles:
  assumes "timer0_goes_on dev" "pctl_gets_ready dev" "uart_ready dev Rk3399.RK_UART2" "list_all ddr_op_fits ops"
  shows "settled t (ddr_run dev stack ops t) in_registers"
  using assms(4)
proof (induction ops arbitrary: t)
  case Nil
  show ?case using settled_Inr [of in_registers "[]" t] by simp
next
  case (Cons op ops)
  show ?case
    unfolding ddr_run.simps
    by (rule settled_go_on [OF ddr_step_settles [OF assms(1-3)]])
      (use Cons in \<open>auto intro: settled_mono\<close>)
qed

text \<open>C28. The DRAM initialisation of the Pinebook comes to an end, if the timer goes on and the controller
  gets ready whenever it is only read: it is either done, or a PLL did not lock and the processor
  sleeps. What it writes is registers only: those of the DDR controllers and their PHYs, the DPLL,
  ten of the clock, power, security and interconnect units, and one probed word of the DRAM
  per channel. No block that is copied leaves the controllers' registers.\<close>

theorem ddr_entry_in_registers:
  assumes "timer0_goes_on dev" and "pctl_gets_ready dev" and "uart_ready dev Rk3399.RK_UART2"
  shows "case rk3399_ddr_entry dev stack t of
      None \<Rightarrow> False
    | Some (Inl t') \<Rightarrow> \<exists>new. t' = new @ t
    | Some (Inr t') \<Rightarrow> \<exists>new. t' = new @ t \<and> in_registers new"
  using ddr_run_settles [OF assms ddr_trace_fits, of t stack]
  by (auto simp: rk3399_ddr_entry_def settled_def split: option.splits sum.splits)

text \<open>So the whole stage comes to an end.\<close>

lemma ddr_stage_settles:
  assumes "timer0_goes_on dev" and "pctl_gets_ready dev" and "uart_ready dev Rk3399.RK_UART2"
  shows "settles (ddr_entry dev stack) (\<lambda>_. True)"
proof -
  note runs = timer0_goes_on_runs [OF assms(1)]
  have power: "grows t (pinebook_power dev s)" if "grows t s" for t s
    using that unfolding pinebook_power_def Let_def by (intro grows_intros)
  have trace: "settles (rk3399_ddr_entry dev stack) in_registers"
    unfolding settles_def rk3399_ddr_entry_def using ddr_run_settles [OF assms ddr_trace_fits] by simp
  show ?thesis
    unfolding ddr_entry_def [abs_def] Let_def
    by (rule settles_go_on [OF settles_pre [OF settles_cpu_clock [OF runs assms(3)]]], intro grows_intros power,
        rule settles_go_on [OF settles_pre [OF settles_pll [OF runs assms(3)]]], simp, simp, simp, simp, intro grows_intros,
        rule settles_go_on [OF trace], rule settles_last,
        unfold Rk3399.gpio_set_dir_def Rk3399.gpio_set_pin_def change_pin_def, intro grows_intros)
qed

text \<open>A board where the timer alternates between all zeros and all ones and everything else shows all ones.\<close>

definition ready_board :: device where
  "ready_board = \<lparr>dev_rd = (\<lambda>t a. if a = TIMER0_START + 8 \<and> even (length t) then 0 else 0xffffffff), dev_time = (\<lambda>_. - 1)\<rparr>"

lemma ready_board_timer: "timer0_goes_on ready_board"
  unfolding timer0_goes_on_def Let_def
proof (intro allI)
  fix t and earlier :: u32
  let ?a = "TIMER0_START + 8"
  have "\<exists>n. dev_rd ready_board (after_reads ready_board ?a n t) ?a = (if earlier = 0 then 0xffffffff else 0)"
    by (cases "even (length t) = (earlier \<noteq> 0)")
      (auto simp: ready_board_def read32_def intro: exI [of _ 0] exI [of _ 1])
  then obtain n where "dev_rd ready_board (after_reads ready_board ?a n t) ?a = (if earlier = 0 then 0xffffffff else 0)" ..
  then show "\<exists>n. dev_rd ready_board (after_reads ready_board ?a n t) ?a < earlier
    \<or> dev_rd ready_board (after_reads ready_board ?a n t) ?a - earlier > 24000"
    by (intro exI [of _ n]) (simp add: word_gt_0)
qed

lemma ddr_entry_in_registers_witness:
  "\<exists>r. rk3399_ddr_entry ready_board (\<lambda>_. 0) [] = Some r \<and> (case r of Inl _ \<Rightarrow> True | Inr t \<Rightarrow> in_registers t)"
proof -
  have "pctl_gets_ready ready_board" unfolding pctl_gets_ready_def by (simp add: ready_board_def)
  moreover have "uart_ready ready_board Rk3399.RK_UART2"
    unfolding uart_ready_def by (intro allI exI [of _ 0]) (simp add: ready_board_def)
  ultimately show ?thesis
    using ddr_entry_in_registers [OF ready_board_timer, where stack = "\<lambda>_. 0" and t = "[]"]
    by (cases "rk3399_ddr_entry ready_board (\<lambda>_. 0) []") (auto split: sum.splits)
qed

end
