(* ===== verification/Font.thy ===== *)
theory Font
  imports Prelude
begin

text \<open>
  The bitmap font of the demo payload (demo/font.h): for every character seven rows of five
  columns, a dot where the row has the character 0x23. The last entry, with the letter 0, ends
  the table. A letter is its ASCII code.
\<close>

type_synonym glyph = "u8 \<times> string list"

definition font_1 :: "glyph list" where
  "font_1 =
    [(0x20, [''     '', ''     '', ''     '', ''     '', ''     '', ''     '', ''     '']),
     (0x41, ['' ### '', ''#   #'', ''#   #'', ''#   #'', ''#####'', ''#   #'', ''#   #'']),
     (0x42, [''#### '', ''#   #'', ''#   #'', ''#### '', ''#   #'', ''#   #'', ''#### '']),
     (0x43, ['' ####'', ''#    '', ''#    '', ''#    '', ''#    '', ''#    '', '' ####'']),
     (0x44, [''#### '', ''#   #'', ''#   #'', ''#   #'', ''#   #'', ''#   #'', ''#### '']),
     (0x45, [''#####'', ''#    '', ''#    '', ''#####'', ''#    '', ''#    '', ''#####'']),
     (0x46, [''#####'', ''#    '', ''#    '', ''#####'', ''#    '', ''#    '', ''#    '']),
     (0x47, ['' ####'', ''#    '', ''#    '', ''#  ##'', ''#   #'', ''#   #'', '' ####'']),
     (0x48, [''#   #'', ''#   #'', ''#   #'', ''#####'', ''#   #'', ''#   #'', ''#   #'']),
     (0x49, [''#    '', ''#    '', ''#    '', ''#    '', ''#    '', ''#    '', ''#    '']),
     (0x4a, [''    #'', ''    #'', ''    #'', ''    #'', ''    #'', ''    #'', ''#### '']),
     (0x4b, [''#   #'', ''#  # '', ''# #  '', ''##   '', ''# #  '', ''#  # '', ''#   #'']),
     (0x4c, [''#    '', ''#    '', ''#    '', ''#    '', ''#    '', ''#    '', ''#####'']),
     (0x4d, [''#   #'', ''## ##'', ''# # #'', ''#   #'', ''#   #'', ''#   #'', ''#   #'']),
     (0x4e, [''#   #'', ''##  #'', ''# # #'', ''#  ##'', ''#   #'', ''#   #'', ''#   #'']),
     (0x4f, ['' ### '', ''#   #'', ''#   #'', ''#   #'', ''#   #'', ''#   #'', '' ### ''])]"

definition font_2 :: "glyph list" where
  "font_2 =
    [(0x50, [''#### '', ''#   #'', ''#   #'', ''#### '', ''#    '', ''#    '', ''#    '']),
     (0x51, ['' ### '', ''#   #'', ''#   #'', ''#   #'', ''#   #'', ''#  ##'', '' ####'']),
     (0x52, [''#### '', ''#   #'', ''#   #'', ''#   #'', ''#### '', ''#   #'', ''#   #'']),
     (0x53, ['' ####'', ''#    '', ''#    '', '' ### '', ''    #'', ''    #'', ''#### '']),
     (0x54, [''#####'', ''  #  '', ''  #  '', ''  #  '', ''  #  '', ''  #  '', ''  #  '']),
     (0x55, [''#   #'', ''#   #'', ''#   #'', ''#   #'', ''#   #'', ''#   #'', '' ### '']),
     (0x56, [''#   #'', ''#   #'', ''#   #'', ''#   #'', ''#   #'', '' # # '', ''  #  '']),
     (0x57, [''#   #'', ''#   #'', ''#   #'', ''#   #'', ''# # #'', ''## ##'', ''#   #'']),
     (0x58, [''#   #'', ''#   #'', '' # # '', ''  #  '', '' # # '', ''#   #'', ''#   #'']),
     (0x59, [''#   #'', ''#   #'', ''#   #'', '' ### '', ''  #  '', ''  #  '', ''  #  '']),
     (0x5a, [''#####'', ''    #'', ''   # '', ''  #  '', '' #   '', ''#    '', ''#####'']),
     (0x61, [''     '', ''     '', '' ### '', ''    #'', '' ####'', ''#   #'', '' ####'']),
     (0x62, [''#    '', ''#    '', ''#### '', ''#   #'', ''#   #'', ''#   #'', ''#### '']),
     (0x63, [''     '', ''     '', '' ### '', ''#   #'', ''#    '', ''#   #'', '' ### '']),
     (0x64, [''    #'', ''    #'', '' ####'', ''#   #'', ''#   #'', ''#   #'', '' ####'']),
     (0x65, [''     '', ''     '', '' ### '', ''#   #'', ''#####'', ''#    '', '' ####''])]"

definition font_3 :: "glyph list" where
  "font_3 =
    [(0x66, [''  ## '', '' #  #'', '' #   '', ''###  '', '' #   '', '' #   '', '' #   '']),
     (0x67, [''     '', '' ####'', ''#   #'', ''#   #'', '' ####'', ''    #'', ''#### '']),
     (0x68, [''#    '', ''#    '', ''#### '', ''#   #'', ''#   #'', ''#   #'', ''#   #'']),
     (0x69, [''#    '', ''     '', ''#    '', ''#    '', ''#    '', ''#    '', ''#    '']),
     (0x6a, [''    #'', ''     '', ''   ##'', ''    #'', ''    #'', ''#   #'', '' ### '']),
     (0x6b, [''#    '', ''#    '', ''#   #'', ''#  # '', ''###  '', ''#  # '', ''#   #'']),
     (0x6c, [''#    '', ''#    '', ''#    '', ''#    '', ''#    '', ''#    '', ''##   '']),
     (0x6d, [''     '', ''     '', ''#### '', ''# # #'', ''# # #'', ''# # #'', ''# # #'']),
     (0x6e, [''     '', ''     '', ''#### '', ''#   #'', ''#   #'', ''#   #'', ''#   #'']),
     (0x6f, [''     '', ''     '', '' ### '', ''#   #'', ''#   #'', ''#   #'', '' ### '']),
     (0x70, [''     '', '' ### '', '' #  #'', '' #  #'', '' ### '', '' #   '', '' #   '']),
     (0x71, [''     '', ''     '', ''  ###'', '' #  #'', ''  ###'', ''    #'', ''    #'']),
     (0x72, [''     '', ''     '', ''# ###'', ''##   '', ''#    '', ''#    '', ''#    '']),
     (0x73, [''     '', ''     '', '' ####'', ''#    '', '' ### '', ''    #'', ''#### '']),
     (0x74, ['' #   '', '' #   '', ''###  '', '' #   '', '' #   '', '' #   '', ''  ## '']),
     (0x75, [''     '', ''     '', ''#   #'', ''#   #'', ''#   #'', ''#   #'', '' ### ''])]"

definition font_4 :: "glyph list" where
  "font_4 =
    [(0x76, [''     '', ''     '', ''#   #'', ''#   #'', ''#   #'', '' # # '', ''  #  '']),
     (0x77, [''     '', ''     '', ''#   #'', ''#   #'', ''# # #'', ''# # #'', '' # # '']),
     (0x78, [''     '', ''     '', ''#   #'', '' # # '', ''  #  '', '' # # '', ''#   #'']),
     (0x79, [''     '', ''     '', ''#   #'', ''#   #'', '' ####'', ''    #'', ''#### '']),
     (0x7a, [''     '', ''     '', ''#####'', ''   # '', ''  #  '', '' #   '', ''#####'']),
     (0x30, ['' ### '', ''#   #'', ''#  ##'', ''# # #'', ''##  #'', ''#   #'', '' ### '']),
     (0x31, [''##   '', '' #   '', '' #   '', '' #   '', '' #   '', '' #   '', '' #   '']),
     (0x32, ['' ### '', ''#   #'', ''    #'', ''  ## '', '' #   '', ''#    '', ''#####'']),
     (0x33, [''#### '', ''    #'', ''    #'', '' ### '', ''    #'', ''    #'', ''#### '']),
     (0x34, [''#   #'', ''#   #'', ''#   #'', ''#####'', ''    #'', ''    #'', ''    #'']),
     (0x35, [''#####'', ''#    '', ''#    '', ''#### '', ''    #'', ''    #'', ''#### '']),
     (0x36, ['' ####'', ''#    '', ''#    '', '' ### '', ''#   #'', ''#   #'', '' ### '']),
     (0x37, [''#####'', ''    #'', ''    #'', ''  ## '', '' #   '', '' #   '', '' #   '']),
     (0x38, ['' ### '', ''#   #'', ''#   #'', '' ### '', ''#   #'', ''#   #'', '' ### '']),
     (0x39, ['' ### '', ''#   #'', ''#   #'', '' ####'', ''    #'', ''    #'', '' ### '']),
     (0x21, [''#    '', ''#    '', ''#    '', ''#    '', ''#    '', ''     '', ''#    ''])]"

definition font_5 :: "glyph list" where
  "font_5 =
    [(0x2e, [''     '', ''     '', ''     '', ''     '', ''     '', ''     '', ''#    '']),
     (0x2c, [''     '', ''     '', ''     '', ''     '', ''     '', ''  #  '', '' #   '']),
     (0x3f, ['' ##  '', ''#  # '', ''   # '', ''  #  '', '' #   '', ''     '', '' #   '']),
     (0x25, [''    #'', '' #  #'', ''   # '', ''  #  '', '' #   '', ''#  # '', ''#    '']),
     (0x23, ['' # # '', '' # # '', ''#####'', '' # # '', ''#####'', '' # # '', '' # # '']),
     (0x5f, [''     '', ''     '', ''     '', ''     '', ''     '', ''     '', ''#####'']),
     (0x2d, [''     '', ''     '', ''     '', '' ### '', ''     '', ''     '', ''     '']),
     (0x3b, [''     '', '' #   '', ''     '', '' #   '', '' #   '', ''#    '', ''     '']),
     (0x60, ['' #   '', '' #   '', ''     '', ''     '', ''     '', ''     '', ''     '']),
     (0x3d, [''     '', ''#####'', ''     '', ''     '', ''#####'', ''     '', ''     '']),
     (0x5f, [''     '', ''     '', ''     '', ''     '', ''     '', ''     '', ''#####'']),
     (0x3a, [''     '', '' #   '', ''     '', ''     '', '' #   '', ''     '', ''     '']),
     (0x3c, [''   # '', ''  #  '', '' #   '', ''#    '', '' #   '', ''  #  '', ''   # '']),
     (0x3e, ['' #   '', ''  #  '', ''   # '', ''    #'', ''   # '', ''  #  '', '' #   '']),
     (0x7e, [''     '', ''     '', ''# # #'', '' # # '', ''     '', ''     '', ''     '']),
     (0x2a, [''  #  '', '' ### '', ''  #  '', '' # # '', ''     '', ''     '', ''     ''])]"

definition font_6 :: "glyph list" where
  "font_6 =
    [(0x2f, [''    #'', ''    #'', ''   # '', ''  #  '', '' #   '', '' #   '', ''#    '']),
     (0x27, [''#    '', ''#    '', ''#    '', ''     '', ''     '', ''     '', ''     '']),
     (0x22, [''# #  '', ''# #  '', ''# #  '', ''     '', ''     '', ''     '', ''     '']),
     (0x5b, [''###  '', ''#    '', ''#    '', ''#    '', ''#    '', ''#    '', ''###  '']),
     (0x5d, [''  ###'', ''    #'', ''    #'', ''    #'', ''    #'', ''    #'', ''  ###'']),
     (0x28, [''  #  '', '' #   '', ''#    '', ''#    '', ''#    '', '' #   '', ''  #  '']),
     (0x29, [''#    '', '' #   '', ''  #  '', ''  #  '', ''  #  '', '' #   '', ''#    '']),
     (0x7d, [''#    '', '' #   '', '' #   '', ''  #  '', '' #   '', '' #   '', ''#    '']),
     (0x7b, [''  #  '', '' #   '', '' #   '', ''#    '', '' #   '', '' #   '', ''  #  '']),
     (0x2b, [''     '', ''     '', ''  #  '', ''  #  '', ''#####'', ''  #  '', ''  #  '']),
     (0x2d, [''     '', ''     '', ''     '', ''     '', ''#####'', ''     '', ''     '']),
     (0, [''#####'', ''#####'', ''#####'', ''#####'', ''#####'', ''#####'', ''#####''])]"

definition font :: "glyph list" where
  "font = font_1 @ font_2 @ font_3 @ font_4 @ font_5 @ font_6"

text \<open>The search at the beginning of \<open>font_print_char\<close> (demo/bmp.c).\<close>

fun font_find :: "u8 \<Rightarrow> glyph list \<Rightarrow> string list option" where
  "font_find c [] = None"
| "font_find c ((letter, code) # glyphs) =
     (if letter = 0 then None else if letter = c then Some code else font_find c glyphs)"

definition dot :: "string list \<Rightarrow> nat \<Rightarrow> nat \<Rightarrow> bool" where
  "dot code px py \<longleftrightarrow> code ! py ! px = CHR 0x23"

lemmas font_parts = font_1_def font_2_def font_3_def font_4_def font_5_def font_6_def

lemma font_find_in: "font_find c glyphs = Some code \<Longrightarrow> code \<in> snd ` set glyphs"
  by (induction glyphs) (auto split: if_splits)

lemma font_shape:
  assumes "font_find c font = Some code"
  shows "length code = 7" and "row \<in> set code \<Longrightarrow> length row = 5"
proof -
  have "\<forall>g \<in> set font. length (snd g) = 7 \<and> (\<forall>row \<in> set (snd g). length row = 5)"
    by (simp add: font_def font_parts)
  with font_find_in [OF assms] show "length code = 7" and "row \<in> set code \<Longrightarrow> length row = 5" by auto
qed

end
