(* ===== verification/Bmp.thy ===== *)
theory Bmp
  imports Font Board "HOL-Library.Signed_Division"
begin

unbundle bit_operations_syntax

text \<open>
  The text screen of the demo payload (demo/bmp.c), which draws characters of Font with pixels of
  two by two into the framebuffer that the firmware announces. A string argument is the list of
  its characters. The specification is a terminal with a picture of its own, without memory.
\<close>

subsection \<open>The code\<close>

record bmp =
  fb_addr :: addr
  screen_width :: u32
  screen_height :: u32
  last_x :: int
  last_y :: int

definition bmp_start :: bmp where
  "bmp_start = \<lparr>fb_addr = 0, screen_width = 1920, screen_height = 1080, last_x = 10, last_y = 50\<rparr>"

abbreviation (input) BACKGROUND_COLOR :: int where "BACKGROUND_COLOR \<equiv> 0x4398D7"

definition font_draw_pixel :: "bmp \<Rightarrow> int \<Rightarrow> int \<Rightarrow> int \<Rightarrow> mem \<Rightarrow> mem" where
  "font_draw_pixel b x y col m =
     (let x = x * 2; y = y * 2;
          two = push_bit 32 (word_of_int col) OR word_of_int col;
          row = (\<lambda>y. fb_addr b + 4 * ucast (word_of_int y * screen_width b + word_of_int x :: u32));
          m = store_le 8 m (row y) two
      in store_le 8 m (row (y + 1)) two)"

definition font_print_char :: "bmp \<Rightarrow> int \<Rightarrow> int \<Rightarrow> u8 \<Rightarrow> mem \<Rightarrow> int \<times> mem" where
  "font_print_char b x y c m =
     (case font_find c font of
        None \<Rightarrow> (0, m)
      | Some code \<Rightarrow>
          fold (\<lambda>py. fold (\<lambda>px (maxLength, m).
              if dot code px py
              then (if int px > maxLength then int px else maxLength,
                    font_draw_pixel b (x + int px) (y + int py) 0xffffff m)
              else (maxLength, m)) [0..<5]) [0..<7] (0, m))"

fun font_string_from :: "bmp \<Rightarrow> int \<Rightarrow> int \<Rightarrow> int \<Rightarrow> bytes \<Rightarrow> mem \<Rightarrow> int \<times> mem" where
  "font_string_from b x cx cy [] m = (cy, m)"
| "font_string_from b x cx cy (c # cs) m =
     (let (len, m) = (if c = 0x20 then (5, m)
            else case font_print_char b cx cy c m of (len, m) \<Rightarrow> (len + 3, m));
          cx = cx + len
      in if word_of_int cx > screen_width b - 20 \<and> c = 0x20 then font_string_from b x x (cy + 8) cs m
         else font_string_from b x cx cy cs m)"

definition font_print_string :: "bmp \<Rightarrow> int \<Rightarrow> int \<Rightarrow> bytes \<Rightarrow> mem \<Rightarrow> int \<times> mem" where
  "font_print_string b x y string m = font_string_from b x x y string m"

definition bmp_draw_rect :: "bmp \<Rightarrow> int \<Rightarrow> int \<Rightarrow> int \<Rightarrow> int \<Rightarrow> int \<Rightarrow> mem \<Rightarrow> mem" where
  "bmp_draw_rect b x y w h col m =
     fold (\<lambda>y2. fold (\<lambda>x2 m. font_draw_pixel b x2 y2 col m) [x..w - 1]) [y..h - 1] m"

definition bmp_clear :: "bmp \<Rightarrow> mem \<Rightarrow> bmp \<times> mem" where
  "bmp_clear b m =
     (let b = b\<lparr>last_x := 10, last_y := 10\<rparr>
      in (b, fold (\<lambda>i m. store_le 8 m (fb_addr b + 8 * of_nat i)
            (word_of_int BACKGROUND_COLOR OR push_bit 32 (word_of_int BACKGROUND_COLOR)))
          [0..<unat (screen_height b * screen_width b div 2)] m))"

definition bmp_print_char :: "u8 \<Rightarrow> bmp \<times> mem \<Rightarrow> bmp \<times> mem" where
  "bmp_print_char c = (\<lambda>(b, m).
     let (b, m) =
       (if c = 0x20 then (b\<lparr>last_x := last_x b + 5\<rparr>, m)
        else if c = 9 then (b\<lparr>last_x := 10 + ((last_x b - 10) sdiv 32 + 1) * 32\<rparr>, m)
        else if c = 8 then
          let b = (if last_x b > 10 then b\<lparr>last_x := if last_x b > 17 then last_x b - 7 else 10\<rparr> else b)
          in (b, fold (\<lambda>y. fold (\<lambda>x m. font_draw_pixel b (last_x b + int x) (last_y b + int y) BACKGROUND_COLOR m)
                [0..<7]) [0..<8] m)
        else if c = 10 then (b\<lparr>last_y := last_y b + 10\<rparr>, m)
        else if c = 13 then (b\<lparr>last_x := 10\<rparr>, m)
        else if 0x20 \<le> c \<and> c \<le> 0x7e then
          case font_print_char b (last_x b) (last_y b) c m of
            (len, m) \<Rightarrow> (b\<lparr>last_x := last_x b + (len + 3)\<rparr>, m)
        else (b, m))
     in if word_of_int (last_x b * 2 + 14) \<ge> screen_width b
        then (b\<lparr>last_x := 10, last_y := last_y b + 10\<rparr>, m) else (b, m))"

definition bmp_print :: "bytes \<Rightarrow> bmp \<times> mem \<Rightarrow> bmp \<times> mem" where
  "bmp_print s = fold bmp_print_char s"

text \<open>\<open>bmp_setup\<close>, with the answer of the firmware to FU_GET_SCREEN_LIST.\<close>

definition bmp_setup :: "addr \<Rightarrow> mem \<Rightarrow> bmp \<Rightarrow> int \<times> bmp" where
  "bmp_setup screens m b =
     (if load_le 4 m screens \<noteq> 0
      then (0, b\<lparr>fb_addr := load_le 8 m (screens + 8), screen_width := ucast (load_le 4 m (screens + 16)),
             screen_height := ucast (load_le 4 m (screens + 20))\<rparr>)
      else (1, b))"

subsection \<open>Pixels\<close>

text \<open>The framebuffer as pixels of four bytes; row by row without a gap. \<open>rows b n\<close>: the index of every
  pixel in the first \<open>n\<close> rows is a 32-bit number, as in the code.\<close>

definition pixel :: "bmp \<Rightarrow> mem \<Rightarrow> nat \<Rightarrow> nat \<Rightarrow> u64" where
  "pixel b m X Y = load_le 4 m (fb_addr b + of_nat (4 * (Y * unat (screen_width b) + X)))"

definition rows :: "bmp \<Rightarrow> nat \<Rightarrow> bool" where
  "rows b n \<longleftrightarrow> unat (screen_width b) * n < 4294967296"

definition on_rows :: "bmp \<Rightarrow> nat \<Rightarrow> int \<times> int \<Rightarrow> bool" where
  "on_rows b n = (\<lambda>(x, y). 0 \<le> x \<and> 2 * x + 1 < int (unat (screen_width b)) \<and> 0 \<le> y \<and> 2 * y + 1 < int n)"

lemma store_le_twice:
  fixes v :: u64
  assumes "take_bit 32 v = v"
  shows "store_le 8 m a (push_bit 32 v OR v) = store_le 4 (store_le 4 m a v) (a + 4) v"
proof -
  have "le_bytes 8 (push_bit 32 v OR v) = le_bytes 4 v @ le_bytes 4 v"
  proof (rule nth_equalityI)
    fix i assume "i < length (le_bytes 8 (push_bit 32 v OR v))"
    then have "i < 8" by simp
    have high: "\<not> bit v n" if "32 \<le> n" for n
      using assms that by (metis bit_take_bit_iff not_le)
    show "le_bytes 8 (push_bit 32 v OR v) ! i = (le_bytes 4 v @ le_bytes 4 v) ! i"
      using \<open>i < 8\<close> high
      by (auto simp: le_bytes_def nth_append intro!: bit_word_eqI) (auto simp: bit_simps algebra_simps)
  qed simp
  then show ?thesis by (simp add: store_le_def write_bytes_append)
qed

text \<open>A pair of pixels, written with one store.\<close>

lemma pair_store:
  fixes v :: u64
  assumes "take_bit 32 v = v" and "i < 4294967296" and "j < 4294967296"
  shows "load_le 4 (store_le 8 m (a + of_nat (4 * i)) (push_bit 32 v OR v)) (a + of_nat (4 * j))
    = (if j = i \<or> j = i + 1 then v else load_le 4 m (a + of_nat (4 * j)))"
proof -
  have nxt: "a + of_nat (4 * i) + 4 = a + of_nat (4 * (i + 1))" by (simp add: algebra_simps)
  have one: "load_le 4 (store_le 4 m (a + of_nat (4 * i)) v) (a + of_nat (4 * j))
    = (if j = i then v else load_le 4 m (a + of_nat (4 * j)))" 
    if "i \<le> 4294967296" and "j < 4294967296" for m i j
  proof (cases "j = i")
    case False
    then have "4 * i + 4 \<le> 4 * j \<or> 4 * j + 4 \<le> 4 * i" by linarith
    then show ?thesis using load_store_other [of "4 * i" 4 "4 * j" 4 m a v] that False by simp
  qed (use assms(1) load_store_same [of 4 m "a + of_nat (4 * i)" v] in simp)
  show ?thesis
    using assms(2,3) by (simp add: store_le_twice [OF assms(1)] nxt one del: of_nat_mult of_nat_add mult_Suc_right)
qed

lemma index_eq:
  fixes W :: nat
  assumes "X < W" and "X' < W"
  shows "Y * W + X = Y' * W + X' \<longleftrightarrow> X = X' \<and> Y = Y'"
proof
  assume eq: "Y * W + X = Y' * W + X'"
  have "(Y * W + X) div W = Y" "(Y' * W + X') div W = Y'" using assms by simp_all
  with eq have "Y = Y'" by simp
  with eq show "X = X' \<and> Y = Y'" by simp
qed simp

lemma index_less:
  fixes W :: nat
  assumes "X < W" and "Y < n" and "W * n \<le> k"
  shows "Y * W + X < k"
proof -
  have "Y * W + X < (Y + 1) * W" using assms(1) by simp
  also have "\<dots> \<le> n * W" using assms(2) by (intro mult_right_mono) auto
  finally show ?thesis using assms(3) by (simp add: mult.commute)
qed

lemma code_index:
  assumes "rows b n" and "X < unat (screen_width b)" and "Y < n"
  shows "ucast (word_of_int (int Y) * screen_width b + word_of_int (int X) :: u32) = (of_nat (Y * unat (screen_width b) + X) :: u64)"
proof -
  have "Y * unat (screen_width b) + X < 4294967296"
    using index_less [OF assms(2,3)] assms(1) by (simp add: rows_def)
  moreover have "word_of_int (int Y) * screen_width b + word_of_int (int X) = (of_nat (Y * unat (screen_width b) + X) :: u32)"
    by simp
  ultimately show ?thesis
    by (simp only:) (rule word_unat_eq_iff [THEN iffD2], simp add: unsigned_ucast_eq unsigned_of_nat take_bit_eq_mod del: of_nat_add of_nat_mult)
qed

lemma one_row:
  fixes v :: u64 and m :: mem
  assumes "rows b n" and "take_bit 32 v = v" and "X + 1 < unat (screen_width b)" and "Y < n"
  defines "m' \<equiv> store_le 8 m (fb_addr b + 4 * ucast (word_of_int (int Y) * screen_width b + word_of_int (int X) :: u32))
    (push_bit 32 v OR v)"
  shows "X' < unat (screen_width b) \<Longrightarrow> Y' < n \<Longrightarrow>
      pixel b m' X' Y' = (if Y' = Y \<and> (X' = X \<or> X' = X + 1) then v else pixel b m X' Y')"
    and "only_changes [(fb_addr b, 4 * (unat (screen_width b) * n))] m m'"
proof -
  let ?W = "unat (screen_width b)"
  have small: "?W * n \<le> 4294967296" using assms(1) by (simp add: rows_def)
  have i: "Y * ?W + X < 4294967296" "Y * ?W + (X + 1) < ?W * n"
    using index_less [of X ?W Y n, OF _ assms(4) small] index_less [OF assms(3,4), of "?W * n"] assms(3) by simp_all
  have m': "m' = store_le 8 m (fb_addr b + of_nat (4 * (Y * ?W + X))) (push_bit 32 v OR v)"
    unfolding m'_def code_index [OF assms(1) add_lessD1 [OF assms(3)] assms(4)] by simp
  show "pixel b m' X' Y' = (if Y' = Y \<and> (X' = X \<or> X' = X + 1) then v else pixel b m X' Y')"
    if "X' < ?W" "Y' < n"
    using pair_store [OF assms(2) i(1) index_less [OF that small], of m "fb_addr b"]
      index_eq [OF that(1), of X Y' Y] index_eq [OF that(1), of "X + 1" Y' Y] assms(3)
    unfolding m' pixel_def by (auto simp del: of_nat_mult of_nat_add)
  show "only_changes [(fb_addr b, 4 * (?W * n))] m m'"
    unfolding m' store_le_def
  proof (rule only_changes_part)
    show "4 * (Y * ?W + X) + length (le_bytes 8 (push_bit 32 v OR v)) \<le> 4 * (?W * n)" using i(2) by simp
    show "4 * (?W * n) \<le> 18446744073709551616" using small by linarith
  qed
qed

definition screen_range :: "bmp \<Rightarrow> nat \<Rightarrow> (addr \<times> nat) list" where
  "screen_range b n = [(fb_addr b, 4 * (unat (screen_width b) * n))]"

lemma draw_pixel:
  assumes "rows b n" and "on_rows b n (x, y)" and "0 \<le> col" and "col < 0x100000000"
  shows "X < unat (screen_width b) \<Longrightarrow> Y < n \<Longrightarrow>
      pixel b (font_draw_pixel b x y col m) X Y
      = (if (int X div 2, int Y div 2) = (x, y) then word_of_int col else pixel b m X Y)"
    and "only_changes (screen_range b n) m (font_draw_pixel b x y col m)"
proof -
  define i j where "i = nat x" and "j = nat y"
  have xy: "x * 2 = int (2 * i)" "y * 2 = int (2 * j)" "int (2 * j) + 1 = int (2 * j + 1)" "x = int i" "y = int j"
    using assms(2) by (simp_all add: on_rows_def i_def j_def)
  have v: "take_bit 32 (word_of_int col) = (word_of_int col :: u64)"
  proof -
    have "take_bit 32 (of_nat k :: u64) = of_nat k" if "k < 4294967296" for k
      using that by (simp add: take_bit_of_nat take_bit_nat_eq_self)
    from this [of "nat col"] show ?thesis using assms(3,4) by simp
  qed
  have in_row: "2 * i + 1 < unat (screen_width b)" "2 * j < n" "2 * j + 1 < n"
    using assms(2) unfolding on_rows_def prod.case xy(4,5) by linarith+
  note one = one_row [OF assms(1) v in_row(1)]
  note def = font_draw_pixel_def [of b x y col m, unfolded Let_def xy(1-3)]
  have div: "int k div 2 = int l \<longleftrightarrow> k = 2 * l \<or> k = 2 * l + 1" for k l by linarith
  show "pixel b (font_draw_pixel b x y col m) X Y
      = (if (int X div 2, int Y div 2) = (x, y) then word_of_int col else pixel b m X Y)"
    if "X < unat (screen_width b)" "Y < n"
    unfolding def unfolding one(1) [OF in_row(3) that] one(1) [OF in_row(2) that]
    unfolding xy(4,5) prod.inject div by auto
  show "only_changes (screen_range b n) m (font_draw_pixel b x y col m)"
    unfolding def screen_range_def by (rule only_changes_same [OF one(2) [OF in_row(2)] one(2) [OF in_row(3)]])
qed

text \<open>Many pixels of one colour.\<close>

definition draw_points :: "bmp \<Rightarrow> int \<Rightarrow> (int \<times> int) list \<Rightarrow> mem \<Rightarrow> mem" where
  "draw_points b col = fold (\<lambda>(x, y). font_draw_pixel b x y col)"

lemma draw_points:
  assumes "rows b n" and "\<forall>p \<in> set ps. on_rows b n p" and "0 \<le> col" and "col < 0x100000000"
  shows "X < unat (screen_width b) \<Longrightarrow> Y < n \<Longrightarrow>
      pixel b (draw_points b col ps m) X Y
      = (if (int X div 2, int Y div 2) \<in> set ps then word_of_int col else pixel b m X Y)"
    and "only_changes (screen_range b n) m (draw_points b col ps m)"
proof -
  show "pixel b (draw_points b col ps m) X Y
      = (if (int X div 2, int Y div 2) \<in> set ps then word_of_int col else pixel b m X Y)"
    if "X < unat (screen_width b)" "Y < n"
    using assms(2) by (induction ps arbitrary: m) (auto simp: draw_points_def draw_pixel(1) [OF assms(1) _ assms(3,4) that] split: if_splits)
  show "only_changes (screen_range b n) m (draw_points b col ps m)"
    unfolding draw_points_def
    by (rule only_changes_fold) (use assms(2) draw_pixel(2) [OF assms(1) _ assms(3,4)] in auto)
qed

text \<open>Two nested loops as one over the pairs.\<close>

definition grid :: "nat \<Rightarrow> nat \<Rightarrow> (nat \<times> nat) list" where
  "grid w h = concat (map (\<lambda>y. map (\<lambda>x. (x, y)) [0..<w]) [0..<h])"

lemma fold_grid: "fold (\<lambda>y. fold (\<lambda>x. f (x, y)) [0..<w]) [0..<h] = fold f (grid w h)"
proof -
  have "fold (\<lambda>y. fold (\<lambda>x. f (x, y)) xs) ys = fold f (concat (map (\<lambda>y. map (\<lambda>x. (x, y)) xs) ys))" for xs ys
    by (induction ys) (simp_all add: fold_map comp_def fun_eq_iff)
  then show ?thesis by (simp add: grid_def)
qed

lemma set_grid: "set (grid w h) = {..<w} \<times> {..<h}"
  by (auto simp: grid_def)

subsection \<open>The terminal\<close>

text \<open>The dots of a character, and how far to the right they reach.\<close>

definition glyph :: "u8 \<Rightarrow> (nat \<times> nat) list" where
  "glyph c = (case font_find c font of None \<Rightarrow> [] | Some code \<Rightarrow> filter (\<lambda>(px, py). dot code px py) (grid 5 7))"

definition glyph_width :: "u8 \<Rightarrow> int" where
  "glyph_width c = Max (set (0 # map (\<lambda>(px, py). int px) (glyph c)))"

definition shifted :: "int \<Rightarrow> int \<Rightarrow> (nat \<times> nat) list \<Rightarrow> (int \<times> int) list" where
  "shifted x y = map (\<lambda>(px, py). (x + int px, y + int py))"

lemma glyph_in_cell: "(px, py) \<in> set (glyph c) \<Longrightarrow> px < 5 \<and> py < 7"
  by (auto simp: glyph_def set_grid split: option.splits)

lemma glyph_width_bounds: "0 \<le> glyph_width c" "glyph_width c \<le> 4"
  using glyph_in_cell [of _ _ c] by (auto simp: glyph_width_def) fastforce

lemma glyph_loop:
  "fold (\<lambda>(px, py) (maxLength, m). if d px py
       then (if int px > maxLength then int px else maxLength, font_draw_pixel b (x + int px) (y + int py) col m)
       else (maxLength, m)) ps (a, m)
   = (let qs = filter (\<lambda>(px, py). d px py) ps
      in (fold max (map (\<lambda>(px, py). int px) qs) a, draw_points b col (shifted x y qs) m))"
proof (induction ps arbitrary: a m)
  case (Cons p ps)
  have "(if int k > a then int k else a) = max (int k) a" for k by simp
  then show ?case using Cons.IH by (cases p) (simp add: Let_def draw_points_def shifted_def)
qed (simp add: draw_points_def shifted_def)

lemma font_print_char_draws:
  "font_print_char b x y c m = (glyph_width c, draw_points b 0xffffff (shifted x y (glyph c)) m)"
proof (cases "font_find c font")
  case None
  then show ?thesis by (simp add: font_print_char_def glyph_width_def glyph_def draw_points_def shifted_def)
next
  case (Some code)
  then show ?thesis
    unfolding font_print_char_def
    using fold_grid [of "\<lambda>(px, py) (maxLength, m). if dot code px py
       then (if int px > maxLength then int px else maxLength, font_draw_pixel b (x + int px) (y + int py) 0xffffff m)
       else (maxLength, m)" 5 7] glyph_loop [of "dot code" b x y "0xffffff" "grid 5 7" 0 m]
    by (simp add: glyph_def glyph_width_def Max.set_eq_fold Let_def del: upt_rec_numeral list.set)
qed

lemma erase_loop:
  "fold (\<lambda>y'. fold (\<lambda>x' m. font_draw_pixel b (x + int x') (y + int y') col m) [0..<w]) [0..<h] m
   = draw_points b col (shifted x y (grid w h)) m"
proof -
  have "fold (\<lambda>(px, py) m. font_draw_pixel b (x + int px) (y + int py) col m) ps m = draw_points b col (shifted x y ps) m" for ps m
    by (induction ps arbitrary: m) (auto simp: draw_points_def shifted_def)
  then show ?thesis using fold_grid [of "\<lambda>(px, py) m. font_draw_pixel b (x + int px) (y + int py) col m" w h] by simp
qed

type_synonym picture = "nat \<Rightarrow> nat \<Rightarrow> u64"

text \<open>Every point is two by two pixels.\<close>

definition painted :: "u64 \<Rightarrow> (int \<times> int) list \<Rightarrow> picture \<Rightarrow> picture" where
  "painted col ps pic = (\<lambda>X Y. if (int X div 2, int Y div 2) \<in> set ps then col else pic X Y)"

definition move_x :: "u8 \<Rightarrow> int \<Rightarrow> int" where
  "move_x c x =
     (if c = 0x20 then x + 5
      else if c = 9 then 10 + ((x - 10) div 32 + 1) * 32
      else if c = 8 then max 10 (x - 7)
      else if c = 13 then 10
      else if 0x20 < c \<and> c \<le> 0x7e then x + glyph_width c + 3
      else x)"

definition move :: "int \<Rightarrow> u8 \<Rightarrow> int \<times> int \<Rightarrow> int \<times> int" where
  "move w c = (\<lambda>(x, y).
     let x = move_x c x; y = (if c = 10 then y + 10 else y)
     in if w \<le> 2 * x + 14 then (10, y + 10) else (x, y))"

definition paint :: "u8 \<Rightarrow> int \<times> int \<Rightarrow> picture \<Rightarrow> picture" where
  "paint c = (\<lambda>(x, y).
     if c = 8 then painted (word_of_int BACKGROUND_COLOR) (shifted (move_x c x) y (grid 7 8))
     else if 0x20 < c \<and> c \<le> 0x7e then painted 0xffffff (shifted x y (glyph c))
     else id)"

definition type_char :: "int \<Rightarrow> u8 \<Rightarrow> (int \<times> int) \<times> picture \<Rightarrow> (int \<times> int) \<times> picture" where
  "type_char w c = (\<lambda>(pos, pic). (move w c pos, paint c pos pic))"

definition type_text :: "int \<Rightarrow> bytes \<Rightarrow> (int \<times> int) \<times> picture \<Rightarrow> (int \<times> int) \<times> picture" where
  "type_text w = fold (type_char w)"

text \<open>What the code has in memory, as a terminal of \<open>n\<close> rows.\<close>

definition terminal :: "bmp \<Rightarrow> nat \<Rightarrow> mem \<Rightarrow> (int \<times> int) \<times> picture" where
  "terminal b n m = ((last_x b, last_y b),
     \<lambda>X Y. if X < unat (screen_width b) \<and> Y < n then pixel b m X Y else 0)"

definition cursor_ok :: "bmp \<Rightarrow> bool" where
  "cursor_ok b \<longleftrightarrow> 10 \<le> last_x b \<and> 2 * last_x b + 14 < uint (screen_width b) \<and> 0 \<le> last_y b
     \<and> uint (screen_width b) < 0x40000000"

lemma draw_points_painted:
  assumes "rows b n" and "\<forall>p \<in> set ps. on_rows b n p" and "0 \<le> col" and "col < 0x100000000"
  shows "snd (terminal b n (draw_points b col ps m)) = painted (word_of_int col) ps (snd (terminal b n m))"
proof (intro ext)
  fix X Y
  have "X < unat (screen_width b) \<and> Y < n" if "(int X div 2, int Y div 2) \<in> set ps"
    using bspec [OF assms(2) that] unfolding on_rows_def by (simp only: prod.case) linarith
  then show "snd (terminal b n (draw_points b col ps m)) X Y = painted (word_of_int col) ps (snd (terminal b n m)) X Y"
    using draw_points(1) [OF assms, of X Y m] by (auto simp: terminal_def painted_def)
qed

lemma shifted_on_rows:
  assumes "\<forall>(px, py) \<in> set ps. px < w \<and> py < h" and "0 \<le> x" and "0 \<le> y"
    and "2 * (x + int w) - 1 < uint (screen_width b)" and "2 * (y + int h) - 1 < int n"
  shows "\<forall>p \<in> set (shifted x y ps). on_rows b n p"
  using assms by (fastforce simp: shifted_def on_rows_def)

lemma wrap_test:
  assumes "0 \<le> x" and "x < 0x40000000"
  shows "screen_width b \<le> word_of_int (x * 2 + 14) \<longleftrightarrow> uint (screen_width b) \<le> 2 * x + 14"
  unfolding word_le_def uint_word_of_int using assms by (simp add: mult.commute)

text \<open>The branches of \<open>bmp_print_char\<close> before the wrap.\<close>

definition typed :: "u8 \<Rightarrow> bmp \<Rightarrow> mem \<Rightarrow> bmp \<times> mem" where
  "typed c b m =
     (b\<lparr>last_x := move_x c (last_x b), last_y := if c = 10 then last_y b + 10 else last_y b\<rparr>,
      if c = 8 then draw_points b BACKGROUND_COLOR (shifted (move_x c (last_x b)) (last_y b) (grid 7 8)) m
      else if 0x20 < c \<and> c \<le> 0x7e then draw_points b 0xffffff (shifted (last_x b) (last_y b) (glyph c)) m
      else m)"

lemma draw_moved [simp]:
  "font_draw_pixel (b\<lparr>last_x := x\<rparr>) = font_draw_pixel b" "font_draw_pixel (b\<lparr>last_y := y\<rparr>) = font_draw_pixel b"
  "draw_points (b\<lparr>last_x := x\<rparr>) = draw_points b" "draw_points (b\<lparr>last_y := y\<rparr>) = draw_points b"
proof -
  show x: "font_draw_pixel (b\<lparr>last_x := x\<rparr>) = font_draw_pixel b" and y: "font_draw_pixel (b\<lparr>last_y := y\<rparr>) = font_draw_pixel b"
    by (simp_all add: fun_eq_iff font_draw_pixel_def)
  show "draw_points (b\<lparr>last_x := x\<rparr>) = draw_points b" "draw_points (b\<lparr>last_y := y\<rparr>) = draw_points b"
    by (simp_all add: draw_points_def x y fun_eq_iff)
qed

lemma bmp_print_char_typed:
  assumes "10 \<le> last_x b"
  shows "bmp_print_char c (b, m) =
     (case typed c b m of (b, m) \<Rightarrow>
        if word_of_int (last_x b * 2 + 14) \<ge> screen_width b
        then (b\<lparr>last_x := 10, last_y := last_y b + 10\<rparr>, m) else (b, m))"
proof -
  have div: "(last_x b - 10) sdiv 32 = (last_x b - 10) div 32"
    using assms by (simp add: signed_divide_int_def sgn_if)
  note simps = bmp_print_char_def typed_def move_x_def Let_def
  consider "c = 0x20" | "c = 9" | "c = 8" | "c = 10" | "c = 13" | "c \<notin> {0x20, 9, 8, 10, 13}" by auto
  then show ?thesis
  proof cases
    case 3
    have "b\<lparr>last_x := last_x b\<rparr> = b" by simp
    with assms 3 show ?thesis by (cases "last_x b = 10") (simp_all add: simps erase_loop max_def)
  next
    case 6
    then have "0x20 \<le> c \<longleftrightarrow> 0x20 < c" by auto
    with 6 show ?thesis by (simp add: simps font_print_char_draws add.assoc)
  qed (simp_all add: simps div)
qed

lemma move_x_bounds:
  assumes "10 \<le> x"
  shows "10 \<le> move_x c x" and "move_x c x \<le> x + 32"
  using assms glyph_width_bounds [of c] by (auto simp: move_x_def)

lemma typed_terminal:
  assumes "rows b n" and "cursor_ok b" and "2 * last_y b + 15 < int n" and "typed c b m = (b', m')"
  shows "only_changes (screen_range b n) m m'"
    and "snd (terminal b n m') = paint c (last_x b, last_y b) (snd (terminal b n m))"
proof -
  let ?x = "last_x b" and ?y = "last_y b"
  have pos: "10 \<le> ?x" "2 * ?x + 14 < uint (screen_width b)" "0 \<le> ?y" using assms(2) by (simp_all add: cursor_ok_def)
  have left: "move_x c ?x \<le> ?x" "10 \<le> move_x c ?x" if "c = 8" using that pos by (simp_all add: move_x_def)
  have erase: "\<forall>p \<in> set (shifted (move_x c ?x) ?y (grid 7 8)). on_rows b n p" if "c = 8"
    by (rule shifted_on_rows [of _ 7 8]) (use pos assms(3) left [OF that] in \<open>auto simp: set_grid\<close>)
  have dots: "\<forall>p \<in> set (shifted ?x ?y (glyph c)). on_rows b n p"
    by (rule shifted_on_rows [of _ 5 7]) (use pos assms(3) glyph_in_cell in auto)
  have m': "m' = snd (typed c b m)" using assms(4) by simp
  show "only_changes (screen_range b n) m m'"
    unfolding m' using draw_points(2) [OF assms(1) erase] draw_points(2) [OF assms(1) dots]
    by (simp add: typed_def only_changes_refl)
  show "snd (terminal b n m') = paint c (?x, ?y) (snd (terminal b n m))"
    unfolding m' using draw_points_painted [OF assms(1) erase] draw_points_painted [OF assms(1) dots]
    by (auto simp: typed_def paint_def)
qed

definition same_screen :: "bmp \<Rightarrow> bmp \<Rightarrow> bool" where
  "same_screen b b' \<longleftrightarrow>
     fb_addr b' = fb_addr b \<and> screen_width b' = screen_width b \<and> screen_height b' = screen_height b"

lemma same_screen_simps:
  assumes "same_screen b b'"
  shows "pixel b' = pixel b" and "rows b' = rows b" and "screen_range b' = screen_range b"
    and "snd (terminal b' n m) = snd (terminal b n m)"
  using assms by (simp_all add: same_screen_def pixel_def rows_def screen_range_def terminal_def fun_eq_iff)

lemma bmp_print_char_terminal:
  assumes "rows b n" and "cursor_ok b" and "2 * last_y b + 15 < int n" and "bmp_print_char c (b, m) = (b', m')"
  shows "same_screen b b'" and "cursor_ok b'" and "only_changes (screen_range b n) m m'"
    and "terminal b' n m' = type_char (uint (screen_width b)) c (terminal b n m)"
proof -
  let ?x = "last_x b" and ?y = "last_y b"
  have pos: "10 \<le> ?x" "2 * ?x + 14 < uint (screen_width b)" "uint (screen_width b) < 0x40000000" "0 \<le> ?y"
    using assms(2) by (simp_all add: cursor_ok_def)
  have moved: "10 \<le> move_x c ?x" "0 \<le> move_x c ?x" "move_x c ?x < 0x40000000"
    using move_x_bounds [OF pos(1), of c] pos(2,3) by simp_all
  obtain b1 where typed: "typed c b m = (b1, m')"
    using assms(4) unfolding bmp_print_char_typed [OF pos(1)] by (auto split: prod.splits if_splits)
  have b1: "b1 = b\<lparr>last_x := move_x c ?x, last_y := if c = 10 then ?y + 10 else ?y\<rparr>"
    using typed by (simp add: typed_def)
  have b': "b' = (if uint (screen_width b) \<le> 2 * move_x c ?x + 14 then b1\<lparr>last_x := 10, last_y := last_y b1 + 10\<rparr> else b1)"
    using assms(4) wrap_test [OF moved(2,3), of b]
    unfolding bmp_print_char_typed [OF pos(1)] typed by (auto simp: b1 split: if_splits)
  show same: "same_screen b b'" by (simp add: b' b1 same_screen_def)
  show "cursor_ok b'" using moved pos by (auto simp: cursor_ok_def b' b1)
  show "only_changes (screen_range b n) m m'" by (rule typed_terminal(1) [OF assms(1-3) typed])
  have "fst (terminal b' n m') = move (uint (screen_width b)) c (?x, ?y)"
    by (auto simp: terminal_def move_def b' b1 Let_def)
  moreover have "snd (terminal b' n m') = paint c (?x, ?y) (snd (terminal b n m))"
    unfolding same_screen_simps(4) [OF same] by (rule typed_terminal(2) [OF assms(1-3) typed])
  ultimately show "terminal b' n m' = type_char (uint (screen_width b)) c (terminal b n m)"
    by (simp add: type_char_def terminal_def prod_eq_iff)
qed

text \<open>The cursor never goes up.\<close>

lemma type_text_down: "snd (fst t) \<le> snd (fst (type_text w s t))"
proof (induction s arbitrary: t)
  case (Cons c s)
  have "snd (fst t) \<le> snd (fst (type_char w c t))"
    by (auto simp: type_char_def move_def Let_def split: prod.splits)
  also have "\<dots> \<le> snd (fst (type_text w (c # s) t))" using Cons.IH by (simp add: type_text_def)
  finally show ?case .
qed (simp add: type_text_def)

lemma bmp_print_terminal:
  assumes "rows b n" and "cursor_ok b"
    and "2 * snd (fst (type_text (uint (screen_width b)) s (terminal b n m))) + 15 < int n"
    and "bmp_print s (b, m) = (b', m')"
  shows "same_screen b b' \<and> cursor_ok b' \<and> only_changes (screen_range b n) m m'
    \<and> terminal b' n m' = type_text (uint (screen_width b)) s (terminal b n m)"
  using assms
proof (induction s arbitrary: b m)
  case Nil
  then show ?case by (simp add: bmp_print_def type_text_def same_screen_def only_changes_refl)
next
  case (Cons c s)
  let ?w = "uint (screen_width b)"
  obtain b1 m1 where char: "bmp_print_char c (b, m) = (b1, m1)" by fastforce
  have "2 * last_y b + 15 < int n"
    using type_text_down [of "terminal b n m" ?w "c # s"] Cons.prems(3) by (simp add: terminal_def)
  note step = bmp_print_char_terminal [OF Cons.prems(1,2) this char]
  have w: "screen_width b1 = screen_width b" using step(1) by (simp add: same_screen_def)
  have "same_screen b1 b' \<and> cursor_ok b' \<and> only_changes (screen_range b1 n) m1 m'
      \<and> terminal b' n m' = type_text (uint (screen_width b1)) s (terminal b1 n m1)"
    using Cons.prems step(2,4) char same_screen_simps(2) [OF step(1)]
    by (intro Cons.IH) (simp_all add: w bmp_print_def type_text_def)
  then show ?case
    using step(1,3) only_changes_same [OF step(3)] same_screen_simps(3) [OF step(1)]
    by (simp add: w step(4) type_text_def same_screen_def)
qed

subsection \<open>Clearing the screen\<close>

definition blank :: "nat \<Rightarrow> nat \<Rightarrow> picture" where
  "blank w h = (\<lambda>X Y. if X < w \<and> Y < h then word_of_int BACKGROUND_COLOR else 0)"

lemma clear_loop:
  fixes v :: u64 and m :: mem and a :: addr
  assumes "take_bit 32 v = v" and "2 * k \<le> 4294967296"
  defines "m' \<equiv> fold (\<lambda>i m. store_le 8 m (a + 8 * of_nat i) (v OR push_bit 32 v)) [0..<k] m"
  shows "j < 4294967296 \<Longrightarrow> load_le 4 m' (a + of_nat (4 * j)) = (if j < 2 * k then v else load_le 4 m (a + of_nat (4 * j)))"
    and "only_changes [(a, 8 * k)] m m'"
proof -
  have addr: "a + 8 * of_nat i = a + of_nat (8 * i)" and pair: "v OR push_bit 32 v = push_bit 32 v OR v" for i
    by (simp_all add: or.commute)
  note eq = m'_def [unfolded addr pair]
  have one: "load_le 4 (store_le 8 m (a + of_nat (8 * i)) (push_bit 32 v OR v)) (a + of_nat (4 * j))
      = (if j = 2 * i \<or> j = 2 * i + 1 then v else load_le 4 m (a + of_nat (4 * j)))"
    if "2 * i < 4294967296" and "j < 4294967296" for m i j
    using pair_store [OF assms(1) that, of m a] by (simp add: mult.assoc [symmetric] del: of_nat_mult of_nat_add)
  show "load_le 4 m' (a + of_nat (4 * j)) = (if j < 2 * k then v else load_le 4 m (a + of_nat (4 * j)))"
    if "j < 4294967296"
    unfolding eq using assms(2) that
    by (induction k) (auto simp: one simp del: of_nat_mult of_nat_add)
  show "only_changes [(a, 8 * k)] m m'"
    unfolding eq store_le_def by (rule only_changes_fold, rule only_changes_part) (use assms(2) in auto)
qed

definition screen_ok :: "bmp \<Rightarrow> bool" where
  "screen_ok b \<longleftrightarrow> 34 < screen_width b \<and> screen_width b < 0x40000000 \<and> rows b (unat (screen_height b))
     \<and> even (unat (screen_width b) * unat (screen_height b))"

lemma bmp_clear_terminal:
  assumes "screen_ok b" and "bmp_clear b m = (b', m')"
  defines "h \<equiv> unat (screen_height b)"
  shows "same_screen b b' \<and> cursor_ok b' \<and> only_changes (screen_range b h) m m'
    \<and> terminal b' h m' = ((10, 10), blank (unat (screen_width b)) h)"
proof -
  let ?w = "unat (screen_width b)" and ?bg = "word_of_int BACKGROUND_COLOR :: u64"
  have ok: "?w * h < 4294967296" "even (?w * h)" "34 < uint (screen_width b)" "uint (screen_width b) < 0x40000000"
    using assms(1) by (simp_all add: screen_ok_def rows_def h_def word_less_def)
  have "unat (screen_height b * screen_width b) = ?w * h"
    using ok(1) by (simp add: unat_word_ariths h_def mult.commute)
  then have k: "unat (screen_height b * screen_width b div 2) = ?w * h div 2" by (simp add: unat_div)
  have two: "2 * (?w * h div 2) = ?w * h" "8 * (?w * h div 2) = 4 * (?w * h)" using ok(2) by presburger+
  have b': "b' = b\<lparr>last_x := 10, last_y := 10\<rparr>"
    and m': "m' = fold (\<lambda>i m. store_le 8 m (fb_addr b + 8 * of_nat i) (?bg OR push_bit 32 ?bg)) [0..<?w * h div 2] m"
    using assms(2) k by (simp_all add: bmp_clear_def Let_def)
  have bg: "take_bit 32 ?bg = ?bg" by simp
  note loop = clear_loop [OF bg, where k = "?w * h div 2" and a = "fb_addr b" and m = m, folded m']
  have "pixel b' m' X Y = ?bg" if "X < ?w" "Y < h" for X Y
    using loop(1) [of "Y * ?w + X"] index_less [OF that, of "?w * h"] ok(1) two(1) by (simp add: pixel_def b')
  then have "terminal b' h m' = ((10, 10), blank ?w h)"
    by (simp add: terminal_def blank_def b' fun_eq_iff)
  moreover have "only_changes (screen_range b h) m m'" using loop(2) ok(1) two by (simp add: screen_range_def)
  ultimately show ?thesis using ok by (simp add: b' same_screen_def cursor_ok_def)
qed

lemma fst_type_text: "fst (type_text w s t) = fold (move w) s (fst t)"
  by (induction s arbitrary: t) (simp_all add: type_text_def type_char_def split: prod.splits)

lemma rows_less: "rows b n \<Longrightarrow> n' \<le> n \<Longrightarrow> rows b n'"
  unfolding rows_def by (meson mult_le_mono2 order_le_less_trans)

lemma bmp_draw_rect_draws:
  "bmp_draw_rect b x y w h col m = draw_points b col (concat (map (\<lambda>y. map (\<lambda>x. (x, y)) [x..w - 1]) [y..h - 1])) m"
proof -
  have "fold (\<lambda>y. fold (\<lambda>x m. font_draw_pixel b x y col m) xs) ys = draw_points b col (concat (map (\<lambda>y. map (\<lambda>x. (x, y)) xs) ys))" for xs ys
    by (induction ys) (simp_all add: draw_points_def fold_map comp_def fun_eq_iff)
  then show ?thesis by (simp add: bmp_draw_rect_def)
qed

subsection \<open>On the firmware's screen\<close>

text \<open>The screen as the RK356x firmware announces it, in the shared page.\<close>

lemma bmp_setup_rk356x:
  "bmp_setup RK356X_SHARED (put_screens v m) b =
     (if active v
      then (0, b\<lparr>fb_addr := RK356X_FB_START, screen_width := ucast (hactive (video_mode v)),
             screen_height := ucast (vactive (video_mode v))\<rparr>)
      else (1, b))"
proof (cases "active v")
  case True
  let ?fields = "[(24, 4, ucast (stride v)), (20, 4, ucast (vactive (video_mode v))), (16, 4, ucast (hactive (video_mode v))),
    (8, 8, RK356X_FB_START), (0, 4, 1)] :: (nat \<times> nat \<times> u64) list"
  have m: "put_screens v m = stores (memset m RK356X_SHARED 0 0x80) RK356X_SHARED ?fields"
    by (simp add: put_screens_def True Let_def)
  have field: "load_le l (put_screens v m) (RK356X_SHARED + of_nat k) = x"
    if "stored None ?fields k l = Some x" and "k + l \<le> 28" for k l x
    unfolding m by (rule load_stores [OF that(1) _ that(2)]) simp_all
  have narrow: "take_bit 32 (ucast (x :: u16)) = (ucast x :: u64)" "(ucast (ucast x :: u64) :: u32) = ucast x" for x
  proof -
    have "take_bit 32 (unat x) = unat x" "take_bit 64 (unat x) = unat x"
      by (rule take_bit_nat_eq_self, use unsigned_less [of x, where ?'a = nat] in simp)+
    then show "take_bit 32 (ucast x) = (ucast x :: u64)" "(ucast (ucast x :: u64) :: u32) = ucast x"
      by (simp_all add: word_unat_eq_iff unsigned_take_bit_eq unsigned_ucast_eq)
  qed
  show ?thesis
    using field [of 0 4] field [of 8 8] field [of 16 4] field [of 20 4] True by (simp add: bmp_setup_def narrow)
next
  case False
  have "load_le 4 (memset m RK356X_SHARED 0 0x80) RK356X_SHARED = 0"
    using load_memset [of 0 4 128 m RK356X_SHARED] by simp
  with False show ?thesis by (simp add: bmp_setup_def put_screens_def)
qed

text \<open>The demo does not limit the line: on a cleared screen of 1080 lines the 54th line of text is
  written behind the last line of the screen.\<close>

lemma line_feeds: "type_text w (replicate k 10) ((10, y), pic) = ((10, y + 10 * int k), pic)" if "34 < w"
  using that by (induction k arbitrary: y) (simp_all add: type_text_def type_char_def move_def move_x_def paint_def Let_def)

lemma text_leaves_screen:
  assumes "screen_width b = 1920" and "screen_height b = 1080"
  shows "pixel b (snd (bmp_print (replicate 53 10 @ [0x41]) (bmp_clear b m))) 22 1080 = 0xffffff"
proof -
  obtain b1 m1 b' m' where clear: "bmp_clear b m = (b1, m1)" and print: "bmp_print (replicate 53 10 @ [0x41]) (b1, m1) = (b', m')"
    by (metis prod.collapse)
  have ok: "same_screen b b1" "cursor_ok b1" "last_x b1 = 10" "last_y b1 = 10"
    using bmp_clear_terminal [OF _ clear] assms by (simp_all add: screen_ok_def rows_def terminal_def)
  have w: "screen_width b1 = 1920" using ok(1) assms by (simp add: same_screen_def)
  obtain pic where t: "terminal b1 1100 m1 = ((10, 10), pic)" using ok(3,4) by (simp add: terminal_def)
  have typed_text: "type_text 1920 (replicate 53 10 @ [0x41]) ((10, 10), pic) = type_char 1920 0x41 ((10, 540), pic)"
    using line_feeds [of 1920 53 10 pic] by (simp add: type_text_def)
  have "terminal b' 1100 m' = type_char 1920 0x41 ((10, 540), pic)" and "same_screen b1 b'"
    using bmp_print_terminal [OF _ ok(2) _ print, of 1100] glyph_width_bounds [of "0x41"]
    by (simp_all add: w t typed_text rows_def type_char_def move_def move_x_def Let_def)
  moreover have "(1, 0) \<in> set (glyph 0x41)" by code_simp
  then have "(11, 540) \<in> set (shifted 10 540 (glyph 0x41))" by (force simp: shifted_def)
  ultimately have "snd (terminal b' 1100 m') 22 1080 = 0xffffff"
    by (simp add: type_char_def paint_def painted_def)
  with \<open>same_screen b1 b'\<close> ok(1) w show ?thesis
    by (simp add: clear print terminal_def same_screen_simps same_screen_def pixel_def)
qed

text \<open>C29. The text screen of the demo payload is the terminal of the specification: after clearing the
  screen and printing any text, the framebuffer holds exactly the dots of the characters over the
  background, the cursor is where the terminal has it, and no byte outside the framebuffer has
  changed, as long as the last line of the text is on the screen.\<close>

theorem screen_shows_text:
  assumes "screen_ok b"
    and "2 * snd (fold (move (uint (screen_width b))) s (10, 10)) + 15 < uint (screen_height b)"
  shows "case bmp_clear b m of (b1, m1) \<Rightarrow> case bmp_print s (b1, m1) of (b', m') \<Rightarrow>
      let w = unat (screen_width b); h = unat (screen_height b) in
      terminal b' h m' = type_text (uint (screen_width b)) s ((10, 10), blank w h)
      \<and> same_screen b b' \<and> cursor_ok b' \<and> only_changes [(fb_addr b, 4 * (w * h))] m m'"
proof -
  let ?h = "unat (screen_height b)"
  obtain b1 m1 b' m' where clear: "bmp_clear b m = (b1, m1)" and print: "bmp_print s (b1, m1) = (b', m')"
    by (metis prod.collapse)
  note start = bmp_clear_terminal [OF assms(1) clear]
  then have w: "screen_width b1 = screen_width b" and range: "screen_range b1 = screen_range b" "rows b1 = rows b"
    by (simp_all add: same_screen_def screen_range_def rows_def fun_eq_iff)
  have "same_screen b1 b' \<and> cursor_ok b' \<and> only_changes (screen_range b1 ?h) m1 m'
      \<and> terminal b' ?h m' = type_text (uint (screen_width b1)) s (terminal b1 ?h m1)"
    using bmp_print_terminal [OF _ _ _ print, of ?h] start assms by (simp add: w range screen_ok_def fst_type_text)
  with start show ?thesis
    by (auto simp: clear print Let_def w range same_screen_def screen_range_def elim: only_changes_same)
qed

text \<open>A line on the screen that the firmware of the RK356x boards announces.\<close>

lemma screen_shows_text_witness:
  "case bmp_setup RK356X_SHARED (put_screens \<lparr>video_mode = fixed_mode, stride = 7680, active = True\<rparr> (\<lambda>_. 0)) bmp_start of
     (status, b) \<Rightarrow> status = 0 \<and>
     (case bmp_clear b (\<lambda>_. 0) of (b1, m1) \<Rightarrow> case bmp_print (chars ''ok'') (b1, m1) of (b', m') \<Rightarrow>
        terminal b' 1080 m' = type_text 1920 (chars ''ok'') ((10, 10), blank 1920 1080)
        \<and> only_changes [(0x10000000, 8294400)] (\<lambda>_. 0) m')"
proof -
  let ?b = "bmp_start\<lparr>fb_addr := 0x10000000, screen_width := 1920, screen_height := 1080\<rparr>"
  have ok: "screen_ok ?b" by (simp add: screen_ok_def rows_def bmp_start_def)
  have cursor: "snd (fold (move 1920) (chars ''ok'') (10, 10)) = 10"
    using glyph_width_bounds [of "0x6f"] glyph_width_bounds [of "0x6b"] by (simp add: move_def move_x_def Let_def)
  show ?thesis
    using screen_shows_text [OF ok, of "chars ''ok''" "\<lambda>_. 0"] cursor
    by (simp add: bmp_setup_rk356x fixed_mode_def Let_def bmp_start_def split: prod.splits)
qed

end
