(* ===== verification/Spec2Isabelle.thy ===== *)
theory Spec2Isabelle
  imports Chainload Chainfit Fit_Local Keyboard Memmap Log Gpio Rock_Main Makeboot Firmware_Calls Rk3399_Ddr Bmp
begin

text \<open>
  A verification development for the Rockchip bare-metal firmware and the RK3568 chainloader of
  this repository. The model is translated from the C sources under src/ of the repository
  (src/chainload, src/rk356x, src/rk3588, src/rk3399, src/tools and the files beside them) and from
  the part of external/libfdt that is called. This theory imports every other one; it adds nothing
  but this overview.

  \<^bold>\<open>The programs.\<close> The repository builds five kinds of programs from shared code.

  \<^enum> The chainloader for RK3568 boards. It runs from the boot medium, stages a FIT image that is
    appended to it, checks the FIT against a policy compiled in for the board (addresses, limits,
    SHA-256 digests), copies the executable images to their places, extends the control device
    tree, lays out the TF-A parameter block, and jumps to BL31. Any failure ends in the board's
    recovery: a message, the marker for the mask ROM's download mode, and a reset.
  \<^enum> The firmware for RK356x boards. It sets up page tables, UART, DRAM layout, memory map,
    display and USB, enters a payload, and afterwards answers the payload's calls (printing, a
    character from the keyboard, memory map, framebuffer, power), one at a time.
  \<^enum> The firmware for two laptops, with an RK3588 and an RK3399, in two stages: the first sets up
    DRAM and clocks, the second the screen, and hands over to a payload like the first firmware.
  \<^enum> Host tools: making a bootable image, sending one over USB to the mask ROM, and running the
    chainloader's parser on a file.
  \<^enum> A demo payload for the firmware, which draws text into the framebuffer.

  \<^bold>\<open>How the C code is represented.\<close>

  \<^item> An integer type is a word of its width (\<open>u8\<close>, \<open>u32\<close>, \<open>u64\<close> of Prelude) and wraps as in C; \<open>int\<close> is
    the HOL type \<open>int\<close> where the code keeps it small, and conversions are written out. \<open>size_t\<close>
    lengths of the library functions are natural numbers.
  \<^item> Memory (\<open>mem\<close>) is a function from 64-bit addresses to bytes, since the code runs without an
    operating system. A structure is a record, or, where a pointer to it is passed on or its
    layout matters to somebody else, bytes at offsets of an address. Aliasing is therefore visible:
    statements about disjointness and frames (\<open>only_changes\<close>) are about addresses.
  \<^item> The hardware is an argument. A routine extends a history of events (reads and writes of
    registers, barriers, cache operations, interrupts, jumps to other programs; the latest comes
    first), and a \<open>device\<close> says for every history what the next read answers. Theorems hold for every
    device; hypotheses on it are named definitions.
  \<^item> Failure is a value: \<open>Inl\<close> of the reason, a negative \<open>int\<close>, \<open>None\<close> for \<open>NULL\<close>, as the C function
    signals it. \<open>None\<close> as the result of a routine with a history means that it never returns. The
    routines of the RK3399 return an \<open>outcome\<close>: \<open>Inl\<close> after \<open>abort\<close>, otherwise \<open>Inr\<close>.
  \<^item> Static variables are fields of one record (\<open>firmware\<close> in Board, \<open>ohci_driver\<close> in Ohci); a function
    that changes them takes and returns the record.
  \<^item> What the sources do not determine is an argument: the addresses chosen by the linker and the
    stack (\<open>env\<close>), uninitialised stack buffers, the generated board_config.h (the data fields of
    \<open>ChainPlatform\<close>), the compiled device trees, the files and libusb of the host tools.

  \<^bold>\<open>Theories shared by the programs.\<close>

  \<^item> Prelude: words, memory, frames, stores; the collection \<open>mem_simps\<close> of reads after writes.
  \<^item> Clib: string and memory functions of src/lib.c and src/chainload/compat.c.
  \<^item> Mmio: events, devices, register access, delays (src/lib.c). Progress: \<open>runs\<close>, \<open>proceeds\<close> and
    \<open>grows\<close>, the rules from which termination of longer routines is composed.
  \<^item> Console: src/pl011.c and the printing functions of src/lib.c.
  \<^item> Mmu: src/mmu.c, with \<open>translate\<close>, the processor's table walk. Page_Tables: the two shapes of
    identity tables that the programs build.

  \<^bold>\<open>The chainloader.\<close>

  \<^item> Sha256 (sha256.c): the streaming context, the specification \<open>sha256_spec\<close> after FIPS 180-4, the
    locale \<open>stream_hash\<close> for hashing in pieces, interpreted on the code's functions.
  \<^item> Libfdt, Libfdt_Facts, Libfdt_Local (fdt.c, fdt_ro.c): the readers; results lie inside the blob
    and depend on nothing outside it. Libfdt_Rw, Libfdt_Rw_Facts (fdt_rw.c, fdt.c): the writers and
    their frame. They are over any bytes, well-formed or not, except where a theorem says so.
  \<^item> Fit, Fit_Parse, Fit_Local, Fit_Load (fit.c): \<open>chain_fit_parse\<close> and \<open>chain_fit_load\<close>; the
    specification \<open>plan_accepted\<close> of a safe plan, and that only such plans are accepted.
  \<^item> Tfa (tf_a.c): the parameter block and reading it back through its pointers.
  \<^item> Rk3568 (chainload/rk3568.c): UART, page tables, preparation for BL31, boot source, recovery.
  \<^item> Chainload (loader.c, \<open>c_entry\<close> of rk3568.c): the composition. The safety theorem follows an image
    from its digest in the FIT to its bytes at the load address; the liveness theorem says that
    every run ends in BL31 or in the recovery.

  \<^bold>\<open>The RK356x firmware.\<close>

  \<^item> Pmugrf (pmugrf_dram.c), Dram (dram.c), Memmap (memory_map.c): the size of the DRAM, its banks, and the
    map for the payload, each with a specification (ranks, sorted disjoint banks, an attribute for
    every address).
  \<^item> Log (log.c), Gpio (gpio.c), Rk356x (io.c, cru.c, sgrf.c): small drivers and page tables.
  \<^item> Input (input.c): the ring buffer; the locale \<open>bounded_queue\<close> is its contract, interpreted on
    the ring as \<open>input_queue\<close>. Keyboard (hid_keyboard.c) uses the contract only.
  \<^item> Ohci, Ohci_Safe, Ohci_Live (ohci.c): the USB driver as a state machine; \<open>ohci_reachable\<close> interleaves
    its operations with arbitrary writes of the controller to the shared memory.
  \<^item> Display (hdmi.c, vop2.c, cru.c): power, PLL, PHY, scan-out, framebuffer.
  \<^item> Board (roc3566.c, rock3a.c, yy3568.c, rk356x/board.c, rk356x/usb.c), Firmware (firmware.c): entry,
    hand-over and calls. Firmware_Live: the entry reaches the payload, every driver included.
    Firmware_Calls: the inductive \<open>session\<close> of a payload that writes where it may, USB hardware that
    writes its block, and calls; the invariant over all sessions; the abstract answer of each call.

  \<^bold>\<open>The laptops.\<close>

  \<^item> Soc: what the drivers share. Rk3588 (rk3588/*.c, opi5.c), Rk3588_Display (vop2.c, video.c), Edp
    (analogix_edp.c), Rk3399 (rk3399/*.c): the drivers.
  \<^item> Laptops (genbook.c, pinebook.c): the entries up to the hand-over and the payload's calls.
  \<^item> Ddr_Trace, Rk3399_Ddr (ddr-4gb-lpddr4.c, pinebook-ddr.c): the recorded register accesses of the DRAM
    set-up as data, an interpreter with one case per kind of statement, and what all of it writes.

  \<^bold>\<open>The host tools.\<close>

  \<^item> Bootrom (tools/main.h): CRC-16 and RC4. Rock, Rock_Main (tools/rock.c): sending a file, and the
    whole command. Makeboot (tools/makeboot.c): images for both mask ROMs, decoding them, the command.
    Chainfit (tools/chainfit.c): the checker, \<open>strtoull\<close> included, which runs the model of fit.c.

  \<^bold>\<open>The demo payload.\<close> Font (demo/font.h) is the bitmap font, Bmp (demo/bmp.c) the text screen on the
  framebuffer that the firmware announces. The specification is a terminal with a cursor and a
  picture; the code refines it as long as the text ends on the screen, and a lemma shows where
  the text goes when it does not.

  \<^bold>\<open>Assumptions on the hardware and the placement.\<close> \<open>timer_runs\<close>: the processor's timer passes every
  bound if it is read often enough; \<open>timer0_runs\<close>, \<open>timer0_goes_on\<close>: the same for a timer of the RK3399;
  \<open>uart_ready\<close>: the transmitter gets ready when its status is read; \<open>pctl_gets_ready\<close>: so does the DDR
  controller. \<open>env_ok\<close>, \<open>well_placed\<close>, \<open>board_ok\<close>, \<open>board_fits\<close> and \<open>ranges_ok\<close> say that images, stack and
  tables do not overlap and that a board's numbers are in range; they have instances in the
  witnesses, with the numbers of a board of the repository where there is such a file.

  \<^bold>\<open>Loops and bounds.\<close> No routine has fuel. A loop over data is structural or has a measure: the
  length of what is left, the distance of an offset to the end of the blob (an offset is below \<open>2 ^ 31\<close>),
  the address space for \<open>strlen\<close> (which without a terminator in \<open>2 ^ 64\<close> bytes is given its length),
  1001 for the lock of a PLL, the timeout of a bounded wait. A loop that waits for the hardware,
  or divides by an argument that may be 0 or 1, is a \<open>partial_function (option)\<close>, so that not
  returning is \<open>None\<close>; for each there is a lemma that it returns under the assumptions above, and the
  liveness properties rest on these. The one call that does hang, printing an unknown function
  code with 32 low zero bits, is a property of its own.

  \<^bold>\<open>Behaviour where C has none.\<close> Accesses outside an object of the code's own are kept visible:
  \<open>itoa\<close> and \<open>print_bits\<close> write in front of their buffers (negative indices), \<open>print_bits\<close> shifts by a
  negative amount (\<open>None\<close>), and the decoder of makeboot reads behind its header (\<open>Undefined\<close>). Where
  the compiler may reorder or merge accesses to non-volatile device pointers (the RK3399 timer,
  \<open>regcpy\<close>) the model follows the program text.

  \<^bold>\<open>Not modelled.\<close>

  \<^item> Assembly (asm.S, boot.S, loader.S, vectors.S, handoff.S): machine code between the modelled C
    functions. A jump or an exception return is an outcome; a system register write or a barrier
    is an event.
  \<^item> The hand-over of the laptops: \<open>jump_to_payload\<close> and \<open>process_firmware_call\<close> are modelled over the
    state of the RK356x firmware only; the laptop entries end where they call it, and their own
    tables of calls are modelled completely.
  \<^item> The driver of the RK3588 HDMI/DP PHY (external/samsung_phy_edp.c) is vendored; \<open>hdptx\<close> stands for what
    its calls do to the history. rk3588/hdptx.c is not linked. \<open>enable_biu\<close>, \<open>blink_loop\<close>,
    \<open>set_layer_port\<close> and the unfinished rk3399/mmc.c are not called by anything.
  \<^item> The parts of libfdt that no source calls: phandles, compatible strings, \<open>fdt_get_path\<close>, deletion,
    packing, sequential write, overlays, error strings.
  \<^item> The main program of the demo payload (demo/main.c): calls, prints and an echo loop, which are
    covered as a payload's session; device tree sources and scripts, which are not C; what the host
    tools print.
\<close>

end
